(* ===== verification/Prelude.thy ===== *)
theory Prelude
  imports Main "HOL-Library.AList" "HOL-Library.Sublist" "HOL-Library.Code_Target_Nat"
begin

text \<open>
  Shared ground of the development: Python text as lists of code points and the
  string operations the sources use, dictionaries as association lists in insertion
  order, the lemma collections of the development, and the outcome type for code that
  may raise.

  A Python \<open>str\<close> is the list of its code points, so that \<open>length\<close> counts what
  \<open>len\<close> counts and the surrogate escapes of the SSH channel are ordinary elements.
  A literal is written \<open>lit ''...''\<close>. Case mapping (\<open>lower\<close>) and digit tests are exact
  for Latin-1 and for the two other code points whose lower case contains an ASCII
  letter; other code points are left unchanged.
\<close>

named_theorems pystr "facts about Python string operations"
named_theorems dict "facts about dictionaries in insertion order"
named_theorems session_simps "how the session operations change each field"
named_theorems pres "preservation of a session invariant by an operation"

section \<open>Text\<close>

type_synonym str = "nat list"

definition lit :: "string \<Rightarrow> str" where
  "lit s = map of_char s"

lemma lit_Nil [simp]: "lit [] = []"
  by (simp add: lit_def)

lemma lit_Cons: "lit (c # s) = of_char c # lit s"
  by (simp add: lit_def)

lemma lit_append: "lit (s @ t) = lit s @ lit t"
  by (simp add: lit_def)

lemma length_lit [simp]: "length (lit s) = length s"
  by (simp add: lit_def)

lemma lit_eq_Nil_iff [simp]: "lit s = [] \<longleftrightarrow> s = []"
  by (simp add: lit_def)

lemma lit_inject [simp]: "lit s = lit t \<longleftrightarrow> s = t"
  by (simp add: lit_def inj_map_eq_map [OF inj_of_char])

lemma of_char_less_256: "of_char c < (256 :: nat)"
  using nat_of_char_less_256 [of c] by simp

lemma lit_code_points: "x \<in> set (lit s) \<Longrightarrow> x < 256"
  using of_char_less_256 by (auto simp: lit_def)

abbreviation (input) tab :: nat where "tab \<equiv> 9"
abbreviation (input) newline :: nat where "newline \<equiv> 10"
abbreviation (input) carriage :: nat where "carriage \<equiv> 13"
abbreviation (input) space :: nat where "space \<equiv> 32"
abbreviation (input) dquote :: nat where "dquote \<equiv> 34"
abbreviation (input) percent :: nat where "percent \<equiv> 37"
abbreviation (input) ampersand :: nat where "ampersand \<equiv> 38"
abbreviation (input) squote :: nat where "squote \<equiv> 39"
abbreviation (input) plus :: nat where "plus \<equiv> 43"
abbreviation (input) comma :: nat where "comma \<equiv> 44"
abbreviation (input) dash :: nat where "dash \<equiv> 45"
abbreviation (input) dot :: nat where "dot \<equiv> 46"
abbreviation (input) slash :: nat where "slash \<equiv> 47"
abbreviation (input) colon :: nat where "colon \<equiv> 58"
abbreviation (input) less_than :: nat where "less_than \<equiv> 60"
abbreviation (input) equals_sign :: nat where "equals_sign \<equiv> 61"
abbreviation (input) greater_than :: nat where "greater_than \<equiv> 62"
abbreviation (input) question :: nat where "question \<equiv> 63"
abbreviation (input) at_sign :: nat where "at_sign \<equiv> 64"
abbreviation (input) lbracket :: nat where "lbracket \<equiv> 91"
abbreviation (input) bslash :: nat where "bslash \<equiv> 92"
abbreviation (input) rbracket :: nat where "rbracket \<equiv> 93"
abbreviation (input) underscore :: nat where "underscore \<equiv> 95"

subsection \<open>Character classes\<close>

text \<open>\<open>str.isspace\<close> for one character: the full Unicode list.\<close>

definition is_space :: "nat \<Rightarrow> bool" where
  "is_space c \<longleftrightarrow> (9 \<le> c \<and> c \<le> 13) \<or> (28 \<le> c \<and> c \<le> 32) \<or> c = 0x85 \<or> c = 0xA0 \<or> c = 0x1680
     \<or> (0x2000 \<le> c \<and> c \<le> 0x200A) \<or> c = 0x2028 \<or> c = 0x2029 \<or> c = 0x202F \<or> c = 0x205F \<or> c = 0x3000"

text \<open>The line boundaries of \<open>str.splitlines\<close>.\<close>

definition is_linebreak :: "nat \<Rightarrow> bool" where
  "is_linebreak c \<longleftrightarrow> (10 \<le> c \<and> c \<le> 13) \<or> (28 \<le> c \<and> c \<le> 30) \<or> c = 0x85 \<or> c = 0x2028 \<or> c = 0x2029"

definition is_decimal :: "nat \<Rightarrow> bool" where
  "is_decimal c \<longleftrightarrow> 48 \<le> c \<and> c \<le> 57"

text \<open>\<open>str.isdigit\<close> also accepts the superscript digits.\<close>

definition is_digit_char :: "nat \<Rightarrow> bool" where
  "is_digit_char c \<longleftrightarrow> is_decimal c \<or> c = 0xB2 \<or> c = 0xB3 \<or> c = 0xB9"

definition isdigit :: "str \<Rightarrow> bool" where
  "isdigit s \<longleftrightarrow> s \<noteq> [] \<and> list_all is_digit_char s"

definition is_ascii_letter :: "nat \<Rightarrow> bool" where
  "is_ascii_letter c \<longleftrightarrow> (65 \<le> c \<and> c \<le> 90) \<or> (97 \<le> c \<and> c \<le> 122)"

definition is_ascii_alnum :: "nat \<Rightarrow> bool" where
  "is_ascii_alnum c \<longleftrightarrow> is_ascii_letter c \<or> is_decimal c"

text \<open>\<open>str.lower\<close>: Latin-1, the Kelvin sign and the dotted capital I.\<close>

definition lower_char :: "nat \<Rightarrow> str" where
  "lower_char c =
     (if 65 \<le> c \<and> c \<le> 90 then [c + 32]
      else if 0xC0 \<le> c \<and> c \<le> 0xDE \<and> c \<noteq> 0xD7 then [c + 32]
      else if c = 0x212A then [107]
      else if c = 0x130 then [105, 0x307]
      else [c])"

definition lower :: "str \<Rightarrow> str" where
  "lower s = concat (map lower_char s)"

subsection \<open>Prefixes, searching, stripping\<close>

definition startswith :: "str \<Rightarrow> str \<Rightarrow> bool" where
  "startswith s p \<longleftrightarrow> take (length p) s = p"

definition endswith :: "str \<Rightarrow> str \<Rightarrow> bool" where
  "endswith s p \<longleftrightarrow> length p \<le> length s \<and> drop (length s - length p) s = p"

text \<open>\<open>p in s\<close> for strings.\<close>

fun contains :: "str \<Rightarrow> str \<Rightarrow> bool" where
  "contains [] p = (p = [])"
| "contains (c # s) p = (startswith (c # s) p \<or> contains s p)"

definition lstrip_if :: "(nat \<Rightarrow> bool) \<Rightarrow> str \<Rightarrow> str" where
  "lstrip_if f s = dropWhile f s"

definition rstrip_if :: "(nat \<Rightarrow> bool) \<Rightarrow> str \<Rightarrow> str" where
  "rstrip_if f s = rev (dropWhile f (rev s))"

definition strip_if :: "(nat \<Rightarrow> bool) \<Rightarrow> str \<Rightarrow> str" where
  "strip_if f s = rstrip_if f (lstrip_if f s)"

definition strip :: "str \<Rightarrow> str" where
  "strip s = strip_if is_space s"

text \<open>\<open>s.removesuffix(p)\<close>.\<close>

definition removesuffix :: "str \<Rightarrow> str \<Rightarrow> str" where
  "removesuffix s p = (if p \<noteq> [] \<and> endswith s p then take (length s - length p) s else s)"

subsection \<open>Splitting and joining\<close>

text \<open>\<open>s.split(c)\<close> for a one-character separator.\<close>

fun split_on :: "nat \<Rightarrow> str \<Rightarrow> str list" where
  "split_on c [] = [[]]"
| "split_on c (x # xs) =
     (if x = c then [] # split_on c xs
      else case split_on c xs of [] \<Rightarrow> [[x]] | p # ps \<Rightarrow> (x # p) # ps)"

text \<open>\<open>s.split(c, 1)\<close> and \<open>s.partition(c)\<close>: the text before the first separator and,
  when there is one, the text after it.\<close>

fun partition_at :: "nat \<Rightarrow> str \<Rightarrow> str \<times> str option" where
  "partition_at c [] = ([], None)"
| "partition_at c (x # xs) =
     (if x = c then ([], Some xs) else (case partition_at c xs of (b, a) \<Rightarrow> (x # b, a)))"

text \<open>\<open>s.split()\<close>: the maximal runs of non-space characters.\<close>

fun split_words_acc :: "str \<Rightarrow> str \<Rightarrow> str list" where
  "split_words_acc w [] = (if w = [] then [] else [w])"
| "split_words_acc w (c # s) =
     (if is_space c then (if w = [] then split_words_acc [] s else w # split_words_acc [] s)
      else split_words_acc (w @ [c]) s)"

definition split_words :: "str \<Rightarrow> str list" where
  "split_words s = split_words_acc [] s"

text \<open>\<open>s.splitlines(keepends=True)\<close>; a carriage return and a newline together are one boundary.\<close>

fun split_lines_keep_acc :: "str \<Rightarrow> str \<Rightarrow> str list" where
  "split_lines_keep_acc w [] = (if w = [] then [] else [w])"
| "split_lines_keep_acc w (c # s) =
     (if c = carriage \<and> s \<noteq> [] \<and> hd s = newline then split_lines_keep_acc (w @ [c]) s
      else if is_linebreak c then (w @ [c]) # split_lines_keep_acc [] s
      else split_lines_keep_acc (w @ [c]) s)"

definition split_lines_keep :: "str \<Rightarrow> str list" where
  "split_lines_keep s = split_lines_keep_acc [] s"

text \<open>\<open>s.splitlines()\<close>: the same lines without their boundaries.\<close>

definition split_lines :: "str \<Rightarrow> str list" where
  "split_lines s =
     map (\<lambda>l. if endswith l [carriage, newline] then take (length l - 2) l
              else if l \<noteq> [] \<and> is_linebreak (last l) then butlast l else l) (split_lines_keep s)"

fun join :: "str \<Rightarrow> str list \<Rightarrow> str" where
  "join sep [] = []"
| "join sep [x] = x"
| "join sep (x # y # zs) = x @ sep @ join sep (y # zs)"

text \<open>\<open>s.replace(old, new)\<close>, left to right, for a non-empty \<open>old\<close>.\<close>

fun replace_fuel :: "nat \<Rightarrow> str \<Rightarrow> str \<Rightarrow> str \<Rightarrow> str" where
  "replace_fuel 0 old new s = s"
| "replace_fuel (Suc n) old new s =
     (case s of [] \<Rightarrow> []
      | c # cs \<Rightarrow> if startswith s old then new @ replace_fuel n old new (drop (length old) s)
                  else c # replace_fuel n old new cs)"

definition replace_str :: "str \<Rightarrow> str \<Rightarrow> str \<Rightarrow> str" where
  "replace_str old new s = replace_fuel (length s) old new s"

subsection \<open>Numbers as text\<close>

fun digits_of :: "nat \<Rightarrow> str" where
  "digits_of n = (if n < 10 then [48 + n] else digits_of (n div 10) @ [48 + n mod 10])"

declare digits_of.simps [simp del]

definition str_of_nat :: "nat \<Rightarrow> str" where
  "str_of_nat n = digits_of n"

definition str_of_int :: "int \<Rightarrow> str" where
  "str_of_int i = (if i < 0 then dash # digits_of (nat (- i)) else digits_of (nat i))"

definition pad_left :: "nat \<Rightarrow> str \<Rightarrow> str" where
  "pad_left n s = replicate (n - length s) space @ s"

definition pad_right :: "nat \<Rightarrow> str \<Rightarrow> str" where
  "pad_right n s = s @ replicate (n - length s) space"

definition digit_value :: "nat \<Rightarrow> nat" where
  "digit_value c = (if is_decimal c then c - 48 else if 97 \<le> c then c - 87 else c - 55)"

definition nat_of_digits :: "nat \<Rightarrow> str \<Rightarrow> nat" where
  "nat_of_digits base s = foldl (\<lambda>n c. n * base + digit_value c) 0 s"

text \<open>
  \<open>int(s)\<close> for a text: spaces around it, one sign, decimal digits with single
  underscores between them, at most 4300 digits; \<open>None\<close> stands for \<open>ValueError\<close>.
\<close>

fun digits_with_underscores :: "str \<Rightarrow> bool" where
  "digits_with_underscores [] = False"
| "digits_with_underscores [c] = is_decimal c"
| "digits_with_underscores (c # d # s) =
     (is_decimal c \<and> (if d = underscore then digits_with_underscores s
                       else digits_with_underscores (d # s)))"

definition int_of_str :: "str \<Rightarrow> int option" where
  "int_of_str t =
     (let s = strip t;
          negative = (s \<noteq> [] \<and> hd s = dash);
          body = (if s \<noteq> [] \<and> (hd s = dash \<or> hd s = plus) then tl s else s);
          ds = filter is_decimal body
      in if digits_with_underscores body \<and> length ds \<le> 4300
         then Some (if negative then - int (nat_of_digits 10 ds) else int (nat_of_digits 10 ds))
         else None)"

section \<open>Dictionaries in insertion order\<close>

text \<open>
  A \<open>dict\<close> whose iteration order matters is an association list with distinct keys:
  \<open>AList.update\<close> keeps the position of a key that is already there and appends a new
  one, as Python does. A \<open>set\<close> is a list without duplicates (\<open>List.insert\<close>,
  \<open>filter\<close>); no result depends on its order.
\<close>

definition dict_keys :: "('k \<times> 'v) list \<Rightarrow> 'k list" where
  "dict_keys d = map fst d"

definition dict_get :: "('k \<times> 'v) list \<Rightarrow> 'k \<Rightarrow> 'v option" where
  "dict_get d k = map_of d k"

definition dict_put :: "'k \<Rightarrow> 'v \<Rightarrow> ('k \<times> 'v) list \<Rightarrow> ('k \<times> 'v) list" where
  "dict_put k v d = AList.update k v d"

definition dict_has :: "('k \<times> 'v) list \<Rightarrow> 'k \<Rightarrow> bool" where
  "dict_has d k \<longleftrightarrow> dict_get d k \<noteq> None"

text \<open>A dict display or comprehension: later entries win, the first position is kept.\<close>

definition dict_of :: "('k \<times> 'v) list \<Rightarrow> ('k \<times> 'v) list" where
  "dict_of kvs = fold (\<lambda>(k, v). dict_put k v) kvs []"

lemma dict_get_put [simp, dict]: "dict_get (dict_put k v d) k' = (if k' = k then Some v else dict_get d k')"
  by (simp add: dict_get_def dict_put_def update_conv)

lemma dict_get_Nil [simp]: "dict_get [] k = None"
  by (simp add: dict_get_def)

lemma dict_has_put [simp, dict]: "dict_has (dict_put k v d) k' \<longleftrightarrow> k' = k \<or> dict_has d k'"
  by (simp add: dict_has_def)

lemma set_keys_put [simp, dict]: "set (dict_keys (dict_put k v d)) = insert k (set (dict_keys d))"
proof -
  have "set (map fst (AList.update k v d)) = insert k (set (map fst d))"
    by (induction d) auto
  then show ?thesis by (simp add: dict_keys_def dict_put_def)
qed

lemma dict_has_iff [dict]: "dict_has d k \<longleftrightarrow> k \<in> set (dict_keys d)"
  by (auto simp: dict_has_def dict_get_def dict_keys_def map_of_eq_None_iff)

lemma dict_get_None_iff [dict]: "dict_get d k = None \<longleftrightarrow> k \<notin> set (dict_keys d)"
  by (simp add: dict_get_def dict_keys_def map_of_eq_None_iff)

lemma dict_get_SomeD [dict]: "dict_get d k = Some v \<Longrightarrow> k \<in> set (dict_keys d)"
  using dict_get_None_iff [of d k] by simp

lemma distinct_keys_put [simp, dict]: "distinct (dict_keys d) \<Longrightarrow> distinct (dict_keys (dict_put k v d))"
  by (simp add: dict_keys_def dict_put_def distinct_update)

lemma dict_get_filter [dict]:
  "dict_get (filter (\<lambda>kv. P (fst kv)) d) k = (if P k then dict_get d k else None)"
  by (induction d) (auto simp: dict_get_def)

lemma dict_keys_filter [dict]: "dict_keys (filter (\<lambda>kv. P (fst kv)) d) = filter P (dict_keys d)"
  by (simp add: dict_keys_def filter_map o_def)

lemma distinct_keys_filter [dict]: "distinct (dict_keys d) \<Longrightarrow> distinct (dict_keys (filter P d))"
  by (simp add: dict_keys_def distinct_map_filter)

lemma fold_dict_put_keys:
  "set (dict_keys (fold (\<lambda>(k, v). dict_put k v) kvs d)) = set (map fst kvs) \<union> set (dict_keys d)"
  by (induction kvs arbitrary: d) auto

lemma dict_of_keys [dict]: "set (dict_keys (dict_of kvs)) = set (map fst kvs)"
  by (simp add: dict_of_def fold_dict_put_keys) (simp add: dict_keys_def)

lemma fold_dict_put_distinct:
  "distinct (dict_keys d) \<Longrightarrow> distinct (dict_keys (fold (\<lambda>(k, v). dict_put k v) kvs d))"
  by (induction kvs arbitrary: d) auto

lemma dict_of_distinct [dict]: "distinct (dict_keys (dict_of kvs))"
  by (simp add: dict_of_def) (rule fold_dict_put_distinct, simp add: dict_keys_def)

section \<open>Outcomes\<close>

text \<open>
  The result of code that may raise an exception the surrounding code does not catch.
\<close>

datatype exn =
    ValueError str
  | UnicodeEncodeError
  | RuntimeError str
  | TypeError

datatype 'a outcome = Done 'a | Raised exn

section \<open>Facts about strings\<close>

lemma startswith_append [simp, pystr]: "startswith (p @ s) p"
  by (simp add: startswith_def)

lemma startswith_Nil [simp, pystr]: "startswith s []"
  by (simp add: startswith_def)

lemma startswith_iff_prefix [pystr]: "startswith s p \<longleftrightarrow> prefix p s"
  by (metis append_take_drop_id prefix_def startswith_append startswith_def)

lemma endswith_append [simp, pystr]: "endswith (s @ p) p"
  by (simp add: endswith_def)

lemma endswith_iff_suffix [pystr]: "endswith s p \<longleftrightarrow> suffix p s"
proof
  assume "endswith s p"
  then show "suffix p s" by (metis endswith_def suffix_drop)
next
  assume "suffix p s"
  then show "endswith s p" by (auto simp: suffix_def)
qed

lemma removesuffix_append [simp, pystr]: "removesuffix (s @ p) p = s"
  by (simp add: removesuffix_def)

lemma split_on_nonempty [simp, pystr]: "split_on c s \<noteq> []"
  by (induction s) (auto split: list.splits)

lemma split_on_parts [pystr]: "p \<in> set (split_on c s) \<Longrightarrow> c \<notin> set p"
proof (induction s arbitrary: p)
  case Nil
  then show ?case by simp
next
  case (Cons x xs)
  then show ?case
    by (cases "split_on c xs") (auto split: if_splits)
qed

lemma join_Cons [pystr]: "ys \<noteq> [] \<Longrightarrow> join sep (x # ys) = x @ sep @ join sep ys"
  by (cases ys) auto

lemma join_split_on [simp, pystr]: "join [c] (split_on c s) = s"
proof (induction s)
  case Nil
  then show ?case by simp
next
  case (Cons x xs)
  show ?case
  proof (cases "x = c")
    case True
    then show ?thesis using Cons by (simp add: join_Cons)
  next
    case False
    then show ?thesis using Cons
      by (cases "split_on c xs"; cases "tl (split_on c xs)") (auto simp: join_Cons)
  qed
qed

lemma split_on_simple [pystr]: "c \<notin> set s \<Longrightarrow> split_on c s = [s]"
  by (induction s) auto

lemma split_on_append [pystr]: "c \<notin> set s \<Longrightarrow> split_on c (s @ c # t) = s # split_on c t"
  by (induction s) auto

lemma split_on_join [pystr]:
  "ps \<noteq> [] \<Longrightarrow> (\<And>p. p \<in> set ps \<Longrightarrow> c \<notin> set p) \<Longrightarrow> split_on c (join [c] ps) = ps"
proof (induction ps rule: induct_list012)
  case 1
  then show ?case by simp
next
  case (2 x)
  then show ?case by (simp add: split_on_simple)
next
  case (3 x y zs)
  then show ?case by (simp add: split_on_append)
qed

lemma set_rstrip_if [pystr]: "set (rstrip_if f s) \<subseteq> set s"
  using set_dropWhileD [of _ f "rev s"] by (auto simp: rstrip_if_def)

lemma set_strip_if [pystr]: "set (strip_if f s) \<subseteq> set s"
  using set_rstrip_if [of f "lstrip_if f s"] set_dropWhileD [of _ f s]
  by (auto simp: strip_if_def lstrip_if_def)

lemma set_strip [pystr]: "set (strip s) \<subseteq> set s"
  by (simp add: strip_def set_strip_if)

lemma strip_if_outer:
  "strip_if f s = [] \<or> (\<not> f (hd (strip_if f s)) \<and> \<not> f (last (strip_if f s)))"
proof (cases "strip_if f s = []")
  case False
  let ?l = "dropWhile f s"
  have ne: "dropWhile f (rev ?l) \<noteq> []"
    using False unfolding strip_if_def rstrip_if_def lstrip_if_def by (metis rev.simps(1))
  then have nl: "?l \<noteq> []" by (metis dropWhile.simps(1) rev.simps(1))
  have last: "\<not> f (last (strip_if f s))"
    using hd_dropWhile [OF ne] ne
    by (simp add: strip_if_def rstrip_if_def lstrip_if_def last_rev)
  obtain ys where "rev ?l = ys @ dropWhile f (rev ?l)"
    by (metis takeWhile_dropWhile_id)
  then have split: "?l = rev (dropWhile f (rev ?l)) @ rev ys"
    by (metis rev_append rev_rev_ident)
  then have "hd ?l = hd (strip_if f s)"
    using ne by (metis hd_append2 lstrip_if_def rev_is_Nil_conv rstrip_if_def strip_if_def)
  then have "\<not> f (hd (strip_if f s))"
    using hd_dropWhile [OF nl] by simp
  with last show ?thesis by simp
qed simp

lemma strip_idem [simp, pystr]: "strip (strip s) = strip s"
proof (cases "strip s = []")
  case True
  show ?thesis unfolding True by (simp add: strip_def strip_if_def rstrip_if_def lstrip_if_def)
next
  case False
  let ?t = "strip s"
  have out: "\<not> is_space (hd ?t)" "\<not> is_space (last ?t)"
    using strip_if_outer [of is_space s] False by (auto simp: strip_def)
  have l: "dropWhile is_space ?t = ?t"
    using False out(1) by (cases ?t) auto
  have r: "dropWhile is_space (rev ?t) = rev ?t"
    using False out(2) by (cases "rev ?t") (auto simp: hd_rev [symmetric])
  show ?thesis
    by (subst strip_def) (simp add: strip_if_def rstrip_if_def lstrip_if_def l r)
qed

end
