(* ===== verification/Paths.thy ===== *)
theory Paths
  imports Prelude
begin

text \<open>
  \<open>PurePosixPath\<close> of Python's \<open>pathlib\<close>, as far as the sources use it: parsing into a
  root and components, \<open>parts\<close>, \<open>name\<close>, \<open>parent\<close>, \<open>str\<close> and \<open>relative_to\<close>. A path
  that starts with exactly two slashes has the root \<open>//\<close>, which POSIX leaves to the
  implementation and \<open>pathlib\<close> keeps apart from \<open>/\<close>.
\<close>

type_synonym pure_path = "str \<times> str list"

definition path_root :: "str \<Rightarrow> str" where
  "path_root s =
     (if startswith s [slash, slash] \<and> \<not> startswith s [slash, slash, slash] then [slash, slash]
      else if startswith s [slash] then [slash] else [])"

definition pure_path :: "str \<Rightarrow> pure_path" where
  "pure_path s = (path_root s, filter (\<lambda>p. p \<noteq> [] \<and> p \<noteq> [dot]) (split_on slash s))"

definition path_parts :: "pure_path \<Rightarrow> str list" where
  "path_parts p = (if fst p = [] then snd p else fst p # snd p)"

definition path_name :: "pure_path \<Rightarrow> str" where
  "path_name p = (if snd p = [] then [] else last (snd p))"

definition path_parent :: "pure_path \<Rightarrow> pure_path" where
  "path_parent p = (fst p, butlast (snd p))"

definition path_str :: "pure_path \<Rightarrow> str" where
  "path_str p = (if fst p = [] \<and> snd p = [] then [dot] else fst p @ join [slash] (snd p))"

text \<open>\<open>p.relative_to(q)\<close> succeeds, instead of raising \<open>ValueError\<close>.\<close>

definition is_relative_to :: "pure_path \<Rightarrow> pure_path \<Rightarrow> bool" where
  "is_relative_to p q \<longleftrightarrow> prefix (path_parts q) (path_parts p)"

section \<open>Absolute paths in normal form\<close>

text \<open>A component as it appears between slashes.\<close>

definition is_component :: "str \<Rightarrow> bool" where
  "is_component p \<longleftrightarrow> p \<noteq> [] \<and> slash \<notin> set p"

definition abs_path :: "str list \<Rightarrow> str" where
  "abs_path ps = slash # join [slash] ps"

definition components :: "str \<Rightarrow> str list" where
  "components s = filter (\<lambda>p. p \<noteq> []) (split_on slash s)"

lemma startswith_abs_path [simp]: "startswith (abs_path ps) [slash]"
  by (simp add: abs_path_def startswith_def)

lemma components_abs_path:
  "list_all is_component ps \<Longrightarrow> components (abs_path ps) = ps"
proof (cases "ps = []")
  case True
  then show ?thesis by (simp add: components_def abs_path_def)
next
  case False
  assume ps: "list_all is_component ps"
  then have "split_on slash (join [slash] ps) = ps"
    using False by (intro split_on_join) (auto simp: list_all_iff is_component_def)
  moreover have "filter (\<lambda>p. p \<noteq> []) ps = ps"
    using ps by (intro filter_True) (auto simp: list_all_iff is_component_def)
  ultimately show ?thesis by (simp add: components_def abs_path_def)
qed

lemma components_are_components: "list_all is_component (components s)"
  using split_on_parts by (auto simp: components_def list_all_iff is_component_def)

lemma abs_path_inject:
  "list_all is_component ps \<Longrightarrow> list_all is_component qs \<Longrightarrow> abs_path ps = abs_path qs \<longleftrightarrow> ps = qs"
  using components_abs_path by metis

text \<open>Extending a directory path by one component, as the sources build paths.\<close>

lemma abs_path_snoc: "abs_path (ps @ [p]) = (if ps = [] then slash # p else abs_path ps @ slash # p)"
proof -
  have "ps \<noteq> [] \<Longrightarrow> join [slash] (ps @ [p]) = join [slash] ps @ slash # p"
    by (induction ps rule: induct_list012) auto
  then show ?thesis by (simp add: abs_path_def)
qed

lemma abs_path_not_root: "p \<noteq> [] \<Longrightarrow> list_all is_component ps \<Longrightarrow> ps \<noteq> [] \<Longrightarrow> abs_path ps \<noteq> [slash]"
  by (cases ps; cases "tl ps") (auto simp: abs_path_def is_component_def)

lemma abs_path_eq_root_iff:
  "list_all is_component ps \<Longrightarrow> abs_path ps = [slash] \<longleftrightarrow> ps = []"
  by (cases ps; cases "tl ps") (auto simp: abs_path_def is_component_def)

lemma abs_path_Nil [simp]: "abs_path [] = [slash]"
  by (simp add: abs_path_def)

lemma is_component_hd: "is_component p \<Longrightarrow> hd p \<noteq> slash"
  by (cases p) (auto simp: is_component_def)

lemma path_root_abs_path:
  assumes "list_all is_component ps"
  shows "path_root (abs_path ps) = [slash]"
proof (cases ps)
  case Nil
  then show ?thesis by (simp add: path_root_def startswith_def)
next
  case (Cons p qs)
  then obtain c p' where "p = c # p'" "c \<noteq> slash"
    using assms by (cases p) (auto simp: is_component_def)
  then have "\<exists>t. abs_path ps = slash # c # t"
    using Cons by (cases qs) (auto simp: abs_path_def)
  then show ?thesis using \<open>c \<noteq> slash\<close> by (auto simp: path_root_def startswith_def)
qed

text \<open>What \<open>pathlib\<close> sees in an absolute path without dot components.\<close>

lemma pure_path_abs_path:
  assumes "list_all is_component ps" "[dot] \<notin> set ps"
  shows "pure_path (abs_path ps) = ([slash], ps)"
proof -
  have "filter (\<lambda>p. p \<noteq> [] \<and> p \<noteq> [dot]) (split_on slash (abs_path ps)) =
      filter (\<lambda>p. p \<noteq> [dot]) (components (abs_path ps))"
    by (simp add: components_def conj_commute)
  also have "\<dots> = ps"
    using assms by (auto simp: components_abs_path filter_id_conv)
  finally show ?thesis using assms by (simp add: pure_path_def path_root_abs_path)
qed

lemma parent_abs_path:
  assumes "list_all is_component ps" "[dot] \<notin> set ps"
  shows "path_str (path_parent (pure_path (abs_path ps))) = abs_path (butlast ps)"
  using pure_path_abs_path [OF assms] by (simp add: path_parent_def path_str_def abs_path_def)

lemma name_abs_path:
  assumes "list_all is_component ps" "[dot] \<notin> set ps" "ps \<noteq> []"
  shows "path_name (pure_path (abs_path ps)) = last ps"
  using pure_path_abs_path [OF assms(1,2)] assms(3) by (simp add: path_name_def)

lemma pure_path_root_only: "pure_path [slash] = ([slash], [])"
  by (simp add: pure_path_def path_root_def startswith_def)

end
