(* ===== verification/SessionRecord.thy ===== *)
theory SessionRecord
  imports Complex_Main Paths
begin

text \<open>
  \<open>classifier/schemas/session.py\<close>: the canonical record of one completed session and the
  checks a record passes before it is stored or classified. Times are rational numbers:
  the sources' floats without rounding, and finite, so \<open>_reject_non_finite\<close> has nothing
  to reject here. Whether a text is an IP address or a UUID is decided by the standard
  library inside pydantic and is a parameter.
\<close>

record command_event =
  ev_cmd :: str
  ev_time :: rat

record session_record =
  rec_schema_version :: int
  rec_session_id :: str
  rec_protocol :: str
  rec_peer_ip :: "str option"
  rec_peer_port :: "int option"
  rec_latitude :: "rat option"
  rec_longitude :: "rat option"
  rec_persona_id :: str
  rec_started_at :: rat
  rec_ended_at :: rat
  rec_duration_seconds :: rat
  rec_end_reason :: str
  rec_command_count :: int
  rec_commands :: "command_event list"
  rec_decoy_files_surfaced :: "str list"
  rec_client_version :: "str option"
  rec_end_stage :: "str option"
  rec_end_error :: "str option"

definition ssh_end_stages :: "str list" where
  "ssh_end_stages = map lit [''no_version'', ''not_ssh'', ''key_exchange_failed'', ''before_auth'',
     ''auth_without_password'', ''after_password'', ''shell'']"

definition protocols :: "str list" where
  "protocols = map lit [''tcp_shell'', ''http'', ''ftp'', ''telnet'']"

definition end_reasons :: "str list" where
  "end_reasons = map lit [''logout'', ''timeout'', ''disconnect'', ''shutdown'', ''error'']"

definition opt_all :: "('a \<Rightarrow> bool) \<Rightarrow> 'a option \<Rightarrow> bool" where
  "opt_all P x = (case x of None \<Rightarrow> True | Some v \<Rightarrow> P v)"

lemma opt_all_simps [simp]: "opt_all P None" "opt_all P (Some v) \<longleftrightarrow> P v"
  by (simp_all add: opt_all_def)

text \<open>The constraints written on the fields of \<open>CommandEvent\<close> and \<open>SessionRecord\<close>.\<close>

definition fields_valid :: "(str \<Rightarrow> bool) \<Rightarrow> (str \<Rightarrow> bool) \<Rightarrow> session_record \<Rightarrow> bool" where
  "fields_valid ip_ok uuid_ok r \<longleftrightarrow>
     rec_schema_version r = 1
     \<and> uuid_ok (rec_session_id r)
     \<and> rec_protocol r \<in> set protocols
     \<and> opt_all ip_ok (rec_peer_ip r)
     \<and> opt_all (\<lambda>p. 1 \<le> p \<and> p \<le> 65535) (rec_peer_port r)
     \<and> opt_all (\<lambda>x. -90 \<le> x \<and> x \<le> 90) (rec_latitude r)
     \<and> opt_all (\<lambda>x. -180 \<le> x \<and> x \<le> 180) (rec_longitude r)
     \<and> rec_persona_id r \<noteq> []
     \<and> 0 \<le> rec_duration_seconds r
     \<and> rec_end_reason r \<in> set end_reasons
     \<and> 0 \<le> rec_command_count r
     \<and> list_all (\<lambda>e. ev_cmd e \<noteq> []) (rec_commands r)
     \<and> opt_all (\<lambda>s. length s \<le> 255) (rec_client_version r)
     \<and> opt_all (\<lambda>s. s \<in> set ssh_end_stages) (rec_end_stage r)
     \<and> opt_all (\<lambda>s. length s \<le> 1000) (rec_end_error r)"

text \<open>The loop over the commands: each inside the session, none earlier than the one before.\<close>

fun check_commands :: "rat \<Rightarrow> rat \<Rightarrow> command_event option \<Rightarrow> command_event list \<Rightarrow> unit outcome" where
  "check_commands started ended previous [] = Done ()"
| "check_commands started ended previous (c # cs) =
     (if \<not> (started \<le> ev_time c \<and> ev_time c \<le> ended)
      then Raised (ValueError (lit ''command timestamps must fall within the session''))
      else if (case previous of None \<Rightarrow> False | Some p \<Rightarrow> ev_time c < ev_time p)
      then Raised (ValueError (lit ''commands must be ordered by timestamp''))
      else check_commands started ended (Some c) cs)"

definition safe_decoy_path :: "str \<Rightarrow> bool" where
  "safe_decoy_path p \<longleftrightarrow> startswith p [slash] \<and> [dot, dot] \<notin> set (path_parts (pure_path p))"

definition validate_session_consistency :: "session_record \<Rightarrow> session_record outcome" where
  "validate_session_consistency r =
     (if (rec_latitude r = None) \<noteq> (rec_longitude r = None)
      then Raised (ValueError (lit ''latitude and longitude must be provided together''))
      else if rec_ended_at r < rec_started_at r
      then Raised (ValueError (lit ''ended_at cannot be earlier than started_at''))
      else if 1 / 1000000 < \<bar>rec_duration_seconds r - (rec_ended_at r - rec_started_at r)\<bar>
      then Raised (ValueError (lit ''duration_seconds must match session timestamps''))
      else case check_commands (rec_started_at r) (rec_ended_at r) None (rec_commands r) of
        Raised e \<Rightarrow> Raised e
      | Done _ \<Rightarrow>
          if rec_command_count r \<noteq> int (length (rec_commands r))
          then Raised (ValueError (lit ''command_count must match commands''))
          else if \<not> distinct (rec_decoy_files_surfaced r)
          then Raised (ValueError (lit ''decoy_files_surfaced cannot contain duplicates''))
          else if \<not> list_all safe_decoy_path (rec_decoy_files_surfaced r)
          then Raised (ValueError (lit ''decoy_files_surfaced must contain safe absolute paths''))
          else Done r)"

text \<open>\<open>SessionRecord.model_validate\<close>: the fields, then the consistency of the record.\<close>

definition model_validate :: "(str \<Rightarrow> bool) \<Rightarrow> (str \<Rightarrow> bool) \<Rightarrow> session_record \<Rightarrow> session_record outcome" where
  "model_validate ip_ok uuid_ok r =
     (if fields_valid ip_ok uuid_ok r then validate_session_consistency r
      else Raised (ValueError (lit ''invalid field'')))"

section \<open>What a validated record satisfies\<close>

definition times_ordered :: "rat \<Rightarrow> command_event list \<Rightarrow> rat \<Rightarrow> bool" where
  "times_ordered started cs ended \<longleftrightarrow>
     sorted (map ev_time cs) \<and> list_all (\<lambda>c. started \<le> ev_time c \<and> ev_time c \<le> ended) cs"

lemma check_commands_iff:
  "check_commands started ended p cs = Done () \<longleftrightarrow>
     times_ordered started cs ended \<and>
     (case (p, cs) of (Some q, c # _) \<Rightarrow> ev_time q \<le> ev_time c | _ \<Rightarrow> True)"
proof (induction cs arbitrary: p)
  case Nil
  then show ?case by (auto simp: times_ordered_def split: option.splits)
next
  case (Cons c cs)
  have "check_commands started ended p (c # cs) = Done () \<longleftrightarrow>
      started \<le> ev_time c \<and> ev_time c \<le> ended \<and>
      (case p of None \<Rightarrow> True | Some q \<Rightarrow> ev_time q \<le> ev_time c) \<and>
      check_commands started ended (Some c) cs = Done ()"
    by (auto split: option.splits)
  also have "\<dots> \<longleftrightarrow> times_ordered started (c # cs) ended \<and>
      (case p of None \<Rightarrow> True | Some q \<Rightarrow> ev_time q \<le> ev_time c)"
    unfolding Cons.IH by (cases cs) (auto simp: times_ordered_def)
  finally show ?case by (auto split: option.splits)
qed

definition record_consistent :: "session_record \<Rightarrow> bool" where
  "record_consistent r \<longleftrightarrow>
     (rec_latitude r = None \<longleftrightarrow> rec_longitude r = None)
     \<and> rec_started_at r \<le> rec_ended_at r
     \<and> \<bar>rec_duration_seconds r - (rec_ended_at r - rec_started_at r)\<bar> \<le> 1 / 1000000
     \<and> times_ordered (rec_started_at r) (rec_commands r) (rec_ended_at r)
     \<and> rec_command_count r = int (length (rec_commands r))
     \<and> distinct (rec_decoy_files_surfaced r)
     \<and> list_all safe_decoy_path (rec_decoy_files_surfaced r)"

lemma check_commands_outcome:
  "check_commands s e p cs = Done () \<or> (\<exists>m. check_commands s e p cs = Raised (ValueError m))"
  by (induction cs arbitrary: p) auto

lemma validate_consistency_iff:
  "validate_session_consistency r = Done r' \<longleftrightarrow> r' = r \<and> record_consistent r"
proof -
  have "check_commands (rec_started_at r) (rec_ended_at r) None (rec_commands r) = Done () \<longleftrightarrow>
      times_ordered (rec_started_at r) (rec_commands r) (rec_ended_at r)"
    by (simp add: check_commands_iff)
  then show ?thesis
    using check_commands_outcome [of "rec_started_at r" "rec_ended_at r" None "rec_commands r"]
    by (auto simp: validate_session_consistency_def record_consistent_def not_less not_le
        split: outcome.splits)
qed

lemma model_validate_iff:
  "model_validate ip_ok uuid_ok r = Done r' \<longleftrightarrow> r' = r \<and> fields_valid ip_ok uuid_ok r \<and> record_consistent r"
  by (simp add: model_validate_def validate_consistency_iff)

end
