(* ===== verification/Persona.thy ===== *)
theory Persona
  imports SessionRecord
begin

text \<open>
  \<open>honeypot/core/persona.py\<close>: the persona a decoy presents, the five presets, the lookup
  by id and \<open>validate_persona\<close>, which every persona passes before a session uses it. The
  lemmas give the exact set of personas the validation accepts and show that the presets
  are among them.
\<close>

record fake_file_rec =
  ff_path :: str
  ff_content :: str

record fake_credential =
  cred_username :: str
  cred_password :: str

record persona =
  persona_id :: str
  os_banner :: str
  ssh_banner :: str
  hostname :: str
  uname_output :: str
  username :: str
  home_dir :: str
  fake_filesystem :: "fake_file_rec list"
  running_processes :: "str list"
  http_server_type :: str
  fake_users :: "str list"
  suid_binaries :: "str list"
  open_ports_visible :: "int list"
  fake_credentials :: "fake_credential list"

text \<open>\<open>file_map\<close>: the dictionary a session starts from.\<close>

definition file_map :: "persona \<Rightarrow> (str \<times> str) list" where
  "file_map p = dict_of (map (\<lambda>f. (ff_path f, ff_content f)) (fake_filesystem p))"

definition fake_file :: "str \<Rightarrow> str \<Rightarrow> fake_file_rec" where
  "fake_file p c = \<lparr>ff_path = p, ff_content = c\<rparr>"

definition credential :: "str \<Rightarrow> str \<Rightarrow> fake_credential" where
  "credential u p = \<lparr>cred_username = u, cred_password = p\<rparr>"

section \<open>The presets\<close>

definition generic_linux :: persona where
  "generic_linux = \<lparr>
     persona_id = lit ''generic_linux'',
     os_banner = lit ''Linux ip-10-0-0-12 5.15.0-91-generic x86_64'',
     ssh_banner = lit ''SSH-2.0-OpenSSH_8.9p1 Ubuntu-3ubuntu0.6'',
     hostname = lit ''ip-10-0-0-12'',
     uname_output = lit ''Linux ip-10-0-0-12 5.15.0-91-generic #101-Ubuntu SMP x86_64 GNU/Linux'',
     username = lit ''root'',
     home_dir = lit ''/home/admin'',
     fake_filesystem = [
       fake_file (lit ''/home/admin/readme.txt'') (lit ''Welcome to the system.\<newline>''),
       fake_file (lit ''/home/admin/notes.txt'') (lit ''TODO: rotate credentials\<newline>''),
       fake_file (lit ''/etc/passwd'') (lit ''root:x:0:0:root:/root:/bin/bash\<newline>admin:x:1000:1000:admin:/home/admin:/bin/bash\<newline>''),
       fake_file (lit ''/etc/hosts'') (lit ''127.0.0.1 localhost\<newline>''),
       fake_file (lit ''/var/log/auth.log'') ([])],
     running_processes = map lit [''sshd'', ''cron'', ''rsyslogd''],
     http_server_type = lit ''apache'',
     fake_users = map lit [''root'', ''admin''],
     suid_binaries = map lit [''/usr/bin/sudo'', ''/bin/su''],
     open_ports_visible = [22],
     fake_credentials = [credential (lit ''admin'') (lit ''admin123'')]\<rparr>"

definition ubuntu_web_server :: persona where
  "ubuntu_web_server = \<lparr>
     persona_id = lit ''ubuntu_web_server'',
     os_banner = lit ''Ubuntu 20.04.6 LTS web-prod-01 tty1'',
     ssh_banner = lit ''SSH-2.0-OpenSSH_8.2p1 Ubuntu-4ubuntu0.5'',
     hostname = lit ''web-prod-01'',
     uname_output = lit ''Linux web-prod-01 5.4.0-162-generic x86_64 GNU/Linux'',
     username = lit ''ubuntu'',
     home_dir = lit ''/home/ubuntu'',
     fake_filesystem = [
       fake_file (lit ''/home/ubuntu/readme.txt'') (lit ''Production web node. Do not reboot.\<newline>''),
       fake_file (lit ''/var/www/html/index.php'') (lit ''<?php echo 'Hello World'; ?>\<newline>''),
       fake_file (lit ''/var/www/html/wp-config.php'') (lit ''define('DB_NAME', 'wordpress');\<newline>define('DB_USER', 'wp_prod');\<newline>define('DB_PASSWORD', 'prod_pass_2024');\<newline>''),
       fake_file (lit ''/etc/nginx/nginx.conf'') (lit ''worker_processes auto;\<newline>''),
       fake_file (lit ''/var/log/nginx/access.log'') (lit ''192.168.1.1 - GET /admin 200\<newline>''),
       fake_file (lit ''/etc/passwd'') (lit ''root:x:0:0:root:/root:/bin/bash\<newline>ubuntu:x:1000:1000:ubuntu:/home/ubuntu:/bin/bash\<newline>deploy:x:1001:1001:deploy:/home/deploy:/bin/bash\<newline>'')],
     running_processes = map lit [''nginx'', ''php-fpm'', ''mysql'', ''sshd''],
     http_server_type = lit ''nginx'',
     fake_users = map lit [''www-data'', ''ubuntu'', ''deploy''],
     suid_binaries = map lit [''/usr/bin/sudo'', ''/bin/su''],
     open_ports_visible = [80, 443, 3306],
     fake_credentials = [credential (lit ''admin'') (lit ''admin123''), credential (lit ''deploy'') (lit ''Deploy@2024'')]\<rparr>"

definition centos_database :: persona where
  "centos_database = \<lparr>
     persona_id = lit ''centos_database'',
     os_banner = lit ''CentOS Linux 7 db-primary-01 tty1'',
     ssh_banner = lit ''SSH-2.0-OpenSSH_7.4'',
     hostname = lit ''db-primary-01'',
     uname_output = lit ''Linux db-primary-01 3.10.0-1160.el7.x86_64 GNU/Linux'',
     username = lit ''centos'',
     home_dir = lit ''/home/centos'',
     fake_filesystem = [
       fake_file (lit ''/home/centos/README'') (lit ''Database maintenance host.\<newline>''),
       fake_file (lit ''/var/lib/mysql/app/users.frm'') (lit ''table format placeholder\<newline>''),
       fake_file (lit ''/srv/backups/customer_dump.sql'') (lit ''-- customer export\<newline>''),
       fake_file (lit ''/etc/my.cnf'') (lit ''[mysqld]\<newline>bind-address=0.0.0.0\<newline>''),
       fake_file (lit ''/var/log/mysqld.log'') (lit ''ready for connections\<newline>''),
       fake_file (lit ''/etc/passwd'') (lit ''root:x:0:0:root:/root:/bin/bash\<newline>centos:x:1000:1000:centos:/home/centos:/bin/bash\<newline>postgres:x:26:26:PostgreSQL Server:/var/lib/pgsql:/bin/bash\<newline>'')],
     running_processes = map lit [''mysqld'', ''postgres'', ''sshd'', ''crond''],
     http_server_type = lit ''apache'',
     fake_users = map lit [''mysql'', ''postgres'', ''centos''],
     suid_binaries = map lit [''/usr/bin/sudo'', ''/bin/su''],
     open_ports_visible = [3306, 5432],
     fake_credentials = [credential (lit ''reporting'') (lit ''Report2024!'')]\<rparr>"

definition debian_mail_server :: persona where
  "debian_mail_server = \<lparr>
     persona_id = lit ''debian_mail_server'',
     os_banner = lit ''Debian GNU/Linux 12 mail-gw-01 tty1'',
     ssh_banner = lit ''SSH-2.0-OpenSSH_9.2p1 Debian-2+deb12u2'',
     hostname = lit ''mail-gw-01'',
     uname_output = lit ''Linux mail-gw-01 6.1.0-18-amd64 x86_64 GNU/Linux'',
     username = lit ''admin'',
     home_dir = lit ''/home/admin'',
     fake_filesystem = [
       fake_file (lit ''/home/admin/postfix-notes.txt'') (lit ''Check deferred queue on Mondays.\<newline>''),
       fake_file (lit ''/etc/postfix/main.cf'') (lit ''myhostname = mail-gw-01\<newline>inet_interfaces = all\<newline>''),
       fake_file (lit ''/etc/dovecot/dovecot.conf'') (lit ''protocols = imap pop3 lmtp\<newline>''),
       fake_file (lit ''/var/log/mail.log'') (lit ''postfix/smtpd: connect from unknown\<newline>''),
       fake_file (lit ''/etc/passwd'') (lit ''root:x:0:0:root:/root:/bin/bash\<newline>admin:x:1000:1000:admin:/home/admin:/bin/bash\<newline>vmail:x:5000:5000:Virtual Mail:/var/mail:/usr/sbin/nologin\<newline>'')],
     running_processes = map lit [''postfix'', ''dovecot'', ''rsyslogd'', ''sshd''],
     http_server_type = lit ''apache'',
     fake_users = map lit [''postfix'', ''dovecot'', ''vmail'', ''admin''],
     suid_binaries = map lit [''/usr/bin/sudo'', ''/bin/su''],
     open_ports_visible = [25, 110, 143, 587, 993],
     fake_credentials = [credential (lit ''mailadmin'') (lit ''MailAdmin2024!'')]\<rparr>"

definition busybox_router :: persona where
  "busybox_router = \<lparr>
     persona_id = lit ''busybox_router'',
     os_banner = lit ''BusyBox v1.31.1 (2019-09-18 10:25:30 UTC) built-in shell (ash)'',
     ssh_banner = lit ''SSH-2.0-dropbear_2019.78'',
     hostname = lit ''DLink-Router'',
     uname_output = lit ''Linux DLink-Router 2.6.36 mips GNU/Linux'',
     username = lit ''root'',
     home_dir = lit ''/root'',
     fake_filesystem = [
       fake_file (lit ''/root/.profile'') (lit ''# BusyBox ash profile\<newline>''),
       fake_file (lit ''/etc/passwd'') (lit ''root:x:0:0:root:/root:/bin/sh\<newline>admin:x:500:500:admin:/var/home/admin:/bin/sh\<newline>''),
       fake_file (lit ''/etc/banner'') (lit ''DLink Router\<newline>Model: DIR-615\<newline>Firmware: 2.09\<newline>''),
       fake_file (lit ''/proc/version'') (lit ''Linux version 2.6.36 (gcc version 4.5.1)\<newline>''),
       fake_file (lit ''/etc/config/passwd'') (lit ''admin:$1$Mnz.L8fP$ZjWs8YhcA:0:0:root:/root:/bin/sh\<newline>''),
       fake_file (lit ''/var/etc/passwd'') (lit ''root:Zte521:0:0:root:/root:/bin/sh\<newline>'')],
     running_processes = map lit [''busybox'', ''udhcpd'', ''dnsmasq'', ''httpd'', ''telnetd''],
     http_server_type = lit ''busybox'',
     fake_users = map lit [''root'', ''admin'', ''guest'', ''support'', ''user''],
     suid_binaries = [],
     open_ports_visible = [23, 80],
     fake_credentials = [credential (lit ''root'') (lit ''xc3511'')]\<rparr>"

definition PRESET_PERSONAS :: "(str \<times> persona) list" where
  "PRESET_PERSONAS =
     [(lit ''generic_linux'', generic_linux),
      (lit ''ubuntu_web_server'', ubuntu_web_server),
      (lit ''centos_database'', centos_database),
      (lit ''debian_mail_server'', debian_mail_server),
      (lit ''busybox_router'', busybox_router)]"

text \<open>\<open>get_persona\<close>; \<open>PERSONA_ALIASES\<close> is empty. The error lists the valid ids in order.\<close>

definition get_persona :: "str \<Rightarrow> persona outcome" where
  "get_persona pid =
     (case dict_get PRESET_PERSONAS pid of
        Some p \<Rightarrow> Done p
      | None \<Rightarrow> Raised (ValueError (lit ''Unknown persona '' @ [squote] @ pid @ [squote] @ lit ''. Valid personas: ''
          @ join (lit '', '') (map lit [''busybox_router'', ''centos_database'', ''debian_mail_server'',
              ''generic_linux'', ''ubuntu_web_server'']))))"

section \<open>Validation\<close>

text \<open>The loop over the fake files: paths seen so far, and whether one lies in the home directory.\<close>

fun check_files :: "pure_path \<Rightarrow> str list \<Rightarrow> bool \<Rightarrow> fake_file_rec list \<Rightarrow> bool outcome" where
  "check_files home seen has_home [] = Done has_home"
| "check_files home seen has_home (f # fs) =
     (if \<not> startswith (ff_path f) [slash] \<or> [dot, dot] \<in> set (path_parts (pure_path (ff_path f)))
      then Raised (ValueError (lit ''Invalid fake filesystem path: '' @ ff_path f))
      else if ff_path f \<in> set seen
      then Raised (ValueError (lit ''Duplicate fake filesystem path: '' @ ff_path f))
      else check_files home (seen @ [ff_path f])
             (has_home \<or> is_relative_to (pure_path (ff_path f)) home) fs)"

definition validate_persona :: "persona \<Rightarrow> unit outcome" where
  "validate_persona p =
     (if [] \<in> set [persona_id p, os_banner p, ssh_banner p, hostname p, uname_output p, username p, home_dir p]
      then Raised (ValueError (lit ''Persona identity fields cannot be empty''))
      else if \<not> startswith (home_dir p) [slash]
      then Raised (ValueError (lit ''Persona home_dir must be an absolute Linux path''))
      else case check_files (pure_path (home_dir p)) [] False (fake_filesystem p) of
        Raised e \<Rightarrow> Raised e
      | Done has_home \<Rightarrow>
          if \<not> has_home
          then Raised (ValueError (lit ''Persona home_dir must contain at least one fake file''))
          else if \<not> list_all (\<lambda>c. cred_username c \<noteq> [] \<and> cred_password c \<noteq> []) (fake_credentials p)
          then Raised (ValueError (lit ''Fake credential username and password cannot be empty''))
          else case find (\<lambda>port. port < 1 \<or> port > 65535) (open_ports_visible p) of
            Some port \<Rightarrow> Raised (ValueError (lit ''Invalid visible port: '' @ str_of_int port))
          | None \<Rightarrow> Done ())"

subsection \<open>The personas that pass\<close>

definition files_ok :: "fake_file_rec list \<Rightarrow> bool" where
  "files_ok fs \<longleftrightarrow> list_all (\<lambda>f. safe_decoy_path (ff_path f)) fs \<and> distinct (map ff_path fs)"

lemma check_files_Done:
  "check_files home seen has_home fs = Done b \<longleftrightarrow>
     files_ok fs \<and> set seen \<inter> ff_path ` set fs = {} \<and>
     b = (has_home \<or> (\<exists>f \<in> set fs. is_relative_to (pure_path (ff_path f)) home))"
proof (induction fs arbitrary: seen has_home)
  case Nil
  then show ?case by (auto simp: files_ok_def)
next
  case (Cons f fs)
  then show ?case
    by (auto simp: files_ok_def safe_decoy_path_def)
qed

definition persona_ok :: "persona \<Rightarrow> bool" where
  "persona_ok p \<longleftrightarrow>
     [] \<notin> set [persona_id p, os_banner p, ssh_banner p, hostname p, uname_output p, username p, home_dir p]
     \<and> startswith (home_dir p) [slash]
     \<and> files_ok (fake_filesystem p)
     \<and> (\<exists>f \<in> set (fake_filesystem p). is_relative_to (pure_path (ff_path f)) (pure_path (home_dir p)))
     \<and> (\<forall>c \<in> set (fake_credentials p). cred_username c \<noteq> [] \<and> cred_password c \<noteq> [])
     \<and> (\<forall>port \<in> set (open_ports_visible p). 1 \<le> port \<and> port \<le> 65535)"

lemma find_bad_port:
  "find (\<lambda>port. port < 1 \<or> port > 65535) ports = None \<longleftrightarrow> (\<forall>port \<in> set ports. (1::int) \<le> port \<and> port \<le> 65535)"
  by (auto simp: find_None_iff not_less)

lemma check_files_outcome:
  "(\<exists>b. check_files home seen has_home fs = Done b) \<or> (\<exists>e. check_files home seen has_home fs = Raised e)"
  by (cases "check_files home seen has_home fs") auto

text \<open>\<open>validate_persona\<close> accepts exactly the well-formed personas: identity fields set,
  an absolute home directory with at least one decoy file in it, distinct absolute decoy
  paths without "..", credentials and ports in range.\<close>

theorem validate_persona_iff: "validate_persona p = Done () \<longleftrightarrow> persona_ok p"
proof (cases "check_files (pure_path (home_dir p)) [] False (fake_filesystem p)")
  case (Raised e)
  then have "\<not> files_ok (fake_filesystem p)"
    using check_files_Done [of "pure_path (home_dir p)" "[]" False "fake_filesystem p"] by auto
  then show ?thesis using Raised by (simp add: validate_persona_def persona_ok_def)
next
  case (Done b)
  then have "files_ok (fake_filesystem p)"
    and "b \<longleftrightarrow> (\<exists>f \<in> set (fake_filesystem p). is_relative_to (pure_path (ff_path f)) (pure_path (home_dir p)))"
    using check_files_Done [of "pure_path (home_dir p)" "[]" False "fake_filesystem p" b] by auto
  then show ?thesis using Done find_bad_port [of "open_ports_visible p"]
    by (auto simp: validate_persona_def persona_ok_def list_all_iff split: option.splits)
qed

lemma file_map_keys: "set (dict_keys (file_map p)) = ff_path ` set (fake_filesystem p)"
  by (simp add: file_map_def dict_of_keys image_image)

lemma file_map_safe:
  "persona_ok p \<Longrightarrow> f \<in> set (dict_keys (file_map p)) \<Longrightarrow> safe_decoy_path f"
  by (auto simp: file_map_keys persona_ok_def files_ok_def list_all_iff)

text \<open>Every preset is valid.\<close>

lemma presets_valid: "list_all (\<lambda>kp. validate_persona (snd kp) = Done ()) PRESET_PERSONAS"
  by code_simp

end
