(* ===== verification/Codecs.thy ===== *)
theory Codecs
  imports Prelude
begin

text \<open>
  The codecs of Python's standard library the sources use: UTF-8 with the
  \<open>surrogateescape\<close> and \<open>backslashreplace\<close> handlers (\<open>str.encode\<close>, \<open>bytes.decode\<close>),
  base64 as \<open>b64encode\<close> and the validating \<open>b64decode\<close> of Python 3.11 compute it, and
  the little- and big-endian integers of \<open>struct.pack\<close>. A \<open>bytes\<close> value is a list of
  numbers below 256. The lemmas show that decoding with \<open>surrogateescape\<close> loses
  nothing, that encodable text without surrogates survives the round trip, and that
  \<open>b64decode\<close> inverts \<open>b64encode\<close>.
\<close>

type_synonym bytes = "nat list"

definition is_bytes :: "bytes \<Rightarrow> bool" where
  "is_bytes bs \<longleftrightarrow> list_all (\<lambda>b. b < 256) bs"

section \<open>UTF-8\<close>

definition is_surrogate :: "nat \<Rightarrow> bool" where
  "is_surrogate c \<longleftrightarrow> 0xD800 \<le> c \<and> c \<le> 0xDFFF"

definition is_cont :: "nat \<Rightarrow> bool" where
  "is_cont b \<longleftrightarrow> 0x80 \<le> b \<and> b \<le> 0xBF"

text \<open>The bytes of one code point that is not a surrogate.\<close>

definition utf8_char :: "nat \<Rightarrow> bytes" where
  "utf8_char c =
     (if c < 0x80 then [c]
      else if c < 0x800 then [0xC0 + c div 64, 0x80 + c mod 64]
      else if c < 0x10000 then [0xE0 + c div 4096, 0x80 + c div 64 mod 64, 0x80 + c mod 64]
      else [0xF0 + c div 262144, 0x80 + c div 4096 mod 64, 0x80 + c div 64 mod 64, 0x80 + c mod 64])"

text \<open>
  \<open>s.encode("utf-8", handler)\<close>: the handler says what to do with a surrogate, \<open>None\<close>
  standing for \<open>UnicodeEncodeError\<close>.
\<close>

fun utf8_encode :: "(nat \<Rightarrow> bytes option) \<Rightarrow> str \<Rightarrow> bytes option" where
  "utf8_encode h [] = Some []"
| "utf8_encode h (c # s) =
     (case (if is_surrogate c then h c else Some (utf8_char c)) of
        None \<Rightarrow> None
      | Some b \<Rightarrow> (case utf8_encode h s of None \<Rightarrow> None | Some bs \<Rightarrow> Some (b @ bs)))"

definition enc_surrogateescape :: "nat \<Rightarrow> bytes option" where
  "enc_surrogateescape c = (if 0xDC80 \<le> c \<and> c \<le> 0xDCFF then Some [c - 0xDC00] else None)"

definition hex_digit :: "nat \<Rightarrow> nat" where
  "hex_digit n = (if n < 10 then 48 + n else 87 + n)"

definition hex2 :: "nat \<Rightarrow> str" where
  "hex2 n = [hex_digit (n div 16), hex_digit (n mod 16)]"

definition enc_backslashreplace :: "nat \<Rightarrow> bytes option" where
  "enc_backslashreplace c = Some ([bslash, 117] @ hex2 (c div 256) @ hex2 (c mod 256))"

text \<open>
  One step of the decoder on non-empty input: a valid sequence gives its code point and
  the rest, anything else one byte for the error handler. An invalid sequence of several
  bytes reaches the handlers used here byte by byte, since no continuation byte starts a
  sequence.
\<close>

fun utf8_step :: "bytes \<Rightarrow> (nat \<times> bytes) option" where
  "utf8_step [] = None"
| "utf8_step (b # bs) =
     (if b < 0x80 then Some (b, bs)
      else if 0xC2 \<le> b \<and> b \<le> 0xDF then
        (case bs of b1 # r \<Rightarrow>
           if is_cont b1 then Some ((b - 0xC0) * 64 + (b1 - 0x80), r) else None
         | _ \<Rightarrow> None)
      else if 0xE0 \<le> b \<and> b \<le> 0xEF then
        (case bs of b1 # b2 # r \<Rightarrow>
           if is_cont b1 \<and> is_cont b2 \<and> (b = 0xE0 \<longrightarrow> 0xA0 \<le> b1) \<and> (b = 0xED \<longrightarrow> b1 \<le> 0x9F)
           then Some ((b - 0xE0) * 4096 + (b1 - 0x80) * 64 + (b2 - 0x80), r) else None
         | _ \<Rightarrow> None)
      else if 0xF0 \<le> b \<and> b \<le> 0xF4 then
        (case bs of b1 # b2 # b3 # r \<Rightarrow>
           if is_cont b1 \<and> is_cont b2 \<and> is_cont b3 \<and> (b = 0xF0 \<longrightarrow> 0x90 \<le> b1) \<and> (b = 0xF4 \<longrightarrow> b1 \<le> 0x8F)
           then Some ((b - 0xF0) * 262144 + (b1 - 0x80) * 4096 + (b2 - 0x80) * 64 + (b3 - 0x80), r)
           else None
         | _ \<Rightarrow> None)
      else None)"

lemma utf8_step_shorter: "utf8_step bs = Some (c, r) \<Longrightarrow> length r < length bs"
  by (cases bs) (auto split: if_splits list.splits)

function utf8_decode :: "(nat \<Rightarrow> str) \<Rightarrow> bytes \<Rightarrow> str" where
  "utf8_decode h bs =
     (case utf8_step bs of
        Some (c, r) \<Rightarrow> c # utf8_decode h r
      | None \<Rightarrow> (case bs of [] \<Rightarrow> [] | b # r \<Rightarrow> h b @ utf8_decode h r))"
  by pat_completeness auto
termination
  by (relation "measure (\<lambda>(h, bs). length bs)") (auto dest: utf8_step_shorter)

declare utf8_decode.simps [simp del]

definition dec_surrogateescape :: "nat \<Rightarrow> str" where
  "dec_surrogateescape b = [0xDC00 + b]"

definition dec_backslashreplace :: "nat \<Rightarrow> str" where
  "dec_backslashreplace b = [bslash, 120] @ hex2 b"

definition dec_ignore :: "nat \<Rightarrow> str" where
  "dec_ignore b = []"

text \<open>\<open>s.encode("utf-8", "surrogateescape")\<close> and \<open>b.decode("utf-8", "surrogateescape")\<close>.\<close>

definition encode_utf8 :: "str \<Rightarrow> bytes option" where
  "encode_utf8 s = utf8_encode enc_surrogateescape s"

definition decode_utf8 :: "bytes \<Rightarrow> str" where
  "decode_utf8 bs = utf8_decode dec_surrogateescape bs"

text \<open>Strict decoding, as \<open>b.decode("utf-8")\<close>: \<open>None\<close> for \<open>UnicodeDecodeError\<close>.\<close>

function decode_utf8_strict :: "bytes \<Rightarrow> str option" where
  "decode_utf8_strict bs =
     (case utf8_step bs of
        Some (c, r) \<Rightarrow> map_option ((#) c) (decode_utf8_strict r)
      | None \<Rightarrow> (if bs = [] then Some [] else None))"
  by pat_completeness auto
termination
  by (relation "measure length") (auto dest: utf8_step_shorter)

declare decode_utf8_strict.simps [simp del]

lemma utf8_decode_Nil [simp]: "utf8_decode h [] = []"
  by (simp add: utf8_decode.simps)

lemma decode_utf8_Nil [simp]: "decode_utf8 [] = []"
  by (simp add: decode_utf8_def)

text \<open>Decoding one encoded character.\<close>

lemma mixed_radix: "(b::nat) < n \<Longrightarrow> (a * n + b) div n = a \<and> (a * n + b) mod n = b"
  by simp

lemma utf8_char_1: "c < 0x80 \<Longrightarrow> utf8_char c = [c]"
  by (simp add: utf8_char_def)

lemma utf8_char_2:
  assumes "2 \<le> x" "x < 32" "y < 64"
  shows "utf8_char (x * 64 + y) = [0xC0 + x, 0x80 + y]"
proof -
  have "\<not> x * 64 + y < 0x80" "x * 64 + y < 0x800" using assms by auto
  then show ?thesis using mixed_radix [of y 64 x] assms(3) by (simp add: utf8_char_def)
qed

lemma utf8_char_3:
  assumes "x < 16" "y < 64" "z < 64" "x = 0 \<longrightarrow> 32 \<le> y"
  shows "utf8_char (x * 4096 + y * 64 + z) = [0xE0 + x, 0x80 + y, 0x80 + z]"
proof -
  let ?c = "x * 4096 + y * 64 + z"
  have "\<not> ?c < 0x80" "\<not> ?c < 0x800" "?c < 0x10000" using assms by (cases "x = 0"; auto)+
  moreover have "?c div 4096 = x"
    using mixed_radix [of "y * 64 + z" 4096 x] assms by (simp add: add.assoc)
  moreover have "?c div 64 = x * 64 + y" "?c mod 64 = z"
    using mixed_radix [of z 64 "x * 64 + y"] assms by (simp_all add: algebra_simps)
  moreover have "(x * 64 + y) mod 64 = y" using mixed_radix [of y 64 x] assms by simp
  ultimately show ?thesis by (simp add: utf8_char_def)
qed

lemma utf8_char_4:
  assumes "w < 5" "x < 64" "y < 64" "z < 64" "w = 0 \<longrightarrow> 16 \<le> x"
  shows "utf8_char (w * 262144 + x * 4096 + y * 64 + z) = [0xF0 + w, 0x80 + x, 0x80 + y, 0x80 + z]"
proof -
  let ?c = "w * 262144 + x * 4096 + y * 64 + z"
  have "\<not> ?c < 0x80" "\<not> ?c < 0x800" "\<not> ?c < 0x10000" using assms by (cases "w = 0"; auto)+
  moreover have "?c div 262144 = w"
    using mixed_radix [of "x * 4096 + y * 64 + z" 262144 w] assms by (simp add: add.assoc)
  moreover have "?c div 4096 = w * 64 + x"
    using mixed_radix [of "y * 64 + z" 4096 "w * 64 + x"] assms by (simp add: algebra_simps)
  moreover have "?c div 64 = (w * 64 + x) * 64 + y" "?c mod 64 = z"
    using mixed_radix [of z 64 "(w * 64 + x) * 64 + y"] assms by (simp_all add: algebra_simps)
  moreover have "(w * 64 + x) mod 64 = x" "((w * 64 + x) * 64 + y) mod 64 = y"
    using mixed_radix [of x 64 w] mixed_radix [of y 64 "w * 64 + x"] assms by simp_all
  ultimately show ?thesis by (simp add: utf8_char_def)
qed

text \<open>Every code point is of one of the four forms.\<close>

lemma utf8_forms:
  assumes "(c::nat) < 0x110000"
  obtains (one) "c < 0x80"
  | (two) x y where "c = x * 64 + y" "2 \<le> x" "x < 32" "y < 64"
  | (three) x y z where "c = x * 4096 + y * 64 + z" "x < 16" "y < 64" "z < 64" "x = 0 \<longrightarrow> 32 \<le> y"
  | (four) w x y z where "c = w * 262144 + x * 4096 + y * 64 + z" "w < 5" "x < 64" "y < 64" "z < 64"
      "w = 0 \<longrightarrow> 16 \<le> x" "w = 4 \<longrightarrow> x < 16"
proof -
  define z y1 where "z = c mod 64" and "y1 = c div 64"
  define y x1 where "y = y1 mod 64" and "x1 = y1 div 64"
  define x w where "x = x1 mod 64" and "w = x1 div 64"
  have c1: "c = y1 * 64 + z" and z: "z < 64" by (simp_all add: z_def y1_def)
  have c2: "y1 = x1 * 64 + y" and y: "y < 64" by (simp_all add: y_def x1_def)
  have c3: "x1 = w * 64 + x" and x: "x < 64" by (simp_all add: x_def w_def)
  consider "c < 0x80" | "0x80 \<le> c" "c < 0x800" | "0x800 \<le> c" "c < 0x10000" | "0x10000 \<le> c"
    by linarith
  then show thesis
  proof cases
    case 1
    then show ?thesis by (rule one)
  next
    case 2
    show ?thesis by (rule two [of y1 z]) (use 2 c1 z in auto)
  next
    case 3
    show ?thesis by (rule three [of x1 y z]) (use 3 c1 c2 y z in auto)
  next
    case 4
    show ?thesis by (rule four [of w x y z]) (use 4 assms c1 c2 c3 x y z in auto)
  qed
qed

lemma utf8_step_char:
  assumes "c < 0x110000" "\<not> is_surrogate c"
  shows "utf8_step (utf8_char c @ r) = Some (c, r)"
  using assms(1)
proof (cases rule: utf8_forms)
  case one
  then show ?thesis by (simp add: utf8_char_1)
next
  case (two x y)
  then show ?thesis by (simp add: utf8_char_2 is_cont_def)
next
  case (three x y z)
  have "x = 13 \<longrightarrow> y \<le> 31" using assms(2) three by (auto simp: is_surrogate_def)
  then show ?thesis using three by (simp add: utf8_char_3 is_cont_def)
next
  case (four w x y z)
  then show ?thesis by (auto simp: utf8_char_4 is_cont_def)
qed

text \<open>Text made of real characters only survives encoding and decoding.\<close>

definition plain_text :: "str \<Rightarrow> bool" where
  "plain_text s \<longleftrightarrow> list_all (\<lambda>c. c < 0x110000 \<and> \<not> is_surrogate c) s"

lemma plain_text_Cons [simp]:
  "plain_text (c # s) \<longleftrightarrow> c < 0x110000 \<and> \<not> is_surrogate c \<and> plain_text s"
  by (auto simp: plain_text_def)

lemma plain_text_Nil [simp]: "plain_text []"
  by (simp add: plain_text_def)

lemma utf8_encode_plain:
  "plain_text s \<Longrightarrow> utf8_encode h s = Some (concat (map utf8_char s))"
  by (induction s) auto

lemma utf8_decode_plain:
  "plain_text s \<Longrightarrow> utf8_decode h (concat (map utf8_char s)) = s"
proof (induction s)
  case Nil
  then show ?case by simp
next
  case (Cons c s)
  then show ?case
    by (subst utf8_decode.simps) (simp add: utf8_step_char)
qed

lemma decode_encode_utf8:
  "plain_text s \<Longrightarrow> \<exists>bs. encode_utf8 s = Some bs \<and> decode_utf8 bs = s"
  by (simp add: encode_utf8_def decode_utf8_def utf8_encode_plain utf8_decode_plain)

lemma decode_utf8_strict_plain:
  "plain_text s \<Longrightarrow> decode_utf8_strict (concat (map utf8_char s)) = Some s"
proof (induction s)
  case Nil
  then show ?case by (simp add: decode_utf8_strict.simps)
next
  case (Cons c s)
  then show ?case
    by (subst decode_utf8_strict.simps) (simp add: utf8_step_char)
qed

text \<open>A decoded byte string encodes back to the same bytes.\<close>

lemma utf8_step_encodes:
  assumes "utf8_step bs = Some (c, r)"
  shows "bs = utf8_char c @ r \<and> \<not> is_surrogate c \<and> c < 0x110000"
proof -
  obtain b bs' where bs: "bs = b # bs'" using assms by (cases bs) auto
  consider "b < 0x80" | "0xC2 \<le> b" "b \<le> 0xDF" | "0xE0 \<le> b" "b \<le> 0xEF" | "0xF0 \<le> b" "b \<le> 0xF4"
    using assms bs by (auto split: if_splits)
  then show ?thesis
  proof cases
    case 1
    then show ?thesis using assms bs by (simp add: utf8_char_1 is_surrogate_def)
  next
    case 2
    then obtain b1 where r: "bs' = b1 # r" "is_cont b1" "c = (b - 0xC0) * 64 + (b1 - 0x80)"
      using assms bs by (auto split: list.splits if_splits)
    obtain x y where xy: "b = 0xC0 + x" "b1 = 0x80 + y" "y < 64" "2 \<le> x" "x < 32"
      using r(2) 2 by (intro that [of "b - 0xC0" "b1 - 0x80"]) (auto simp: is_cont_def)
    then have "c = x * 64 + y" using r(3) by simp
    with xy bs r(1) show ?thesis by (simp add: utf8_char_2 is_surrogate_def)
  next
    case 3
    then obtain b1 b2 where r: "bs' = b1 # b2 # r" "is_cont b1" "is_cont b2"
        "b = 0xE0 \<longrightarrow> 0xA0 \<le> b1" "b = 0xED \<longrightarrow> b1 \<le> 0x9F"
        "c = (b - 0xE0) * 4096 + (b1 - 0x80) * 64 + (b2 - 0x80)"
      using assms bs by (auto split: list.splits if_splits)
    obtain x y z where xyz: "b = 0xE0 + x" "b1 = 0x80 + y" "b2 = 0x80 + z" "y < 64" "z < 64" "x < 16"
      using r(2,3) 3 by (intro that [of "b - 0xE0" "b1 - 0x80" "b2 - 0x80"]) (auto simp: is_cont_def)
    have c: "c = x * 4096 + y * 64 + z" using r(6) xyz by simp
    have cond: "x = 0 \<longrightarrow> 32 \<le> y" "x = 13 \<longrightarrow> y \<le> 31" using r(4,5) xyz by auto
    have "\<not> is_surrogate c"
      using cond(2) xyz(4,5,6) unfolding c is_surrogate_def by (cases "x = 13") auto
    moreover have "c < 0x110000" using xyz c by auto
    ultimately show ?thesis using bs r(1) xyz c cond(1) by (simp add: utf8_char_3)
  next
    case 4
    then obtain b1 b2 b3 where r: "bs' = b1 # b2 # b3 # r" "is_cont b1" "is_cont b2" "is_cont b3"
        "b = 0xF0 \<longrightarrow> 0x90 \<le> b1" "b = 0xF4 \<longrightarrow> b1 \<le> 0x8F"
        "c = (b - 0xF0) * 262144 + (b1 - 0x80) * 4096 + (b2 - 0x80) * 64 + (b3 - 0x80)"
      using assms bs by (auto split: list.splits if_splits)
    obtain w x y z where wxyz: "b = 0xF0 + w" "b1 = 0x80 + x" "b2 = 0x80 + y" "b3 = 0x80 + z"
        "x < 64" "y < 64" "z < 64" "w < 5"
      using r(2,3,4) 4
      by (intro that [of "b - 0xF0" "b1 - 0x80" "b2 - 0x80" "b3 - 0x80"]) (auto simp: is_cont_def)
    have c: "c = w * 262144 + x * 4096 + y * 64 + z" using r(7) wxyz by simp
    have cond: "w = 0 \<longrightarrow> 16 \<le> x" "w = 4 \<longrightarrow> x \<le> 15" using r(5,6) wxyz by auto
    have "0x10000 \<le> c" "c < 0x110000" using wxyz c cond by (cases "w = 0"; cases "w = 4"; auto)+
    then show ?thesis using bs r(1) wxyz c cond(1) by (simp add: utf8_char_4 is_surrogate_def)
  qed
qed

lemma encode_decode_utf8: "is_bytes bs \<Longrightarrow> encode_utf8 (decode_utf8 bs) = Some bs"
  unfolding encode_utf8_def decode_utf8_def
proof (induction bs rule: length_induct)
  case (1 bs)
  then have IH: "\<And>r. length r < length bs \<Longrightarrow> is_bytes r \<Longrightarrow>
      utf8_encode enc_surrogateescape (utf8_decode dec_surrogateescape r) = Some r"
    by blast
  show ?case
  proof (cases "utf8_step bs")
    case None
    show ?thesis
    proof (cases bs)
      case Nil
      then show ?thesis by simp
    next
      case (Cons b r)
      have b: "0x80 \<le> b" "b < 256" "is_bytes r"
        using None Cons 1(2) by (auto simp: is_bytes_def split: if_splits)
      have "is_surrogate (0xDC00 + b)" using b by (simp add: is_surrogate_def)
      moreover have "utf8_decode dec_surrogateescape bs = (0xDC00 + b) # utf8_decode dec_surrogateescape r"
        using None by (subst utf8_decode.simps) (simp add: Cons dec_surrogateescape_def del: utf8_step.simps)
      moreover have "utf8_encode enc_surrogateescape (utf8_decode dec_surrogateescape r) = Some r"
        using IH [of r] b Cons by simp
      moreover have "enc_surrogateescape (0xDC00 + b) = Some [b]"
        using b by (simp add: enc_surrogateescape_def)
      ultimately show ?thesis using Cons by simp
    qed
  next
    case (Some p)
    obtain c r where p: "utf8_step bs = Some (c, r)" using Some by (cases p) auto
    have bs: "bs = utf8_char c @ r" "\<not> is_surrogate c"
      using utf8_step_encodes [OF p] by auto
    have "is_bytes r" using 1(2) bs(1) by (simp add: is_bytes_def)
    then have "utf8_encode enc_surrogateescape (utf8_decode dec_surrogateescape r) = Some r"
      using IH [OF utf8_step_shorter [OF p]] by simp
    moreover have "utf8_decode dec_surrogateescape bs = c # utf8_decode dec_surrogateescape r"
      using p by (subst utf8_decode.simps) simp
    ultimately show ?thesis using bs by simp
  qed
qed


section \<open>base64\<close>

definition b64_chars :: str where
  "b64_chars = lit ''ABCDEFGHIJKLMNOPQRSTUVWXYZabcdefghijklmnopqrstuvwxyz0123456789+/''"

definition b64_char :: "nat \<Rightarrow> nat" where
  "b64_char n =
     (if n < 26 then 65 + n else if n < 52 then 71 + n else if n < 62 then n - 4
      else if n = 62 then plus else slash)"

definition b64_value :: "nat \<Rightarrow> nat option" where
  "b64_value c =
     (if 65 \<le> c \<and> c \<le> 90 then Some (c - 65)
      else if 97 \<le> c \<and> c \<le> 122 then Some (c - 71)
      else if 48 \<le> c \<and> c \<le> 57 then Some (c + 4)
      else if c = plus then Some 62 else if c = slash then Some 63 else None)"

text \<open>\<open>base64.b64encode\<close>: three bytes become four characters, the last group is padded.\<close>

fun b64encode :: "bytes \<Rightarrow> bytes" where
  "b64encode (a # b # c # r) =
     [b64_char (a div 4), b64_char (a mod 4 * 16 + b div 16), b64_char (b mod 16 * 4 + c div 64),
      b64_char (c mod 64)] @ b64encode r"
| "b64encode [a, b] =
     [b64_char (a div 4), b64_char (a mod 4 * 16 + b div 16), b64_char (b mod 16 * 4), equals_sign]"
| "b64encode [a] = [b64_char (a div 4), b64_char (a mod 4 * 16), equals_sign, equals_sign]"
| "b64encode [] = []"

text \<open>
  The strict scanner behind \<open>b64decode(s, validate=True)\<close>: position in the current group
  of four, the bits left over, the number of pad characters seen since the last data
  character, whether padding has started, and the output so far. \<open>None\<close> stands for
  \<open>binascii.Error\<close>.
\<close>

fun b64_scan :: "nat \<Rightarrow> nat \<Rightarrow> nat \<Rightarrow> bool \<Rightarrow> bytes \<Rightarrow> bytes \<Rightarrow> bytes option" where
  "b64_scan quad left pads padding out [] = (if quad = 0 then Some out else None)"
| "b64_scan quad left pads padding out (c # s) =
     (if c = equals_sign then
        (if 2 \<le> quad \<and> 4 \<le> quad + pads + 1 then (if s = [] then Some out else None)
         else b64_scan quad left (if 2 \<le> quad then pads + 1 else pads) True out s)
      else case b64_value c of
        None \<Rightarrow> None
      | Some v \<Rightarrow>
          if padding then None
          else if quad = 0 then b64_scan 1 v 0 False out s
          else if quad = 1 then b64_scan 2 (v mod 16) 0 False (out @ [left * 4 + v div 16]) s
          else if quad = 2 then b64_scan 3 (v mod 4) 0 False (out @ [left * 16 + v div 4]) s
          else b64_scan 0 0 0 False (out @ [left * 64 + v]) s)"

definition b64decode :: "bytes \<Rightarrow> bytes option" where
  "b64decode s = (if s \<noteq> [] \<and> hd s = equals_sign then None else b64_scan 0 0 0 False [] s)"

lemma b64_value_char [simp]: "n < 64 \<Longrightarrow> b64_value (b64_char n) = Some n"
  by (auto simp: b64_value_def b64_char_def)

lemma b64_char_not_pad [simp]: "n < 64 \<Longrightarrow> b64_char n \<noteq> equals_sign"
  by (auto simp: b64_char_def)

lemma b64_scan_encode:
  "is_bytes bs \<Longrightarrow> b64_scan 0 l 0 False out (b64encode bs) = Some (out @ bs)"
proof (induction bs arbitrary: out l rule: b64encode.induct)
  case (1 a b c r)
  have lt: "a div 4 < 64" "a mod 4 * 16 + b div 16 < 64" "b mod 16 * 4 + c div 64 < 64" "c mod 64 < 64"
    using 1(2) by (auto simp: is_bytes_def)
  have "a div 4 * 4 + (a mod 4 * 16 + b div 16) div 16 = a"
       "(a mod 4 * 16 + b div 16) mod 16 = b div 16"
       "(b mod 16 * 4 + c div 64) div 4 = b mod 16" "(b mod 16 * 4 + c div 64) mod 4 = c div 64"
    using 1(2) by (auto simp: is_bytes_def)
  moreover have "b div 16 * 16 + b mod 16 = b" "c div 64 * 64 + c mod 64 = c" by simp_all
  ultimately show ?case using lt 1 by (simp add: is_bytes_def)
next
  case (2 a b)
  have lt: "a div 4 < 64" "a mod 4 * 16 + b div 16 < 64" "b mod 16 * 4 < 64"
    using 2 by (auto simp: is_bytes_def)
  have "a div 4 * 4 + (a mod 4 * 16 + b div 16) div 16 = a" "(a mod 4 * 16 + b div 16) mod 16 = b div 16"
    using 2 by (auto simp: is_bytes_def)
  moreover have "b div 16 * 16 + b mod 16 * 4 div 4 = b" by simp
  ultimately show ?case using lt by simp
next
  case (3 a)
  have lt: "a div 4 < 64" "a mod 4 * 16 < 64"
    using 3 by (auto simp: is_bytes_def)
  have "a div 4 * 4 + a mod 4 * 16 div 16 = a" by simp
  then show ?case using lt by simp
next
  case 4
  then show ?case by simp
qed

lemma hd_b64encode: "is_bytes bs \<Longrightarrow> bs \<noteq> [] \<Longrightarrow> hd (b64encode bs) \<noteq> equals_sign"
  by (cases bs rule: b64encode.cases) (auto simp: is_bytes_def)

lemma b64decode_encode: "is_bytes bs \<Longrightarrow> b64decode (b64encode bs) = Some bs"
  using b64_scan_encode [of bs 0 "[]"] hd_b64encode [of bs]
  by (cases bs) (auto simp: b64decode_def)

lemma length_b64encode: "length (b64encode bs) = 4 * ((length bs + 2) div 3)"
proof (induction bs rule: b64encode.induct)
  case (1 a b c r)
  have "(length r + 5) div 3 = (length r + 2) div 3 + 1" by presburger
  then show ?case using 1 by (simp add: add.commute)
qed auto

text \<open>The encoded text is made of the 65 characters of the alphabet, none of them a space.\<close>

lemma b64_char_range: "n < 64 \<Longrightarrow> 43 \<le> b64_char n \<and> b64_char n \<le> 122"
  by (auto simp: b64_char_def)

lemma set_b64encode: "is_bytes bs \<Longrightarrow> x \<in> set (b64encode bs) \<Longrightarrow> 43 \<le> x \<and> x \<le> 122"
proof (induction bs rule: b64encode.induct)
  case (1 a b c r)
  have "a div 4 < 64" "a mod 4 * 16 + b div 16 < 64" "b mod 16 * 4 + c div 64 < 64" "c mod 64 < 64"
    using 1(2) by (auto simp: is_bytes_def)
  then show ?case using 1 b64_char_range by (auto simp: is_bytes_def)
next
  case (2 a b)
  have "a div 4 < 64" "a mod 4 * 16 + b div 16 < 64" "b mod 16 * 4 < 64"
    using 2 by (auto simp: is_bytes_def)
  then show ?case using 2 b64_char_range by auto
next
  case (3 a)
  have "a div 4 < 64" "a mod 4 * 16 < 64" using 3 by (auto simp: is_bytes_def)
  then show ?case using 3 b64_char_range by auto
qed simp

section \<open>struct.pack\<close>

fun pack_le :: "nat \<Rightarrow> nat \<Rightarrow> bytes" where
  "pack_le 0 n = []"
| "pack_le (Suc w) n = n mod 256 # pack_le w (n div 256)"

definition pack :: "bool \<Rightarrow> nat \<Rightarrow> nat \<Rightarrow> bytes" where
  "pack little w n = (if little then pack_le w n else rev (pack_le w n))"

lemma length_pack [simp]: "length (pack little w n) = w"
proof -
  have "length (pack_le w n) = w" by (induction w n rule: pack_le.induct) auto
  then show ?thesis by (simp add: pack_def)
qed

lemma is_bytes_pack [simp]: "is_bytes (pack little w n)"
proof -
  have "is_bytes (pack_le w n)" by (induction w n rule: pack_le.induct) (auto simp: is_bytes_def)
  then show ?thesis by (simp add: pack_def is_bytes_def list_all_iff)
qed

end
