(* ===== verification/Session.thy ===== *)
theory Session
  imports Persona Codecs
begin

text \<open>
  \<open>honeypot/core/session.py\<close> (\<open>SessionState\<close>) and
  \<open>honeypot/network/protocol_session.py\<close> (\<open>ProtocolSession\<close>): the state of one client
  session. The clock and the fresh id (\<open>time.time\<close>, \<open>uuid4\<close>) are arguments. The lemmas
  show that a finished session serialises to a record the schema accepts, whatever was
  logged in between, and that the first end reason wins.
\<close>

section \<open>The client's address\<close>

text \<open>What the transport calls the peer: nothing, a tuple of some length, or another value
  with its text.\<close>

datatype peer_address = NoPeer | TuplePeer "str list" "int option" | TextPeer str

text \<open>\<open>_peer_ip_and_port\<close>: a tuple's first element as text, and its second element. A tuple
  is given by its first element (if any) and, when it has two or more, the second.\<close>

definition peer_ip_and_port :: "peer_address \<Rightarrow> str option \<times> int option" where
  "peer_ip_and_port p =
     (case p of
        NoPeer \<Rightarrow> (None, None)
      | TuplePeer hosts port \<Rightarrow>
          (case hosts of [] \<Rightarrow> (None, None) | h # _ \<Rightarrow> (Some h, port))
      | TextPeer s \<Rightarrow> (Some s, None))"

section \<open>SessionState\<close>

record session =
  session_id :: str
  peer :: peer_address
  start_time :: rat
  last_active :: rat
  end_time :: "rat option"
  end_reason :: "str option"
  ses_persona :: persona
  client_version :: "str option"
  end_stage :: "str option"
  end_error :: "str option"
  commands :: "command_event list"
  command_count :: nat
  decoy_files_surfaced :: "str list"
  cwd :: str
  ses_mode :: str
  files :: "(str \<times> str) list"
  dirs :: "str list"
  written_files :: "str list"
  executable_files :: "str list"

definition initial_dirs :: "str \<Rightarrow> str list" where
  "initial_dirs home =
     remdups (map lit [''/boot'', ''/dev'', ''/dev/shm'', ''/etc'', ''/home'', ''/tmp'', ''/var'',
       ''/var/run'', ''/var/tmp''] @ [home, home @ lit ''/.ssh''])"

text \<open>\<open>SessionState(peer, persona)\<close>.\<close>

definition new_session :: "str \<Rightarrow> rat \<Rightarrow> peer_address \<Rightarrow> persona \<Rightarrow> session" where
  "new_session sid now p prs = \<lparr>
     session_id = sid, peer = p, start_time = now, last_active = now,
     end_time = None, end_reason = None, ses_persona = prs,
     client_version = None, end_stage = None, end_error = None,
     commands = [], command_count = 0, decoy_files_surfaced = [],
     cwd = home_dir prs, ses_mode = lit ''unknown'',
     files = file_map prs,
     dirs = initial_dirs (home_dir prs), written_files = [], executable_files = []\<rparr>"

text \<open>The text of a command as \<open>log_command\<close> stores it: surrogate escapes become \<open>\xNN\<close>.\<close>

definition loggable :: "str \<Rightarrow> str" where
  "loggable c =
     utf8_decode dec_backslashreplace
       (case utf8_encode enc_surrogateescape c of
          Some raw \<Rightarrow> raw
        | None \<Rightarrow> (case utf8_encode enc_backslashreplace c of Some raw \<Rightarrow> raw | None \<Rightarrow> []))"

definition log_command :: "rat \<Rightarrow> str \<Rightarrow> session \<Rightarrow> session" where
  "log_command now c s =
     s\<lparr>commands := commands s @ [\<lparr>ev_cmd = loggable c, ev_time = now\<rparr>],
       command_count := command_count s + 1,
       last_active := now\<rparr>"

definition prompt :: "session \<Rightarrow> str" where
  "prompt s =
     (let symbol = (if username (ses_persona s) = lit ''root'' then lit ''#'' else lit ''$'')
      in username (ses_persona s) @ lit ''@'' @ hostname (ses_persona s) @ lit '':'' @ cwd s @ symbol @ lit '' '')"

definition record_decoy_file_surfaced :: "str \<Rightarrow> session \<Rightarrow> session" where
  "record_decoy_file_surfaced p s =
     (if p \<in> set (decoy_files_surfaced s) then s
      else s\<lparr>decoy_files_surfaced := decoy_files_surfaced s @ [p]\<rparr>)"

definition finalize :: "rat \<Rightarrow> str \<Rightarrow> session \<Rightarrow> session" where
  "finalize now reason s =
     (if end_time s = None then s\<lparr>end_time := Some now, end_reason := Some reason\<rparr> else s)"

definition to_record :: "session \<Rightarrow> session_record outcome" where
  "to_record s =
     (case (end_time s, end_reason s) of
        (Some ended, Some reason) \<Rightarrow>
          (let ipp = peer_ip_and_port (peer s) in
           Done \<lparr>rec_schema_version = 1, rec_session_id = session_id s, rec_protocol = lit ''tcp_shell'',
             rec_peer_ip = fst ipp, rec_peer_port = snd ipp,
             rec_latitude = None, rec_longitude = None,
             rec_persona_id = persona_id (ses_persona s),
             rec_started_at = start_time s, rec_ended_at = ended,
             rec_duration_seconds = ended - start_time s,
             rec_end_reason = reason,
             rec_command_count = int (command_count s),
             rec_commands = commands s,
             rec_decoy_files_surfaced = decoy_files_surfaced s,
             rec_client_version = client_version s, rec_end_stage = end_stage s,
             rec_end_error = end_error s\<rparr>)
      | _ \<Rightarrow> Raised (ValueError (lit ''Cannot serialize an active session'')))"

definition active_record :: "rat \<Rightarrow> session \<Rightarrow> session_record" where
  "active_record now s =
     (let ipp = peer_ip_and_port (peer s) in
      \<lparr>rec_schema_version = 1, rec_session_id = session_id s, rec_protocol = lit ''tcp_shell'',
       rec_peer_ip = fst ipp, rec_peer_port = snd ipp,
       rec_latitude = None, rec_longitude = None,
       rec_persona_id = persona_id (ses_persona s),
       rec_started_at = start_time s, rec_ended_at = now,
       rec_duration_seconds = now - start_time s,
       rec_end_reason = lit ''disconnect'',
       rec_command_count = int (command_count s),
       rec_commands = commands s,
       rec_decoy_files_surfaced = decoy_files_surfaced s,
       rec_client_version = None, rec_end_stage = None, rec_end_error = None\<rparr>)"

section \<open>ProtocolSession\<close>

record protocol_session =
  ps_session_id :: str
  ps_peer :: peer_address
  ps_protocol :: str
  ps_persona :: persona
  ps_start_time :: rat
  ps_end_time :: "rat option"
  ps_end_reason :: "str option"
  ps_commands :: "command_event list"

definition new_protocol_session ::
    "str \<Rightarrow> rat \<Rightarrow> peer_address \<Rightarrow> str \<Rightarrow> persona \<Rightarrow> protocol_session" where
  "new_protocol_session sid now p proto prs =
     \<lparr>ps_session_id = sid, ps_peer = p, ps_protocol = proto, ps_persona = prs, ps_start_time = now,
      ps_end_time = None, ps_end_reason = None, ps_commands = []\<rparr>"

definition ps_log_command :: "rat \<Rightarrow> str \<Rightarrow> protocol_session \<Rightarrow> protocol_session" where
  "ps_log_command now c s =
     (if c \<noteq> [] then s\<lparr>ps_commands := ps_commands s @ [\<lparr>ev_cmd = c, ev_time = now\<rparr>]\<rparr> else s)"

definition ps_finalize :: "rat \<Rightarrow> str \<Rightarrow> protocol_session \<Rightarrow> protocol_session" where
  "ps_finalize now reason s =
     (if ps_end_time s = None then s\<lparr>ps_end_time := Some now, ps_end_reason := Some reason\<rparr> else s)"

definition ps_to_record :: "protocol_session \<Rightarrow> session_record outcome" where
  "ps_to_record s =
     (case (ps_end_time s, ps_end_reason s) of
        (Some ended, Some reason) \<Rightarrow>
          (let ipp = peer_ip_and_port (ps_peer s) in
           Done \<lparr>rec_schema_version = 1, rec_session_id = ps_session_id s, rec_protocol = ps_protocol s,
             rec_peer_ip = fst ipp, rec_peer_port = snd ipp,
             rec_latitude = None, rec_longitude = None,
             rec_persona_id = persona_id (ps_persona s),
             rec_started_at = ps_start_time s, rec_ended_at = ended,
             rec_duration_seconds = ended - ps_start_time s,
             rec_end_reason = reason,
             rec_command_count = int (length (ps_commands s)),
             rec_commands = ps_commands s,
             rec_decoy_files_surfaced = [],
             rec_client_version = None, rec_end_stage = None, rec_end_error = None\<rparr>)
      | _ \<Rightarrow> Raised (ValueError (lit ''Cannot serialize an active session'')))"

section \<open>Facts\<close>

lemma utf8_char_nonempty [simp]: "utf8_char c \<noteq> []"
  by (simp add: utf8_char_def)

lemma utf8_encode_nonempty:
  "(\<And>c bs. h c = Some bs \<Longrightarrow> bs \<noteq> []) \<Longrightarrow> utf8_encode h s = Some raw \<Longrightarrow> s \<noteq> [] \<Longrightarrow> raw \<noteq> []"
  by (cases s) (auto split: option.splits if_splits)

lemma utf8_decode_nonempty:
  "(\<And>b. h b \<noteq> []) \<Longrightarrow> raw \<noteq> [] \<Longrightarrow> utf8_decode h raw \<noteq> []"
  by (subst utf8_decode.simps) (cases raw, auto split: option.splits)

lemma utf8_encode_backslashreplace: "\<exists>raw. utf8_encode enc_backslashreplace s = Some raw"
  by (induction s) (auto simp: enc_backslashreplace_def)

text \<open>A non-empty command stays non-empty in the log.\<close>

lemma loggable_nonempty: "c \<noteq> [] \<Longrightarrow> loggable c \<noteq> []"
proof -
  assume c: "c \<noteq> []"
  obtain raw2 where r2: "utf8_encode enc_backslashreplace c = Some raw2"
    using utf8_encode_backslashreplace by blast
  have ne2: "raw2 \<noteq> []"
    using utf8_encode_nonempty [OF _ r2 c] by (auto simp: enc_backslashreplace_def)
  have esc: "enc_surrogateescape d = Some bs \<Longrightarrow> bs \<noteq> []" for d bs
    by (auto simp: enc_surrogateescape_def split: if_splits)
  have ne1: "utf8_encode enc_surrogateescape c = Some raw1 \<Longrightarrow> raw1 \<noteq> []" for raw1
    using utf8_encode_nonempty [of enc_surrogateescape c raw1] esc c by blast
  have dec: "raw \<noteq> [] \<Longrightarrow> utf8_decode dec_backslashreplace raw \<noteq> []" for raw
    by (rule utf8_decode_nonempty) (simp_all add: dec_backslashreplace_def)
  show ?thesis
    using ne1 ne2 r2 dec by (auto simp: loggable_def split: option.splits)
qed

lemma loggable_plain: "plain_text c \<Longrightarrow> loggable c = c"
  by (simp add: loggable_def utf8_encode_plain utf8_decode_plain)

text \<open>What each operation leaves alone.\<close>

lemma log_command_simps [simp, session_simps]:
  "commands (log_command now c s) = commands s @ [\<lparr>ev_cmd = loggable c, ev_time = now\<rparr>]"
  "command_count (log_command now c s) = command_count s + 1"
  "last_active (log_command now c s) = now"
  "decoy_files_surfaced (log_command now c s) = decoy_files_surfaced s"
  "files (log_command now c s) = files s"
  "dirs (log_command now c s) = dirs s"
  "written_files (log_command now c s) = written_files s"
  "executable_files (log_command now c s) = executable_files s"
  "ses_persona (log_command now c s) = ses_persona s"
  "cwd (log_command now c s) = cwd s"
  "end_time (log_command now c s) = end_time s"
  "end_reason (log_command now c s) = end_reason s"
  "start_time (log_command now c s) = start_time s"
  by (simp_all add: log_command_def)

lemma record_decoy_simps [simp, session_simps]:
  "commands (record_decoy_file_surfaced p s) = commands s"
  "command_count (record_decoy_file_surfaced p s) = command_count s"
  "files (record_decoy_file_surfaced p s) = files s"
  "dirs (record_decoy_file_surfaced p s) = dirs s"
  "written_files (record_decoy_file_surfaced p s) = written_files s"
  "executable_files (record_decoy_file_surfaced p s) = executable_files s"
  "ses_persona (record_decoy_file_surfaced p s) = ses_persona s"
  "cwd (record_decoy_file_surfaced p s) = cwd s"
  "end_time (record_decoy_file_surfaced p s) = end_time s"
  "start_time (record_decoy_file_surfaced p s) = start_time s"
  "set (decoy_files_surfaced (record_decoy_file_surfaced p s)) = insert p (set (decoy_files_surfaced s))"
  by (auto simp: record_decoy_file_surfaced_def)

lemma record_decoy_distinct:
  "distinct (decoy_files_surfaced s) \<Longrightarrow> distinct (decoy_files_surfaced (record_decoy_file_surfaced p s))"
  by (simp add: record_decoy_file_surfaced_def)

text \<open>finalizing twice keeps the first end time and reason.\<close>

theorem finalize_first_wins: "finalize t2 r2 (finalize t1 r1 s) = finalize t1 r1 s"
  by (simp add: finalize_def)

text \<open>The part of a live session the record is built from: the command count agrees with the
  log, the log is ordered and non-empty, the surfaced decoys are safe paths, once each.\<close>

definition log_consistent :: "session \<Rightarrow> bool" where
  "log_consistent s \<longleftrightarrow>
     command_count s = length (commands s)
     \<and> list_all (\<lambda>e. ev_cmd e \<noteq> []) (commands s)
     \<and> times_ordered (start_time s) (commands s) (last_active s)
     \<and> start_time s \<le> last_active s
     \<and> distinct (decoy_files_surfaced s)
     \<and> list_all safe_decoy_path (decoy_files_surfaced s)"

lemma times_ordered_extend:
  "times_ordered a cs b \<Longrightarrow> b \<le> t \<Longrightarrow> a \<le> t \<Longrightarrow> ev_time e = t \<Longrightarrow> times_ordered a (cs @ [e]) t"
  by (auto simp: times_ordered_def sorted_append list_all_iff)

lemma times_ordered_later: "times_ordered a cs b \<Longrightarrow> b \<le> t \<Longrightarrow> times_ordered a cs t"
  by (auto simp: times_ordered_def list_all_iff)

lemma log_consistent_new: "log_consistent (new_session sid now p prs)"
  by (simp add: log_consistent_def new_session_def times_ordered_def)

lemma log_consistent_log_command:
  "log_consistent s \<Longrightarrow> last_active s \<le> now \<Longrightarrow> c \<noteq> [] \<Longrightarrow> log_consistent (log_command now c s)"
  by (auto simp: log_consistent_def loggable_nonempty intro!: times_ordered_extend)

text \<open>The fields of the record that only depend on where the session came from.\<close>

definition origin_ok :: "(str \<Rightarrow> bool) \<Rightarrow> (str \<Rightarrow> bool) \<Rightarrow> session \<Rightarrow> bool" where
  "origin_ok ip_ok uuid_ok s \<longleftrightarrow>
     uuid_ok (session_id s)
     \<and> opt_all ip_ok (fst (peer_ip_and_port (peer s)))
     \<and> opt_all (\<lambda>p. 1 \<le> p \<and> p \<le> 65535) (snd (peer_ip_and_port (peer s)))
     \<and> persona_id (ses_persona s) \<noteq> []
     \<and> opt_all (\<lambda>v. length v \<le> 255) (client_version s)
     \<and> opt_all (\<lambda>v. v \<in> set ssh_end_stages) (end_stage s)
     \<and> opt_all (\<lambda>v. length v \<le> 1000) (end_error s)"

lemma to_record_validates:
  assumes "log_consistent s" "origin_ok ip_ok uuid_ok s" "end_time s = None"
    and "last_active s \<le> now" "reason \<in> set end_reasons"
  shows "\<exists>r. to_record (finalize now reason s) = Done r \<and> model_validate ip_ok uuid_ok r = Done r"
proof -
  have "start_time s \<le> now" using assms(1,4) by (simp add: log_consistent_def)
  moreover have "times_ordered (start_time s) (commands s) now"
    using assms(1,4) times_ordered_later by (auto simp: log_consistent_def)
  moreover have "lit ''tcp_shell'' \<in> set protocols" by (simp add: protocols_def)
  ultimately show ?thesis
    using assms
    by (simp add: finalize_def to_record_def Let_def model_validate_iff fields_valid_def
        record_consistent_def log_consistent_def origin_ok_def)
qed

text \<open>an active session cannot be serialised, and a finalised one can.\<close>

theorem to_record_iff_finalized:
  "(\<exists>r. to_record s = Done r) \<longleftrightarrow> end_time s \<noteq> None \<and> end_reason s \<noteq> None"
  by (auto simp: to_record_def Let_def split: option.splits)

end
