(* ===== verification/Vfs.thy ===== *)
theory Vfs
  imports Session
begin

text \<open>
  The virtual file system of \<open>honeypot/core/engine.py\<close>: path resolution, the directory
  listings, what is at a path, and the primitive changes a visitor can make to a session
  (\<open>_store\<close>, \<open>_remove\<close>, a new directory, an executable bit, the working directory, a
  surfaced decoy). Everything a shell command does to a session is a sequence of these
  primitives; the locale \<open>session_invariant\<close> states what an invariant has to survive,
  and the components that use this one prove once, inside it, that they keep it.
\<close>

section \<open>The machine the persona shows\<close>

definition SYSTEM_PROGRAMS :: "str list" where
  "SYSTEM_PROGRAMS = map lit [''base64'', ''bash'', ''cat'', ''chmod'', ''clear'', ''cp'', ''curl'',
     ''echo'', ''grep'', ''head'', ''hostname'', ''id'', ''ls'', ''mkdir'', ''netstat'', ''ps'', ''pwd'',
     ''rm'', ''sh'', ''ss'', ''tail'', ''touch'', ''uname'', ''wc'', ''wget'', ''whoami'']"

definition BUSYBOX_APPLETS :: "str list" where
  "BUSYBOX_APPLETS = map lit [''base64'', ''cat'', ''chmod'', ''clear'', ''cp'', ''echo'', ''grep'', ''head'',
     ''hostname'', ''id'', ''ls'', ''mkdir'', ''netstat'', ''ps'', ''pwd'', ''rm'', ''sh'', ''tail'', ''touch'',
     ''uname'', ''wc'', ''wget'', ''whoami'']"

definition BUSYBOX_PROGRAMS :: "str list" where
  "BUSYBOX_PROGRAMS = lit ''busybox'' # BUSYBOX_APPLETS"

definition ASH_BUILTINS :: "str list" where
  "ASH_BUILTINS = map lit [''cd'', ''echo'', ''exit'', ''help'', ''logout'', ''pwd'', ''quit'']"

definition MAX_WRITTEN_CHARS :: nat where
  "MAX_WRITTEN_CHARS = 1000000"

definition is_busybox :: "session \<Rightarrow> bool" where
  "is_busybox s = contains (os_banner (ses_persona s)) (lit ''BusyBox'')"

definition shell_name :: "session \<Rightarrow> str" where
  "shell_name s = (if is_busybox s then lit ''-sh'' else lit ''bash'')"

definition programs :: "session \<Rightarrow> str list" where
  "programs s = (if is_busybox s then BUSYBOX_PROGRAMS else SYSTEM_PROGRAMS)"

definition system_programs :: "session \<Rightarrow> str list" where
  "system_programs s =
     [directory @ slash # name. directory \<leftarrow> map lit [''/bin'', ''/usr/bin''], name \<leftarrow> programs s]"

subsection \<open>The header of a program file\<close>

record elf_cpu =
  elf_bits :: nat
  elf_little :: bool
  elf_machine :: nat
  elf_flags :: nat

definition ELF_CPUS :: "(str \<times> elf_cpu) list" where
  "ELF_CPUS =
     [(lit ''x86_64'', \<lparr>elf_bits = 64, elf_little = True, elf_machine = 0x3E, elf_flags = 0\<rparr>),
      (lit ''aarch64'', \<lparr>elf_bits = 64, elf_little = True, elf_machine = 0xB7, elf_flags = 0\<rparr>),
      (lit ''i686'', \<lparr>elf_bits = 32, elf_little = True, elf_machine = 0x03, elf_flags = 0\<rparr>),
      (lit ''armv7l'', \<lparr>elf_bits = 32, elf_little = True, elf_machine = 0x28, elf_flags = 0x05000400\<rparr>),
      (lit ''mips'', \<lparr>elf_bits = 32, elf_little = False, elf_machine = 0x08, elf_flags = 0x70001007\<rparr>),
      (lit ''mipsel'', \<lparr>elf_bits = 32, elf_little = True, elf_machine = 0x08, elf_flags = 0x70001007\<rparr>)]"

definition pack_fields :: "bool \<Rightarrow> (nat \<times> nat) list \<Rightarrow> bytes" where
  "pack_fields little values = concat (map (\<lambda>(w, n). pack little w n) values)"

definition elf_bytes :: "elf_cpu \<Rightarrow> bytes" where
  "elf_bytes cpu =
     (let ident = [0x7F, 0x45, 0x4C, 0x46, if elf_bits cpu = 64 then 2 else 1,
                   if elf_little cpu then 1 else 2, 1] @ replicate 9 0;
          rest = (if elf_bits cpu = 64
             then pack_fields (elf_little cpu)
               [(2, 3), (2, elf_machine cpu), (4, 1), (8, 0x2850), (8, 0x40), (8, 0x8A38), (4, elf_flags cpu),
                (2, 0x40), (2, 0x38), (2, 13), (2, 0x40), (2, 31), (2, 30)]
             else pack_fields (elf_little cpu)
               [(2, 2), (2, elf_machine cpu), (4, 1), (4, 0x00401350), (4, 0x34), (4, 0x7A20), (4, elf_flags cpu),
                (2, 0x34), (2, 0x20), (2, 10), (2, 0x28), (2, 29), (2, 28)])
      in ident @ rest @ replicate 64 0)"

definition elf_cpu_of :: "str \<Rightarrow> elf_cpu" where
  "elf_cpu_of uname =
     (let machine = (case find (\<lambda>part. dict_has ELF_CPUS part) (split_words uname) of
                       Some m \<Rightarrow> m | None \<Rightarrow> lit ''x86_64'')
      in case dict_get ELF_CPUS machine of
           Some cpu \<Rightarrow> cpu
         | None \<Rightarrow> \<lparr>elf_bits = 64, elf_little = True, elf_machine = 0x3E, elf_flags = 0\<rparr>)"

definition elf_header :: "str \<Rightarrow> str" where
  "elf_header uname = decode_utf8 (elf_bytes (elf_cpu_of uname))"

section \<open>Path resolution\<close>

definition raw_path :: "session \<Rightarrow> str \<Rightarrow> str" where
  "raw_path s p =
     (if p = [] \<or> p = lit ''.'' then cwd s
      else if p = lit ''~'' then home_dir (ses_persona s)
      else if startswith p (lit ''~/'') then home_dir (ses_persona s) @ lit ''/'' @ drop 2 p
      else if startswith p (lit ''/'') then p
      else cwd s @ lit ''/'' @ p)"

fun resolve_parts :: "str list \<Rightarrow> str list \<Rightarrow> str list" where
  "resolve_parts ps [] = ps"
| "resolve_parts ps (q # qs) =
     (if q = [] \<or> q = lit ''/'' \<or> q = lit ''.'' then resolve_parts ps qs
      else if q = lit ''..'' then resolve_parts (if ps \<noteq> [] then butlast ps else ps) qs
      else resolve_parts (ps @ [q]) qs)"

definition resolve_path :: "session \<Rightarrow> str \<Rightarrow> str" where
  "resolve_path s p = lit ''/'' @ join (lit ''/'') (resolve_parts [] (path_parts (pure_path (raw_path s p))))"

section \<open>Listings\<close>

type_synonym listings = "(str \<times> str list) list"

definition base_listings :: "str list \<Rightarrow> listings" where
  "base_listings names =
     [(lit ''/'', map lit [''bin'', ''boot'', ''dev'', ''etc'', ''home'', ''tmp'', ''usr'', ''var'']),
      (lit ''/bin'', names), (lit ''/usr'', [lit ''bin'']), (lit ''/usr/bin'', names)]"

text \<open>\<open>directories.setdefault(d, set()).add(part)\<close> and \<open>directories.setdefault(d, set())\<close>.\<close>

definition add_name :: "str \<Rightarrow> str \<Rightarrow> listings \<Rightarrow> listings" where
  "add_name d part l =
     dict_put d (List.insert part (case dict_get l d of None \<Rightarrow> [] | Some ns \<Rightarrow> ns)) l"

definition ensure_dir :: "str \<Rightarrow> listings \<Rightarrow> listings" where
  "ensure_dir d l = (if dict_has l d then l else dict_put d [] l)"

definition path_pieces :: "str \<Rightarrow> str list" where
  "path_pieces p = filter (\<lambda>part. part \<noteq> []) (split_on slash (strip_if (\<lambda>c. c = slash) p))"

fun add_path :: "bool \<Rightarrow> str \<Rightarrow> str list \<Rightarrow> listings \<Rightarrow> listings" where
  "add_path is_file current [] l = l"
| "add_path is_file current (part # rest) l =
     (let l1 = add_name current part l; is_last = (rest = []) in
      if is_last \<and> is_file then add_path is_file current rest l1
      else let below = (if current = lit ''/'' then lit ''/'' @ part else current @ lit ''/'' @ part)
           in add_path is_file below rest (ensure_dir below l1))"

definition build_listings :: "session \<Rightarrow> listings" where
  "build_listings s =
     fold (\<lambda>(p, is_file). add_path is_file (lit ''/'') (path_pieces p))
       (map (\<lambda>p. (p, True)) (dict_keys (files s)) @ map (\<lambda>d. (d, False)) (dirs s))
       (base_listings (programs s))"

section \<open>What is at a path\<close>

datatype node = Dir | File

definition kind :: "session \<Rightarrow> str \<Rightarrow> node option" where
  "kind s p =
     (if dict_has (build_listings s) p then Some Dir
      else if dict_has (files s) p \<or> p \<in> set (system_programs s) then Some File
      else None)"

definition parent_of :: "str \<Rightarrow> str" where
  "parent_of p = path_str (path_parent (pure_path p))"

section \<open>Changing the session\<close>

definition written_size :: "session \<Rightarrow> str \<Rightarrow> nat" where
  "written_size s p = (case dict_get (files s) p of None \<Rightarrow> 0 | Some c \<Rightarrow> length c)"

text \<open>\<open>_store\<close>: false, and no change, once the session's files are full.\<close>

definition store :: "session \<Rightarrow> str \<Rightarrow> str \<Rightarrow> bool \<Rightarrow> bool \<times> session" where
  "store s p text appending =
     (let content = (if appending then (case dict_get (files s) p of None \<Rightarrow> [] | Some c \<Rightarrow> c) else []) @ text;
          used = sum_list (map (written_size s)
                   (filter (\<lambda>w. w \<noteq> p \<and> dict_has (files s) w) (written_files s)))
      in if MAX_WRITTEN_CHARS < used + length content then (False, s)
         else (True, s\<lparr>files := dict_put p content (files s), written_files := List.insert p (written_files s)\<rparr>))"

definition inside_prefix :: "str \<Rightarrow> str" where
  "inside_prefix p = (if p = lit ''/'' then lit ''/'' else p @ lit ''/'')"

definition removed_by :: "str \<Rightarrow> str \<Rightarrow> bool" where
  "removed_by p item \<longleftrightarrow> item = p \<or> startswith item (inside_prefix p)"

definition remove :: "session \<Rightarrow> str \<Rightarrow> session" where
  "remove s p =
     (let keep = (\<lambda>item. \<not> removed_by p item) in
      s\<lparr>files := filter (\<lambda>kv. keep (fst kv)) (files s), dirs := filter keep (dirs s),
        written_files := filter keep (written_files s),
        executable_files := filter keep (executable_files s)\<rparr>)"

definition make_dir :: "str \<Rightarrow> session \<Rightarrow> session" where
  "make_dir p s = s\<lparr>dirs := List.insert p (dirs s)\<rparr>"

definition mark_executable :: "str \<Rightarrow> bool \<Rightarrow> session \<Rightarrow> session" where
  "mark_executable p b s =
     s\<lparr>executable_files := (if b then List.insert p (executable_files s)
                             else filter (\<lambda>q. q \<noteq> p) (executable_files s))\<rparr>"

definition change_dir :: "str \<Rightarrow> session \<Rightarrow> session" where
  "change_dir p s = s\<lparr>cwd := p\<rparr>"

text \<open>\<open>_open_for_writing\<close>: the shell's error text, or \<open>None\<close> when the file is open.\<close>

definition open_for_writing :: "session \<Rightarrow> str \<Rightarrow> str \<Rightarrow> bool \<Rightarrow> str option \<times> session" where
  "open_for_writing s operand p appending =
     (let parent = kind s (parent_of p);
          result = (if kind s p = Some Dir then (Some (lit ''Is a directory''), s)
            else if parent = Some File then (Some (lit ''Not a directory''), s)
            else if parent = None then (Some (lit ''No such file or directory''), s)
            else (case store s p [] appending of
                    (True, s') \<Rightarrow> (None, s')
                  | (False, s') \<Rightarrow> (Some (lit ''No space left on device''), s')))
      in case result of
           (None, s') \<Rightarrow> (None, s')
         | (Some reason, s') \<Rightarrow>
             (Some (if is_busybox s then
                let shown = (if reason = lit ''No such file or directory'' then lit ''nonexistent directory'' else reason)
                in shell_name s @ lit '': can't create '' @ operand @ lit '': '' @ shown @ [newline]
              else lit ''bash: '' @ operand @ lit '': '' @ reason @ [newline]), s'))"

section \<open>Reading\<close>

text \<open>\<open>_read_one\<close>: the contents, or \<open>None\<close> with the program's error.\<close>

definition read_one :: "session \<Rightarrow> str \<Rightarrow> str \<Rightarrow> (str option \<times> str) \<times> session" where
  "read_one s cmd operand =
     (let target = resolve_path s operand in
      case dict_get (files s) target of
        Some content \<Rightarrow>
          ((Some (if endswith content [newline] then content else content @ [newline]), []),
           (if target \<notin> set (written_files s) then record_decoy_file_surfaced target s else s))
      | None \<Rightarrow>
          ((if target \<in> set (system_programs s) then (Some (elf_header (uname_output (ses_persona s))), [])
            else if dict_has (build_listings s) target then
              (None, if is_busybox s then cmd @ lit '': read error: Is a directory'' @ [newline]
                     else cmd @ lit '': '' @ operand @ lit '': Is a directory'' @ [newline])
            else if is_busybox s \<and> cmd \<in> set (map lit [''cat'', ''head'', ''tail'']) then
              (None, cmd @ lit '': can't open '' @ [squote] @ operand @ [squote]
                       @ lit '': No such file or directory'' @ [newline])
            else (None, cmd @ lit '': '' @ operand @ lit '': No such file or directory'' @ [newline])), s))"

text \<open>\<open>_read_files\<close>: the operands one after another; "-" is the piped input.\<close>

fun read_files :: "session \<Rightarrow> str \<Rightarrow> str list \<Rightarrow> str option \<Rightarrow> (str \<times> bool) \<times> session" where
  "read_files s cmd [] stdin = (([], True), s)"
| "read_files s cmd (operand # rest) stdin =
     (if operand = lit ''-'' then
        (case read_files s cmd rest stdin of
           ((text, ok), s') \<Rightarrow> (((case stdin of None \<Rightarrow> [] | Some t \<Rightarrow> t) @ text, ok), s'))
      else case read_one s cmd operand of
        ((content, err), s1) \<Rightarrow>
          (case read_files s1 cmd rest stdin of
             ((text, ok), s') \<Rightarrow>
               (case content of
                  None \<Rightarrow> ((err @ text, False), s')
                | Some c \<Rightarrow> ((c @ text, ok), s'))))"

text \<open>\<open>_input_for\<close>: the text a filter reads, and the error messages.\<close>

fun input_files :: "session \<Rightarrow> str \<Rightarrow> str list \<Rightarrow> str option \<Rightarrow> (str \<times> str) \<times> session" where
  "input_files s cmd [] stdin = (([], []), s)"
| "input_files s cmd (operand # rest) stdin =
     (if operand = lit ''-'' then
        (case input_files s cmd rest stdin of
           ((text, errs), s') \<Rightarrow> (((case stdin of None \<Rightarrow> [] | Some t \<Rightarrow> t) @ text, errs), s'))
      else case read_one s cmd operand of
        ((content, err), s1) \<Rightarrow>
          (case input_files s1 cmd rest stdin of
             ((text, errs), s') \<Rightarrow>
               (case content of
                  None \<Rightarrow> ((text, err @ errs), s')
                | Some c \<Rightarrow> ((c @ text, errs), s'))))"

definition input_for :: "session \<Rightarrow> str \<Rightarrow> str list \<Rightarrow> str option \<Rightarrow> (str \<times> str) \<times> session" where
  "input_for s cmd operands stdin =
     (if operands = [] then (((case stdin of None \<Rightarrow> [] | Some t \<Rightarrow> t), []), s)
      else input_files s cmd operands stdin)"


section \<open>What the primitives change\<close>

lemma store_False: "store s p t a = (False, s') \<Longrightarrow> s' = s"
  by (auto simp: store_def Let_def split: if_splits)

lemma store_frame [simp, session_simps]:
  "commands (snd (store s p t a)) = commands s"
  "command_count (snd (store s p t a)) = command_count s"
  "decoy_files_surfaced (snd (store s p t a)) = decoy_files_surfaced s"
  "dirs (snd (store s p t a)) = dirs s"
  "executable_files (snd (store s p t a)) = executable_files s"
  "ses_persona (snd (store s p t a)) = ses_persona s"
  "cwd (snd (store s p t a)) = cwd s"
  "end_time (snd (store s p t a)) = end_time s"
  "start_time (snd (store s p t a)) = start_time s"
  by (simp_all add: store_def Let_def)

lemma store_files:
  "files (snd (store s p t a)) = files s \<and> written_files (snd (store s p t a)) = written_files s \<or>
   (\<exists>c. files (snd (store s p t a)) = dict_put p c (files s)
     \<and> written_files (snd (store s p t a)) = List.insert p (written_files s))"
  by (auto simp: store_def Let_def)

text \<open>What a successful store writes.\<close>

lemma store_True:
  assumes "store s p t a = (True, s')"
  shows "dict_get (files s') p =
      Some ((if a then (case dict_get (files s) p of None \<Rightarrow> [] | Some c \<Rightarrow> c) else []) @ t)"
    and "q \<noteq> p \<Longrightarrow> dict_get (files s') q = dict_get (files s) q"
    and "set (written_files s') = insert p (set (written_files s))"
  using assms by (auto simp: store_def Let_def split: if_splits)

lemma remove_frame [simp, session_simps]:
  "commands (remove s p) = commands s"
  "command_count (remove s p) = command_count s"
  "decoy_files_surfaced (remove s p) = decoy_files_surfaced s"
  "ses_persona (remove s p) = ses_persona s"
  "cwd (remove s p) = cwd s"
  "end_time (remove s p) = end_time s"
  "start_time (remove s p) = start_time s"
  by (simp_all add: remove_def Let_def)

lemma remove_collections:
  "dict_get (files (remove s p)) q = (if removed_by p q then None else dict_get (files s) q)"
  "dict_keys (files (remove s p)) = filter (\<lambda>q. \<not> removed_by p q) (dict_keys (files s))"
  "dirs (remove s p) = filter (\<lambda>q. \<not> removed_by p q) (dirs s)"
  "written_files (remove s p) = filter (\<lambda>q. \<not> removed_by p q) (written_files s)"
  "executable_files (remove s p) = filter (\<lambda>q. \<not> removed_by p q) (executable_files s)"
  by (simp_all add: remove_def Let_def dict_get_filter [where P = "\<lambda>q. \<not> removed_by p q"]
      dict_keys_filter [where P = "\<lambda>q. \<not> removed_by p q"])

lemma set_primitives [simp, session_simps]:
  "set (dirs (make_dir p s)) = insert p (set (dirs s))"
  "files (make_dir p s) = files s"
  "written_files (make_dir p s) = written_files s"
  "ses_persona (make_dir p s) = ses_persona s"
  "files (mark_executable p b s) = files s"
  "dirs (mark_executable p b s) = dirs s"
  "written_files (mark_executable p b s) = written_files s"
  "ses_persona (mark_executable p b s) = ses_persona s"
  "files (change_dir p s) = files s"
  "dirs (change_dir p s) = dirs s"
  "written_files (change_dir p s) = written_files s"
  "ses_persona (change_dir p s) = ses_persona s"
  "cwd (change_dir p s) = p"
  by (auto simp: make_dir_def mark_executable_def change_dir_def)

section \<open>Invariants of a session\<close>

text \<open>
  The interface between the session and the shell: an invariant that survives the
  primitives survives every command, since a command changes the session through them
  alone. \<open>I_surface\<close> only has to hold for a file of the session the visitor did not
  write, and \<open>I_chdir\<close> only for a directory that exists, because the shell checks both.
\<close>

locale session_invariant =
  fixes I :: "session \<Rightarrow> bool"
  assumes I_surface: "I s \<Longrightarrow> dict_has (files s) p \<Longrightarrow> p \<notin> set (written_files s) \<Longrightarrow>
      I (record_decoy_file_surfaced p s)"
    and I_store: "I s \<Longrightarrow> I (snd (store s p t a))"
    and I_remove: "I s \<Longrightarrow> I (remove s p)"
    and I_make_dir: "I s \<Longrightarrow> I (make_dir p s)"
    and I_mark: "I s \<Longrightarrow> I (mark_executable p b s)"
    and I_chdir: "I s \<Longrightarrow> dict_has (build_listings s) p \<Longrightarrow> I (change_dir p s)"
begin

lemma I_store_result: "I s \<Longrightarrow> store s p t a = (b, s') \<Longrightarrow> I s'"
  using I_store [of s p t a] by simp

lemma I_open_for_writing: "I s \<Longrightarrow> I (snd (open_for_writing s operand p a))"
  by (auto simp: open_for_writing_def Let_def split: prod.splits option.splits bool.splits if_splits
      intro: I_store_result)

lemma I_read_one: "I s \<Longrightarrow> I (snd (read_one s c operand))"
  by (auto simp: read_one_def Let_def dict_has_def split: option.splits intro: I_surface)

lemma I_read_files: "I s \<Longrightarrow> I (snd (read_files s c operands stdin))"
proof (induction s c operands stdin rule: read_files.induct)
  case (2 s c operand rest stdin)
  show ?case
  proof (cases "operand = lit ''-''")
    case True
    then show ?thesis using 2 by (auto split: prod.splits)
  next
    case False
    obtain content err s1 where r: "read_one s c operand = ((content, err), s1)"
      by (metis prod.collapse)
    then have "I s1" using I_read_one [OF 2(3), of c operand] by simp
    then show ?thesis using 2(2) [OF False r [symmetric]] False r
      by (auto split: prod.splits option.splits)
  qed
qed simp

lemma I_input_files: "I s \<Longrightarrow> I (snd (input_files s c operands stdin))"
proof (induction s c operands stdin rule: input_files.induct)
  case (2 s c operand rest stdin)
  show ?case
  proof (cases "operand = lit ''-''")
    case True
    then show ?thesis using 2 by (auto split: prod.splits)
  next
    case False
    obtain content err s1 where r: "read_one s c operand = ((content, err), s1)"
      by (metis prod.collapse)
    then have "I s1" using I_read_one [OF 2(3), of c operand] by simp
    then show ?thesis using 2(2) [OF False r [symmetric]] False r
      by (auto split: prod.splits option.splits)
  qed
qed simp

lemma I_input_for: "I s \<Longrightarrow> I (snd (input_for s c operands stdin))"
  by (simp add: input_for_def I_input_files)

lemma I_input_for_result: "I s \<Longrightarrow> input_for s c operands stdin = (r, s') \<Longrightarrow> I s'"
  using I_input_for [of s c operands stdin] by simp

end

end
