(* ===== verification/SessionInvariants.thy ===== *)
theory SessionInvariants
  imports Vfs
begin

text \<open>
  Three invariants of a session under the primitives of the virtual file system, each an
  interpretation of \<open>session_invariant\<close>: the quota on what a visitor can store, where the
  decoy files come from, and that the log of a session is no business of a command.
\<close>

section \<open>The quota\<close>

text \<open>The characters a session holds for its visitor.\<close>

definition written_total :: "session \<Rightarrow> nat" where
  "written_total s = sum_list (map (written_size s) (written_files s))"

definition quota_ok :: "session \<Rightarrow> bool" where
  "quota_ok s \<longleftrightarrow>
     distinct (written_files s) \<and> distinct (dict_keys (files s))
     \<and> (\<forall>p \<in> set (written_files s). dict_has (files s) p)
     \<and> written_total s \<le> MAX_WRITTEN_CHARS"

lemma sum_list_filter_le: "sum_list (map f (filter P xs)) \<le> (sum_list (map f xs) :: nat)"
  by (induction xs) auto

lemma quota_store:
  assumes "quota_ok s"
  shows "quota_ok (snd (store s p t a))"
proof -
  define content where
    "content = (if a then (case dict_get (files s) p of None \<Rightarrow> [] | Some c \<Rightarrow> c) else []) @ t"
  define others where "others = filter (\<lambda>w. w \<noteq> p) (written_files s)"
  define s1 where "s1 = s\<lparr>files := dict_put p content (files s), written_files := List.insert p (written_files s)\<rparr>"
  have filter_eq: "filter (\<lambda>w. w \<noteq> p \<and> dict_has (files s) w) (written_files s) = others"
    unfolding others_def using assms by (intro filter_cong) (auto simp: quota_ok_def)
  have store: "store s p t a =
      (if MAX_WRITTEN_CHARS < sum_list (map (written_size s) others) + length content then (False, s) else (True, s1))"
    by (simp add: store_def Let_def filter_eq content_def s1_def)
  have size: "written_size s1 w = (if w = p then length content else written_size s w)" for w
    by (simp add: written_size_def s1_def)
  have "written_total s1 = sum (written_size s1) (insert p (set others))"
  proof -
    have "set (written_files s1) = insert p (set others)" "distinct (written_files s1)"
      using assms by (auto simp: s1_def others_def quota_ok_def)
    then show ?thesis by (simp add: written_total_def sum_list_distinct_conv_sum_set)
  qed
  also have "\<dots> = length content + sum (written_size s1) (set others)"
    by (simp add: others_def size)
  also have "sum (written_size s1) (set others) = sum (written_size s) (set others)"
    by (rule sum.cong) (auto simp: others_def size)
  also have "\<dots> = sum_list (map (written_size s) others)"
    using assms by (simp add: others_def quota_ok_def sum_list_distinct_conv_sum_set)
  finally have "written_total s1 = length content + sum_list (map (written_size s) others)" .
  then show ?thesis
    using assms store by (auto simp: quota_ok_def s1_def)
qed

lemma quota_remove: "quota_ok s \<Longrightarrow> quota_ok (remove s p)"
proof -
  assume q: "quota_ok s"
  have "written_total (remove s p) = sum_list (map (written_size s) (filter (\<lambda>q. \<not> removed_by p q) (written_files s)))"
    unfolding written_total_def remove_collections(4)
    by (rule arg_cong [where f = sum_list]) (simp add: written_size_def remove_collections)
  then have "written_total (remove s p) \<le> written_total s"
    by (simp add: written_total_def sum_list_filter_le)
  then show ?thesis
    using q by (auto simp: quota_ok_def remove_collections dict)
qed

lemma quota_cong:
  "files s' = files s \<Longrightarrow> written_files s' = written_files s \<Longrightarrow> quota_ok s' \<longleftrightarrow> quota_ok s"
  by (simp add: quota_ok_def written_total_def written_size_def [abs_def])

interpretation quota: session_invariant quota_ok
proof
  show "quota_ok s \<Longrightarrow> quota_ok (snd (store s p t a))" for s p t a by (rule quota_store)
  show "quota_ok s \<Longrightarrow> quota_ok (remove s p)" for s p by (rule quota_remove)
qed (simp_all only: quota_cong [OF record_decoy_simps(3,5)] quota_cong [OF set_primitives(2,3)]
    quota_cong [OF set_primitives(5,7)] quota_cong [OF set_primitives(9,11)])

lemma quota_log_command: "quota_ok s \<Longrightarrow> quota_ok (log_command now c s)"
  by (simp only: quota_cong [OF log_command_simps(5,7)])

lemma quota_new: "quota_ok (new_session sid now p prs)"
  by (simp add: quota_ok_def new_session_def written_total_def file_map_def dict_of_distinct)

section \<open>Where decoy files come from\<close>

text \<open>A file the visitor did not write is the persona's, with the persona's contents, and only
  the persona's files are recorded as surfaced.\<close>

definition decoys_from :: "persona \<Rightarrow> session \<Rightarrow> bool" where
  "decoys_from prs s \<longleftrightarrow>
     ses_persona s = prs
     \<and> (\<forall>p c. dict_get (files s) p = Some c \<longrightarrow> p \<in> set (written_files s) \<or> dict_get (file_map prs) p = Some c)
     \<and> set (decoy_files_surfaced s) \<subseteq> set (dict_keys (file_map prs))
     \<and> distinct (decoy_files_surfaced s)"

lemma store_writes: "set (written_files s) \<subseteq> set (written_files (snd (store s p t a)))"
  using store_files [of s p t a] by auto

lemma store_source:
  "dict_get (files (snd (store s p t a))) q = Some c \<Longrightarrow>
   q \<in> set (written_files (snd (store s p t a))) \<or> dict_get (files s) q = Some c"
  using store_files [of s p t a] by (auto split: if_splits)

interpretation provenance: session_invariant "decoys_from prs" for prs
proof
  fix s p
  assume "decoys_from prs s" "dict_has (files s) p" "p \<notin> set (written_files s)"
  then show "decoys_from prs (record_decoy_file_surfaced p s)"
    by (auto simp: decoys_from_def record_decoy_distinct dict_has_def intro: dict_get_SomeD)
next
  fix s p t a
  assume "decoys_from prs s"
  then show "decoys_from prs (snd (store s p t a))"
    using store_source [of s p t a] store_writes [of s p t a] unfolding decoys_from_def
    by simp (meson subsetD)
next
  fix s p
  assume "decoys_from prs s"
  then show "decoys_from prs (remove s p)"
    by (auto simp: decoys_from_def remove_collections dict_has_def split: if_splits)
qed (simp_all add: decoys_from_def make_dir_def mark_executable_def change_dir_def)

lemma decoys_log_command: "decoys_from prs s \<Longrightarrow> decoys_from prs (log_command now c s)"
  by (simp add: decoys_from_def)

lemma decoys_new: "decoys_from prs (new_session sid now p prs)"
  by (simp add: decoys_from_def new_session_def)

section \<open>What a command leaves alone\<close>

text \<open>Everything the record of a session is built from, except the surfaced decoys.\<close>

definition same_log :: "session \<Rightarrow> session \<Rightarrow> bool" where
  "same_log s0 s \<longleftrightarrow>
     session_id s = session_id s0 \<and> peer s = peer s0 \<and> start_time s = start_time s0
     \<and> last_active s = last_active s0 \<and> end_time s = end_time s0 \<and> end_reason s = end_reason s0
     \<and> ses_persona s = ses_persona s0 \<and> client_version s = client_version s0
     \<and> end_stage s = end_stage s0 \<and> end_error s = end_error s0
     \<and> commands s = commands s0 \<and> command_count s = command_count s0 \<and> ses_mode s = ses_mode s0"

interpretation log_frame: session_invariant "same_log s0" for s0
  by unfold_locales
    (simp_all add: same_log_def record_decoy_file_surfaced_def store_def remove_def make_dir_def
      mark_executable_def change_dir_def Let_def)

lemma same_log_refl [simp]: "same_log s s"
  by (simp add: same_log_def)

end
