(* ===== verification/Regex.thy ===== *)
theory Regex
  imports Prelude
begin

text \<open>
  The fixed regular expressions of the sources, as Python's \<open>re\<close> reads them. A pattern
  is a value of type \<open>re\<close>; \<open>re_run\<close> is a backtracking matcher over the text before and
  after the current position, so that look-behind, look-ahead and word boundaries are
  exact. The sources use a match only to ask whether there is one, which does not depend
  on the order of the alternatives. The lemma \<open>re_run_iff\<close> shows that the matcher agrees
  with the declarative meaning \<open>mt\<close> of a pattern.
\<close>

datatype re =
    Eps
  | Cls "nat \<Rightarrow> bool"
  | Cat re re
  | Alt re re
  | Star re
  | AtStart
  | NotBehind "nat \<Rightarrow> bool"
  | NotAhead re
  | WordBoundary

type_synonym pos = "str \<times> str"

section \<open>The matcher\<close>

primrec re_star_run :: "((str \<Rightarrow> str \<Rightarrow> bool) \<Rightarrow> str \<Rightarrow> str \<Rightarrow> bool) \<Rightarrow> nat \<Rightarrow>
    (str \<Rightarrow> str \<Rightarrow> bool) \<Rightarrow> str \<Rightarrow> str \<Rightarrow> bool" where
  "re_star_run f 0 k b a = k b a"
| "re_star_run f (Suc n) k b a =
     (k b a \<or> f (\<lambda>b' a'. length a' < length a \<and> re_star_run f n k b' a') b a)"

definition is_word_char :: "nat \<Rightarrow> bool" where
  "is_word_char c \<longleftrightarrow> is_ascii_alnum c \<or> c = underscore \<or> c = 0xAA \<or> c = 0xB5 \<or> c = 0xBA
     \<or> c = 0xB2 \<or> c = 0xB3 \<or> c = 0xB9 \<or> (0xBC \<le> c \<and> c \<le> 0xBE)
     \<or> (0xC0 \<le> c \<and> c \<noteq> 0xD7 \<and> c \<noteq> 0xF7)"

definition word_at :: "str \<Rightarrow> bool" where
  "word_at s \<longleftrightarrow> s \<noteq> [] \<and> is_word_char (hd s)"

primrec re_run :: "re \<Rightarrow> (str \<Rightarrow> str \<Rightarrow> bool) \<Rightarrow> str \<Rightarrow> str \<Rightarrow> bool" where
  "re_run Eps k b a = k b a"
| "re_run (Cls p) k b a = (case a of [] \<Rightarrow> False | c # a' \<Rightarrow> p c \<and> k (c # b) a')"
| "re_run (Cat r s) k b a = re_run r (re_run s k) b a"
| "re_run (Alt r s) k b a = (re_run r k b a \<or> re_run s k b a)"
| "re_run (Star r) k b a = re_star_run (re_run r) (length a) k b a"
| "re_run AtStart k b a = (b = [] \<and> k b a)"
| "re_run (NotBehind p) k b a = (\<not> (b \<noteq> [] \<and> p (hd b)) \<and> k b a)"
| "re_run (NotAhead r) k b a = (\<not> re_run r (\<lambda>_ _. True) b a \<and> k b a)"
| "re_run WordBoundary k b a = (word_at b \<noteq> word_at a \<and> k b a)"

fun search_from :: "re \<Rightarrow> str \<Rightarrow> str \<Rightarrow> bool" where
  "search_from r b [] = re_run r (\<lambda>_ _. True) b []"
| "search_from r b (c # a) = (re_run r (\<lambda>_ _. True) b (c # a) \<or> search_from r (c # b) a)"

text \<open>\<open>re.search(r, s) is not None\<close> and \<open>re.fullmatch(r, s) is not None\<close>.\<close>

definition re_search :: "re \<Rightarrow> str \<Rightarrow> bool" where
  "re_search r s = search_from r [] s"

definition re_fullmatch :: "re \<Rightarrow> str \<Rightarrow> bool" where
  "re_fullmatch r s = re_run r (\<lambda>b a. a = []) [] s"

section \<open>Pattern abbreviations\<close>

definition one_of :: "string \<Rightarrow> re" where
  "one_of cs = Cls (\<lambda>c. c \<in> set (lit cs))"

definition none_of :: "string \<Rightarrow> re" where
  "none_of cs = Cls (\<lambda>c. c \<notin> set (lit cs))"

fun exact :: "str \<Rightarrow> re" where
  "exact [] = Eps"
| "exact (c # s) = Cat (Cls (\<lambda>d. d = c)) (exact s)"

definition opt :: "re \<Rightarrow> re" where
  "opt r = Alt r Eps"

definition some :: "re \<Rightarrow> re" where
  "some r = Cat r (Star r)"

fun upto_times :: "nat \<Rightarrow> re \<Rightarrow> re" where
  "upto_times 0 r = Eps"
| "upto_times (Suc n) r = Alt (Cat r (upto_times n r)) Eps"

fun seq :: "re list \<Rightarrow> re" where
  "seq [] = Eps"
| "seq [r] = r"
| "seq (r # rs) = Cat r (seq rs)"

fun alts :: "re list \<Rightarrow> re" where
  "alts [] = Cls (\<lambda>_. False)"
| "alts [r] = r"
| "alts (r # rs) = Alt r (alts rs)"

definition word_of :: "string \<Rightarrow> re" where
  "word_of s = exact (lit s)"

section \<open>The meaning of a pattern\<close>

inductive mt :: "re \<Rightarrow> pos \<Rightarrow> pos \<Rightarrow> bool" where
  eps: "mt Eps p p"
| cls: "q c \<Longrightarrow> mt (Cls q) (b, c # a) (c # b, a)"
| cat: "mt r p p' \<Longrightarrow> mt s p' p'' \<Longrightarrow> mt (Cat r s) p p''"
| alt_left: "mt r p p' \<Longrightarrow> mt (Alt r s) p p'"
| alt_right: "mt s p p' \<Longrightarrow> mt (Alt r s) p p'"
| star_stop: "mt (Star r) p p"
| star_more: "mt r p p' \<Longrightarrow> mt (Star r) p' p'' \<Longrightarrow> mt (Star r) p p''"
| at_start: "mt AtStart ([], a) ([], a)"
| not_behind: "\<not> (b \<noteq> [] \<and> q (hd b)) \<Longrightarrow> mt (NotBehind q) (b, a) (b, a)"
| not_ahead: "\<not> re_run r (\<lambda>_ _. True) b a \<Longrightarrow> mt (NotAhead r) (b, a) (b, a)"
| boundary: "word_at b \<noteq> word_at a \<Longrightarrow> mt WordBoundary (b, a) (b, a)"

inductive_cases mt_EpsE: "mt Eps p p'"
inductive_cases mt_ClsE: "mt (Cls q) p p'"
inductive_cases mt_CatE: "mt (Cat r s) p p'"
inductive_cases mt_AltE: "mt (Alt r s) p p'"
inductive_cases mt_StarE: "mt (Star r) p p'"
inductive_cases mt_AtStartE: "mt AtStart p p'"
inductive_cases mt_NotBehindE: "mt (NotBehind q) p p'"
inductive_cases mt_NotAheadE: "mt (NotAhead r) p p'"
inductive_cases mt_WordBoundaryE: "mt WordBoundary p p'"

lemmas mt_elims = mt_EpsE mt_ClsE mt_CatE mt_AltE mt_AtStartE mt_NotBehindE mt_NotAheadE
  mt_WordBoundaryE

text \<open>A match moves characters from the right to the left of the position.\<close>

lemma mt_moves: "mt r p p' \<Longrightarrow> rev (fst p') @ snd p' = rev (fst p) @ snd p \<and> length (snd p') \<le> length (snd p)"
  by (induction rule: mt.induct) auto

text \<open>A match that consumes nothing stays where it is.\<close>

lemma mt_stays:
  assumes "mt r (b, a) (b', a')" "length a' = length a"
  shows "b' = b \<and> a' = a"
proof -
  from mt_moves [OF assms(1)] have eq: "rev b' @ a' = rev b @ a" by simp
  then have "length b' = length b" using assms(2) by (metis length_append length_rev add_right_cancel)
  with eq show ?thesis by simp
qed

lemma star_run_sound:
  assumes f: "\<And>k b a. f k b a \<Longrightarrow> \<exists>b' a'. mt r (b, a) (b', a') \<and> k b' a'"
  shows "re_star_run f n k b a \<Longrightarrow> \<exists>b' a'. mt (Star r) (b, a) (b', a') \<and> k b' a'"
proof (induction n arbitrary: b a)
  case 0
  then show ?case by (auto intro: mt.star_stop)
next
  case (Suc n)
  show ?case
  proof (cases "k b a")
    case True
    then show ?thesis by (auto intro: mt.star_stop)
  next
    case False
    then obtain b1 a1 where "mt r (b, a) (b1, a1)" "re_star_run f n k b1 a1"
      using Suc.prems f by fastforce
    then show ?thesis using Suc.IH by (blast intro: mt.star_more)
  qed
qed

lemma star_run_complete:
  assumes f: "\<And>k b a b' a'. mt r (b, a) (b', a') \<Longrightarrow> k b' a' \<Longrightarrow> f k b a"
  shows "mt R p p' \<Longrightarrow> R = Star r \<Longrightarrow> length (snd p) \<le> n \<Longrightarrow> k (fst p') (snd p') \<Longrightarrow>
    re_star_run f n k (fst p) (snd p)"
proof (induction arbitrary: n rule: mt.induct)
  case (star_stop r' p)
  then show ?case by (cases n) auto
next
  case (star_more r' p p1 p2)
  show ?case
  proof (cases "length (snd p1) = length (snd p)")
    case True
    then have "p1 = p" using star_more.hyps(1) mt_stays by (metis prod.collapse)
    then show ?thesis using star_more by simp
  next
    case False
    then have less: "length (snd p1) < length (snd p)" using mt_moves [OF star_more.hyps(1)] by simp
    then obtain m where n: "n = Suc m" using star_more.prems by (cases n) auto
    have "re_star_run f m k (fst p1) (snd p1)"
      using star_more.IH(2) [of m] star_more.prems less n by simp
    then have "f (\<lambda>b' a'. length a' < length (snd p) \<and> re_star_run f m k b' a') (fst p) (snd p)"
      using f [of "fst p" "snd p" "fst p1" "snd p1"] star_more.hyps(1) star_more.prems(1) less by simp
    then show ?thesis using n by simp
  qed
qed auto

lemma run_sound: "re_run r k b a \<Longrightarrow> \<exists>b' a'. mt r (b, a) (b', a') \<and> k b' a'"
proof (induction r arbitrary: k b a)
  case Eps
  then show ?case using mt.eps by auto
next
  case (Cls q)
  then show ?case by (auto split: list.splits intro: mt.cls)
next
  case (Cat r s)
  from Cat.prems obtain b1 a1 where 1: "mt r (b, a) (b1, a1)" "re_run s k b1 a1"
    using Cat.IH(1) by fastforce
  then obtain b2 a2 where "mt s (b1, a1) (b2, a2)" "k b2 a2" using Cat.IH(2) by blast
  with 1 show ?case by (blast intro: mt.cat)
next
  case (Alt r s)
  then consider "re_run r k b a" | "re_run s k b a" by auto
  then show ?case
    by cases (use Alt.IH in \<open>blast intro: mt.alt_left mt.alt_right\<close>)+
next
  case (Star r)
  show ?case using star_run_sound [of "re_run r" r, OF Star.IH] Star.prems by simp
next
  case AtStart
  then show ?case using mt.at_start by auto
next
  case (NotBehind q)
  then have "mt (NotBehind q) (b, a) (b, a)" "k b a" using mt.not_behind [of b q a] by auto
  then show ?case by blast
next
  case (NotAhead r)
  then have "mt (NotAhead r) (b, a) (b, a)" "k b a" using mt.not_ahead [of r b a] by auto
  then show ?case by blast
next
  case WordBoundary
  then have "mt WordBoundary (b, a) (b, a)" "k b a" using mt.boundary [of b a] by auto
  then show ?case by blast
qed

lemma run_complete: "mt r (b, a) (b', a') \<Longrightarrow> k b' a' \<Longrightarrow> re_run r k b a"
proof (induction r arbitrary: k b a b' a')
  case (Cat r s)
  from Cat.prems(1) obtain p where "mt r (b, a) p" "mt s p (b', a')" by (rule mt_CatE)
  then show ?case using Cat.IH Cat.prems(2) by (cases p) simp
next
  case (Alt r s)
  from Alt.prems(1) show ?case by (rule mt_AltE) (use Alt in auto)
next
  case (Star r)
  show ?case
    using star_run_complete [of r "re_run r" "Star r" "(b, a)" "(b', a')" "length a" k, OF Star.IH] Star.prems
    by simp
next
  case (NotAhead r)
  from NotAhead.prems(1) show ?case by (rule mt_NotAheadE) (use NotAhead.prems in simp)
next
  case (NotBehind q)
  from NotBehind.prems(1) show ?case by (rule mt_NotBehindE) (use NotBehind.prems in auto)
next
  case WordBoundary
  from WordBoundary.prems(1) show ?case by (rule mt_WordBoundaryE) (use WordBoundary.prems in simp)
next
  case AtStart
  from AtStart.prems(1) show ?case by (rule mt_AtStartE) (use AtStart.prems in simp)
next
  case (Cls q)
  from Cls.prems(1) show ?case by (rule mt_ClsE) (use Cls.prems in simp)
next
  case Eps
  from Eps.prems(1) show ?case by (rule mt_EpsE) (use Eps.prems in simp)
qed

lemma re_run_iff: "re_run r k b a \<longleftrightarrow> (\<exists>b' a'. mt r (b, a) (b', a') \<and> k b' a')"
proof
  assume "re_run r k b a"
  then show "\<exists>b' a'. mt r (b, a) (b', a') \<and> k b' a'" by (rule run_sound)
next
  assume "\<exists>b' a'. mt r (b, a) (b', a') \<and> k b' a'"
  then obtain b' a' where "mt r (b, a) (b', a')" "k b' a'" by blast
  then show "re_run r k b a" by (rule run_complete)
qed

lemma re_fullmatch_iff: "re_fullmatch r s \<longleftrightarrow> (\<exists>b. mt r ([], s) (b, []))"
  using re_run_iff [of r "\<lambda>b a. a = []" "[]" s] by (simp add: re_fullmatch_def)

lemma run_any: "re_run r (\<lambda>_ _. True) b a \<longleftrightarrow> (\<exists>p. mt r (b, a) p)"
  using re_run_iff [of r "\<lambda>_ _. True" b a] by simp

lemma search_from_iff:
  "search_from r b a \<longleftrightarrow> (\<exists>u v p. a = u @ v \<and> mt r (rev u @ b, v) p)"
proof (induction a arbitrary: b)
  case Nil
  show ?case using run_any [of r b "[]"] by simp
next
  case (Cons c a)
  have "(\<exists>u v p. c # a = u @ v \<and> mt r (rev u @ b, v) p) \<longleftrightarrow>
      (\<exists>p. mt r (b, c # a) p) \<or> (\<exists>u v p. a = u @ v \<and> mt r (rev u @ (c # b), v) p)"
    (is "?L \<longleftrightarrow> ?R")
  proof
    assume ?L
    then obtain u v p where uv: "c # a = u @ v" "mt r (rev u @ b, v) p" by blast
    show ?R
    proof (cases u)
      case Nil
      then have "mt r (b, c # a) p" using uv by simp
      then show ?thesis by blast
    next
      case (Cons d u')
      then have "a = u' @ v" "mt r (rev u' @ (c # b), v) p" using uv by auto
      then show ?thesis by blast
    qed
  next
    assume ?R
    then show ?L
    proof
      assume "\<exists>p. mt r (b, c # a) p"
      then obtain p where "mt r (b, c # a) p" by blast
      then have "c # a = [] @ (c # a) \<and> mt r (rev [] @ b, c # a) p" by simp
      then show ?L by blast
    next
      assume "\<exists>u v p. a = u @ v \<and> mt r (rev u @ (c # b), v) p"
      then obtain u v p where "a = u @ v" "mt r (rev u @ (c # b), v) p" by blast
      then have "c # a = (c # u) @ v \<and> mt r (rev (c # u) @ b, v) p" by simp
      then show ?L by blast
    qed
  qed
  then show ?case using Cons.IH [of "c # b"] run_any [of r b "c # a"] by simp
qed

lemma re_search_iff: "re_search r s \<longleftrightarrow> (\<exists>u v p. s = u @ v \<and> mt r (rev u, v) p)"
  using search_from_iff [of r "[]" s] by (simp add: re_search_def)

end
