(* ===== verification/Shlex.thy ===== *)
theory Shlex
  imports Prelude
begin

text \<open>
  \<open>shlex.split(s)\<close> of Python's standard library: POSIX mode, \<open>whitespace_split\<close> on,
  no comment characters. The states are those of \<open>shlex.read_token\<close>: between words,
  inside a word, inside quotes, and after a backslash (with the state to return to).
  \<open>None\<close> stands for \<open>ValueError\<close> ("No closing quotation", "No escaped character").
\<close>

datatype lex_state = Between | InWord | InQuote nat | Escape "nat option"

definition lex_space :: "nat \<Rightarrow> bool" where
  "lex_space c \<longleftrightarrow> c = space \<or> c = tab \<or> c = carriage \<or> c = newline"

definition is_quote :: "nat \<Rightarrow> bool" where
  "is_quote c \<longleftrightarrow> c = squote \<or> c = dquote"

text \<open>
  \<open>lex st token quoted words input\<close>: the state, the token being read, whether it had
  quotes (an empty quoted token is a word), and the words read so far. \<open>Escape None\<close>
  returns to the word, \<open>Escape (Some q)\<close> to the quotes \<open>q\<close>.
\<close>

fun lex :: "lex_state \<Rightarrow> str \<Rightarrow> bool \<Rightarrow> str list \<Rightarrow> str \<Rightarrow> str list option" where
  "lex Between token quoted ws [] = Some (if token \<noteq> [] \<or> quoted then ws @ [token] else ws)"
| "lex Between token quoted ws (c # s) =
     (if lex_space c then
        (if token \<noteq> [] \<or> quoted then lex Between [] False (ws @ [token]) s
         else lex Between token quoted ws s)
      else if c = bslash then lex (Escape None) token quoted ws s
      else if is_quote c then lex (InQuote c) token quoted ws s
      else lex InWord [c] quoted ws s)"
| "lex (InQuote q) token quoted ws [] = None"
| "lex (InQuote q) token quoted ws (c # s) =
     (if c = q then lex InWord token True ws s
      else if c = bslash \<and> q = dquote then lex (Escape (Some q)) token True ws s
      else lex (InQuote q) (token @ [c]) True ws s)"
| "lex (Escape r) token quoted ws [] = None"
| "lex (Escape r) token quoted ws (c # s) =
     (case r of
        None \<Rightarrow> lex InWord (token @ [c]) quoted ws s
      | Some q \<Rightarrow>
          lex (InQuote q) (if c \<noteq> bslash \<and> c \<noteq> q then token @ [bslash, c] else token @ [c]) quoted ws s)"
| "lex InWord token quoted ws [] = Some (if token \<noteq> [] \<or> quoted then ws @ [token] else ws)"
| "lex InWord token quoted ws (c # s) =
     (if lex_space c then
        (if token \<noteq> [] \<or> quoted then lex Between [] False (ws @ [token]) s
         else lex Between token quoted ws s)
      else if is_quote c then lex (InQuote c) token quoted ws s
      else if c = bslash then lex (Escape None) token quoted ws s
      else lex InWord (token @ [c]) quoted ws s)"

definition shlex_split :: "str \<Rightarrow> str list option" where
  "shlex_split s = lex Between [] False [] s"

section \<open>What splitting does\<close>

text \<open>Every character of every word comes from the input.\<close>

lemma lex_chars:
  "lex st token quoted ws s = Some ws' \<Longrightarrow> list_all P token \<Longrightarrow> list_all (list_all P) ws \<Longrightarrow>
   list_all P s \<Longrightarrow> P bslash \<Longrightarrow> list_all (list_all P) ws'"
proof (induction st token quoted ws s rule: lex.induct)
  case (6 r token quoted ws c s)
  then show ?case by (cases r) (simp_all split: if_splits)
qed (auto split: if_splits)

lemma shlex_split_chars:
  "shlex_split s = Some ws \<Longrightarrow> list_all P s \<Longrightarrow> P bslash \<Longrightarrow> list_all (list_all P) ws"
  unfolding shlex_split_def by (drule lex_chars [of _ _ _ _ _ _ P]) simp_all

text \<open>The words already read are kept.\<close>

lemma lex_prefix:
  "lex st token quoted ws s = Some ws' \<Longrightarrow> prefix ws ws'"
  by (induction st token quoted ws s rule: lex.induct)
    (auto split: if_splits option.splits elim: append_prefixD)

text \<open>Plain words, without quotes, backslashes or white space, joined by single spaces.\<close>

definition plain_word :: "str \<Rightarrow> bool" where
  "plain_word w \<longleftrightarrow> w \<noteq> [] \<and> list_all (\<lambda>c. \<not> lex_space c \<and> \<not> is_quote c \<and> c \<noteq> bslash) w"

lemma lex_word_append:
  "list_all (\<lambda>c. \<not> lex_space c \<and> \<not> is_quote c \<and> c \<noteq> bslash) w \<Longrightarrow>
   lex InWord token q ws (w @ s) = lex InWord (token @ w) q ws s"
  by (induction w arbitrary: token) auto

lemma lex_plain_word:
  assumes "plain_word w"
  shows "lex Between [] False ws (w @ s) = lex InWord w False ws s"
proof -
  obtain c w' where w: "w = c # w'" using assms by (cases w) (auto simp: plain_word_def)
  then show ?thesis using assms lex_word_append [of w' "[c]" False ws s]
    by (simp add: plain_word_def)
qed

lemma lex_plain_words:
  "list_all plain_word ws \<Longrightarrow> lex Between [] False acc (join [space] ws) = Some (acc @ ws)"
proof (induction ws arbitrary: acc rule: induct_list012)
  case 1
  then show ?case by simp
next
  case (2 w)
  then have "w \<noteq> []" by (simp add: plain_word_def)
  then show ?case using lex_plain_word [of w acc "[]"] 2 by simp
next
  case (3 w v ws)
  then have ne: "w \<noteq> []" by (simp add: plain_word_def)
  have "lex Between [] False acc (w @ space # join [space] (v # ws)) =
      lex Between [] False (acc @ [w]) (join [space] (v # ws))"
    using 3 ne by (simp add: lex_plain_word lex_space_def)
  then show ?case using 3 by simp
qed

lemma shlex_split_join: "list_all plain_word ws \<Longrightarrow> shlex_split (join [space] ws) = Some ws"
  by (simp add: shlex_split_def lex_plain_words)

text \<open>A word in single quotes keeps every character that is not a single quote.\<close>

lemma lex_single_quoted:
  "squote \<notin> set w \<Longrightarrow> lex (InQuote squote) token q ws (w @ squote # s) = lex InWord (token @ w) True ws s"
  by (induction w arbitrary: token q) auto

lemma shlex_split_quoted: "squote \<notin> set w \<Longrightarrow> shlex_split (squote # w @ [squote]) = Some [w]"
  using lex_single_quoted [of w "[]" False "[]" "[]"]
  by (simp add: shlex_split_def lex_space_def is_quote_def)

end
