(* ===== verification/ShellSyntax.thy ===== *)
theory ShellSyntax
  imports SessionInvariants Regex Shlex
begin

text \<open>
  The scanners of \<open>honeypot/core/engine.py\<close>: splitting a line at separators outside
  quotes (\<open>_split_unquoted\<close>), taking redirects out of a command (\<open>_split_redirects\<close>), the
  option parsers (\<open>_options\<close>, \<open>_short_flag\<close>, \<open>_first_operand\<close>) and \<open>chmod\<close> modes
  (\<open>_chmod_executable\<close>). Index loops over a string are recursions on the rest of it.
\<close>

definition LIST_SEPARATORS :: "str list" where
  "LIST_SEPARATORS = map lit [''&&'', ''||'', '';;'', '';'']"

section \<open>Splitting outside quotes\<close>

text \<open>
  \<open>split_loop seps quote operator current segments line\<close>: the loop of \<open>_split_unquoted\<close>
  at the rest of the line. A separator is never empty, so dropping it shortens the line.
\<close>

fun split_loop :: "str list \<Rightarrow> nat option \<Rightarrow> str \<Rightarrow> str \<Rightarrow> (str \<times> str) list \<Rightarrow> str \<Rightarrow>
    (str \<times> str) list \<times> str option" where
  "split_loop seps quote operator current segments [] =
     (let text = strip current
      in (if text \<noteq> [] then segments @ [(operator, text)] else segments, None))"
| "split_loop seps (Some q) operator current segments (c # line) =
     (if c = bslash \<and> q = dquote \<and> line \<noteq> []
      then split_loop seps (Some q) operator (current @ [c, hd line]) segments (tl line)
      else split_loop seps (if c = q then None else Some q) operator (current @ [c]) segments line)"
| "split_loop seps None operator current segments (c # line) =
     (if c = bslash \<and> line \<noteq> []
      then split_loop seps None operator (current @ [c, hd line]) segments (tl line)
      else case find (\<lambda>sep. startswith (c # line) sep) seps of
        None \<Rightarrow>
          split_loop seps (if is_quote c then Some c else None) operator (current @ [c]) segments line
      | Some separator \<Rightarrow>
          (let text = strip current in
           if text = [] \<or> separator = lit '';;'' then ([], Some separator)
           else split_loop seps (if is_quote c then Some c else None) separator []
                  (segments @ [(operator, text)]) (drop (length separator - 1) line)))"

definition split_unquoted :: "str \<Rightarrow> str list \<Rightarrow> (str \<times> str) list \<times> str option" where
  "split_unquoted line seps = split_loop seps None [] [] [] line"

section \<open>Redirects\<close>

type_synonym redirect = "str \<times> bool \<times> str"

text \<open>The word after the redirect operator, quotes and all, and what follows it.\<close>

fun scan_target :: "nat option \<Rightarrow> str \<Rightarrow> str \<times> str" where
  "scan_target tq [] = ([], [])"
| "scan_target (Some q) (c # s) =
     (if c = bslash \<and> q = dquote
      then (case s of
              [] \<Rightarrow> ([c], [])
            | d # s' \<Rightarrow> (case scan_target (Some q) s' of (w, r) \<Rightarrow> (c # d # w, r)))
      else (case scan_target (if c = q then None else Some q) s of (w, r) \<Rightarrow> (c # w, r)))"
| "scan_target None (c # s) =
     (if is_quote c then (case scan_target (Some c) s of (w, r) \<Rightarrow> (c # w, r))
      else if c = bslash
      then (case s of
              [] \<Rightarrow> ([c], [])
            | d # s' \<Rightarrow> (case scan_target None s' of (w, r) \<Rightarrow> (c # d # w, r)))
      else if is_space c \<or> c = less_than \<or> c = greater_than then ([], c # s)
      else (case scan_target None s of (w, r) \<Rightarrow> (c # w, r)))"

lemma scan_target_append: "scan_target tq s = (w, r) \<Longrightarrow> s = w @ r"
proof (induction tq s arbitrary: w r rule: scan_target.induct)
  case (2 q c s)
  then show ?case by (auto split: if_splits list.splits prod.splits)
next
  case (3 c s)
  then show ?case by (auto split: if_splits list.splits prod.splits)
qed simp

text \<open>The number or "&" directly before ">" names the stream when it is a word of its own.
  \<open>rest\<close> holds the characters kept so far, an escaped pair as one piece.\<close>

definition piece_space :: "str \<Rightarrow> bool" where
  "piece_space p \<longleftrightarrow> p \<noteq> [] \<and> list_all is_space p"

definition take_stream :: "str list \<Rightarrow> str \<times> str list" where
  "take_stream rest =
     (let tail = rev (takeWhile (\<lambda>p. \<not> piece_space p) (rev rest));
          word = concat tail
      in if isdigit word \<or> word = lit ''&'' then (word, take (length rest - length tail) rest)
         else (lit ''1'', rest))"

text \<open>What follows the ">": whether to append, whether the target names a stream, the raw
  target word and the rest of the command.\<close>

definition after_operator :: "str \<Rightarrow> bool \<times> bool \<times> str \<times> str" where
  "after_operator s =
     (let appending = startswith s (lit ''>'');
          duplicate = (\<not> appending \<and> startswith s (lit ''&''));
          s1 = (if appending \<or> duplicate \<or> startswith s (lit ''|'') then drop 1 s else s);
          s2 = dropWhile (\<lambda>c. c = space \<or> c = tab) s1
      in case scan_target None s2 of (raw, s3) \<Rightarrow> (appending, duplicate, raw, s3))"

lemma after_operator_shorter:
  assumes "after_operator s = (a, d, raw, s')"
  shows "length s' \<le> length s"
proof -
  define s1 where "s1 = (if startswith s (lit ''>'') \<or> (\<not> startswith s (lit ''>'') \<and> startswith s (lit ''&''))
      \<or> startswith s (lit ''|'') then drop 1 s else s)"
  have "scan_target None (dropWhile (\<lambda>c. c = space \<or> c = tab) s1) = (raw, s')"
    using assms unfolding after_operator_def Let_def s1_def [symmetric] by (simp split: prod.splits)
  then have "dropWhile (\<lambda>c. c = space \<or> c = tab) s1 = raw @ s'" by (rule scan_target_append)
  then have "length s' \<le> length (dropWhile (\<lambda>c. c = space \<or> c = tab) s1)" by simp
  also have "\<dots> \<le> length s1" by (rule length_dropWhile_le)
  also have "\<dots> \<le> length s" by (simp add: s1_def)
  finally show ?thesis .
qed

text \<open>The target without its quotes, and the stream it really redirects.\<close>

definition redirect_of :: "str \<Rightarrow> bool \<Rightarrow> bool \<Rightarrow> str \<Rightarrow> redirect" where
  "redirect_of stream appending duplicate raw =
     (let words = (case shlex_split raw of Some ws \<Rightarrow> ws | None \<Rightarrow> [raw]);
          target = (if length words = 1 then hd words else raw)
      in if duplicate then
           (if isdigit target \<or> target = lit ''-'' then (stream, appending, lit ''&'' @ target)
            else (lit ''&'', appending, target))
         else (stream, appending, target))"

function redirect_loop :: "nat option \<Rightarrow> str list \<Rightarrow> redirect list \<Rightarrow> str \<Rightarrow> (str \<times> redirect list) option" where
  "redirect_loop quote rest redirects [] = Some (strip (concat rest), redirects)"
| "redirect_loop (Some q) rest redirects (c # s) =
     (if c = bslash \<and> q = dquote \<and> s \<noteq> []
      then redirect_loop (Some q) (rest @ [[c], [hd s]]) redirects (tl s)
      else redirect_loop (if c = q then None else Some q) (rest @ [[c]]) redirects s)"
| "redirect_loop None rest redirects (c # s) =
     (if c = bslash \<and> s \<noteq> [] then redirect_loop None (rest @ [[c, hd s]]) redirects (tl s)
      else if c \<noteq> greater_than
      then redirect_loop (if is_quote c then Some c else None) (rest @ [[c]]) redirects s
      else case take_stream rest of
        (stream, rest') \<Rightarrow>
          (case after_operator s of
             (appending, duplicate, raw, s') \<Rightarrow>
               if raw = [] then None
               else redirect_loop None rest' (redirects @ [redirect_of stream appending duplicate raw]) s'))"
  by pat_completeness auto
termination
  by (relation "measure (\<lambda>(q, rest, rs, s). length s)")
    (auto dest!: after_operator_shorter [OF sym])

text \<open>\<open>_split_redirects\<close>: \<open>None\<close> when a redirect has no target.\<close>

definition split_redirects :: "str \<Rightarrow> (str \<times> redirect list) option" where
  "split_redirects command = redirect_loop None [] [] command"

section \<open>Options\<close>

text \<open>The letters of one option word: a letter that takes a value ends the word, and says
  whether its value is the next word.\<close>

fun option_letters :: "str \<Rightarrow> str \<Rightarrow> str list \<times> bool" where
  "option_letters takes_value [] = ([], False)"
| "option_letters takes_value (l # ls) =
     (if l \<in> set takes_value then ([[l]], ls = [])
      else case option_letters takes_value ls of (fs, v) \<Rightarrow> ([l] # fs, v))"

fun options_loop :: "(str \<times> str) list \<Rightarrow> str \<Rightarrow> str list \<Rightarrow> str list \<Rightarrow> str list \<Rightarrow> str list \<times> str list" where
  "options_loop long_names takes_value flags operands [] = (flags, operands)"
| "options_loop long_names takes_value flags operands (arg # args) =
     (if arg = lit ''--'' then (flags, operands @ args)
      else if arg = lit ''-'' \<or> \<not> startswith arg (lit ''-'')
      then options_loop long_names takes_value flags (operands @ [arg]) args
      else if startswith arg (lit ''--'') then
        (let name = fst (partition_at equals_sign arg);
             flag = (case dict_get long_names name of Some f \<Rightarrow> f | None \<Rightarrow> arg)
         in options_loop long_names takes_value (List.insert flag flags) operands args)
      else case option_letters takes_value (drop 1 arg) of
        (letters, value_next) \<Rightarrow>
          options_loop long_names takes_value (fold List.insert letters flags) operands
            (if value_next then drop 1 args else args))"

definition options :: "str list \<Rightarrow> (str \<times> str) list \<Rightarrow> str \<Rightarrow> str list \<times> str list" where
  "options args long_names takes_value = options_loop long_names takes_value [] [] args"

definition short_flag :: "str \<Rightarrow> nat \<Rightarrow> bool" where
  "short_flag arg flag =
     (if \<not> startswith arg (lit ''-'') \<or> startswith arg (lit ''--'') then False
      else let letters = drop 1 arg;
               shown = (if 79 \<in> set letters then takeWhile (\<lambda>c. c \<noteq> 79) letters @ [79] else letters)
           in flag \<in> set shown)"

fun first_operand_loop :: "bool \<Rightarrow> str list \<Rightarrow> str list \<Rightarrow> str option" where
  "first_operand_loop skip value_options [] = None"
| "first_operand_loop skip value_options (arg # args) =
     (if skip then first_operand_loop False value_options args
      else if arg \<in> set value_options then first_operand_loop True value_options args
      else if startswith arg (lit ''-'') \<and> arg \<noteq> lit ''-''
      then first_operand_loop False value_options args
      else Some arg)"

definition first_operand :: "str list \<Rightarrow> str list \<Rightarrow> str option" where
  "first_operand args value_options = first_operand_loop False value_options args"

definition WGET_VALUE_OPTIONS :: "str list" where
  "WGET_VALUE_OPTIONS = map lit [''-O'', ''-o'', ''-a'', ''-P'', ''-t'', ''-T'', ''-U'', ''-e'',
     ''--output-document'']"

definition CURL_VALUE_OPTIONS :: "str list" where
  "CURL_VALUE_OPTIONS = map lit [''-o'', ''-H'', ''-A'', ''-d'', ''-X'', ''-u'', ''-e'', ''-m'', ''-x'',
     ''-b'', ''-c'', ''-F'', ''--output'', ''--header'', ''--user-agent'', ''--data'', ''--request'', ''--user'',
     ''--connect-timeout'', ''--max-time'', ''--proxy'']"

section \<open>chmod modes\<close>

definition octal_mode_re :: re where
  "octal_mode_re = Cat (one_of ''01234567'') (upto_times 3 (one_of ''01234567''))"

definition symbolic_clause_re :: re where
  "symbolic_clause_re =
     Cat (Star (one_of ''ugoa'')) (some (Cat (one_of ''-+='') (Star (one_of ''rwxXstugo''))))"

text \<open>\<open>re.findall("([-+=])([rwxXstugo]*)", clause)\<close>.\<close>

fun find_operators :: "str \<Rightarrow> (nat \<times> str) list" where
  "find_operators [] = []"
| "find_operators (c # s) =
     (if c \<in> set (lit ''-+='')
      then (c, takeWhile (\<lambda>d. d \<in> set (lit ''rwxXstugo'')) s) # find_operators s
      else find_operators s)"

definition apply_operator :: "nat \<times> str \<Rightarrow> bool \<Rightarrow> bool" where
  "apply_operator op executable =
     (let has_x = (120 \<in> set (snd op) \<or> 88 \<in> set (snd op)) in
      if fst op = equals_sign then has_x
      else if has_x then fst op = plus
      else executable)"

fun chmod_clauses :: "str list \<Rightarrow> bool \<Rightarrow> bool option" where
  "chmod_clauses [] executable = Some executable"
| "chmod_clauses (clause # clauses) executable =
     (if \<not> re_fullmatch symbolic_clause_re clause then None
      else chmod_clauses clauses (fold apply_operator (find_operators clause) executable))"

definition last_chars :: "nat \<Rightarrow> str \<Rightarrow> str" where
  "last_chars n s = drop (length s - n) s"

definition chmod_executable :: "str \<Rightarrow> bool \<Rightarrow> bool option" where
  "chmod_executable mode executable =
     (if re_fullmatch octal_mode_re mode
      then Some (list_ex (\<lambda>d. odd (digit_value d)) (last_chars 3 mode))
      else chmod_clauses (split_on comma mode) executable)"

end
