(* ===== verification/ShellText.thy ===== *)
theory ShellText
  imports ShellSyntax "HOL-Library.List_Lexorder"
begin

text \<open>
  The commands of the fake shell that only produce text (\<open>honeypot/core/engine.py\<close>):
  \<open>echo\<close>, the filters \<open>grep\<close>, \<open>head\<close>, \<open>tail\<close>, \<open>wc\<close> and \<open>base64\<close>, \<open>uname\<close>, \<open>wget\<close>,
  \<open>curl\<close>, \<open>id\<close>, \<open>ps\<close>, \<open>netstat\<close> and \<open>ls\<close>. They change the session only by recording the
  decoy files they show. What they take from outside the sources and the modelled
  library is the record \<open>env\<close>: the time stamp of a download message, Python's
  regular-expression compiler for the visitor's own patterns, and the checks
  \<open>urlsplit\<close> makes of a network location through \<open>ipaddress\<close> and \<open>unicodedata\<close>.
\<close>

record env =
  env_stamp :: str
  env_regex :: "str \<Rightarrow> bool \<Rightarrow> (str \<Rightarrow> bool) option"
  env_netloc_ok :: "str \<Rightarrow> bool"

type_synonym text_result = "(str \<times> bool) outcome \<times> session"

section \<open>echo\<close>

definition leading :: "str \<Rightarrow> (nat \<Rightarrow> bool) \<Rightarrow> nat \<Rightarrow> str" where
  "leading text allowed limit = takeWhile allowed (take limit text)"

definition is_octal :: "nat \<Rightarrow> bool" where
  "is_octal c \<longleftrightarrow> 48 \<le> c \<and> c \<le> 55"

definition is_hex :: "nat \<Rightarrow> bool" where
  "is_hex c \<longleftrightarrow> is_decimal c \<or> (65 \<le> c \<and> c \<le> 70) \<or> (97 \<le> c \<and> c \<le> 102)"

definition ECHO_SIMPLE_ESCAPES :: "(nat \<times> nat) list" where
  "ECHO_SIMPLE_ESCAPES = [(bslash, bslash), (97, 7), (98, 8), (101, 27), (69, 27), (102, 12), (110, 10),
     (114, 13), (116, 9), (118, 11)]"

definition ECHO_HEX_WIDTH :: "(nat \<times> nat) list" where
  "ECHO_HEX_WIDTH = [(120, 2), (117, 4), (85, 8)]"

text \<open>\<open>_expand_echo_escapes\<close>: the text, and whether \<open>\c\<close> cut it short.\<close>

function expand_echo_escapes :: "str \<Rightarrow> str \<times> bool" where
  "expand_echo_escapes [] = ([], False)"
| "expand_echo_escapes [c] = ([c], False)"
| "expand_echo_escapes (c # d # s) =
     (if c \<noteq> bslash then (case expand_echo_escapes (d # s) of (t, b) \<Rightarrow> (c # t, b))
      else if dict_has ECHO_SIMPLE_ESCAPES d then
        (case expand_echo_escapes s of
           (t, b) \<Rightarrow> ((case dict_get ECHO_SIMPLE_ESCAPES d of Some e \<Rightarrow> [e] | None \<Rightarrow> []) @ t, b))
      else if d = 99 then ([], True)
      else if d = 48 then
        (let ds = leading s is_octal 3 in
         case expand_echo_escapes (drop (length ds) s) of
           (t, b) \<Rightarrow> (nat_of_digits 8 ds mod 256 # t, b))
      else if dict_has ECHO_HEX_WIDTH d then
        (let ds = leading s is_hex (case dict_get ECHO_HEX_WIDTH d of Some w \<Rightarrow> w | None \<Rightarrow> 0);
             value = nat_of_digits 16 ds in
         case expand_echo_escapes (drop (length ds) s) of
           (t, b) \<Rightarrow>
             (if ds = [] \<or> 0x10FFFF < value \<or> (0xD800 \<le> value \<and> value \<le> 0xDFFF)
              then ([bslash, d] @ ds @ t, b) else (value # t, b)))
      else (case expand_echo_escapes s of (t, b) \<Rightarrow> ([bslash, d] @ t, b)))"
  by pat_completeness auto
termination by (relation "measure length") auto

definition echo_option_re :: re where
  "echo_option_re = Cat (exact [dash]) (some (one_of ''neE''))"

fun echo_options :: "bool \<Rightarrow> bool \<Rightarrow> str list \<Rightarrow> bool \<times> bool \<times> str list" where
  "echo_options nl escapes [] = (nl, escapes, [])"
| "echo_options nl escapes (arg # args) =
     (if re_fullmatch echo_option_re arg then
        (case foldl (\<lambda>(n, e) flag. if flag = 110 then (False, e) else (n, flag = 101)) (nl, escapes) (drop 1 arg) of
           (n, e) \<Rightarrow> echo_options n e args)
      else (nl, escapes, arg # args))"

definition echo :: "str list \<Rightarrow> str" where
  "echo args =
     (case echo_options True False args of
        (nl, escapes, ws) \<Rightarrow>
          (let text = join (lit '' '') ws in
           if escapes then
             (case expand_echo_escapes text of
                (t, stopped) \<Rightarrow> if stopped then t else t @ (if nl then [newline] else []))
           else text @ (if nl then [newline] else [])))"

section \<open>grep\<close>

definition regex_special :: "nat \<Rightarrow> bool" where
  "regex_special c \<longleftrightarrow> c \<in> set (lit ''+?|(){}'')"

text \<open>\<open>_basic_regex\<close>: basic syntax to Python's.\<close>

fun basic_regex :: "str \<Rightarrow> str" where
  "basic_regex [] = []"
| "basic_regex [c] = (if regex_special c then [bslash, c] else [c])"
| "basic_regex (c # d # s) =
     (if c = bslash then (if regex_special d then [d] else [c, d]) @ basic_regex s
      else (if regex_special c then [bslash, c] else [c]) @ basic_regex (d # s))"

text \<open>The class of a character under \<open>re.IGNORECASE\<close>: its simple lower case, with the
  extra cases of Python's engine that meet Latin-1.\<close>

definition case_key :: "nat \<Rightarrow> nat" where
  "case_key c =
     (if 65 \<le> c \<and> c \<le> 90 then c + 32
      else if 0xC0 \<le> c \<and> c \<le> 0xDE \<and> c \<noteq> 0xD7 then c + 32
      else if c = 0x212A then 107 else if c = 0x212B then 0xE5
      else if c = 0x17F then 115 else if c = 0x130 \<or> c = 0x131 then 105
      else if c = 0x178 then 0xFF else if c = 0xB5 then 0x3BC else c)"

text \<open>Searching for \<open>re.escape(pattern)\<close>.\<close>

definition literal_search :: "str \<Rightarrow> bool \<Rightarrow> str \<Rightarrow> bool" where
  "literal_search pattern ignore_case line =
     (if ignore_case then contains (map case_key line) (map case_key pattern) else contains line pattern)"

fun grep_args :: "str list \<Rightarrow> str option \<Rightarrow> str list \<Rightarrow> str list \<Rightarrow> str list \<times> str option \<times> str list" where
  "grep_args flags pattern operands [] = (flags, pattern, operands)"
| "grep_args flags pattern operands (arg # args) =
     (case pattern of
        None \<Rightarrow>
          if startswith arg (lit ''--'') then grep_args flags None operands args
          else if startswith arg (lit ''-'') \<and> length arg > 1
          then grep_args (fold List.insert (map (\<lambda>c. [c]) (drop 1 arg)) flags) None operands args
          else grep_args flags (Some arg) operands args
      | Some p \<Rightarrow> grep_args flags (Some p) (operands @ [arg]) args)"

definition grep_matcher :: "env \<Rightarrow> str list \<Rightarrow> str \<Rightarrow> str \<Rightarrow> bool" where
  "grep_matcher e flags pattern =
     (let ignore_case = (lit ''i'' \<in> set flags) in
      if lit ''F'' \<in> set flags then literal_search pattern ignore_case
      else case env_regex e (if lit ''E'' \<in> set flags then pattern else basic_regex pattern) ignore_case of
             Some search \<Rightarrow> search
           | None \<Rightarrow> literal_search pattern ignore_case)"

definition grep :: "env \<Rightarrow> session \<Rightarrow> str list \<Rightarrow> str option \<Rightarrow> (str \<times> bool) \<times> session" where
  "grep e s args stdin =
     (case grep_args [] None [] args of
        (flags, None, operands) \<Rightarrow>
          ((lit ''Usage: grep [OPTION]... PATTERNS [FILE]...'' @ [newline]
            @ lit ''Try 'grep --help' for more information.'' @ [newline], False), s)
      | (flags, Some pattern, operands) \<Rightarrow>
          (case input_for s (lit ''grep'') operands stdin of
             ((text, errors), s') \<Rightarrow>
               (let invert = (lit ''v'' \<in> set flags);
                    matched = filter (\<lambda>line. grep_matcher e flags pattern line \<noteq> invert) (split_lines text);
                    output = (if lit ''q'' \<in> set flags then []
                      else if lit ''c'' \<in> set flags then str_of_nat (length matched) @ [newline]
                      else concat (map (\<lambda>line. line @ [newline]) matched))
                in ((output @ errors, matched \<noteq> [] \<and> errors = []), s'))))"

section \<open>head and tail\<close>

definition count_word_re :: re where
  "count_word_re = seq [exact [dash], one_of ''nc'', opt (one_of ''+-''), some (Cls is_decimal)]"

definition count_short_re :: re where
  "count_short_re = Cat (exact [dash]) (some (Cls is_decimal))"

fun head_args :: "nat \<Rightarrow> str \<Rightarrow> str list \<Rightarrow> str list \<Rightarrow> nat \<times> str \<times> str list" where
  "head_args unit_char value operands [] = (unit_char, value, operands)"
| "head_args unit_char value operands (arg # args) =
     (if (arg = lit ''-n'' \<or> arg = lit ''-c'') \<and> args \<noteq> []
      then head_args (arg ! 1) (hd args) operands (tl args)
      else if re_fullmatch count_word_re arg then head_args (arg ! 1) (drop 2 arg) operands args
      else if re_fullmatch count_short_re arg then head_args unit_char (drop 1 arg) operands args
      else if \<not> startswith arg (lit ''-'') \<or> arg = lit ''-''
      then head_args unit_char value (operands @ [arg]) args
      else head_args unit_char value operands args)"

text \<open>The part of a sequence \<open>head\<close> or \<open>tail\<close> shows.\<close>

definition chosen_part :: "str \<Rightarrow> bool \<Rightarrow> nat \<Rightarrow> 'a list \<Rightarrow> 'a list" where
  "chosen_part cmd from_start count xs =
     (if cmd = lit ''head'' then take count xs
      else if from_start then drop (count - 1) xs
      else drop (length xs - count) xs)"

definition head_tail :: "session \<Rightarrow> str \<Rightarrow> str list \<Rightarrow> str option \<Rightarrow> text_result" where
  "head_tail s cmd args stdin =
     (case head_args 110 (lit ''10'') [] args of
        (unit_char, value, operands) \<Rightarrow>
          (let from_start = (cmd = lit ''tail'' \<and> startswith value (lit ''+'')) in
           case int_of_str (lstrip_if (\<lambda>c. c = plus) value) of
             None \<Rightarrow>
               (Done (cmd @ lit '': invalid number of '' @ (if unit_char = 110 then lit ''lines'' else lit ''bytes'')
                  @ lit '': '' @ [squote] @ value @ [squote, newline], False), s)
           | Some i \<Rightarrow>
               (let count = nat \<bar>i\<bar> in
                case input_for s cmd operands stdin of
                  ((text, errors), s') \<Rightarrow>
                    if unit_char = 99 then
                      (case encode_utf8 text of
                         None \<Rightarrow> (Raised UnicodeEncodeError, s')
                       | Some data \<Rightarrow>
                           (Done (decode_utf8 (chosen_part cmd from_start count data) @ errors, errors = []), s'))
                    else
                      (Done (concat (chosen_part cmd from_start count (split_lines_keep text)) @ errors,
                         errors = []), s'))))"

section \<open>wc\<close>

definition dash_operands :: "str list \<Rightarrow> str list" where
  "dash_operands args = filter (\<lambda>arg. arg = lit ''-'' \<or> \<not> startswith arg (lit ''-'')) args"

definition wc :: "session \<Rightarrow> str list \<Rightarrow> str option \<Rightarrow> text_result" where
  "wc s args stdin =
     (let flags = concat (map (drop 1) (filter (\<lambda>arg. startswith arg (lit ''-'') \<and> arg \<noteq> lit ''-'') args));
          operands = dash_operands args
      in case input_for s (lit ''wc'') operands stdin of
        ((text, errors), s') \<Rightarrow>
          (case encode_utf8 text of
             None \<Rightarrow> (Raised UnicodeEncodeError, s')
           | Some data \<Rightarrow>
               (let count = (\<lambda>flag. if flag = 108 then length (filter (\<lambda>c. c = newline) text)
                       else if flag = 119 then length (split_words text) else length data);
                    asked = filter (\<lambda>flag. flag \<in> set flags) (lit ''lwc'');
                    wanted = (if asked = [] then lit ''lwc'' else asked);
                    numbers = (if length wanted = 1 then str_of_nat (count (hd wanted))
                      else join (lit '' '') (map (\<lambda>flag. pad_left 7 (str_of_nat (count flag))) wanted));
                    name = (if length operands = 1 \<and> hd operands \<noteq> lit ''-'' then lit '' '' @ hd operands else [])
                in (Done (numbers @ name @ [newline] @ errors, errors = []), s'))))"

section \<open>base64\<close>

definition ascii_space :: "nat \<Rightarrow> bool" where
  "ascii_space c \<longleftrightarrow> (9 \<le> c \<and> c \<le> 13) \<or> c = 32"

function chunks :: "nat \<Rightarrow> 'a list \<Rightarrow> 'a list list" where
  "chunks n xs = (if xs = [] \<or> n = 0 then [] else take n xs # chunks n (drop n xs))"
  by pat_completeness auto
termination by (relation "measure (\<lambda>(n, xs). length xs)") auto

declare chunks.simps [simp del]

text \<open>What \<open>base64 -d\<close> makes of its input, and what \<open>base64\<close> prints.\<close>

definition base64_decode_data :: "bytes \<Rightarrow> bytes option" where
  "base64_decode_data data =
     (let compact = filter (\<lambda>c. \<not> ascii_space c) data
      in b64decode (compact @ replicate ((4 - length compact mod 4) mod 4) equals_sign))"

definition base64_encode_text :: "bytes \<Rightarrow> str" where
  "base64_encode_text data = concat (map (\<lambda>line. line @ [newline]) (chunks 76 (b64encode data)))"

definition base64 :: "session \<Rightarrow> str list \<Rightarrow> str option \<Rightarrow> text_result" where
  "base64 s args stdin =
     (let decode = list_ex (\<lambda>arg. arg = lit ''--decode'' \<or>
            (startswith arg (lit ''-'') \<and> \<not> startswith arg (lit ''--'') \<and> 100 \<in> set arg)) args
      in case input_for s (lit ''base64'') (dash_operands args) stdin of
        ((text, errors), s') \<Rightarrow>
          if errors \<noteq> [] then (Done (errors, False), s')
          else case encode_utf8 text of
            None \<Rightarrow> (Raised UnicodeEncodeError, s')
          | Some data \<Rightarrow>
              if decode then
                (case base64_decode_data data of
                   None \<Rightarrow> (Done (lit ''base64: invalid input'' @ [newline], False), s')
                 | Some decoded \<Rightarrow> (Done (decode_utf8 decoded, True), s'))
              else (Done (base64_encode_text data, True), s'))"

section \<open>uname\<close>

definition MACHINE_NAMES :: "str list" where
  "MACHINE_NAMES = map lit [''x86_64'', ''aarch64'', ''armv7l'', ''i686'', ''mips'', ''mipsel'']"

definition uname_long_flags :: "(str \<times> nat) list" where
  "uname_long_flags = [(lit ''--kernel-name'', 115), (lit ''--nodename'', 110), (lit ''--kernel-release'', 114),
     (lit ''--machine'', 109), (lit ''--processor'', 112), (lit ''--hardware-platform'', 105),
     (lit ''--operating-system'', 111)]"

definition uname_try_help :: str where
  "uname_try_help = lit ''Try 'uname --help' for more information.'' @ [newline]"

text \<open>The flags of one word, up to \<open>a\<close> or an unknown letter.\<close>

datatype uname_stop = All_Flags | Bad_Flag nat

fun uname_letters :: "nat list \<Rightarrow> str \<Rightarrow> uname_stop option \<times> nat list" where
  "uname_letters wanted [] = (None, wanted)"
| "uname_letters wanted (flag # s) =
     (if flag = 97 then (Some All_Flags, wanted)
      else if flag \<notin> set (lit ''snrmpio'') \<and> flag \<noteq> 118 then (Some (Bad_Flag flag), wanted)
      else uname_letters (List.insert flag wanted) s)"

text \<open>The loop over the words: an early answer (\<open>Inl\<close>) or the flags wanted (\<open>Inr\<close>).\<close>

fun uname_args :: "str \<Rightarrow> nat list \<Rightarrow> str list \<Rightarrow> str + nat list" where
  "uname_args full wanted [] = Inr wanted"
| "uname_args full wanted (arg # args) =
     (if arg = lit ''-a'' \<or> arg = lit ''--all'' then Inl (full @ [newline])
      else case dict_get uname_long_flags arg of
        Some f \<Rightarrow> uname_args full (List.insert f wanted) args
      | None \<Rightarrow>
          if startswith arg (lit ''-'') \<and> \<not> startswith arg (lit ''--'') \<and> length arg > 1 then
            (case uname_letters wanted (drop 1 arg) of
               (Some All_Flags, _) \<Rightarrow> Inl (full @ [newline])
             | (Some (Bad_Flag f), _) \<Rightarrow>
                 Inl (lit ''uname: invalid option -- '' @ [squote, f, squote, newline] @ uname_try_help)
             | (None, w) \<Rightarrow> uname_args full w args)
          else if startswith arg (lit ''--'') then
            Inl (lit ''uname: unrecognized option '' @ [squote] @ arg @ [squote, newline] @ uname_try_help)
          else Inl (lit ''uname: extra operand '' @ [squote] @ arg @ [squote, newline] @ uname_try_help))"

definition uname :: "session \<Rightarrow> str list \<Rightarrow> str" where
  "uname s args =
     (let full = uname_output (ses_persona s);
          parts = split_words full;
          machine = (case find (\<lambda>p. p \<in> set MACHINE_NAMES) parts of Some m \<Rightarrow> m | None \<Rightarrow> lit ''x86_64'');
          version = (if machine \<in> set parts
                     then join (lit '' '') (drop 3 (takeWhile (\<lambda>p. p \<noteq> machine) parts)) else []);
          field = (\<lambda>f. if f = 115 then (if parts \<noteq> [] then hd parts else lit ''Linux'')
             else if f = 110 then hostname (ses_persona s)
             else if f = 114 then (if length parts > 2 then parts ! 2 else [])
             else if f = 118 then version
             else if f = 111 then lit ''GNU/Linux'' else machine)
      in case uname_args full [] args of
           Inl text \<Rightarrow> text
         | Inr wanted \<Rightarrow>
             (let w = (if wanted = [] then lit ''s'' else wanted) in
              join (lit '' '') (map field (filter (\<lambda>f. f \<in> set w \<and> field f \<noteq> []) (lit ''snrvmpio'')))
                @ [newline]))"

section \<open>wget and curl\<close>

text \<open>
  \<open>urlsplit(url).hostname\<close> of Python 3.11: white space and control characters are
  stripped, a scheme is taken off, the network location ends at "/", "?" or "#", and a
  bracket without its partner, or a location the library's further checks refuse,
  raises \<open>ValueError\<close>.
\<close>

definition is_scheme_char :: "nat \<Rightarrow> bool" where
  "is_scheme_char c \<longleftrightarrow> is_ascii_alnum c \<or> c = plus \<or> c = dash \<or> c = dot"

definition clean_url :: "str \<Rightarrow> str" where
  "clean_url url =
     filter (\<lambda>c. c \<noteq> tab \<and> c \<noteq> carriage \<and> c \<noteq> newline) (lstrip_if (\<lambda>c. c \<le> 32) url)"

definition drop_scheme :: "str \<Rightarrow> str" where
  "drop_scheme url =
     (case partition_at colon url of
        (scheme, Some rest) \<Rightarrow>
          if scheme \<noteq> [] \<and> is_ascii_letter (hd scheme) \<and> list_all is_scheme_char scheme then rest else url
      | (_, None) \<Rightarrow> url)"

definition netloc_of :: "str \<Rightarrow> str" where
  "netloc_of url =
     (if startswith url (lit ''//'')
      then takeWhile (\<lambda>c. c \<noteq> slash \<and> c \<noteq> question \<and> c \<noteq> 35) (drop 2 url) else [])"

definition after_last :: "nat \<Rightarrow> str \<Rightarrow> str" where
  "after_last c s = rev (takeWhile (\<lambda>d. d \<noteq> c) (rev s))"

definition hostname_of :: "str \<Rightarrow> str option" where
  "hostname_of netloc =
     (let hostinfo = after_last at_sign netloc;
          host = (case partition_at lbracket hostinfo of
             (_, Some bracketed) \<Rightarrow> fst (partition_at rbracket bracketed)
           | (_, None) \<Rightarrow> fst (partition_at colon hostinfo))
      in if host = [] then None
         else Some (case partition_at percent host of
             (h, Some zone) \<Rightarrow> lower h @ [percent] @ zone
           | (h, None) \<Rightarrow> lower h))"

definition urlsplit_hostname :: "env \<Rightarrow> str \<Rightarrow> str option outcome" where
  "urlsplit_hostname e url =
     (let netloc = netloc_of (drop_scheme (clean_url url)) in
      if (lbracket \<in> set netloc) \<noteq> (rbracket \<in> set netloc)
      then Raised (ValueError (lit ''Invalid IPv6 URL''))
      else if \<not> env_netloc_ok e netloc \<and> (lbracket \<in> set netloc \<or> list_ex (\<lambda>c. 128 \<le> c) netloc)
      then Raised (ValueError (lit ''invalid netloc''))
      else Done (hostname_of netloc))"

definition url_host :: "env \<Rightarrow> str \<Rightarrow> str outcome" where
  "url_host e url =
     (case urlsplit_hostname e (if contains url (lit ''://'') then url else lit ''http://'' @ url) of
        Raised x \<Rightarrow> Raised x
      | Done None \<Rightarrow> Done url
      | Done (Some host) \<Rightarrow> Done host)"

definition wget :: "env \<Rightarrow> session \<Rightarrow> str list \<Rightarrow> str outcome" where
  "wget e s args =
     (case first_operand args WGET_VALUE_OPTIONS of
        None \<Rightarrow>
          Done (lit ''wget: missing URL'' @ [newline] @ lit ''Usage: wget [OPTION]... [URL]...'' @ [newline, newline]
            @ lit ''Try `wget --help' for more options.'' @ [newline])
      | Some url \<Rightarrow>
          (case url_host e url of
             Raised x \<Rightarrow> Raised x
           | Done host \<Rightarrow>
               if is_busybox s then Done (lit ''wget: bad address '' @ [squote] @ host @ [squote, newline])
               else if list_ex (\<lambda>arg. short_flag arg 113 \<or> arg = lit ''--quiet'') args then Done []
               else
                 (let shown = (if contains url (lit ''://'') then url else lit ''http://'' @ url @ lit ''/'') in
                  Done (lit ''--'' @ env_stamp e @ lit ''--  '' @ shown @ [newline]
                    @ lit ''Resolving '' @ host @ lit '' ('' @ host
                    @ lit '')... failed: Temporary failure in name resolution.'' @ [newline]
                    @ lit ''wget: unable to resolve host address '' @ [squote] @ host @ [squote, newline]))))"

definition curl :: "env \<Rightarrow> str list \<Rightarrow> str outcome" where
  "curl e args =
     (case first_operand args CURL_VALUE_OPTIONS of
        None \<Rightarrow> Done (lit ''curl: try 'curl --help' or 'curl --manual' for more information'' @ [newline])
      | Some url \<Rightarrow>
          (let silent = list_ex (\<lambda>arg. short_flag arg 115 \<or> arg = lit ''--silent'') args;
               show_error = list_ex (\<lambda>arg. short_flag arg 83 \<or> arg = lit ''--show-error'') args
           in if silent \<and> \<not> show_error then Done []
              else case url_host e url of
                     Raised x \<Rightarrow> Raised x
                   | Done host \<Rightarrow> Done (lit ''curl: (6) Could not resolve host: '' @ host @ [newline])))"

section \<open>Fixed answers\<close>

definition id_text :: "session \<Rightarrow> str" where
  "id_text s =
     (let name = username (ses_persona s) in
      if name = lit ''root'' then lit ''uid=0(root) gid=0(root) groups=0(root)''
      else lit ''uid=1000('' @ name @ lit '') gid=1000('' @ name @ lit '') groups=1000('' @ name
             @ lit ''),4(adm),27(sudo)'')"

definition ps :: "session \<Rightarrow> str" where
  "ps s =
     join [newline]
       (lit ''PID TTY          TIME CMD''
        # map (\<lambda>(index, process). str_of_nat index @ lit '' ?        00:00:00 '' @ process)
            (zip [101..<101 + length (running_processes (ses_persona s))] (running_processes (ses_persona s))))
     @ [newline]"

definition visible_ports :: "session \<Rightarrow> str" where
  "visible_ports s =
     join [newline]
       (lit ''Proto Local Address           State''
        # map (\<lambda>port. lit ''tcp   0.0.0.0:'' @ pad_right 5 (str_of_int port) @ lit ''          LISTEN'')
            (open_ports_visible (ses_persona s)))
     @ [newline]"

section \<open>ls\<close>

fun extract_ls_target :: "str list \<Rightarrow> str option" where
  "extract_ls_target [] = None"
| "extract_ls_target (arg # args) =
     (if \<not> startswith arg (lit ''-'') then Some arg else extract_ls_target args)"

definition or_else :: "str option \<Rightarrow> str \<Rightarrow> str" where
  "or_else shown path = (case shown of None \<Rightarrow> path | Some t \<Rightarrow> if t = [] then path else t)"

definition listed_decoy :: "session \<Rightarrow> str \<Rightarrow> str list \<Rightarrow> str \<Rightarrow> bool" where
  "listed_decoy s directory names p \<longleftrightarrow>
     parent_of p = directory \<and> path_name (pure_path p) \<in> set names \<and> p \<notin> set (written_files s)"

definition record_listed_decoy_files :: "session \<Rightarrow> str \<Rightarrow> str list \<Rightarrow> session" where
  "record_listed_decoy_files s directory names =
     fold record_decoy_file_surfaced (filter (listed_decoy s directory names) (dict_keys (files s))) s"

definition ls :: "session \<Rightarrow> str \<Rightarrow> str option \<Rightarrow> bool \<Rightarrow> str \<times> session" where
  "ls s path shown show_all =
     (let resolved = resolve_path s path in
      case dict_get (build_listings s) resolved of
        Some content \<Rightarrow>
          (let visible = sort (filter (\<lambda>name. show_all \<or> \<not> startswith name (lit ''.'')) content);
               names = (if show_all then [lit ''.'', lit ''..''] @ visible else visible)
           in (if names \<noteq> [] then join (lit ''  '') names @ [newline] else [],
               record_listed_decoy_files s resolved names))
      | None \<Rightarrow>
          if dict_has (files s) resolved then (or_else shown path @ [newline], s)
          else if is_busybox s
          then (lit ''ls: '' @ or_else shown path @ lit '': No such file or directory'' @ [newline], s)
          else (lit ''ls: cannot access '' @ [squote] @ or_else shown path @ [squote]
                  @ lit '': No such file or directory'' @ [newline], s))"

definition ls_command :: "session \<Rightarrow> str list \<Rightarrow> (str \<times> bool) \<times> session" where
  "ls_command s args =
     (let target = extract_ls_target args;
          show_all = list_ex (\<lambda>arg. arg = lit ''--all'' \<or> arg = lit ''--almost-all'' \<or>
            (startswith arg (lit ''-'') \<and> \<not> startswith arg (lit ''--'') \<and> (97 \<in> set arg \<or> 65 \<in> set arg))) args
      in case ls s (or_else target (cwd s)) target show_all of
           (text, s') \<Rightarrow> ((text, \<not> startswith text (lit ''ls: '')), s'))"

end
