(* ===== verification/ShellFiles.thy ===== *)
theory ShellFiles
  imports ShellText
begin

text \<open>
  The commands of the fake shell that change the session's files (\<open>_chmod\<close>, \<open>_mkdir\<close>,
  \<open>_touch\<close>, \<open>_rm\<close>, \<open>_cp\<close> and \<open>_missing_operand\<close> of \<open>honeypot/core/engine.py\<close>). Each
  works through its operands in order, collects error messages and goes on with the
  next operand; \<open>each_operand\<close> is that loop.
\<close>

section \<open>The loop over operands\<close>

type_synonym cmd_result = "(str \<times> bool) \<times> session"

fun each_operand :: "('a \<Rightarrow> session \<Rightarrow> str list \<times> session) \<Rightarrow> 'a list \<Rightarrow> session \<Rightarrow> str list \<times> session" where
  "each_operand f [] s = ([], s)"
| "each_operand f (x # xs) s =
     (case f x s of (errors, s1) \<Rightarrow>
        (case each_operand f xs s1 of (rest, s2) \<Rightarrow> (errors @ rest, s2)))"

definition report :: "str list \<times> session \<Rightarrow> cmd_result" where
  "report r = (case r of (errors, s) \<Rightarrow> ((concat errors, errors = []), s))"

definition BUSYBOX_USAGE :: "(str \<times> str) list" where
  "BUSYBOX_USAGE =
     [(lit ''chmod'', lit ''chmod [-Rcvf] MODE[,MODE]... FILE...''),
      (lit ''cp'', lit ''cp [-arPLHpfinlsTu] SOURCE... DEST''),
      (lit ''mkdir'', lit ''mkdir [-m MODE] [-p] DIRECTORY...''),
      (lit ''rm'', lit ''rm [-irf] FILE...''),
      (lit ''touch'', lit ''touch [-c] [-d DATE] [-t DATE] [-r FILE] FILE...'')]"

definition busybox_version :: "session \<Rightarrow> str" where
  "busybox_version s =
     replace_str (lit ''built-in shell (ash)'') (lit ''multi-call binary.'') (os_banner (ses_persona s))"

definition missing_operand :: "session \<Rightarrow> str \<Rightarrow> str \<Rightarrow> str" where
  "missing_operand s cmd message =
     (if is_busybox s
      then busybox_version s @ [newline, newline] @ lit ''Usage: ''
           @ (case dict_get BUSYBOX_USAGE cmd of Some u \<Rightarrow> u | None \<Rightarrow> []) @ [newline]
      else message @ [newline] @ lit ''Try '' @ [squote] @ cmd @ lit '' --help' for more information.'' @ [newline])"

definition quoted :: "str \<Rightarrow> str" where
  "quoted t = [squote] @ t @ [squote]"

section \<open>chmod\<close>

definition chmod_option_re :: re where
  "chmod_option_re =
     alts [Cat (exact [dash]) (some (one_of ''Rcfv'')), exact (lit ''--recursive''), exact (lit ''--changes''),
           exact (lit ''--silent''), exact (lit ''--quiet''), exact (lit ''--verbose'')]"

fun chmod_words :: "bool \<Rightarrow> str list \<Rightarrow> bool \<times> str list" where
  "chmod_words recursive [] = (recursive, [])"
| "chmod_words recursive (arg # args) =
     (if re_fullmatch chmod_option_re arg
      then chmod_words (recursive \<or> 82 \<in> set arg \<or> arg = lit ''--recursive'') args
      else (recursive, arg # args))"

definition chmod_item :: "str \<Rightarrow> str \<Rightarrow> session \<Rightarrow> session" where
  "chmod_item mode item s =
     mark_executable item (chmod_executable mode (item \<in> set (executable_files s)) = Some True) s"

definition chmod_one :: "str \<Rightarrow> bool \<Rightarrow> str \<Rightarrow> session \<Rightarrow> str list \<times> session" where
  "chmod_one mode recursive operand s =
     (let path = resolve_path s operand in
      case kind s path of
        None \<Rightarrow>
          ([if is_busybox s then lit ''chmod: '' @ operand @ lit '': No such file or directory'' @ [newline]
            else lit ''chmod: cannot access '' @ quoted operand @ lit '': No such file or directory'' @ [newline]], s)
      | Some k \<Rightarrow>
          (let paths = (if k = File then [path]
                 else if recursive then filter (\<lambda>item. startswith item (inside_prefix path)) (dict_keys (files s))
                 else [])
           in ([], fold (chmod_item mode) paths s)))"

definition chmod :: "session \<Rightarrow> str list \<Rightarrow> cmd_result" where
  "chmod s args =
     (case chmod_words False args of
        (_, []) \<Rightarrow> ((missing_operand s (lit ''chmod'') (lit ''chmod: missing operand''), False), s)
      | (_, [mode]) \<Rightarrow>
          ((missing_operand s (lit ''chmod'') (lit ''chmod: missing operand after '' @ quoted mode), False), s)
      | (recursive, mode # operand # operands) \<Rightarrow>
          if chmod_executable mode False = None then
            ((if is_busybox s then lit ''chmod: invalid mode '' @ quoted mode @ [newline]
              else lit ''chmod: invalid mode: '' @ quoted mode @ [newline]
                   @ lit ''Try 'chmod --help' for more information.'' @ [newline], False), s)
          else report (each_operand (chmod_one mode recursive) (operand # operands) s))"

section \<open>mkdir\<close>

text \<open>The loop of \<open>mkdir -p\<close>: it stops at the first component that is a file.\<close>

fun mkdir_parents :: "str \<Rightarrow> str \<Rightarrow> str list \<Rightarrow> session \<Rightarrow> str option \<times> session" where
  "mkdir_parents path current [] s = (None, s)"
| "mkdir_parents path current (part # parts) s =
     (let here = current @ lit ''/'' @ part in
      case kind s here of
        Some File \<Rightarrow> (Some (if here = path then lit ''File exists'' else lit ''Not a directory''), s)
      | Some Dir \<Rightarrow> mkdir_parents path here parts s
      | None \<Rightarrow> mkdir_parents path here parts (make_dir here s))"

definition mkdir_plain :: "str \<Rightarrow> session \<Rightarrow> str option \<times> session" where
  "mkdir_plain path s =
     (let parent = kind s (parent_of path) in
      if kind s path \<noteq> None then (Some (lit ''File exists''), s)
      else if parent = Some File then (Some (lit ''Not a directory''), s)
      else if parent = None then (Some (lit ''No such file or directory''), s)
      else (None, make_dir path s))"

definition mkdir_one :: "bool \<Rightarrow> str \<Rightarrow> session \<Rightarrow> str list \<times> session" where
  "mkdir_one parents operand s =
     (let path = resolve_path s operand in
      case (if parents
            then mkdir_parents path []
                   (if path \<noteq> lit ''/'' then split_on slash (strip_if (\<lambda>c. c = slash) path) else []) s
            else mkdir_plain path s) of
        (None, s') \<Rightarrow> ([], s')
      | (Some reason, s') \<Rightarrow>
          ([lit ''mkdir: '' @ (if is_busybox s then lit ''can't'' else lit ''cannot'') @ lit '' create directory ''
             @ quoted operand @ lit '': '' @ reason @ [newline]], s'))"

definition mkdir :: "session \<Rightarrow> str list \<Rightarrow> cmd_result" where
  "mkdir s args =
     (case options args [(lit ''--parents'', lit ''p'')] (lit ''m'') of (flags, operands) \<Rightarrow>
        if operands = [] then ((missing_operand s (lit ''mkdir'') (lit ''mkdir: missing operand''), False), s)
        else report (each_operand (mkdir_one (lit ''p'' \<in> set flags)) operands s))"

section \<open>touch\<close>

definition touch_error :: "session \<Rightarrow> str \<Rightarrow> str \<Rightarrow> str" where
  "touch_error s operand reason =
     (if is_busybox s then lit ''touch: '' @ operand @ lit '': '' @ reason @ [newline]
      else lit ''touch: cannot touch '' @ quoted operand @ lit '': '' @ reason @ [newline])"

definition touch_one :: "bool \<Rightarrow> str \<Rightarrow> session \<Rightarrow> str list \<times> session" where
  "touch_one no_create operand s =
     (let path = resolve_path s operand in
      if kind s path \<noteq> None \<or> no_create then ([], s)
      else case kind s (parent_of path) of
        Some Dir \<Rightarrow>
          (case store s path [] False of
             (True, s') \<Rightarrow> ([], s')
           | (False, s') \<Rightarrow> ([touch_error s operand (lit ''No space left on device'')], s'))
      | Some File \<Rightarrow> ([touch_error s operand (lit ''Not a directory'')], s)
      | None \<Rightarrow> ([touch_error s operand (lit ''No such file or directory'')], s))"

definition touch :: "session \<Rightarrow> str list \<Rightarrow> cmd_result" where
  "touch s args =
     (case options args [(lit ''--no-create'', lit ''c'')] (lit ''dtr'') of (flags, operands) \<Rightarrow>
        if operands = [] then ((missing_operand s (lit ''touch'') (lit ''touch: missing file operand''), False), s)
        else report (each_operand (touch_one (lit ''c'' \<in> set flags)) operands s))"

section \<open>rm\<close>

definition rm_one :: "bool \<Rightarrow> bool \<Rightarrow> str \<Rightarrow> session \<Rightarrow> str list \<times> session" where
  "rm_one force recursive operand s =
     (let path = resolve_path s operand in
      if path = lit ''/'' \<and> recursive \<and> \<not> is_busybox s then
        ([lit ''rm: it is dangerous to operate recursively on '/'' @ [squote, newline]
            @ lit ''rm: use --no-preserve-root to override this failsafe'' @ [newline]], s)
      else case kind s path of
        None \<Rightarrow>
          (if force then []
           else [lit ''rm: '' @ (if is_busybox s then lit ''can't'' else lit ''cannot'') @ lit '' remove ''
                 @ quoted operand @ lit '': No such file or directory'' @ [newline]], s)
      | Some k \<Rightarrow>
          if k = Dir \<and> \<not> recursive then
            ([if is_busybox s then lit ''rm: '' @ quoted operand @ lit '' is a directory'' @ [newline]
              else lit ''rm: cannot remove '' @ quoted operand @ lit '': Is a directory'' @ [newline]], s)
          else ([], remove s path))"

definition rm :: "session \<Rightarrow> str list \<Rightarrow> cmd_result" where
  "rm s args =
     (case options args [(lit ''--recursive'', lit ''r''), (lit ''--force'', lit ''f'')] [] of (flags, operands) \<Rightarrow>
        (let force = (lit ''f'' \<in> set flags); recursive = (lit ''r'' \<in> set flags \<or> lit ''R'' \<in> set flags) in
         if operands = [] then
           (if force then (([], True), s)
            else ((missing_operand s (lit ''rm'') (lit ''rm: missing operand''), False), s))
         else report (each_operand (rm_one force recursive) operands s)))"

section \<open>cp\<close>

text \<open>The files of one operand: it stops at the first that does not fit.\<close>

fun cp_files :: "str \<Rightarrow> (str \<times> str) list \<Rightarrow> session \<Rightarrow> str list \<times> session" where
  "cp_files shown [] s = ([], s)"
| "cp_files shown ((origin, target) # copies) s =
     (let content = (case dict_get (files s) origin of
            Some c \<Rightarrow> c | None \<Rightarrow> elf_header (uname_output (ses_persona s)))
      in case store s target content False of
        (False, s') \<Rightarrow> ([lit ''cp: error writing '' @ quoted shown @ lit '': No space left on device'' @ [newline]], s')
      | (True, s') \<Rightarrow>
          cp_files shown copies
            (if origin \<in> set (executable_files s') \<or> \<not> dict_has (files s') origin
             then mark_executable target True s' else s'))"

definition cp_dirs :: "str \<Rightarrow> str \<Rightarrow> session \<Rightarrow> session" where
  "cp_dirs path target s =
     (let s1 = make_dir target s in
      fold (\<lambda>item. make_dir (target @ drop (length path) item))
        (filter (\<lambda>item. startswith item (inside_prefix path)) (dirs s1)) s1)"

definition cp_copies :: "str \<Rightarrow> str \<Rightarrow> session \<Rightarrow> (str \<times> str) list" where
  "cp_copies path target s =
     map (\<lambda>item. (item, target @ drop (length path) item))
       (filter (\<lambda>item. startswith item (inside_prefix path)) (dict_keys (files s)))"

definition cp_one :: "str \<Rightarrow> str \<Rightarrow> bool \<Rightarrow> bool \<Rightarrow> str \<Rightarrow> session \<Rightarrow> str list \<times> session" where
  "cp_one destination dest_path dest_is_dir recursive source s =
     (let path = resolve_path s source;
          name = path_name (pure_path path);
          target = (if dest_is_dir then rstrip_if (\<lambda>c. c = slash) dest_path @ lit ''/'' @ name else dest_path);
          shown = (if dest_is_dir then rstrip_if (\<lambda>c. c = slash) destination @ lit ''/'' @ name else destination)
      in case kind s path of
        None \<Rightarrow>
          ([lit ''cp: '' @ (if is_busybox s then lit ''can't'' else lit ''cannot'') @ lit '' stat ''
             @ quoted source @ lit '': No such file or directory'' @ [newline]], s)
      | Some Dir \<Rightarrow>
          if \<not> recursive then
            ([if is_busybox s then lit ''cp: omitting directory '' @ quoted source @ [newline]
              else lit ''cp: -r not specified; omitting directory '' @ quoted source @ [newline]], s)
          else cp_files shown (cp_copies path target s) (cp_dirs path target s)
      | Some File \<Rightarrow>
          if kind s (parent_of target) \<noteq> Some Dir then
            ([if is_busybox s
              then lit ''cp: can't create '' @ quoted shown @ lit '': No such file or directory'' @ [newline]
              else lit ''cp: cannot create regular file '' @ quoted shown
                   @ lit '': No such file or directory'' @ [newline]], s)
          else cp_files shown [(path, target)] s)"

definition cp :: "session \<Rightarrow> str list \<Rightarrow> cmd_result" where
  "cp s args =
     (case options args [(lit ''--recursive'', lit ''r''), (lit ''--archive'', lit ''a'')] [] of (flags, operands) \<Rightarrow>
        (let recursive = list_ex (\<lambda>f. f \<in> set flags) [lit ''r'', lit ''R'', lit ''a''] in
         if operands = [] then ((missing_operand s (lit ''cp'') (lit ''cp: missing file operand''), False), s)
         else if length operands = 1 then
           ((missing_operand s (lit ''cp'')
               (lit ''cp: missing destination file operand after '' @ quoted (hd operands)), False), s)
         else
           (let sources = butlast operands; destination = last operands;
                dest_path = resolve_path s destination;
                dest_is_dir = (kind s dest_path = Some Dir)
            in if length sources > 1 \<and> \<not> dest_is_dir then
                 ((if is_busybox s then lit ''cp: '' @ quoted destination @ lit '' is not a directory'' @ [newline]
                   else lit ''cp: target '' @ quoted destination @ lit '' is not a directory'' @ [newline], False), s)
               else report (each_operand (cp_one destination dest_path dest_is_dir recursive) sources s))))"

section \<open>What the file commands keep\<close>

lemma snd_report [simp]: "snd (report r) = snd r"
  by (simp add: report_def split: prod.splits)

context session_invariant
begin

lemma I_each_operand:
  assumes step: "\<And>x s. I s \<Longrightarrow> I (snd (f x s))" and "I s"
  shows "I (snd (each_operand f xs s))"
  using assms(2)
proof (induction xs arbitrary: s)
  case (Cons x xs)
  show ?case using Cons.IH [OF step [OF Cons.prems, of x]]
    by (auto split: prod.splits)
qed simp

lemma I_fold:
  assumes step: "\<And>x s. I s \<Longrightarrow> I (f x s)"
  shows "I s \<Longrightarrow> I (fold f xs s)"
  by (induction xs arbitrary: s) (auto intro: step)

lemma I_chmod: "I s \<Longrightarrow> I (snd (chmod s args))"
proof -
  assume I: "I s"
  have item: "I s' \<Longrightarrow> I (chmod_item mode x s')" for mode x s'
    by (simp add: chmod_item_def I_mark)
  have items: "I s' \<Longrightarrow> I (fold (chmod_item mode) xs s')" for mode xs s'
    by (rule I_fold) (simp_all add: item)
  have one: "I s' \<Longrightarrow> I (snd (chmod_one mode recursive operand s'))" for mode recursive operand s'
    by (auto simp: chmod_one_def Let_def split: option.splits intro: item items)
  show ?thesis using I
    by (auto simp: chmod_def split: prod.splits list.splits intro!: I_each_operand one
        simp del: each_operand.simps)
qed

lemma I_mkdir_parents: "I s \<Longrightarrow> I (snd (mkdir_parents path current parts s))"
  by (induction path current parts s rule: mkdir_parents.induct)
    (auto simp: Let_def split: option.splits node.splits intro: I_make_dir)

lemma I_mkdir: "I s \<Longrightarrow> I (snd (mkdir s args))"
proof -
  assume I: "I s"
  have one: "I s' \<Longrightarrow> I (snd (mkdir_one parents operand s'))" for parents operand s'
    using I_mkdir_parents [of s']
    by (auto simp: mkdir_one_def mkdir_plain_def Let_def split: prod.splits option.splits if_splits
        intro: I_make_dir) (metis snd_conv)+
  show ?thesis using I
    by (auto simp: mkdir_def split: prod.splits intro!: I_each_operand one simp del: each_operand.simps)
qed

lemma I_touch: "I s \<Longrightarrow> I (snd (touch s args))"
proof -
  assume I: "I s"
  have one: "I s' \<Longrightarrow> I (snd (touch_one c operand s'))" for c operand s'
    by (auto simp: touch_one_def Let_def split: prod.splits option.splits node.splits bool.splits
        intro: I_store_result)
  show ?thesis using I
    by (auto simp: touch_def split: prod.splits intro!: I_each_operand one simp del: each_operand.simps)
qed

lemma I_rm: "I s \<Longrightarrow> I (snd (rm s args))"
proof -
  assume I: "I s"
  have one: "I s' \<Longrightarrow> I (snd (rm_one f r operand s'))" for f r operand s'
    by (auto simp: rm_one_def Let_def split: option.splits intro: I_remove)
  show ?thesis using I
    by (auto simp: rm_def Let_def split: prod.splits intro!: I_each_operand one simp del: each_operand.simps)
qed

lemma I_cp_files: "I s \<Longrightarrow> I (snd (cp_files shown copies s))"
proof (induction copies arbitrary: s)
  case (Cons c copies)
  obtain origin target where c: "c = (origin, target)" by (cases c)
  define content where "content = (case dict_get (files s) origin of
      Some t \<Rightarrow> t | None \<Rightarrow> elf_header (uname_output (ses_persona s)))"
  obtain b s1 where st: "store s target content False = (b, s1)" by (cases "store s target content False")
  then have "I s1" by (rule I_store_result [OF Cons.prems])
  moreover have "I (snd (cp_files shown copies s1))"
    "I (snd (cp_files shown copies (mark_executable target True s1)))"
    using \<open>I s1\<close> by (auto intro: Cons.IH I_mark)
  ultimately show ?case using st
    by (simp add: c content_def [symmetric] split: bool.split)
qed simp

lemma I_cp: "I s \<Longrightarrow> I (snd (cp s args))"
proof -
  assume I: "I s"
  have dirs: "I s' \<Longrightarrow> I (cp_dirs path target s')" for path target s'
    by (simp add: cp_dirs_def Let_def I_fold I_make_dir)
  have one: "I s' \<Longrightarrow> I (snd (cp_one d dp di r source s'))" for d dp di r source s'
    by (auto simp: cp_one_def Let_def split: option.splits node.splits intro: I_cp_files dirs
        simp del: cp_files.simps)
  show ?thesis using I
    by (auto simp: cp_def Let_def split: prod.splits intro!: I_each_operand one simp del: each_operand.simps)
qed

end

end
