(* ===== verification/Engine.thy ===== *)
theory Engine
  imports ShellFiles
begin

text \<open>
  The interpreter of \<open>honeypot/core/engine.py\<close>: one simple command (\<open>_run_command\<close>), its
  redirects (\<open>_run\<close>), pipelines, command lists (\<open>_execute\<close>), scripts and subshells, and
  \<open>process\<close>, the entry point of every shell session. A Python exception that a command
  lets escape is \<open>Raised\<close>, paired with the session as it was left. Subshells nest at most
  \<open>MAX_SUBSHELL_DEPTH\<close> deep: a definition takes the interpreter of the next level as
  \<open>deeper\<close>, which is \<open>None\<close> at the last level, and \<open>execute n\<close> is the interpreter with
  \<open>n\<close> levels left.
\<close>

definition CLOSE_SIGNAL :: str where
  "CLOSE_SIGNAL = lit ''__CLOSE__''"

definition MAX_SUBSHELL_DEPTH :: nat where
  "MAX_SUBSHELL_DEPTH = 3"

definition ASH_HELP :: str where
  "ASH_HELP =
     concat (map (\<lambda>line. line @ [newline])
       [[],
        lit ''Built-in commands:'',
        lit ''------------------'',
        [tab] @ lit ''. : [ [[ alias bg break cd chdir command continue echo eval exec'',
        [tab] @ lit ''exit export false fg getopts hash help history jobs kill let'',
        [tab] @ lit ''local printf pwd read readonly return set shift source test times'',
        [tab] @ lit ''trap true type ulimit umask unalias unset wait'',
        []])"

definition BASH_HELP :: str where
  "BASH_HELP =
     concat (map (\<lambda>line. line @ [newline])
       [lit ''GNU bash, version 5.1.16(1)-release (x86_64-pc-linux-gnu)'',
        lit ''These shell commands are defined internally.  Type `help' to see this list.'',
        lit ''Type `help name' to find out more about the function `name'.'',
        lit ''Use `info bash' to find out more about the shell in general.'',
        lit ''Use `man -k' or `info' to find out more about commands not in this list.'',
        [],
        lit ''A star (*) next to a name means that the command is disabled.'',
        [],
        lit '' job_spec [&]                            history [-c] [-d offset] [n] or hist>'',
        lit '' (( expression ))                        if COMMANDS; then COMMANDS; [ elif C>'',
        lit '' . filename [arguments]                  jobs [-lnprs] [jobspec ...] or jobs >'',
        lit '' :                                       kill [-s sigspec | -n signum | -sigs>'',
        lit '' [ arg... ]                              let arg [arg ...]'',
        lit '' [[ expression ]]                        local [option] name[=value] ...'',
        lit '' alias [-p] [name[=value] ... ]          logout [n]'',
        lit '' bg [job_spec ...]                       mapfile [-d delim] [-n count] [-O or>'',
        lit '' bind [-lpsvPSVX] [-m keymap] [-f file>  popd [-n] [+N | -N]'',
        lit '' break [n]                               printf [-v var] format [arguments]'',
        lit '' builtin [shell-builtin [arg ...]]       pushd [-n] [+N | -N | dir]'',
        lit '' caller [expr]                           pwd [-LP]'',
        lit '' case WORD in [PATTERN [| PATTERN]...)>  read [-ers] [-a array] [-d delim] [->'',
        lit '' cd [-L|[-P [-e]] [-@]] [dir]            readarray [-d delim] [-n count] [-O >'',
        lit '' command [-pVv] command [arg ...]        readonly [-aAf] [name[=value] ...] o>'',
        lit '' compgen [-abcdefgjksuv] [-o option] [>  return [n]'',
        lit '' complete [-abcdefgjksuv] [-pr] [-DEI]>  select NAME [in WORDS ... ;] do COMM>'',
        lit '' continue [n]                            set [-abefhkmnptuvxBCHP] [-o option->'',
        lit '' declare [-aAfFgiIlnrtux] [-p] [name[=>  shift [n]'',
        lit '' dirs [-clpv] [+N] [-N]                  shopt [-pqsu] [-o] [optname ...]'',
        lit '' echo [-neE] [arg ...]                   source filename [arguments]'',
        lit '' enable [-a] [-dnps] [-f filename] [na>  suspend [-f]'',
        lit '' eval [arg ...]                          test [expr]'',
        lit '' exec [-cl] [-a name] [command [argume>  time [-p] pipeline'',
        lit '' exit [n]                                times'',
        lit '' export [-fn] [name[=value] ...] or ex>  trap [-lp] [[arg] signal_spec ...]'',
        lit '' false                                   true'',
        lit '' fc [-e ename] [-lnr] [first] [last] o>  type [-afptP] name [name ...]'',
        lit '' fg [job_spec]                           typeset [-aAfFgilnrtux] [-p] name[=v>'',
        lit '' for NAME [in WORDS ... ] ; do COMMAND>  ulimit [-SHabcdefiklmnpqrstuvxPT] [l>'',
        lit '' function name { COMMANDS ; } or name >  umask [-p] [-S] [mode]'',
        lit '' getopts optstring name [arg ...]        unalias [-a] name [name ...]'',
        lit '' hash [-lr] [-p pathname] [name ...]     unset [-f] [-v] [-n] [name ...]'',
        lit '' help [-dms] [pattern ...]               wait [-fn] [-p var] [id ...]''])"

text \<open>
  \<open>build_banner\<close>; the previous login's time, which the code draws at random and formats
  with \<open>strftime\<close>, and the two random numbers of its address are arguments.
\<close>

definition build_banner :: "str \<Rightarrow> nat \<Rightarrow> nat \<Rightarrow> session \<Rightarrow> str" where
  "build_banner last_login net host s =
     os_banner (ses_persona s) @ [newline]
     @ lit ''Last login: '' @ last_login @ lit '' from 10.0.'' @ str_of_nat net @ lit ''.'' @ str_of_nat host @ [newline]
     @ prompt s"

definition syntax_error :: "session \<Rightarrow> str \<Rightarrow> str" where
  "syntax_error s token =
     (if is_busybox s
      then shell_name s @ lit '': syntax error: unexpected '' @ [dquote] @ token @ [dquote, newline]
      else lit ''bash: syntax error near unexpected token `'' @ token @ [squote, newline])"

section \<open>Results\<close>

text \<open>What a simple command gives: its text and whether it worked, or \<open>None\<close> to end the
  session. An executed line also says whether \<open>exit\<close> was run.\<close>

type_synonym run_result = "(str \<times> bool) option outcome \<times> session"
type_synonym line_result = "(str \<times> bool \<times> bool) outcome \<times> session"
type_synonym executor = "str \<Rightarrow> session \<Rightarrow> line_result"

definition prints :: "str \<Rightarrow> bool \<Rightarrow> session \<Rightarrow> run_result" where
  "prints text ok s = (Done (Some (text, ok)), s)"

definition of_cmd :: "cmd_result \<Rightarrow> run_result" where
  "of_cmd r = (case r of ((text, ok), s) \<Rightarrow> prints text ok s)"

definition of_text :: "text_result \<Rightarrow> run_result" where
  "of_text r = (case r of (Done (text, ok), s) \<Rightarrow> prints text ok s | (Raised x, s) \<Rightarrow> (Raised x, s))"

definition of_outcome :: "str outcome \<Rightarrow> bool \<Rightarrow> session \<Rightarrow> run_result" where
  "of_outcome r ok s = (case r of Done text \<Rightarrow> prints text ok s | Raised x \<Rightarrow> (Raised x, s))"

section \<open>Scripts\<close>

definition is_elf :: "str \<Rightarrow> bool" where
  "is_elf content = startswith content (0x7F # lit ''ELF'')"

fun run_lines :: "executor \<Rightarrow> bool \<Rightarrow> str list \<Rightarrow> session \<Rightarrow> text_result" where
  "run_lines exec succeeded [] s = (Done ([], succeeded), s)"
| "run_lines exec succeeded (raw # lines) s =
     (let line = strip raw in
      if line = [] \<or> startswith line (lit ''#'') then run_lines exec succeeded lines s
      else case exec line s of
        (Raised x, s1) \<Rightarrow> (Raised x, s1)
      | (Done (text, ok, ended), s1) \<Rightarrow>
          if ended then (Done (text, ok), s1)
          else case run_lines exec ok lines s1 of
            (Raised x, s2) \<Rightarrow> (Raised x, s2)
          | (Done (rest, ok'), s2) \<Rightarrow> (Done (text @ rest, ok'), s2))"

definition run_script :: "executor \<Rightarrow> str \<Rightarrow> session \<Rightarrow> text_result" where
  "run_script exec script s = run_lines exec True (split_lines script) s"

definition run_file :: "executor option \<Rightarrow> session \<Rightarrow> str \<Rightarrow> str \<Rightarrow> text_result" where
  "run_file deeper s cmd path =
     (case dict_get (files s) path of
        Some content \<Rightarrow>
          if path \<notin> set (executable_files s)
          then (Done (shell_name s @ lit '': '' @ cmd @ lit '': Permission denied'' @ [newline], False), s)
          else if is_elf content then (Done ([], True), s)
          else (case deeper of
                  None \<Rightarrow> (Done ([], True), s)
                | Some exec \<Rightarrow> run_script exec content s)
      | None \<Rightarrow>
          (Done (if dict_has (build_listings s) path then
             (if is_busybox s then shell_name s @ lit '': '' @ cmd @ lit '': Permission denied'' @ [newline]
              else lit ''bash: '' @ cmd @ lit '': Is a directory'' @ [newline])
           else if is_busybox s then shell_name s @ lit '': '' @ cmd @ lit '': not found'' @ [newline]
           else lit ''bash: '' @ cmd @ lit '': No such file or directory'' @ [newline], False), s))"

definition subshell :: "executor option \<Rightarrow> session \<Rightarrow> str \<Rightarrow> str list \<Rightarrow> str option \<Rightarrow> text_result" where
  "subshell deeper s cmd args stdin =
     (case deeper of
        None \<Rightarrow> (Done ([], True), s)
      | Some exec \<Rightarrow>
          (case args of
             [] \<Rightarrow> (case stdin of None \<Rightarrow> (Done ([], True), s) | Some script \<Rightarrow> run_script exec script s)
           | arg # more_args \<Rightarrow>
               if arg = lit ''-c'' then
                 (case more_args of
                    [] \<Rightarrow> (Done (cmd @ lit '': -c: option requires an argument'' @ [newline], False), s)
                  | line # _ \<Rightarrow>
                      (case exec line s of
                         (Raised x, s') \<Rightarrow> (Raised x, s')
                       | (Done (output, ok, _), s') \<Rightarrow> (Done (output, ok), s')))
               else
                 (case read_one s cmd arg of
                    ((None, err), s') \<Rightarrow> (Done (err, False), s')
                  | ((Some script, _), s') \<Rightarrow>
                      if is_elf script
                      then (Done (cmd @ lit '': '' @ arg @ lit '': cannot execute binary file'' @ [newline], False), s')
                      else run_script exec script s')))"

section \<open>One simple command\<close>

definition cd :: "session \<Rightarrow> str list \<Rightarrow> cmd_result" where
  "cd s args =
     (if length args > 1 then ((shell_name s @ lit '': cd: too many arguments'' @ [newline], False), s)
      else
        (let shown = (if args \<noteq> [] then hd args else lit ''~''); target = resolve_path s shown in
         if dict_has (build_listings s) target then (([], True), change_dir target s)
         else
           (let reason = (if dict_has (files s) target \<or> target \<in> set (system_programs s)
                  then lit ''Not a directory'' else lit ''No such file or directory'')
            in ((if is_busybox s
                 then shell_name s @ lit '': cd: can't cd to '' @ shown @ lit '': '' @ reason @ [newline]
                 else lit ''bash: cd: '' @ shown @ lit '': '' @ reason @ [newline], False), s))))"

definition cat :: "session \<Rightarrow> str list \<Rightarrow> str option \<Rightarrow> cmd_result" where
  "cat s args stdin =
     (let operands = dash_operands args in
      if operands = [] then
        (case stdin of
           Some t \<Rightarrow> ((t, True), s)
         | None \<Rightarrow> ((lit ''cat: missing file operand'' @ [newline], False), s))
      else read_files s (lit ''cat'') operands stdin)"

definition clear_screen :: str where
  "clear_screen = [27] @ lit ''[2J'' @ [27] @ lit ''[H''"

text \<open>The command dispatcher.\<close>

definition dispatch :: "env \<Rightarrow> executor option \<Rightarrow> session \<Rightarrow> str \<Rightarrow> str list \<Rightarrow> str option \<Rightarrow> run_result" where
  "dispatch e deeper s cmd args stdin =
     (if cmd \<in> set (map lit [''exit'', ''quit'', ''logout'']) then (Done None, s)
      else if cmd = lit ''help'' then prints (if is_busybox s then ASH_HELP else BASH_HELP) True s
      else if cmd = lit ''whoami'' then prints (username (ses_persona s) @ [newline]) True s
      else if cmd = lit ''pwd'' then prints (cwd s @ [newline]) True s
      else if cmd = lit ''cd'' then of_cmd (cd s args)
      else if cmd = lit ''id'' then prints (id_text s @ [newline]) True s
      else if cmd = lit ''uname''
      then (let text = uname s args in prints text (\<not> startswith text (lit ''uname: '')) s)
      else if cmd = lit ''wget'' then of_outcome (wget e s args) False s
      else if cmd = lit ''curl'' then of_outcome (curl e args) False s
      else if cmd = lit ''echo'' then prints (echo args) True s
      else if cmd = lit ''grep'' then of_cmd (grep e s args stdin)
      else if cmd = lit ''head'' \<or> cmd = lit ''tail'' then of_text (head_tail s cmd args stdin)
      else if cmd = lit ''wc'' then of_text (wc s args stdin)
      else if cmd = lit ''base64'' then of_text (base64 s args stdin)
      else if cmd = lit ''sh'' \<or> cmd = lit ''bash'' then of_text (subshell deeper s cmd args stdin)
      else if cmd = lit ''hostname'' then prints (hostname (ses_persona s) @ [newline]) True s
      else if cmd = lit ''ps'' then prints (ps s) True s
      else if cmd = lit ''netstat'' \<or> cmd = lit ''ss'' then prints (visible_ports s) True s
      else if cmd = lit ''ls'' then of_cmd (ls_command s args)
      else if cmd = lit ''chmod'' then of_cmd (chmod s args)
      else if cmd = lit ''mkdir'' then of_cmd (mkdir s args)
      else if cmd = lit ''touch'' then of_cmd (touch s args)
      else if cmd = lit ''rm'' then of_cmd (rm s args)
      else if cmd = lit ''cp'' then of_cmd (cp s args)
      else if cmd = lit ''cat'' then of_cmd (cat s args stdin)
      else if cmd = lit ''clear'' then prints clear_screen True s
      else if is_busybox s then prints (shell_name s @ lit '': '' @ cmd @ lit '': not found'' @ [newline]) False s
      else prints (lit ''bash: '' @ cmd @ lit '': command not found'' @ [newline]) False s)"

text \<open>BusyBox's own dispatch: the applet named by the first argument, and only what a
  BusyBox device has.\<close>

definition run_applet :: "env \<Rightarrow> executor option \<Rightarrow> session \<Rightarrow> str \<Rightarrow> str list \<Rightarrow> str option \<Rightarrow> run_result" where
  "run_applet e deeper s cmd args stdin =
     (if is_busybox s \<and> cmd \<notin> set BUSYBOX_APPLETS \<and> cmd \<notin> set ASH_BUILTINS
      then prints (shell_name s @ lit '': '' @ cmd @ lit '': not found'' @ [newline]) False s
      else dispatch e deeper s cmd args stdin)"

definition run_named :: "env \<Rightarrow> executor option \<Rightarrow> session \<Rightarrow> str \<Rightarrow> str list \<Rightarrow> str option \<Rightarrow> run_result" where
  "run_named e deeper s cmd args stdin =
     (if cmd = lit ''busybox'' \<and> is_busybox s then
        (case args of
           [] \<Rightarrow> prints (busybox_version s @ [newline, newline]
                   @ lit ''Usage: busybox [function [arguments]...]'' @ [newline]) True s
         | applet # rest \<Rightarrow>
             if applet \<notin> set BUSYBOX_APPLETS
             then prints (applet @ lit '': applet not found'' @ [newline]) False s
             else run_applet e deeper s applet rest stdin)
      else run_applet e deeper s cmd args stdin)"

definition run_command :: "env \<Rightarrow> executor option \<Rightarrow> str \<Rightarrow> session \<Rightarrow> str option \<Rightarrow> run_result" where
  "run_command e deeper command s stdin =
     (case shlex_split command of
        None \<Rightarrow>
          prints (if is_busybox s then shell_name s @ lit '': syntax error: unterminated quoted string'' @ [newline]
                 else lit ''bash: syntax error near unexpected token'' @ [newline]) False s
      | Some [] \<Rightarrow> prints [] True s
      | Some (cmd # args) \<Rightarrow>
          if slash \<in> set cmd then
            (let path = resolve_path s cmd in
             if path \<notin> set (system_programs s) \<or> dict_has (files s) path
             then of_text (run_file deeper s cmd path)
             else run_named e deeper s (path_name (pure_path path)) args stdin)
          else run_named e deeper s cmd args stdin)"

section \<open>Redirects\<close>

type_synonym targets = "(str \<times> str option) list"

definition DEV_NULL :: str where
  "DEV_NULL = lit ''/dev/null''"

definition screen_targets :: targets where
  "screen_targets = [(lit ''1'', None), (lit ''2'', None)]"

definition point_at :: "str option \<Rightarrow> str \<Rightarrow> targets \<Rightarrow> targets" where
  "point_at where_to stream targets = (if dict_has targets stream then dict_put stream where_to targets else targets)"

text \<open>The redirects of one command: the shell's error (\<open>Inl\<close>) or where the streams go.\<close>

fun open_redirects :: "redirect list \<Rightarrow> targets \<Rightarrow> session \<Rightarrow> (str + targets) \<times> session" where
  "open_redirects [] targets s = (Inr targets, s)"
| "open_redirects ((fd, appending, target) # redirects) targets s =
     (if startswith target (lit ''&'') then
        open_redirects redirects
          (case dict_get targets (drop 1 target) of
             Some there \<Rightarrow> point_at there fd targets
           | None \<Rightarrow> targets) s
      else
        (let path = resolve_path s target;
             streams = (if fd = lit ''&'' then [lit ''1'', lit ''2''] else [fd]);
             targets' = fold (point_at (Some path)) streams targets
         in if path = DEV_NULL then open_redirects redirects targets' s
            else case open_for_writing s target path appending of
                   (Some err, s') \<Rightarrow> (Inl err, s')
                 | (None, s') \<Rightarrow> open_redirects redirects targets' s'))"

definition first_word :: "str \<Rightarrow> str" where
  "first_word command = (case split_words command of [] \<Rightarrow> [] | w # _ \<Rightarrow> w)"

text \<open>Sending the streams' data: what still prints on the screen, and whether it all fit.\<close>

fun deliver :: "str \<Rightarrow> targets \<Rightarrow> (str \<times> str) list \<Rightarrow> bool \<Rightarrow> session \<Rightarrow> cmd_result" where
  "deliver command targets [] succeeded s = (([], succeeded), s)"
| "deliver command targets ((stream, data) # streams) succeeded s =
     (case dict_get targets stream of
        Some (Some path) \<Rightarrow>
          if data = [] \<or> path = DEV_NULL then deliver command targets streams succeeded s
          else (case store s path data True of
              (True, s') \<Rightarrow> deliver command targets streams succeeded s'
            | (False, s') \<Rightarrow>
                (case deliver command targets streams False s' of
                   ((rest, ok), s'') \<Rightarrow>
                     (((if first_word command = lit ''echo'' then shell_name s @ lit '': '' else [])
                        @ first_word command @ lit '': write error: No space left on device'' @ [newline] @ rest, ok), s'')))
      | _ \<Rightarrow>
          (case deliver command targets streams succeeded s of
             ((rest, ok), s') \<Rightarrow> ((data @ rest, ok), s')))"

definition run :: "env \<Rightarrow> executor option \<Rightarrow> str \<Rightarrow> session \<Rightarrow> str option \<Rightarrow> run_result" where
  "run e deeper command s stdin =
     (case split_redirects command of
        None \<Rightarrow>
          prints (if is_busybox s then shell_name s @ lit '': syntax error: unexpected newline'' @ [newline]
                 else lit ''bash: syntax error near unexpected token `newline'' @ [squote, newline]) False s
      | Some (plain, []) \<Rightarrow> run_command e deeper plain s stdin
      | Some (plain, redirects) \<Rightarrow>
          (case open_redirects redirects screen_targets s of
             (Inl err, s1) \<Rightarrow> prints err False s1
           | (Inr targets, s1) \<Rightarrow>
               (case run_command e deeper plain s1 stdin of
                  (Done (Some (text, ok)), s2) \<Rightarrow>
                    of_cmd (deliver plain targets
                      [(lit ''1'', if ok then text else []), (lit ''2'', if ok then [] else text)] ok s2)
                | r \<Rightarrow> r)))"

section \<open>Pipelines and lists\<close>

text \<open>The stages of a pipeline of two or more, each fed what the one before it printed.\<close>

fun run_stages :: "env \<Rightarrow> executor option \<Rightarrow> str option \<Rightarrow> bool \<Rightarrow> str list \<Rightarrow> session \<Rightarrow> text_result" where
  "run_stages e deeper piped succeeded [] s = (Done ([], succeeded), s)"
| "run_stages e deeper piped succeeded (stage # stages) s =
     (case run e deeper stage s piped of
        (Raised x, s1) \<Rightarrow> (Raised x, s1)
      | (Done r, s1) \<Rightarrow>
          (case (case r of None \<Rightarrow> ([], True) | Some tk \<Rightarrow> tk) of
             (text, ok) \<Rightarrow>
               (let to_screen = (stages = [] \<or> \<not> ok) in
                case run_stages e deeper (Some (if to_screen then [] else text)) ok stages s1 of
                  (Raised x, s2) \<Rightarrow> (Raised x, s2)
                | (Done (rest, ok'), s2) \<Rightarrow> (Done ((if to_screen then text else []) @ rest, ok'), s2))))"

definition run_pipeline :: "env \<Rightarrow> executor option \<Rightarrow> str list \<Rightarrow> session \<Rightarrow> line_result" where
  "run_pipeline e deeper stages s =
     (case stages of
        [stage] \<Rightarrow>
          (case run e deeper stage s None of
             (Raised x, s') \<Rightarrow> (Raised x, s')
           | (Done None, s') \<Rightarrow> (Done ([], True, True), s')
           | (Done (Some (text, ok)), s') \<Rightarrow> (Done (text, ok, False), s'))
      | _ \<Rightarrow>
          (case run_stages e deeper None True stages s of
             (Raised x, s') \<Rightarrow> (Raised x, s')
           | (Done (text, ok), s') \<Rightarrow> (Done (text, ok, False), s')))"

definition skips :: "str \<Rightarrow> bool \<Rightarrow> bool" where
  "skips operator succeeded \<longleftrightarrow> (operator = lit ''&&'' \<and> \<not> succeeded) \<or> (operator = lit ''||'' \<and> succeeded)"

fun run_list :: "env \<Rightarrow> executor option \<Rightarrow> bool \<Rightarrow> (str \<times> str list) list \<Rightarrow> session \<Rightarrow> line_result" where
  "run_list e deeper succeeded [] s = (Done ([], succeeded, False), s)"
| "run_list e deeper succeeded ((operator, stages) # pipelines) s =
     (if skips operator succeeded then run_list e deeper succeeded pipelines s
      else case run_pipeline e deeper stages s of
        (Raised x, s1) \<Rightarrow> (Raised x, s1)
      | (Done (text, ok, ended), s1) \<Rightarrow>
          if ended then (Done (text, ok, True), s1)
          else case run_list e deeper ok pipelines s1 of
            (Raised x, s2) \<Rightarrow> (Raised x, s2)
          | (Done (rest, ok', ended'), s2) \<Rightarrow> (Done (text @ rest, ok', ended'), s2))"

text \<open>Parsing a line: the pipelines with their operators, or the token bash complains of.\<close>

fun parse_pipelines :: "(str \<times> str) list \<Rightarrow> str option \<Rightarrow> (str \<times> str list) list \<times> str option" where
  "parse_pipelines [] bad = ([], bad)"
| "parse_pipelines ((operator, segment) # segments) bad =
     (case split_unquoted segment [lit ''|''] of
        (stages, pipe_error) \<Rightarrow>
          (case parse_pipelines segments (case bad of Some t \<Rightarrow> Some t | None \<Rightarrow> pipe_error) of
             (pipelines, bad') \<Rightarrow> ((operator, map snd stages) # pipelines, bad')))"

definition parse_line :: "str \<Rightarrow> (str \<times> str list) list \<times> str option" where
  "parse_line line =
     (case split_unquoted line LIST_SEPARATORS of (segments, bad) \<Rightarrow> parse_pipelines segments bad)"

definition execute_line :: "env \<Rightarrow> executor option \<Rightarrow> executor" where
  "execute_line e deeper line s =
     (case parse_line line of
        (_, Some token) \<Rightarrow> (Done (syntax_error s token, False, False), s)
      | (pipelines, None) \<Rightarrow> run_list e deeper True pipelines s)"

primrec execute :: "env \<Rightarrow> nat \<Rightarrow> executor" where
  "execute e 0 = execute_line e None"
| "execute e (Suc n) = execute_line e (Some (execute e n))"

definition process :: "env \<Rightarrow> rat \<Rightarrow> str \<Rightarrow> session \<Rightarrow> str outcome \<times> session" where
  "process e now raw_input s =
     (let command = strip raw_input in
      if command = [] then (Done (prompt s), s)
      else case execute e MAX_SUBSHELL_DEPTH command (log_command now command s) of
        (Raised x, s') \<Rightarrow> (Raised x, s')
      | (Done (output, _, ended), s') \<Rightarrow>
          (Done (if ended then output @ CLOSE_SIGNAL else output @ prompt s'), s'))"

end
