(* ===== verification/EngineInv.thy ===== *)
theory EngineInv
  imports Engine
begin

text \<open>
  What every line of input keeps. The commands change a session through the primitives of
  the virtual file system only, so an invariant that survives the primitives survives
  every command, every line and \<open>process\<close>.
\<close>

context session_invariant
begin

section \<open>Commands that print\<close>

lemma I_grep: "I s \<Longrightarrow> I (snd (grep e s args stdin))"
  by (auto simp: grep_def Let_def split: prod.splits option.splits intro: I_input_for_result)

lemma I_head_tail: "I s \<Longrightarrow> I (snd (head_tail s cmd args stdin))"
  by (auto simp: head_tail_def Let_def split: prod.splits option.splits intro: I_input_for_result)

lemma I_wc: "I s \<Longrightarrow> I (snd (wc s args stdin))"
  by (auto simp: wc_def Let_def split: prod.splits option.splits intro: I_input_for_result)

lemma I_base64: "I s \<Longrightarrow> I (snd (base64 s args stdin))"
  by (auto simp: base64_def Let_def split: prod.splits option.splits intro: I_input_for_result)

lemma I_fold_surface:
  assumes "I s" and "\<And>p. p \<in> set paths \<Longrightarrow> dict_has (files s) p \<and> p \<notin> set (written_files s)"
  shows "I (fold record_decoy_file_surfaced paths s)"
  using assms
proof (induction paths arbitrary: s)
  case (Cons p paths)
  have "I (record_decoy_file_surfaced p s)" using Cons.prems by (intro I_surface) auto
  then show ?case using Cons.prems(2) by (auto intro!: Cons.IH)
qed simp

lemma I_record_listed: "I s \<Longrightarrow> I (record_listed_decoy_files s directory names)"
  unfolding record_listed_decoy_files_def
  by (rule I_fold_surface) (auto simp: listed_decoy_def dict_has_def dict_get_None_iff)

lemma I_ls: "I s \<Longrightarrow> I (snd (ls_command s args))"
  by (auto simp: ls_command_def ls_def Let_def split: prod.splits option.splits if_splits intro: I_record_listed)

lemma I_cd: "I s \<Longrightarrow> I (snd (cd s args))"
  by (simp add: cd_def Let_def I_chdir)

lemma I_cat: "I s \<Longrightarrow> I (snd (cat s args stdin))"
  by (auto simp: cat_def Let_def split: option.splits intro: I_read_files)

section \<open>Scripts and subshells\<close>

definition keeps :: "executor \<Rightarrow> bool" where
  "keeps exec \<longleftrightarrow> (\<forall>line s. I s \<longrightarrow> I (snd (exec line s)))"

definition keeps_below :: "executor option \<Rightarrow> bool" where
  "keeps_below deeper \<longleftrightarrow> (\<forall>exec. deeper = Some exec \<longrightarrow> keeps exec)"

lemma keeps_result: "keeps exec \<Longrightarrow> I s \<Longrightarrow> exec line s = (r, s') \<Longrightarrow> I s'"
  unfolding keeps_def by (metis snd_conv)

lemma I_run_lines: "keeps exec \<Longrightarrow> I s \<Longrightarrow> I (snd (run_lines exec ok lines s))"
proof (induction exec ok lines s rule: run_lines.induct)
  case (2 exec ok raw lines s)
  then show ?case
    by (auto simp: Let_def split: prod.splits outcome.splits dest: keeps_result)
qed simp

lemma I_run_script: "keeps exec \<Longrightarrow> I s \<Longrightarrow> I (snd (run_script exec script s))"
  by (simp add: run_script_def I_run_lines)

lemma I_run_file: "keeps_below deeper \<Longrightarrow> I s \<Longrightarrow> I (snd (run_file deeper s cmd path))"
  by (auto simp: run_file_def keeps_below_def split: option.splits intro: I_run_script)

lemma I_subshell:
  assumes "keeps_below deeper" and "I s"
  shows "I (snd (subshell deeper s cmd args stdin))"
proof (cases deeper)
  case (Some exec)
  then have keep: "keeps exec" using assms by (simp add: keeps_below_def)
  have read: "I (snd (read_one s cmd operand))" for operand using assms(2) by (rule I_read_one)
  have line: "I (snd (exec line s))" for line using keep assms(2) by (simp add: keeps_def)
  show ?thesis
    using assms(2) Some read line
    by (auto simp: subshell_def split: list.splits option.splits prod.splits outcome.splits
        intro: I_run_script [OF keep]) (metis snd_conv I_run_script [OF keep])+
qed (simp add: subshell_def assms)

section \<open>One command\<close>

lemma snd_of_cmd [simp]: "snd (of_cmd r) = snd r"
  by (simp add: of_cmd_def prints_def split: prod.splits)

lemma snd_of_text [simp]: "snd (of_text r) = snd r"
  by (simp add: of_text_def prints_def split: prod.splits outcome.splits)

lemma snd_of_outcome [simp]: "snd (of_outcome r ok s) = s"
  by (simp add: of_outcome_def prints_def split: outcome.splits)

lemma snd_prints [simp]: "snd (prints t ok s) = s"
  by (simp add: prints_def)

lemma I_dispatch: "keeps_below deeper \<Longrightarrow> I s \<Longrightarrow> I (snd (dispatch e deeper s cmd args stdin))"
  unfolding dispatch_def Let_def
  by (simp add: I_cd I_grep I_head_tail I_wc I_base64 I_subshell I_ls I_chmod I_mkdir I_touch I_rm I_cp I_cat
      split del: if_split cong: if_cong split: if_split)

lemma I_run_named: "keeps_below deeper \<Longrightarrow> I s \<Longrightarrow> I (snd (run_named e deeper s cmd args stdin))"
  by (auto simp: run_named_def run_applet_def split: list.splits intro: I_dispatch)

lemma I_run_command: "keeps_below deeper \<Longrightarrow> I s \<Longrightarrow> I (snd (run_command e deeper command s stdin))"
  by (auto simp: run_command_def Let_def split: list.splits option.splits intro: I_run_named I_run_file)

lemma I_run_command_result:
  "keeps_below deeper \<Longrightarrow> I s \<Longrightarrow> run_command e deeper command s stdin = (r, s') \<Longrightarrow> I s'"
  using I_run_command [of deeper s e command stdin] by simp

section \<open>Redirects, pipelines and lists\<close>

lemma I_open_redirects: "I s \<Longrightarrow> I (snd (open_redirects redirects targets s))"
proof (induction redirects targets s rule: open_redirects.induct)
  case (2 fd appending target redirects targets s)
  have open_it: "I (snd (open_for_writing s target (resolve_path s target) appending))"
    using 2(4) by (rule I_open_for_writing)
  show ?case
    using 2 open_it by (auto simp: Let_def split: prod.splits option.splits)
qed simp

lemma I_deliver: "I s \<Longrightarrow> I (snd (deliver command targets streams ok s))"
proof (induction command targets streams ok s rule: deliver.induct)
  case (2 command targets stream data streams ok s)
  have stored: "I (snd (store s p data True))" for p using 2(6) by (rule I_store)
  show ?case
    using 2 stored by (auto split: prod.splits option.splits bool.splits) (metis snd_conv)+
qed simp

lemma I_run: "keeps_below deeper \<Longrightarrow> I s \<Longrightarrow> I (snd (run e deeper command s stdin))"
proof -
  assume keep: "keeps_below deeper" and I: "I s"
  have opened: "I s1" if "open_redirects rs screen_targets s = (r, s1)" for rs r s1
    using I_open_redirects [OF I, of rs screen_targets] that by simp
  have ran: "I s2" if "open_redirects rs screen_targets s = (r, s1)"
    "run_command e deeper c s1 stdin = (r', s2)" for rs r s1 c r' s2
    using I_run_command_result [OF keep opened [OF that(1)] that(2)] .
  show ?thesis
    using keep I unfolding run_def
    by (auto split: option.splits prod.splits list.splits sum.splits outcome.splits
        intro: I_run_command I_deliver opened ran simp del: open_redirects.simps deliver.simps)
qed

lemma I_run_result: "keeps_below deeper \<Longrightarrow> I s \<Longrightarrow> run e deeper command s stdin = (r, s') \<Longrightarrow> I s'"
  using I_run [of deeper s e command stdin] by simp

lemma I_run_stages: "keeps_below deeper \<Longrightarrow> I s \<Longrightarrow> I (snd (run_stages e deeper piped ok stages s))"
proof (induction stages arbitrary: piped ok s)
  case (Cons stage stages)
  obtain r s1 where r: "run e deeper stage s piped = (r, s1)" by (cases "run e deeper stage s piped")
  have "I s1" using I_run_result [OF Cons.prems r] .
  then show ?case
    using r Cons.IH [OF Cons.prems(1) \<open>I s1\<close>]
    by (auto simp: Let_def split: outcome.splits prod.splits option.splits) (metis snd_conv)+
qed simp

lemma I_run_pipeline: "keeps_below deeper \<Longrightarrow> I s \<Longrightarrow> I (snd (run_pipeline e deeper stages s))"
  using I_run_stages [of deeper s e None True stages]
  by (auto simp: run_pipeline_def split: list.splits prod.splits outcome.splits option.splits
      intro: I_run_result simp del: run_stages.simps)

lemma I_run_pipeline_result:
  "keeps_below deeper \<Longrightarrow> I s \<Longrightarrow> run_pipeline e deeper stages s = (r, s') \<Longrightarrow> I s'"
  using I_run_pipeline [of deeper s e stages] by simp

lemma I_run_list: "keeps_below deeper \<Longrightarrow> I s \<Longrightarrow> I (snd (run_list e deeper ok pipelines s))"
proof (induction pipelines arbitrary: ok s)
  case (Cons p pipelines)
  obtain operator stages where p: "p = (operator, stages)" by (cases p)
  obtain r s1 where r: "run_pipeline e deeper stages s = (r, s1)" by (cases "run_pipeline e deeper stages s")
  have "I s1" using I_run_pipeline_result [OF Cons.prems r] .
  then show ?case
    using r p Cons.prems Cons.IH [OF Cons.prems(1)]
    by (auto split: outcome.splits prod.splits) (metis snd_conv)+
qed simp

lemma keeps_execute_line: "keeps_below deeper \<Longrightarrow> keeps (execute_line e deeper)"
  by (auto simp: keeps_def execute_line_def split: prod.splits option.splits intro: I_run_list)

lemma keeps_execute: "keeps (execute e n)"
  by (induction n) (simp_all add: keeps_execute_line keeps_below_def)

lemma I_execute: "I s \<Longrightarrow> I (snd (execute e n line s))"
  using keeps_execute [of e n] by (simp add: keeps_def)

lemma I_process:
  assumes "I s" and "I (log_command now (strip raw) s)"
  shows "I (snd (process e now raw s))"
proof -
  have "I (snd (execute e MAX_SUBSHELL_DEPTH (strip raw) (log_command now (strip raw) s)))"
    using assms(2) by (rule I_execute)
  then show ?thesis
    using assms(1) by (auto simp: process_def Let_def split: prod.splits outcome.splits)
qed

end

end
