(* ===== verification/EngineProps.thy ===== *)
theory EngineProps
  imports EngineInv
begin

text \<open>
  What holds of a whole visit: the quota, where decoy files come from, the command log, the
  record of a finished session, and how \<open>process\<close> ends its output.
\<close>

section \<open>A visit\<close>

text \<open>The lines a visitor sends, each with the time it is processed at.\<close>

definition visit :: "env \<Rightarrow> (rat \<times> str) list \<Rightarrow> session \<Rightarrow> session" where
  "visit e inputs s = fold (\<lambda>(now, raw) s. snd (process e now raw s)) inputs s"

lemma visit_simps [simp]:
  "visit e [] s = s"
  "visit e ((now, raw) # inputs) s = visit e inputs (snd (process e now raw s))"
  by (simp_all add: visit_def)

lemma visit_invariant:
  assumes "\<And>now raw s. P s \<Longrightarrow> P (snd (process e now raw s))" and "P s"
  shows "P (visit e inputs s)"
  using assms(2)
proof (induction inputs arbitrary: s)
  case (Cons input inputs)
  then show ?case by (cases input) (simp add: assms(1))
qed simp

section \<open>The quota\<close>

text \<open>C2: whatever a visitor types, the files of the session that the visitor wrote never hold
  more than \<open>MAX_WRITTEN_CHARS\<close> characters together.\<close>

theorem visit_within_quota:
  "written_total (visit e inputs (new_session sid now p prs)) \<le> MAX_WRITTEN_CHARS"
proof -
  have "quota_ok (visit e inputs (new_session sid now p prs))"
    by (rule visit_invariant) (auto intro: quota.I_process quota_log_command quota_new)
  then show ?thesis by (simp add: quota_ok_def)
qed

section \<open>Decoys\<close>

lemma visit_decoys: "decoys_from prs (visit e inputs (new_session sid now p prs))"
  by (rule visit_invariant) (auto intro: provenance.I_process decoys_log_command decoys_new)

text \<open>C3: after any visit every decoy file recorded as surfaced is a file of the persona, listed
  once, and every file the visitor did not write still has the persona's contents.\<close>

theorem visit_decoys_are_persona_files:
  fixes e inputs sid now p prs
  defines "s \<equiv> visit e inputs (new_session sid now p prs)"
  shows "set (decoy_files_surfaced s) \<subseteq> ff_path ` set (fake_filesystem prs)
    \<and> distinct (decoy_files_surfaced s)
    \<and> {(q, c). dict_get (files s) q = Some c \<and> q \<notin> set (written_files s)} \<subseteq> {(q, c). dict_get (file_map prs) q = Some c}"
  using visit_decoys [of prs e inputs sid now p]
  unfolding s_def decoys_from_def file_map_keys by blast

section \<open>The log\<close>

definition logged :: "rat \<times> str \<Rightarrow> command_event list" where
  "logged input = (if strip (snd input) = [] then [] else [\<lparr>ev_cmd = loggable (strip (snd input)), ev_time = fst input\<rparr>])"

lemma process_log_frame:
  "same_log (if strip raw = [] then s else log_command now (strip raw) s) (snd (process e now raw s))"
proof (cases "strip raw = []")
  case False
  have "same_log (log_command now (strip raw) s)
      (snd (execute e MAX_SUBSHELL_DEPTH (strip raw) (log_command now (strip raw) s)))"
    by (rule log_frame.I_execute) simp
  then show ?thesis using False
    by (auto simp: process_def Let_def split: prod.splits outcome.splits)
next
  case True
  then have "snd (process e now raw s) = s" by (simp add: process_def)
  with True show ?thesis by simp
qed

lemma process_commands:
  "commands (snd (process e now raw s)) = commands s @ logged (now, raw)"
  "command_count (snd (process e now raw s)) = command_count s + length (logged (now, raw))"
  using process_log_frame [of raw s now e] by (auto simp: same_log_def logged_def split: if_splits)

text \<open>C4: a visit logs every non-blank line, whole and in order, with the time it came, and
  nothing else: no command, redirect, script or subshell adds to the log or removes from it.\<close>

theorem visit_logs_every_line:
  "commands (visit e inputs s) = commands s @ concat (map logged inputs)
   \<and> command_count (visit e inputs s) = command_count s + length (concat (map logged inputs))"
  by (induction inputs arbitrary: s) (auto simp: process_commands)

section \<open>The record of a finished session\<close>

lemma log_consistent_process:
  assumes "log_consistent s" "last_active s \<le> now" "decoys_from prs s" "persona_ok prs"
  shows "log_consistent (snd (process e now raw s))" and "last_active (snd (process e now raw s)) \<le> now"
    and "start_time (snd (process e now raw s)) = start_time s"
proof -
  let ?s = "snd (process e now raw s)"
  let ?before = "if strip raw = [] then s else log_command now (strip raw) s"
  have frame: "same_log ?before ?s" by (rule process_log_frame)
  have "log_consistent ?before" using assms by (simp add: log_consistent_log_command)
  moreover have "decoys_from prs ?s"
    by (intro provenance.I_process decoys_log_command assms(3))
  then have "distinct (decoy_files_surfaced ?s)" "list_all safe_decoy_path (decoy_files_surfaced ?s)"
    using file_map_safe [OF assms(4)] by (auto simp: decoys_from_def list_all_iff)
  ultimately show "log_consistent ?s"
    using frame by (auto simp: log_consistent_def same_log_def)
  show "last_active ?s \<le> now" using frame assms(2) by (auto simp: same_log_def split: if_splits)
  show "start_time ?s = start_time s" using frame by (auto simp: same_log_def split: if_splits)
qed

lemma visit_log_consistent:
  assumes "log_consistent s" "decoys_from prs s" "persona_ok prs"
    and "sorted (map fst inputs)" "\<forall>t \<in> fst ` set inputs. last_active s \<le> t \<and> t \<le> ended" "last_active s \<le> ended"
  shows "log_consistent (visit e inputs s) \<and> last_active (visit e inputs s) \<le> ended"
  using assms
proof (induction inputs arbitrary: s)
  case (Cons input inputs)
  obtain now raw where input: "input = (now, raw)" by (cases input)
  let ?s = "snd (process e now raw s)"
  have "last_active s \<le> now" using Cons.prems(5) input by auto
  note after = log_consistent_process [OF Cons.prems(1) this Cons.prems(2,3), of e raw]
  have "decoys_from prs ?s"
    by (intro provenance.I_process decoys_log_command Cons.prems(2))
  moreover have "\<forall>t \<in> fst ` set inputs. last_active ?s \<le> t \<and> t \<le> ended" "last_active ?s \<le> ended"
    using Cons.prems(4,5) input after(2) by force+
  ultimately show ?case
    using Cons.IH [of ?s] after(1) Cons.prems(3,4) input by simp
qed simp

lemma visit_frame:
  "session_id (visit e inputs s) = session_id s \<and> peer (visit e inputs s) = peer s
   \<and> ses_persona (visit e inputs s) = ses_persona s \<and> client_version (visit e inputs s) = client_version s
   \<and> end_stage (visit e inputs s) = end_stage s \<and> end_error (visit e inputs s) = end_error s
   \<and> end_time (visit e inputs s) = end_time s \<and> end_reason (visit e inputs s) = end_reason s"
proof (induction inputs arbitrary: s)
  case (Cons input inputs)
  obtain now raw where input: "input = (now, raw)" by (cases input)
  have "same_log (if strip raw = [] then s else log_command now (strip raw) s) (snd (process e now raw s))"
    by (rule process_log_frame)
  then show ?case using Cons.IH [of "snd (process e now raw s)"] input
    by (auto simp: same_log_def log_command_def split: if_splits)
qed simp

text \<open>C1: the record of a visit always passes its own schema: with a valid persona and peer, a
  clock that does not run backwards and one of the known end reasons, finalizing the
  session after any lines gives a record that \<open>SessionRecord.model_validate\<close> accepts.\<close>

theorem finished_visit_validates:
  assumes "validate_persona prs = Done ()"
    and "origin_ok ip_ok uuid_ok (new_session sid start p prs)"
    and "sorted (map fst inputs)" and "\<forall>t \<in> fst ` set inputs. start \<le> t \<and> t \<le> ended"
    and "start \<le> ended" and "reason \<in> set end_reasons"
  shows "\<exists>r. to_record (finalize ended reason (visit e inputs (new_session sid start p prs))) = Done r
     \<and> model_validate ip_ok uuid_ok r = Done r"
proof (rule to_record_validates)
  let ?before = "new_session sid start p prs" and ?s = "visit e inputs (new_session sid start p prs)"
  have ok: "persona_ok prs" using assms(1) by (simp add: validate_persona_iff)
  have start: "last_active ?before = start" by (simp add: new_session_def)
  have "log_consistent ?s \<and> last_active ?s \<le> ended"
    using assms(3-5) by (intro visit_log_consistent [OF log_consistent_new decoys_new ok]) (simp_all only: start)
  then show "log_consistent ?s" "last_active ?s \<le> ended" by auto
  show "origin_ok ip_ok uuid_ok ?s"
    using assms(2) visit_frame [of e inputs ?before] by (simp add: origin_ok_def)
  show "end_time ?s = None"
    using visit_frame [of e inputs ?before] by (simp add: new_session_def)
qed (rule assms(6))

text \<open>An environment for examples: nothing compiles as a pattern, every location is fine.\<close>

definition plain_env :: env where
  "plain_env = \<lparr>env_stamp = lit ''2024-05-01 10:00:00'', env_regex = (\<lambda>_ _. None), env_netloc_ok = (\<lambda>_. True)\<rparr>"

theorem finished_visit_validates_witness:
  "\<exists>r. to_record (finalize 20 (lit ''logout'')
       (visit plain_env [(5, lit ''cat /etc/passwd''), (9, lit ''exit'')]
         (new_session (lit ''s'') 1 NoPeer generic_linux))) = Done r
     \<and> model_validate (\<lambda>_. True) (\<lambda>_. True) r = Done r"
proof (rule finished_visit_validates)
  show "validate_persona generic_linux = Done ()" by code_simp
  show "origin_ok (\<lambda>_. True) (\<lambda>_. True) (new_session (lit ''s'') 1 NoPeer generic_linux)" by code_simp
  show "lit ''logout'' \<in> set end_reasons" by code_simp
qed auto

section \<open>How the output of a line ends\<close>

text \<open>unless an exception escapes, what \<open>process\<close> answers ends in the prompt of the session
  as the line left it, or in \<open>CLOSE_SIGNAL\<close>.\<close>

theorem process_answer:
  "(\<exists>x. fst (process e now raw s) = Raised x)
   \<or> (\<exists>out. fst (process e now raw s) = Done (out @ prompt (snd (process e now raw s))))
   \<or> (\<exists>out. fst (process e now raw s) = Done (out @ CLOSE_SIGNAL))"
  by (auto simp: process_def Let_def split: prod.splits outcome.splits)

lemma run_list_single: "run_list e d True [(op, stages)] s =
    (if skips op True then (Done ([], True, False), s)
     else case run_pipeline e d stages s of
       (Done (text, ok, ended), s1) \<Rightarrow> (Done (text, ok, ended), s1) | (Raised x, s1) \<Rightarrow> (Raised x, s1))"
  by (auto split: prod.splits outcome.splits)

text \<open>in every shell, \<open>exit\<close> on a line of its own ends the session without further output.\<close>

theorem exit_closes:
  "process e now (lit ''exit'') s = (Done CLOSE_SIGNAL, log_command now (lit ''exit'') s)"
proof -
  let ?s = "log_command now (lit ''exit'') s"
  have strip: "strip (lit ''exit'') = lit ''exit''" by code_simp
  have line: "parse_line (lit ''exit'') = ([([], [lit ''exit''])], None)" by code_simp
  have redirects: "split_redirects (lit ''exit'') = Some (lit ''exit'', [])" by code_simp
  have words: "shlex_split (lit ''exit'') = Some [lit ''exit'']" by code_simp
  have builtin: "lit ''exit'' \<in> set ASH_BUILTINS" "lit ''exit'' \<noteq> lit ''busybox''" "slash \<notin> set (lit ''exit'')"
    "lit ''exit'' \<in> set (map lit [''exit'', ''quit'', ''logout''])" "lit ''exit'' \<noteq> []" "\<not> skips [] True"
    by code_simp+
  have "run_command e d (lit ''exit'') ?s None = (Done None, ?s)" for d
    using builtin by (simp add: run_command_def words run_named_def run_applet_def dispatch_def)
  then have "execute e MAX_SUBSHELL_DEPTH (lit ''exit'') ?s = (Done ([], True, True), ?s)"
    using builtin
    by (simp add: MAX_SUBSHELL_DEPTH_def numeral_3_eq_3 execute_line_def line run_pipeline_def run_def redirects)
  then show ?thesis using builtin by (simp add: process_def strip)
qed

text \<open>\<open>exit\<close> inside a pipeline of two or more stages ends only that stage; a pipeline never
  closes the session.\<close>

theorem pipeline_keeps_session_open:
  "run_pipeline e deeper (stage1 # stage2 # stages) s \<noteq> (Done (text, ok, True), s')"
  by (auto simp: run_pipeline_def split: prod.splits outcome.splits simp del: run_stages.simps)

section \<open>Exceptions that escape\<close>

text \<open>\<open>wget http://[\<close>, on every persona and in every session, lets the \<open>ValueError\<close> of
  \<open>urlsplit\<close> escape from \<open>process\<close>; the line is in the log by then.\<close>

theorem wget_bracket_raises:
  "process e now (lit ''wget http://['') s =
     (Raised (ValueError (lit ''Invalid IPv6 URL'')), log_command now (lit ''wget http://['') s)"
proof -
  let ?line = "lit ''wget http://[''" and ?after = "log_command now (lit ''wget http://['') s"
  have strip: "strip ?line = ?line" by code_simp
  have line: "parse_line ?line = ([([], [?line])], None)" by code_simp
  have redirects: "split_redirects ?line = Some (?line, [])" by code_simp
  have words: "shlex_split ?line = Some [lit ''wget'', lit ''http://['']" by code_simp
  have operand: "first_operand [lit ''http://[''] WGET_VALUE_OPTIONS = Some (lit ''http://['')" by code_simp
  have scheme: "contains (lit ''http://['') (lit ''://'')" by code_simp
  have netloc: "netloc_of (drop_scheme (clean_url (lit ''http://[''))) = [lbracket]" by code_simp
  have host: "url_host e (lit ''http://['') = Raised (ValueError (lit ''Invalid IPv6 URL''))"
    by (simp add: url_host_def urlsplit_hostname_def netloc scheme)
  have wget: "wget e ?after [lit ''http://[''] = Raised (ValueError (lit ''Invalid IPv6 URL''))"
    by (simp add: wget_def operand host)
  have cmd: "lit ''wget'' \<in> set BUSYBOX_APPLETS" "lit ''wget'' \<noteq> lit ''busybox''" "slash \<notin> set (lit ''wget'')"
    "?line \<noteq> []" "\<not> skips [] True"
    by code_simp+
  have "dispatch e d ?after (lit ''wget'') [lit ''http://[''] None = of_outcome (wget e ?after [lit ''http://['']) False ?after" for d
    by (simp add: dispatch_def lit_def)
  then have "run_command e d ?line ?after None = (Raised (ValueError (lit ''Invalid IPv6 URL'')), ?after)" for d
    using cmd by (simp add: run_command_def words run_named_def run_applet_def wget of_outcome_def)
  then have "execute e MAX_SUBSHELL_DEPTH ?line ?after = (Raised (ValueError (lit ''Invalid IPv6 URL'')), ?after)"
    using cmd
    by (simp add: MAX_SUBSHELL_DEPTH_def numeral_3_eq_3 execute_line_def line run_pipeline_def run_def redirects)
  then show ?thesis using cmd by (simp add: process_def strip)
qed

end
