(* ===== verification/ShellProps.thy ===== *)
theory ShellProps
  imports EngineProps
begin

text \<open>
  Properties of the shell's parts: what path resolution gives, what the directory listings
  contain, what a redirect leaves in a file, what the scanners do with quotes, and that
  \<open>base64\<close> and \<open>base64 -d\<close> undo each other.
\<close>

section \<open>Path resolution\<close>

text \<open>A component a resolved path is made of.\<close>

definition proper :: "str \<Rightarrow> bool" where
  "proper q \<longleftrightarrow> is_component q \<and> q \<noteq> lit ''.'' \<and> q \<noteq> lit ''..''"

lemma lit_dots: "lit ''.'' = [dot]" "lit ''..'' = [dot, dot]" "lit ''/'' = [slash]" "lit ''//'' = [slash, slash]"
  "lit ''~'' = [126]" "lit ''~/'' = [126, slash]"
  by code_simp+

lemma resolve_parts_proper: "list_all proper qs \<Longrightarrow> resolve_parts ks qs = ks @ qs"
  by (induction qs arbitrary: ks) (auto simp: proper_def is_component_def lit_dots)

lemma resolve_parts_root: "resolve_parts ks ([slash] # qs) = resolve_parts ks qs"
  by (simp add: lit_dots)

lemma resolve_parts_keeps:
  "list_all proper ks \<Longrightarrow> list_all is_component qs \<Longrightarrow> list_all proper (resolve_parts ks qs)"
proof (induction ks qs rule: resolve_parts.induct)
  case (2 ks q qs)
  have "list_all proper (butlast ks)" using 2(4) by (auto simp: list_all_iff dest: in_set_butlastD)
  moreover have "is_component q \<Longrightarrow> q \<noteq> lit ''.'' \<Longrightarrow> q \<noteq> lit ''..'' \<Longrightarrow> proper q" by (simp add: proper_def)
  ultimately show ?case using 2 by auto
qed simp

lemma pure_path_components: "list_all is_component (snd (pure_path s))"
  using split_on_parts by (auto simp: pure_path_def list_all_iff is_component_def)

lemma path_root_cases: "path_root s = [] \<or> path_root s = [slash] \<or> path_root s = [slash, slash]"
  by (simp add: path_root_def)

lemma resolve_path_parts:
  assumes "path_root (raw_path s p) \<noteq> [slash, slash]"
  shows "resolve_path s p = abs_path (resolve_parts [] (snd (pure_path (raw_path s p))))"
  using assms path_root_cases [of "raw_path s p"]
  by (auto simp: resolve_path_def path_parts_def pure_path_def abs_path_def resolve_parts_root lit_dots
      simp del: resolve_parts.simps)

lemma proper_dotless: "list_all proper ks \<Longrightarrow> list_all is_component ks \<and> [dot] \<notin> set ks"
  by (auto simp: proper_def list_all_iff lit_dots)

lemma abs_path_not_tilde: "abs_path ks \<noteq> [] \<and> abs_path ks \<noteq> [dot] \<and> abs_path ks \<noteq> [126] \<and> \<not> startswith (abs_path ks) [126, slash]"
  by (simp add: abs_path_def startswith_def)

lemma raw_path_absolute: "raw_path s (abs_path ks) = abs_path ks"
  using abs_path_not_tilde [of ks] by (simp add: raw_path_def lit_dots)

lemma resolve_path_abs_path:
  assumes "list_all proper ks"
  shows "resolve_path s (abs_path ks) = abs_path ks"
proof -
  have "path_root (raw_path s (abs_path ks)) = [slash]"
    using proper_dotless [OF assms] by (simp add: raw_path_absolute path_root_abs_path)
  then show ?thesis
    using assms proper_dotless [OF assms]
    by (simp add: resolve_path_parts raw_path_absolute pure_path_abs_path resolve_parts_proper)
qed

text \<open>unless the raw path starts with exactly two slashes, \<open>_resolve_path\<close> gives an
  absolute path in normal form, of components that are neither empty nor "." nor "..", and
  resolving it again changes nothing: no operand can name a place outside the root.\<close>

theorem resolve_path_normal:
  assumes "path_root (raw_path s p) \<noteq> [slash, slash]"
  shows "(\<exists>ks. list_all proper ks \<and> resolve_path s p = abs_path ks)
     \<and> resolve_path s (resolve_path s p) = resolve_path s p"
proof -
  define ks where "ks = resolve_parts [] (snd (pure_path (raw_path s p)))"
  have proper: "list_all proper ks"
    using resolve_parts_keeps [of "[]" "snd (pure_path (raw_path s p))"] pure_path_components by (simp add: ks_def)
  have "resolve_path s p = abs_path ks" using resolve_path_parts [OF assms] by (simp add: ks_def)
  then show ?thesis using proper resolve_path_abs_path by auto
qed

theorem resolve_path_normal_witness:
  "(\<exists>ks. list_all proper ks \<and> resolve_path (new_session [] 0 NoPeer generic_linux) (lit ''../x/./y'') = abs_path ks)
     \<and> resolve_path (new_session [] 0 NoPeer generic_linux) (resolve_path (new_session [] 0 NoPeer generic_linux) (lit ''../x/./y''))
       = resolve_path (new_session [] 0 NoPeer generic_linux) (lit ''../x/./y'')"
proof (rule resolve_path_normal)
  show "path_root (raw_path (new_session [] 0 NoPeer generic_linux) (lit ''../x/./y'')) \<noteq> [slash, slash]" by code_simp
qed

lemma join_append: "ks \<noteq> [] \<Longrightarrow> qs \<noteq> [] \<Longrightarrow> join sep (ks @ qs) = join sep ks @ sep @ join sep qs"
  by (induction ks rule: induct_list012) (auto simp: join_Cons)

lemma relative_raw_path:
  assumes "list_all proper (q # qs)" "hd q \<noteq> 126"
  shows "raw_path s (join [slash] (q # qs)) = cwd s @ slash # join [slash] (q # qs)"
proof -
  obtain c q' where q: "q = c # q'" "c \<noteq> slash" using assms(1) by (cases q) (auto simp: proper_def is_component_def)
  have start: "\<exists>t. join [slash] (q # qs) = q @ t \<and> (qs = [] \<longrightarrow> t = [])" by (cases qs) auto
  have "join [slash] (q # qs) \<noteq> [dot]"
    using assms(1) q by (cases qs) (auto simp: proper_def lit_dots is_component_def)
  then show ?thesis
    using start q assms(2) by (auto simp: raw_path_def lit_dots startswith_def)
qed

text \<open>in a directory other than the root, a relative operand names the path below it.\<close>

theorem resolve_relative:
  assumes "cwd s = abs_path cs" "cs \<noteq> []" "list_all proper cs" "list_all proper (q # qs)" "hd q \<noteq> 126"
  shows "resolve_path s (join [slash] (q # qs)) = abs_path (cs @ q # qs)"
proof -
  have "raw_path s (join [slash] (q # qs)) = abs_path (cs @ q # qs)"
    using assms by (simp add: relative_raw_path abs_path_def join_append)
  moreover have all: "list_all proper (cs @ q # qs)" using assms by simp
  ultimately show ?thesis
    using resolve_path_abs_path [OF all, of s] by (simp add: resolve_path_def raw_path_absolute)
qed

theorem resolve_relative_witness:
  "resolve_path (new_session [] 0 NoPeer generic_linux) (lit ''a/b'') = abs_path ([lit ''home'', lit ''admin''] @ lit ''a'' # [lit ''b''])"
proof -
  have "cwd (new_session [] 0 NoPeer generic_linux) = abs_path [lit ''home'', lit ''admin'']"
    "list_all proper [lit ''home'', lit ''admin'']" "list_all proper (lit ''a'' # [lit ''b''])" "hd (lit ''a'') \<noteq> 126"
    "join [slash] (lit ''a'' # [lit ''b'']) = lit ''a/b''"
    by code_simp+
  then show ?thesis using resolve_relative [of "new_session [] 0 NoPeer generic_linux" "[lit ''home'', lit ''admin'']" "lit ''a''" "[lit ''b'']"]
    by simp
qed

text \<open>in the root directory the same operand resolves to a path that starts with four
  slashes, because \<open>cwd + "/" + operand\<close> then starts with two, which \<open>pathlib\<close> keeps as
  a root of its own: \<open>cd /; cat etc/passwd\<close> cannot find the file it can list.\<close>

theorem resolve_relative_in_root:
  assumes "cwd s = abs_path []" "list_all proper (q # qs)" "hd q \<noteq> 126"
  shows "resolve_path s (join [slash] (q # qs)) = lit ''////'' @ join [slash] (q # qs)"
proof -
  let ?rest = "join [slash] (q # qs)"
  obtain c q' where q: "q = c # q'" "c \<noteq> slash" using assms(2) by (cases q) (auto simp: proper_def is_component_def)
  have raw: "raw_path s ?rest = slash # slash # ?rest" using assms by (simp add: relative_raw_path)
  have "\<exists>t. ?rest = c # t" using q by (cases qs) auto
  then have root: "path_root (slash # slash # ?rest) = [slash, slash]"
    using q by (auto simp: path_root_def startswith_def)
  have parts: "split_on slash ?rest = q # qs"
    using assms(2) by (intro split_on_join) (auto simp: list_all_iff proper_def is_component_def)
  have kept: "filter (\<lambda>p. p \<noteq> [] \<and> p \<noteq> [dot]) (q # qs) = q # qs"
    using assms(2) by (intro filter_True) (auto simp: list_all_iff proper_def is_component_def lit_dots)
  have "path_parts (pure_path (raw_path s ?rest)) = [slash, slash] # q # qs"
    using kept by (simp add: raw path_parts_def pure_path_def root parts)
  moreover have "resolve_parts [] ([slash, slash] # q # qs) = [slash, slash] # q # qs"
    using resolve_parts_proper [OF assms(2), of "[[slash, slash]]"] by (simp add: lit_dots del: resolve_parts.simps(2)) (simp add: lit_dots)
  ultimately have "resolve_path s ?rest = [slash] @ join [slash] ([slash, slash] # q # qs)"
    by (simp add: resolve_path_def lit_dots del: resolve_parts.simps)
  moreover have "lit ''////'' = [slash, slash, slash, slash]" by code_simp
  ultimately show ?thesis by (simp add: join_Cons)
qed

theorem resolve_relative_in_root_witness:
  "resolve_path (change_dir (lit ''/'') (new_session [] 0 NoPeer generic_linux)) (join [slash] (lit ''etc'' # [lit ''passwd'']))
     = lit ''////'' @ join [slash] (lit ''etc'' # [lit ''passwd''])"
proof (rule resolve_relative_in_root)
  show "cwd (change_dir (lit ''/'') (new_session [] 0 NoPeer generic_linux)) = abs_path []" by code_simp
  show "list_all proper (lit ''etc'' # [lit ''passwd''])" by code_simp
  show "hd (lit ''etc'') \<noteq> 126" by code_simp
qed

section \<open>Directory listings\<close>

definition names_in :: "listings \<Rightarrow> str \<Rightarrow> str set" where
  "names_in l d = (case dict_get l d of None \<Rightarrow> {} | Some ns \<Rightarrow> set ns)"

lemma names_add_name:
  "names_in (add_name d part l) d' = (if d' = d then insert part (names_in l d) else names_in l d')"
  by (auto simp: names_in_def add_name_def split: option.splits)

lemma names_ensure_dir [simp]: "names_in (ensure_dir d l) d' = names_in l d'"
  by (auto simp: names_in_def ensure_dir_def dict_has_def)

lemma has_add_name: "dict_has (add_name d part l) d' \<longleftrightarrow> d' = d \<or> dict_has l d'"
  by (simp add: add_name_def)

lemma has_ensure_dir: "dict_has (ensure_dir d l) d' \<longleftrightarrow> d' = d \<or> dict_has l d'"
  by (auto simp: ensure_dir_def)

lemma below_abs_path:
  "list_all is_component cs \<Longrightarrow>
   (if abs_path cs = lit ''/'' then lit ''/'' @ part else abs_path cs @ lit ''/'' @ part) = abs_path (cs @ [part])"
  by (auto simp: abs_path_snoc abs_path_eq_root_iff lit_dots)

lemma shift_index:
  "(\<exists>k<Suc n. P k) \<longleftrightarrow> P 0 \<or> (\<exists>k<n. P (Suc k))"
  by (metis less_Suc_eq_0_disj)

text \<open>What entering one path adds: a name in the directory above each of its components, and the
  directories on the way (the path itself too when it is one).\<close>

lemma names_add_path:
  "list_all is_component cs \<Longrightarrow> list_all is_component qs \<Longrightarrow>
   names_in (add_path f (abs_path cs) qs l) d =
     names_in l d \<union> {n. \<exists>k<length qs. d = abs_path (cs @ take k qs) \<and> n = qs ! k}"
proof (induction qs arbitrary: cs l)
  case (Cons q qs)
  have snoc: "list_all is_component (cs @ [q])" using Cons.prems by simp
  have IH: "names_in (add_path f (abs_path (cs @ [q])) qs l') d =
      names_in l' d \<union> {n. \<exists>k<length qs. d = abs_path (cs @ q # take k qs) \<and> n = qs ! k}" for l'
    using Cons.IH [OF snoc, of l'] Cons.prems by simp
  show ?case
  proof (cases "qs = [] \<and> f")
    case True
    then show ?thesis by (auto simp: names_add_name)
  next
    case False
    then show ?thesis
      using Cons.prems below_abs_path [of cs q] by (auto simp: Let_def IH names_add_name shift_index)
  qed
qed simp

lemma has_add_path:
  "list_all is_component cs \<Longrightarrow> list_all is_component qs \<Longrightarrow> qs \<noteq> [] \<Longrightarrow>
   dict_has (add_path f (abs_path cs) qs l) d \<longleftrightarrow>
     dict_has l d \<or> (\<exists>k < length qs + (if f then 0 else 1). d = abs_path (cs @ take k qs))"
proof (induction qs arbitrary: cs l)
  case (Cons q qs)
  have snoc: "list_all is_component (cs @ [q])" using Cons.prems by simp
  show ?case
  proof (cases "qs = []")
    case True
    then show ?thesis
      using Cons.prems below_abs_path [of cs q]
      by (auto simp: Let_def has_add_name has_ensure_dir shift_index)
  next
    case False
    then have "dict_has (add_path f (abs_path cs) (q # qs) l) d \<longleftrightarrow>
        dict_has (add_path f (abs_path (cs @ [q])) qs (ensure_dir (abs_path (cs @ [q])) (add_name (abs_path cs) q l))) d"
      using Cons.prems below_abs_path [of cs q] by (simp add: Let_def)
    also have "\<dots> \<longleftrightarrow> d = abs_path (cs @ [q]) \<or> d = abs_path cs \<or> dict_has l d
        \<or> (\<exists>k < length qs + (if f then 0 else 1). d = abs_path (cs @ q # take k qs))"
      using Cons.IH [OF snoc _ False] Cons.prems by (auto simp: has_add_name has_ensure_dir)
    also have "\<dots> \<longleftrightarrow> dict_has l d
        \<or> (\<exists>k < Suc (length qs + (if f then 0 else 1)). d = abs_path (cs @ take k (q # qs)))"
      using False by (auto simp: shift_index)
    finally show ?thesis by simp
  qed
qed simp

lemma path_pieces_components: "list_all is_component (path_pieces p)"
  using split_on_parts by (auto simp: path_pieces_def list_all_iff is_component_def)

definition entry_paths :: "session \<Rightarrow> (str \<times> bool) list" where
  "entry_paths s = map (\<lambda>p. (p, True)) (dict_keys (files s)) @ map (\<lambda>d. (d, False)) (dirs s)"

lemma names_add_root:
  "names_in (add_path f (lit ''/'') (path_pieces p) l) d =
     names_in l d \<union> {n. \<exists>k<length (path_pieces p). d = abs_path (take k (path_pieces p)) \<and> n = path_pieces p ! k}"
  using names_add_path [of "[]" "path_pieces p" f l d] path_pieces_components by (simp add: lit_dots)

lemma names_fold_entries:
  "names_in (fold (\<lambda>(p, f). add_path f (lit ''/'') (path_pieces p)) entries l) d =
     names_in l d \<union> {n. \<exists>(p, f) \<in> set entries. \<exists>k<length (path_pieces p).
       d = abs_path (take k (path_pieces p)) \<and> n = path_pieces p ! k}"
  by (induction entries arbitrary: l) (auto simp: names_add_root)

text \<open>the names \<open>ls\<close> finds in a directory are those of the fixed tree and, for every file
  and every directory of the session, the next component of its path: nothing is missing
  from a listing, and nothing is listed that is not there.\<close>

theorem listing_names:
  "names_in (build_listings s) d = names_in (base_listings (programs s)) d \<union>
     {n. \<exists>p \<in> set (dict_keys (files s)) \<union> set (dirs s). \<exists>k<length (path_pieces p).
        d = abs_path (take k (path_pieces p)) \<and> n = path_pieces p ! k}"
  unfolding build_listings_def names_fold_entries by auto

lemma has_add_root:
  "dict_has (add_path f (lit ''/'') (path_pieces p) l) d \<longleftrightarrow> dict_has l d \<or>
     (path_pieces p \<noteq> [] \<and> (\<exists>k < length (path_pieces p) + (if f then 0 else 1). d = abs_path (take k (path_pieces p))))"
  using has_add_path [of "[]" "path_pieces p" f l d] path_pieces_components
  by (cases "path_pieces p = []") (simp_all add: lit_dots)

lemma has_fold_entries:
  "dict_has (fold (\<lambda>(p, f). add_path f (lit ''/'') (path_pieces p)) entries l) d \<longleftrightarrow> dict_has l d \<or>
     (\<exists>(p, f) \<in> set entries. path_pieces p \<noteq> [] \<and>
        (\<exists>k < length (path_pieces p) + (if f then 0 else 1). d = abs_path (take k (path_pieces p))))"
proof (induction entries arbitrary: l)
  case (Cons entry entries)
  then show ?case by (cases entry) (simp add: has_add_root disj_assoc)
qed simp

text \<open>a path is a directory for the shell exactly when it is one of the fixed tree, a
  directory of the session or above one, or above a file.\<close>

theorem kind_directory:
  "kind s d = Some Dir \<longleftrightarrow> d \<in> set (map lit [''/'', ''/bin'', ''/usr'', ''/usr/bin''])
     \<or> (\<exists>p \<in> set (dirs s). \<exists>k \<le> length (path_pieces p). path_pieces p \<noteq> [] \<and> d = abs_path (take k (path_pieces p)))
     \<or> (\<exists>p \<in> set (dict_keys (files s)). \<exists>k < length (path_pieces p). d = abs_path (take k (path_pieces p)))"
proof -
  have "dict_has (base_listings (programs s)) d \<longleftrightarrow> d \<in> set (map lit [''/'', ''/bin'', ''/usr'', ''/usr/bin''])"
    by (auto simp: base_listings_def dict_has_def dict_get_def)
  moreover have "kind s d = Some Dir \<longleftrightarrow> dict_has (build_listings s) d"
    by (auto simp: kind_def)
  moreover have split: "(\<exists>(p, f) \<in> set (map (\<lambda>p. (p, True)) xs @ map (\<lambda>d. (d, False)) ys). Q p f) \<longleftrightarrow>
      (\<exists>p \<in> set xs. Q p True) \<or> (\<exists>p \<in> set ys. Q p False)" for xs ys :: "str list" and Q
    by auto
  moreover have "path_pieces p \<noteq> [] \<and> (\<exists>k < length (path_pieces p) + 0. d = abs_path (take k (path_pieces p))) \<longleftrightarrow>
      (\<exists>k < length (path_pieces p). d = abs_path (take k (path_pieces p)))" for p
    by (cases "path_pieces p") simp_all
  moreover have "path_pieces p \<noteq> [] \<and> (\<exists>k < length (path_pieces p) + 1. d = abs_path (take k (path_pieces p))) \<longleftrightarrow>
      (\<exists>k \<le> length (path_pieces p). path_pieces p \<noteq> [] \<and> d = abs_path (take k (path_pieces p)))" for p
    by (simp add: less_Suc_eq_le) blast
  ultimately show ?thesis
    unfolding build_listings_def has_fold_entries split
    by (simp only: if_True if_False) (simp only: disj_commute disj_left_commute)
qed

end
