(* ===== verification/ShellRoundTrips.thy ===== *)
theory ShellRoundTrips
  imports ShellProps
begin

text \<open>
  Round trips of the shell: \<open>base64\<close> and \<open>base64 -d\<close>, what a redirect leaves in a file, and
  quoted text from the line a visitor types to what \<open>echo\<close> prints.
\<close>

section \<open>base64\<close>

lemma utf8_char_bytes: "c < 0x110000 \<Longrightarrow> is_bytes (utf8_char c)"
  by (erule utf8_forms) (simp_all only: utf8_char_1 utf8_char_2 utf8_char_3 utf8_char_4, auto simp: is_bytes_def)

lemma plain_text_bytes: "plain_text t \<Longrightarrow> is_bytes (concat (map utf8_char t))"
  using utf8_char_bytes by (induction t) (auto simp: is_bytes_def list_all_iff)

lemma encode_ascii: "list_all (\<lambda>c. c < 128) t \<Longrightarrow> encode_utf8 t = Some t"
  unfolding encode_utf8_def by (induction t) (auto simp: utf8_char_1 is_surrogate_def)

lemma concat_chunks: "0 < n \<Longrightarrow> concat (chunks n xs) = xs"
  by (induction n xs rule: chunks.induct) (subst chunks.simps, auto)

lemma encoded_lines:
  "filter (\<lambda>c. \<not> ascii_space c) (concat (map (\<lambda>line. line @ [newline]) lines)) =
   filter (\<lambda>c. \<not> ascii_space c) (concat lines)"
  by (induction lines) (auto simp: ascii_space_def)

lemma base64_encode_compact:
  assumes "is_bytes bs"
  shows "filter (\<lambda>c. \<not> ascii_space c) (base64_encode_text bs) = b64encode bs"
proof -
  have "filter (\<lambda>c. \<not> ascii_space c) (b64encode bs) = b64encode bs"
    using set_b64encode [OF assms] by (intro filter_True) (force simp: ascii_space_def)
  then show ?thesis by (simp add: base64_encode_text_def encoded_lines concat_chunks)
qed

lemma base64_encode_ascii:
  assumes "is_bytes bs"
  shows "list_all (\<lambda>c. c < 128) (base64_encode_text bs)"
proof -
  have "c < 128" if "c \<in> set line" "line \<in> set (chunks 76 (b64encode bs))" for c line
  proof -
    have "c \<in> set (concat (chunks 76 (b64encode bs)))" using that by auto
    then show ?thesis using set_b64encode [OF assms] by (force simp: concat_chunks)
  qed
  then show ?thesis by (auto simp: base64_encode_text_def list_all_iff)
qed

text \<open>\<open>base64 -d\<close> gives back any text \<open>base64\<close> encoded, line breaks and all.\<close>

theorem base64_roundtrip:
  assumes "plain_text t"
  shows "\<exists>encoded. base64 s [] (Some t) = (Done (encoded, True), s)
     \<and> base64 s [lit ''-d''] (Some encoded) = (Done (t, True), s)"
proof -
  define bs where "bs = concat (map utf8_char t)"
  have bytes: "is_bytes bs" and enc: "encode_utf8 t = Some bs" and dec: "decode_utf8 bs = t"
    using assms by (simp_all add: bs_def plain_text_bytes encode_utf8_def decode_utf8_def
        utf8_encode_plain utf8_decode_plain)
  have "(4 - length (b64encode bs) mod 4) mod 4 = 0" by (simp add: length_b64encode)
  then have "base64_decode_data (base64_encode_text bs) = Some bs"
    using bytes by (simp add: base64_decode_data_def base64_encode_compact b64decode_encode)
  moreover have "encode_utf8 (base64_encode_text bs) = Some (base64_encode_text bs)"
    using bytes by (simp add: encode_ascii base64_encode_ascii)
  moreover have "startswith (lit ''-d'') (lit ''-'')" "\<not> startswith (lit ''-d'') (lit ''--'')" "100 \<in> set (lit ''-d'')"
    "lit ''-d'' \<noteq> lit ''-''"
    by code_simp+
  ultimately show ?thesis
    using enc dec by (simp add: base64_def dash_operands_def input_for_def Let_def)
qed

theorem base64_roundtrip_witness:
  "\<exists>encoded. base64 (new_session [] 0 NoPeer generic_linux) [] (Some (lit ''echo hi'')) = (Done (encoded, True), new_session [] 0 NoPeer generic_linux)
     \<and> base64 (new_session [] 0 NoPeer generic_linux) [lit ''-d''] (Some encoded) = (Done (lit ''echo hi'', True), new_session [] 0 NoPeer generic_linux)"
proof (rule base64_roundtrip)
  show "plain_text (lit ''echo hi'')" by code_simp
qed

section \<open>Redirects\<close>

text \<open>Opening a file and then appending to it stores what writing it at once stores.\<close>

lemma store_twice:
  assumes "store s p t a = (True, s')"
  shows "\<exists>s1. store s p [] a = (True, s1) \<and> store s1 p t True = (True, s')"
proof -
  define old where "old = (if a then (case dict_get (files s) p of None \<Rightarrow> [] | Some c \<Rightarrow> c) else [])"
  define used where "used = sum_list (map (written_size s) (filter (\<lambda>w. w \<noteq> p \<and> dict_has (files s) w) (written_files s)))"
  define s1 where "s1 = s\<lparr>files := dict_put p old (files s), written_files := List.insert p (written_files s)\<rparr>"
  have fits: "used + length (old @ t) \<le> MAX_WRITTEN_CHARS"
    and s': "s' = s\<lparr>files := dict_put p (old @ t) (files s), written_files := List.insert p (written_files s)\<rparr>"
    using assms by (auto simp: store_def Let_def old_def used_def split: if_splits)
  have "map (written_size s1) (filter (\<lambda>w. w \<noteq> p \<and> dict_has (files s1) w) (written_files s1)) =
      map (written_size s) (filter (\<lambda>w. w \<noteq> p \<and> dict_has (files s) w) (written_files s))"
  proof -
    have "filter (\<lambda>w. w \<noteq> p \<and> dict_has (files s1) w) (written_files s1) =
        filter (\<lambda>w. w \<noteq> p \<and> dict_has (files s) w) (written_files s)"
      by (auto simp: s1_def List.insert_def intro: filter_cong)
    then show ?thesis by (auto simp: s1_def written_size_def)
  qed
  then have "store s1 p t True = (True, s')"
    using fits by (simp add: store_def Let_def used_def s1_def s' dict_put_def)
      (simp add: dict_get_def update_conv)
  moreover have "store s p [] a = (True, s1)"
    using fits by (simp add: store_def Let_def old_def [symmetric] used_def [symmetric] s1_def)
  ultimately show ?thesis by blast
qed

lemma open_for_writing_ok:
  assumes "kind s p \<noteq> Some Dir" "kind s (parent_of p) = Some Dir" "store s p [] a = (True, s')"
  shows "open_for_writing s operand p a = (None, s')"
  using assms by (simp add: open_for_writing_def Let_def)

text \<open>a command that succeeds without touching the session, with its standard output sent
  to a file in an existing directory, prints nothing and leaves exactly its output in the
  file: instead of what was there after ">", after what was there after ">>".\<close>

theorem redirect_stdout:
  assumes "split_redirects command = Some (plain, [(lit ''1'', appending, target)])"
    and "\<not> startswith target (lit ''&'')" and "resolve_path s target \<noteq> DEV_NULL"
    and "kind s (resolve_path s target) \<noteq> Some Dir" and "kind s (parent_of (resolve_path s target)) = Some Dir"
    and "\<And>s'. run_command e deeper plain s' stdin = (Done (Some (text, True)), s')"
    and "store s (resolve_path s target) text appending = (True, s')"
  shows "run e deeper command s stdin = (Done (Some ([], True)), s')"
proof -
  obtain s1 where s1: "store s (resolve_path s target) [] appending = (True, s1)"
    and s': "store s1 (resolve_path s target) text True = (True, s')"
    using store_twice [OF assms(7)] by blast
  have same: "s' = s1" if "text = []"
    using s1 assms(7) that by simp
  have streams: "lit ''1'' \<noteq> lit ''2''" "lit ''1'' \<noteq> lit ''&''" by code_simp+
  have "open_redirects [(lit ''1'', appending, target)] screen_targets s =
      (Inr [(lit ''1'', Some (resolve_path s target)), (lit ''2'', None)], s1)"
    using assms(2,3) streams open_for_writing_ok [OF assms(4,5) s1]
    by (simp add: Let_def point_at_def screen_targets_def dict_has_def dict_get_def dict_put_def)
  then show ?thesis
    using assms(1,3,6) s' same streams
    by (simp add: run_def of_cmd_def prints_def dict_get_def split: bool.splits)
qed

lemma run_echo_hi: "run_command e deeper (lit ''echo hi'') s stdin = (Done (Some (lit ''hi'' @ [newline], True)), s)"
proof -
  have "shlex_split (lit ''echo hi'') = Some [lit ''echo'', lit ''hi'']" "lit ''echo'' \<in> set BUSYBOX_APPLETS"
    "lit ''echo'' \<noteq> lit ''busybox''" "slash \<notin> set (lit ''echo'')" "echo [lit ''hi''] = lit ''hi'' @ [newline]"
    by code_simp+
  moreover have "dispatch e deeper s (lit ''echo'') args stdin = prints (echo args) True s" for args
    by (simp add: dispatch_def)
  ultimately show ?thesis
    by (simp add: run_command_def run_named_def run_applet_def prints_def)
qed

theorem redirect_stdout_witness:
  "run plain_env None (lit ''echo hi > /tmp/x'') (new_session [] 0 NoPeer generic_linux) None =
     (Done (Some ([], True)), snd (store (new_session [] 0 NoPeer generic_linux)
        (resolve_path (new_session [] 0 NoPeer generic_linux) (lit ''/tmp/x'')) (lit ''hi'' @ [newline]) False))"
proof (rule redirect_stdout [where plain = "lit ''echo hi''" and target = "lit ''/tmp/x''" and appending = False])
  show "split_redirects (lit ''echo hi > /tmp/x'') = Some (lit ''echo hi'', [(lit ''1'', False, lit ''/tmp/x'')])"
    by code_simp
  show "\<not> startswith (lit ''/tmp/x'') (lit ''&'')" by code_simp
  show "resolve_path (new_session [] 0 NoPeer generic_linux) (lit ''/tmp/x'') \<noteq> DEV_NULL" by code_simp
  show "kind (new_session [] 0 NoPeer generic_linux) (resolve_path (new_session [] 0 NoPeer generic_linux) (lit ''/tmp/x'')) \<noteq> Some Dir"
    by code_simp
  show "kind (new_session [] 0 NoPeer generic_linux)
      (parent_of (resolve_path (new_session [] 0 NoPeer generic_linux) (lit ''/tmp/x''))) = Some Dir"
    by code_simp
  have "fst (store (new_session [] 0 NoPeer generic_linux)
      (resolve_path (new_session [] 0 NoPeer generic_linux) (lit ''/tmp/x'')) (lit ''hi'' @ [newline]) False) = True"
    by code_simp
  then show "store (new_session [] 0 NoPeer generic_linux)
      (resolve_path (new_session [] 0 NoPeer generic_linux) (lit ''/tmp/x'')) (lit ''hi'' @ [newline]) False =
      (True, snd (store (new_session [] 0 NoPeer generic_linux)
      (resolve_path (new_session [] 0 NoPeer generic_linux) (lit ''/tmp/x'')) (lit ''hi'' @ [newline]) False))"
    by (metis prod.collapse)
qed (rule run_echo_hi)

section \<open>Quoted text\<close>

lemma split_loop_single_quoted:
  "squote \<notin> set t \<Longrightarrow>
   split_loop seps (Some squote) op cur segs (t @ squote # s) = split_loop seps None op (cur @ t @ [squote]) segs s"
  by (induction t arbitrary: cur) auto

lemma redirect_loop_single_quoted:
  "squote \<notin> set t \<Longrightarrow>
   redirect_loop (Some squote) rest rs (t @ squote # s) =
   redirect_loop None (rest @ map (\<lambda>c. [c]) (t @ [squote])) rs s"
  by (induction t arbitrary: rest) auto

definition echo_line :: "str \<Rightarrow> str" where
  "echo_line t = lit ''echo '' @ squote # t @ [squote]"

lemma echo_prefix: "lit ''echo '' = [101, 99, 104, 111, 32]"
  by code_simp

lemma strip_outer:
  "s \<noteq> [] \<Longrightarrow> \<not> is_space (hd s) \<Longrightarrow> \<not> is_space (last s) \<Longrightarrow> strip s = s"
proof -
  assume s: "s \<noteq> []" "\<not> is_space (hd s)" "\<not> is_space (last s)"
  then have "dropWhile is_space s = s" by (cases s) auto
  moreover have "dropWhile is_space (rev s) = rev s" using s by (cases s rule: rev_cases) auto
  ultimately show ?thesis by (simp add: strip_def strip_if_def lstrip_if_def rstrip_if_def)
qed

lemma strip_echo_line: "strip (echo_line t) = echo_line t"
  by (rule strip_outer) (simp_all add: echo_line_def echo_prefix is_space_def)

lemma split_echo_line:
  assumes "squote \<notin> set t" "seps \<in> {LIST_SEPARATORS, [lit ''|'']}"
  shows "split_unquoted (echo_line t) seps = ([([], echo_line t)], None)"
proof -
  have plain: "find (\<lambda>sep. startswith (c # s) sep) seps = None" if "c \<in> {101, 99, 104, 111, 32, squote}" for c s
  proof -
    have sep: "lit ''&&'' = [38, 38]" "lit ''||'' = [124, 124]" "lit '';;'' = [59, 59]" "lit '';'' = [59]" "lit ''|'' = [124]"
      by code_simp+
    show ?thesis using assms(2) that by (auto simp: LIST_SEPARATORS_def sep startswith_def)
  qed
  have "split_unquoted (echo_line t) seps = split_loop seps None [] (echo_line t) [] []"
    using plain split_loop_single_quoted [OF assms(1), of seps "[]" "[101, 99, 104, 111, 32, squote]" "[]" "[]"]
    by (simp add: split_unquoted_def echo_line_def echo_prefix is_quote_def)
  then show ?thesis by (simp add: strip_echo_line Let_def) (simp add: echo_line_def)
qed

lemma parse_echo_line: "squote \<notin> set t \<Longrightarrow> parse_line (echo_line t) = ([([], [echo_line t])], None)"
  by (simp add: parse_line_def split_echo_line)

lemma redirects_echo_line: "squote \<notin> set t \<Longrightarrow> split_redirects (echo_line t) = Some (echo_line t, [])"
  using redirect_loop_single_quoted [of t "map (\<lambda>c. [c]) [101, 99, 104, 111, 32, squote]" "[]" "[]"]
  using strip_echo_line [of t]
  by (simp add: split_redirects_def echo_line_def echo_prefix is_quote_def concat_map_singleton)

lemma words_echo_line: "squote \<notin> set t \<Longrightarrow> shlex_split (echo_line t) = Some [lit ''echo'', t]"
proof -
  assume t: "squote \<notin> set t"
  have "lit ''echo'' = [101, 99, 104, 111]" by code_simp
  then show ?thesis
    using lex_single_quoted [OF t, of "[]" False "[lit ''echo'']" "[]"]
    by (simp add: shlex_split_def echo_line_def echo_prefix lex_space_def is_quote_def)
qed

text \<open>quoting works through every stage of the shell: whatever a text holds, operators,
  redirects, comments and escapes included, \<open>echo '...'\<close> prints the text itself, provided
  it has no single quote and is not one of \<open>echo\<close>'s options.\<close>

theorem echo_quoted:
  assumes "squote \<notin> set t" "\<not> re_fullmatch echo_option_re t"
  shows "process e now (echo_line t) s =
    (Done (t @ [newline] @ prompt s), log_command now (echo_line t) s)"
proof -
  let ?after = "log_command now (echo_line t) s"
  have nonempty: "echo_line t \<noteq> []" by (simp add: echo_line_def)
  have word: "lit ''echo'' \<in> set BUSYBOX_APPLETS" "lit ''echo'' \<noteq> lit ''busybox''" "slash \<notin> set (lit ''echo'')"
    "\<not> skips [] True"
    by code_simp+
  have echo: "echo [t] = t @ [newline]" using assms(2) by (simp add: echo_def)
  have "dispatch e d ?after (lit ''echo'') [t] None = prints (echo [t]) True ?after" for d
    by (simp add: dispatch_def)
  then have "run_command e d (echo_line t) ?after None = (Done (Some (t @ [newline], True)), ?after)" for d
    using word assms(1)
    by (simp add: run_command_def words_echo_line run_named_def run_applet_def prints_def echo)
  then have "execute e MAX_SUBSHELL_DEPTH (echo_line t) ?after = (Done (t @ [newline], True, False), ?after)"
    using word assms(1)
    by (simp add: MAX_SUBSHELL_DEPTH_def numeral_3_eq_3 execute_line_def parse_echo_line run_pipeline_def run_def
        redirects_echo_line)
  then show ?thesis using nonempty by (simp add: process_def strip_echo_line prompt_def)
qed

theorem echo_quoted_witness:
  "process plain_env 5 (echo_line (lit ''a; rm -rf / && b | c > d'')) (new_session [] 0 NoPeer busybox_router) =
    (Done (lit ''a; rm -rf / && b | c > d'' @ [newline] @ prompt (new_session [] 0 NoPeer busybox_router)),
     log_command 5 (echo_line (lit ''a; rm -rf / && b | c > d'')) (new_session [] 0 NoPeer busybox_router))"
proof (rule echo_quoted)
  show "squote \<notin> set (lit ''a; rm -rf / && b | c > d'')" by code_simp
  show "\<not> re_fullmatch echo_option_re (lit ''a; rm -rf / && b | c > d'')" by code_simp
qed

end
