(* ===== verification/UrlText.thy ===== *)
theory UrlText
  imports Codecs
begin

text \<open>
  The parts of \<open>urllib.parse\<close> that the feature extractor uses: \<open>unquote\<close>, \<open>unquote_plus\<close>
  and \<open>parse_qsl(..., keep_blank_values=True)\<close>, with UTF-8 decoding that puts U+FFFD for
  every maximal invalid subsequence (\<open>errors="replace"\<close>).
\<close>

text \<open>How many bytes of an invalid sequence one replacement character stands for.\<close>

definition bad_length :: "bytes \<Rightarrow> nat" where
  "bad_length bs =
     (case bs of
        b # b1 # r \<Rightarrow>
          if (b = 0xE0 \<and> 0xA0 \<le> b1 \<and> b1 \<le> 0xBF) \<or> (0xE1 \<le> b \<and> b \<le> 0xEF \<and> b \<noteq> 0xED \<and> is_cont b1)
             \<or> (b = 0xED \<and> 0x80 \<le> b1 \<and> b1 \<le> 0x9F) then 2
          else if (b = 0xF0 \<and> 0x90 \<le> b1 \<and> b1 \<le> 0xBF) \<or> (0xF1 \<le> b \<and> b \<le> 0xF3 \<and> is_cont b1)
             \<or> (b = 0xF4 \<and> 0x80 \<le> b1 \<and> b1 \<le> 0x8F)
          then (case r of b2 # _ \<Rightarrow> if is_cont b2 then 3 else 2 | [] \<Rightarrow> 2)
          else 1
      | _ \<Rightarrow> 1)"

lemma bad_length_positive [simp]: "0 < bad_length bs"
  by (simp add: bad_length_def split: list.splits)

function decode_replace :: "bytes \<Rightarrow> str" where
  "decode_replace bs =
     (case utf8_step bs of
        Some (c, r) \<Rightarrow> c # decode_replace r
      | None \<Rightarrow> (if bs = [] then [] else 0xFFFD # decode_replace (drop (bad_length bs) bs)))"
  by pat_completeness auto
termination
proof (relation "measure length")
  fix bs :: bytes
  assume "bs \<noteq> []"
  then show "(drop (bad_length bs) bs, bs) \<in> measure length"
    using bad_length_positive [of bs] by (simp add: diff_less del: bad_length_positive)
qed (auto dest: utf8_step_shorter)

declare decode_replace.simps [simp del]

definition hex_char :: "nat \<Rightarrow> bool" where
  "hex_char c \<longleftrightarrow> is_decimal c \<or> (65 \<le> c \<and> c \<le> 70) \<or> (97 \<le> c \<and> c \<le> 102)"

fun unquote_to_bytes :: "str \<Rightarrow> bytes" where
  "unquote_to_bytes (c # h # l # s) =
     (if c = percent \<and> hex_char h \<and> hex_char l
      then (digit_value h * 16 + digit_value l) # unquote_to_bytes s
      else c # unquote_to_bytes (h # l # s))"
| "unquote_to_bytes s = s"

definition is_ascii :: "nat \<Rightarrow> bool" where
  "is_ascii c \<longleftrightarrow> c < 128"

text \<open>Only runs of ASCII characters are decoded; the others stay as they are.\<close>

function unquote_runs :: "str \<Rightarrow> str" where
  "unquote_runs [] = []"
| "unquote_runs (c # s) =
     (if is_ascii c
      then decode_replace (unquote_to_bytes (takeWhile is_ascii (c # s))) @ unquote_runs (dropWhile is_ascii s)
      else c # unquote_runs s)"
  by pat_completeness auto
termination
  by (relation "measure length") (auto simp: le_imp_less_Suc length_dropWhile_le)

definition unquote :: "str \<Rightarrow> str" where
  "unquote s = (if percent \<notin> set s then s else unquote_runs s)"

definition plus_to_space :: "str \<Rightarrow> str" where
  "plus_to_space s = map (\<lambda>c. if c = plus then space else c) s"

definition unquote_plus :: "str \<Rightarrow> str" where
  "unquote_plus s = unquote (plus_to_space s)"

definition parse_qsl :: "str \<Rightarrow> (str \<times> str) list" where
  "parse_qsl qs =
     map (\<lambda>item. case partition_at equals_sign item of
            (name, value) \<Rightarrow> (unquote_plus name, unquote_plus (case value of None \<Rightarrow> [] | Some v \<Rightarrow> v)))
       (filter (\<lambda>item. item \<noteq> []) (split_on ampersand qs))"

lemma unquote_plain: "percent \<notin> set s \<Longrightarrow> unquote s = s"
  by (simp add: unquote_def)

lemma decode_replace_plain:
  "plain_text s \<Longrightarrow> decode_replace (concat (map utf8_char s)) = s"
proof (induction s)
  case Nil
  then show ?case by (simp add: decode_replace.simps)
next
  case (Cons c s)
  then show ?case by (subst decode_replace.simps) (simp add: utf8_step_char)
qed

end
