(* ===== verification/Features.thy ===== *)
theory Features
  imports SessionRecord UrlText Regex Shlex
begin

text \<open>
  \<open>classifier/features/session.py\<close>: one pass over the commands of a validated session
  that counts and collects what the rules look at. The loop body is \<open>observe\<close>, composed
  of one definition per block of the code; its variables are the record \<open>seen\<close>. Times
  are rationals, so arithmetic on them is exact.
\<close>

section \<open>Tables and patterns\<close>

definition DISCOVERY_COMMANDS :: "str list" where
  "DISCOVERY_COMMANDS = map lit [''hostname'', ''id'', ''ls'', ''netstat'', ''ps'', ''pwd'', ''ss'', ''uname'', ''whoami'']"

definition EXIT_COMMANDS :: "str list" where
  "EXIT_COMMANDS = map lit [''exit'', ''logout'', ''quit'']"

definition SENSITIVE_PATH_MARKERS :: "str list" where
  "SENSITIVE_PATH_MARKERS = map lit [''.aws'', ''.env'', ''.git'', ''.htaccess'', ''.npmrc'', ''actuator/env'',
     ''appsettings'', ''auth.log'', ''backup'', ''config.json'', ''config.php'', ''credential'', ''docker-compose'',
     ''passwd'', ''secret'', ''shadow'', ''tfstate'', ''wp-config'']"

definition sensitive_path_re :: re where
  "sensitive_path_re =
     alts (map (\<lambda>marker. seq [exact marker, opt (one_of ''s''), NotAhead (Cls is_ascii_alnum)]) SENSITIVE_PATH_MARKERS)"

definition HTTP_REQUEST_COMMANDS :: "str list" where
  "HTTP_REQUEST_COMMANDS = map lit [''get'', ''post'', ''head'', ''put'', ''delete'']"

definition HTTP_CREDENTIAL_BODY_MARKERS :: "str list" where
  "HTTP_CREDENTIAL_BODY_MARKERS = map lit [''pwd='', ''psd='', ''passwd='', ''password='', ''log='', ''user='', ''username='']"

definition http_credential_body_re :: re where
  "http_credential_body_re =
     alts (map (\<lambda>marker. Cat (NotBehind is_ascii_alnum) (exact marker)) HTTP_CREDENTIAL_BODY_MARKERS)"

definition HTTP_USERNAME_FIELD_NAMES :: "str list" where
  "HTTP_USERNAME_FIELD_NAMES = map lit [''log'', ''user'', ''username'', ''email'', ''uname'']"

definition HTTP_PASSWORD_FIELD_NAMES :: "str list" where
  "HTTP_PASSWORD_FIELD_NAMES = map lit [''pwd'', ''psd'', ''pass'', ''passwd'', ''password'']"

definition SCANNER_USER_AGENT_MARKERS :: "str list" where
  "SCANNER_USER_AGENT_MARKERS = map lit [''masscan'', ''nikto'', ''sqlmap'', ''nmap'', ''nuclei'', ''zgrab'', ''wpscan'',
     ''dirbuster'', ''gobuster'', ''acunetix'', ''nessus'']"

definition scanner_user_agent_re :: re where
  "scanner_user_agent_re = alts (map exact SCANNER_USER_AGENT_MARKERS)"

definition HTTP_METHODS :: "str list" where
  "HTTP_METHODS = map lit [''get'', ''post'', ''head'', ''put'', ''delete'', ''connect'', ''options'', ''patch'', ''trace'']"

abbreviation (input) spaces_re :: re where "spaces_re \<equiv> some (Cls is_space)"
abbreviation (input) some_spaces_re :: re where "some_spaces_re \<equiv> Star (Cls is_space)"

definition http_injected_command_re :: re where
  "http_injected_command_re =
     alts [seq [Alt (one_of '';|&`('') (exact [newline]), some_spaces_re, opt (Cat (word_of ''busybox'') spaces_re),
                alts (map word_of [''wget'', ''curl'', ''tftp'', ''ftpget'']), Cls is_space],
           word_of ''java.lang.runtime'', word_of ''runtime.getruntime('']"

definition path_traversal_re :: re where
  "path_traversal_re =
     (let climb = Cat (word_of ''..'') (Alt (exact [slash]) (exact [bslash])) in seq [climb, climb, Star climb])"

definition HTTP_PROBE_TARGETS :: "(str \<times> str) list" where
  "HTTP_PROBE_TARGETS =
     [(lit ''/sdk/weblanguage'', lit ''hikvision_camera''), (lit ''/geoserver'', lit ''geoserver''),
      (lit ''/mcp'', lit ''mcp_server''), (lit ''/api/mcp'', lit ''mcp_server''), (lit ''/sse'', lit ''mcp_server''),
      (lit ''/v1/models'', lit ''ai_model_api''), (lit ''/api/tags'', lit ''ai_model_api''), (lit ''/wsman'', lit ''winrm'')]"

definition lower_letter :: re where
  "lower_letter = Cls (\<lambda>c. 97 \<le> c \<and> c \<le> 122)"

definition non_spaces :: re where
  "non_spaces = some (Cls (\<lambda>c. \<not> is_space c))"

definition ftp_other_protocol_re :: re where
  "ftp_other_protocol_re =
     Alt (Cat AtStart (alts
           [seq [lower_letter, lower_letter, lower_letter, upto_times 4 lower_letter, exact [space], non_spaces,
                 word_of '' http/'', Cls is_decimal],
            Cat (word_of ''ssh-'') (Cls is_decimal), word_of ''[tls handshake]'', word_of ''[rdp connection request]'']))
         (word_of ''mstshash='')"

definition word_or_dash :: "nat \<Rightarrow> bool" where
  "word_or_dash c \<longleftrightarrow> is_ascii_alnum c \<or> c = underscore \<or> c = dash"

definition remote_fetch_re :: re where
  "remote_fetch_re =
     seq [NotBehind word_or_dash, alts (map word_of [''wget'', ''curl'', ''tftp'', ''scp'', ''ftpget'']), Cls is_space]"

definition octal_digit :: re where
  "octal_digit = one_of ''01234567''"

definition run_fetched_re :: re where
  "run_fetched_re =
     Alt (seq [word_of ''|'', some_spaces_re, opt (alts (map word_of [''ba'', ''da'', ''z'', ''k''])), word_of ''sh'', WordBoundary])
         (seq [word_of ''chmod'', spaces_re,
               Alt (seq [Star (one_of ''ugoa''), word_of ''+'', Star (one_of ''rwxst''), word_of ''x''])
                   (seq [upto_times 3 octal_digit, one_of ''1357'', upto_times 3 octal_digit, NotAhead octal_digit])])"

text \<open>The end of a file name: neither a word character nor any of the characters given.\<close>

definition name_ends :: "str \<Rightarrow> re" where
  "name_ends cs = NotAhead (Cls (\<lambda>c. is_word_char c \<or> c \<in> set cs))"

definition opt_quote :: re where
  "opt_quote = opt (Cls (\<lambda>c. c = squote \<or> c = dquote))"

definition authorized_keys_file_re :: re where
  "authorized_keys_file_re =
     seq [opt_quote, Star (Cls (\<lambda>c. \<not> is_space c \<and> c \<noteq> squote \<and> c \<noteq> dquote \<and> c \<notin> set (lit ''|;&<>''))),
          word_of ''authorized_keys'', opt (word_of ''2''), name_ends (lit ''.-'')]"

definition dash_options_re :: re where
  "dash_options_re = Star (seq [exact [dash], non_spaces, spaces_re])"

definition authorized_keys_write_re :: re where
  "authorized_keys_write_re =
     Alt (seq [word_of ''>'', some_spaces_re, authorized_keys_file_re])
         (seq [NotBehind word_or_dash, word_of ''tee'', spaces_re, dash_options_re, authorized_keys_file_re])"

definition system_binary_read_re :: re where
  "system_binary_read_re =
     seq [NotBehind (\<lambda>c. word_or_dash c \<or> c = dot), word_of ''cat'', spaces_re, dash_options_re, opt_quote, word_of ''/'',
          opt (word_of ''usr/''), opt (word_of ''s''), word_of ''bin/'',
          some (Cls (\<lambda>c. (97 \<le> c \<and> c \<le> 122) \<or> is_decimal c \<or> c \<in> set (lit ''_.+-''))), name_ends (lit ''./-'')]"

definition not_a_plain_echo_re :: re where
  "not_a_plain_echo_re = Alt (one_of ''|;&<>`'') (word_of ''$('')"

definition ECHO_COMMAND_NAMES :: "str list" where
  "ECHO_COMMAND_NAMES = map lit [''echo'', ''/bin/echo'', ''/usr/bin/echo'']"

section \<open>Helpers\<close>

definition parse_command :: "str \<Rightarrow> str \<times> str list" where
  "parse_command raw =
     (case (case shlex_split raw of Some tokens \<Rightarrow> tokens | None \<Rightarrow> split_words raw) of
        [] \<Rightarrow> ([], [])
      | cmd # args \<Rightarrow> (lower cmd, args))"

definition http_request_target :: "str \<Rightarrow> str option" where
  "http_request_target line =
     (case split_on space line of
        verb # target # _ \<Rightarrow>
          if target = [] then None
          else if lower verb = lit ''post'' \<and> endswith target (lit '':'') then None
          else Some target
      | _ \<Rightarrow> None)"

definition http_probe_target :: "str \<Rightarrow> str option" where
  "http_probe_target target =
     (let path = rstrip_if (\<lambda>c. c = slash) (lower (unquote (fst (partition_at question target)))) in
      map_option snd (find (\<lambda>(prefix, product). path = prefix \<or> startswith path (prefix @ lit ''/'')) HTTP_PROBE_TARGETS))"

definition basic_auth_pair :: "str \<Rightarrow> str option" where
  "basic_auth_pair header_value =
     (case partition_at space (strip header_value) of
        (scheme, None) \<Rightarrow> None
      | (scheme, Some token) \<Rightarrow>
          if lower scheme \<noteq> lit ''basic'' \<or> strip token = [] then None
          else case b64decode (strip token) of
            None \<Rightarrow> None
          | Some raw \<Rightarrow>
              (case decode_utf8_strict raw of
                 None \<Rightarrow> None
               | Some decoded \<Rightarrow> if colon \<in> set decoded then Some (lower decoded) else None))"

definition first_filled :: "(str \<times> str) list \<Rightarrow> str list \<Rightarrow> str option" where
  "first_filled d names =
     (case find (\<lambda>name. dict_get d name \<noteq> None \<and> dict_get d name \<noteq> Some []) names of
        None \<Rightarrow> None
      | Some name \<Rightarrow> dict_get d name)"

definition extract_http_credential_pair :: "str \<Rightarrow> str option" where
  "extract_http_credential_pair body =
     (let d = dict_of (map (\<lambda>(key, v). (lower key, v)) (parse_qsl body)) in
      case (first_filled d HTTP_USERNAME_FIELD_NAMES, first_filled d HTTP_PASSWORD_FIELD_NAMES) of
        (Some user, Some password) \<Rightarrow> Some (lower user @ lit '':'' @ lower password)
      | _ \<Rightarrow> None)"

definition is_sensitive_path :: "str \<Rightarrow> bool" where
  "is_sensitive_path p = re_search sensitive_path_re (lower p)"

text \<open>\<open>round(x, digits)\<close> of Python, ties to even, on exact numbers.\<close>

definition round_half_even :: "rat \<Rightarrow> int" where
  "round_half_even x =
     (let f = \<lfloor>x\<rfloor>; d = x - of_int f in
      if d < 1 / 2 then f else if 1 / 2 < d then f + 1 else if even f then f else f + 1)"

definition round_2 :: "rat \<Rightarrow> rat" where
  "round_2 x = of_int (round_half_even (x * 100)) / 100"

definition BOT_SPEED_INTERVAL_SECONDS :: rat where
  "BOT_SPEED_INTERVAL_SECONDS = 1 / 2"

definition HUMAN_PACING_INTERVAL_SECONDS :: rat where
  "HUMAN_PACING_INTERVAL_SECONDS = 5"

definition human_timing_score :: "rat option \<Rightarrow> rat option" where
  "human_timing_score average_interval =
     (case average_interval of
        None \<Rightarrow> None
      | Some average \<Rightarrow>
          (let span = HUMAN_PACING_INTERVAL_SECONDS - BOT_SPEED_INTERVAL_SECONDS;
               score = (average - BOT_SPEED_INTERVAL_SECONDS) / span
           in Some (round_2 (min (max score 0) 1))))"

definition commands_per_minute :: "int \<Rightarrow> rat \<Rightarrow> rat" where
  "commands_per_minute count duration =
     (if 0 < duration then of_int count * 60 / duration else of_int count * 60)"

section \<open>The loop over the commands\<close>

record seen =
  seen_names :: "str list"
  seen_discovery :: nat
  seen_reads :: nat
  seen_sensitive :: nat
  seen_exit :: bool
  seen_auth :: nat
  seen_telnet :: "str list"
  seen_ssh :: "str list"
  seen_ftp :: "str list"
  seen_ftp_other :: bool
  seen_http :: "str list"
  seen_paths :: "str list"
  seen_agents :: "str list"
  seen_scanner :: bool
  seen_injection :: bool
  seen_traversal :: bool
  seen_proxy :: bool
  seen_probes :: "str list"
  seen_schemes :: "str list"
  seen_fetch :: bool
  seen_run :: bool
  seen_keys :: bool
  seen_binary :: bool
  seen_echo :: bool
  seen_other :: bool
  pending_telnet :: "str option"
  pending_ssh :: "str option"
  pending_ftp :: "str option"

definition nothing_seen :: seen where
  "nothing_seen = \<lparr>seen_names = [], seen_discovery = 0, seen_reads = 0, seen_sensitive = 0, seen_exit = False,
     seen_auth = 0, seen_telnet = [], seen_ssh = [], seen_ftp = [], seen_ftp_other = False, seen_http = [],
     seen_paths = [], seen_agents = [], seen_scanner = False, seen_injection = False, seen_traversal = False,
     seen_proxy = False, seen_probes = [], seen_schemes = [], seen_fetch = False, seen_run = False,
     seen_keys = False, seen_binary = False, seen_echo = False, seen_other = False,
     pending_telnet = None, pending_ssh = None, pending_ftp = None\<rparr>"

text \<open>What the blocks of the loop body look at: the raw command, its name and arguments, and
  the stripped lower-case line.\<close>

record line =
  raw_line :: str
  line_name :: str
  line_args :: "str list"
  normalized :: str

definition line_of :: "str \<Rightarrow> line" where
  "line_of raw = (case parse_command raw of (name, args) \<Rightarrow>
     \<lparr>raw_line = raw, line_name = name, line_args = args, normalized = lower (strip raw)\<rparr>)"

text \<open>\<open>event.cmd.split(":", 1)[1]\<close>.\<close>

definition after_colon :: "str \<Rightarrow> str" where
  "after_colon s = (case partition_at colon s of (_, Some rest) \<Rightarrow> rest | (_, None) \<Rightarrow> [])"

definition is_login :: "line \<Rightarrow> bool" where
  "is_login l = startswith (normalized l) (lit ''login:'')"

definition is_password :: "line \<Rightarrow> bool" where
  "is_password l = startswith (normalized l) (lit ''password:'')"

definition line_value :: "line \<Rightarrow> str" where
  "line_value l = lower (strip (after_colon (raw_line l)))"

definition note_auth_attempt :: "line \<Rightarrow> seen \<Rightarrow> seen" where
  "note_auth_attempt l st =
     (if line_name l \<in> set (map lit [''user'', ''pass'']) \<or> is_login l \<or> is_password l
      then st\<lparr>seen_auth := seen_auth st + 1\<rparr> else st)"

definition note_telnet :: "line \<Rightarrow> seen \<Rightarrow> seen" where
  "note_telnet l st =
     (if is_login l then st\<lparr>pending_telnet := Some (line_value l)\<rparr>
      else if is_password l then
        (case pending_telnet st of
           None \<Rightarrow> st
         | Some user \<Rightarrow> st\<lparr>seen_telnet := seen_telnet st @ [user @ lit '':'' @ line_value l], pending_telnet := None\<rparr>)
      else st)"

definition note_ssh :: "line \<Rightarrow> seen \<Rightarrow> seen" where
  "note_ssh l st =
     (if is_login l then st\<lparr>pending_ssh := Some (line_value l)\<rparr>
      else if is_password l then
        (case pending_ssh st of
           None \<Rightarrow> st
         | Some user \<Rightarrow> st\<lparr>seen_ssh := seen_ssh st @ [user @ lit '':'' @ line_value l], pending_ssh := None\<rparr>)
      else st)"

definition note_ftp :: "line \<Rightarrow> seen \<Rightarrow> seen" where
  "note_ftp l st =
     (let st1 = (if re_search ftp_other_protocol_re (normalized l) then st\<lparr>seen_ftp_other := True\<rparr> else st) in
      case line_args l of
        [] \<Rightarrow> st1
      | arg # _ \<Rightarrow>
          if line_name l = lit ''user'' then st1\<lparr>pending_ftp := Some (lower (strip arg))\<rparr>
          else if line_name l = lit ''pass'' then
            (case pending_ftp st1 of
               None \<Rightarrow> st1
             | Some user \<Rightarrow>
                 st1\<lparr>seen_ftp := seen_ftp st1 @ [user @ lit '':'' @ lower (strip arg)], pending_ftp := None\<rparr>)
          else st1)"

text \<open>\<open>event.cmd.partition(": ")[2]\<close>.\<close>

fun after_separator :: "str \<Rightarrow> str \<Rightarrow> str" where
  "after_separator sep [] = []"
| "after_separator sep (c # s) =
     (if startswith (c # s) sep then drop (length sep) (c # s) else after_separator sep s)"

definition add_http_pair :: "str option \<Rightarrow> seen \<Rightarrow> seen" where
  "add_http_pair pair st = (case pair of None \<Rightarrow> st | Some p \<Rightarrow> st\<lparr>seen_http := seen_http st @ [p]\<rparr>)"

definition note_http_login :: "line \<Rightarrow> seen \<Rightarrow> seen" where
  "note_http_login l st =
     (if line_name l = lit ''post'' \<and> re_search http_credential_body_re (normalized l) then
        add_http_pair (extract_http_credential_pair (after_separator (lit '': '') (raw_line l)))
          (st\<lparr>seen_auth := seen_auth st + 1\<rparr>)
      else if line_name l = lit ''get'' then
        (case http_request_target (raw_line l) of
           None \<Rightarrow> st
         | Some target \<Rightarrow>
             (case partition_at question target of
                (_, None) \<Rightarrow> st
              | (_, Some query) \<Rightarrow>
                  (case extract_http_credential_pair query of
                     None \<Rightarrow> st
                   | Some pair \<Rightarrow> add_http_pair (Some pair) (st\<lparr>seen_auth := seen_auth st + 1\<rparr>))))
      else st)"

definition note_credentials :: "str \<Rightarrow> line \<Rightarrow> seen \<Rightarrow> seen" where
  "note_credentials protocol l st =
     (if protocol = lit ''telnet'' then note_telnet l st
      else if protocol = lit ''tcp_shell'' then note_ssh l st
      else if protocol = lit ''ftp'' then note_ftp l st
      else if protocol = lit ''http'' then note_http_login l st
      else st)"

definition note_http_path :: "line \<Rightarrow> seen \<Rightarrow> seen" where
  "note_http_path l st =
     (if line_name l \<in> set HTTP_REQUEST_COMMANDS \<and> line_args l \<noteq> []
      then st\<lparr>seen_paths := seen_paths st @ [hd (line_args l)]\<rparr> else st)"

definition note_http_request :: "line \<Rightarrow> seen \<Rightarrow> seen" where
  "note_http_request l st =
     (if line_name l \<notin> set HTTP_METHODS then st
      else
        (let st1 = (if re_search http_injected_command_re (unquote_plus (normalized l))
                    then st\<lparr>seen_injection := True\<rparr> else st)
         in case http_request_target (raw_line l) of
              None \<Rightarrow> st1
            | Some target \<Rightarrow>
                (let st2 = (if line_name l = lit ''connect'' \<or> startswith (lower target) (lit ''http://'')
                         \<or> startswith (lower target) (lit ''https://'')
                       then st1\<lparr>seen_proxy := True\<rparr>
                       else if re_search path_traversal_re (unquote (unquote target))
                       then st1\<lparr>seen_traversal := True\<rparr> else st1)
                 in case http_probe_target target of
                      None \<Rightarrow> st2
                    | Some product \<Rightarrow>
                        if product \<in> set (seen_probes st2) then st2
                        else st2\<lparr>seen_probes := seen_probes st2 @ [product]\<rparr>)))"

definition note_authorization :: "line \<Rightarrow> seen \<Rightarrow> seen" where
  "note_authorization l st =
     (if \<not> startswith (normalized l) (lit ''authorization:'') then st
      else
        (let st1 = (case split_words (after_colon (normalized l)) of
               [] \<Rightarrow> st
             | scheme # _ \<Rightarrow>
                 if scheme \<in> set (seen_schemes st) then st else st\<lparr>seen_schemes := seen_schemes st @ [scheme]\<rparr>)
         in case basic_auth_pair (after_colon (raw_line l)) of
              None \<Rightarrow> st1
            | Some pair \<Rightarrow> add_http_pair (Some pair) (st1\<lparr>seen_auth := seen_auth st1 + 1\<rparr>)))"

definition note_user_agent :: "line \<Rightarrow> seen \<Rightarrow> seen" where
  "note_user_agent l st =
     (if \<not> startswith (normalized l) (lit ''user-agent:'') then st
      else
        (let agent = strip (after_colon (raw_line l)) in
         if agent = [] then st
         else
           (let st1 = st\<lparr>seen_agents := seen_agents st @ [agent]\<rparr> in
            if re_search scanner_user_agent_re (lower agent) then st1\<lparr>seen_scanner := True\<rparr> else st1)))"

definition is_credential_line :: "line \<Rightarrow> bool" where
  "is_credential_line l \<longleftrightarrow> is_login l \<or> is_password l"

definition is_plain_echo :: "line \<Rightarrow> bool" where
  "is_plain_echo l \<longleftrightarrow> line_name l \<in> set ECHO_COMMAND_NAMES \<and> \<not> re_search not_a_plain_echo_re (normalized l)"

definition note_shell_activity :: "line \<Rightarrow> seen \<Rightarrow> seen" where
  "note_shell_activity l st =
     (if is_credential_line l then st
      else st\<lparr>seen_fetch := seen_fetch st \<or> re_search remote_fetch_re (normalized l),
              seen_run := seen_run st \<or> re_search run_fetched_re (normalized l),
              seen_keys := seen_keys st \<or> re_search authorized_keys_write_re (normalized l),
              seen_binary := seen_binary st \<or> re_search system_binary_read_re (normalized l),
              seen_echo := seen_echo st \<or> is_plain_echo l,
              seen_other := seen_other st \<or> (\<not> is_plain_echo l \<and> line_name l \<notin> set EXIT_COMMANDS)\<rparr>)"

definition note_counts :: "str \<Rightarrow> line \<Rightarrow> seen \<Rightarrow> seen" where
  "note_counts protocol l st =
     (let sensitive = list_ex is_sensitive_path (line_args l);
          is_cat = (line_name l = lit ''cat'');
          is_request = (protocol = lit ''http'' \<and> line_name l \<in> set HTTP_REQUEST_COMMANDS)
      in st\<lparr>seen_discovery := seen_discovery st + of_bool (line_name l \<in> set DISCOVERY_COMMANDS),
            seen_reads := seen_reads st + of_bool is_cat,
            seen_sensitive := seen_sensitive st + of_bool ((is_cat \<or> is_request) \<and> sensitive),
            seen_exit := seen_exit st \<or> line_name l \<in> set EXIT_COMMANDS\<rparr>)"

definition observe_line :: "str \<Rightarrow> line \<Rightarrow> seen \<Rightarrow> seen" where
  "observe_line protocol l st =
     (let st1 = note_credentials protocol l (note_auth_attempt l (st\<lparr>seen_names := seen_names st @ [line_name l]\<rparr>));
          st2 = (if protocol = lit ''http''
                 then note_user_agent l (note_authorization l (note_http_request l (note_http_path l st1)))
                 else st1)
      in note_counts protocol l (note_shell_activity l st2))"

definition observe :: "str \<Rightarrow> command_event \<Rightarrow> seen \<Rightarrow> seen" where
  "observe protocol event st = observe_line protocol (line_of (ev_cmd event)) st"

definition observe_all :: "str \<Rightarrow> command_event list \<Rightarrow> seen" where
  "observe_all protocol events = fold (observe protocol) events nothing_seen"

section \<open>The features\<close>

record session_features =
  sf_session_id :: str
  sf_protocol :: str
  sf_persona_id :: str
  sf_end_reason :: str
  sf_duration_seconds :: rat
  sf_command_count :: int
  sf_commands_per_minute :: rat
  sf_unique_command_count :: int
  sf_repeated_command_count :: int
  sf_discovery_command_count :: int
  sf_file_read_count :: int
  sf_sensitive_file_read_count :: int
  sf_decoy_files_surfaced :: "str list"
  sf_decoy_files_surfaced_count :: int
  sf_exit_command_present :: bool
  sf_intervals :: "rat list"
  sf_average_interval :: "rat option"
  sf_human_timing_score :: "rat option"
  sf_command_names :: "str list"
  sf_auth_attempt_count :: int
  sf_telnet_credentials_tried :: "str list"
  sf_ssh_credentials_tried :: "str list"
  sf_ftp_credentials_tried :: "str list"
  sf_ftp_other_protocol_probe :: bool
  sf_http_credentials_tried :: "str list"
  sf_http_paths_requested :: "str list"
  sf_http_user_agents :: "str list"
  sf_http_known_scanner_user_agent :: bool
  sf_http_command_injection_attempt :: bool
  sf_http_path_traversal_attempt :: bool
  sf_http_proxy_request :: bool
  sf_http_probe_targets :: "str list"
  sf_http_auth_schemes :: "str list"
  sf_remote_fetch_and_run_attempt :: bool
  sf_authorized_keys_write_attempt :: bool
  sf_system_binary_read_attempt :: bool
  sf_login_check_only :: bool
  sf_connection_count_from_same_ip :: "int option"

fun intervals :: "command_event list \<Rightarrow> rat list" where
  "intervals (a # b # events) = (ev_time b - ev_time a) # intervals (b # events)"
| "intervals _ = []"

definition average :: "rat list \<Rightarrow> rat option" where
  "average xs = (if xs = [] then None else Some (sum_list xs / of_nat (length xs)))"

definition extract_session_features :: "session_record \<Rightarrow> int option \<Rightarrow> session_features" where
  "extract_session_features r connection_count =
     (let st = observe_all (rec_protocol r) (rec_commands r);
          gaps = intervals (rec_commands r);
          unique = int (length (remdups (seen_names st)))
      in \<lparr>sf_session_id = rec_session_id r, sf_protocol = rec_protocol r, sf_persona_id = rec_persona_id r,
          sf_end_reason = rec_end_reason r, sf_duration_seconds = rec_duration_seconds r,
          sf_command_count = rec_command_count r,
          sf_commands_per_minute = commands_per_minute (rec_command_count r) (rec_duration_seconds r),
          sf_unique_command_count = unique, sf_repeated_command_count = rec_command_count r - unique,
          sf_discovery_command_count = int (seen_discovery st), sf_file_read_count = int (seen_reads st),
          sf_sensitive_file_read_count = int (seen_sensitive st),
          sf_decoy_files_surfaced = rec_decoy_files_surfaced r,
          sf_decoy_files_surfaced_count = int (length (rec_decoy_files_surfaced r)),
          sf_exit_command_present = seen_exit st,
          sf_intervals = gaps, sf_average_interval = average gaps,
          sf_human_timing_score = human_timing_score (average gaps),
          sf_command_names = seen_names st, sf_auth_attempt_count = int (seen_auth st),
          sf_telnet_credentials_tried = seen_telnet st, sf_ssh_credentials_tried = seen_ssh st,
          sf_ftp_credentials_tried = seen_ftp st, sf_ftp_other_protocol_probe = seen_ftp_other st,
          sf_http_credentials_tried = seen_http st, sf_http_paths_requested = seen_paths st,
          sf_http_user_agents = seen_agents st, sf_http_known_scanner_user_agent = seen_scanner st,
          sf_http_command_injection_attempt = seen_injection st, sf_http_path_traversal_attempt = seen_traversal st,
          sf_http_proxy_request = seen_proxy st, sf_http_probe_targets = seen_probes st,
          sf_http_auth_schemes = seen_schemes st,
          sf_remote_fetch_and_run_attempt = (seen_fetch st \<and> seen_run st),
          sf_authorized_keys_write_attempt = seen_keys st, sf_system_binary_read_attempt = seen_binary st,
          sf_login_check_only = (seen_ssh st \<noteq> [] \<and> seen_echo st \<and> \<not> seen_other st),
          sf_connection_count_from_same_ip = connection_count\<rparr>)"

end
