(* ===== verification/FeatureProps.thy ===== *)
theory FeatureProps
  imports Features
begin

text \<open>
  What the extracted features satisfy: the bounds the feature model declares, the flags as
  statements about single commands, the cadence of a session, and the pairing of login and
  password lines.
\<close>

section \<open>One pass\<close>

text \<open>Each block of the loop leaves the fields of the other blocks alone.\<close>

definition tallies :: "seen \<Rightarrow> (str list \<times> nat \<times> nat \<times> nat \<times> bool) \<times> bool \<times> bool \<times> bool \<times> bool \<times> bool \<times> bool" where
  "tallies st = ((seen_names st, seen_discovery st, seen_reads st, seen_sensitive st, seen_exit st),
     seen_fetch st, seen_run st, seen_keys st, seen_binary st, seen_echo st, seen_other st)"

lemma tallies_auth: "tallies (note_auth_attempt l st) = tallies st"
  by (simp add: note_auth_attempt_def tallies_def)

lemma tallies_pair: "tallies (add_http_pair p st) = tallies st"
  by (simp add: add_http_pair_def tallies_def split: option.split)

lemma tallies_telnet: "tallies (note_telnet l st) = tallies st"
  by (simp add: note_telnet_def tallies_def split: option.split)

lemma tallies_ssh: "tallies (note_ssh l st) = tallies st"
  by (simp add: note_ssh_def tallies_def split: option.split)

lemma tallies_ftp: "tallies (note_ftp l st) = tallies st"
  by (simp add: note_ftp_def tallies_def Let_def split: option.split list.split)

lemma tallies_http_login: "tallies (note_http_login l st) = tallies st"
proof -
  have "tallies (st\<lparr>seen_auth := n\<rparr>) = tallies st" for n by (simp add: tallies_def)
  then show ?thesis by (simp add: note_http_login_def tallies_pair split: option.split prod.split)
qed

lemma tallies_credentials: "tallies (note_credentials p l st) = tallies st"
  by (simp add: note_credentials_def tallies_telnet tallies_ssh tallies_ftp tallies_http_login)

lemma tallies_path: "tallies (note_http_path l st) = tallies st"
  by (simp add: note_http_path_def tallies_def)

lemma tallies_request: "tallies (note_http_request l st) = tallies st"
  by (simp add: note_http_request_def tallies_def Let_def split: option.split)

lemma tallies_authorization: "tallies (note_authorization l st) = tallies st"
proof -
  have "tallies (st\<lparr>seen_auth := n\<rparr>) = tallies st" "tallies (st\<lparr>seen_schemes := xs\<rparr>) = tallies st" for n xs st
    by (simp_all add: tallies_def)
  then show ?thesis by (simp add: note_authorization_def tallies_pair Let_def split: option.split list.split)
qed

lemma tallies_agent: "tallies (note_user_agent l st) = tallies st"
  by (simp add: note_user_agent_def tallies_def Let_def)

definition before_shell :: "str \<Rightarrow> line \<Rightarrow> seen \<Rightarrow> seen" where
  "before_shell p l st =
     (let st1 = note_credentials p l (note_auth_attempt l (st\<lparr>seen_names := seen_names st @ [line_name l]\<rparr>)) in
      if p = lit ''http'' then note_user_agent l (note_authorization l (note_http_request l (note_http_path l st1)))
      else st1)"

lemma observe_line_split: "observe_line p l st = note_counts p l (note_shell_activity l (before_shell p l st))"
  by (simp add: observe_line_def before_shell_def Let_def)

lemma tallies_before_shell:
  "tallies (before_shell p l st) = tallies (st\<lparr>seen_names := seen_names st @ [line_name l]\<rparr>)"
  by (simp add: before_shell_def Let_def tallies_auth tallies_credentials tallies_path tallies_request
      tallies_authorization tallies_agent)

lemma before_shell_simps [simp]:
  "seen_names (before_shell p l st) = seen_names st @ [line_name l]"
  "seen_discovery (before_shell p l st) = seen_discovery st"
  "seen_reads (before_shell p l st) = seen_reads st"
  "seen_sensitive (before_shell p l st) = seen_sensitive st"
  "seen_exit (before_shell p l st) = seen_exit st"
  "seen_fetch (before_shell p l st) = seen_fetch st"
  "seen_run (before_shell p l st) = seen_run st"
  "seen_keys (before_shell p l st) = seen_keys st"
  "seen_binary (before_shell p l st) = seen_binary st"
  "seen_echo (before_shell p l st) = seen_echo st"
  "seen_other (before_shell p l st) = seen_other st"
  using tallies_before_shell [of p l st] by (simp_all add: tallies_def)

lemma observe_line_counts:
  "seen_names (observe_line p l st) = seen_names st @ [line_name l]"
  "seen_discovery st \<le> seen_discovery (observe_line p l st)
     \<and> seen_discovery (observe_line p l st) \<le> Suc (seen_discovery st)"
  "seen_reads (observe_line p l st) \<le> Suc (seen_reads st)"
  "seen_sensitive (observe_line p l st) \<le> Suc (seen_sensitive st)"
  by (simp_all add: observe_line_split Let_def note_counts_def note_shell_activity_def)

lemma observe_line_flags:
  "seen_fetch (observe_line p l st) \<longleftrightarrow>
     seen_fetch st \<or> (\<not> is_credential_line l \<and> re_search remote_fetch_re (normalized l))"
  "seen_run (observe_line p l st) \<longleftrightarrow>
     seen_run st \<or> (\<not> is_credential_line l \<and> re_search run_fetched_re (normalized l))"
  "seen_keys (observe_line p l st) \<longleftrightarrow>
     seen_keys st \<or> (\<not> is_credential_line l \<and> re_search authorized_keys_write_re (normalized l))"
  "seen_binary (observe_line p l st) \<longleftrightarrow>
     seen_binary st \<or> (\<not> is_credential_line l \<and> re_search system_binary_read_re (normalized l))"
  "seen_exit (observe_line p l st) \<longleftrightarrow> seen_exit st \<or> line_name l \<in> set EXIT_COMMANDS"
  "seen_echo (observe_line p l st) \<longleftrightarrow> seen_echo st \<or> (\<not> is_credential_line l \<and> is_plain_echo l)"
  "seen_other (observe_line p l st) \<longleftrightarrow>
     seen_other st \<or> (\<not> is_credential_line l \<and> \<not> is_plain_echo l \<and> line_name l \<notin> set EXIT_COMMANDS)"
  by (auto simp: observe_line_split Let_def note_counts_def note_shell_activity_def)

lemma fold_observe_counts:
  "seen_names (fold (observe p) es st) = seen_names st @ map (line_name \<circ> line_of \<circ> ev_cmd) es
   \<and> seen_discovery (fold (observe p) es st) \<le> seen_discovery st + length es
   \<and> seen_reads (fold (observe p) es st) \<le> seen_reads st + length es
   \<and> seen_sensitive (fold (observe p) es st) \<le> seen_sensitive st + length es"
proof (induction es arbitrary: st)
  case (Cons e es)
  show ?case
    using Cons.IH [of "observe p e st"] observe_line_counts [where p = p and l = "line_of (ev_cmd e)" and st = st]
    by (auto simp: observe_def)
qed simp

text \<open>A flag of the pass is a statement about some command of the session.\<close>

lemma fold_observe_flag:
  assumes "\<And>l st. flag (observe_line p l st) \<longleftrightarrow> flag st \<or> Q l"
  shows "flag (fold (observe p) es st) \<longleftrightarrow> flag st \<or> (\<exists>e \<in> set es. Q (line_of (ev_cmd e)))"
  by (induction es arbitrary: st) (auto simp: observe_def assms)

section \<open>Bounds\<close>

lemma round_half_even_bounds:
  assumes "of_int a \<le> x" "x \<le> of_int b"
  shows "a \<le> round_half_even x \<and> round_half_even x \<le> b"
proof -
  have fl: "a \<le> \<lfloor>x\<rfloor>" using assms(1) by (simp add: le_floor_iff)
  have "\<lfloor>x\<rfloor> \<le> b" using assms(2) by (metis floor_mono floor_of_int)
  moreover have "x - of_int \<lfloor>x\<rfloor> = 0" if "\<lfloor>x\<rfloor> = b"
    using that assms(2) of_int_floor_le [of x] by simp
  ultimately have "\<lfloor>x\<rfloor> = b \<and> x - of_int \<lfloor>x\<rfloor> = 0 \<or> \<lfloor>x\<rfloor> + 1 \<le> b" by (cases "\<lfloor>x\<rfloor> = b") auto
  then show ?thesis
    using fl by (auto simp: round_half_even_def Let_def)
qed

lemma round_2_bounds: "0 \<le> x \<Longrightarrow> x \<le> 1 \<Longrightarrow> 0 \<le> round_2 x \<and> round_2 x \<le> 1"
  using round_half_even_bounds [of 0 "x * 100" 100]
  by (simp add: round_2_def)

lemma human_timing_score_bounds: "human_timing_score a = Some x \<Longrightarrow> 0 \<le> x \<and> x \<le> 1"
  by (auto simp: human_timing_score_def Let_def split: option.splits intro!: round_2_bounds [THEN conjunct1]
      round_2_bounds [THEN conjunct2])

lemma length_intervals: "length (intervals es) = length es - 1"
  by (induction es rule: intervals.induct) auto

lemma intervals_nonnegative: "sorted (map ev_time es) \<Longrightarrow> list_all (\<lambda>x. 0 \<le> x) (intervals es)"
  by (induction es rule: intervals.induct) auto

text \<open>The constraints the feature model declares on its fields, and what they leave implicit:
  the counts are counts of commands.\<close>

definition features_ok :: "session_features \<Rightarrow> bool" where
  "features_ok f \<longleftrightarrow>
     0 \<le> sf_duration_seconds f \<and> 0 \<le> sf_commands_per_minute f
     \<and> 0 \<le> sf_unique_command_count f \<and> 0 \<le> sf_repeated_command_count f
     \<and> sf_unique_command_count f + sf_repeated_command_count f = sf_command_count f
     \<and> 0 \<le> sf_discovery_command_count f \<and> sf_discovery_command_count f \<le> sf_command_count f
     \<and> 0 \<le> sf_file_read_count f \<and> sf_file_read_count f \<le> sf_command_count f
     \<and> 0 \<le> sf_sensitive_file_read_count f \<and> sf_sensitive_file_read_count f \<le> sf_command_count f
     \<and> list_all (\<lambda>x. 0 \<le> x) (sf_intervals f) \<and> length (sf_intervals f) = nat (sf_command_count f) - 1
     \<and> opt_all (\<lambda>x. 0 \<le> x \<and> x \<le> 1) (sf_human_timing_score f)
     \<and> int (length (sf_command_names f)) = sf_command_count f
     \<and> 0 \<le> sf_auth_attempt_count f"

lemma commands_per_minute_nonnegative: "0 \<le> n \<Longrightarrow> 0 \<le> commands_per_minute n d"
  by (simp add: commands_per_minute_def)

text \<open>every record the schema accepts yields features within the bounds the feature model
  declares, so extracting features from a stored session never fails its own validation.\<close>

theorem extracted_features_ok:
  assumes "model_validate ip_ok uuid_ok r = Done r"
  shows "features_ok (extract_session_features r connection_count)"
proof -
  have valid: "fields_valid ip_ok uuid_ok r" "record_consistent r"
    using assms by (simp_all add: model_validate_iff)
  define st where "st = observe_all (rec_protocol r) (rec_commands r)"
  have count: "rec_command_count r = int (length (rec_commands r))"
    and sorted: "sorted (map ev_time (rec_commands r))"
    using valid(2) by (simp_all add: record_consistent_def times_ordered_def)
  have seen: "length (seen_names st) = length (rec_commands r)" "seen_discovery st \<le> length (rec_commands r)"
    "seen_reads st \<le> length (rec_commands r)" "seen_sensitive st \<le> length (rec_commands r)"
    using fold_observe_counts [of "rec_protocol r" "rec_commands r" nothing_seen]
    by (simp_all add: st_def observe_all_def nothing_seen_def)
  have unique: "length (remdups (seen_names st)) \<le> length (rec_commands r)"
    using length_remdups_leq [of "seen_names st"] seen(1) by simp
  have timing: "opt_all (\<lambda>x. 0 \<le> x \<and> x \<le> 1) (human_timing_score a)" for a
    using human_timing_score_bounds [of a] by (cases "human_timing_score a") auto
  have "0 \<le> rec_duration_seconds r" using valid(1) by (simp add: fields_valid_def)
  then show ?thesis
    using seen unique count timing intervals_nonnegative [OF sorted]
    by (simp add: features_ok_def extract_session_features_def Let_def st_def [symmetric] length_intervals
        commands_per_minute_nonnegative)
qed

section \<open>Flags\<close>

text \<open>a session is flagged for fetching and running a program exactly when some command
  fetches and some command runs or arms what was fetched, in either order; lines that carry
  credentials do not count.\<close>

theorem fetch_and_run_flag:
  "sf_remote_fetch_and_run_attempt (extract_session_features r n) \<longleftrightarrow>
     (\<exists>e \<in> set (rec_commands r). \<not> is_credential_line (line_of (ev_cmd e))
        \<and> re_search remote_fetch_re (lower (strip (ev_cmd e))))
     \<and> (\<exists>e \<in> set (rec_commands r). \<not> is_credential_line (line_of (ev_cmd e))
        \<and> re_search run_fetched_re (lower (strip (ev_cmd e))))"
proof -
  have norm: "normalized (line_of c) = lower (strip c)" for c by (simp add: line_of_def split: prod.split)
  show ?thesis
    unfolding extract_session_features_def Let_def observe_all_def
    using fold_observe_flag [OF observe_line_flags(1), of "rec_protocol r" "rec_commands r" nothing_seen]
      fold_observe_flag [OF observe_line_flags(2), of "rec_protocol r" "rec_commands r" nothing_seen]
    by (simp add: norm nothing_seen_def)
qed

section \<open>Cadence\<close>

lemma sum_intervals: "es \<noteq> [] \<Longrightarrow> sum_list (intervals es) = ev_time (last es) - ev_time (hd es)"
  by (induction es rule: intervals.induct) auto

text \<open>the average interval between commands is the time from the first command to the last
  over the number of gaps, and there is none for fewer than two commands.\<close>

theorem average_interval_telescopes:
  "sf_average_interval (extract_session_features r n) =
     (if length (rec_commands r) < 2 then None
      else Some ((ev_time (last (rec_commands r)) - ev_time (hd (rec_commands r)))
                 / of_nat (length (rec_commands r) - 1)))"
proof (cases "length (rec_commands r) < 2")
  case True
  then have "intervals (rec_commands r) = []"
    using length_intervals [of "rec_commands r"] by simp
  then show ?thesis using True by (simp add: extract_session_features_def Let_def average_def)
next
  case False
  then have "rec_commands r \<noteq> []" "intervals (rec_commands r) \<noteq> []"
    using length_intervals [of "rec_commands r"] by auto
  then show ?thesis
    using False sum_intervals [of "rec_commands r"]
    by (simp add: extract_session_features_def Let_def average_def length_intervals)
qed

section \<open>Credentials\<close>

lemma rstrip_append: "s \<noteq> [] \<Longrightarrow> \<not> f (last s) \<Longrightarrow> rstrip_if f (s @ t) = s @ rstrip_if f t"
proof (induction t rule: rev_induct)
  case Nil
  then show ?case by (cases s rule: rev_cases) (auto simp: rstrip_if_def)
next
  case (snoc c t)
  then show ?case by (auto simp: rstrip_if_def)
qed

lemma strip_prefix:
  assumes "s \<noteq> []" "\<not> is_space (hd s)" "\<not> is_space (last s)"
  shows "strip (s @ t) = s @ rstrip_if is_space t"
proof -
  have "dropWhile is_space (s @ t) = s @ t" using assms(1,2) by (cases s) auto
  then show ?thesis using rstrip_append [of s is_space t] assms by (simp add: strip_def strip_if_def lstrip_if_def)
qed

lemma lower_append: "lower (s @ t) = lower s @ lower t"
  by (simp add: lower_def)

lemma strip_space: "strip (space # t) = strip t"
  by (simp add: strip_def strip_if_def lstrip_if_def is_space_def)

definition login_line :: "str \<Rightarrow> str" where
  "login_line u = lit ''login: '' @ u"

definition password_line :: "str \<Rightarrow> str" where
  "password_line p = lit ''password: '' @ p"

lemma credential_literals:
  "lit ''login: '' = lit ''login:'' @ [space]" "lit ''password: '' = lit ''password:'' @ [space]"
  "lower (lit ''login:'') = lit ''login:''" "lower (lit ''password:'') = lit ''password:''"
  "partition_at colon (lit ''login: '' @ t) = (lit ''login'', Some (space # t))"
  "partition_at colon (lit ''password: '' @ t) = (lit ''password'', Some (space # t))"
proof -
  have "lit ''login: '' = [108, 111, 103, 105, 110, 58, 32]" "lit ''login'' = [108, 111, 103, 105, 110]"
    "lit ''password: '' = [112, 97, 115, 115, 119, 111, 114, 100, 58, 32]"
    "lit ''password'' = [112, 97, 115, 115, 119, 111, 114, 100]"
    by code_simp+
  then show "partition_at colon (lit ''login: '' @ t) = (lit ''login'', Some (space # t))"
    "partition_at colon (lit ''password: '' @ t) = (lit ''password'', Some (space # t))"
    by simp_all
qed code_simp+

lemma other_credential_prefix:
  "\<not> startswith (lit ''login:'' @ t) (lit ''password:'')" "\<not> startswith (lit ''password:'' @ t) (lit ''login:'')"
proof -
  have "lit ''login:'' = [108, 111, 103, 105, 110, 58]" "lit ''password:'' = [112, 97, 115, 115, 119, 111, 114, 100, 58]"
    by code_simp+
  then show "\<not> startswith (lit ''login:'' @ t) (lit ''password:'')" "\<not> startswith (lit ''password:'' @ t) (lit ''login:'')"
    by (simp_all add: startswith_def)
qed

lemma login_line_of:
  "is_login (line_of (login_line u))" "\<not> is_password (line_of (login_line u))"
  "line_value (line_of (login_line u)) = lower (strip u)"
proof -
  have strip: "strip (login_line u) = lit ''login:'' @ rstrip_if is_space (space # u)"
  proof -
    have "lit ''login:'' \<noteq> []" "\<not> is_space (hd (lit ''login:''))" "\<not> is_space (last (lit ''login:''))" by code_simp+
    then show ?thesis
      using strip_prefix [of "lit ''login:''" "space # u"] by (simp add: login_line_def credential_literals(1))
  qed
  have norm: "normalized (line_of (login_line u)) = lit ''login:'' @ lower (rstrip_if is_space (space # u))"
    by (simp add: line_of_def strip lower_append credential_literals split: prod.split)
  then show "is_login (line_of (login_line u))" by (simp add: is_login_def)
  show "\<not> is_password (line_of (login_line u))"
    by (simp add: is_password_def norm other_credential_prefix)
  show "line_value (line_of (login_line u)) = lower (strip u)"
    by (simp add: line_value_def line_of_def after_colon_def login_line_def credential_literals(5) strip_space split: prod.split)
qed

lemma password_line_of:
  "is_password (line_of (password_line p))" "\<not> is_login (line_of (password_line p))"
  "line_value (line_of (password_line p)) = lower (strip p)"
proof -
  have strip: "strip (password_line p) = lit ''password:'' @ rstrip_if is_space (space # p)"
  proof -
    have "lit ''password:'' \<noteq> []" "\<not> is_space (hd (lit ''password:''))" "\<not> is_space (last (lit ''password:''))" by code_simp+
    then show ?thesis
      using strip_prefix [of "lit ''password:''" "space # p"] by (simp add: password_line_def credential_literals(2))
  qed
  have norm: "normalized (line_of (password_line p)) = lit ''password:'' @ lower (rstrip_if is_space (space # p))"
    by (simp add: line_of_def strip lower_append credential_literals split: prod.split)
  then show "is_password (line_of (password_line p))" by (simp add: is_password_def)
  show "\<not> is_login (line_of (password_line p))"
    by (simp add: is_login_def norm other_credential_prefix)
  show "line_value (line_of (password_line p)) = lower (strip p)"
    by (simp add: line_value_def line_of_def after_colon_def password_line_def credential_literals(6) strip_space split: prod.split)
qed

lemma observe_ssh:
  "seen_ssh (observe_line (lit ''tcp_shell'') l st) = seen_ssh (note_ssh l st)"
  "pending_ssh (observe_line (lit ''tcp_shell'') l st) = pending_ssh (note_ssh l st)"
proof -
  let ?st = "note_auth_attempt l (st\<lparr>seen_names := seen_names st @ [line_name l]\<rparr>)"
  have protocol: "lit ''tcp_shell'' \<noteq> lit ''telnet''" "lit ''tcp_shell'' \<noteq> lit ''http''" by code_simp+
  have "seen_ssh ?st = seen_ssh st" "pending_ssh ?st = pending_ssh st" by (simp_all add: note_auth_attempt_def)
  then have "seen_ssh (note_ssh l ?st) = seen_ssh (note_ssh l st)"
    "pending_ssh (note_ssh l ?st) = pending_ssh (note_ssh l st)"
    by (simp_all add: note_ssh_def split: option.split)
  then show "seen_ssh (observe_line (lit ''tcp_shell'') l st) = seen_ssh (note_ssh l st)"
    "pending_ssh (observe_line (lit ''tcp_shell'') l st) = pending_ssh (note_ssh l st)"
    using protocol by (simp_all add: observe_line_def Let_def note_counts_def note_shell_activity_def note_credentials_def)
qed

lemma fold_observe_login_pairs:
  "seen_ssh (fold (observe (lit ''tcp_shell''))
      (concat (map (\<lambda>(t, u, p). [\<lparr>ev_cmd = login_line u, ev_time = t\<rparr>, \<lparr>ev_cmd = password_line p, ev_time = t\<rparr>]) tries)) st)
     = seen_ssh st @ map (\<lambda>(t, u, p). lower (strip u) @ lit '':'' @ lower (strip p)) tries"
proof (induction tries arbitrary: st)
  case (Cons attempt tries)
  obtain t u p where "attempt = (t, u, p)" by (cases attempt)
  then show ?case
    using Cons.IH login_line_of [of u] password_line_of [of p]
    by (simp add: observe_def observe_ssh note_ssh_def)
qed simp

text \<open>the SSH password gate's log is read back exactly: from the lines \<open>login: u\<close> and
  \<open>password: p\<close> of each attempt the extractor collects the pairs \<open>u:p\<close>, stripped and in
  lower case, in order.\<close>

theorem ssh_attempts_read_back:
  assumes "rec_protocol r = lit ''tcp_shell''"
    and "rec_commands r =
      concat (map (\<lambda>(t, u, p). [\<lparr>ev_cmd = login_line u, ev_time = t\<rparr>, \<lparr>ev_cmd = password_line p, ev_time = t\<rparr>]) tries)"
  shows "sf_ssh_credentials_tried (extract_session_features r n) =
     map (\<lambda>(t, u, p). lower (strip u) @ lit '':'' @ lower (strip p)) tries"
  using fold_observe_login_pairs [of tries nothing_seen] assms
  by (simp add: extract_session_features_def Let_def observe_all_def nothing_seen_def)

section \<open>A record to try the properties on\<close>

definition ssh_record :: session_record where
  "ssh_record = \<lparr>rec_schema_version = 1, rec_session_id = lit ''s1'', rec_protocol = lit ''tcp_shell'',
     rec_peer_ip = Some (lit ''198.51.100.7''), rec_peer_port = Some 50022, rec_latitude = None, rec_longitude = None,
     rec_persona_id = lit ''generic_linux'', rec_started_at = 100, rec_ended_at = 110, rec_duration_seconds = 10,
     rec_end_reason = lit ''logout'', rec_command_count = 2,
     rec_commands = [\<lparr>ev_cmd = login_line (lit ''Root''), ev_time = 101\<rparr>,
       \<lparr>ev_cmd = password_line (lit ''admin''), ev_time = 101\<rparr>],
     rec_decoy_files_surfaced = [], rec_client_version = None, rec_end_stage = None, rec_end_error = None\<rparr>"

lemma ssh_record_valid: "model_validate (\<lambda>_. True) (\<lambda>_. True) ssh_record = Done ssh_record"
  by code_simp

theorem extracted_features_ok_witness: "features_ok (extract_session_features ssh_record None)"
  by (rule extracted_features_ok) (rule ssh_record_valid)

theorem ssh_attempts_read_back_witness:
  "sf_ssh_credentials_tried (extract_session_features ssh_record None) = [lit ''root:admin'']"
proof -
  have "sf_ssh_credentials_tried (extract_session_features ssh_record None) =
      map (\<lambda>(t, u, p). lower (strip u) @ lit '':'' @ lower (strip p)) [(101 :: rat, lit ''Root'', lit ''admin'')]"
    by (rule ssh_attempts_read_back) (simp_all add: ssh_record_def)
  moreover have "lower (strip (lit ''Root'')) @ lit '':'' @ lower (strip (lit ''admin'')) = lit ''root:admin''" by code_simp
  ultimately show ?thesis by simp
qed

end
