(* ===== verification/Rules.thy ===== *)
theory Rules
  imports FeatureProps
begin

text \<open>
  \<open>classifier/rules/engine.py\<close>: the conditions of a rule on a feature vector, which rules
  match, and the best match. A condition names a feature and compares it with a value from
  the rules file, so features and rule values share the type \<open>pyval\<close>, on which equality and
  order are Python's. A rule value is a scalar or a list; mappings and dates, which a rules
  file could also hold, are not modelled. Reading the file (\<open>yaml\<close>) is outside.
\<close>

section \<open>Values\<close>

datatype pyval =
    VNone
  | VBool bool
  | VNum rat
  | VStr str
  | VUuid str
  | VList "pyval list"

fun as_number :: "pyval \<Rightarrow> rat option" where
  "as_number (VBool b) = Some (of_bool b)"
| "as_number (VNum x) = Some x"
| "as_number _ = None"

text \<open>\<open>a == b\<close>: booleans are numbers, lists compare element by element.\<close>

fun py_eq :: "pyval \<Rightarrow> pyval \<Rightarrow> bool" and py_eq_lists :: "pyval list \<Rightarrow> pyval list \<Rightarrow> bool" where
  "py_eq VNone v = (v = VNone)"
| "py_eq (VBool b) v = (as_number v = Some (of_bool b))"
| "py_eq (VNum x) v = (as_number v = Some x)"
| "py_eq (VStr s) v = (v = VStr s)"
| "py_eq (VUuid u) v = (v = VUuid u)"
| "py_eq (VList xs) v = (case v of VList ys \<Rightarrow> py_eq_lists xs ys | _ \<Rightarrow> False)"
| "py_eq_lists [] ys = (ys = [])"
| "py_eq_lists (x # xs) ys = (case ys of [] \<Rightarrow> False | y # ys' \<Rightarrow> py_eq x y \<and> py_eq_lists xs ys')"

fun text_less :: "str \<Rightarrow> str \<Rightarrow> bool" where
  "text_less s [] = False"
| "text_less [] (d # t) = True"
| "text_less (c # s) (d # t) = (c < d \<or> (c = d \<and> text_less s t))"

text \<open>\<open>a < b\<close>: \<open>None\<close> stands for \<open>TypeError\<close>. Two lists compare at the first position where
  they differ.\<close>

fun py_less :: "pyval \<Rightarrow> pyval \<Rightarrow> bool option" and py_less_lists :: "pyval list \<Rightarrow> pyval list \<Rightarrow> bool option" where
  "py_less (VStr s) v = (case v of VStr t \<Rightarrow> Some (text_less s t) | _ \<Rightarrow> None)"
| "py_less (VUuid s) v = (case v of VUuid t \<Rightarrow> Some (text_less s t) | _ \<Rightarrow> None)"
| "py_less (VList xs) v = (case v of VList ys \<Rightarrow> py_less_lists xs ys | _ \<Rightarrow> None)"
| "py_less VNone v = None"
| "py_less (VBool b) v = map_option (\<lambda>y. of_bool b < y) (as_number v)"
| "py_less (VNum x) v = map_option (\<lambda>y. x < y) (as_number v)"
| "py_less_lists xs [] = Some False"
| "py_less_lists [] (y # ys) = Some True"
| "py_less_lists (x # xs) (y # ys) = (if py_eq x y then py_less_lists xs ys else py_less x y)"

section \<open>Rules\<close>

datatype actor_label =
    Automated_Scanner | Brute_Force_Bot | Commodity_Bot | Script_Kiddie | Skilled_Human_Operator

definition ACTOR_LABELS :: "actor_label list" where
  "ACTOR_LABELS = [Automated_Scanner, Brute_Force_Bot, Commodity_Bot, Script_Kiddie, Skilled_Human_Operator]"

fun actor_name :: "actor_label \<Rightarrow> str" where
  "actor_name Automated_Scanner = lit ''automated_scanner''"
| "actor_name Brute_Force_Bot = lit ''brute_force_bot''"
| "actor_name Commodity_Bot = lit ''commodity_bot''"
| "actor_name Script_Kiddie = lit ''script_kiddie''"
| "actor_name Skilled_Human_Operator = lit ''skilled_human_operator''"

datatype rule_operator =
    Contains | Contains_Any | Equals | Gt | Gte | In | Lt | Lte | Not_Equals

record rule_condition =
  cond_field :: str
  cond_operator :: rule_operator
  cond_value :: pyval

record classification_rule =
  rule_id :: str
  rule_name :: str
  rule_actor :: actor_label
  rule_confidence :: rat
  rule_risk :: int
  rule_tags :: "str list"
  rule_evidence :: "str list"
  rule_conditions :: "rule_condition list"

record rule_set =
  rules_version :: str
  rules :: "classification_rule list"

record rule_match =
  match_rule_id :: str
  match_name :: str
  match_actor :: actor_label
  match_confidence :: rat
  match_risk :: int
  match_tags :: "str list"
  match_evidence :: "str list"

record rule_evaluation =
  eval_version :: str
  matched_rules :: "rule_match list"

fun is_non_string_iterable :: "pyval \<Rightarrow> bool" where
  "is_non_string_iterable (VList xs) = True"
| "is_non_string_iterable _ = False"

text \<open>The validators of the rules file's models.\<close>

definition condition_ok :: "rule_condition \<Rightarrow> bool" where
  "condition_ok c \<longleftrightarrow> cond_field c \<noteq> []
     \<and> (cond_operator c \<in> {In, Contains_Any} \<longrightarrow> is_non_string_iterable (cond_value c))"

definition rule_ok :: "classification_rule \<Rightarrow> bool" where
  "rule_ok r \<longleftrightarrow> rule_id r \<noteq> [] \<and> rule_name r \<noteq> []
     \<and> 0 \<le> rule_confidence r \<and> rule_confidence r \<le> 1 \<and> 0 \<le> rule_risk r \<and> rule_risk r \<le> 100
     \<and> list_all (\<lambda>t. strip t \<noteq> []) (rule_tags r) \<and> list_all (\<lambda>t. strip t \<noteq> []) (rule_evidence r)
     \<and> rule_conditions r \<noteq> [] \<and> list_all condition_ok (rule_conditions r)"

definition rule_set_ok :: "rule_set \<Rightarrow> bool" where
  "rule_set_ok rs \<longleftrightarrow> rules rs \<noteq> [] \<and> list_all rule_ok (rules rs) \<and> distinct (map rule_id (rules rs))"

section \<open>Conditions\<close>

definition opt_val :: "('a \<Rightarrow> pyval) \<Rightarrow> 'a option \<Rightarrow> pyval" where
  "opt_val f x = (case x of None \<Rightarrow> VNone | Some v \<Rightarrow> f v)"

definition str_list :: "str list \<Rightarrow> pyval" where
  "str_list xs = VList (map VStr xs)"

text \<open>\<open>getattr(features, name)\<close> over the fields of the feature model.\<close>

definition feature_values :: "session_features \<Rightarrow> (str \<times> pyval) list" where
  "feature_values f =
     [(lit ''session_id'', VUuid (sf_session_id f)), (lit ''protocol'', VStr (sf_protocol f)),
      (lit ''persona_id'', VStr (sf_persona_id f)), (lit ''end_reason'', VStr (sf_end_reason f)),
      (lit ''duration_seconds'', VNum (sf_duration_seconds f)),
      (lit ''command_count'', VNum (of_int (sf_command_count f))),
      (lit ''commands_per_minute'', VNum (sf_commands_per_minute f)),
      (lit ''unique_command_count'', VNum (of_int (sf_unique_command_count f))),
      (lit ''repeated_command_count'', VNum (of_int (sf_repeated_command_count f))),
      (lit ''discovery_command_count'', VNum (of_int (sf_discovery_command_count f))),
      (lit ''file_read_count'', VNum (of_int (sf_file_read_count f))),
      (lit ''sensitive_file_read_count'', VNum (of_int (sf_sensitive_file_read_count f))),
      (lit ''decoy_files_surfaced'', str_list (sf_decoy_files_surfaced f)),
      (lit ''decoy_files_surfaced_count'', VNum (of_int (sf_decoy_files_surfaced_count f))),
      (lit ''exit_command_present'', VBool (sf_exit_command_present f)),
      (lit ''inter_command_intervals_seconds'', VList (map VNum (sf_intervals f))),
      (lit ''average_inter_command_interval_seconds'', opt_val VNum (sf_average_interval f)),
      (lit ''human_timing_score'', opt_val VNum (sf_human_timing_score f)),
      (lit ''command_names'', str_list (sf_command_names f)),
      (lit ''auth_attempt_count'', VNum (of_int (sf_auth_attempt_count f))),
      (lit ''telnet_credentials_tried'', str_list (sf_telnet_credentials_tried f)),
      (lit ''ssh_credentials_tried'', str_list (sf_ssh_credentials_tried f)),
      (lit ''ftp_credentials_tried'', str_list (sf_ftp_credentials_tried f)),
      (lit ''ftp_other_protocol_probe'', VBool (sf_ftp_other_protocol_probe f)),
      (lit ''http_credentials_tried'', str_list (sf_http_credentials_tried f)),
      (lit ''http_paths_requested'', str_list (sf_http_paths_requested f)),
      (lit ''http_user_agents'', str_list (sf_http_user_agents f)),
      (lit ''http_known_scanner_user_agent'', VBool (sf_http_known_scanner_user_agent f)),
      (lit ''http_command_injection_attempt'', VBool (sf_http_command_injection_attempt f)),
      (lit ''http_path_traversal_attempt'', VBool (sf_http_path_traversal_attempt f)),
      (lit ''http_proxy_request'', VBool (sf_http_proxy_request f)),
      (lit ''http_probe_targets'', str_list (sf_http_probe_targets f)),
      (lit ''http_auth_schemes'', str_list (sf_http_auth_schemes f)),
      (lit ''remote_fetch_and_run_attempt'', VBool (sf_remote_fetch_and_run_attempt f)),
      (lit ''authorized_keys_write_attempt'', VBool (sf_authorized_keys_write_attempt f)),
      (lit ''system_binary_read_attempt'', VBool (sf_system_binary_read_attempt f)),
      (lit ''login_check_only'', VBool (sf_login_check_only f)),
      (lit ''connection_count_from_same_ip'', opt_val (\<lambda>n. VNum (of_int n)) (sf_connection_count_from_same_ip f))]"

definition elements :: "pyval \<Rightarrow> pyval list" where
  "elements v = (case v of VList xs \<Rightarrow> xs | _ \<Rightarrow> [])"

definition compared :: "bool option \<Rightarrow> bool outcome" where
  "compared r = (case r of Some b \<Rightarrow> Done b | None \<Rightarrow> Raised TypeError)"

text \<open>\<open>not None and actual > expected\<close> and its relatives; \<open>>=\<close> holds when it is greater or equal.\<close>

definition at_least :: "pyval \<Rightarrow> pyval \<Rightarrow> bool option" where
  "at_least actual expected = map_option (\<lambda>less. less \<or> py_eq expected actual) (py_less expected actual)"

definition unless_none :: "pyval \<Rightarrow> bool option \<Rightarrow> bool outcome" where
  "unless_none actual r = (if actual = VNone then Done False else compared r)"

definition condition_matches :: "session_features \<Rightarrow> rule_condition \<Rightarrow> bool outcome" where
  "condition_matches f c =
     (case dict_get (feature_values f) (cond_field c) of
        None \<Rightarrow> Raised (ValueError (lit ''Unknown feature field: '' @ cond_field c))
      | Some actual \<Rightarrow>
          (let expected = cond_value c;
               not_iterable = Raised (ValueError (lit ''Feature field is not iterable: '' @ cond_field c))
           in case cond_operator c of
                Contains \<Rightarrow>
                  if is_non_string_iterable actual then Done (list_ex (\<lambda>x. py_eq x expected) (elements actual))
                  else not_iterable
              | Contains_Any \<Rightarrow>
                  if is_non_string_iterable actual
                  then Done (list_ex (\<lambda>candidate. list_ex (\<lambda>x. py_eq x candidate) (elements actual)) (elements expected))
                  else not_iterable
              | Equals \<Rightarrow> Done (py_eq actual expected)
              | Gt \<Rightarrow> unless_none actual (py_less expected actual)
              | Gte \<Rightarrow> unless_none actual (at_least actual expected)
              | In \<Rightarrow> Done (list_ex (\<lambda>x. py_eq x actual) (elements expected))
              | Lt \<Rightarrow> unless_none actual (py_less actual expected)
              | Lte \<Rightarrow> unless_none actual (at_least expected actual)
              | Not_Equals \<Rightarrow> Done (\<not> py_eq actual expected)))"

section \<open>Evaluating a ruleset\<close>

text \<open>\<open>all(...)\<close>: it stops at the first condition that fails or raises.\<close>

fun all_match :: "session_features \<Rightarrow> rule_condition list \<Rightarrow> bool outcome" where
  "all_match f [] = Done True"
| "all_match f (c # cs) =
     (case condition_matches f c of
        Raised x \<Rightarrow> Raised x
      | Done b \<Rightarrow> if b then all_match f cs else Done False)"

definition match_of :: "classification_rule \<Rightarrow> rule_match" where
  "match_of r = \<lparr>match_rule_id = rule_id r, match_name = rule_name r, match_actor = rule_actor r,
     match_confidence = rule_confidence r, match_risk = rule_risk r, match_tags = rule_tags r,
     match_evidence = rule_evidence r\<rparr>"

fun matching :: "session_features \<Rightarrow> classification_rule list \<Rightarrow> rule_match list outcome" where
  "matching f [] = Done []"
| "matching f (r # rs) =
     (case all_match f (rule_conditions r) of
        Raised x \<Rightarrow> Raised x
      | Done b \<Rightarrow>
          (case matching f rs of
             Raised x \<Rightarrow> Raised x
           | Done ms \<Rightarrow> Done (if b then match_of r # ms else ms)))"

definition evaluate_rules :: "session_features \<Rightarrow> rule_set \<Rightarrow> rule_evaluation outcome" where
  "evaluate_rules f rs =
     (case matching f (rules rs) of
        Raised x \<Rightarrow> Raised x
      | Done ms \<Rightarrow> Done \<lparr>eval_version = rules_version rs, matched_rules = ms\<rparr>)"

text \<open>\<open>max(matches, key=...)\<close>: the first of the greatest.\<close>

definition stronger :: "rule_match \<Rightarrow> rule_match \<Rightarrow> bool" where
  "stronger a b \<longleftrightarrow> match_confidence b < match_confidence a
     \<or> (match_confidence a = match_confidence b \<and> match_risk b < match_risk a)"

fun best_of :: "rule_match \<Rightarrow> rule_match list \<Rightarrow> rule_match" where
  "best_of m [] = m"
| "best_of m (n # ms) = best_of (if stronger n m then n else m) ms"

definition best_match :: "rule_evaluation \<Rightarrow> rule_match option" where
  "best_match e = (case matched_rules e of [] \<Rightarrow> None | m # ms \<Rightarrow> Some (best_of m ms))"

section \<open>What evaluation gives\<close>

definition condition_true :: "session_features \<Rightarrow> rule_condition \<Rightarrow> bool" where
  "condition_true f c \<longleftrightarrow> condition_matches f c = Done True"

lemma all_match_Done:
  "all_match f cs = Done b \<Longrightarrow> b \<longleftrightarrow> list_all (condition_true f) cs"
  by (induction cs) (auto simp: condition_true_def split: outcome.splits if_splits)

lemma matching_Done:
  "matching f rs = Done ms \<Longrightarrow> ms = map match_of (filter (\<lambda>r. list_all (condition_true f) (rule_conditions r)) rs)"
proof (induction rs arbitrary: ms)
  case (Cons r rs)
  then obtain b ms' where b: "all_match f (rule_conditions r) = Done b" and ms': "matching f rs = Done ms'"
    and ms: "ms = (if b then match_of r # ms' else ms')"
    by (auto split: outcome.splits)
  then show ?case using Cons.IH [OF ms'] all_match_Done [OF b] by simp
qed simp

text \<open>when evaluation gives a result, it is exactly the rules all of whose conditions hold,
  each once, in the order of the rules file, with nothing of the rule lost.\<close>

theorem evaluate_rules_matches:
  assumes "evaluate_rules f rs = Done e"
  shows "eval_version e = rules_version rs
     \<and> matched_rules e = map match_of (filter (\<lambda>r. list_all (condition_true f) (rule_conditions r)) (rules rs))"
  using assms matching_Done by (auto simp: evaluate_rules_def split: outcome.splits)

lemma best_of_in: "best_of m ms \<in> set (m # ms)"
  by (induction m ms rule: best_of.induct) auto

lemma stronger_trans: "stronger a b \<Longrightarrow> stronger b c \<Longrightarrow> stronger a c"
  by (auto simp: stronger_def)

lemma best_of_strongest: "x \<in> set (m # ms) \<Longrightarrow> \<not> stronger x (best_of m ms)"
proof (induction m ms arbitrary: x rule: best_of.induct)
  case (1 m)
  then show ?case by (auto simp: stronger_def)
next
  case (2 m n ms)
  show ?case
  proof (cases "stronger n m")
    case True
    then have n: "\<not> stronger n (best_of n ms)" "x \<in> set (n # ms) \<Longrightarrow> \<not> stronger x (best_of n ms)"
      using 2(1) by auto
    have "\<not> stronger m (best_of n ms)" using True n(1) stronger_trans by blast
    then show ?thesis using True n 2(2) by auto
  next
    case False
    then have m: "\<not> stronger m (best_of m ms)" "x \<in> set (m # ms) \<Longrightarrow> \<not> stronger x (best_of m ms)"
      using 2(1) by auto
    have "\<not> stronger n (best_of m ms)"
      using False m(1) by (auto simp: stronger_def not_less)
    then show ?thesis using False m 2(2) by auto
  qed
qed

text \<open>the best match is one of the matched rules, and none of them has a higher confidence,
  nor the same confidence and a higher risk; there is none only when no rule matched.\<close>

theorem best_match_is_best:
  "(case best_match e of
      None \<Rightarrow> matched_rules e = []
    | Some b \<Rightarrow> b \<in> set (matched_rules e) \<and> list_all (\<lambda>m. \<not> stronger m b) (matched_rules e))"
  using best_of_in best_of_strongest by (auto simp: best_match_def list_all_iff split: list.splits)

section \<open>Rules that cannot raise\<close>

text \<open>The features that hold a number (or nothing) and those that hold a list.\<close>

definition NUMERIC_FEATURES :: "str list" where
  "NUMERIC_FEATURES = map lit [''duration_seconds'', ''command_count'', ''commands_per_minute'', ''unique_command_count'',
     ''repeated_command_count'', ''discovery_command_count'', ''file_read_count'', ''sensitive_file_read_count'',
     ''decoy_files_surfaced_count'', ''average_inter_command_interval_seconds'', ''human_timing_score'',
     ''auth_attempt_count'', ''connection_count_from_same_ip'']"

definition LIST_FEATURES :: "str list" where
  "LIST_FEATURES = map lit [''decoy_files_surfaced'', ''inter_command_intervals_seconds'', ''command_names'',
     ''telnet_credentials_tried'', ''ssh_credentials_tried'', ''ftp_credentials_tried'', ''http_credentials_tried'',
     ''http_paths_requested'', ''http_user_agents'', ''http_probe_targets'', ''http_auth_schemes'']"

definition OTHER_FEATURES :: "str list" where
  "OTHER_FEATURES = map lit [''session_id'', ''protocol'', ''persona_id'', ''end_reason'', ''exit_command_present'',
     ''ftp_other_protocol_probe'', ''http_known_scanner_user_agent'', ''http_command_injection_attempt'',
     ''http_path_traversal_attempt'', ''http_proxy_request'', ''remote_fetch_and_run_attempt'',
     ''authorized_keys_write_attempt'', ''system_binary_read_attempt'', ''login_check_only'']"

definition condition_typed :: "rule_condition \<Rightarrow> bool" where
  "condition_typed c =
     (case cond_operator c of
        Contains \<Rightarrow> cond_field c \<in> set LIST_FEATURES
      | Contains_Any \<Rightarrow> cond_field c \<in> set LIST_FEATURES
      | Equals \<Rightarrow> cond_field c \<in> set (NUMERIC_FEATURES @ LIST_FEATURES @ OTHER_FEATURES)
      | Not_Equals \<Rightarrow> cond_field c \<in> set (NUMERIC_FEATURES @ LIST_FEATURES @ OTHER_FEATURES)
      | In \<Rightarrow> cond_field c \<in> set (NUMERIC_FEATURES @ LIST_FEATURES @ OTHER_FEATURES)
      | _ \<Rightarrow> cond_field c \<in> set NUMERIC_FEATURES \<and> as_number (cond_value c) \<noteq> None)"

lemma feature_known:
  "name \<in> set (NUMERIC_FEATURES @ LIST_FEATURES @ OTHER_FEATURES) \<Longrightarrow> \<exists>v. dict_get (feature_values f) name = Some v"
proof -
  assume name: "name \<in> set (NUMERIC_FEATURES @ LIST_FEATURES @ OTHER_FEATURES)"
  define known where "known = dict_keys (feature_values undefined)"
  have keys: "dict_keys (feature_values f) = known" by (simp add: known_def feature_values_def dict_keys_def)
  have "list_all (\<lambda>n. n \<in> set known) (NUMERIC_FEATURES @ LIST_FEATURES @ OTHER_FEATURES)"
    by (simp add: known_def NUMERIC_FEATURES_def LIST_FEATURES_def OTHER_FEATURES_def feature_values_def dict_keys_def)
  then have "name \<in> set (dict_keys (feature_values f))" using name unfolding keys list_all_iff by blast
  then show ?thesis using dict_get_None_iff [of "feature_values f" name] by auto
qed

fun optional_number :: "pyval \<Rightarrow> bool" where
  "optional_number VNone = True"
| "optional_number (VNum x) = True"
| "optional_number _ = False"

lemma opt_val_number: "optional_number (opt_val VNum x)" "optional_number (opt_val (\<lambda>n. VNum (of_int n)) y)"
  by (simp_all add: opt_val_def split: option.split)

lemma feature_kinds:
  "list_all (\<lambda>(k, v). optional_number v \<or> k \<in> set (LIST_FEATURES @ OTHER_FEATURES)) (feature_values f)"
  "list_all (\<lambda>(k, v). is_non_string_iterable v \<or> k \<in> set (NUMERIC_FEATURES @ OTHER_FEATURES)) (feature_values f)"
  by (simp_all add: feature_values_def str_list_def opt_val_number LIST_FEATURES_def OTHER_FEATURES_def NUMERIC_FEATURES_def)

lemma feature_numeric:
  assumes "name \<in> set NUMERIC_FEATURES" "dict_get (feature_values f) name = Some v"
  shows "v = VNone \<or> (\<exists>x. v = VNum x)"
proof -
  have "set NUMERIC_FEATURES \<inter> set (LIST_FEATURES @ OTHER_FEATURES) = {}" by code_simp
  moreover have "(name, v) \<in> set (feature_values f)" using assms(2) by (simp add: dict_get_def map_of_SomeD)
  ultimately have "optional_number v" using feature_kinds(1) [of f] assms(1) by (force simp: list_all_iff)
  then show ?thesis by (cases v) auto
qed

lemma feature_list:
  assumes "name \<in> set LIST_FEATURES" "dict_get (feature_values f) name = Some v"
  shows "is_non_string_iterable v"
proof -
  have "set LIST_FEATURES \<inter> set (NUMERIC_FEATURES @ OTHER_FEATURES) = {}" by code_simp
  moreover have "(name, v) \<in> set (feature_values f)" using assms(2) by (simp add: dict_get_def map_of_SomeD)
  ultimately show ?thesis using feature_kinds(2) [of f] assms(1) by (force simp: list_all_iff)
qed

lemma condition_typed_Done:
  assumes "condition_typed c"
  shows "\<exists>b. condition_matches f c = Done b"
proof -
  have "cond_field c \<in> set (NUMERIC_FEATURES @ LIST_FEATURES @ OTHER_FEATURES)"
    using assms by (auto simp: condition_typed_def split: rule_operator.splits)
  then obtain v where v: "dict_get (feature_values f) (cond_field c) = Some v" using feature_known by blast
  show ?thesis
  proof (cases "cond_field c \<in> set LIST_FEATURES \<and> cond_operator c \<in> {Contains, Contains_Any}")
    case True
    then show ?thesis using feature_list [OF _ v] v by (auto simp: condition_matches_def)
  next
    case False
    show ?thesis
    proof (cases "cond_operator c \<in> {Gt, Gte, Lt, Lte}")
      case True
      then have num: "cond_field c \<in> set NUMERIC_FEATURES" "as_number (cond_value c) \<noteq> None"
        using assms by (auto simp: condition_typed_def)
      then consider "v = VNone" | x where "v = VNum x" using feature_numeric [OF _ v] by blast
      then show ?thesis
      proof cases
        case 1
        then show ?thesis using v True by (auto simp: condition_matches_def unless_none_def Let_def)
      next
        case 2
        then show ?thesis using v True num(2)
          by (cases "cond_value c")
            (auto simp: condition_matches_def unless_none_def compared_def at_least_def Let_def)
      qed
    next
      case rest: False
      then show ?thesis using False assms v
        by (auto simp: condition_matches_def condition_typed_def Let_def split: rule_operator.splits)
    qed
  qed
qed

lemma all_match_typed: "list_all condition_typed cs \<Longrightarrow> \<exists>b. all_match f cs = Done b"
proof (induction cs)
  case (Cons c cs)
  obtain b b' where "condition_matches f c = Done b" "all_match f cs = Done b'"
    using Cons condition_typed_Done [of c f] by auto
  then have "all_match f (c # cs) = Done (b \<and> b')" by (cases b) simp_all
  then show ?case by blast
next
  case Nil
  show ?case by (rule exI [of _ True]) simp
qed

text \<open>a ruleset whose conditions name known features and compare numbers with numbers is
  evaluated without an exception on every session.\<close>

theorem typed_rules_evaluate:
  assumes "list_all (\<lambda>r. list_all condition_typed (rule_conditions r)) (rules rs)"
  shows "\<exists>e. evaluate_rules f rs = Done e"
proof -
  have "list_all (\<lambda>r. list_all condition_typed (rule_conditions r)) qs \<Longrightarrow> \<exists>ms. matching f qs = Done ms" for qs
  proof (induction qs)
    case (Cons q qs)
    then show ?case using all_match_typed [of "rule_conditions q" f] by fastforce
  qed simp
  from this [OF assms] show ?thesis by (auto simp: evaluate_rules_def)
qed

section \<open>A rule of the default set\<close>

text \<open>\<open>automated_discovery_burst\<close> of \<open>default_rules.yaml\<close>, to try the properties on.\<close>

definition discovery_burst :: classification_rule where
  "discovery_burst = \<lparr>rule_id = lit ''automated_discovery_burst'', rule_name = lit ''Automated discovery burst'',
     rule_actor = Automated_Scanner, rule_confidence = 72 / 100, rule_risk = 35,
     rule_tags = map lit [''T1087'', ''T1082''],
     rule_evidence = map lit [''High command rate with repeated discovery commands.'', ''No clean exit command was observed.''],
     rule_conditions = [\<lparr>cond_field = lit ''commands_per_minute'', cond_operator = Gte, cond_value = VNum 20\<rparr>,
       \<lparr>cond_field = lit ''discovery_command_count'', cond_operator = Gte, cond_value = VNum 3\<rparr>,
       \<lparr>cond_field = lit ''exit_command_present'', cond_operator = Equals, cond_value = VBool False\<rparr>]\<rparr>"

definition burst_rules :: rule_set where
  "burst_rules = \<lparr>rules_version = lit ''1.0.0'', rules = [discovery_burst]\<rparr>"

theorem typed_rules_evaluate_witness: "\<exists>e. evaluate_rules (extract_session_features ssh_record None) burst_rules = Done e"
  by (rule typed_rules_evaluate) code_simp

theorem evaluate_rules_matches_witness:
  "eval_version \<lparr>eval_version = lit ''1.0.0'', matched_rules = []\<rparr> = rules_version burst_rules
     \<and> matched_rules \<lparr>eval_version = lit ''1.0.0'', matched_rules = []\<rparr> =
       map match_of (filter (\<lambda>r. list_all (condition_true (extract_session_features ssh_record None)) (rule_conditions r)) (rules burst_rules))"
proof (rule evaluate_rules_matches)
  show "evaluate_rules (extract_session_features ssh_record None) burst_rules =
      Done \<lparr>eval_version = lit ''1.0.0'', matched_rules = []\<rparr>"
    by code_simp
qed

end
