(* ===== verification/Scoring.thy ===== *)
theory Scoring
  imports Rules "HOL-Library.Product_Lexorder" "HOL-Library.List_Lexorder"
begin

text \<open>
  \<open>classifier/scoring/session.py\<close>: one summary from the matched rules of a session. The
  status, the combined risk score and its level, the actor vote, the behaviour stage and
  intent, the MITRE tags in order of seriousness and the actions for analysts are one
  definition per function of the code. Scores and confidences are rationals, so sums and
  quotients are exact and \<open>round\<close> breaks ties to even on the exact value.
\<close>

section \<open>Labels\<close>

datatype classification_status = Complete | Partial | Insufficient_Data

datatype risk_level = No_Risk | Low | Medium | High | Critical

datatype behavior_stage = No_Stage | Discovery | Credential_Access | Collection | Execution | Persistence_Stage

datatype intent = Unknown | Reconnaissance | Credential_Theft | Data_Access | Interactive_Operation
  | Vulnerability_Exploitation | Payload_Delivery | Persistence_Intent

datatype safeguard_priority = Low_Priority | Medium_Priority | High_Priority | Critical_Priority

datatype recommendation_name = Increase_Source_Monitoring | Preserve_Session_Transcript
  | Review_Decoy_Exposure | Rotate_Exposed_Credentials | Escalate_Incident_Review

subsection \<open>Orders\<close>

text \<open>Risk levels in order of risk.\<close>

fun risk_rank :: "risk_level \<Rightarrow> nat" where
  "risk_rank No_Risk = 0"
| "risk_rank Low = 1"
| "risk_rank Medium = 2"
| "risk_rank High = 3"
| "risk_rank Critical = 4"

lemma risk_rank_inject: "risk_rank a = risk_rank b \<longleftrightarrow> a = b"
  by (cases a; cases b) auto

instantiation risk_level :: linorder
begin

definition less_eq_risk_level :: "risk_level \<Rightarrow> risk_level \<Rightarrow> bool" where
  "a \<le> b \<longleftrightarrow> risk_rank a \<le> risk_rank b"

definition less_risk_level :: "risk_level \<Rightarrow> risk_level \<Rightarrow> bool" where
  "a < b \<longleftrightarrow> risk_rank a < risk_rank b"

instance
  by standard (auto simp: less_eq_risk_level_def less_risk_level_def risk_rank_inject)

end

text \<open>Actor labels in the order of their names, which is how the code compares them.\<close>

fun actor_rank :: "actor_label \<Rightarrow> nat" where
  "actor_rank Automated_Scanner = 0"
| "actor_rank Brute_Force_Bot = 1"
| "actor_rank Commodity_Bot = 2"
| "actor_rank Script_Kiddie = 3"
| "actor_rank Skilled_Human_Operator = 4"

lemma actor_rank_inject: "actor_rank a = actor_rank b \<longleftrightarrow> a = b"
  by (cases a; cases b) auto

instantiation actor_label :: linorder
begin

definition less_eq_actor_label :: "actor_label \<Rightarrow> actor_label \<Rightarrow> bool" where
  "a \<le> b \<longleftrightarrow> actor_rank a \<le> actor_rank b"

definition less_actor_label :: "actor_label \<Rightarrow> actor_label \<Rightarrow> bool" where
  "a < b \<longleftrightarrow> actor_rank a < actor_rank b"

instance
  by standard (auto simp: less_eq_actor_label_def less_actor_label_def actor_rank_inject)

end

lemma actor_order_is_by_name: "a < b \<longleftrightarrow> text_less (actor_name a) (actor_name b)"
proof -
  have "list_all (\<lambda>a. list_all (\<lambda>b. (actor_rank a < actor_rank b) = text_less (actor_name a) (actor_name b)) ACTOR_LABELS)
      ACTOR_LABELS"
    by code_simp
  moreover have "a \<in> set ACTOR_LABELS" for a by (cases a) (simp_all add: ACTOR_LABELS_def)
  ultimately show ?thesis by (auto simp: list_all_iff less_actor_label_def)
qed

section \<open>The summary\<close>

record evidence_item =
  item_rule_id :: str
  item_text :: str

record persona_context =
  ctx_persona_id :: "str option"
  ctx_decoy_files :: "str list"

record feature_summary =
  fsum_session_id :: str
  fsum_protocol :: str
  fsum_duration_seconds :: rat
  fsum_command_count :: int
  fsum_commands_per_minute :: rat
  fsum_discovery_command_count :: int
  fsum_file_read_count :: int
  fsum_sensitive_file_read_count :: int
  fsum_decoy_files_surfaced_count :: int
  fsum_exit_command_present :: bool
  fsum_human_timing_score :: "rat option"

record deception_action =
  delay_seconds :: rat
  deception_rationale :: str

record alert_action =
  alert_priority :: safeguard_priority
  minimum_risk_level :: risk_level
  alert_rationale :: str
  alert_evidence :: "str list"

record analyst_recommendation =
  rec_action :: recommendation_name
  rec_priority :: safeguard_priority
  rec_rationale :: str
  rec_evidence :: "str list"

record classification_summary =
  sum_classifier_version :: str
  sum_rules_version :: str
  sum_status :: classification_status
  sum_insufficient_reason :: "str option"
  sum_actor_label :: "actor_label option"
  sum_actor_votes :: "(actor_label \<times> nat) list"
  sum_confidence :: rat
  sum_risk_score :: int
  sum_risk_level :: risk_level
  sum_behavior_stage :: behavior_stage
  sum_intent :: intent
  sum_persona_context :: persona_context
  sum_feature_summary :: "feature_summary option"
  sum_deception_action :: "deception_action option"
  sum_alert_action :: "alert_action option"
  sum_recommendation :: "analyst_recommendation option"
  sum_mitre_tags :: "str list"
  sum_evidence :: "evidence_item list"
  sum_matched_rule_ids :: "str list"

definition CLASSIFIER_VERSION :: str where
  "CLASSIFIER_VERSION = lit ''1.0.0''"

definition HIGH_RISK_SCORE :: int where
  "HIGH_RISK_SCORE = 65"

section \<open>Status\<close>

definition classify_status :: "session_features option \<Rightarrow> rule_match list \<Rightarrow> classification_status \<times> str option" where
  "classify_status features matches =
     (case features of
        None \<Rightarrow>
          if matches \<noteq> [] then (Partial, Some (lit ''session features were not supplied, so classification ''
            @ lit ''completeness cannot be established''))
          else (Insufficient_Data, Some (lit ''session features were not supplied''))
      | Some f \<Rightarrow>
          if sf_command_count f = 0 then
            (if matches \<noteq> [] then (Partial, Some (lit ''no commands were observed; matching evidence alone isn't ''
               @ lit ''enough signal to classify with full confidence''))
             else (Insufficient_Data, Some (lit ''no commands were observed during the session, so no reliable ''
               @ lit ''command or timing evidence is available'')))
          else if sf_command_count f = 1 then
            (if matches \<noteq> [] then (Partial, Some (lit ''only one command was observed; a single matching rule isn't ''
               @ lit ''enough signal to classify with full confidence''))
             else (Insufficient_Data, Some (lit ''fewer than two commands were observed during the session, so no ''
               @ lit ''reliable command or timing evidence is available'')))
          else if matches \<noteq> [] then (Complete, None)
          else (Partial, Some (lit ''commands were observed but none matched a classification rule ''
               @ lit ''confidently enough to assign an actor label'')))"

section \<open>Risk\<close>

fun greatest :: "int list \<Rightarrow> int" where
  "greatest [] = 0"
| "greatest [x] = x"
| "greatest (x # xs) = max x (greatest xs)"

definition combined_risk_score :: "rule_match list \<Rightarrow> int" where
  "combined_risk_score matches =
     (let weighted = map (\<lambda>m. of_int (match_risk m) * match_confidence m) matches;
          total_confidence = sum_list (map match_confidence matches)
      in if total_confidence = 0 then greatest (map match_risk matches)
         else round_half_even (sum_list weighted / total_confidence))"

definition risk_level_of :: "int \<Rightarrow> risk_level" where
  "risk_level_of score =
     (if 85 \<le> score then Critical
      else if HIGH_RISK_SCORE \<le> score then High
      else if 40 \<le> score then Medium
      else if 1 \<le> score then Low
      else No_Risk)"

section \<open>The actor\<close>

definition decisive :: "rule_match list \<Rightarrow> rule_match list" where
  "decisive matches = filter (\<lambda>m. HIGH_RISK_SCORE \<le> match_risk m) matches"

definition voters_of :: "rule_match list \<Rightarrow> rule_match list" where
  "voters_of matches = (if decisive matches \<noteq> [] then decisive matches else matches)"

definition votes_for :: "rule_match list \<Rightarrow> actor_label \<Rightarrow> rat" where
  "votes_for voters label = sum_list (map match_confidence (filter (\<lambda>m. match_actor m = label) voters))"

text \<open>\<open>max(votes.items(), key=lambda item: (item[1], item[0]))\<close>.\<close>

definition more_votes :: "rule_match list \<Rightarrow> actor_label \<Rightarrow> actor_label \<Rightarrow> actor_label" where
  "more_votes voters l best = (if (votes_for voters best, best) < (votes_for voters l, l) then l else best)"

definition vote_winner :: "rule_match list \<Rightarrow> actor_label" where
  "vote_winner voters = fold (more_votes voters) (tl ACTOR_LABELS) (hd ACTOR_LABELS)"

definition actor_vote :: "rule_match list \<Rightarrow> actor_label \<times> rat" where
  "actor_vote matches =
     (let voters = voters_of matches; label = vote_winner voters
      in (label, round_2 (min (votes_for voters label / of_nat (length voters)) 1)))"

definition actor_vote_tally :: "rule_match list \<Rightarrow> (actor_label \<times> nat) list" where
  "actor_vote_tally matches =
     map (\<lambda>label. (label, length (filter (\<lambda>m. match_actor m = label) matches))) ACTOR_LABELS"

section \<open>Tags, stage and intent\<close>

definition unique_ordered :: "'a list \<Rightarrow> 'a list" where
  "unique_ordered xs = fold (\<lambda>x acc. if x \<in> set acc then acc else acc @ [x]) xs []"

type_synonym ranked_tag = "(int \<times> bool \<times> nat \<times> nat) \<times> str"

definition tag_ranks :: "rule_match list \<Rightarrow> ranked_tag list" where
  "tag_ranks matches =
     concat (map (\<lambda>(rule_position, m).
       map (\<lambda>(tag_position, tag). ((- match_risk m, dot \<notin> set tag, rule_position, tag_position), tag))
         (enumerate 0 (match_tags m)))
       (enumerate 0 matches))"

definition tags_by_seriousness :: "rule_match list \<Rightarrow> str list" where
  "tags_by_seriousness matches = unique_ordered (map snd (sort_key fst (tag_ranks matches)))"

definition has_tag :: "str list \<Rightarrow> string list \<Rightarrow> bool" where
  "has_tag tags names = list_ex (\<lambda>n. lit n \<in> set tags) names"

definition stage_tags :: "rule_match list \<Rightarrow> str list \<Rightarrow> str list" where
  "stage_tags matches mitre_tags =
     (if decisive matches \<noteq> [] then concat (map match_tags (decisive matches)) else mitre_tags)"

definition behavior_stage_and_intent ::
  "rule_match list \<Rightarrow> str list \<Rightarrow> session_features option \<Rightarrow> behavior_stage \<times> intent" where
  "behavior_stage_and_intent matches mitre_tags features =
     (let tags = stage_tags matches mitre_tags in
      if has_tag tags [''T1105''] then (Execution, Payload_Delivery)
      else if has_tag tags [''T1098.004''] then (Persistence_Stage, Persistence_Intent)
      else if has_tag tags [''T1552.001'', ''T1110'', ''T1110.001'', ''T1078.001''] then (Credential_Access, Credential_Theft)
      else if has_tag tags [''T1005''] then (Collection, Data_Access)
      else if has_tag tags [''T1190''] then (Execution, Vulnerability_Exploitation)
      else if has_tag tags [''T1087'', ''T1082'', ''T1595'', ''T1595.002'', ''T1592'', ''T1090'', ''T1046'']
      then (Discovery, Reconnaissance)
      else if has_tag tags [''T1059''] then (Execution, Interactive_Operation)
      else if (case features of None \<Rightarrow> False | Some f \<Rightarrow> 0 < sf_sensitive_file_read_count f) then (Collection, Data_Access)
      else if (case features of None \<Rightarrow> False | Some f \<Rightarrow> 0 < sf_discovery_command_count f) then (Discovery, Reconnaissance)
      else if lit ''interactive_low_and_slow'' \<in> set (map match_rule_id matches) then (Execution, Interactive_Operation)
      else (No_Stage, Unknown))"

section \<open>Context and actions\<close>

definition persona_context_of :: "session_features option \<Rightarrow> persona_context" where
  "persona_context_of features =
     (case features of
        None \<Rightarrow> \<lparr>ctx_persona_id = None, ctx_decoy_files = []\<rparr>
      | Some f \<Rightarrow> \<lparr>ctx_persona_id = Some (sf_persona_id f), ctx_decoy_files = sf_decoy_files_surfaced f\<rparr>)"

definition feature_summary_of :: "session_features option \<Rightarrow> feature_summary option" where
  "feature_summary_of features =
     map_option (\<lambda>f. \<lparr>fsum_session_id = sf_session_id f, fsum_protocol = sf_protocol f,
       fsum_duration_seconds = sf_duration_seconds f, fsum_command_count = sf_command_count f,
       fsum_commands_per_minute = sf_commands_per_minute f,
       fsum_discovery_command_count = sf_discovery_command_count f,
       fsum_file_read_count = sf_file_read_count f,
       fsum_sensitive_file_read_count = sf_sensitive_file_read_count f,
       fsum_decoy_files_surfaced_count = sf_decoy_files_surfaced_count f,
       fsum_exit_command_present = sf_exit_command_present f,
       fsum_human_timing_score = sf_human_timing_score f\<rparr>) features"

definition deception_action_for :: "risk_level \<Rightarrow> deception_action option" where
  "deception_action_for level =
     (if level \<notin> {Medium, High, Critical} then None
      else Some \<lparr>delay_seconds = (case level of Medium \<Rightarrow> 1 / 2 | High \<Rightarrow> 1 | _ \<Rightarrow> 2),
        deception_rationale = lit ''Slow suspicious interaction while preserving a believable session.''\<rparr>)"

definition alert_action_for :: "risk_level \<Rightarrow> evidence_item list \<Rightarrow> alert_action option" where
  "alert_action_for level evidence =
     (if level \<notin> {Medium, High, Critical} then None
      else Some \<lparr>alert_priority = (case level of Medium \<Rightarrow> Medium_Priority | High \<Rightarrow> High_Priority | _ \<Rightarrow> Critical_Priority),
        minimum_risk_level = level,
        alert_rationale = lit ''The observed session crossed the live analyst notification threshold.'',
        alert_evidence = map item_text evidence\<rparr>)"

definition analyst_recommendation_for ::
  "risk_level \<Rightarrow> behavior_stage \<Rightarrow> intent \<Rightarrow> persona_context \<Rightarrow> evidence_item list \<Rightarrow> analyst_recommendation" where
  "analyst_recommendation_for level stage goal context_of evidence =
     (let supporting = map item_text evidence in
      if level \<in> {High, Critical} then
        \<lparr>rec_action = Escalate_Incident_Review,
         rec_priority = (if level = Critical then Critical_Priority else High_Priority),
         rec_rationale = lit ''High-risk classifier output should be reviewed before any external enforcement action.'',
         rec_evidence = supporting\<rparr>
      else if goal = Credential_Theft then
        \<lparr>rec_action = Rotate_Exposed_Credentials, rec_priority = High_Priority,
         rec_rationale = lit ''Credential-access behavior indicates possible interest in reusable secrets.'',
         rec_evidence = supporting\<rparr>
      else if goal = Vulnerability_Exploitation then
        \<lparr>rec_action = Increase_Source_Monitoring, rec_priority = High_Priority,
         rec_rationale = lit ''An exploit or exploit tool was aimed directly at the service, ''
           @ lit ''warranting closer monitoring of this source.'',
         rec_evidence = supporting\<rparr>
      else if stage = Collection \<and> ctx_decoy_files context_of \<noteq> [] then
        \<lparr>rec_action = Review_Decoy_Exposure, rec_priority = Medium_Priority,
         rec_rationale = lit ''Surfaced decoy files provide analyst context for follow-up investigation.'',
         rec_evidence = ctx_decoy_files context_of\<rparr>
      else if stage = Discovery then
        \<lparr>rec_action = Increase_Source_Monitoring,
         rec_priority = (if level \<in> {Medium, High, Critical} then Medium_Priority else Low_Priority),
         rec_rationale = lit ''Discovery activity may precede credential access, collection, or exploitation attempts.'',
         rec_evidence = supporting\<rparr>
      else if stage = Execution then
        \<lparr>rec_action = Preserve_Session_Transcript, rec_priority = Medium_Priority,
         rec_rationale = lit ''Interactive execution behavior is useful for analyst review and replay.'',
         rec_evidence = supporting\<rparr>
      else
        \<lparr>rec_action = Increase_Source_Monitoring,
         rec_priority = (if level \<in> {No_Risk, Low} then Low_Priority else Medium_Priority),
         rec_rationale = lit ''This session matched a classification rule; monitor the ''
           @ lit ''source for further activity even though no more specific ''
           @ lit ''follow-up action is indicated yet.'',
         rec_evidence = supporting\<rparr>)"

section \<open>Putting it together\<close>

definition evidence_of :: "rule_match list \<Rightarrow> evidence_item list" where
  "evidence_of matches =
     concat (map (\<lambda>m. map (\<lambda>t. \<lparr>item_rule_id = match_rule_id m, item_text = t\<rparr>) (match_evidence m)) matches)"

definition summarize_rule_evaluation ::
  "rule_evaluation \<Rightarrow> session_features option \<Rightarrow> classification_summary" where
  "summarize_rule_evaluation evaluation features =
     (let matches = matched_rules evaluation;
          status = classify_status features matches
      in if matches = [] then
           \<lparr>sum_classifier_version = CLASSIFIER_VERSION, sum_rules_version = eval_version evaluation,
            sum_status = fst status, sum_insufficient_reason = snd status,
            sum_actor_label = None, sum_actor_votes = actor_vote_tally [],
            sum_confidence = 0, sum_risk_score = 0, sum_risk_level = No_Risk,
            sum_behavior_stage = No_Stage, sum_intent = Unknown,
            sum_persona_context = persona_context_of features,
            sum_feature_summary = feature_summary_of features,
            sum_deception_action = None, sum_alert_action = None, sum_recommendation = None,
            sum_mitre_tags = [], sum_evidence = [], sum_matched_rule_ids = []\<rparr>
         else
           (let risk_score = combined_risk_score matches;
                vote = actor_vote matches;
                level = risk_level_of risk_score;
                mitre_tags = tags_by_seriousness matches;
                stage = behavior_stage_and_intent matches mitre_tags features;
                evidence = evidence_of matches;
                context_of = persona_context_of features
            in \<lparr>sum_classifier_version = CLASSIFIER_VERSION, sum_rules_version = eval_version evaluation,
                sum_status = fst status, sum_insufficient_reason = snd status,
                sum_actor_label = Some (fst vote), sum_actor_votes = actor_vote_tally matches,
                sum_confidence = snd vote, sum_risk_score = risk_score, sum_risk_level = level,
                sum_behavior_stage = fst stage, sum_intent = snd stage,
                sum_persona_context = context_of,
                sum_feature_summary = feature_summary_of features,
                sum_deception_action = deception_action_for level,
                sum_alert_action = alert_action_for level evidence,
                sum_recommendation =
                  Some (analyst_recommendation_for level (fst stage) (snd stage) context_of evidence),
                sum_mitre_tags = mitre_tags, sum_evidence = evidence,
                sum_matched_rule_ids = map match_rule_id matches\<rparr>))"

end
