(* ===== verification/ScoringProps.thy ===== *)
theory ScoringProps
  imports Scoring
begin

text \<open>
  What the classifier's summary satisfies: the risk score lies between the scores of the
  matched rules and its level never falls as it rises, the actor is one that matched rules
  voted for most, the most serious tag comes first, and the summary is within the bounds
  its model declares.
\<close>

section \<open>The risk score\<close>

lemma greatest_bounds:
  "xs \<noteq> [] \<Longrightarrow> \<forall>x \<in> set xs. a \<le> x \<and> x \<le> b \<Longrightarrow> a \<le> greatest xs \<and> greatest xs \<le> b"
proof (induction xs rule: greatest.induct)
  case (3 x y xs)
  then have "a \<le> greatest (y # xs) \<and> greatest (y # xs) \<le> b" by (simp del: greatest.simps)
  then show ?case using 3(3) by auto
qed auto

lemma weighted_bounds:
  assumes "\<forall>m \<in> set ms. 0 \<le> match_confidence m \<and> a \<le> match_risk m \<and> match_risk m \<le> b"
  shows "of_int a * sum_list (map match_confidence ms)
      \<le> sum_list (map (\<lambda>m. of_int (match_risk m) * match_confidence m) ms)
    \<and> sum_list (map (\<lambda>m. of_int (match_risk m) * match_confidence m) ms)
      \<le> of_int b * sum_list (map match_confidence ms)"
  using assms
proof (induction ms)
  case (Cons m ms)
  have "of_int a * match_confidence m \<le> of_int (match_risk m) * match_confidence m"
    "of_int (match_risk m) * match_confidence m \<le> of_int b * match_confidence m"
    using Cons.prems by (auto intro!: mult_right_mono)
  then show ?case using Cons by (auto simp: distrib_left intro: add_mono)
qed simp

text \<open>the combined risk score never lies outside the range of the matched rules' own
  scores: averaging cannot make a session look more or less dangerous than every rule says.\<close>

theorem combined_risk_between:
  assumes "ms \<noteq> []" and "\<forall>m \<in> set ms. 0 \<le> match_confidence m \<and> a \<le> match_risk m \<and> match_risk m \<le> b"
  shows "a \<le> combined_risk_score ms \<and> combined_risk_score ms \<le> b"
proof (cases "sum_list (map match_confidence ms) = 0")
  case True
  then show ?thesis
    using greatest_bounds [of "map match_risk ms" a b] assms by (simp add: combined_risk_score_def Let_def)
next
  case False
  have "0 \<le> sum_list (map match_confidence ms)" using assms(2) by (auto intro!: sum_list_nonneg)
  then have pos: "0 < sum_list (map match_confidence ms)" using False by simp
  have "of_int a \<le> sum_list (map (\<lambda>m. of_int (match_risk m) * match_confidence m) ms) / sum_list (map match_confidence ms)"
    "sum_list (map (\<lambda>m. of_int (match_risk m) * match_confidence m) ms) / sum_list (map match_confidence ms) \<le> of_int b"
    using weighted_bounds [OF assms(2)] pos by (auto simp: pos_le_divide_eq pos_divide_le_eq)
  then show ?thesis
    using round_half_even_bounds False by (simp add: combined_risk_score_def Let_def)
qed

definition example_matches :: "rule_match list" where
  "example_matches =
     [match_of discovery_burst,
      (match_of discovery_burst)\<lparr>match_rule_id := lit ''sensitive_file_probe'', match_actor := Commodity_Bot,
         match_confidence := 78 / 100, match_risk := 55, match_tags := map lit [''T1005'', ''T1552.001'']\<rparr>]"

theorem combined_risk_between_witness:
  "35 \<le> combined_risk_score example_matches \<and> combined_risk_score example_matches \<le> 55"
  by (rule combined_risk_between) (simp_all add: example_matches_def match_of_def discovery_burst_def)

text \<open>a higher score never gives a lower level, and "high" begins exactly at the score that
  also lets a rule decide the actor on its own.\<close>

theorem risk_level_monotone:
  "(\<forall>a b. a \<le> b \<longrightarrow> risk_level_of a \<le> risk_level_of b)
   \<and> (\<forall>a. High \<le> risk_level_of a \<longleftrightarrow> HIGH_RISK_SCORE \<le> a)"
  by (auto simp: risk_level_of_def HIGH_RISK_SCORE_def less_eq_risk_level_def)

theorem risk_level_monotone_witness: "risk_level_of 39 \<le> risk_level_of 40"
  using risk_level_monotone by simp

section \<open>The actor\<close>

lemma fold_more_votes:
  "(votes_for vs (fold (more_votes vs) ls b), fold (more_votes vs) ls b) \<ge> (votes_for vs b, b)
   \<and> (\<forall>l \<in> set ls. (votes_for vs (fold (more_votes vs) ls b), fold (more_votes vs) ls b) \<ge> (votes_for vs l, l))"
proof (induction ls arbitrary: b)
  case (Cons l ls)
  have step: "(votes_for vs (more_votes vs l b), more_votes vs l b) \<ge> (votes_for vs b, b)"
    "(votes_for vs (more_votes vs l b), more_votes vs l b) \<ge> (votes_for vs l, l)"
    by (auto simp: more_votes_def)
  show ?case using Cons.IH [of "more_votes vs l b"] step by (auto intro: order_trans)
qed simp

lemma vote_winner_most: "votes_for vs l \<le> votes_for vs (vote_winner vs)"
proof -
  have "l \<in> set (hd ACTOR_LABELS # tl ACTOR_LABELS)" by (cases l) (simp_all add: ACTOR_LABELS_def)
  then have "(votes_for vs l, l) \<le> (votes_for vs (vote_winner vs), vote_winner vs)"
    using fold_more_votes [where vs = vs and ls = "tl ACTOR_LABELS" and b = "hd ACTOR_LABELS"]
    by (auto simp: vote_winner_def)
  then show ?thesis by (auto simp: less_eq_prod_def)
qed

lemma votes_for_member:
  assumes "m \<in> set vs" "\<forall>m \<in> set vs. 0 \<le> match_confidence m"
  shows "match_confidence m \<le> votes_for vs (match_actor m)"
proof -
  from assms(1) obtain xs ys where "vs = xs @ m # ys" by (metis split_list)
  moreover have "0 \<le> sum_list (map match_confidence (filter P zs))" if "set zs \<subseteq> set vs" for P zs
    using that assms(2) by (intro sum_list_nonneg) fastforce
  ultimately have "0 \<le> votes_for xs (match_actor m)" "0 \<le> votes_for ys (match_actor m)"
    "votes_for vs (match_actor m) = votes_for xs (match_actor m) + match_confidence m + votes_for ys (match_actor m)"
    by (auto simp: votes_for_def)
  then show ?thesis by linarith
qed

lemma votes_for_named: "votes_for vs l \<noteq> 0 \<Longrightarrow> \<exists>m \<in> set vs. match_confidence m \<noteq> 0 \<and> match_actor m = l"
proof (rule ccontr)
  assume votes: "votes_for vs l \<noteq> 0" and "\<not> (\<exists>m \<in> set vs. match_confidence m \<noteq> 0 \<and> match_actor m = l)"
  then have "\<forall>m \<in> set (filter (\<lambda>m. match_actor m = l) vs). match_confidence m = 0" by auto
  moreover have "\<forall>m \<in> set qs. match_confidence m = 0 \<Longrightarrow> sum_list (map match_confidence qs) = 0" for qs :: "rule_match list"
    by (induction qs) auto
  ultimately show False using votes unfolding votes_for_def by blast
qed

lemma vote_winner_unweighed:
  assumes "\<And>l. votes_for vs l = 0"
  shows "vote_winner vs = Skilled_Human_Operator"
  by (simp add: assms vote_winner_def ACTOR_LABELS_def more_votes_def less_prod_def less_actor_label_def)

definition decides_actor :: "rule_match list \<Rightarrow> rule_match \<Rightarrow> bool" where
  "decides_actor ms m \<longleftrightarrow> m \<in> set ms \<and> ((\<exists>n \<in> set ms. HIGH_RISK_SCORE \<le> match_risk n) \<longrightarrow> HIGH_RISK_SCORE \<le> match_risk m)"

lemma voters_decide: "m \<in> set (voters_of ms) \<longleftrightarrow> decides_actor ms m"
  by (auto simp: voters_of_def decisive_def decides_actor_def filter_empty_conv)

text \<open>C21: Among the rules that decide the actor (those of high risk whenever some match, else all), no label has
  more confidence behind it than the label the vote gives, and as soon as one of them has a confidence above zero the
  label is one that such a rule names. When all of them have confidence zero, which the rules file may say, the label
  is the alphabetically last one, whatever they name. A confidence is never negative: the schema of a rule says so.\<close>

theorem actor_vote_elected:
  assumes "\<forall>m \<in> set ms. 0 \<le> match_confidence m"
  shows "(\<forall>l. votes_for (voters_of ms) l \<le> votes_for (voters_of ms) (fst (actor_vote ms)))
    \<and> (if \<exists>m. decides_actor ms m \<and> 0 < match_confidence m
       then \<exists>m. decides_actor ms m \<and> 0 < match_confidence m \<and> match_actor m = fst (actor_vote ms)
       else fst (actor_vote ms) = Skilled_Human_Operator)"
proof -
  let ?vs = "voters_of ms"
  have winner: "fst (actor_vote ms) = vote_winner ?vs" by (simp add: actor_vote_def Let_def)
  have nonneg: "\<forall>m \<in> set ?vs. 0 \<le> match_confidence m" using assms by (auto simp: voters_decide decides_actor_def)
  have "\<exists>m \<in> set ?vs. 0 < match_confidence m \<and> match_actor m = vote_winner ?vs" if "m \<in> set ?vs" "0 < match_confidence m" for m
  proof -
    have "0 < votes_for ?vs (vote_winner ?vs)"
      using votes_for_member [OF that(1) nonneg] vote_winner_most [of ?vs "match_actor m"] that(2) by simp
    then show ?thesis using votes_for_named [of ?vs "vote_winner ?vs"] nonneg by force
  qed
  moreover have "vote_winner ?vs = Skilled_Human_Operator" if "\<not> (\<exists>m \<in> set ?vs. 0 < match_confidence m)"
    by (rule vote_winner_unweighed) (use that nonneg votes_for_named [of ?vs] in force)
  ultimately have "if \<exists>m \<in> set ?vs. 0 < match_confidence m
      then \<exists>m \<in> set ?vs. 0 < match_confidence m \<and> match_actor m = vote_winner ?vs
      else vote_winner ?vs = Skilled_Human_Operator" by (simp split: if_split) blast
  then show ?thesis using vote_winner_most unfolding winner Bex_def voters_decide by blast
qed

theorem actor_vote_elected_witness:
  "\<exists>m. decides_actor example_matches m \<and> 0 < match_confidence m \<and> match_actor m = fst (actor_vote example_matches)"
proof -
  have "\<forall>m \<in> set example_matches. 0 \<le> match_confidence m" by (simp add: example_matches_def match_of_def discovery_burst_def)
  moreover have "\<exists>m. decides_actor example_matches m \<and> 0 < match_confidence m"
    unfolding voters_decide [symmetric]
    by (rule exI [of _ "hd (voters_of example_matches)"])
      (simp add: voters_of_def decisive_def example_matches_def match_of_def discovery_burst_def)
  ultimately show ?thesis using actor_vote_elected [of example_matches] by simp
qed

text \<open>when every matched rule has confidence zero, which the rules file may say, the label
  is always the alphabetically last one, whatever the rules name.\<close>

theorem zero_confidence_label:
  assumes "\<forall>m \<in> set ms. match_confidence m = 0"
  shows "fst (actor_vote ms) = Skilled_Human_Operator"
proof -
  have "\<forall>m \<in> set (voters_of ms). match_confidence m = 0" using assms by (auto simp: voters_of_def decisive_def split: if_splits)
  then have "votes_for (voters_of ms) l = 0" for l using votes_for_named [of "voters_of ms" l] by blast
  then show ?thesis by (simp add: actor_vote_def Let_def vote_winner_unweighed)
qed

theorem zero_confidence_label_witness:
  "fst (actor_vote [(match_of discovery_burst)\<lparr>match_confidence := 0\<rparr>]) = Skilled_Human_Operator"
  by (rule zero_confidence_label) simp

section \<open>Tags\<close>

lemma unique_ordered_snoc:
  fixes xs :: "'a list"
  shows "unique_ordered (xs @ [x]) = (if x \<in> set xs then unique_ordered xs else unique_ordered xs @ [x])"
proof -
  have "set (fold (\<lambda>x acc. if x \<in> set acc then acc else acc @ [x]) xs acc) = set acc \<union> set xs" for acc xs :: "'a list"
    by (induction xs arbitrary: acc) auto
  then show ?thesis by (simp add: unique_ordered_def)
qed

lemma unique_ordered_Nil [simp]: "unique_ordered [] = []"
  by (simp add: unique_ordered_def)

lemma set_unique_ordered [simp]: "set (unique_ordered xs) = set xs"
  by (induction xs rule: rev_induct) (auto simp: unique_ordered_snoc)

lemma distinct_unique_ordered: "distinct (unique_ordered xs)"
  by (induction xs rule: rev_induct) (auto simp: unique_ordered_snoc)

text \<open>Keeping first occurrences of a sorted list keeps the order by smallest key.\<close>

lemma unique_ordered_sorted:
  fixes xs :: "('k::linorder \<times> 'a) list"
  assumes "sorted (map fst xs)"
  shows "sorted_wrt (\<lambda>t u. \<exists>k. (k, t) \<in> set xs \<and> (\<forall>k'. (k', u) \<in> set xs \<longrightarrow> k \<le> k')) (unique_ordered (map snd xs))"
  using assms
proof (induction xs rule: rev_induct)
  case (snoc x xs)
  obtain k u where x: "x = (k, u)" by (cases x)
  have le: "k' \<le> k" if "(k', t) \<in> set xs" for k' t
    using snoc.prems that x by (force simp: sorted_append)
  have IH: "sorted_wrt (\<lambda>t u. \<exists>k. (k, t) \<in> set xs \<and> (\<forall>k'. (k', u) \<in> set xs \<longrightarrow> k \<le> k')) (unique_ordered (map snd xs))"
    using snoc by (simp add: sorted_append)
  have old: "sorted_wrt (\<lambda>t u. \<exists>k. (k, t) \<in> set (xs @ [x]) \<and> (\<forall>k'. (k', u) \<in> set (xs @ [x]) \<longrightarrow> k \<le> k'))
      (unique_ordered (map snd xs))"
    by (rule sorted_wrt_mono_rel [OF _ IH]) (use x le in auto)
  show ?case
  proof (cases "u \<in> set (map snd xs)")
    case True
    then show ?thesis using old x by (simp add: unique_ordered_snoc)
  next
    case False
    have "\<exists>k'. (k', t) \<in> set (xs @ [x]) \<and> (\<forall>k''. (k'', u) \<in> set (xs @ [x]) \<longrightarrow> k' \<le> k'')"
      if t: "t \<in> set (map snd xs)" for t
    proof -
      obtain k' where k': "(k', t) \<in> set xs" using t by auto
      moreover have "(k'', u) \<in> set (xs @ [x]) \<Longrightarrow> k'' = k" for k'' using False x by force
      ultimately show ?thesis using le by (metis Un_iff set_append)
    qed
    then show ?thesis using old x False by (simp add: unique_ordered_snoc sorted_wrt_append)
  qed
qed simp

lemma tag_ranks_member:
  "((r, d, p, q), t) \<in> set (tag_ranks ms) \<longleftrightarrow>
     p < length ms \<and> q < length (match_tags (ms ! p)) \<and> t = match_tags (ms ! p) ! q
     \<and> r = - match_risk (ms ! p) \<and> d = (dot \<notin> set t)"
proof -
  have "((r, d, p, q), t) \<in> set (tag_ranks ms) \<longleftrightarrow>
      (\<exists>m. (p, m) \<in> set (enumerate 0 ms) \<and> (q, t) \<in> set (enumerate 0 (match_tags m))
        \<and> r = - match_risk m \<and> d = (dot \<notin> set t))"
    unfolding tag_ranks_def by force
  then show ?thesis by (auto simp: in_set_enumerate_eq)
qed

lemma tag_ranks_iff:
  "(\<exists>d p q. ((r, d, p, q), t) \<in> set (tag_ranks ms)) \<longleftrightarrow> (\<exists>m \<in> set ms. r = - match_risk m \<and> t \<in> set (match_tags m))"
  unfolding tag_ranks_member by (metis in_set_conv_nth)

lemma tag_ranks_tags: "snd ` set (tag_ranks ms) = (\<Union>m \<in> set ms. set (match_tags m))"
proof (rule set_eqI)
  fix t
  have "t \<in> snd ` set (tag_ranks ms) \<longleftrightarrow> (\<exists>k. (k, t) \<in> set (tag_ranks ms))" by (force simp: image_iff)
  also have "\<dots> \<longleftrightarrow> (\<exists>r. \<exists>d p q. ((r, d, p, q), t) \<in> set (tag_ranks ms))" by (simp only: split_paired_Ex)
  also have "\<dots> \<longleftrightarrow> t \<in> (\<Union>m \<in> set ms. set (match_tags m))" unfolding tag_ranks_iff by blast
  finally show "t \<in> snd ` set (tag_ranks ms) \<longleftrightarrow> t \<in> (\<Union>m \<in> set ms. set (match_tags m))" .
qed

text \<open>the tags of a summary are exactly the matched rules' tags, each once, and a tag comes
  before another only if some rule that carries it is at least as risky as every rule that
  carries the other: the first tag is one of the riskiest rule.\<close>

theorem tags_most_serious_first:
  "distinct (tags_by_seriousness ms) \<and> set (tags_by_seriousness ms) = (\<Union>m \<in> set ms. set (match_tags m))
   \<and> sorted_wrt (\<lambda>t u. \<exists>m \<in> set ms. t \<in> set (match_tags m) \<and>
       (\<forall>m' \<in> {m' \<in> set ms. u \<in> set (match_tags m')}. match_risk m' \<le> match_risk m)) (tags_by_seriousness ms)"
proof -
  let ?ranks = "sort_key fst (tag_ranks ms)"
  have "sorted_wrt (\<lambda>t u. \<exists>k. (k, t) \<in> set ?ranks \<and> (\<forall>k'. (k', u) \<in> set ?ranks \<longrightarrow> k \<le> k'))
      (tags_by_seriousness ms)"
    unfolding tags_by_seriousness_def by (rule unique_ordered_sorted) (simp add: sorted_sort_key)
  then have "sorted_wrt (\<lambda>t u. \<exists>m \<in> set ms. t \<in> set (match_tags m) \<and>
       (\<forall>m' \<in> {m' \<in> set ms. u \<in> set (match_tags m')}. match_risk m' \<le> match_risk m)) (tags_by_seriousness ms)"
  proof (rule sorted_wrt_mono_rel [rotated])
    fix t u
    assume "\<exists>k. (k, t) \<in> set ?ranks \<and> (\<forall>k'. (k', u) \<in> set ?ranks \<longrightarrow> k \<le> k')"
    then obtain r d p q where k: "((r, d, p, q), t) \<in> set (tag_ranks ms)"
      and least: "\<And>k'. (k', u) \<in> set (tag_ranks ms) \<Longrightarrow> (r, d, p, q) \<le> k'" by auto
    then obtain m where m: "m \<in> set ms" "r = - match_risk m" "t \<in> set (match_tags m)" using tag_ranks_iff by blast
    have "match_risk m' \<le> match_risk m" if m': "m' \<in> set ms" "u \<in> set (match_tags m')" for m'
    proof -
      obtain d' p' q' where "((- match_risk m', d', p', q'), u) \<in> set (tag_ranks ms)" using tag_ranks_iff m' by blast
      from least [OF this] show ?thesis using m(2) by (auto simp: less_eq_prod_def less_prod_def)
    qed
    then show "\<exists>m \<in> set ms. t \<in> set (match_tags m) \<and>
       (\<forall>m' \<in> {m' \<in> set ms. u \<in> set (match_tags m')}. match_risk m' \<le> match_risk m)"
      using m by blast
  qed
  then show ?thesis using tag_ranks_tags [of ms] by (simp add: tags_by_seriousness_def distinct_unique_ordered)
qed

theorem tags_most_serious_first_witness:
  "distinct (tags_by_seriousness example_matches)
   \<and> set (tags_by_seriousness example_matches) = (\<Union>m \<in> set example_matches. set (match_tags m))"
  using tags_most_serious_first [of example_matches] by simp

section \<open>The summary as a whole\<close>

definition summary_ok :: "classification_summary \<Rightarrow> bool" where
  "summary_ok s \<longleftrightarrow>
     0 \<le> sum_confidence s \<and> sum_confidence s \<le> 1 \<and> 0 \<le> sum_risk_score s \<and> sum_risk_score s \<le> 100
     \<and> sum_risk_level s = risk_level_of (sum_risk_score s)
     \<and> (sum_actor_label s = None \<longleftrightarrow> sum_matched_rule_ids s = [])
     \<and> (sum_recommendation s = None \<longleftrightarrow> sum_matched_rule_ids s = [])
     \<and> (sum_alert_action s = None \<longleftrightarrow> sum_risk_level s < Medium)
     \<and> (sum_deception_action s = None \<longleftrightarrow> sum_risk_level s < Medium)
     \<and> opt_all (\<lambda>d. 0 \<le> delay_seconds d \<and> delay_seconds d \<le> 10) (sum_deception_action s)
     \<and> (sum_status s = Complete \<longrightarrow> sum_insufficient_reason s = None \<and> sum_actor_label s \<noteq> None)
     \<and> list_all (\<lambda>t. t \<in> set (sum_matched_rule_ids s)) (map item_rule_id (sum_evidence s))"

text \<open>C22: a session evaluated with a valid ruleset always gets a summary within the bounds its
  model declares: score, level and confidence agree and are in range, an actor and a
  recommendation are given exactly when a rule matched, alerts and delays exactly from
  "medium" on, and a complete classification always names an actor.\<close>

theorem summary_within_bounds:
  assumes "rule_set_ok rs" and "evaluate_rules f rs = Done e"
  shows "summary_ok (summarize_rule_evaluation e features)"
proof (cases "matched_rules e = []")
  case True
  then show ?thesis
    by (auto simp: summary_ok_def summarize_rule_evaluation_def Let_def risk_level_of_def HIGH_RISK_SCORE_def
        less_risk_level_def classify_status_def split: option.splits)
next
  case False
  let ?ms = "matched_rules e"
  have ok: "0 \<le> match_confidence m \<and> 0 \<le> match_risk m \<and> match_risk m \<le> 100" if "m \<in> set ?ms" for m
    using that assms evaluate_rules_matches
    by (auto simp: evaluate_rules_def rule_set_ok_def rule_ok_def list_all_iff match_of_def
        dest!: matching_Done split: outcome.splits)
  then have risk: "0 \<le> combined_risk_score ?ms \<and> combined_risk_score ?ms \<le> 100"
    using False by (intro combined_risk_between) auto
  have confidence: "0 \<le> snd (actor_vote ?ms) \<and> snd (actor_vote ?ms) \<le> 1"
  proof -
    have "0 \<le> votes_for (voters_of ?ms) l" for l
      unfolding votes_for_def using ok by (intro sum_list_nonneg) (auto simp: voters_of_def decisive_def split: if_splits)
    then show ?thesis by (simp add: actor_vote_def Let_def round_2_bounds)
  qed
  have evidence: "list_all (\<lambda>t. t \<in> set (map match_rule_id ?ms)) (map item_rule_id (evidence_of ?ms))"
    by (auto simp: list_all_iff evidence_of_def)
  have levels: "l < Medium \<longleftrightarrow> l \<notin> {Medium, High, Critical}" for l
    by (cases l) (simp_all add: less_risk_level_def)
  have delay: "opt_all (\<lambda>d. 0 \<le> delay_seconds d \<and> delay_seconds d \<le> 10) (deception_action_for l)"
    "deception_action_for l = None \<longleftrightarrow> l < Medium" "alert_action_for l ev = None \<longleftrightarrow> l < Medium" for l ev
    by (cases l; simp add: deception_action_for_def alert_action_for_def levels)+
  have "fst (classify_status features ?ms) = Complete \<Longrightarrow> snd (classify_status features ?ms) = None"
    by (auto simp: classify_status_def split: option.splits if_splits)
  then show ?thesis
    using False risk confidence evidence delay
    by (simp add: summary_ok_def summarize_rule_evaluation_def Let_def)
qed

theorem summary_within_bounds_witness:
  "summary_ok (summarize_rule_evaluation \<lparr>eval_version = lit ''1.0.0'', matched_rules = []\<rparr> None)"
proof (rule summary_within_bounds)
  show "rule_set_ok burst_rules" by code_simp
  show "evaluate_rules (extract_session_features ssh_record None) burst_rules =
      Done \<lparr>eval_version = lit ''1.0.0'', matched_rules = []\<rparr>"
    by code_simp
qed

end
