(* ===== verification/AlertGroups.thy ===== *)
theory AlertGroups
  imports Scoring
begin

text \<open>
  The grouping of alerts in \<open>classifier/alerts.py\<close>: which classified sessions send a
  message at once, which are held back and counted, and when the count goes out. The
  module's globals (\<open>_alert_groups\<close>, \<open>_alerted_session_ranks\<close>, \<open>_last_pruned_at\<close>) are the
  fields of \<open>alert_state\<close>; each function that runs under \<open>_grouping_lock\<close> is one step of
  it. The monotonic clock, the wall clock and the window are arguments. A running
  \<open>threading.Timer\<close> is the time it is due, kept in its group; its callback
  \<open>_send_follow_up\<close> is a step of its own, which may come at any time after that.
\<close>

section \<open>Thresholds and exclusions\<close>

definition RISK_LEVEL_ORDER :: "str list" where
  "RISK_LEVEL_ORDER = map lit [''critical'', ''high'', ''medium'', ''low'', ''none'']"

fun index_of :: "'a \<Rightarrow> 'a list \<Rightarrow> nat option" where
  "index_of x [] = None"
| "index_of x (y # ys) = (if x = y then Some 0 else map_option Suc (index_of x ys))"

definition risk_meets_threshold :: "str \<Rightarrow> str \<Rightarrow> bool" where
  "risk_meets_threshold level min_level =
     (case (index_of level RISK_LEVEL_ORDER, index_of min_level RISK_LEVEL_ORDER) of
        (Some i, Some j) \<Rightarrow> i \<le> j
      | _ \<Rightarrow> False)"

definition is_excluded_ip :: "str option \<Rightarrow> str option \<Rightarrow> bool" where
  "is_excluded_ip excluded ip =
     (case (excluded, ip) of
        (Some text, Some address) \<Rightarrow>
          text \<noteq> [] \<and> address \<noteq> [] \<and>
          strip address \<in> set (map strip (split_lines (replace_str [comma] [newline] text)))
      | _ \<Rightarrow> False)"

section \<open>State\<close>

type_synonym alert_item = "str option \<times> session_record \<times> classification_summary"

type_synonym alert_key = "str \<times> str \<times> str"

record alert_group =
  opened_at :: rat
  group_rank :: nat
  held :: nat
  last_held_at :: "rat option"
  latest :: "alert_item option"
  timer_due :: "rat option"

record alert_state =
  alert_groups :: "(alert_key \<times> alert_group) list"
  alerted_session_ranks :: "(str \<times> nat) list"
  last_pruned_at :: "rat option"

definition no_alerts :: alert_state where
  "no_alerts = \<lparr>alert_groups = [], alerted_session_ranks = [], last_pruned_at = None\<rparr>"

definition new_group :: "rat \<Rightarrow> nat \<Rightarrow> alert_group" where
  "new_group now rank = \<lparr>opened_at = now, group_rank = rank, held = 0, last_held_at = None,
     latest = None, timer_due = None\<rparr>"

definition MAX_TRACKED_SESSIONS :: nat where
  "MAX_TRACKED_SESSIONS = 10000"

definition PRUNE_INTERVAL_SECONDS :: rat where
  "PRUNE_INTERVAL_SECONDS = 60"

definition DEFAULT_REPEAT_MINUTES :: rat where
  "DEFAULT_REPEAT_MINUTES = 60"

text \<open>\<open>_repeat_window_seconds\<close>; \<open>to_float\<close> is Python's \<open>float\<close> on text it accepts.\<close>

definition repeat_window_seconds :: "(str \<Rightarrow> rat option) \<Rightarrow> str option \<Rightarrow> rat" where
  "repeat_window_seconds to_float setting =
     (let raw = strip (case setting of None \<Rightarrow> [] | Some text \<Rightarrow> text) in
      if raw = [] then DEFAULT_REPEAT_MINUTES * 60
      else case to_float raw of
        None \<Rightarrow> DEFAULT_REPEAT_MINUTES * 60
      | Some minutes \<Rightarrow> max minutes 0 * 60)"

definition lead_technique :: "classification_summary \<Rightarrow> str" where
  "lead_technique summary =
     (case sum_mitre_tags summary of
        tag # _ \<Rightarrow> tag
      | [] \<Rightarrow> (case sum_actor_label summary of None \<Rightarrow> [] | Some label \<Rightarrow> actor_name label))"

definition group_key :: "session_record \<Rightarrow> classification_summary \<Rightarrow> alert_key" where
  "group_key session summary =
     (rec_persona_id session, (case rec_peer_ip session of None \<Rightarrow> [] | Some ip \<Rightarrow> ip),
      lead_technique summary)"

section \<open>Deciding on one classified session\<close>

text \<open>\<open>while len(ranks) > max: popitem(last=False)\<close>.\<close>

fun evict_oldest :: "('k \<times> 'v) list \<Rightarrow> ('k \<times> 'v) list" where
  "evict_oldest [] = []"
| "evict_oldest (kv # d) = (if MAX_TRACKED_SESSIONS < length (kv # d) then evict_oldest d else kv # d)"

definition move_to_end :: "'k \<Rightarrow> ('k \<times> 'v) list \<Rightarrow> ('k \<times> 'v) list" where
  "move_to_end k d = filter (\<lambda>kv. fst kv \<noteq> k) d @ filter (\<lambda>kv. fst kv = k) d"

definition remember_rank :: "str \<Rightarrow> nat \<Rightarrow> alert_state \<Rightarrow> alert_state" where
  "remember_rank sid rank st =
     st\<lparr>alerted_session_ranks := evict_oldest (move_to_end sid (dict_put sid rank (alerted_session_ranks st)))\<rparr>"

definition prune_groups :: "rat \<Rightarrow> rat \<Rightarrow> alert_state \<Rightarrow> alert_state" where
  "prune_groups window now st =
     (if (case last_pruned_at st of None \<Rightarrow> True | Some t \<Rightarrow> PRUNE_INTERVAL_SECONDS \<le> now - t)
      then st\<lparr>last_pruned_at := Some now,
              alert_groups := filter (\<lambda>kg. \<not> (timer_due (snd kg) = None \<and> window \<le> now - opened_at (snd kg)))
                                (alert_groups st)\<rparr>
      else st)"

definition put_group :: "alert_key \<Rightarrow> alert_group \<Rightarrow> alert_state \<Rightarrow> alert_state" where
  "put_group k g st = st\<lparr>alert_groups := dict_put k g (alert_groups st)\<rparr>"

definition hold :: "rat \<Rightarrow> rat \<Rightarrow> rat \<Rightarrow> alert_item \<Rightarrow> alert_group \<Rightarrow> alert_group" where
  "hold window now wall item g =
     g\<lparr>held := held g + 1, last_held_at := Some wall, latest := Some item,
       timer_due := (case timer_due g of
           None \<Rightarrow> Some (now + max (opened_at g + window - now) 0)
         | Some due \<Rightarrow> Some due)\<rparr>"

definition already_alerted :: "alert_state \<Rightarrow> session_record \<Rightarrow> classification_summary \<Rightarrow> bool" where
  "already_alerted st session summary =
     (case dict_get (alerted_session_ranks st) (rec_session_id session) of
        None \<Rightarrow> False
      | Some previous \<Rightarrow> risk_rank (sum_risk_level summary) \<le> previous)"

definition opens_window :: "rat \<Rightarrow> rat \<Rightarrow> classification_summary \<Rightarrow> alert_group option \<Rightarrow> bool" where
  "opens_window window now summary prior =
     (case prior of
        None \<Rightarrow> True
      | Some g \<Rightarrow> window \<le> now - opened_at g \<or> group_rank g < risk_rank (sum_risk_level summary)
               \<or> sum_risk_level summary = Critical)"

text \<open>\<open>_alert_decision\<close>: the repeats to report with the alert, or \<open>None\<close> not to send it.\<close>

definition alert_decision ::
  "rat \<Rightarrow> rat \<Rightarrow> rat \<Rightarrow> alert_item \<Rightarrow> alert_state \<Rightarrow> nat option \<times> alert_state" where
  "alert_decision window now wall item st =
     (let session = fst (snd item); summary = snd (snd item); rank = risk_rank (sum_risk_level summary) in
      if already_alerted st session summary then (None, st)
      else let st1 = remember_rank (rec_session_id session) rank st in
        if window \<le> 0 then (Some 0, st1)
        else let st2 = prune_groups window now st1; key = group_key session summary;
                 prior = dict_get (alert_groups st2) key in
          if opens_window window now summary prior
          then (Some (case prior of None \<Rightarrow> 0 | Some g \<Rightarrow> held g), put_group key (new_group now rank) st2)
          else case prior of
            Some g \<Rightarrow> (None, put_group key (hold window now wall item g) st2)
          | None \<Rightarrow> (None, st2))"

text \<open>The part of \<open>_send_follow_up\<close> under the lock: what to send, if anything.\<close>

definition take_follow_up :: "rat \<Rightarrow> alert_key \<Rightarrow> alert_state \<Rightarrow>
    (nat \<times> rat option \<times> alert_item) option \<times> alert_state" where
  "take_follow_up now key st =
     (case dict_get (alert_groups st) key of
        None \<Rightarrow> (None, st)
      | Some g \<Rightarrow>
          if held g = 0 then (None, st)
          else case latest g of
            None \<Rightarrow> (None, st)
          | Some item \<Rightarrow>
              (Some (held g, last_held_at g, item), put_group key (new_group now (group_rank g)) st))"

text \<open>\<open>reset_alert_grouping\<close>.\<close>

definition reset_alert_grouping :: "alert_state \<Rightarrow> alert_state" where
  "reset_alert_grouping st = st\<lparr>alert_groups := [], alerted_session_ranks := [], last_pruned_at := None\<rparr>"

section \<open>Histories\<close>

text \<open>A session that reaches \<open>_alert_decision\<close>, with both clocks, or a timer's callback.\<close>

datatype alert_event =
    Classified rat rat "str option" session_record classification_summary
  | TimerFired rat alert_key

record alert_message =
  msg_at :: rat
  msg_key :: alert_key
  msg_rank :: nat
  msg_repeats :: nat
  msg_follow_up :: bool

fun alert_step :: "rat \<Rightarrow> alert_event \<Rightarrow> alert_state \<Rightarrow> alert_message list \<times> alert_state" where
  "alert_step window (Classified now wall run session summary) st =
     (case alert_decision window now wall (run, session, summary) st of
        (None, st') \<Rightarrow> ([], st')
      | (Some n, st') \<Rightarrow>
          ([\<lparr>msg_at = now, msg_key = group_key session summary, msg_rank = risk_rank (sum_risk_level summary),
             msg_repeats = n, msg_follow_up = False\<rparr>], st'))"
| "alert_step window (TimerFired now key) st =
     (case take_follow_up now key st of
        (None, st') \<Rightarrow> ([], st')
      | (Some (n, last_held, item), st') \<Rightarrow>
          ([\<lparr>msg_at = now, msg_key = key,
             msg_rank = (case dict_get (alert_groups st) key of None \<Rightarrow> 0 | Some g \<Rightarrow> group_rank g),
             msg_repeats = n, msg_follow_up = True\<rparr>], st'))"

fun alert_run :: "rat \<Rightarrow> alert_event list \<Rightarrow> alert_state \<Rightarrow> alert_message list \<times> alert_state" where
  "alert_run window [] st = ([], st)"
| "alert_run window (e # es) st =
     (case alert_step window e st of (ms, st') \<Rightarrow>
        (case alert_run window es st' of (ms', st'') \<Rightarrow> (ms @ ms', st'')))"

end
