(* ===== verification/Playbooks.thy ===== *)
theory Playbooks
  imports Prelude
begin

text \<open>
  The lookups of \<open>classifier/rules/issue_playbook.py\<close> and \<open>mitre_playbook.py\<close> over the loaded
  files, which are association lists here: the copy for one actor and technique, the readable
  name of an actor, and the entry of a technique with its generic fallback.
\<close>

record issue_fix_entry =
  entry_title :: str
  entry_recommended :: str
  impact_text :: str

record issue_playbook =
  mitre_technique_names :: "(str \<times> str) list"
  actor_label_names :: "(str \<times> str) list"
  issue_fixes :: "(str \<times> (str \<times> issue_fix_entry) list) list"

definition fix_for :: "issue_playbook \<Rightarrow> str \<Rightarrow> str \<Rightarrow> issue_fix_entry option" where
  "fix_for playbook actor tag =
     dict_get (case dict_get (issue_fixes playbook) actor of None \<Rightarrow> [] | Some by_tag \<Rightarrow> by_tag) tag"

text \<open>\<open>str.title\<close> of ASCII text: a letter after anything but a letter is upper case, any other letter
  lower case.\<close>

definition upper_letter :: "nat \<Rightarrow> nat" where
  "upper_letter c = (if 97 \<le> c \<and> c \<le> 122 then c - 32 else c)"

definition lower_ascii_letter :: "nat \<Rightarrow> nat" where
  "lower_ascii_letter c = (if 65 \<le> c \<and> c \<le> 90 then c + 32 else c)"

fun title_from :: "bool \<Rightarrow> str \<Rightarrow> str" where
  "title_from in_word [] = []"
| "title_from in_word (c # cs) =
     (if in_word then lower_ascii_letter c else upper_letter c) # title_from (is_ascii_letter c) cs"

definition actor_label_display :: "issue_playbook \<Rightarrow> str \<Rightarrow> str" where
  "actor_label_display playbook label =
     (case dict_get (actor_label_names playbook) label of
        Some name \<Rightarrow> name
      | None \<Rightarrow> title_from False (replace_str [underscore] [space] label))"

section \<open>Techniques\<close>

record raw_playbook_entry =
  raw_name :: str
  raw_fix :: str
  raw_impact :: str

record playbook_entry =
  entry_technique_id :: str
  entry_name :: str
  entry_fix :: str
  entry_impact :: str
  entry_is_fallback :: bool

definition GENERIC_FALLBACK_FIX :: str where
  "GENERIC_FALLBACK_FIX = lit (''Review the session evidence for this technique and triage manually; add '' @
     ''an entry to classifier/rules/mitre_playbook.yaml to automate this '' @ ''recommendation.'')"

definition GENERIC_FALLBACK_IMPACT :: str where
  "GENERIC_FALLBACK_IMPACT = lit ''Impact not yet documented for this technique in mitre_playbook.yaml.''"

definition get_playbook_entry ::
  "(str \<times> raw_playbook_entry) list \<Rightarrow> (str \<times> str) list \<Rightarrow> str \<Rightarrow> playbook_entry" where
  "get_playbook_entry technique_playbook catalog technique_id =
     (case dict_get technique_playbook technique_id of
        None \<Rightarrow> \<lparr>entry_technique_id = technique_id,
           entry_name = (case dict_get catalog technique_id of None \<Rightarrow> technique_id | Some name \<Rightarrow> name),
           entry_fix = GENERIC_FALLBACK_FIX, entry_impact = GENERIC_FALLBACK_IMPACT, entry_is_fallback = True\<rparr>
      | Some entry \<Rightarrow> \<lparr>entry_technique_id = technique_id, entry_name = raw_name entry, entry_fix = raw_fix entry,
           entry_impact = raw_impact entry, entry_is_fallback = False\<rparr>)"

end
