(* ===== verification/AlertMessages.thy ===== *)
theory AlertMessages
  imports AlertGroups ShellText Playbooks
begin

text \<open>
  The messages of \<open>classifier/alerts.py\<close>: who is to be told about a session, what an
  alert says as email, HTML and Slack text, how it is sent, the record kept of every
  attempt, and the one message per decoy for sessions stored late. The playbooks are their
  loaded tables.
  The database, the mail server, Slack and the geolocation database are fields of
  \<open>alert_env\<close>.
\<close>

section \<open>The world of the alerts\<close>

record alert_config =
  cfg_enabled :: bool
  cfg_smtp_host :: "str option"
  cfg_smtp_port :: int
  cfg_smtp_username :: "str option"
  cfg_smtp_from_email :: "str option"
  cfg_smtp_use_tls :: bool
  cfg_min_risk_level :: str
  cfg_excluded_ips :: "str option"

record persona_config =
  pc_routing :: str
  pc_min_risk_level :: "str option"
  pc_contact_email :: "str option"
  pc_slack_webhook :: "str option"

datatype tls_mode = Plaintext | Start_Tls | Implicit_Tls

record mail =
  mail_from :: str
  mail_to :: str
  mail_subject :: str
  mail_body :: str
  mail_html :: "str option"
  mail_tls :: tls_mode
  mail_login :: "(str \<times> str) option"

text \<open>The exceptions of the libraries the sender calls, by the most specific class.\<close>

datatype send_error = Gai_Error | Timed_Out | Connection_Refused | Other_OS_Error | Ssl_Error
  | Smtp_Authentication | Smtp_Not_Supported | Smtp_Sender_Refused | Smtp_Recipients_Refused
  | Smtp_Server_Disconnected | Smtp_Connect | Other_Smtp | Other_Error

datatype slack_reply = Slack_Status nat | Slack_HTTP_Error | Slack_Failed

datatype password_reply = Password "str option" | Password_Known_Error str | Password_Error

record alert_env =
  ae_config :: "alert_config option outcome"
  ae_persona :: "str \<Rightarrow> persona_config option outcome"
  ae_country :: "str \<Rightarrow> str option"
  ae_dashboard_url :: "str option"
  ae_playbook :: issue_playbook
  ae_technique_names :: "(str \<times> str) list"
  ae_technique_playbook :: "(str \<times> raw_playbook_entry) list"
  ae_password :: password_reply
  ae_smtp :: "mail \<Rightarrow> send_error option"
  ae_slack :: "str \<Rightarrow> str \<Rightarrow> slack_reply"
  ae_urls :: env

record alert_record =
  al_run_id :: "str option"
  al_session_id :: str
  al_persona_id :: str
  al_risk_level :: str
  al_actor_label :: "str option"
  al_channel :: str
  al_contact_email :: "str option"
  al_success :: bool
  al_error :: "str option"

text \<open>What leaves the process, in order.\<close>

datatype outgoing = Mailed mail | Posted str str | Recorded alert_record

section \<open>Names\<close>

fun risk_name :: "risk_level \<Rightarrow> str" where
  "risk_name No_Risk = lit ''none''"
| "risk_name Low = lit ''low''"
| "risk_name Medium = lit ''medium''"
| "risk_name High = lit ''high''"
| "risk_name Critical = lit ''critical''"

fun stage_name :: "behavior_stage \<Rightarrow> str" where
  "stage_name No_Stage = lit ''none''"
| "stage_name Discovery = lit ''discovery''"
| "stage_name Credential_Access = lit ''credential_access''"
| "stage_name Collection = lit ''collection''"
| "stage_name Execution = lit ''execution''"
| "stage_name Persistence_Stage = lit ''persistence''"

fun intent_name :: "intent \<Rightarrow> str" where
  "intent_name Unknown = lit ''unknown''"
| "intent_name Reconnaissance = lit ''reconnaissance''"
| "intent_name Credential_Theft = lit ''credential_theft''"
| "intent_name Data_Access = lit ''data_access''"
| "intent_name Interactive_Operation = lit ''interactive_operation''"
| "intent_name Vulnerability_Exploitation = lit ''vulnerability_exploitation''"
| "intent_name Payload_Delivery = lit ''payload_delivery''"
| "intent_name Persistence_Intent = lit ''persistence''"

text \<open>\<open>text[:1].upper() + text[1:]\<close> of the names above, which are ASCII.\<close>

definition capitalize_first :: "str \<Rightarrow> str" where
  "capitalize_first s = map (\<lambda>c. if 97 \<le> c \<and> c \<le> 122 then c - 32 else c) (take 1 s) @ drop 1 s"

definition humanize :: "str \<Rightarrow> str" where
  "humanize value =
     (if value = [] then lit ''Unknown''
      else capitalize_first (replace_str [underscore] [space] value))"

definition actor_display :: "alert_env \<Rightarrow> actor_label option \<Rightarrow> str" where
  "actor_display e label =
     (case label of
        None \<Rightarrow> lit ''Unclassified actor''
      | Some l \<Rightarrow>
          (case dict_get (actor_label_names (ae_playbook e)) (actor_name l) of
             None \<Rightarrow> humanize (actor_name l)
           | Some plural \<Rightarrow> if plural \<noteq> [] \<and> endswith plural (lit ''s'') then butlast plural
                            else humanize (actor_name l)))"

definition technique_display :: "alert_env \<Rightarrow> str \<Rightarrow> str" where
  "technique_display e tag =
     (case dict_get (ae_technique_names e) tag of
        None \<Rightarrow> tag
      | Some name \<Rightarrow> if name \<noteq> [] then tag @ lit '' '' @ name else tag)"

fun first_fix :: "issue_playbook \<Rightarrow> str \<Rightarrow> str list \<Rightarrow> str option" where
  "first_fix playbook actor [] = None"
| "first_fix playbook actor (tag # tags) =
     (case fix_for playbook actor tag of Some entry \<Rightarrow> Some (entry_recommended entry) | None \<Rightarrow> first_fix playbook actor tags)"

definition recommended_fix :: "alert_env \<Rightarrow> classification_summary \<Rightarrow> str option" where
  "recommended_fix e summary =
     (let actor = (case sum_actor_label summary of None \<Rightarrow> [] | Some l \<Rightarrow> actor_name l) in
      case first_fix (ae_playbook e) actor (sum_mitre_tags summary) of
        Some recommended \<Rightarrow> Some recommended
      | None \<Rightarrow>
          (case sum_mitre_tags summary of
             tag # _ \<Rightarrow> Some (entry_fix (get_playbook_entry (ae_technique_playbook e) (ae_technique_names e) tag))
           | [] \<Rightarrow> map_option rec_rationale (sum_recommendation summary)))"

section \<open>Links and times\<close>

definition DEFAULT_DASHBOARD_URL :: str where
  "DEFAULT_DASHBOARD_URL = lit ''http://127.0.0.1:8000''"

definition dashboard_base_url :: "alert_env \<Rightarrow> str" where
  "dashboard_base_url e =
     (let base = rstrip_if (\<lambda>c. c = slash) (strip (case ae_dashboard_url e of None \<Rightarrow> [] | Some u \<Rightarrow> u)) in
      if startswith base (lit ''http://'') \<or> startswith base (lit ''https://'') then base
      else DEFAULT_DASHBOARD_URL)"

text \<open>\<open>urllib.parse.quote\<close>: UTF-8 bytes, unreserved characters and "/" as they are.\<close>

definition quote_byte :: "nat \<Rightarrow> str" where
  "quote_byte b =
     (if is_ascii_alnum b \<or> b \<in> set (lit ''_.-~/'') then [b]
      else percent # map (\<lambda>d. if d < 10 then d + 48 else d + 55) [b div 16, b mod 16])"

definition url_quote :: "str \<Rightarrow> str" where
  "url_quote s = concat (map quote_byte (concat (map utf8_char s)))"

definition session_link :: "alert_env \<Rightarrow> str \<Rightarrow> str" where
  "session_link e sid = dashboard_base_url e @ lit ''/dashboard/sessions?session='' @ url_quote sid"

text \<open>\<open>datetime.fromtimestamp(t, timezone.utc)\<close>: whole microseconds, ties to even; then the
  date of the proleptic Gregorian calendar.\<close>

definition whole_seconds :: "rat \<Rightarrow> int" where
  "whole_seconds t = round_half_even (t * 1000000) div 1000000"

definition civil_from_days :: "int \<Rightarrow> int \<times> int \<times> int" where
  "civil_from_days days =
     (let z = days + 719468; era = z div 146097; doe = z mod 146097;
          yoe = (doe - doe div 1460 + doe div 36524 - doe div 146096) div 365;
          doy = doe - (365 * yoe + yoe div 4 - yoe div 100);
          mp = (5 * doy + 2) div 153;
          day = doy - (153 * mp + 2) div 5 + 1;
          month = (if mp < 10 then mp + 3 else mp - 9);
          year = yoe + era * 400 + (if month \<le> 2 then 1 else 0)
      in (year, month, day))"

definition two_digits :: "int \<Rightarrow> str" where
  "two_digits n = [nat (n div 10) + 48, nat (n mod 10) + 48]"

definition hour_minute :: "rat \<Rightarrow> str" where
  "hour_minute t =
     (let s = whole_seconds t mod 86400 in two_digits (s div 3600) @ [colon] @ two_digits (s mod 3600 div 60))"

definition MONTHS :: "str list" where
  "MONTHS = map lit [''Jan'', ''Feb'', ''Mar'', ''Apr'', ''May'', ''Jun'', ''Jul'', ''Aug'', ''Sep'', ''Oct'', ''Nov'', ''Dec'']"

text \<open>\<open>_utc_time\<close>; a year outside 1 to 9999 raises.\<close>

definition utc_time :: "rat \<Rightarrow> str outcome" where
  "utc_time t =
     (case civil_from_days (whole_seconds t div 86400) of
        (year, month, day) \<Rightarrow>
          if year < 1 \<or> 9999 < year then Raised (ValueError (lit ''year is out of range''))
          else Done (two_digits day @ [space] @ MONTHS ! nat (month - 1) @ [space]
            @ two_digits (year div 100) @ two_digits (year mod 100) @ lit '', '' @ hour_minute t))"

section \<open>What an alert says\<close>

record alert_content =
  con_subject :: str
  con_heading :: str
  con_fix :: "str option"
  con_fields :: "(str \<times> str) list"
  con_evidence :: "str list"

definition PROTOCOL_NAMES :: "(str \<times> str) list" where
  "PROTOCOL_NAMES = [(lit ''tcp_shell'', lit ''SSH''), (lit ''http'', lit ''HTTP''), (lit ''ftp'', lit ''FTP''),
     (lit ''telnet'', lit ''Telnet'')]"

definition protocol_name :: "str \<Rightarrow> str" where
  "protocol_name protocol = (case dict_get PROTOCOL_NAMES protocol of Some name \<Rightarrow> name | None \<Rightarrow> protocol)"

definition removeprefix :: "str \<Rightarrow> str \<Rightarrow> str" where
  "removeprefix s p = (if startswith s p then drop (length p) s else s)"

text \<open>How a message tells of the sessions held back: how many, when the last one was held, and
  whether it is the follow-up at the end of a window.\<close>

record grouping =
  repeats :: nat
  last_held :: "rat option"
  follow_up :: bool

definition alert_subject :: "str \<Rightarrow> str \<Rightarrow> str option \<Rightarrow> session_record \<Rightarrow> classification_summary \<Rightarrow> str" where
  "alert_subject risk actor ip session summary =
     lit ''[Echidra] '' @ risk @ lit ''-risk '' @
     (if sum_actor_label summary \<noteq> None then lower (take 1 actor) @ drop 1 actor else lit ''session'') @
     (case ip of None \<Rightarrow> [] | Some a \<Rightarrow> lit '' from '' @ a) @
     lit '' on '' @ rec_persona_id session @
     (if sum_mitre_tags summary \<noteq> []
      then lit '' ('' @ join (lit '', '') (take 2 (sum_mitre_tags summary)) @ lit '')'' else [])"

definition alert_fields ::
  "alert_env \<Rightarrow> str \<Rightarrow> str \<Rightarrow> str option \<Rightarrow> session_record \<Rightarrow> classification_summary \<Rightarrow> (str \<times> str) list" where
  "alert_fields e risk actor ip session summary =
     (let country = Option.bind ip (ae_country e);
          source = (case ip of None \<Rightarrow> lit ''Unknown'' | Some a \<Rightarrow> a) @
            (case (ip, country) of
               (Some _, Some c) \<Rightarrow> if c \<noteq> [] then lit '' ('' @ c @ lit '')'' else []
             | _ \<Rightarrow> []);
          techniques = join (lit '', '') (map (technique_display e) (sum_mitre_tags summary))
      in [(lit ''Actor'', actor),
          (lit ''Risk'', risk @ lit '' ('' @ str_of_int (sum_risk_score summary) @ lit ''/100)''),
          (lit ''Behavior'', humanize (stage_name (sum_behavior_stage summary))),
          (lit ''Intent'', humanize (intent_name (sum_intent summary))),
          (lit ''Source IP'', source),
          (lit ''Decoy'', rec_persona_id session @ lit '' ('' @ protocol_name (rec_protocol session) @ lit '')''),
          (lit ''Techniques'', if techniques \<noteq> [] then techniques else lit ''None mapped''),
          (lit ''Session'', rec_session_id session),
          (lit ''Open'', session_link e (rec_session_id session))])"

definition more_sessions :: "nat \<Rightarrow> str" where
  "more_sessions n = str_of_nat n @ lit '' more session'' @ (if n \<noteq> 1 then lit ''s'' else []) @ lit '' like this''"

definition alert_content_of ::
  "alert_env \<Rightarrow> session_record \<Rightarrow> classification_summary \<Rightarrow> grouping \<Rightarrow> alert_content" where
  "alert_content_of e session summary gr =
     (let risk = humanize (risk_name (sum_risk_level summary));
          actor = actor_display e (sum_actor_label summary);
          ip = (case rec_peer_ip session of Some a \<Rightarrow> if a \<noteq> [] then Some a else None | None \<Rightarrow> None);
          subject = alert_subject risk actor ip session summary;
          details = alert_fields e risk actor ip session summary;
          heading = lit ''Echidra alert: '' @ lower risk @ lit ''-risk session'';
          more_text = more_sessions (repeats gr);
          repeat_text = more_text @ lit '' from this source since the last alert'' @
            (case last_held gr of None \<Rightarrow> [] | Some t \<Rightarrow> lit '', the last at '' @ hour_minute t @ lit '' UTC'');
          told = 0 < repeats gr; follows = told \<and> follow_up gr
      in \<lparr>con_subject = (if follows
             then lit ''[Echidra] '' @ more_text @ lit '': '' @ removeprefix subject (lit ''[Echidra] '') else subject),
          con_heading = (if follows then lit ''Echidra alert: '' @ more_text else heading),
          con_fix = recommended_fix e summary,
          con_fields = (if told then take 5 details @ [(lit ''Repeats'', repeat_text)] @ drop 5 details else details),
          con_evidence = map item_text (sum_evidence summary)\<rparr>)"

section \<open>HTML\<close>

definition html_escape :: "str \<Rightarrow> str" where
  "html_escape value =
     replace_str [greater_than] (lit ''&gt;'')
       (replace_str [less_than] (lit ''&lt;'') (replace_str [ampersand] (lit ''&amp;'') value))"

text \<open>\<open>html.escape(value, quote=True)\<close>.\<close>

definition html_escape_quoted :: "str \<Rightarrow> str" where
  "html_escape_quoted value =
     replace_str [squote] (lit ''&#x27;'') (replace_str [dquote] (lit ''&quot;'') (html_escape value))"

definition LINK_FIELD_TEXT :: "(str \<times> str) list" where
  "LINK_FIELD_TEXT = [(lit ''Open'', lit ''Open this session in the dashboard''),
     (lit ''Review'', lit ''Open the Sessions page'')]"

definition html_cell :: "str \<Rightarrow> str \<Rightarrow> str" where
  "html_cell label value =
     (case dict_get LINK_FIELD_TEXT label of
        Some shown \<Rightarrow> lit ''<a href='' @ [dquote] @ html_escape_quoted value @ [dquote] @ lit ''>'' @ shown @ lit ''</a>''
      | None \<Rightarrow> html_escape value)"

definition html_attr :: "string \<Rightarrow> str" where
  "html_attr style = lit '' style='' @ [dquote] @ lit style @ [dquote]"

definition html_field_rows :: "(str \<times> str) list \<Rightarrow> str" where
  "html_field_rows rows =
     join [newline] (map (\<lambda>(label, value).
       lit ''<tr><td'' @ html_attr ''padding:4px 12px 4px 0;color:#555;'' @ lit ''><b>'' @ html_escape label @
       lit ''</b></td>'' @ lit ''<td'' @ html_attr ''padding:4px 0;'' @ lit ''>'' @ html_cell label value @
       lit ''</td></tr>'') rows)"

definition html_fix :: "str \<Rightarrow> str" where
  "html_fix fix_text =
     lit ''<p'' @ html_attr ''margin:0 0 16px;padding:10px 12px;background:#f4f6f8;border-left:3px solid #111;'' @
     lit ''><b>What to do:</b> '' @ html_escape fix_text @ lit ''</p>''"

definition html_open :: "str \<Rightarrow> str" where
  "html_open heading =
     lit ''<div'' @ html_attr ''font-family:sans-serif;font-size:14px;color:#111;'' @ lit ''>'' @
     lit ''<h2'' @ html_attr ''margin:0 0 12px;'' @ lit ''>'' @ html_escape heading @ lit ''</h2>''"

definition html_table :: "(str \<times> str) list \<Rightarrow> str" where
  "html_table rows =
     lit ''<table cellspacing='' @ [dquote] @ lit ''0'' @ [dquote] @ lit '' cellpadding='' @ [dquote] @ lit ''0'' @ [dquote] @
     lit ''>'' @ html_field_rows rows @ lit ''</table>''"

definition evidence_shown :: "alert_content \<Rightarrow> str list" where
  "evidence_shown c = (if con_evidence c \<noteq> [] then con_evidence c else [lit ''None recorded.''])"

definition fix_shown :: "alert_content \<Rightarrow> str option" where
  "fix_shown c = (case con_fix c of Some f \<Rightarrow> if f \<noteq> [] then Some f else None | None \<Rightarrow> None)"

definition alert_html :: "alert_content \<Rightarrow> str" where
  "alert_html c =
     html_open (con_heading c) @
     (case fix_shown c of None \<Rightarrow> [] | Some f \<Rightarrow> html_fix f) @
     html_table (con_fields c) @
     lit ''<p'' @ html_attr ''margin:16px 0 4px;'' @ lit ''><b>Evidence</b></p>'' @
     lit ''<ul'' @ html_attr ''margin:4px 0;padding-left:20px;'' @ lit ''>'' @
     concat (map (\<lambda>item. lit ''<li>'' @ html_escape item @ lit ''</li>'') (evidence_shown c)) @
     lit ''</ul></div>''"

definition text_fields :: "(str \<times> str) list \<Rightarrow> str" where
  "text_fields rows = join [newline] (map (\<lambda>(label, value). pad_right 12 (label @ [colon]) @ value) rows)"

definition alert_text :: "alert_content \<Rightarrow> str" where
  "alert_text c =
     con_heading c @ [newline, newline] @
     (case fix_shown c of None \<Rightarrow> [] | Some f \<Rightarrow> lit ''What to do: '' @ f @ [newline, newline]) @
     text_fields (con_fields c) @ [newline, newline] @ lit ''Evidence:'' @ [newline] @
     join [newline] (map (\<lambda>item. lit ''  - '' @ item) (evidence_shown c)) @ [newline]"

definition slack_field :: "(str \<times> str) list \<Rightarrow> str \<times> str \<Rightarrow> str" where
  "slack_field links = (\<lambda>(label, value).
     (case dict_get links label of
        Some shown \<Rightarrow> [less_than] @ value @ lit ''|'' @ shown @ [greater_than]
      | None \<Rightarrow> label @ lit '': '' @ value))"

definition alert_slack_text :: "alert_content \<Rightarrow> str" where
  "alert_slack_text c =
     lit ''*'' @ con_subject c @ lit ''*'' @ [newline] @
     (case fix_shown c of None \<Rightarrow> [] | Some f \<Rightarrow> lit ''*What to do:* '' @ f @ [newline]) @
     join [newline] (map (slack_field [(lit ''Open'', lit ''Open this session in the dashboard'')]) (con_fields c)) @
     [newline] @ lit ''Evidence:'' @ [newline] @
     join [newline] (map (\<lambda>item. lit ''- '' @ item) (evidence_shown c))"

section \<open>Sending\<close>

definition SLACK_REJECTED :: str where
  "SLACK_REJECTED = lit (''Slack didn't accept the message. Check the webhook URL; if the webhook '' @
     ''was removed in Slack, create a new one.'')"

definition SLACK_ONLY :: str where
  "SLACK_ONLY = lit ''Slack webhook URLs must start with https://hooks.slack.com/.''"

definition SLACK_UNREACHABLE :: str where
  "SLACK_UNREACHABLE = lit ''Can't reach Slack. Check this server's internet connection, then try again.''"

text \<open>The scheme, path and query of \<open>urlsplit(url)\<close>; the checks on the network location are
  those of \<open>urlsplit_hostname\<close>.\<close>

definition url_scheme :: "str \<Rightarrow> str" where
  "url_scheme url =
     (case partition_at colon (clean_url url) of
        (scheme, Some rest) \<Rightarrow>
          if scheme \<noteq> [] \<and> is_ascii_letter (hd scheme) \<and> list_all is_scheme_char scheme then lower scheme else []
      | (_, None) \<Rightarrow> [])"

definition url_path_query :: "str \<Rightarrow> str \<times> str" where
  "url_path_query url =
     (let rest = drop_scheme (clean_url url);
          tail = (if startswith rest (lit ''//'') then drop (2 + length (netloc_of rest)) rest else rest);
          (before, query) = partition_at question (fst (partition_at 35 tail))
      in (before, case query of None \<Rightarrow> [] | Some q \<Rightarrow> q))"

text \<open>\<open>urlunsplit(("https", "hooks.slack.com", path, query, ""))\<close>.\<close>

definition slack_url :: "str \<Rightarrow> str \<Rightarrow> str" where
  "slack_url p query =
     lit ''https://hooks.slack.com'' @ (if p \<noteq> [] \<and> \<not> startswith p [slash] then slash # p else p) @
     (if query \<noteq> [] then question # query else [])"

text \<open>\<open>_slack_post\<close>: what is posted, and the error text if it fails.\<close>

definition slack_post :: "alert_env \<Rightarrow> str \<Rightarrow> str \<Rightarrow> (outgoing list \<times> str option) outcome" where
  "slack_post e webhook text =
     (case urlsplit_hostname (ae_urls e) webhook of
        Raised x \<Rightarrow> Raised x
      | Done host \<Rightarrow>
          if url_scheme webhook \<noteq> lit ''https'' \<or> host \<noteq> Some (lit ''hooks.slack.com'')
          then Done ([], Some SLACK_ONLY)
          else (case url_path_query webhook of (p, query) \<Rightarrow>
            let url = slack_url p query in
            Done ([Posted url text],
              (case ae_slack e url text of
                 Slack_Status status \<Rightarrow> if 300 \<le> status then Some SLACK_REJECTED else None
               | Slack_HTTP_Error \<Rightarrow> Some SLACK_REJECTED
               | Slack_Failed \<Rightarrow> Some SLACK_UNREACHABLE))))"

definition is_smtp_exception :: "send_error \<Rightarrow> bool" where
  "is_smtp_exception x \<longleftrightarrow> x \<in> {Smtp_Authentication, Smtp_Not_Supported, Smtp_Sender_Refused,
     Smtp_Recipients_Refused, Smtp_Server_Disconnected, Smtp_Connect, Other_Smtp}"

definition is_os_error :: "send_error \<Rightarrow> bool" where
  "is_os_error x \<longleftrightarrow> x \<noteq> Other_Error"

definition smtp_error_message :: "send_error \<Rightarrow> alert_config \<Rightarrow> str" where
  "smtp_error_message x c =
     (let host = (case cfg_smtp_host c of None \<Rightarrow> lit ''None'' | Some h \<Rightarrow> h);
          server = host @ [colon] @ str_of_int (cfg_smtp_port c) in
      if x = Gai_Error
      then lit ''Can't find the SMTP server '' @ host @ lit (''. Check the SMTP host and '' @
        ''this server's internet connection, then try again.'')
      else if x = Timed_Out
      then lit ''The SMTP server '' @ server @ lit ('' didn't answer in time. Check the host and port, '' @
        ''and this server's internet connection, then try again.'')
      else if x = Connection_Refused
      then lit ''The SMTP server '' @ server @ lit '' refused the connection. Check the host and port.''
      else if x = Smtp_Authentication
      then lit (''The SMTP server rejected the username or password. Check both; many '' @
        ''providers need an app password.'')
      else if x \<in> {Ssl_Error, Smtp_Not_Supported}
      then lit (''Couldn't start a secure connection. Check the port (usually 587, or 465) '' @
        ''and the Use TLS setting.'')
      else if x \<in> {Smtp_Sender_Refused, Smtp_Recipients_Refused}
      then lit ''The SMTP server refused the address. Use a From email this account may send from.''
      else if x = Smtp_Server_Disconnected
      then lit (''The SMTP server closed the connection before the email was sent. Check the '' @
        ''username, password, port and Use TLS setting, then try again in a few minutes.'')
      else if x = Smtp_Connect \<or> is_os_error x \<and> \<not> is_smtp_exception x
      then lit ''Can't reach the SMTP server '' @ server @ lit (''. Check the host and port, and this '' @
        ''server's internet connection, then try again.'')
      else lit ''The SMTP server couldn't send the email. Check your SMTP settings; the log has the details.'')"

definition given :: "str option \<Rightarrow> bool" where
  "given x \<longleftrightarrow> x \<noteq> None \<and> x \<noteq> Some []"

definition smtp_tls_mode :: "alert_config \<Rightarrow> tls_mode" where
  "smtp_tls_mode c =
     (if \<not> cfg_smtp_use_tls c then Plaintext else if cfg_smtp_port c = 465 then Implicit_Tls else Start_Tls)"

definition smtp_send ::
  "alert_env \<Rightarrow> alert_config \<Rightarrow> str \<Rightarrow> str \<Rightarrow> str \<Rightarrow> str option \<Rightarrow> outgoing list \<times> str option" where
  "smtp_send e c recipient subject body html =
     (if \<not> given (cfg_smtp_host c) then ([], Some (lit ''SMTP host isn't set.''))
      else
        let send = (\<lambda>login.
          let m = \<lparr>mail_from = (if given (cfg_smtp_from_email c) then the (cfg_smtp_from_email c) else the (cfg_smtp_host c)),
                   mail_to = recipient, mail_subject = subject, mail_body = body,
                   mail_html = (if given html then html else None),
                   mail_tls = smtp_tls_mode c, mail_login = login\<rparr>
          in ([Mailed m], map_option (\<lambda>x. smtp_error_message x c) (ae_smtp e m)))
        in if given (cfg_smtp_username c)
        then (case ae_password e of
                Password_Known_Error why \<Rightarrow> ([], Some (lit ''Couldn't load SMTP credentials: '' @ why))
              | Password_Error \<Rightarrow> ([], Some (lit ''Couldn't load SMTP credentials.''))
              | Password password \<Rightarrow>
                  if \<not> given password
                  then ([], Some (lit ''An SMTP username is set but no SMTP password is saved.''))
                  else send (Some (the (cfg_smtp_username c), the password)))
        else send None)"

definition build_alert_event ::
  "alert_item \<Rightarrow> str \<Rightarrow> str option \<Rightarrow> str option \<Rightarrow> alert_record" where
  "build_alert_event item channel contact_email error_text =
     (case item of (run, session, summary) \<Rightarrow>
        \<lparr>al_run_id = run, al_session_id = rec_session_id session, al_persona_id = rec_persona_id session,
         al_risk_level = risk_name (sum_risk_level summary),
         al_actor_label = map_option actor_name (sum_actor_label summary),
         al_channel = channel, al_contact_email = contact_email,
         al_success = (error_text = None), al_error = error_text\<rparr>)"

section \<open>Dispatch\<close>

definition routes_to :: "persona_config \<Rightarrow> string \<Rightarrow> bool" where
  "routes_to pc channel \<longleftrightarrow> pc_routing pc \<in> {lit channel, lit ''both''}"

text \<open>
  The body shared by \<open>_dispatch_alerts\<close> and \<open>_dispatch_catch_up_alert\<close>: each configured
  channel is tried and its attempt recorded. A webhook whose text \<open>urlsplit\<close> refuses raises after
  the email has gone out.
\<close>

definition dispatch_channels ::
  "alert_env \<Rightarrow> alert_config \<Rightarrow> persona_config \<Rightarrow> alert_item \<Rightarrow> str \<Rightarrow> str \<Rightarrow> str \<Rightarrow> str \<Rightarrow> outgoing list" where
  "dispatch_channels e c pc item subject body html slack_text =
     (if routes_to pc ''email'' \<and> given (pc_contact_email pc)
      then (case smtp_send e c (the (pc_contact_email pc)) subject body (Some html) of
              (out, err) \<Rightarrow> out @ [Recorded (build_alert_event item (lit ''email'') (pc_contact_email pc) err)])
      else []) @
     (if routes_to pc ''slack'' \<and> given (pc_slack_webhook pc)
      then (case slack_post e (the (pc_slack_webhook pc)) slack_text of
              Raised x \<Rightarrow> []
            | Done (out, err) \<Rightarrow> out @ [Recorded (build_alert_event item (lit ''slack'') None err)])
      else [])"

definition dispatch_alerts ::
  "alert_env \<Rightarrow> alert_config \<Rightarrow> persona_config \<Rightarrow> alert_item \<Rightarrow> grouping \<Rightarrow> outgoing list" where
  "dispatch_alerts e c pc item gr =
     (let content = alert_content_of e (fst (snd item)) (snd (snd item)) gr in
      dispatch_channels e c pc item (con_subject content) (alert_text content) (alert_html content)
        (alert_slack_text content))"

text \<open>\<open>_alert_targets\<close>.\<close>

definition alert_targets ::
  "alert_env \<Rightarrow> session_record \<Rightarrow> classification_summary \<Rightarrow> (alert_config \<times> persona_config) option outcome" where
  "alert_targets e session summary =
     (case ae_config e of
        Raised x \<Rightarrow> Raised x
      | Done None \<Rightarrow> Done None
      | Done (Some c) \<Rightarrow>
          if \<not> cfg_enabled c \<or> is_excluded_ip (cfg_excluded_ips c) (rec_peer_ip session) then Done None
          else case ae_persona e (rec_persona_id session) of
            Raised x \<Rightarrow> Raised x
          | Done None \<Rightarrow> Done None
          | Done (Some pc) \<Rightarrow>
              if pc_routing pc = lit ''none'' then Done None
              else if \<not> risk_meets_threshold (risk_name (sum_risk_level summary))
                     (if given (pc_min_risk_level pc) then the (pc_min_risk_level pc) else cfg_min_risk_level c)
              then Done None
              else Done (Some (c, pc)))"

text \<open>\<open>_maybe_send_alert\<close>, with every exception caught; \<open>_send_follow_up\<close>.\<close>

definition maybe_send_alert ::
  "alert_env \<Rightarrow> rat \<Rightarrow> rat \<Rightarrow> rat \<Rightarrow> alert_item \<Rightarrow> alert_state \<Rightarrow> outgoing list \<times> alert_state" where
  "maybe_send_alert e window now wall item st =
     (if sum_alert_action (snd (snd item)) = None then ([], st)
      else case alert_targets e (fst (snd item)) (snd (snd item)) of
        Done (Some (c, pc)) \<Rightarrow>
          (case alert_decision window now wall item st of
             (None, st') \<Rightarrow> ([], st')
           | (Some n, st') \<Rightarrow>
               (dispatch_alerts e c pc item \<lparr>repeats = n, last_held = None, follow_up = False\<rparr>, st'))
      | _ \<Rightarrow> ([], st))"

definition send_follow_up :: "alert_env \<Rightarrow> rat \<Rightarrow> alert_key \<Rightarrow> alert_state \<Rightarrow> outgoing list \<times> alert_state" where
  "send_follow_up e now key st =
     (case take_follow_up now key st of
        (None, st') \<Rightarrow> ([], st')
      | (Some (n, t, item), st') \<Rightarrow>
          ((case alert_targets e (fst (snd item)) (snd (snd item)) of
              Done (Some (c, pc)) \<Rightarrow>
                dispatch_alerts e c pc item \<lparr>repeats = n, last_held = t, follow_up = True\<rparr>
            | _ \<Rightarrow> []), st'))"

section \<open>Sessions stored late\<close>

definition by_risk :: "alert_item list \<Rightarrow> alert_item list" where
  "by_risk items = sort_key (\<lambda>item. - int (risk_rank (sum_risk_level (snd (snd item))))) items"

definition risk_counts :: "alert_item list \<Rightarrow> str" where
  "risk_counts items =
     (let count = (\<lambda>level. length (filter (\<lambda>item. risk_name (sum_risk_level (snd (snd item))) = level) items)) in
      join (lit '', '') (map (\<lambda>level. humanize level @ [space] @ str_of_nat (count level))
        (filter (\<lambda>level. 0 < count level) RISK_LEVEL_ORDER)))"

definition catch_up_fix :: "risk_level \<Rightarrow> str" where
  "catch_up_fix worst =
     lit ''Review them on the Sessions page, starting with the '' @ lower (humanize (risk_name worst)) @
     lit (''-risk ones. '' @ ''They weren't alerted on one by one because they couldn't be stored when '' @
       ''they ended (the database was unreachable, or Echidra was stopping).'')"

text \<open>\<open>_catch_up_content\<close> for a non-empty list of one decoy's sessions.\<close>

definition catch_up_content :: "alert_env \<Rightarrow> alert_item list \<Rightarrow> alert_content outcome" where
  "catch_up_content e items =
     (let worst = hd (by_risk items);
          persona = rec_persona_id (fst (snd worst));
          count = str_of_nat (length items);
          noun = (if length items = 1 then lit ''session'' else lit ''sessions'');
          started = Min (set (map (\<lambda>item. rec_started_at (fst (snd item))) items));
          ended = Max (set (map (\<lambda>item. rec_ended_at (fst (snd item))) items))
      in case (utc_time started, utc_time ended) of
           (Done t1, Done t2) \<Rightarrow>
             Done \<lparr>con_subject = lit ''[Echidra] '' @ count @ [space] @ noun @ lit '' stored late on '' @ persona,
               con_heading = lit ''Echidra: '' @ count @ [space] @ noun @ lit '' stored late'',
               con_fix = Some (catch_up_fix (sum_risk_level (snd (snd worst)))),
               con_fields =
                 [(lit ''Decoy'', persona),
                  (lit ''Captured'', t1 @ lit '' to '' @ t2 @ lit '' UTC''),
                  (lit ''Sessions'', count @ lit '' at or above this decoy's alert level''),
                  (lit ''By risk'', risk_counts items),
                  (lit ''Review'', dashboard_base_url e @ lit ''/dashboard/sessions'')],
               con_evidence = []\<rparr>
         | (Raised x, _) \<Rightarrow> Raised x
         | (_, Raised x) \<Rightarrow> Raised x)"

definition catch_up_html :: "alert_content \<Rightarrow> str" where
  "catch_up_html c = html_open (con_heading c) @
     (case con_fix c of None \<Rightarrow> [] | Some f \<Rightarrow> html_fix f) @ html_table (con_fields c) @ lit ''</div>''"

definition catch_up_text :: "alert_content \<Rightarrow> str" where
  "catch_up_text c = con_heading c @ [newline, newline] @
     (case con_fix c of None \<Rightarrow> [] | Some f \<Rightarrow> lit ''What to do: '' @ f @ [newline, newline]) @
     text_fields (con_fields c) @ [newline]"

definition catch_up_slack_text :: "alert_content \<Rightarrow> str" where
  "catch_up_slack_text c = lit ''*'' @ con_subject c @ lit ''*'' @ [newline] @
     (case con_fix c of None \<Rightarrow> [] | Some f \<Rightarrow> lit ''*What to do:* '' @ f @ [newline]) @
     join [newline] (map (slack_field LINK_FIELD_TEXT) (con_fields c))"

definition dispatch_catch_up_alert ::
  "alert_env \<Rightarrow> alert_config \<Rightarrow> persona_config \<Rightarrow> alert_item list \<Rightarrow> outgoing list" where
  "dispatch_catch_up_alert e c pc items =
     (case catch_up_content e items of
        Raised x \<Rightarrow> []
      | Done content \<Rightarrow>
          dispatch_channels e c pc (hd (by_risk items)) (con_subject content) (catch_up_text content)
            (catch_up_html content) (catch_up_slack_text content))"

text \<open>The sessions of each decoy that would have alerted, with the decoy's latest settings.\<close>

type_synonym late_alerts = "(str \<times> (alert_config \<times> persona_config) \<times> alert_item list) list"

definition note_late :: "alert_env \<Rightarrow> alert_item \<Rightarrow> late_alerts \<Rightarrow> late_alerts" where
  "note_late e item late =
     (if sum_alert_action (snd (snd item)) = None then late
      else case alert_targets e (fst (snd item)) (snd (snd item)) of
        Done (Some targets) \<Rightarrow>
          (let persona = rec_persona_id (fst (snd item));
               earlier = (case dict_get late persona of None \<Rightarrow> [] | Some (_, items) \<Rightarrow> items)
           in dict_put persona (targets, earlier @ [item]) late)
      | _ \<Rightarrow> late)"

definition late_alerts_of :: "alert_env \<Rightarrow> alert_item list \<Rightarrow> late_alerts" where
  "late_alerts_of e stored = fold (note_late e) stored []"

definition send_catch_up_alerts :: "alert_env \<Rightarrow> alert_item list \<Rightarrow> outgoing list" where
  "send_catch_up_alerts e stored =
     concat (map (\<lambda>(_, (c, pc), items). dispatch_catch_up_alert e c pc items) (late_alerts_of e stored))"

end
