(* ===== verification/Storage.thy ===== *)
theory Storage
  imports AlertMessages
begin

text \<open>
  The classifier's side of \<open>classifier/storage/repository.py\<close> that stores one classified
  session: the rows of each table, the statements of one run in the order they are executed,
  the upsert that counts sessions of an address, and the saving of a run, unconditionally or
  only when the session has none. PostgreSQL is the state it keeps: the tables are lists of
  rows, a transaction either applies all of its statements or fails, and \<open>db_faults\<close> says
  in advance which transactions fail, how, and whether the server had committed before the
  client saw the failure. As documented for psycopg, a text parameter with a NUL character
  is refused.
\<close>

section \<open>Database errors\<close>

text \<open>A psycopg error, by whether it is an \<open>OperationalError\<close> and its SQLSTATE, or an error
  raised before any statement.\<close>

datatype db_error = Psycopg_Error bool "str option" | Driver_Missing | Not_Configured | Program_Error exn

definition DATABASE_BUSY_SQLSTATES :: "str list" where
  "DATABASE_BUSY_SQLSTATES = map lit [''57014'', ''40P01'', ''55P03'']"

definition sqlstate_of :: "db_error \<Rightarrow> str option" where
  "sqlstate_of x = (case x of Psycopg_Error operational code \<Rightarrow> code | _ \<Rightarrow> None)"

definition is_database_busy :: "db_error \<Rightarrow> bool" where
  "is_database_busy x \<longleftrightarrow> (case sqlstate_of x of None \<Rightarrow> False | Some code \<Rightarrow> code \<in> set DATABASE_BUSY_SQLSTATES)"

definition is_database_unavailable :: "db_error \<Rightarrow> bool" where
  "is_database_unavailable x \<longleftrightarrow>
     (case x of Psycopg_Error operational code \<Rightarrow> operational \<and> \<not> is_database_busy x | _ \<Rightarrow> False)"

definition is_database_disk_full :: "db_error \<Rightarrow> bool" where
  "is_database_disk_full x \<longleftrightarrow> sqlstate_of x = Some (lit ''53100'')"

section \<open>Rows\<close>

record session_row =
  row_protocol :: str
  row_peer_ip :: "str option"
  row_peer_port :: "int option"
  row_latitude :: "rat option"
  row_longitude :: "rat option"
  row_country :: "str option"
  row_persona_id :: str
  row_started_at :: rat
  row_ended_at :: rat
  row_end_reason :: str

record event_row =
  evr_session_id :: str
  evr_index :: nat
  evr_type :: str
  evr_value :: str
  evr_observed_at :: "rat option"

record signal_row =
  sig_run_id :: str
  sig_index :: nat
  sig_type :: str
  sig_key :: str
  sig_value :: str

text \<open>\<open>ClassifierRunRecord\<close>: the id and what \<open>from_session_summary\<close> copies from.\<close>

record run_record =
  run_id :: str
  run_session :: session_record
  run_summary :: classification_summary

datatype statement =
    Delete_Session_Events str
  | Upsert_Session str session_row
  | Insert_Session_Event event_row
  | Insert_Classifier_Run run_record
  | Insert_Classifier_Signal signal_row
  | Insert_Issue_Sync_Queue str

record database =
  db_sessions :: "(str \<times> session_row) list"
  db_events :: "event_row list"
  db_runs :: "run_record list"
  db_signals :: "signal_row list"
  db_sync_queue :: "str list"
  db_now :: rat
  db_faults :: "(bool \<times> db_error) option list"

text \<open>What the storage code gets from outside: the geolocation database, fresh ids and
  Python's text of a float.\<close>

record storage_env =
  se_geo :: "str \<Rightarrow> str option \<times> rat option \<times> rat option"
  se_run_id :: "nat \<Rightarrow> str"
  se_float :: "rat \<Rightarrow> str"

subsection \<open>Executing statements\<close>

fun execute_statement :: "statement \<Rightarrow> database \<Rightarrow> database" where
  "execute_statement (Delete_Session_Events sid) db =
     db\<lparr>db_events := filter (\<lambda>r. evr_session_id r \<noteq> sid) (db_events db)\<rparr>"
| "execute_statement (Upsert_Session sid row) db = db\<lparr>db_sessions := dict_put sid row (db_sessions db)\<rparr>"
| "execute_statement (Insert_Session_Event row) db = db\<lparr>db_events := db_events db @ [row]\<rparr>"
| "execute_statement (Insert_Classifier_Run run) db = db\<lparr>db_runs := db_runs db @ [run]\<rparr>"
| "execute_statement (Insert_Classifier_Signal row) db = db\<lparr>db_signals := db_signals db @ [row]\<rparr>"
| "execute_statement (Insert_Issue_Sync_Queue rid) db = db\<lparr>db_sync_queue := List.insert rid (db_sync_queue db)\<rparr>"

definition opt_texts :: "str option \<Rightarrow> str list" where
  "opt_texts x = (case x of None \<Rightarrow> [] | Some s \<Rightarrow> [s])"

fun statement_texts :: "statement \<Rightarrow> str list" where
  "statement_texts (Delete_Session_Events sid) = [sid]"
| "statement_texts (Upsert_Session sid row) =
     [sid, row_protocol row, row_persona_id row, row_end_reason row] @ opt_texts (row_peer_ip row) @ opt_texts (row_country row)"
| "statement_texts (Insert_Session_Event row) = [evr_session_id row, evr_type row, evr_value row]"
| "statement_texts (Insert_Classifier_Run run) =
     [run_id run, rec_session_id (run_session run)] @ opt_texts (sum_insufficient_reason (run_summary run))"
| "statement_texts (Insert_Classifier_Signal row) = [sig_run_id row, sig_type row, sig_key row, sig_value row]"
| "statement_texts (Insert_Issue_Sync_Queue rid) = [rid]"

definition refused :: "statement list \<Rightarrow> bool" where
  "refused statements \<longleftrightarrow> list_ex (\<lambda>st. list_ex (\<lambda>s. 0 \<in> set s) (statement_texts st)) statements"

text \<open>One transaction. \<open>next_fault\<close> takes the environment's decision about it.\<close>

definition next_fault :: "database \<Rightarrow> (bool \<times> db_error) option \<times> database" where
  "next_fault db = (case db_faults db of [] \<Rightarrow> (None, db) | f # fs \<Rightarrow> (f, db\<lparr>db_faults := fs\<rparr>))"

definition transact :: "statement list \<Rightarrow> database \<Rightarrow> db_error option \<times> database" where
  "transact statements db =
     (case next_fault db of
        (fault, db') \<Rightarrow>
          case fault of
            None \<Rightarrow>
              if refused statements then (Some (Psycopg_Error False None), db')
              else (None, fold execute_statement statements db')
          | Some (committed, x) \<Rightarrow>
              (Some x, if committed \<and> \<not> refused statements then fold execute_statement statements db' else db'))"

section \<open>The statements of one run\<close>

definition session_insert_params :: "storage_env \<Rightarrow> session_record \<Rightarrow> session_row" where
  "session_insert_params e r =
     (case (case rec_peer_ip r of Some ip \<Rightarrow> if ip \<noteq> [] then se_geo e ip else (None, None, None) | None \<Rightarrow> (None, None, None)) of
        (country, latitude, longitude) \<Rightarrow>
          \<lparr>row_protocol = rec_protocol r, row_peer_ip = rec_peer_ip r, row_peer_port = rec_peer_port r,
           row_latitude = (if rec_latitude r \<noteq> None then rec_latitude r else latitude),
           row_longitude = (if rec_longitude r \<noteq> None then rec_longitude r else longitude),
           row_country = country, row_persona_id = rec_persona_id r,
           row_started_at = rec_started_at r, row_ended_at = rec_ended_at r, row_end_reason = rec_end_reason r\<rparr>)"

definition session_events :: "session_record \<Rightarrow> (str \<times> str \<times> rat option) list" where
  "session_events r =
     map (\<lambda>c. (lit ''command'', ev_cmd c, Some (ev_time c))) (rec_commands r) @
     map (\<lambda>p. (lit ''decoy_file'', p, None)) (rec_decoy_files_surfaced r)"

definition session_event_insert_params :: "session_record \<Rightarrow> event_row list" where
  "session_event_insert_params r =
     map (\<lambda>(i, kind, value, t). \<lparr>evr_session_id = rec_session_id r, evr_index = i, evr_type = kind,
        evr_value = value, evr_observed_at = t\<rparr>) (enumerate 0 (session_events r))"

definition bool_text :: "bool \<Rightarrow> str" where
  "bool_text b = (if b then lit ''True'' else lit ''False'')"

definition feature_signals :: "storage_env \<Rightarrow> feature_summary \<Rightarrow> (str \<times> str \<times> str) list" where
  "feature_signals e f =
     map (\<lambda>(key, value). (lit ''feature'', lit key, value))
       [(''session_id'', fsum_session_id f), (''protocol'', fsum_protocol f),
        (''duration_seconds'', se_float e (fsum_duration_seconds f)),
        (''command_count'', str_of_int (fsum_command_count f)),
        (''commands_per_minute'', se_float e (fsum_commands_per_minute f)),
        (''discovery_command_count'', str_of_int (fsum_discovery_command_count f)),
        (''file_read_count'', str_of_int (fsum_file_read_count f)),
        (''sensitive_file_read_count'', str_of_int (fsum_sensitive_file_read_count f)),
        (''decoy_files_surfaced_count'', str_of_int (fsum_decoy_files_surfaced_count f)),
        (''exit_command_present'', bool_text (fsum_exit_command_present f)),
        (''human_timing_score'', case fsum_human_timing_score f of None \<Rightarrow> lit ''None'' | Some x \<Rightarrow> se_float e x)]"

fun priority_name :: "safeguard_priority \<Rightarrow> str" where
  "priority_name Low_Priority = lit ''low''"
| "priority_name Medium_Priority = lit ''medium''"
| "priority_name High_Priority = lit ''high''"
| "priority_name Critical_Priority = lit ''critical''"

fun recommendation_text :: "recommendation_name \<Rightarrow> str" where
  "recommendation_text Increase_Source_Monitoring = lit ''increase_source_monitoring''"
| "recommendation_text Preserve_Session_Transcript = lit ''preserve_session_transcript''"
| "recommendation_text Review_Decoy_Exposure = lit ''review_decoy_exposure''"
| "recommendation_text Rotate_Exposed_Credentials = lit ''rotate_exposed_credentials''"
| "recommendation_text Escalate_Incident_Review = lit ''escalate_incident_review''"

text \<open>\<open>classifier_signal_insert_params\<close>: type, key and value of each signal, in order. A deception
  action has no priority in the summary.\<close>

definition run_signals :: "storage_env \<Rightarrow> classification_summary \<Rightarrow> (str \<times> str \<times> str) list" where
  "run_signals e s =
     [(lit ''version'', lit ''classifier'', sum_classifier_version s), (lit ''version'', lit ''rules'', sum_rules_version s)] @
     map (\<lambda>(l, n). (lit ''actor_vote'', actor_name l, str_of_nat n)) (sum_actor_votes s) @
     map (\<lambda>rule. (lit ''matched_rule'', lit ''rule_id'', rule)) (sum_matched_rule_ids s) @
     map (\<lambda>tag. (lit ''mitre_tag'', lit ''attack_id'', tag)) (sum_mitre_tags s) @
     map (\<lambda>item. (lit ''evidence'', item_rule_id item, item_text item)) (sum_evidence s) @
     (case sum_feature_summary s of None \<Rightarrow> [] | Some f \<Rightarrow> feature_signals e f) @
     (case sum_deception_action s of None \<Rightarrow> [] | Some a \<Rightarrow>
        [(lit ''deception_action'', lit ''adaptive_response_delay'', lit ''unknown'')]) @
     (case sum_alert_action s of None \<Rightarrow> [] | Some a \<Rightarrow>
        [(lit ''alert_action'', lit ''notify_analyst'', priority_name (alert_priority a))]) @
     (case sum_recommendation s of None \<Rightarrow> [] | Some a \<Rightarrow>
        [(lit ''analyst_recommendation'', recommendation_text (rec_action a), priority_name (rec_priority a))])"

definition classifier_signal_insert_params :: "storage_env \<Rightarrow> run_record \<Rightarrow> signal_row list" where
  "classifier_signal_insert_params e run =
     map (\<lambda>(i, kind, key, value). \<lparr>sig_run_id = run_id run, sig_index = i, sig_type = kind, sig_key = key,
        sig_value = value\<rparr>) (enumerate 0 (run_signals e (run_summary run)))"

definition classifier_run_statements :: "storage_env \<Rightarrow> run_record \<Rightarrow> statement list" where
  "classifier_run_statements e run =
     [Delete_Session_Events (rec_session_id (run_session run)),
      Upsert_Session (rec_session_id (run_session run)) (session_insert_params e (run_session run))] @
     map Insert_Session_Event (session_event_insert_params (run_session run)) @
     [Insert_Classifier_Run run] @
     map Insert_Classifier_Signal (classifier_signal_insert_params e run) @
     [Insert_Issue_Sync_Queue (run_id run)]"

section \<open>The repository\<close>

definition stored_ids :: "database \<Rightarrow> str set" where
  "stored_ids db = set (map (rec_session_id \<circ> run_session) (db_runs db))"

definition new_run :: "storage_env \<Rightarrow> session_record \<Rightarrow> classification_summary \<Rightarrow> database \<Rightarrow> run_record" where
  "new_run e r s db = \<lparr>run_id = se_run_id e (length (db_runs db)), run_session = r, run_summary = s\<rparr>"

definition ping :: "database \<Rightarrow> db_error option \<times> database" where
  "ping db = transact [] db"

definition stored_session_ids :: "str list \<Rightarrow> database \<Rightarrow> (db_error + str list) \<times> database" where
  "stored_session_ids sids db =
     (if sids = [] then (Inr [], db)
      else case transact [] db of
        (Some x, db') \<Rightarrow> (Inl x, db')
      | (None, db') \<Rightarrow> (Inr (filter (\<lambda>i. i \<in> stored_ids db') (remdups sids)), db'))"

definition save_classifier_run ::
  "storage_env \<Rightarrow> session_record \<Rightarrow> classification_summary \<Rightarrow> database \<Rightarrow> (db_error + run_record) \<times> database" where
  "save_classifier_run e r s db =
     (let run = new_run e r s db in
      case transact (classifier_run_statements e run) db of
        (Some x, db') \<Rightarrow> (Inl x, db')
      | (None, db') \<Rightarrow> (Inr run, db'))"

definition save_classifier_run_if_new ::
  "storage_env \<Rightarrow> session_record \<Rightarrow> classification_summary \<Rightarrow> database \<Rightarrow> (db_error + run_record option) \<times> database" where
  "save_classifier_run_if_new e r s db =
     (if rec_session_id r \<in> stored_ids db
      then (case transact [] db of
              (Some x, db') \<Rightarrow> (Inl x, db')
            | (None, db') \<Rightarrow> (Inr None, db'))
      else let run = new_run e r s db in
        case transact (classifier_run_statements e run) db of
          (Some x, db') \<Rightarrow> (Inl x, db')
        | (None, db') \<Rightarrow> (Inr (Some run), db'))"

definition REPEAT_WINDOW_SECONDS :: rat where
  "REPEAT_WINDOW_SECONDS = 86400"

definition count_from_ip :: "str \<Rightarrow> database \<Rightarrow> int" where
  "count_from_ip ip db =
     int (length (filter (\<lambda>(sid, row). row_peer_ip row = Some ip \<and> db_now db - REPEAT_WINDOW_SECONDS \<le> row_started_at row)
       (db_sessions db)))"

definition record_session_and_count_from_ip ::
  "storage_env \<Rightarrow> session_record \<Rightarrow> str \<Rightarrow> database \<Rightarrow> (db_error + int) \<times> database" where
  "record_session_and_count_from_ip e r ip db =
     (case transact [Upsert_Session (rec_session_id r) (session_insert_params e r)] db of
        (Some x, db') \<Rightarrow> (Inl x, db')
      | (None, db') \<Rightarrow> (Inr (count_from_ip ip db'), db'))"

text \<open>\<open>list_session_events\<close>.\<close>

definition list_session_events :: "str \<Rightarrow> database \<Rightarrow> event_row list" where
  "list_session_events sid db = sort_key evr_index (filter (\<lambda>r. evr_session_id r = sid) (db_events db))"

section \<open>What a transaction does\<close>

lemma fold_execute_runs:
  "db_runs (fold execute_statement ss db) = db_runs db @ concat (map (\<lambda>st. case st of Insert_Classifier_Run r \<Rightarrow> [r] | _ \<Rightarrow> []) ss)"
proof (induction ss arbitrary: db)
  case (Cons st ss)
  then show ?case by (cases st) simp_all
qed simp

lemma fold_execute_faults [simp]: "db_faults (fold execute_statement ss db) = db_faults db"
proof (induction ss arbitrary: db)
  case (Cons st ss)
  then show ?case by (cases st) simp_all
qed simp

lemma concat_map_empty: "concat (map (\<lambda>x. []) xs) = []"
  by (induction xs) simp_all

lemma run_statements_runs [simp]:
  "db_runs (fold execute_statement (classifier_run_statements e run) db) = db_runs db @ [run]"
  by (simp add: fold_execute_runs classifier_run_statements_def o_def concat_map_empty)

lemma next_fault_same [simp]: "db_runs (snd (next_fault db)) = db_runs db" "db_events (snd (next_fault db)) = db_events db"
  "db_sessions (snd (next_fault db)) = db_sessions db" "db_signals (snd (next_fault db)) = db_signals db"
  by (auto simp: next_fault_def split: list.splits)

lemma next_fault_none: "db_faults db = [] \<Longrightarrow> next_fault db = (None, db)"
  by (simp add: next_fault_def)

lemma transact_cases:
  assumes "transact ss db = (res, db')"
  shows "res = None \<and> \<not> refused ss \<and> db' = fold execute_statement ss (snd (next_fault db))
    \<or> res \<noteq> None \<and> (db' = snd (next_fault db) \<or> \<not> refused ss \<and> db' = fold execute_statement ss (snd (next_fault db)))"
  using assms by (auto simp: transact_def split: prod.splits option.splits if_splits)

lemma transact_Nil: "transact [] db = (res, db') \<Longrightarrow> stored_ids db' = stored_ids db \<and> db_runs db' = db_runs db"
  using transact_cases [of "[]" db res db'] by (auto simp: stored_ids_def)

lemma transact_upsert: "transact [Upsert_Session sid row] db = (res, db') \<Longrightarrow> db_runs db' = db_runs db"
  using transact_cases [of "[Upsert_Session sid row]" db res db'] by auto

lemma transact_run:
  assumes "transact (classifier_run_statements e run) db = (res, db')"
  shows "res = None \<and> db_runs db' = db_runs db @ [run]
    \<or> res \<noteq> None \<and> (db_runs db' = db_runs db \<or> db_runs db' = db_runs db @ [run])"
  using transact_cases [OF assms] by auto

lemma fold_insert_events:
  "db_events (fold execute_statement (map Insert_Session_Event rows) db) = db_events db @ rows"
  by (induction rows arbitrary: db) simp_all

lemma fold_insert_signals:
  "db_events (fold execute_statement (map Insert_Classifier_Signal rows) db) = db_events db"
  by (induction rows arbitrary: db) simp_all

text \<open>C29: Storing a run makes the session's timeline exactly its record: whatever events the session
  had before, reading them back gives every command with its text and time in order, then every
  surfaced decoy file, and the events of other sessions are untouched.\<close>

theorem events_read_back:
  assumes "save_classifier_run e r s db = (Inr run, db')"
  shows "map (\<lambda>row. (evr_type row, evr_value row, evr_observed_at row)) (list_session_events (rec_session_id r) db')
      = map (\<lambda>c. (lit ''command'', ev_cmd c, Some (ev_time c))) (rec_commands r)
        @ map (\<lambda>p. (lit ''decoy_file'', p, None)) (rec_decoy_files_surfaced r)
    \<and> (\<forall>sid. sid \<noteq> rec_session_id r \<longrightarrow> list_session_events sid db' = list_session_events sid db)"
proof -
  let ?rows = "session_event_insert_params r" and ?sid = "rec_session_id r"
  have "transact (classifier_run_statements e run) db = (None, db')" and run: "run_session run = r"
    using assms by (auto simp: save_classifier_run_def new_run_def Let_def split: prod.splits option.splits)
  then have "db' = fold execute_statement (classifier_run_statements e run) (snd (next_fault db))"
    using transact_cases [of "classifier_run_statements e run" db None db'] by simp
  then have ev: "db_events db' = filter (\<lambda>row. evr_session_id row \<noteq> ?sid) (db_events db) @ ?rows"
    using run by (simp add: classifier_run_statements_def fold_insert_events fold_insert_signals)
  have own: "filter (\<lambda>row. evr_session_id row = ?sid) ?rows = ?rows"
    by (auto simp: session_event_insert_params_def filter_id_conv)
  have "map evr_index ?rows = [0..<length (session_events r)]"
    by (rule nth_equalityI) (simp_all add: session_event_insert_params_def nth_enumerate_eq case_prod_unfold)
  then have "sorted (map evr_index ?rows)" by simp
  then have "sort_key evr_index ?rows = ?rows" by (rule sort_key_id_if_sorted)
  then have "list_session_events ?sid db' = ?rows"
    using own by (simp add: list_session_events_def ev)
  moreover have "map (\<lambda>row. (evr_type row, evr_value row, evr_observed_at row)) ?rows = session_events r"
    by (simp add: session_event_insert_params_def o_def case_prod_unfold)
  moreover have "list_session_events sid db' = list_session_events sid db" if "sid \<noteq> ?sid" for sid
  proof -
    have "filter (\<lambda>row. evr_session_id row = sid) ?rows = []"
      using that by (auto simp: session_event_insert_params_def filter_empty_conv)
    moreover have "filter (\<lambda>row. evr_session_id row = sid) (filter (\<lambda>row. evr_session_id row \<noteq> ?sid) (db_events db))
        = filter (\<lambda>row. evr_session_id row = sid) (db_events db)"
      unfolding filter_filter by (rule filter_cong) (use that in auto)
    ultimately show ?thesis by (simp add: list_session_events_def ev)
  qed
  ultimately show ?thesis by (simp add: session_events_def)
qed

definition empty_database :: database where
  "empty_database = \<lparr>db_sessions = [], db_events = [], db_runs = [], db_signals = [], db_sync_queue = [],
     db_now = 100, db_faults = []\<rparr>"

definition plain_storage :: storage_env where
  "plain_storage = \<lparr>se_geo = (\<lambda>_. (None, None, None)), se_run_id = (\<lambda>n. lit ''run-'' @ str_of_nat n),
     se_float = (\<lambda>x. str_of_int (floor x))\<rparr>"

end
