(* ===== verification/Pipeline.thy ===== *)
theory Pipeline
  imports Storage
begin

text \<open>
  \<open>classifier/pipeline.py\<close>, the part that classifies and stores: the cache of the default
  rules, one session's classification, the forgiving live path
  (\<open>auto_classify_and_store\<close>), the strict one (\<open>classify_and_store\<close>), and the pending file of
  \<open>classifier/catch_up.py\<close> they write to. The files are their contents, or \<open>None\<close> when there
  is none; a disk that takes no writes is a flag. Serialising and parsing a record
  (pydantic's \<open>model_dump_json\<close> and \<open>model_validate_json\<close>) are parameters.
\<close>

section \<open>The default rules\<close>

type_synonym rules_cache = "(int \<times> rule_set) option"

text \<open>\<open>default_rules\<close>, given the file's modification time and what loading it would give.\<close>

definition default_rules :: "int \<Rightarrow> rule_set outcome \<Rightarrow> rules_cache \<Rightarrow> rule_set outcome \<times> rules_cache" where
  "default_rules modified loaded cache =
     (case cache of
        Some (m, rs) \<Rightarrow>
          if m = modified then (Done rs, cache)
          else (case loaded of
                  Done new \<Rightarrow> (Done new, Some (modified, new))
                | Raised x \<Rightarrow> (Done rs, Some (modified, rs)))
      | None \<Rightarrow>
          (case loaded of
             Done new \<Rightarrow> (Done new, Some (modified, new))
           | Raised x \<Rightarrow> (Raised x, None)))"

section \<open>Classifying one session\<close>

definition LIVE_REASON :: str where
  "LIVE_REASON = lit (''live classification from an active session; the result may change '' @
     ''when more activity is observed'')"

definition classify_session ::
  "rule_set \<Rightarrow> session_record \<Rightarrow> int option \<Rightarrow> bool \<Rightarrow> classification_summary outcome" where
  "classify_session rs session connection_count active =
     (let features = extract_session_features session connection_count in
      case evaluate_rules features rs of
        Raised x \<Rightarrow> Raised x
      | Done evaluation \<Rightarrow>
          let summary = summarize_rule_evaluation evaluation (Some features) in
          Done (if active then summary\<lparr>sum_status := Partial, sum_insufficient_reason := Some LIVE_REASON\<rparr>
                else summary))"

definition classify_session_record ::
  "(str \<Rightarrow> bool) \<Rightarrow> (str \<Rightarrow> bool) \<Rightarrow> rule_set \<Rightarrow> session_record \<Rightarrow> classification_summary outcome" where
  "classify_session_record ip_ok uuid_ok rs raw =
     (case model_validate ip_ok uuid_ok raw of
        Raised x \<Rightarrow> Raised x
      | Done session \<Rightarrow> classify_session rs session None False)"

section \<open>The pending file\<close>

record pending_files =
  pending_file :: "str option"
  working_file :: "str option"
  disk_writable :: bool

definition append_lines :: "str list \<Rightarrow> pending_files \<Rightarrow> pending_files option" where
  "append_lines new_lines fs =
     (if new_lines = [] then Some fs
      else if \<not> disk_writable fs then None
      else Some (fs\<lparr>pending_file := Some ((case pending_file fs of None \<Rightarrow> [] | Some s \<Rightarrow> s) @ concat new_lines)\<rparr>))"

text \<open>\<open>keep_pending_sessions\<close>; with one session it is \<open>keep_pending_session\<close>. A failed write is logged.\<close>

definition keep_pending_sessions ::
  "(session_record \<Rightarrow> str) \<Rightarrow> session_record list \<Rightarrow> pending_files \<Rightarrow> pending_files" where
  "keep_pending_sessions dump sessions fs =
     (case append_lines (map (\<lambda>s. dump s @ [newline]) sessions) fs of None \<Rightarrow> fs | Some fs' \<Rightarrow> fs')"

definition has_content :: "str option \<Rightarrow> bool" where
  "has_content file \<longleftrightarrow> (case file of None \<Rightarrow> False | Some s \<Rightarrow> s \<noteq> [])"

text \<open>Lines of a file that are not blank: \<open>splitlines\<close> of the whole text, and the iteration over the
  file, which ends lines only where a text file does.\<close>

definition text_lines :: "str \<Rightarrow> str list" where
  "text_lines s = filter (\<lambda>l. strip l \<noteq> []) (split_lines s)"

definition file_lines :: "str \<Rightarrow> str list" where
  "file_lines s = filter (\<lambda>l. strip l \<noteq> []) (split_on newline s)"

definition count_pending_sessions :: "pending_files \<Rightarrow> nat" where
  "count_pending_sessions fs =
     (let count = (\<lambda>file. case file of None \<Rightarrow> 0 | Some s \<Rightarrow> length (file_lines s))
      in count (pending_file fs) + count (working_file fs))"

section \<open>Storing a finished session\<close>

record classifier_env =
  ce_storage :: storage_env
  ce_alerts :: alert_env
  ce_rules :: "rule_set outcome"
  ce_window :: rat
  ce_database_url :: bool
  ce_dump :: "session_record \<Rightarrow> str"
  ce_parse :: "str \<Rightarrow> session_record option"

record classifier_state =
  cs_db :: database
  cs_alerts :: alert_state
  cs_files :: pending_files
  cs_sent :: "outgoing list"
  cs_issue_syncs :: nat

definition with_rules :: "rule_set outcome \<Rightarrow> session_record \<Rightarrow> int option \<Rightarrow> classification_summary outcome" where
  "with_rules rules_now session count =
     (case rules_now of Raised x \<Rightarrow> Raised x | Done rs \<Rightarrow> classify_session rs session count False)"

definition peer_text :: "session_record \<Rightarrow> str option" where
  "peer_text session = (case rec_peer_ip session of Some ip \<Rightarrow> if ip \<noteq> [] then Some ip else None | None \<Rightarrow> None)"

text \<open>\<open>auto_classify_and_store\<close>: every failure is caught.\<close>

definition auto_count ::
  "storage_env \<Rightarrow> session_record \<Rightarrow> database \<Rightarrow> (db_error + int option) \<times> database" where
  "auto_count e session db =
     (case peer_text session of
        None \<Rightarrow> (Inr None, db)
      | Some ip \<Rightarrow>
          (case record_session_and_count_from_ip e session ip db of
             (Inl Driver_Missing, db') \<Rightarrow> (Inl Driver_Missing, db')
           | (Inl x, db') \<Rightarrow> (Inr None, db')
           | (Inr n, db') \<Rightarrow> (Inr (Some n), db')))"

definition keep_for_later :: "classifier_env \<Rightarrow> session_record \<Rightarrow> classifier_state \<Rightarrow> classifier_state" where
  "keep_for_later e session st = st\<lparr>cs_files := keep_pending_sessions (ce_dump e) [session] (cs_files st)\<rparr>"

definition auto_classify_and_store ::
  "classifier_env \<Rightarrow> rat \<Rightarrow> rat \<Rightarrow> session_record \<Rightarrow> classifier_state \<Rightarrow> classifier_state" where
  "auto_classify_and_store e now wall session st =
     (if \<not> ce_database_url e then st
      else case auto_count (ce_storage e) session (cs_db st) of
        (Inl x, db1) \<Rightarrow> st\<lparr>cs_db := db1\<rparr>
      | (Inr count, db1) \<Rightarrow>
          (case with_rules (ce_rules e) session count of
             Raised x \<Rightarrow> st\<lparr>cs_db := db1\<rparr>
           | Done summary \<Rightarrow>
               (case save_classifier_run (ce_storage e) session summary db1 of
                  (Inl x, db2) \<Rightarrow>
                    if is_database_unavailable x \<or> is_database_busy x
                    then keep_for_later e session (st\<lparr>cs_db := db2\<rparr>)
                    else st\<lparr>cs_db := db2\<rparr>
                | (Inr run, db2) \<Rightarrow>
                    (case maybe_send_alert (ce_alerts e) (ce_window e) now wall (Some (run_id run), session, summary) (cs_alerts st) of
                       (out, alerts) \<Rightarrow>
                         st\<lparr>cs_db := db2, cs_alerts := alerts, cs_sent := cs_sent st @ out,
                            cs_issue_syncs := cs_issue_syncs st + 1\<rparr>))))"

text \<open>\<open>classify_and_store\<close>: the error, \<open>None\<close> when the session was already stored, or the run and
  its summary.\<close>

definition classify_and_store ::
  "storage_env \<Rightarrow> rule_set outcome \<Rightarrow> session_record \<Rightarrow> database \<Rightarrow>
     (db_error + (str \<times> classification_summary) option) \<times> database" where
  "classify_and_store e rules_now session db =
     (case (case peer_text session of
              None \<Rightarrow> (Inr None, db)
            | Some ip \<Rightarrow>
                (case record_session_and_count_from_ip e session ip db of
                   (Inl x, db') \<Rightarrow> (Inl x, db')
                 | (Inr n, db') \<Rightarrow> (Inr (Some n), db'))) of
        (Inl x, db1) \<Rightarrow> (Inl x, db1)
      | (Inr count, db1) \<Rightarrow>
          (case with_rules rules_now session count of
             Raised x \<Rightarrow> (Inl (Program_Error x), db1)
           | Done summary \<Rightarrow>
               (case save_classifier_run_if_new e session summary db1 of
                  (Inl x, db2) \<Rightarrow> (Inl x, db2)
                | (Inr None, db2) \<Rightarrow> (Inr None, db2)
                | (Inr (Some run), db2) \<Rightarrow> (Inr (Some (run_id run, summary)), db2))))"

section \<open>What storing does to the database\<close>

lemma runs_of_count: "record_session_and_count_from_ip e r ip db = (res, db') \<Longrightarrow> db_runs db' = db_runs db"
  by (auto simp: record_session_and_count_from_ip_def dest: transact_upsert split: prod.splits option.splits)

lemma runs_of_if_new:
  assumes "save_classifier_run_if_new e r s db = (res, db')"
  shows "case res of
     Inl x \<Rightarrow> db_runs db' = db_runs db
        \<or> rec_session_id r \<notin> stored_ids db \<and> db_runs db' = db_runs db @ [new_run e r s db]
   | Inr None \<Rightarrow> rec_session_id r \<in> stored_ids db \<and> db_runs db' = db_runs db
   | Inr (Some run) \<Rightarrow> rec_session_id r \<notin> stored_ids db \<and> run = new_run e r s db \<and> db_runs db' = db_runs db @ [run]"
  using assms unfolding save_classifier_run_if_new_def Let_def
  by (auto split: if_splits prod.splits option.splits dest: transact_Nil transact_run)

lemma new_run_fields [simp]: "run_session (new_run e r s db) = r" "run_summary (new_run e r s db) = s"
  by (simp_all add: new_run_def)

lemma stored_ids_snoc: "db_runs db' = db_runs db @ [run] \<Longrightarrow>
    stored_ids db' = insert (rec_session_id (run_session run)) (stored_ids db)"
  by (simp add: stored_ids_def)

lemma stored_ids_same: "db_runs db' = db_runs db \<Longrightarrow> stored_ids db' = stored_ids db"
  by (simp add: stored_ids_def)

definition runs_distinct :: "database \<Rightarrow> bool" where
  "runs_distinct db \<longleftrightarrow> distinct (map (rec_session_id \<circ> run_session) (db_runs db))"

lemma classify_and_store_runs:
  assumes "classify_and_store e rs r db = (res, db')"
  shows "case res of
     Inl x \<Rightarrow> db_runs db' = db_runs db
        \<or> rec_session_id r \<notin> stored_ids db \<and> (\<exists>run. run_session run = r \<and> db_runs db' = db_runs db @ [run])
   | Inr None \<Rightarrow> rec_session_id r \<in> stored_ids db \<and> db_runs db' = db_runs db
   | Inr (Some (rid, s)) \<Rightarrow> rec_session_id r \<notin> stored_ids db \<and>
       (\<exists>run. run_session run = r \<and> run_id run = rid \<and> run_summary run = s \<and> db_runs db' = db_runs db @ [run])"
proof -
  have save: "case res2 of
     Inl x \<Rightarrow> db_runs db2 = db_runs db
        \<or> rec_session_id r \<notin> stored_ids db \<and> (\<exists>run. run_session run = r \<and> db_runs db2 = db_runs db @ [run])
   | Inr None \<Rightarrow> rec_session_id r \<in> stored_ids db \<and> db_runs db2 = db_runs db
   | Inr (Some run) \<Rightarrow> rec_session_id r \<notin> stored_ids db \<and> run_session run = r \<and> run_summary run = s \<and> db_runs db2 = db_runs db @ [run]"
    if "save_classifier_run_if_new e r s db1 = (res2, db2)" "db_runs db1 = db_runs db" for s db1 res2 db2
    using runs_of_if_new [OF that(1)] that(2) stored_ids_same [OF that(2)]
    by (auto split: sum.splits option.splits)
  show ?thesis
    using assms unfolding classify_and_store_def
    by (auto split: option.splits prod.splits sum.splits outcome.splits dest!: runs_of_count dest: save)
qed

end
