(* ===== verification/ClassifierQueue.thy ===== *)
theory ClassifierQueue
  imports Pipeline
begin

text \<open>
  \<open>classifier/pipeline.py\<close>, the bounded queue of finished sessions and its worker pool:
  \<open>schedule_auto_classification\<close>, \<open>start_classification_workers\<close>, the worker loop and the phases of
  \<open>stop_classification_workers\<close> between its awaits. The event loop is a step relation: one step is
  what runs between two awaits, in any order the loop may choose. A worker's thread is one step,
  \<open>auto_classify_and_store\<close> on the shared state.
\<close>

section \<open>State\<close>

datatype queue_item = Waiting session_record | Worker_Stop

datatype worker = Idle | Storing session_record | Returned

datatype stop_stage = Not_Stopping | Keeping "session_record list" | Draining bool | Sending nat

datatype drop_kind = No_Workers | Queue_Full

record drop_log =
  dropped_count :: nat
  last_logged :: "rat option"

type_synonym drop_warning = "drop_kind \<times> nat \<times> str \<times> rat"

record classifier_queue =
  q_open :: bool
  q_maxsize :: nat
  q_items :: "queue_item list"
  q_unfinished :: nat
  q_workers :: "worker list"
  q_stage :: stop_stage
  q_drops :: "drop_kind \<Rightarrow> drop_log"
  q_warnings :: "drop_warning list"
  q_slow_drains :: nat
  q_state :: classifier_state

definition not_started :: "classifier_state \<Rightarrow> classifier_queue" where
  "not_started st = \<lparr>q_open = False, q_maxsize = 0, q_items = [], q_unfinished = 0, q_workers = [],
     q_stage = Not_Stopping, q_drops = (\<lambda>_. \<lparr>dropped_count = 0, last_logged = None\<rparr>), q_warnings = [],
     q_slow_drains = 0, q_state = st\<rparr>"

definition DROP_LOG_INTERVAL_SECONDS :: rat where
  "DROP_LOG_INTERVAL_SECONDS = 30"

definition CLASSIFICATION_WORKER_COUNT :: nat where
  "CLASSIFICATION_WORKER_COUNT = 4"

definition CLASSIFICATION_QUEUE_MAXSIZE :: nat where
  "CLASSIFICATION_QUEUE_MAXSIZE = 500"

section \<open>Scheduling\<close>

text \<open>One dropped session: counted, and told of at once when the last warning of its kind is long
  enough ago.\<close>

definition log_due :: "rat \<Rightarrow> drop_log \<Rightarrow> bool" where
  "log_due now d \<longleftrightarrow>
     (case last_logged d of None \<Rightarrow> True | Some t \<Rightarrow> now - t \<ge> DROP_LOG_INTERVAL_SECONDS)"

definition note_drop :: "drop_kind \<Rightarrow> rat \<Rightarrow> session_record \<Rightarrow> classifier_queue \<Rightarrow> classifier_queue" where
  "note_drop k now session q =
     (let d = q_drops q k; n = dropped_count d + 1
      in if log_due now d
         then q\<lparr>q_drops := (q_drops q)(k := \<lparr>dropped_count = 0, last_logged = Some now\<rparr>),
                q_warnings := q_warnings q @ [(k, n, rec_session_id session, now)]\<rparr>
         else q\<lparr>q_drops := (q_drops q)(k := d\<lparr>dropped_count := n\<rparr>)\<rparr>)"

text \<open>\<open>asyncio.Queue.put_nowait\<close>, on a queue whose size limit is positive.\<close>

definition queue_full :: "classifier_queue \<Rightarrow> bool" where
  "queue_full q \<longleftrightarrow> q_maxsize q \<le> length (q_items q)"

definition put_item :: "queue_item \<Rightarrow> classifier_queue \<Rightarrow> classifier_queue" where
  "put_item x q = q\<lparr>q_items := q_items q @ [x], q_unfinished := q_unfinished q + 1\<rparr>"

definition schedule_auto_classification :: "rat \<Rightarrow> session_record \<Rightarrow> classifier_queue \<Rightarrow> classifier_queue" where
  "schedule_auto_classification now session q =
     (if \<not> q_open q then note_drop No_Workers now session q
      else if queue_full q then note_drop Queue_Full now session q
      else put_item (Waiting session) q)"

section \<open>The worker pool\<close>

datatype start_error = Worker_Count_Error | Queue_Maxsize_Error | Already_Running_Error

definition start_classification_workers ::
  "nat \<Rightarrow> nat \<Rightarrow> classifier_queue \<Rightarrow> start_error + classifier_queue" where
  "start_classification_workers worker_count queue_maxsize q =
     (if worker_count < 1 then Inl Worker_Count_Error
      else if queue_maxsize < 1 then Inl Queue_Maxsize_Error
      else if q_open q \<or> q_workers q \<noteq> [] then Inl Already_Running_Error
      else Inr (q\<lparr>q_open := True, q_maxsize := queue_maxsize, q_items := [], q_unfinished := 0,
                  q_workers := replicate worker_count Idle\<rparr>))"

text \<open>\<open>_classification_worker\<close>: what an idle worker does with the item it gets, and what follows the
  thread it awaits. An exception of the thread is logged; the worker goes on.\<close>

definition worker_get :: "nat \<Rightarrow> classifier_queue \<Rightarrow> classifier_queue option" where
  "worker_get i q =
     (if i < length (q_workers q) \<and> q_workers q ! i = Idle then
        (case q_items q of
           [] \<Rightarrow> None
         | Worker_Stop # rest \<Rightarrow>
             Some (q\<lparr>q_items := rest, q_unfinished := q_unfinished q - 1, q_workers := (q_workers q)[i := Returned]\<rparr>)
         | Waiting session # rest \<Rightarrow>
             Some (q\<lparr>q_items := rest, q_workers := (q_workers q)[i := Storing session]\<rparr>))
      else None)"

definition worker_store ::
  "classifier_env \<Rightarrow> rat \<Rightarrow> rat \<Rightarrow> nat \<Rightarrow> classifier_queue \<Rightarrow> classifier_queue option" where
  "worker_store e now wall i q =
     (if i < length (q_workers q) then
        (case q_workers q ! i of
           Storing session \<Rightarrow>
             Some (q\<lparr>q_state := auto_classify_and_store e now wall session (q_state q),
                     q_unfinished := q_unfinished q - 1, q_workers := (q_workers q)[i := Idle]\<rparr>)
         | _ \<Rightarrow> None)
      else None)"

section \<open>Stopping\<close>

text \<open>\<open>_keep_waiting_sessions\<close>.\<close>

definition keep_waiting_sessions :: "classifier_env \<Rightarrow> session_record list \<Rightarrow> classifier_state \<Rightarrow> classifier_state" where
  "keep_waiting_sessions e sessions st =
     (if \<not> ce_database_url e then st
      else st\<lparr>cs_files := keep_pending_sessions (ce_dump e) sessions (cs_files st)\<rparr>)"

text \<open>\<open>stop_classification_workers\<close>: intake closes and the queue is emptied before the first await;
  then the waiting sessions are kept, the sessions in progress are awaited (\<open>queue.join\<close>, with a
  warning after the timeout), one sentinel is put per worker as the queue has room, and the
  workers' returns are gathered.\<close>

definition waiting_in :: "queue_item list \<Rightarrow> session_record list" where
  "waiting_in items = concat (map (\<lambda>x. case x of Waiting s \<Rightarrow> [s] | Worker_Stop \<Rightarrow> []) items)"

definition close_intake :: "classifier_queue \<Rightarrow> classifier_queue" where
  "close_intake q =
     (if \<not> q_open q then q
      else let waiting = waiting_in (q_items q)
           in q\<lparr>q_open := False, q_items := [], q_unfinished := q_unfinished q - length (q_items q),
                q_stage := if waiting \<noteq> [] then Keeping waiting else Draining False\<rparr>)"

definition keep_waiting :: "classifier_env \<Rightarrow> classifier_queue \<Rightarrow> classifier_queue option" where
  "keep_waiting e q =
     (case q_stage q of
        Keeping waiting \<Rightarrow> Some (q\<lparr>q_state := keep_waiting_sessions e waiting (q_state q), q_stage := Draining False\<rparr>)
      | _ \<Rightarrow> None)"

definition drain_slow :: "classifier_queue \<Rightarrow> classifier_queue option" where
  "drain_slow q =
     (if q_stage q = Draining False \<and> q_unfinished q \<noteq> 0
      then Some (q\<lparr>q_slow_drains := q_slow_drains q + 1, q_stage := Draining True\<rparr>) else None)"

definition join_done :: "classifier_queue \<Rightarrow> classifier_queue option" where
  "join_done q =
     (case q_stage q of
        Draining _ \<Rightarrow> if q_unfinished q = 0 then Some (q\<lparr>q_stage := Sending (length (q_workers q))\<rparr>) else None
      | _ \<Rightarrow> None)"

definition send_stop :: "classifier_queue \<Rightarrow> classifier_queue option" where
  "send_stop q =
     (case q_stage q of
        Sending (Suc n) \<Rightarrow> if queue_full q then None else Some (put_item Worker_Stop (q\<lparr>q_stage := Sending n\<rparr>))
      | _ \<Rightarrow> None)"

definition workers_gathered :: "classifier_queue \<Rightarrow> classifier_queue option" where
  "workers_gathered q =
     (if q_stage q = Sending 0 \<and> list_all (\<lambda>w. w = Returned) (q_workers q)
      then Some (q\<lparr>q_workers := [], q_stage := Not_Stopping\<rparr>) else None)"

section \<open>The event loop\<close>

text \<open>A step with what an observer sees of it. \<open>Scheduled\<close> tells what became of the session:
  \<open>None\<close> when it was queued.\<close>

datatype queue_event =
  Scheduled rat session_record "drop_kind option"
| Started nat nat
| Stop_Called "session_record list"
| Took nat queue_item
| Stored nat session_record
| Kept "session_record list"
| Slow_Drain
| Drained
| Stop_Sent
| Workers_Gone

definition schedule_verdict :: "classifier_queue \<Rightarrow> drop_kind option" where
  "schedule_verdict q = (if \<not> q_open q then Some No_Workers else if queue_full q then Some Queue_Full else None)"

inductive queue_step :: "classifier_env \<Rightarrow> classifier_queue \<Rightarrow> queue_event \<Rightarrow> classifier_queue \<Rightarrow> bool"
  for e :: classifier_env where
  scheduled: "queue_step e q (Scheduled now s (schedule_verdict q)) (schedule_auto_classification now s q)"
| started: "start_classification_workers m n q = Inr q' \<Longrightarrow> queue_step e q (Started m n) q'"
| stop_called: "queue_step e q (Stop_Called (if q_open q then waiting_in (q_items q) else [])) (close_intake q)"
| took: "worker_get i q = Some q' \<Longrightarrow> queue_step e q (Took i (hd (q_items q))) q'"
| stored: "worker_store e now wall i q = Some q' \<Longrightarrow> q_workers q ! i = Storing s \<Longrightarrow> queue_step e q (Stored i s) q'"
| kept: "keep_waiting e q = Some q' \<Longrightarrow> q_stage q = Keeping ss \<Longrightarrow> queue_step e q (Kept ss) q'"
| slow_drain: "drain_slow q = Some q' \<Longrightarrow> queue_step e q Slow_Drain q'"
| drained: "join_done q = Some q' \<Longrightarrow> queue_step e q Drained q'"
| stop_sent: "send_stop q = Some q' \<Longrightarrow> queue_step e q Stop_Sent q'"
| workers_gone: "workers_gathered q = Some q' \<Longrightarrow> queue_step e q Workers_Gone q'"

inductive queue_run :: "classifier_env \<Rightarrow> classifier_queue \<Rightarrow> queue_event list \<Rightarrow> classifier_queue \<Rightarrow> bool"
  for e :: classifier_env where
  no_events: "queue_run e q [] q"
| one_more: "queue_run e q evs q1 \<Longrightarrow> queue_step e q1 ev q2 \<Longrightarrow> queue_run e q (evs @ [ev]) q2"

inductive_simps queue_step_simps [simp]:
  "queue_step e q (Scheduled now s v) q'" "queue_step e q (Started m n) q'" "queue_step e q (Stop_Called ss) q'"
  "queue_step e q (Took i x) q'" "queue_step e q (Stored i s) q'" "queue_step e q (Kept ss) q'"
  "queue_step e q Slow_Drain q'" "queue_step e q Drained q'" "queue_step e q Stop_Sent q'"
  "queue_step e q Workers_Gone q'"

end
