(* ===== verification/CatchUp.thy ===== *)
theory CatchUp
  imports Pipeline
begin

text \<open>
  \<open>classifier/catch_up.py\<close>: storing, once the database answers again, the sessions kept in the
  pending file, and importing a session log. What catching up asks of the storage is the
  locale \<open>session_store\<close>: storing a session either adds it, finds it stored, or fails with the
  session stored or not; the lemmas about the loop are proved from these laws and hold for the
  model of the database through its interpretation.
\<close>

section \<open>Lines of the pending file\<close>

definition clean_line :: "str \<Rightarrow> bool" where
  "clean_line l \<longleftrightarrow> list_all (\<lambda>c. \<not> is_linebreak c) l"

lemma is_linebreak_newline [simp]: "is_linebreak 10" "is_linebreak 13"
  by (simp_all add: is_linebreak_def)

lemma split_keep_append:
  "split_lines_keep_acc w (a @ newline # b) = split_lines_keep_acc w (a @ [newline]) @ split_lines_keep_acc [] b"
proof (induction a arbitrary: w)
  case (Cons c a)
  have "hd (a @ newline # b) = hd (a @ [newline])" by (cases a) auto
  then show ?case using Cons by simp
qed simp

lemma split_keep_clean: "clean_line l \<Longrightarrow> split_lines_keep_acc w (l @ [newline]) = [w @ l @ [newline]]"
  by (induction l arbitrary: w) (auto simp: clean_line_def)

lemma endswith_iff_append: "endswith s p \<longleftrightarrow> (\<exists>q. s = q @ p)"
proof
  assume "endswith s p"
  then have "s = take (length s - length p) s @ p"
    unfolding endswith_def using append_take_drop_id [of "length s - length p" s] by simp
  then show "\<exists>q. s = q @ p" by blast
qed (auto simp: endswith_def)

definition cut_end :: "str \<Rightarrow> str" where
  "cut_end l = (if endswith l [carriage, newline] then take (length l - 2) l
     else if l \<noteq> [] \<and> is_linebreak (last l) then butlast l else l)"

lemma cut_end_cases:
  assumes "clean_line v"
  shows "cut_end v = v" "is_linebreak c \<Longrightarrow> cut_end (v @ [c]) = v" "cut_end (v @ [carriage, newline]) = v"
proof -
  have nocr: "\<not> endswith (v @ [c]) [carriage, newline]" for c
  proof
    assume "endswith (v @ [c]) [carriage, newline]"
    then obtain q where "v @ [c] = (q @ [carriage]) @ [newline]" by (auto simp: endswith_iff_append)
    then have "v = q @ [carriage]" by (simp only: append1_eq_conv)
    then show False using assms by (simp add: clean_line_def)
  qed
  have "\<not> endswith v [carriage, newline]" "v \<noteq> [] \<Longrightarrow> \<not> is_linebreak (last v)"
    using assms by (auto simp: endswith_iff_append clean_line_def list_all_iff)
  then show "cut_end v = v" by (auto simp: cut_end_def)
  show "is_linebreak c \<Longrightarrow> cut_end (v @ [c]) = v" using nocr by (simp add: cut_end_def)
  have "endswith (v @ [carriage, newline]) [carriage, newline]" by (auto simp: endswith_iff_append)
  then show "cut_end (v @ [carriage, newline]) = v" by (simp add: cut_end_def)
qed

lemma split_lines_cut: "split_lines s = map cut_end (split_lines_keep_acc [] s)"
  by (simp add: split_lines_def split_lines_keep_def cut_end_def [abs_def])

lemma split_lines_append: "split_lines (a @ newline # b) = split_lines (a @ [newline]) @ split_lines b"
  unfolding split_lines_cut by (subst split_keep_append) simp

lemma split_lines_line: "clean_line l \<Longrightarrow> split_lines (l @ [newline]) = [l]"
  by (simp add: split_lines_cut split_keep_clean cut_end_cases)

definition complete_text :: "str \<Rightarrow> bool" where
  "complete_text s \<longleftrightarrow> s = [] \<or> last s = newline"

lemma split_lines_complete: "complete_text a \<Longrightarrow> split_lines (a @ b) = split_lines a @ split_lines b"
proof (cases "a = []")
  case False
  assume "complete_text a"
  then have "a = butlast a @ [newline]" using False by (metis append_butlast_last_id complete_text_def)
  then show ?thesis using split_lines_append [of "butlast a" b] by (metis append.assoc append_Cons append_Nil)
qed (simp add: split_lines_def split_lines_keep_def)

definition as_lines :: "str list \<Rightarrow> str" where
  "as_lines xs = concat (map (\<lambda>l. l @ [newline]) xs)"

lemma split_lines_as_lines: "list_all clean_line xs \<Longrightarrow> split_lines (as_lines xs) = xs"
proof (induction xs)
  case (Cons l xs)
  have "split_lines (as_lines (l # xs)) = split_lines (l @ [newline]) @ split_lines (as_lines xs)"
    using split_lines_append [of l "as_lines xs"] by (simp add: as_lines_def)
  then show ?case using Cons by (simp add: split_lines_line)
qed (simp add: as_lines_def split_lines_def split_lines_keep_def)

lemma complete_as_lines [simp]: "complete_text (as_lines xs)"
  by (induction xs rule: rev_induct) (simp_all add: as_lines_def complete_text_def)

lemma complete_append: "complete_text a \<Longrightarrow> complete_text b \<Longrightarrow> complete_text (a @ b)"
  by (cases "b = []") (auto simp: complete_text_def)

lemma split_keep_parts:
  "l \<in> set (split_lines_keep_acc w s) \<Longrightarrow>
   clean_line w \<or> s \<noteq> [] \<and> hd s = newline \<and> (\<exists>v. w = v @ [carriage] \<and> clean_line v) \<Longrightarrow>
   clean_line l \<or> (\<exists>v c. clean_line v \<and> is_linebreak c \<and> (l = v @ [c] \<or> l = v @ [carriage, c] \<and> c = newline))"
proof (induction w s rule: split_lines_keep_acc.induct)
  case (1 w)
  then show ?case by (auto split: if_splits)
next
  case (2 w c s)
  show ?case
  proof (cases "c = carriage \<and> s \<noteq> [] \<and> hd s = newline")
    case True
    then have "clean_line w" using 2(5) by auto
    then show ?thesis using 2(1) [OF True] 2(4) True by auto
  next
    case no: False
    show ?thesis
    proof (cases "is_linebreak c")
      case True
      then consider "l = w @ [c]" | "l \<in> set (split_lines_keep_acc [] s)" using 2(4) no by auto
      then show ?thesis
      proof cases
        case 1
        then show ?thesis using 2(5) True by auto
      next
        case 2
        then show ?thesis using "2.IH"(2) [OF no True] by (simp add: clean_line_def)
      qed
    next
      case False
      then have "clean_line w" using 2(5) by auto
      then have "clean_line (w @ [c])" using False by (simp add: clean_line_def)
      then show ?thesis using "2.IH"(3) [OF no False] 2(4) no False by auto
    qed
  qed
qed

lemma split_lines_clean: "l \<in> set (split_lines s) \<Longrightarrow> clean_line l"
proof -
  assume "l \<in> set (split_lines s)"
  then obtain k where k: "k \<in> set (split_lines_keep_acc [] s)" and l: "l = cut_end k"
    by (auto simp: split_lines_cut)
  have "clean_line k \<or> (\<exists>v c. clean_line v \<and> is_linebreak c \<and> (k = v @ [c] \<or> k = v @ [carriage, c] \<and> c = newline))"
    using split_keep_parts [OF k] by (simp add: clean_line_def)
  then show ?thesis using cut_end_cases unfolding l by auto
qed

lemma text_lines_clean: "list_all clean_line (text_lines s)" "list_all (\<lambda>l. strip l \<noteq> []) (text_lines s)"
  using split_lines_clean by (auto simp: text_lines_def list_all_iff)

lemma text_lines_append:
  "complete_text a \<Longrightarrow> list_all clean_line xs \<Longrightarrow> list_all (\<lambda>l. strip l \<noteq> []) xs \<Longrightarrow>
   text_lines (a @ as_lines xs) = text_lines a @ xs"
  by (simp add: text_lines_def split_lines_complete split_lines_as_lines list_all_iff filter_id_conv)

section \<open>The loop over the batches\<close>

definition BATCH_SIZE :: nat where
  "BATCH_SIZE = 500"

type_synonym 'db store_op =
  "session_record \<Rightarrow> 'db \<Rightarrow> (db_error + (str \<times> classification_summary) option) \<times> 'db"

type_synonym 'db ids_op = "str list \<Rightarrow> 'db \<Rightarrow> (db_error + str list) \<times> 'db"

text \<open>What a stretch of the loop has done: the runs it stored, the sessions it logged as not
  stored, and the error that ended it, if one did.\<close>

record progress =
  pr_stored :: "alert_item list"
  pr_failed :: "session_record list"
  pr_error :: "db_error option"

definition no_progress :: progress where
  "no_progress = \<lparr>pr_stored = [], pr_failed = [], pr_error = None\<rparr>"

fun store_batch ::
  "'db store_op \<Rightarrow> str list \<Rightarrow> session_record list \<Rightarrow> 'db \<Rightarrow> progress \<times> 'db" where
  "store_batch save already [] db = (no_progress, db)"
| "store_batch save already (session # sessions) db =
     (if rec_session_id session \<in> set already then store_batch save already sessions db
      else case save session db of
        (Inl x, db') \<Rightarrow>
          if is_database_unavailable x then (no_progress\<lparr>pr_error := Some x\<rparr>, db')
          else (case store_batch save already sessions db' of
                  (p, db'') \<Rightarrow> (p\<lparr>pr_failed := session # pr_failed p\<rparr>, db''))
      | (Inr None, db') \<Rightarrow> store_batch save already sessions db'
      | (Inr (Some (rid, summary)), db') \<Rightarrow>
          (case store_batch save already sessions db' of
             (p, db'') \<Rightarrow> (p\<lparr>pr_stored := (Some rid, session, summary) # pr_stored p\<rparr>, db'')))"

definition parse_lines :: "(str \<Rightarrow> session_record option) \<Rightarrow> str list \<Rightarrow> session_record list" where
  "parse_lines parse xs = List.map_filter parse xs"

lemma parse_lines_append [simp]: "parse_lines parse (xs @ ys) = parse_lines parse xs @ parse_lines parse ys"
  by (simp add: parse_lines_def map_filter_def)

lemma parse_lines_Nil [simp]: "parse_lines parse [] = []"
  by (simp add: parse_lines_def map_filter_def)

text \<open>The \<open>while position < len(lines)\<close> loop: what it has done and the lines from the unfinished
  batch on.\<close>

function store_lines ::
  "'db ids_op \<Rightarrow> 'db store_op \<Rightarrow> (str \<Rightarrow> session_record option) \<Rightarrow> str list \<Rightarrow> 'db \<Rightarrow>
     progress \<times> str list \<times> 'db" where
  "store_lines ids save parse xs db =
     (if xs = [] then (no_progress, [], db)
      else let batch = parse_lines parse (take BATCH_SIZE xs) in
        case ids (map rec_session_id batch) db of
          (Inl x, db1) \<Rightarrow> (no_progress\<lparr>pr_error := Some x\<rparr>, xs, db1)
        | (Inr already, db1) \<Rightarrow>
            (case store_batch save already batch db1 of
               (p, db2) \<Rightarrow>
                 if pr_error p \<noteq> None then (p, xs, db2)
                 else (case store_lines ids save parse (drop BATCH_SIZE xs) db2 of
                         (q, rest, db3) \<Rightarrow>
                           (q\<lparr>pr_stored := pr_stored p @ pr_stored q, pr_failed := pr_failed p @ pr_failed q\<rparr>,
                            rest, db3))))"
  by pat_completeness auto
termination
  by (relation "measure (\<lambda>(_, _, _, xs, _). length xs)") (auto simp: BATCH_SIZE_def)

declare store_lines.simps [simp del]

section \<open>What catching up needs of the storage\<close>

locale session_store =
  fixes stored :: "'db \<Rightarrow> str set"
    and ids :: "'db ids_op"
    and save :: "'db store_op"
  assumes ids_found: "ids sids db = (Inr found, db') \<Longrightarrow> set found \<subseteq> stored db \<and> stored db' = stored db"
    and ids_failed: "ids sids db = (Inl x, db') \<Longrightarrow> stored db' = stored db"
    and store_new: "save r db = (Inr (Some run), db') \<Longrightarrow>
      rec_session_id r \<notin> stored db \<and> stored db' = insert (rec_session_id r) (stored db)"
    and store_old: "save r db = (Inr None, db') \<Longrightarrow> rec_session_id r \<in> stored db \<and> stored db' = stored db"
    and store_failed: "save r db = (Inl x, db') \<Longrightarrow>
      stored db' = stored db \<or> rec_session_id r \<notin> stored db \<and> stored db' = insert (rec_session_id r) (stored db)"
begin

abbreviation (input) sid where
  "sid \<equiv> rec_session_id"

definition alert_ids :: "progress \<Rightarrow> str list" where
  "alert_ids p = map (\<lambda>i. sid (fst (snd i))) (pr_stored p)"

definition batch_spec :: "session_record list \<Rightarrow> 'db \<Rightarrow> progress \<Rightarrow> 'db \<Rightarrow> bool" where
  "batch_spec sessions db p db' \<longleftrightarrow>
     stored db \<subseteq> stored db' \<and> stored db' \<subseteq> stored db \<union> sid ` set sessions \<and>
     distinct (alert_ids p) \<and> set (alert_ids p) \<subseteq> stored db' - stored db \<and>
     set (pr_failed p) \<subseteq> set sessions \<and>
     (pr_error p = None \<longrightarrow> sid ` set sessions \<subseteq> stored db' \<union> sid ` set (pr_failed p))"

lemma batch_spec_none: "batch_spec [] db no_progress db"
  by (simp add: batch_spec_def no_progress_def alert_ids_def)

lemma batch_spec_skip:
  "batch_spec sessions db p db' \<Longrightarrow> sid r \<in> stored db \<Longrightarrow> batch_spec (r # sessions) db p db'"
  by (auto simp: batch_spec_def)

lemma batch_spec_start:
  assumes "batch_spec sessions db1 p db'" "stored db \<subseteq> stored db1" "stored db1 \<subseteq> insert (sid r) (stored db)"
  shows "batch_spec (r # sessions) db (p\<lparr>pr_failed := r # pr_failed p\<rparr>) db'"
proof -
  have "set (alert_ids p) \<subseteq> stored db' - stored db" "stored db \<subseteq> stored db'"
    "stored db' \<subseteq> stored db \<union> sid ` set (r # sessions)"
    using assms unfolding batch_spec_def by auto
  moreover have "alert_ids (p\<lparr>pr_failed := r # pr_failed p\<rparr>) = alert_ids p" by (simp add: alert_ids_def)
  ultimately show ?thesis using assms(1) unfolding batch_spec_def by auto
qed

lemma batch_spec_stored:
  assumes "batch_spec sessions db1 p db'" "sid r \<notin> stored db" "stored db1 = insert (sid r) (stored db)"
  shows "batch_spec (r # sessions) db (p\<lparr>pr_stored := (rid, r, s) # pr_stored p\<rparr>) db'"
proof -
  have "alert_ids (p\<lparr>pr_stored := (rid, r, s) # pr_stored p\<rparr>) = sid r # alert_ids p" by (simp add: alert_ids_def)
  then show ?thesis using assms unfolding batch_spec_def by auto
qed

text \<open>A batch stores every session it is given, finds it stored, or reports it, unless the database
  goes away; it tells of each session it stored once.\<close>

lemma store_batch_spec:
  "store_batch save already sessions db = (p, db') \<Longrightarrow> set already \<subseteq> stored db \<Longrightarrow> batch_spec sessions db p db'"
proof (induction sessions arbitrary: db p db')
  case Nil
  then show ?case by (simp add: batch_spec_none)
next
  case (Cons r sessions)
  show ?case
  proof (cases "sid r \<in> set already")
    case True
    then show ?thesis using Cons by (auto intro: batch_spec_skip)
  next
    case new: False
    obtain res db1 where st: "save r db = (res, db1)" by force
    obtain q db2 where q: "store_batch save already sessions db1 = (q, db2)" by force
    show ?thesis
    proof (cases res)
      case (Inl x)
      have sub: "stored db \<subseteq> stored db1" "stored db1 \<subseteq> insert (sid r) (stored db)"
        using store_failed st Inl by blast+
      show ?thesis
      proof (cases "is_database_unavailable x")
        case True
        then show ?thesis using Cons.prems(1) new st Inl sub
          by (auto simp: batch_spec_def alert_ids_def no_progress_def)
      next
        case False
        have "batch_spec sessions db1 q db2" using Cons.IH [OF q] sub(1) Cons.prems(2) by blast
        then show ?thesis using Cons.prems(1) new st Inl False q batch_spec_start sub by auto
      qed
    next
      case (Inr found)
      show ?thesis
      proof (cases found)
        case None
        then have "sid r \<in> stored db" "stored db1 = stored db" using st Inr store_old by blast+
        moreover have "batch_spec sessions db1 p db'"
          using Cons.IH [of db1 p db'] Cons.prems new st Inr None calculation by simp
        ultimately show ?thesis by (auto simp: batch_spec_def)
      next
        case (Some run)
        obtain rid s where run: "run = (rid, s)" by force
        have n: "sid r \<notin> stored db" "stored db1 = insert (sid r) (stored db)" using st Inr Some store_new by blast+
        have "batch_spec sessions db1 q db2" using Cons.IH [OF q] n Cons.prems(2) by blast
        then show ?thesis using Cons.prems(1) new st Inr Some run q n batch_spec_stored by auto
      qed
    qed
  qed
qed

subsection \<open>All batches\<close>

definition lines_spec ::
  "(str \<Rightarrow> session_record option) \<Rightarrow> str list \<Rightarrow> 'db \<Rightarrow> progress \<Rightarrow> str list \<Rightarrow> 'db \<Rightarrow> bool" where
  "lines_spec parse xs db p rest db' \<longleftrightarrow>
     stored db \<subseteq> stored db' \<and> stored db' \<subseteq> stored db \<union> sid ` set (parse_lines parse xs) \<and>
     distinct (alert_ids p) \<and> set (alert_ids p) \<subseteq> stored db' - stored db \<and>
     set (pr_failed p) \<subseteq> set (parse_lines parse xs) \<and>
     (\<exists>done_lines. xs = done_lines @ rest \<and>
        sid ` set (parse_lines parse done_lines) \<subseteq> stored db' \<union> sid ` set (pr_failed p)) \<and>
     (pr_error p = None \<longrightarrow> rest = [])"

lemma lines_spec_stop:
  assumes "batch_spec (parse_lines parse now) db q db'" "pr_error q \<noteq> None"
  shows "lines_spec parse (now @ later) db q (now @ later) db'"
proof -
  have "stored db' \<subseteq> stored db \<union> sid ` set (parse_lines parse (now @ later))"
    "set (pr_failed q) \<subseteq> set (parse_lines parse (now @ later))"
    using assms(1) by (auto simp: batch_spec_def)
  moreover have "\<exists>dl. now @ later = dl @ now @ later \<and>
      sid ` set (parse_lines parse dl) \<subseteq> stored db' \<union> sid ` set (pr_failed q)"
    by (rule exI [of _ "[]"]) simp
  ultimately show ?thesis using assms by (simp only: lines_spec_def batch_spec_def) blast
qed

definition then_progress :: "progress \<Rightarrow> progress \<Rightarrow> progress" where
  "then_progress p q = q\<lparr>pr_stored := pr_stored p @ pr_stored q, pr_failed := pr_failed p @ pr_failed q\<rparr>"

lemma then_progress_fields [simp]:
  "alert_ids (then_progress p q) = alert_ids p @ alert_ids q"
  "pr_failed (then_progress p q) = pr_failed p @ pr_failed q" "pr_error (then_progress p q) = pr_error q"
  by (simp_all add: then_progress_def alert_ids_def)

lemma lines_spec_step:
  assumes "batch_spec (parse_lines parse now) db q db1" "pr_error q = None" "lines_spec parse later db1 q' rest db'"
  shows "lines_spec parse (now @ later) db (then_progress q q') rest db'"
proof -
  obtain dl where dl: "later = dl @ rest" "sid ` set (parse_lines parse dl) \<subseteq> stored db' \<union> sid ` set (pr_failed q')"
    using assms(3) by (auto simp: lines_spec_def)
  have sub: "stored db \<subseteq> stored db1" "stored db1 \<subseteq> stored db'"
    using assms by (simp_all add: batch_spec_def lines_spec_def)
  have "sid ` set (parse_lines parse (now @ dl)) \<subseteq> stored db' \<union> sid ` set (pr_failed (then_progress q q'))"
    using assms(1,2) dl(2) sub by (auto simp: batch_spec_def)
  then have "\<exists>dl'. now @ later = dl' @ rest \<and>
      sid ` set (parse_lines parse dl') \<subseteq> stored db' \<union> sid ` set (pr_failed (then_progress q q'))"
    using dl(1) by (intro exI [of _ "now @ dl"]) simp
  moreover have "stored db' \<subseteq> stored db \<union> sid ` set (parse_lines parse (now @ later))"
  proof -
    have "stored db1 \<subseteq> stored db \<union> sid ` set (parse_lines parse now)"
      "stored db' \<subseteq> stored db1 \<union> sid ` set (parse_lines parse later)"
      using assms(1,3) by (simp_all add: batch_spec_def lines_spec_def)
    then show ?thesis by (auto simp only: parse_lines_append set_append image_Un)
  qed
  moreover have "distinct (alert_ids (then_progress q q'))" "set (alert_ids (then_progress q q')) \<subseteq> stored db' - stored db"
    using assms(1,3) sub by (auto simp: batch_spec_def lines_spec_def)
  moreover have "set (pr_failed (then_progress q q')) \<subseteq> set (parse_lines parse (now @ later))"
    using assms(1,3) by (auto simp: batch_spec_def lines_spec_def)
  moreover have "pr_error q' = None \<longrightarrow> rest = []" using assms(3) by (simp add: lines_spec_def)
  ultimately show ?thesis using sub by (simp add: lines_spec_def)
qed

lemma store_lines_spec:
  "store_lines ids save parse xs db = (p, rest, db') \<Longrightarrow> lines_spec parse xs db p rest db'"
proof (induction xs arbitrary: db p rest db' rule: length_induct)
  case (1 xs)
  show ?case
  proof (cases "xs = []")
    case True
    then show ?thesis using 1(2) by (auto simp: store_lines.simps lines_spec_def no_progress_def alert_ids_def)
  next
    case False
    let ?now = "take BATCH_SIZE xs" and ?later = "drop BATCH_SIZE xs"
    let ?batch = "parse_lines parse ?now"
    obtain res db1 where i: "ids (map sid ?batch) db = (res, db1)" by force
    show ?thesis
    proof (cases res)
      case (Inl x)
      then show ?thesis using 1(2) False i ids_failed [of _ db x db1]
        by (auto simp: store_lines.simps lines_spec_def no_progress_def alert_ids_def Let_def)
    next
      case (Inr already)
      have al: "set already \<subseteq> stored db1" "stored db1 = stored db" using ids_found i Inr by blast+
      obtain q db2 where q: "store_batch save already ?batch db1 = (q, db2)" by force
      have bs: "batch_spec ?batch db q db2"
        using store_batch_spec [OF q al(1)] by (simp add: batch_spec_def al(2))
      show ?thesis
      proof (cases "pr_error q = None")
        case False
        then have "p = q" "rest = ?now @ ?later" "db' = db2"
          using 1(2) \<open>xs \<noteq> []\<close> i Inr q by (auto simp: store_lines.simps Let_def)
        then show ?thesis using lines_spec_stop [OF bs False, of ?later] by simp
      next
        case True
        obtain q' rest' db3 where l: "store_lines ids save parse ?later db2 = (q', rest', db3)"
          by (metis prod_cases3)
        have "length ?later < length xs" using False by (simp add: BATCH_SIZE_def)
        then have ls: "lines_spec parse ?later db2 q' rest' db3" using 1(1) l by blast
        have "p = then_progress q q'" "rest = rest'" "db' = db3"
          using 1(2) False i Inr q True l by (auto simp: store_lines.simps Let_def then_progress_def)
        then show ?thesis using lines_spec_step [OF bs True ls] by simp
      qed
    qed
  qed
qed

end

section \<open>The model's database as a session store\<close>

interpretation postgres: session_store stored_ids stored_session_ids "classify_and_store e rs" for e rs
proof
  fix sids db found db'
  assume "stored_session_ids sids db = (Inr found, db')"
  then show "set found \<subseteq> stored_ids db \<and> stored_ids db' = stored_ids db"
    by (auto simp: stored_session_ids_def split: if_splits prod.splits option.splits dest: transact_Nil)
next
  fix sids db x db'
  assume "stored_session_ids sids db = (Inl x, db')"
  then show "stored_ids db' = stored_ids db"
    by (auto simp: stored_session_ids_def split: if_splits prod.splits option.splits dest: transact_Nil)
next
  fix r db run db'
  assume "classify_and_store e rs r db = (Inr (Some run), db')"
  from classify_and_store_runs [OF this] show
    "rec_session_id r \<notin> stored_ids db \<and> stored_ids db' = insert (rec_session_id r) (stored_ids db)"
    by (auto dest: stored_ids_snoc)
next
  fix r db db'
  assume "classify_and_store e rs r db = (Inr None, db')"
  from classify_and_store_runs [OF this] show "rec_session_id r \<in> stored_ids db \<and> stored_ids db' = stored_ids db"
    by (auto dest: stored_ids_same)
next
  fix r db x db'
  assume "classify_and_store e rs r db = (Inl x, db')"
  from classify_and_store_runs [OF this] show "stored_ids db' = stored_ids db \<or>
      rec_session_id r \<notin> stored_ids db \<and> stored_ids db' = insert (rec_session_id r) (stored_ids db)"
    by (auto dest: stored_ids_same stored_ids_snoc)
qed

section \<open>Catching up\<close>

definition take_over :: "pending_files \<Rightarrow> pending_files" where
  "take_over fs =
     (if working_file fs = None then fs\<lparr>working_file := pending_file fs, pending_file := None\<rparr> else fs)"

text \<open>Put back everything from the unfinished batch on, or remove the working file; \<open>None\<close> when the
  write fails.\<close>

definition finish_files :: "progress \<Rightarrow> str list \<Rightarrow> pending_files \<Rightarrow> pending_files option" where
  "finish_files p rest fs =
     (if pr_error p = None then Some (fs\<lparr>working_file := None\<rparr>)
      else map_option (\<lambda>fs'. fs'\<lparr>working_file := None\<rparr>) (append_lines (map (\<lambda>l. l @ [newline]) rest) fs))"

text \<open>\<open>catch_up_pending_sessions\<close>, with the sessions other threads keep meanwhile. The result is how
  many were stored, or \<open>None\<close> when the write of the remaining lines raises.\<close>

definition catch_up_pending_sessions ::
  "classifier_env \<Rightarrow> session_record list \<Rightarrow> classifier_state \<Rightarrow> nat option \<times> progress \<times> classifier_state" where
  "catch_up_pending_sessions e arrived st =
     (let fs = cs_files st in
      if \<not> (has_content (pending_file fs) \<or> has_content (working_file fs)) \<or> \<not> ce_database_url e
      then (Some 0, no_progress, st\<lparr>cs_files := keep_pending_sessions (ce_dump e) arrived fs\<rparr>)
      else case ping (cs_db st) of
        (Some x, db1) \<Rightarrow>
          (Some 0, no_progress, st\<lparr>cs_db := db1, cs_files := keep_pending_sessions (ce_dump e) arrived fs\<rparr>)
      | (None, db1) \<Rightarrow>
          (let fs1 = take_over fs; xs = text_lines (case working_file fs1 of None \<Rightarrow> [] | Some s \<Rightarrow> s) in
           case store_lines stored_session_ids (classify_and_store (ce_storage e) (ce_rules e)) (ce_parse e) xs db1 of
             (p, rest, db2) \<Rightarrow>
               (let fs2 = keep_pending_sessions (ce_dump e) arrived fs1 in
                case finish_files p rest fs2 of
                  None \<Rightarrow> (None, p, st\<lparr>cs_db := db2, cs_files := fs2\<rparr>)
                | Some fs3 \<Rightarrow>
                    (Some (length (pr_stored p)), p,
                     st\<lparr>cs_db := db2, cs_files := fs3,
                        cs_sent := cs_sent st @ send_catch_up_alerts (ce_alerts e) (pr_stored p),
                        cs_issue_syncs := cs_issue_syncs st + (if pr_stored p \<noteq> [] then 1 else 0)\<rparr>))))"

subsection \<open>What the files hold\<close>

text \<open>A line was written to a text: it stands there from the beginning of a line to a newline, whatever a reader makes
  of the characters between.\<close>

definition holds_line :: "str \<Rightarrow> str \<Rightarrow> bool" where
  "holds_line s l \<longleftrightarrow> (\<exists>a b. s = a @ l @ [newline] @ b \<and> complete_text a)"

definition file_holds :: "str option \<Rightarrow> str \<Rightarrow> bool" where
  "file_holds file l \<longleftrightarrow> (case file of None \<Rightarrow> False | Some s \<Rightarrow> holds_line s l)"

definition kept_line :: "pending_files \<Rightarrow> str \<Rightarrow> bool" where
  "kept_line fs l \<longleftrightarrow> file_holds (pending_file fs) l \<or> file_holds (working_file fs) l"

definition files_complete :: "pending_files \<Rightarrow> bool" where
  "files_complete fs \<longleftrightarrow>
     (case pending_file fs of None \<Rightarrow> True | Some s \<Rightarrow> complete_text s) \<and>
     (case working_file fs of None \<Rightarrow> True | Some s \<Rightarrow> complete_text s)"

lemma complete_Nil [simp]: "complete_text []"
  by (simp add: complete_text_def)

lemma holds_line_append: "holds_line s l \<Longrightarrow> holds_line (s @ t) l"
  unfolding holds_line_def by (metis append.assoc)

lemma holds_line_written: "complete_text s \<Longrightarrow> l \<in> set xs \<Longrightarrow> holds_line (s @ as_lines xs) l"
proof -
  assume s: "complete_text s" and "l \<in> set xs"
  then obtain ys zs where "xs = ys @ l # zs" by (metis split_list)
  then have "s @ as_lines xs = (s @ as_lines ys) @ l @ [newline] @ as_lines zs" by (simp add: as_lines_def)
  moreover have "complete_text (s @ as_lines ys)" by (simp add: s complete_append)
  ultimately show ?thesis unfolding holds_line_def by blast
qed

text \<open>A written line that has no line separator of its own and is not blank is read back.\<close>

lemma holds_line_read:
  assumes "holds_line s l" "clean_line l" "strip l \<noteq> []"
  shows "l \<in> set (text_lines s)"
proof -
  obtain a b where s: "s = a @ l @ [newline] @ b" "complete_text a" using assms(1) by (auto simp: holds_line_def)
  then have "split_lines s = split_lines a @ [l] @ split_lines b"
    using split_lines_append [of l b] by (simp add: split_lines_complete split_lines_line assms(2))
  then show ?thesis using assms(3) by (simp add: text_lines_def)
qed

lemma append_lines_holds:
  assumes "append_lines (map (\<lambda>l. l @ [newline]) xs) fs = Some fs'" "files_complete fs"
  shows "files_complete fs' \<and> working_file fs' = working_file fs
    \<and> (file_holds (pending_file fs) l \<or> l \<in> set xs \<longrightarrow> file_holds (pending_file fs') l)"
proof (cases "xs = []")
  case True
  then show ?thesis using assms by (simp add: append_lines_def)
next
  case False
  then have "fs' = fs\<lparr>pending_file := Some ((case pending_file fs of None \<Rightarrow> [] | Some s \<Rightarrow> s) @ as_lines xs)\<rparr>"
    using assms(1) by (auto simp: append_lines_def as_lines_def split: if_splits)
  then show ?thesis using assms(2) holds_line_written [of "[]" l xs]
    by (auto simp: files_complete_def file_holds_def complete_append holds_line_append holds_line_written split: option.splits)
qed

lemma keep_pending_holds:
  fixes dump sessions fs
  defines "fs' \<equiv> keep_pending_sessions dump sessions fs"
  assumes "files_complete fs"
  shows "files_complete fs' \<and> working_file fs' = working_file fs
    \<and> (file_holds (pending_file fs) l \<or> disk_writable fs \<and> l \<in> dump ` set sessions \<longrightarrow> file_holds (pending_file fs') l)"
proof (cases "append_lines (map (\<lambda>l. l @ [newline]) (map dump sessions)) fs")
  case None
  then show ?thesis using assms by (auto simp: keep_pending_sessions_def append_lines_def o_def split: if_splits)
next
  case (Some fs1)
  then show ?thesis using append_lines_holds [OF Some assms(2), of l] by (simp add: fs'_def keep_pending_sessions_def o_def)
qed

lemma take_over_holds:
  "files_complete fs \<Longrightarrow> files_complete (take_over fs) \<and> disk_writable (take_over fs) = disk_writable fs
    \<and> (kept_line (take_over fs) l \<longleftrightarrow> kept_line fs l)"
  by (auto simp: take_over_def files_complete_def kept_line_def file_holds_def)

lemma finish_files_holds:
  fixes p rest fs
  defines "fs' \<equiv> (case finish_files p rest fs of None \<Rightarrow> fs | Some f \<Rightarrow> f)"
  assumes "files_complete fs"
  shows "files_complete fs' \<and> (file_holds (pending_file fs) l \<longrightarrow> kept_line fs' l)
    \<and> (pr_error p \<noteq> None \<and> l \<in> set rest \<and> file_holds (working_file fs) l \<longrightarrow> kept_line fs' l)"
proof (cases "pr_error p")
  case None
  then show ?thesis using assms(2) by (auto simp: fs'_def finish_files_def files_complete_def kept_line_def)
next
  case (Some x)
  show ?thesis
  proof (cases "append_lines (map (\<lambda>l. l @ [newline]) rest) fs")
    case None
    then show ?thesis using assms(2) Some by (auto simp: fs'_def finish_files_def kept_line_def)
  next
    case (Some fs3)
    then show ?thesis using append_lines_holds [OF Some assms(2), of l] \<open>pr_error p = Some x\<close>
      by (auto simp: fs'_def finish_files_def files_complete_def kept_line_def)
  qed
qed

subsection \<open>No pending session is lost\<close>

lemma catch_up_cases:
  assumes "catch_up_pending_sessions e arrived st = (res, p, st')"
  obtains (idle) "cs_files st' = keep_pending_sessions (ce_dump e) arrived (cs_files st)"
  | (ran) db1 rest fs1 fs2 where
      "fs1 = take_over (cs_files st)" "fs2 = keep_pending_sessions (ce_dump e) arrived fs1"
      "store_lines stored_session_ids (classify_and_store (ce_storage e) (ce_rules e)) (ce_parse e)
         (text_lines (case working_file fs1 of None \<Rightarrow> [] | Some s \<Rightarrow> s)) db1 = (p, rest, cs_db st')"
      "cs_files st' = (case finish_files p rest fs2 of None \<Rightarrow> fs2 | Some fs3 \<Rightarrow> fs3)"
  using assms that
  by (auto simp: catch_up_pending_sessions_def Let_def split: if_splits prod.splits option.splits)

text \<open>A line of the working file that is read as a session is stored, reported, or among those put back.\<close>

lemma working_line_done:
  assumes "store_lines stored_session_ids (classify_and_store s rs) parse (text_lines text) db1 = (p, rest, db')"
    "l \<in> set (text_lines text)" "parse l = Some r"
  shows "rec_session_id r \<in> stored_ids db' \<union> rec_session_id ` set (pr_failed p) \<or> pr_error p \<noteq> None \<and> l \<in> set rest"
proof -
  obtain ys where ys: "text_lines text = ys @ rest"
      "rec_session_id ` set (parse_lines parse ys) \<subseteq> stored_ids db' \<union> rec_session_id ` set (pr_failed p)"
    and finished: "pr_error p = None \<longrightarrow> rest = []"
    using postgres.store_lines_spec [OF assms(1), unfolded postgres.lines_spec_def] by auto
  have "r \<in> set (parse_lines parse ys)" if "l \<in> set ys"
    using that assms(3) by (force simp: parse_lines_def map_filter_def)
  then show ?thesis using assms(2) ys finished by auto
qed

text \<open>C27: Catching up loses no session kept to be stored later, whatever the database does: with any schedule of
  failing transactions, a server that commits before the client sees the error, and a disk that takes no writes,
  every session whose line was written to the pending or the working file before the pass, or to the pending file
  while it runs, is afterwards stored, reported as not stored, or still written in one of the files. The line must be
  one the reader can read back: a JSON text that gives the session again and holds no line separator unescaped.\<close>

theorem no_pending_session_lost:
  assumes complete: "files_complete (cs_files st)" and run: "catch_up_pending_sessions e arrived st = (res, p, st')"
    and kept: "kept_line (cs_files st) (ce_dump e r) \<or> disk_writable (cs_files st) \<and> r \<in> set arrived"
    and line: "clean_line (ce_dump e r)" "strip (ce_dump e r) \<noteq> []" "ce_parse e (ce_dump e r) = Some r"
  shows "(rec_session_id r \<in> stored_ids (cs_db st') \<or> rec_session_id r \<in> rec_session_id ` set (pr_failed p)
      \<or> kept_line (cs_files st') (ce_dump e r)) \<and> files_complete (cs_files st')"
  using run
proof (cases rule: catch_up_cases)
  case idle
  then show ?thesis using keep_pending_holds [OF complete, of "ce_dump e" arrived "ce_dump e r"] kept
    by (auto simp: kept_line_def)
next
  case (ran db1 rest fs1 fs2)
  have fs1: "files_complete fs1" "disk_writable fs1 = disk_writable (cs_files st)" "kept_line fs1 (ce_dump e r) = kept_line (cs_files st) (ce_dump e r)"
    using take_over_holds [OF complete] by (simp_all add: ran(1))
  note fs2 = keep_pending_holds [OF fs1(1), of "ce_dump e" arrived "ce_dump e r", folded ran(2)]
  note left = finish_files_holds [of fs2 p rest "ce_dump e r", folded ran(4)]
  consider (pending) "file_holds (pending_file fs2) (ce_dump e r)" | (working) "file_holds (working_file fs1) (ce_dump e r)"
    using kept fs1 fs2 by (auto simp: kept_line_def)
  then show ?thesis
  proof cases
    case pending
    then show ?thesis using left fs2 by blast
  next
    case working
    then obtain s where s: "working_file fs1 = Some s" "holds_line s (ce_dump e r)" by (auto simp: file_holds_def split: option.splits)
    have "rec_session_id r \<in> stored_ids (cs_db st') \<union> rec_session_id ` set (pr_failed p)
        \<or> pr_error p \<noteq> None \<and> ce_dump e r \<in> set rest"
      by (rule working_line_done [OF ran(3) _ line(3)]) (simp add: s holds_line_read line)
    then show ?thesis using left fs2 working by auto
  qed
qed

end
