(* ===== verification/AlertGroupProps.thy ===== *)
theory AlertGroupProps
  imports AlertGroups
begin

text \<open>What the grouping of alerts promises.\<close>

section \<open>The invariant of the groups\<close>

definition group_ok :: "alert_group \<Rightarrow> bool" where
  "group_ok g \<longleftrightarrow> (held g = 0 \<longleftrightarrow> timer_due g = None) \<and> (held g = 0 \<longleftrightarrow> latest g = None)"

definition groups_ok :: "alert_state \<Rightarrow> bool" where
  "groups_ok st \<longleftrightarrow> distinct (dict_keys (alert_groups st)) \<and>
     (\<forall>k g. dict_get (alert_groups st) k = Some g \<longrightarrow> group_ok g)"

definition held_at :: "alert_key \<Rightarrow> alert_state \<Rightarrow> nat" where
  "held_at k st = (case dict_get (alert_groups st) k of None \<Rightarrow> 0 | Some g \<Rightarrow> held g)"

lemma group_ok_new [simp]: "group_ok (new_group now rank)" "held (new_group now rank) = 0"
  "opened_at (new_group now rank) = now" "group_rank (new_group now rank) = rank"
  by (simp_all add: group_ok_def new_group_def)

lemma group_ok_hold [simp]: "group_ok g \<Longrightarrow> group_ok (hold w now wall item g)"
  "held (hold w now wall item g) = held g + 1" "opened_at (hold w now wall item g) = opened_at g"
  "group_rank (hold w now wall item g) = group_rank g"
  by (auto simp: group_ok_def hold_def split: option.splits)

lemma dict_get_filter_pairs:
  "distinct (dict_keys d) \<Longrightarrow>
    dict_get (filter P d) k = (case dict_get d k of None \<Rightarrow> None | Some v \<Rightarrow> if P (k, v) then Some v else None)"
  by (induction d) (auto simp: dict_get_def dict_keys_def map_of_eq_None_iff split: option.splits
      dest: map_of_SomeD)

lemma groups_okD: "groups_ok st \<Longrightarrow> dict_get (alert_groups st) k = Some g \<Longrightarrow> group_ok g"
  unfolding groups_ok_def by blast

lemma groups_of_remember [simp]: "alert_groups (remember_rank sid r st) = alert_groups st"
  "last_pruned_at (remember_rank sid r st) = last_pruned_at st"
  by (simp_all add: remember_rank_def)

lemma groups_of_put [simp]: "alert_groups (put_group k g st) = dict_put k g (alert_groups st)"
  "alerted_session_ranks (put_group k g st) = alerted_session_ranks st"
  by (simp_all add: put_group_def)

lemma ranks_of_prune [simp]: "alerted_session_ranks (prune_groups w now st) = alerted_session_ranks st"
  by (simp add: prune_groups_def)

lemma groups_ok_put [simp]: "groups_ok st \<Longrightarrow> group_ok g \<Longrightarrow> groups_ok (put_group k g st)"
  by (auto simp: groups_ok_def)

lemma groups_ok_remember [simp]: "groups_ok (remember_rank sid r st) = groups_ok st"
  by (simp add: groups_ok_def)

text \<open>Pruning removes only groups that hold nothing and whose window is over.\<close>

lemma dict_get_prune:
  assumes "groups_ok st"
  shows "dict_get (alert_groups (prune_groups w now st)) k = dict_get (alert_groups st) k \<or>
     dict_get (alert_groups (prune_groups w now st)) k = None \<and>
       (\<exists>g. dict_get (alert_groups st) k = Some g \<and> held g = 0 \<and> w \<le> now - opened_at g)"
proof -
  have "distinct (dict_keys (alert_groups st))" using assms by (simp add: groups_ok_def)
  then show ?thesis using groups_okD [OF assms, of k]
    by (auto simp: prune_groups_def dict_get_filter_pairs group_ok_def split: option.splits)
qed

lemma groups_ok_prune [simp]:
  assumes "groups_ok st" shows "groups_ok (prune_groups w now st)"
proof -
  have "distinct (dict_keys (alert_groups (prune_groups w now st)))"
    using assms by (simp add: groups_ok_def prune_groups_def distinct_keys_filter)
  then show ?thesis using assms dict_get_prune [OF assms, of w now] unfolding groups_ok_def by (metis option.distinct(1))
qed

lemma held_at_prune [simp]: "groups_ok st \<Longrightarrow> held_at k (prune_groups w now st) = held_at k st"
  using dict_get_prune [of st w now k] by (auto simp: held_at_def)

lemma held_at_put [simp]: "held_at k (put_group k' g st) = (if k = k' then held g else held_at k st)"
  by (simp add: held_at_def)

lemma held_at_remember [simp]: "held_at k (remember_rank sid r st) = held_at k st"
  by (simp add: held_at_def)

section \<open>One step\<close>

text \<open>A session not alerted on before is either counted in the message that goes out with it or held.\<close>

lemma alert_decision_cases:
  assumes ok: "groups_ok st" and d: "alert_decision w now wall (run, session, summary) st = (res, st')"
  shows "already_alerted st session summary \<and> res = None \<and> st' = st
     \<or> \<not> already_alerted st session summary \<and> groups_ok st'
       \<and> (if k = group_key session summary
               then held_at k st' + (case res of None \<Rightarrow> 0 | Some n \<Rightarrow> n + 1) = held_at k st + 1
               else held_at k st' = held_at k st)"
proof (cases "already_alerted st session summary")
  case True
  then show ?thesis using d by (auto simp: alert_decision_def)
next
  case False
  define st2 where "st2 = prune_groups w now (remember_rank (rec_session_id session) (risk_rank (sum_risk_level summary)) st)"
  have ok2: "groups_ok st2" and held2: "held_at k st2 = held_at k st" for k using ok by (simp_all add: st2_def)
  show ?thesis
  proof (cases "w \<le> 0")
    case True
    then show ?thesis using False d ok by (auto simp: alert_decision_def)
  next
    case w: False
    let ?k = "group_key session summary"
    show ?thesis
    proof (cases "opens_window w now summary (dict_get (alert_groups st2) ?k)")
      case True
      then have "res = Some (held_at ?k st2)" "st' = put_group ?k (new_group now (risk_rank (sum_risk_level summary))) st2"
        using False w d by (auto simp: alert_decision_def Let_def st2_def held_at_def)
      then show ?thesis using False ok2 held2 by auto
    next
      case no: False
      then obtain g where g: "dict_get (alert_groups st2) ?k = Some g" by (auto simp: opens_window_def split: option.splits)
      then have r: "res = None" "st' = put_group ?k (hold w now wall (run, session, summary) g) st2"
        using False w d no by (auto simp: alert_decision_def Let_def st2_def)
      have "group_ok g" "held_at ?k st2 = held g" using groups_okD [OF ok2 g] g by (auto simp: held_at_def)
      then show ?thesis using False ok2 held2 r by auto
    qed
  qed
qed

lemma take_follow_up_cases:
  assumes "groups_ok st"
  shows "take_follow_up now key st = (None, st) \<and> held_at key st = 0
     \<or> (\<exists>g item. dict_get (alert_groups st) key = Some g \<and> 0 < held g \<and> latest g = Some item
          \<and> take_follow_up now key st
              = (Some (held g, last_held_at g, item), put_group key (new_group now (group_rank g)) st))"
proof (cases "dict_get (alert_groups st) key")
  case None
  then show ?thesis by (simp add: take_follow_up_def held_at_def)
next
  case (Some g)
  then have "group_ok g" using groups_okD [OF assms] by simp
  then show ?thesis using Some
    by (cases "latest g") (auto simp: take_follow_up_def held_at_def group_ok_def)
qed

text \<open>How many classifications a message stands for: its own, and those it reports as repeats.\<close>

definition classifications_in :: "alert_message \<Rightarrow> nat" where
  "classifications_in m = msg_repeats m + (if msg_follow_up m then 0 else 1)"

definition classifications_told :: "alert_key \<Rightarrow> alert_message list \<Rightarrow> nat" where
  "classifications_told k ms = sum_list (map classifications_in (filter (\<lambda>m. msg_key m = k) ms))"

lemma classifications_told_append [simp]: "classifications_told k (ms @ ms') = classifications_told k ms + classifications_told k ms'"
  and classifications_told_Nil [simp]: "classifications_told k [] = 0"
  by (simp_all add: classifications_told_def)

definition arrives :: "alert_key \<Rightarrow> alert_state \<Rightarrow> alert_event \<Rightarrow> nat" where
  "arrives k st e = (case e of
     Classified now wall run session summary \<Rightarrow>
       if group_key session summary = k \<and> \<not> already_alerted st session summary then 1 else 0
   | TimerFired now key \<Rightarrow> 0)"

lemma alert_step_counts:
  assumes ok: "groups_ok st" and s: "alert_step w e st = (ms, st')"
  shows "groups_ok st' \<and> classifications_told k ms + held_at k st' = held_at k st + arrives k st e"
proof (cases e)
  case (Classified now wall run session summary)
  obtain res st'' where d: "alert_decision w now wall (run, session, summary) st = (res, st'')" by force
  have "st' = st''" using s d by (auto simp: Classified split: option.splits)
  then show ?thesis using s d alert_decision_cases [OF ok d, of k] ok
    by (cases res) (auto simp: Classified arrives_def classifications_told_def classifications_in_def split: if_splits)
next
  case (TimerFired now key)
  show ?thesis using take_follow_up_cases [OF ok, of now key]
  proof (elim disjE exE conjE)
    assume "take_follow_up now key st = (None, st)"
    then show ?thesis using ok s by (auto simp: TimerFired arrives_def)
  next
    fix g item assume g: "dict_get (alert_groups st) key = Some g"
      and t: "take_follow_up now key st = (Some (held g, last_held_at g, item), put_group key (new_group now (group_rank g)) st)"
    then show ?thesis using ok s
      by (auto simp: TimerFired arrives_def classifications_told_def classifications_in_def held_at_def)
  qed
qed

section \<open>Histories\<close>

text \<open>How many classifications of a group were not dropped because the session had alerted at that level.\<close>

fun arrivals :: "alert_key \<Rightarrow> rat \<Rightarrow> alert_event list \<Rightarrow> alert_state \<Rightarrow> nat" where
  "arrivals k w [] st = 0"
| "arrivals k w (e # es) st = arrives k st e + arrivals k w es (snd (alert_step w e st))"

lemma alert_run_Cons:
  "alert_run w (e # es) st = (fst (alert_step w e st) @ fst (alert_run w es (snd (alert_step w e st))),
     snd (alert_run w es (snd (alert_step w e st))))"
  by (simp add: split_beta)

lemma alert_run_counts:
  "groups_ok st \<Longrightarrow> classifications_told k (fst (alert_run w es st)) + held_at k (snd (alert_run w es st))
     = held_at k st + arrivals k w es st"
proof (induction es arbitrary: st)
  case (Cons e es)
  have "groups_ok (snd (alert_step w e st)) \<and> classifications_told k (fst (alert_step w e st)) + held_at k (snd (alert_step w e st))
      = held_at k st + arrives k st e"
    using alert_step_counts [OF Cons.prems, of w e "fst (alert_step w e st)" "snd (alert_step w e st)"] by simp
  then show ?case using Cons.IH [of "snd (alert_step w e st)"]
    unfolding alert_run_Cons fst_conv snd_conv classifications_told_append arrivals.simps by linarith
qed simp

lemma groups_ok_no_alerts: "groups_ok no_alerts" "held_at k no_alerts = 0"
  by (simp_all add: groups_ok_def no_alerts_def dict_keys_def held_at_def)

definition event_sessions :: "alert_event list \<Rightarrow> str list" where
  "event_sessions es = concat (map (\<lambda>e. case e of
     Classified now wall run session summary \<Rightarrow> [rec_session_id session] | TimerFired now key \<Rightarrow> []) es)"

text \<open>The sessions classified into a group.\<close>

definition group_sessions :: "alert_key \<Rightarrow> alert_event list \<Rightarrow> str list" where
  "group_sessions k es = concat (map (\<lambda>e. case e of
     Classified now wall run session summary \<Rightarrow> if group_key session summary = k then [rec_session_id session] else []
   | TimerFired now key \<Rightarrow> []) es)"

lemma evict_oldest_small [simp]: "length d \<le> MAX_TRACKED_SESSIONS \<Longrightarrow> evict_oldest d = d"
  by (cases d) auto

lemma move_to_end_get [simp]: "dict_get (move_to_end k d) k' = dict_get d k'"
proof -
  have "dict_get (filter (\<lambda>kv. fst kv \<noteq> k) d @ filter (\<lambda>kv. fst kv = k) d) k'
      = (case dict_get (filter (\<lambda>kv. fst kv \<noteq> k) d) k' of Some v \<Rightarrow> Some v
         | None \<Rightarrow> dict_get (filter (\<lambda>kv. fst kv = k) d) k')"
    by (auto simp: dict_get_def map_add_def split: option.splits)
  then show ?thesis
    using dict_get_filter [of "\<lambda>x. x \<noteq> k" d k'] dict_get_filter [of "\<lambda>x. x = k" d k']
    by (auto simp: move_to_end_def split: option.splits)
qed

lemma move_to_end_keys [simp]: "set (dict_keys (move_to_end k d)) = set (dict_keys d)"
  "distinct (dict_keys d) \<Longrightarrow> distinct (dict_keys (move_to_end k d))"
  by (auto simp: move_to_end_def dict_keys_def distinct_map_filter)

lemma evict_oldest_suffix: "\<exists>p. d = p @ evict_oldest d"
proof (induction d rule: evict_oldest.induct)
  case (2 kv d)
  then show ?case by (cases "MAX_TRACKED_SESSIONS < length (kv # d)") (metis append_Cons evict_oldest.simps(2) append_Nil)+
qed simp

lemma ranks_of_decision:
  "alerted_session_ranks (snd (alert_decision w now wall (run, session, summary) st)) =
     (if already_alerted st session summary then alerted_session_ranks st
      else alerted_session_ranks (remember_rank (rec_session_id session) (risk_rank (sum_risk_level summary)) st))"
  by (auto simp: alert_decision_def Let_def split: option.splits)

lemma ranks_of_follow_up:
  "alerted_session_ranks (snd (take_follow_up now key st)) = alerted_session_ranks st"
  by (auto simp: take_follow_up_def split: option.splits)

lemma snd_alert_step:
  "snd (alert_step w (Classified now wall run session summary) st) = snd (alert_decision w now wall (run, session, summary) st)"
  "snd (alert_step w (TimerFired now key) st) = snd (take_follow_up now key st)"
  by (auto simp: split_beta split: option.splits)

lemma ranks_of_step:
  "set (dict_keys (alerted_session_ranks (snd (alert_step w e st)))) \<subseteq> set (dict_keys (alerted_session_ranks st)) \<union> set (event_sessions [e])"
proof (cases e)
  case (Classified now wall run session summary)
  have "set (dict_keys (evict_oldest d)) \<subseteq> set (dict_keys d)" for d :: "(str \<times> nat) list"
  proof -
    obtain p where "d = p @ evict_oldest d" using evict_oldest_suffix by blast
    then have "set (evict_oldest d) \<subseteq> set d" by (metis set_append Un_upper2)
    then show ?thesis by (auto simp: dict_keys_def)
  qed
  note kept = this [of "move_to_end (rec_session_id session) (dict_put (rec_session_id session) (risk_rank (sum_risk_level summary)) (alerted_session_ranks st))"]
  show ?thesis using kept unfolding Classified snd_alert_step ranks_of_decision
    by (auto simp: remember_rank_def event_sessions_def)
next
  case (TimerFired now key)
  show ?thesis unfolding TimerFired snd_alert_step ranks_of_follow_up by simp
qed

text \<open>When every session is classified once, no classification is dropped.\<close>

lemma arrivals_distinct:
  "distinct (event_sessions es) \<Longrightarrow> set (event_sessions es) \<inter> set (dict_keys (alerted_session_ranks st)) = {}
    \<Longrightarrow> arrivals k w es st = length (group_sessions k es)"
proof (induction es arbitrary: st)
  case Nil
  then show ?case by (simp add: group_sessions_def)
next
  case (Cons e es)
  have events: "event_sessions (e # es) = event_sessions [e] @ event_sessions es" by (simp add: event_sessions_def)
  have "set (event_sessions es) \<inter> set (dict_keys (alerted_session_ranks (snd (alert_step w e st)))) = {}"
    using ranks_of_step [of w e st] Cons.prems unfolding events by auto
  then have rest: "arrivals k w es (snd (alert_step w e st)) = length (group_sessions k es)"
    using Cons.IH Cons.prems(1) unfolding events by simp
  have "arrives k st e = length (group_sessions k [e])"
  proof (cases e)
    case (Classified now wall run session summary)
    have "rec_session_id session \<notin> set (dict_keys (alerted_session_ranks st))"
      using Cons.prems(2) by (auto simp: Classified event_sessions_def)
    then have "dict_get (alerted_session_ranks st) (rec_session_id session) = None"
      by (simp add: dict_get_def dict_keys_def map_of_eq_None_iff)
    then have "\<not> already_alerted st session summary" by (simp add: already_alerted_def)
    then show ?thesis by (simp add: Classified arrives_def group_sessions_def)
  qed (simp add: arrives_def group_sessions_def)
  then show ?case using rest by (simp add: group_sessions_def)
qed

lemma group_sessions_distinct: "distinct (event_sessions es) \<Longrightarrow> distinct (group_sessions k es)"
proof (induction es)
  case (Cons e es)
  have "set (group_sessions k es) \<subseteq> set (event_sessions es)"
    by (auto simp: group_sessions_def event_sessions_def split: alert_event.splits if_splits)
  then show ?case using Cons by (cases e) (auto simp: group_sessions_def event_sessions_def)
qed (simp add: group_sessions_def)

text \<open>C30: The grouping of alerts loses no held-back classification and counts none twice: for every persona, source
  and technique, whatever the order of classifications and timer callbacks, the classifications that were not dropped
  as already alerted are exactly those the messages so far stand for (each message itself and the repeats it reports)
  plus those still held. When each session is classified once, these are the sessions of the group; a session
  classified again at a higher level counts again.\<close>

theorem held_sessions_conserved:
  "classifications_told k (fst (alert_run w es no_alerts)) + held_at k (snd (alert_run w es no_alerts))
     = arrivals k w es no_alerts
   \<and> (distinct (event_sessions es) \<longrightarrow>
       classifications_told k (fst (alert_run w es no_alerts)) + held_at k (snd (alert_run w es no_alerts))
         = card (set (group_sessions k es)))"
proof -
  have "arrivals k w es no_alerts = card (set (group_sessions k es))" if "distinct (event_sessions es)"
    using arrivals_distinct [OF that, of no_alerts k w] distinct_card [OF group_sessions_distinct [OF that, of k]]
    by (simp add: no_alerts_def dict_keys_def)
  then show ?thesis using alert_run_counts [OF groups_ok_no_alerts(1), of k w es] groups_ok_no_alerts(2) by simp
qed

subsection \<open>Once per level\<close>

text \<open>The levels at which a session got past the check for having alerted.\<close>

fun levels :: "str \<Rightarrow> rat \<Rightarrow> alert_event list \<Rightarrow> alert_state \<Rightarrow> nat list" where
  "levels sid w [] st = []"
| "levels sid w (e # es) st =
     (case e of
        Classified now wall run session summary \<Rightarrow>
          (if rec_session_id session = sid \<and> \<not> already_alerted st session summary
           then [risk_rank (sum_risk_level summary)] else [])
      | TimerFired now key \<Rightarrow> [])
     @ levels sid w es (snd (alert_step w e st))"

definition ranks_within :: "str set \<Rightarrow> alert_state \<Rightarrow> bool" where
  "ranks_within S st \<longleftrightarrow> distinct (dict_keys (alerted_session_ranks st)) \<and>
     set (dict_keys (alerted_session_ranks st)) \<subseteq> S"

lemma remember_rank_get:
  assumes S: "ranks_within S st" "finite S" "card S \<le> MAX_TRACKED_SESSIONS" "sid \<in> S"
  shows "ranks_within S (remember_rank sid r st) \<and>
    alerted_session_ranks (remember_rank sid r st) = move_to_end sid (dict_put sid r (alerted_session_ranks st))"
proof -
  let ?d = "move_to_end sid (dict_put sid r (alerted_session_ranks st))"
  have d: "distinct (dict_keys ?d)" "set (dict_keys ?d) \<subseteq> S" using S by (auto simp: ranks_within_def)
  then have "length (dict_keys ?d) \<le> card S"
    by (metis card_mono distinct_card S(2))
  then have "evict_oldest ?d = ?d" using S(3) by (simp add: dict_keys_def)
  then show ?thesis using d by (simp add: remember_rank_def ranks_within_def)
qed

lemma levels_increase:
  assumes "finite S" "card S \<le> MAX_TRACKED_SESSIONS"
  shows "ranks_within S st \<Longrightarrow> set (event_sessions es) \<subseteq> S \<Longrightarrow>
    sorted_wrt (<) (levels sid w es st) \<and>
    (\<forall>r. dict_get (alerted_session_ranks st) sid = Some r \<longrightarrow> list_all (\<lambda>l. r < l) (levels sid w es st))"
proof (induction es arbitrary: st)
  case (Cons e es)
  show ?case
  proof (cases e)
    case (TimerFired now key)
    let ?st = "snd (alert_step w e st)"
    have "alerted_session_ranks ?st = alerted_session_ranks st"
      by (simp only: TimerFired snd_alert_step ranks_of_follow_up)
    then have "ranks_within S ?st" using Cons.prems by (simp add: ranks_within_def)
    then show ?thesis using Cons.IH [of ?st] Cons.prems(2) \<open>alerted_session_ranks ?st = _\<close>
      by (simp add: TimerFired event_sessions_def)
  next
    case (Classified now wall run session summary)
    let ?st = "snd (alert_step w e st)"
    let ?r = "risk_rank (sum_risk_level summary)" and ?sid = "rec_session_id session"
    have sid: "?sid \<in> S" and es: "set (event_sessions es) \<subseteq> S"
      using Cons.prems(2) by (auto simp: Classified event_sessions_def)
    have ranks: "alerted_session_ranks ?st = (if already_alerted st session summary then alerted_session_ranks st
        else move_to_end ?sid (dict_put ?sid ?r (alerted_session_ranks st)))"
      using remember_rank_get [OF Cons.prems(1) assms sid] by (simp only: Classified snd_alert_step ranks_of_decision)
    have "ranks_within S ?st"
      using ranks Cons.prems(1) sid by (auto simp: ranks_within_def)
    then have ih: "sorted_wrt (<) (levels sid w es ?st)"
        "dict_get (alerted_session_ranks ?st) sid = Some r \<Longrightarrow> list_all (\<lambda>l. r < l) (levels sid w es ?st)" for r
      using Cons.IH es by blast+
    have lv: "levels sid w (e # es) st = (if ?sid = sid \<and> \<not> already_alerted st session summary then [?r] else [])
        @ levels sid w es ?st"
      by (simp add: Classified)
    show ?thesis
    proof (cases "?sid = sid \<and> \<not> already_alerted st session summary")
      case True
      then have "list_all (\<lambda>l. ?r < l) (levels sid w es ?st)" using ih(2) ranks by simp
      then show ?thesis using True ih(1) unfolding lv
        by (auto simp: list_all_iff already_alerted_def split: option.splits dest: order.strict_trans)
    next
      case False
      then have "dict_get (alerted_session_ranks ?st) sid = dict_get (alerted_session_ranks st) sid"
        using ranks by auto
      then show ?thesis using ih lv False by auto
    qed
  qed
qed simp

text \<open>C31: A session alerts once per level: while at most 10,000 sessions are tracked, the levels
  at which one session's classifications get past the check for having alerted strictly increase,
  whatever happens in between. (With more, the code forgets the levels of the oldest.)\<close>

theorem session_alerts_once_per_level:
  assumes "card (set (event_sessions es)) \<le> MAX_TRACKED_SESSIONS"
  shows "sorted_wrt (<) (levels sid w es no_alerts)"
  using levels_increase [OF _ assms, of no_alerts es sid w]
  by (simp add: ranks_within_def no_alerts_def dict_keys_def)

subsection \<open>One message per window\<close>

fun event_time :: "alert_event \<Rightarrow> rat" where
  "event_time (Classified now wall run session summary) = now"
| "event_time (TimerFired now key) = now"

text \<open>Timers call back no earlier than they are due.\<close>

fun timers_punctual :: "rat \<Rightarrow> alert_event list \<Rightarrow> alert_state \<Rightarrow> bool" where
  "timers_punctual w [] st = True"
| "timers_punctual w (e # es) st =
     ((case e of
         Classified now wall run session summary \<Rightarrow> True
       | TimerFired now key \<Rightarrow>
           (case dict_get (alert_groups st) key of
              None \<Rightarrow> True
            | Some g \<Rightarrow> (case timer_due g of None \<Rightarrow> True | Some due \<Rightarrow> due \<le> now)))
      \<and> timers_punctual w es (snd (alert_step w e st)))"

definition may_follow :: "rat \<Rightarrow> alert_message \<Rightarrow> alert_message \<Rightarrow> bool" where
  "may_follow w m m' \<longleftrightarrow> w \<le> msg_at m' - msg_at m \<or> msg_rank m < msg_rank m' \<or>
     msg_rank m' = risk_rank Critical \<and> \<not> msg_follow_up m'"

text \<open>The group's record of its last message.\<close>

definition last_told :: "rat \<Rightarrow> rat \<Rightarrow> alert_key \<Rightarrow> alert_message option \<Rightarrow> alert_state \<Rightarrow> bool" where
  "last_told w now k m st \<longleftrightarrow>
     (case dict_get (alert_groups st) k of
        None \<Rightarrow> (case m of None \<Rightarrow> True | Some m \<Rightarrow> w \<le> now - msg_at m)
      | Some g \<Rightarrow> (case m of None \<Rightarrow> False | Some m \<Rightarrow> msg_at m = opened_at g \<and> msg_rank m = group_rank g)
          \<and> (\<forall>due. timer_due g = Some due \<longrightarrow> opened_at g + w \<le> due))"

definition chain :: "rat \<Rightarrow> alert_message option \<Rightarrow> alert_message list \<Rightarrow> bool" where
  "chain w m ms = successively (may_follow w) ((case m of None \<Rightarrow> [] | Some m \<Rightarrow> [m]) @ ms)"

lemma chain_simps [simp]:
  "chain w m []"
  "chain w m (m' # ms) \<longleftrightarrow> (case m of None \<Rightarrow> True | Some m \<Rightarrow> may_follow w m m') \<and> chain w (Some m') ms"
  by (cases m; simp add: chain_def)+

lemma last_told_prune:
  assumes "groups_ok st" "last_told w now k m st" "now \<le> now'"
  shows "last_told w now' k m (prune_groups w now' st)"
proof -
  have "w \<le> now' - t" if "w \<le> now - t" for t using that assms(3) by simp
  then show ?thesis using dict_get_prune [OF assms(1), of w now' k] assms(2)
    by (fastforce simp: last_told_def split: option.splits)
qed

lemma last_told_decision:
  assumes ok: "groups_ok st" and lt: "last_told w now k m st" and now: "now \<le> now'" and w: "0 < w"
    and d: "alert_decision w now' wall (run, session, summary) st = (res, st')"
  shows "last_told w now' k
      (if group_key session summary = k \<and> res \<noteq> None
       then Some \<lparr>msg_at = now', msg_key = k, msg_rank = risk_rank (sum_risk_level summary),
             msg_repeats = the res, msg_follow_up = False\<rparr> else m) st'
    \<and> (group_key session summary = k \<and> res \<noteq> None \<longrightarrow>
        (case m of None \<Rightarrow> True | Some m \<Rightarrow> may_follow w m \<lparr>msg_at = now', msg_key = k,
             msg_rank = risk_rank (sum_risk_level summary), msg_repeats = the res, msg_follow_up = False\<rparr>))"
proof (cases "already_alerted st session summary")
  case True
  then show ?thesis using d lt now by (auto simp: alert_decision_def last_told_def split: option.splits)
next
  case False
  define st2 where "st2 = prune_groups w now' (remember_rank (rec_session_id session) (risk_rank (sum_risk_level summary)) st)"
  let ?k = "group_key session summary"
  have ok2: "groups_ok st2" using ok by (simp add: st2_def)
  have lt2: "last_told w now' k m st2"
    unfolding st2_def by (rule last_told_prune [OF _ _ now]) (use ok lt in \<open>simp_all add: last_told_def\<close>)
  show ?thesis
  proof (cases "opens_window w now' summary (dict_get (alert_groups st2) ?k)")
    case True
    then have r: "res \<noteq> None" "st' = put_group ?k (new_group now' (risk_rank (sum_risk_level summary))) st2"
      using False w d by (auto simp: alert_decision_def Let_def st2_def)
    have "w \<le> now' - msg_at x \<or> msg_rank x < risk_rank (sum_risk_level summary) \<or> sum_risk_level summary = Critical"
      if "k = ?k" "m = Some x" for x
      using lt2 True that by (auto simp: last_told_def opens_window_def split: option.splits)
    then show ?thesis using r lt2
      by (cases "?k = k") (auto simp: last_told_def may_follow_def new_group_def split: option.splits)
  next
    case no: False
    then obtain g where g: "dict_get (alert_groups st2) ?k = Some g" by (auto simp: opens_window_def split: option.splits)
    then have r: "res = None" "st' = put_group ?k (hold w now' wall (run, session, summary) g) st2"
      using False w d no by (auto simp: alert_decision_def Let_def st2_def)
    have "opened_at g + w \<le> now' + max (opened_at g + w - now') 0" by simp
    then show ?thesis using r lt2 g
      by (cases "?k = k") (auto simp: last_told_def hold_def split: option.splits)
  qed
qed

lemma last_told_follow_up:
  assumes ok: "groups_ok st" and lt: "last_told w now k m st" and now: "now \<le> now'"
    and due: "\<And>g d. dict_get (alert_groups st) key = Some g \<Longrightarrow> timer_due g = Some d \<Longrightarrow> d \<le> now'"
    and s: "alert_step w (TimerFired now' key) st = (ms, st')"
  shows "chain w m (filter (\<lambda>m. msg_key m = k) ms) \<and>
    last_told w now' k (if filter (\<lambda>m. msg_key m = k) ms = [] then m else Some (hd ms)) st'"
  using take_follow_up_cases [OF ok, of now' key]
proof (elim disjE exE conjE)
  assume "take_follow_up now' key st = (None, st)"
  then show ?thesis using s lt now by (auto simp: last_told_def split: option.splits)
next
  fix g item assume g: "dict_get (alert_groups st) key = Some g" "0 < held g"
    and t: "take_follow_up now' key st = (Some (held g, last_held_at g, item), put_group key (new_group now' (group_rank g)) st)"
  obtain d where d: "timer_due g = Some d" using groups_okD [OF ok g(1)] g(2) by (auto simp: group_ok_def)
  have "d \<le> now'" using due [OF g(1) d] .
  then have "w \<le> now' - opened_at g" if "opened_at g + w \<le> d" using that by simp
  then show ?thesis using s t g d lt now
    by (cases "key = k") (auto simp: last_told_def may_follow_def new_group_def split: option.splits)
qed

lemma alert_run_chain:
  assumes w: "0 < w"
  shows "groups_ok st \<Longrightarrow> last_told w now k m st \<Longrightarrow> sorted (now # map event_time es) \<Longrightarrow> timers_punctual w es st \<Longrightarrow>
    chain w m (filter (\<lambda>m. msg_key m = k) (fst (alert_run w es st)))"
proof (induction es arbitrary: st now m)
  case (Cons e es)
  let ?st = "snd (alert_step w e st)" and ?ms = "fst (alert_step w e st)"
  have ok: "groups_ok ?st" using alert_step_counts [OF Cons.prems(1), of w e ?ms ?st] by simp
  have now: "now \<le> event_time e" "sorted (event_time e # map event_time es)" using Cons.prems(3) by auto
  have p: "timers_punctual w es ?st" using Cons.prems(4) by simp
  have "\<exists>m'. last_told w (event_time e) k m' ?st \<and>
      (\<forall>rest. chain w m' rest \<longrightarrow> chain w m (filter (\<lambda>m. msg_key m = k) ?ms @ rest))"
  proof (cases e)
    case (Classified now' wall run session summary)
    obtain res st' where d: "alert_decision w now' wall (run, session, summary) st = (res, st')" by force
    show ?thesis using last_told_decision [OF Cons.prems(1,2) _ w d] now(1) d
      by (cases res; cases m) (auto simp: Classified split: if_splits)
  next
    case (TimerFired now' key)
    have "chain w m (filter (\<lambda>m. msg_key m = k) ?ms) \<and>
        last_told w now' k (if filter (\<lambda>m. msg_key m = k) ?ms = [] then m else Some (hd ?ms)) ?st"
      by (rule last_told_follow_up [OF Cons.prems(1,2)])
        (use now(1) Cons.prems(4) in \<open>auto simp: TimerFired split: option.splits\<close>)
    moreover have "length ?ms \<le> 1" by (auto simp: TimerFired split_beta split: option.splits)
    ultimately show ?thesis by (cases ?ms) (auto simp: TimerFired split: if_splits)
  qed
  then show ?case using Cons.IH [OF ok _ now(2) p] by (auto simp only: alert_run_Cons fst_conv filter_append)
qed simp

text \<open>At most one message per window: with clocks that do not run backwards and timers that
  call back no earlier than they are due, two consecutive messages about the same persona, source
  and technique are at least a window apart, unless the second one reports a higher level than
  the first or a critical session.\<close>

theorem one_message_per_window:
  assumes "0 < w" "sorted (map event_time es)" "timers_punctual w es no_alerts"
  shows "successively (\<lambda>m m'. w \<le> msg_at m' - msg_at m \<or> msg_rank m < msg_rank m' \<or>
      msg_rank m' = risk_rank Critical \<and> \<not> msg_follow_up m')
    (filter (\<lambda>m. msg_key m = k) (fst (alert_run w es no_alerts)))"
proof -
  let ?now = "if es = [] then 0 else event_time (hd es)"
  have "sorted (?now # map event_time es)" using assms(2) by (cases es) auto
  moreover have "last_told w ?now k None no_alerts" by (simp add: last_told_def no_alerts_def)
  ultimately have "chain w None (filter (\<lambda>m. msg_key m = k) (fst (alert_run w es no_alerts)))"
    using alert_run_chain [OF assms(1) groups_ok_no_alerts(1)] assms(3) by blast
  then show ?thesis by (simp add: chain_def may_follow_def)
qed

subsection \<open>Witnesses on concrete histories\<close>

definition example_summary :: "risk_level \<Rightarrow> classification_summary" where
  "example_summary level = \<lparr>sum_classifier_version = lit ''1'', sum_rules_version = lit ''1'',
     sum_status = Complete, sum_insufficient_reason = None, sum_actor_label = Some Brute_Force_Bot,
     sum_actor_votes = [], sum_confidence = 1, sum_risk_score = 70, sum_risk_level = level,
     sum_behavior_stage = Discovery, sum_intent = Reconnaissance,
     sum_persona_context = \<lparr>ctx_persona_id = None, ctx_decoy_files = []\<rparr>,
     sum_feature_summary = None, sum_deception_action = None,
     sum_alert_action = alert_action_for level [], sum_recommendation = None,
     sum_mitre_tags = [lit ''T1110''], sum_evidence = [], sum_matched_rule_ids = []\<rparr>"

definition example_session :: "str \<Rightarrow> session_record" where
  "example_session sid = \<lparr>rec_schema_version = 1, rec_session_id = sid, rec_protocol = lit ''tcp_shell'',
     rec_peer_ip = Some (lit ''203.0.113.9''), rec_peer_port = Some 4000, rec_latitude = None, rec_longitude = None,
     rec_persona_id = lit ''ubuntu'', rec_started_at = 0, rec_ended_at = 60, rec_duration_seconds = 60,
     rec_end_reason = lit ''disconnect'', rec_command_count = 0, rec_commands = [],
     rec_decoy_files_surfaced = [], rec_client_version = None, rec_end_stage = None, rec_end_error = None\<rparr>"

text \<open>A first session alerts, a second is held, the timer tells of it, and the second one
  turning critical alerts at once.\<close>

definition example_history :: "alert_event list" where
  "example_history =
     [Classified 0 100 None (example_session (lit ''a'')) (example_summary High),
      Classified 10 110 None (example_session (lit ''b'')) (example_summary Medium),
      TimerFired 3600 (group_key (example_session (lit ''b'')) (example_summary Medium)),
      Classified 3700 3800 None (example_session (lit ''b'')) (example_summary Critical)]"

lemma session_alerts_once_per_level_witness:
  "card (set (event_sessions example_history)) \<le> MAX_TRACKED_SESSIONS \<and>
   sorted_wrt (<) (levels (lit ''b'') 3600 example_history no_alerts) \<and>
   levels (lit ''b'') 3600 example_history no_alerts = [2, 4]"
proof -
  have c: "card (set (event_sessions example_history)) \<le> MAX_TRACKED_SESSIONS"
    using card_length [of "event_sessions example_history"]
    by (simp add: event_sessions_def example_history_def MAX_TRACKED_SESSIONS_def)
  have "levels (lit ''b'') 3600 example_history no_alerts = [2, 4]" by code_simp
  then show ?thesis using c session_alerts_once_per_level [OF c] by blast
qed

lemma one_message_per_window_witness:
  "(0 :: rat) < 3600 \<and> sorted (map event_time example_history) \<and>
   timers_punctual 3600 example_history no_alerts \<and>
   successively (\<lambda>m m'. 3600 \<le> msg_at m' - msg_at m \<or> msg_rank m < msg_rank m' \<or>
      msg_rank m' = risk_rank Critical \<and> \<not> msg_follow_up m')
    (filter (\<lambda>m. msg_key m = group_key (example_session (lit ''b'')) (example_summary Medium))
      (fst (alert_run 3600 example_history no_alerts))) \<and>
   map msg_repeats (fst (alert_run 3600 example_history no_alerts)) = [0, 1, 0]"
proof -
  have w: "(0 :: rat) < 3600" and s: "sorted (map event_time example_history)"
    by (simp_all add: example_history_def)
  have p: "timers_punctual 3600 example_history no_alerts" by code_simp
  have r: "map msg_repeats (fst (alert_run 3600 example_history no_alerts)) = [0, 1, 0]" by code_simp
  show ?thesis using w s p r one_message_per_window [OF w s p] by blast
qed

subsection \<open>A session that counts itself\<close>

lemma dict_get_evict:
  assumes "distinct (dict_keys d)" "dict_get (evict_oldest d) k = Some v"
  shows "dict_get d k = Some v"
proof -
  obtain p where p: "d = p @ evict_oldest d" using evict_oldest_suffix by blast
  then have "distinct (map fst (p @ evict_oldest d))" using assms(1) by (simp add: dict_keys_def)
  then have "(k, v) \<in> set d" using assms(2) by (subst p) (auto simp: dict_get_def dest: map_of_SomeD)
  then show ?thesis using assms(1) by (simp add: dict_get_def dict_keys_def map_of_eq_Some_iff)
qed

text \<open>A held-back session whose level then rises to critical counts itself: the alert it sends
  reports one more session like it, although the only session held since the last alert is the
  session the alert is about.\<close>

theorem risen_session_counts_itself:
  assumes st: "groups_ok st" "distinct (dict_keys (alerted_session_ranks st))"
    and fresh: "dict_get (alerted_session_ranks st) (rec_session_id session) = None"
    and g: "dict_get (alert_groups st) (group_key session s) = Some g" "held g = 0"
      "risk_rank Medium \<le> group_rank g" "now - opened_at g < w"
    and s: "sum_risk_level s = Medium" "sum_risk_level s' = Critical" "lead_technique s' = lead_technique s"
    and w: "0 < w"
  shows "fst (alert_decision w now wall (run, session, s) st) = None \<and>
    fst (alert_decision w now' wall' (run', session, s')
       (snd (alert_decision w now wall (run, session, s) st))) = Some 1"
proof -
  let ?sid = "rec_session_id session" and ?k = "group_key session s"
  define st2 where "st2 = prune_groups w now (remember_rank ?sid 2 st)"
  define g' where "g' = hold w now wall (run, session, s) g"
  have k: "group_key session s' = ?k" using s(3) by (simp add: group_key_def)
  have st2: "groups_ok st2" "dict_get (alert_groups st2) ?k = Some g"
    using st(1) g dict_get_prune [of "remember_rank ?sid 2 st" w now ?k] by (auto simp: st2_def)
  have d: "alert_decision w now wall (run, session, s) st = (None, put_group ?k g' st2)"
    using fresh s g st2(2) w
    by (simp add: alert_decision_def already_alerted_def opens_window_def g'_def Let_def flip: st2_def)
  define st3 where "st3 = put_group ?k g' st2"
  have g': "group_ok g'" "held g' = 1" "dict_get (alert_groups st3) ?k = Some g'" and st3: "groups_ok st3"
    using st2 groups_okD [OF st2] g(2) by (simp_all add: g'_def st3_def)
  have "\<not> already_alerted st3 session s'"
  proof
    assume "already_alerted st3 session s'"
    then obtain r where r: "dict_get (alerted_session_ranks st3) ?sid = Some r" "risk_rank Critical \<le> r"
      using s(2) by (auto simp: already_alerted_def split: option.splits)
    then have "dict_get (evict_oldest (move_to_end ?sid (dict_put ?sid 2 (alerted_session_ranks st)))) ?sid = Some r"
      by (simp add: st3_def st2_def remember_rank_def)
    then have "r = 2"
      using dict_get_evict [of "move_to_end ?sid (dict_put ?sid 2 (alerted_session_ranks st))" ?sid r] st(2) by auto
    then show False using r(2) by simp
  qed
  moreover have "dict_get (alert_groups (prune_groups w now' (remember_rank ?sid r st3))) ?k = Some g'" for r
    using dict_get_prune [of "remember_rank ?sid r st3" w now' ?k] st3 g' by auto
  ultimately have "fst (alert_decision w now' wall' (run', session, s') st3) = Some 1"
    using s(2) w g' k by (simp add: alert_decision_def opens_window_def Let_def)
  then show ?thesis using d by (simp add: st3_def)
qed

theorem held_sessions_conserved_witness:
  "let es = [Classified 0 100 None (example_session (lit ''a'')) (example_summary High),
             Classified 5 105 None (example_session (lit ''b'')) (example_summary High)];
       k = group_key (example_session (lit ''a'')) (example_summary High) in
   classifications_told k (fst (alert_run 3600 es no_alerts)) + held_at k (snd (alert_run 3600 es no_alerts)) = 2"
proof -
  let ?es = "[Classified 0 100 None (example_session (lit ''a'')) (example_summary High),
             Classified 5 105 None (example_session (lit ''b'')) (example_summary High)]"
  let ?k = "group_key (example_session (lit ''a'')) (example_summary High)"
  have "distinct (event_sessions ?es)" "card (set (group_sessions ?k ?es)) = 2" by code_simp+
  then show ?thesis unfolding Let_def using held_sessions_conserved [of ?k 3600 ?es] by simp
qed

lemma risen_session_counts_itself_witness:
  "let st = snd (alert_run 3600 [Classified 0 100 None (example_session (lit ''a'')) (example_summary High)] no_alerts);
       item = (\<lambda>level. (None, example_session (lit ''b''), example_summary level)) in
   fst (alert_decision 3600 10 110 (item Medium) st) = None \<and>
   fst (alert_decision 3600 20 120 (item Critical) (snd (alert_decision 3600 10 110 (item Medium) st))) = Some 1"
proof -
  let ?st = "snd (alert_run 3600 [Classified 0 100 None (example_session (lit ''a'')) (example_summary High)] no_alerts)"
  have "alerted_session_ranks ?st = [(lit ''a'', 3)]" by code_simp
  moreover have "alert_groups ?st = [(group_key (example_session (lit ''b'')) (example_summary Medium), new_group 0 3)]"
    by code_simp
  ultimately have st: "groups_ok ?st" "distinct (dict_keys (alerted_session_ranks ?st))"
    "dict_get (alerted_session_ranks ?st) (rec_session_id (example_session (lit ''b''))) = None"
    "dict_get (alert_groups ?st) (group_key (example_session (lit ''b'')) (example_summary Medium)) = Some (new_group 0 3)"
    by (auto simp: groups_ok_def dict_keys_def dict_get_def example_session_def lit_inject split: if_splits)
  have "fst (alert_decision 3600 10 110 (None, example_session (lit ''b''), example_summary Medium) ?st) = None \<and>
    fst (alert_decision 3600 20 120 (None, example_session (lit ''b''), example_summary Critical)
      (snd (alert_decision 3600 10 110 (None, example_session (lit ''b''), example_summary Medium) ?st))) = Some 1"
    by (rule risen_session_counts_itself [OF st]) (simp_all add: example_summary_def lead_technique_def)
  then show ?thesis unfolding Let_def .
qed

end
