(* ===== verification/AlertMessageProps.thy ===== *)
theory AlertMessageProps
  imports AlertMessages AlertGroupProps
begin

text \<open>
  What the messages of \<open>classifier/alerts.py\<close> promise: an attacker's text adds no tag to
  the HTML, a webhook is only ever a path on Slack's host, every channel a decoy is
  configured for is tried and recorded, a critical session is told at once, and a session
  stored late is told in exactly one message.
\<close>

section \<open>HTML\<close>

lemma replace_str_one: "replace_str [c] new s = concat (map (\<lambda>d. if d = c then new else [d]) s)"
proof -
  have "length s \<le> n \<Longrightarrow> replace_fuel n [c] new s = concat (map (\<lambda>d. if d = c then new else [d]) s)" for n
    by (induction n arbitrary: s) (auto simp: startswith_def split: list.splits)
  then show ?thesis by (simp add: replace_str_def)
qed

definition escaped :: "nat \<Rightarrow> str" where
  "escaped c = (if c = ampersand then lit ''&amp;'' else if c = less_than then lit ''&lt;''
     else if c = greater_than then lit ''&gt;'' else [c])"

lemma html_escape_chars: "html_escape s = concat (map escaped s)"
  unfolding html_escape_def replace_str_one by (induction s) (auto simp: escaped_def lit_Cons)

lemma html_escape_no_tags: "less_than \<notin> set (html_escape s)" "greater_than \<notin> set (html_escape s)"
  by (induction s) (auto simp: html_escape_chars escaped_def lit_Cons split: if_splits)

lemma html_escape_inject: "html_escape s = html_escape t \<longleftrightarrow> s = t"
proof
  show "html_escape s = html_escape t \<Longrightarrow> s = t"
  proof (induction s arbitrary: t)
    case Nil
    then show ?case by (cases t) (auto simp: html_escape_chars escaped_def split: if_splits)
  next
    case (Cons c s)
    then obtain d t' where t: "t = d # t'"
      by (cases t) (auto simp: html_escape_chars escaped_def split: if_splits)
    have "escaped c @ html_escape s = escaped d @ html_escape t'"
      using Cons.prems by (simp add: t html_escape_chars)
    then have "c = d \<and> html_escape s = html_escape t'"
      by (auto simp: escaped_def lit_Cons split: if_splits)
    then show ?case using Cons.IH t by simp
  qed
qed simp

lemma html_escape_quoted_no_tags: "less_than \<notin> set (html_escape_quoted s)"
  using html_escape_no_tags(1) [of s]
  by (auto simp: html_escape_quoted_def replace_str_one lit_Cons split: if_splits)

text \<open>How many tags open or close in a piece of HTML.\<close>

abbreviation tags_in :: "str \<Rightarrow> nat" where
  "tags_in s \<equiv> count_list s less_than"

lemma tags_in_escaped [simp]: "tags_in (html_escape s) = 0" "tags_in (html_escape_quoted s) = 0"
  using html_escape_no_tags html_escape_quoted_no_tags by (simp_all add: count_list_0_iff)

lemma tags_in_lit: "tags_in (lit s) = count_list s (CHR ''<'')"
proof (induction s)
  case (Cons c s)
  have "of_char c = (60 :: nat) \<longleftrightarrow> c = CHR ''<''"
    using injD [OF inj_of_char, of c "CHR ''<''"] by auto
  then show ?case using Cons by (simp add: lit_Cons)
qed simp

lemma tags_in_join: "tags_in (join [newline] xs) = sum_list (map tags_in xs)"
  by (induction "[newline]" xs rule: join.induct) auto

lemma tags_in_concat: "tags_in (concat xs) = sum_list (map tags_in xs)"
  by (induction xs) auto

lemma tags_in_cell: "tags_in (html_cell label value) = (if dict_has LINK_FIELD_TEXT label then 2 else 0)"
  by (auto simp: html_cell_def dict_has_def LINK_FIELD_TEXT_def dict_get_def tags_in_lit split: option.splits if_splits)

lemma tags_in_rows: "tags_in (html_field_rows rows)
    = 8 * length rows + 2 * length (filter (\<lambda>row. dict_has LINK_FIELD_TEXT (fst row)) rows)"
  by (simp add: html_field_rows_def tags_in_join o_def)
    (induction rows; auto simp: tags_in_lit tags_in_cell html_attr_def)

text \<open>Nothing an attacker controls adds markup to an alert: the number of tags in the HTML body
  depends only on how many fields, link fields and evidence items there are and whether there is a
  recommended fix, never on any of their texts.\<close>

theorem alert_html_tags:
  "count_list (alert_html c) less_than =
     12 + (if fix_shown c = None then 0 else 4) + 8 * length (con_fields c)
       + 2 * length (filter (\<lambda>row. dict_has LINK_FIELD_TEXT (fst row)) (con_fields c))
       + 2 * length (evidence_shown c)"
proof -
  have e: "tags_in (concat (map (\<lambda>item. lit ''<li>'' @ html_escape item @ lit ''</li>'') xs)) = 2 * length xs" for xs
    by (induction xs) (simp_all add: tags_in_lit)
  show ?thesis
    by (cases "fix_shown c")
      (simp_all add: alert_html_def html_open_def html_fix_def html_table_def html_attr_def
        tags_in_lit tags_in_rows e)
qed

section \<open>Slack\<close>

text \<open>An alert is only ever posted to Slack: whatever webhook is configured, the URL posted to is
  https://hooks.slack.com followed by a path or a query, and a webhook on any other host or without
  https posts nothing.\<close>

theorem slack_posts_to_slack:
  "case slack_post e webhook txt of
     Raised x \<Rightarrow> True
   | Done (out, err) \<Rightarrow> out = [] \<and> err = Some SLACK_ONLY \<or>
       (\<exists>rest. out = [Posted (lit ''https://hooks.slack.com'' @ rest) txt] \<and>
         (rest = [] \<or> hd rest = slash \<or> hd rest = question))"
proof -
  have "\<exists>rest. slack_url p q = lit ''https://hooks.slack.com'' @ rest \<and> (rest = [] \<or> hd rest = slash \<or> hd rest = question)" for p q
    by (cases p; cases q) (auto simp: slack_url_def startswith_def)
  then show ?thesis
    by (auto simp: slack_post_def Let_def split: outcome.splits prod.splits)
qed

section \<open>Late sessions\<close>

definition would_alert :: "alert_env \<Rightarrow> alert_item \<Rightarrow> bool" where
  "would_alert e item \<longleftrightarrow> sum_alert_action (snd (snd item)) \<noteq> None \<and>
     (\<exists>targets. alert_targets e (fst (snd item)) (snd (snd item)) = Done (Some targets))"

lemma late_alerts_invariant:
  assumes "distinct (dict_keys late)"
  shows "distinct (dict_keys (fold (note_late e) stored late)) \<and>
    (\<forall>p. map_option snd (dict_get (fold (note_late e) stored late) p) =
      (case (dict_get late p, filter (\<lambda>i. would_alert e i \<and> rec_persona_id (fst (snd i)) = p) stored) of
         (None, []) \<Rightarrow> None
       | (None, items) \<Rightarrow> Some items
       | (Some (_, earlier), items) \<Rightarrow> Some (earlier @ items)))"
  using assms
proof (induction stored arbitrary: late)
  case Nil
  then show ?case by (auto split: option.splits)
next
  case (Cons item stored)
  show ?case
  proof (cases "would_alert e item")
    case False
    then have "note_late e item late = late"
      by (auto simp: note_late_def would_alert_def split: outcome.splits option.splits)
    then show ?thesis using Cons False by simp
  next
    case True
    then obtain targets where t: "alert_targets e (fst (snd item)) (snd (snd item)) = Done (Some targets)"
      and a: "sum_alert_action (snd (snd item)) \<noteq> None"
      by (auto simp: would_alert_def)
    let ?p = "rec_persona_id (fst (snd item))"
    let ?late = "dict_put ?p (targets, (case dict_get late ?p of None \<Rightarrow> [] | Some (_, items) \<Rightarrow> items) @ [item]) late"
    have n: "note_late e item late = ?late" using t a by (auto simp: note_late_def Let_def)
    have d: "distinct (dict_keys ?late)" using Cons.prems by simp
    show ?thesis using Cons.IH [OF d] True
      by (auto simp: n split: option.splits list.splits)
  qed
qed

text \<open>Every session stored late that would have alerted on its own is told in exactly one
  message, its decoy's: the catch-up alerts are one per decoy, each about all of that decoy's
  qualifying sessions in the order they were stored, and no decoy without one gets a message.\<close>

theorem late_sessions_told_once:
  "distinct (dict_keys (late_alerts_of e stored)) \<and>
   (\<forall>p. map_option snd (dict_get (late_alerts_of e stored) p) =
      (let items = filter (\<lambda>i. would_alert e i \<and> rec_persona_id (fst (snd i)) = p) stored in
       if items = [] then None else Some items))"
proof -
  have "distinct (dict_keys (late_alerts_of e stored)) \<and>
    (\<forall>p. map_option snd (dict_get (late_alerts_of e stored) p) =
      (case (dict_get ([] :: late_alerts) p, filter (\<lambda>i. would_alert e i \<and> rec_persona_id (fst (snd i)) = p) stored) of
         (None, []) \<Rightarrow> None
       | (None, items) \<Rightarrow> Some items
       | (Some (_, earlier), items) \<Rightarrow> Some (earlier @ items)))"
    unfolding late_alerts_of_def by (rule late_alerts_invariant) (simp add: dict_keys_def)
  then show ?thesis by (auto simp: Let_def split: list.splits)
qed

section \<open>A critical session\<close>

definition recorded_channels :: "outgoing list \<Rightarrow> (str \<times> str) list" where
  "recorded_channels out = concat (map (\<lambda>o'. case o' of
     Recorded r \<Rightarrow> [(al_channel r, al_session_id r)] | _ \<Rightarrow> []) out)"

lemma recorded_channels_append [simp]:
  "recorded_channels (a @ b) = recorded_channels a @ recorded_channels b"
  "recorded_channels [] = []" "recorded_channels (Mailed m # a) = recorded_channels a"
  "recorded_channels (Posted u t # a) = recorded_channels a"
  "recorded_channels (Recorded r # a) = (al_channel r, al_session_id r) # recorded_channels a"
  by (simp_all add: recorded_channels_def)

lemma smtp_send_records_nothing: "recorded_channels (fst (smtp_send e c r s b h)) = []"
  by (auto simp: smtp_send_def Let_def split: password_reply.splits)

lemma slack_post_records_nothing: "slack_post e w t = Done (out, err) \<Longrightarrow> recorded_channels out = []"
  by (auto simp: slack_post_def Let_def split: outcome.splits prod.splits if_splits)

lemma dispatch_channels_recorded:
  "recorded_channels (dispatch_channels e c pc item s b h t) =
     (if routes_to pc ''email'' \<and> given (pc_contact_email pc)
      then [(lit ''email'', rec_session_id (fst (snd item)))] else []) @
     (if routes_to pc ''slack'' \<and> given (pc_slack_webhook pc) \<and>
         (\<exists>r. slack_post e (the (pc_slack_webhook pc)) t = Done r)
      then [(lit ''slack'', rec_session_id (fst (snd item)))] else [])"
  using smtp_send_records_nothing [of e c "the (pc_contact_email pc)" s b "Some h"]
  by (auto simp: dispatch_channels_def build_alert_event_def split: outcome.splits prod.splits
      dest: slack_post_records_nothing)

text \<open>A critical session goes out at once, whatever is being held back: when the decoy's settings
  call for an alert and the session has not already alerted as critical, each configured channel
  is tried now and its attempt recorded, a failing mail server not keeping Slack from being tried.\<close>

theorem critical_session_told_at_once:
  assumes "sum_risk_level summary = Critical" "sum_alert_action summary \<noteq> None"
    "alert_targets e session summary = Done (Some (c, pc))"
    "\<not> already_alerted st session summary"
    "given (pc_slack_webhook pc) \<Longrightarrow> \<exists>host. urlsplit_hostname (ae_urls e) (the (pc_slack_webhook pc)) = Done host"
  shows "recorded_channels (fst (maybe_send_alert e w now wall (run, session, summary) st)) =
     (if pc_routing pc \<in> {lit ''email'', lit ''both''} \<and> given (pc_contact_email pc)
      then [(lit ''email'', rec_session_id session)] else []) @
     (if pc_routing pc \<in> {lit ''slack'', lit ''both''} \<and> given (pc_slack_webhook pc)
      then [(lit ''slack'', rec_session_id session)] else [])"
proof -
  have "opens_window w t summary prior" for t prior
    using assms(1) by (auto simp: opens_window_def split: option.splits)
  then have "fst (alert_decision w now wall (run, session, summary) st) \<noteq> None"
    using assms(4) by (simp add: alert_decision_def Let_def)
  then obtain n st' where d: "alert_decision w now wall (run, session, summary) st = (Some n, st')"
    by (cases "alert_decision w now wall (run, session, summary) st") auto
  have "given (pc_slack_webhook pc) \<Longrightarrow> \<exists>r. slack_post e (the (pc_slack_webhook pc)) t = Done r" for t
    using assms(5) by (auto simp: slack_post_def Let_def split: prod.splits)
  then show ?thesis using assms(2,3) d
    by (auto simp: maybe_send_alert_def dispatch_alerts_def dispatch_channels_recorded routes_to_def Let_def)
qed

definition example_alert_env :: alert_env where
  "example_alert_env = \<lparr>
     ae_config = Done (Some \<lparr>cfg_enabled = True, cfg_smtp_host = Some (lit ''mail''), cfg_smtp_port = 587,
       cfg_smtp_username = None, cfg_smtp_from_email = None, cfg_smtp_use_tls = True,
       cfg_min_risk_level = lit ''high'', cfg_excluded_ips = Some (lit ''127.0.0.1'')\<rparr>),
     ae_persona = (\<lambda>_. Done (Some \<lparr>pc_routing = lit ''both'', pc_min_risk_level = None,
       pc_contact_email = Some (lit ''ops@example.org''),
       pc_slack_webhook = Some (lit ''https://hooks.slack.com/services/x'')\<rparr>)),
     ae_country = (\<lambda>_. None), ae_dashboard_url = None,
     ae_playbook = \<lparr>mitre_technique_names = [], actor_label_names = [], issue_fixes = []\<rparr>,
     ae_technique_names = [], ae_technique_playbook = [], ae_password = Password None,
     ae_smtp = (\<lambda>_. Some Timed_Out), ae_slack = (\<lambda>_ _. Slack_Status 200),
     ae_urls = \<lparr>env_stamp = [], env_regex = (\<lambda>_ _. None), env_netloc_ok = (\<lambda>_. True)\<rparr>\<rparr>"

lemma critical_session_told_at_once_witness:
  "recorded_channels (fst (maybe_send_alert example_alert_env 3600 5 100
      (None, example_session (lit ''a''), example_summary Critical) no_alerts))
     = [(lit ''email'', lit ''a''), (lit ''slack'', lit ''a'')]"
proof -
  let ?c = "the (case ae_config example_alert_env of Done c \<Rightarrow> c | _ \<Rightarrow> None)"
  let ?pc = "the (case ae_persona example_alert_env [] of Done pc \<Rightarrow> pc | _ \<Rightarrow> None)"
  have t: "alert_targets example_alert_env (example_session (lit ''a'')) (example_summary Critical) = Done (Some (?c, ?pc))"
    by code_simp
  have u: "\<exists>host. urlsplit_hostname (ae_urls example_alert_env) (the (pc_slack_webhook ?pc)) = Done host"
    by (rule exI [of _ "Some (lit ''hooks.slack.com'')"]) code_simp
  have pc: "pc_routing ?pc = lit ''both''" "given (pc_contact_email ?pc)" "given (pc_slack_webhook ?pc)"
    by (simp_all add: example_alert_env_def given_def)
  show ?thesis
    using critical_session_told_at_once [OF _ _ t _ u, of no_alerts 3600 5 100 None] pc
    by (simp add: example_summary_def alert_action_for_def already_alerted_def no_alerts_def example_session_def)
qed

end
