(* ===== verification/CatchUpProps.thy ===== *)
theory CatchUpProps
  imports CatchUp AlertGroupProps AlertMessageProps
begin

text \<open>
  What storing sessions late promises: no session is stored twice or told of twice, an import
  accounts for every line, and two ways in which a session is never stored: a NUL character in
  one of its commands, and a line separator in one kept for later.
\<close>

section \<open>Each session once\<close>

lemma runs_distinct_snoc:
  "runs_distinct db \<Longrightarrow> rec_session_id (run_session run) \<notin> stored_ids db \<Longrightarrow> db_runs db' = db_runs db @ [run]
    \<Longrightarrow> runs_distinct db'"
  by (auto simp: runs_distinct_def stored_ids_def)

lemma runs_distinct_same: "db_runs db' = db_runs db \<Longrightarrow> runs_distinct db' = runs_distinct db"
  by (simp add: runs_distinct_def)

lemma classify_and_store_distinct:
  assumes "runs_distinct db" "classify_and_store e rs r db = (res, db')"
  shows "runs_distinct db'"
  using classify_and_store_runs [OF assms(2)] assms(1)
  by (auto split: sum.splits option.splits dest: runs_distinct_snoc runs_distinct_same)

lemma store_batch_distinct:
  "runs_distinct db \<Longrightarrow> store_batch (classify_and_store e rs) already sessions db = (p, db') \<Longrightarrow> runs_distinct db'"
proof (induction sessions arbitrary: db p db')
  case (Cons r sessions)
  obtain res db1 where st: "classify_and_store e rs r db = (res, db1)" by force
  have d1: "runs_distinct db1" by (rule classify_and_store_distinct [OF Cons.prems(1) st])
  obtain q db2 where q: "store_batch (classify_and_store e rs) already sessions db1 = (q, db2)" by force
  show ?case using Cons.prems Cons.IH [OF Cons.prems(1)] Cons.IH [OF d1 q] st q d1
    by (auto split: if_splits sum.splits option.splits prod.splits)
qed simp

lemma stored_session_ids_runs: "stored_session_ids sids db = (res, db') \<Longrightarrow> db_runs db' = db_runs db"
  by (auto simp: stored_session_ids_def split: if_splits prod.splits option.splits dest: transact_Nil)

lemma store_lines_distinct:
  "runs_distinct db \<Longrightarrow> store_lines stored_session_ids (classify_and_store e rs) parse xs db = (p, rest, db')
    \<Longrightarrow> runs_distinct db'"
proof (induction xs arbitrary: db p rest db' rule: length_induct)
  case (1 xs)
  show ?case
  proof (cases "xs = []")
    case False
    let ?batch = "parse_lines parse (take BATCH_SIZE xs)"
    obtain res db1 where i: "stored_session_ids (map rec_session_id ?batch) db = (res, db1)" by force
    have d1: "runs_distinct db1" using stored_session_ids_runs [OF i] 1(2) runs_distinct_same by blast
    obtain q db2 where q: "store_batch (classify_and_store e rs) (case res of Inr a \<Rightarrow> a | Inl x \<Rightarrow> []) ?batch db1 = (q, db2)"
      by force
    have d2: "runs_distinct db2" by (rule store_batch_distinct [OF d1 q])
    obtain q' rest' db3 where l: "store_lines stored_session_ids (classify_and_store e rs) parse (drop BATCH_SIZE xs) db2
        = (q', rest', db3)" by (metis prod_cases3)
    have "length (drop BATCH_SIZE xs) < length xs" using False by (simp add: BATCH_SIZE_def)
    then have "runs_distinct db3" using 1(1) d2 l by blast
    then show ?thesis using 1(3) False i q d1 d2 l
      by (auto simp: store_lines.simps [of _ _ _ xs] Let_def split: sum.splits if_splits)
  qed (use 1 in \<open>simp add: store_lines.simps\<close>)
qed


section \<open>Importing a session log\<close>

record import_result =
  im_stored :: nat
  im_already_stored :: nat
  im_invalid_lines :: nat
  im_failed :: nat

definition im_checked :: "import_result \<Rightarrow> nat" where
  "im_checked r = im_stored r + im_already_stored r + im_failed r"

fun import_batch ::
  "'db store_op \<Rightarrow> str list \<Rightarrow> session_record list \<Rightarrow> import_result \<Rightarrow> 'db \<Rightarrow> (db_error + import_result) \<times> 'db" where
  "import_batch save already [] r db = (Inr r, db)"
| "import_batch save already (session # sessions) r db =
     (if rec_session_id session \<in> set already
      then import_batch save already sessions (r\<lparr>im_already_stored := im_already_stored r + 1\<rparr>) db
      else case save session db of
        (Inl x, db') \<Rightarrow>
          if is_database_unavailable x then (Inl x, db')
          else import_batch save already sessions (r\<lparr>im_failed := im_failed r + 1\<rparr>) db'
      | (Inr None, db') \<Rightarrow> import_batch save already sessions (r\<lparr>im_already_stored := im_already_stored r + 1\<rparr>) db'
      | (Inr (Some run), db') \<Rightarrow> import_batch save already sessions (r\<lparr>im_stored := im_stored r + 1\<rparr>) db')"

definition import_sessions ::
  "'db ids_op \<Rightarrow> 'db store_op \<Rightarrow> session_record list \<Rightarrow> import_result \<Rightarrow> 'db \<Rightarrow> (db_error + import_result) \<times> 'db" where
  "import_sessions ids save batch r db =
     (case ids (map rec_session_id batch) db of
        (Inl x, db') \<Rightarrow> (Inl x, db')
      | (Inr already, db') \<Rightarrow> import_batch save already batch r db')"

text \<open>The loop over the lines with the batch filled so far.\<close>

fun import_lines ::
  "'db ids_op \<Rightarrow> 'db store_op \<Rightarrow> (str \<Rightarrow> session_record option) \<Rightarrow> session_record list \<Rightarrow> str list \<Rightarrow>
     import_result \<Rightarrow> 'db \<Rightarrow> (db_error + import_result) \<times> 'db" where
  "import_lines ids save parse batch [] r db =
     (if batch \<noteq> [] then import_sessions ids save batch r db else (Inr r, db))"
| "import_lines ids save parse batch (l # xs) r db =
     (if strip l = [] then import_lines ids save parse batch xs r db
      else case parse l of
        None \<Rightarrow> import_lines ids save parse batch xs (r\<lparr>im_invalid_lines := im_invalid_lines r + 1\<rparr>) db
      | Some session \<Rightarrow>
          if length (batch @ [session]) = BATCH_SIZE
          then (case import_sessions ids save (batch @ [session]) r db of
                  (Inl x, db') \<Rightarrow> (Inl x, db')
                | (Inr r', db') \<Rightarrow> import_lines ids save parse [] xs r' db')
          else import_lines ids save parse (batch @ [session]) xs r db)"

definition no_import :: import_result where
  "no_import = \<lparr>im_stored = 0, im_already_stored = 0, im_invalid_lines = 0, im_failed = 0\<rparr>"

text \<open>\<open>import_session_log\<close>: the database must answer and the rules must load first; the count of
  issue syncs is the last component.\<close>

definition import_session_log ::
  "classifier_env \<Rightarrow> str \<Rightarrow> database \<Rightarrow> (db_error + import_result) \<times> database \<times> nat" where
  "import_session_log e contents db =
     (if \<not> ce_database_url e then (Inl Not_Configured, db, 0)
      else case ping db of
        (Some x, db1) \<Rightarrow> (Inl x, db1, 0)
      | (None, db1) \<Rightarrow>
          (case ce_rules e of
             Raised x \<Rightarrow> (Inl (Program_Error x), db1, 0)
           | Done rs \<Rightarrow>
               (case import_lines stored_session_ids (classify_and_store (ce_storage e) (Done rs)) (ce_parse e) []
                       (split_on newline contents) no_import db1 of
                  (Inl x, db2) \<Rightarrow> (Inl x, db2, 0)
                | (Inr r, db2) \<Rightarrow> (Inr r, db2, if 0 < im_stored r then 1 else 0))))"

lemma import_batch_counts:
  "import_batch save already sessions r db = (Inr r', db') \<Longrightarrow>
    im_checked r' = im_checked r + length sessions \<and> im_invalid_lines r' = im_invalid_lines r"
  by (induction save already sessions r db rule: import_batch.induct)
    (fastforce simp: im_checked_def split: if_splits prod.splits sum.splits option.splits)+

lemma import_sessions_counts:
  "import_sessions ids save batch r db = (Inr r', db') \<Longrightarrow>
    im_checked r' = im_checked r + length batch \<and> im_invalid_lines r' = im_invalid_lines r"
  by (auto simp: import_sessions_def split: prod.splits sum.splits dest: import_batch_counts)

lemma import_lines_counts:
  "import_lines ids save parse batch xs r db = (Inr r', db') \<Longrightarrow>
    im_checked r' + im_invalid_lines r' = im_checked r + im_invalid_lines r + length batch
      + length (filter (\<lambda>l. strip l \<noteq> []) xs)"
proof (induction ids save parse batch xs r db rule: import_lines.induct)
  case (1 ids save parse batch r db)
  then show ?case by (auto split: if_splits dest: import_sessions_counts)
next
  case (2 ids save parse batch l xs r db)
  show ?case
  proof (cases "strip l = []")
    case True
    then show ?thesis using 2 by simp
  next
    case nonblank: False
    show ?thesis
    proof (cases "parse l")
      case None
      then show ?thesis using 2 nonblank by (simp add: im_checked_def)
    next
      case (Some session)
      show ?thesis
      proof (cases "length (batch @ [session]) = BATCH_SIZE")
        case True
        obtain res db1 where i: "import_sessions ids save (batch @ [session]) r db = (res, db1)" by force
        then show ?thesis using "2.IH"(3) [OF nonblank Some True i [symmetric]] "2.prems" nonblank Some True
          by (cases res) (auto dest: import_sessions_counts)
      next
        case False
        then show ?thesis using "2.IH"(4) [OF nonblank Some False] "2.prems" nonblank Some by simp
      qed
    qed
  qed
qed

text \<open>A finished import accounts for every line: the sessions stored, found stored and failed
  together with the invalid lines are exactly the lines of the log that are not blank.\<close>

theorem import_accounts_for_every_line:
  assumes "import_session_log e contents db = (Inr r, db', n)"
  shows "im_checked r + im_invalid_lines r = length (file_lines contents)"
proof -
  obtain rs db1 where "import_lines stored_session_ids (classify_and_store (ce_storage e) (Done rs)) (ce_parse e) []
      (split_on newline contents) no_import db1 = (Inr r, db')"
    using assms by (auto simp: import_session_log_def split: if_splits prod.splits option.splits outcome.splits sum.splits)
  from import_lines_counts [OF this] show ?thesis
    by (simp add: no_import_def im_checked_def file_lines_def)
qed

section \<open>Sessions that are never stored\<close>

lemma refused_run:
  assumes "c \<in> set (rec_commands (run_session run))" "0 \<in> set (ev_cmd c)"
  shows "refused (classifier_run_statements e run)"
proof -
  obtain i where i: "i < length (rec_commands (run_session run))" "rec_commands (run_session run) ! i = c"
    using assms(1) by (auto simp: in_set_conv_nth)
  let ?row = "session_event_insert_params (run_session run) ! i"
  have "i < length (session_event_insert_params (run_session run))"
    using i(1) by (simp add: session_event_insert_params_def session_events_def)
  then have "Insert_Session_Event ?row \<in> set (classifier_run_statements e run)"
    by (simp add: classifier_run_statements_def)
  moreover have "evr_value ?row = ev_cmd c"
    using i by (simp add: session_event_insert_params_def session_events_def nth_enumerate_eq nth_append)
  ultimately show ?thesis using assms(2) by (force simp: refused_def list_ex_iff)
qed

lemma transact_refused: "refused ss \<Longrightarrow> transact ss db = (res, db') \<Longrightarrow> res \<noteq> None \<and> db_runs db' = db_runs db"
  using transact_cases [of ss db res db'] by auto

lemma transact_refused_quiet:
  "refused ss \<Longrightarrow> db_faults db = [] \<Longrightarrow> transact ss db = (Some (Psycopg_Error False None), db)"
  by (simp add: transact_def next_fault_none)

lemma auto_count_runs: "auto_count e r db = (res, db') \<Longrightarrow> db_runs db' = db_runs db"
  by (auto simp: auto_count_def split: option.splits prod.splits sum.splits db_error.splits dest!: runs_of_count)

lemma auto_count_faults: "auto_count e r db = (res, db') \<Longrightarrow> db_faults db = [] \<Longrightarrow> db_faults db' = []"
  by (auto simp: auto_count_def record_session_and_count_from_ip_def transact_def next_fault_none
      split: option.splits prod.splits sum.splits db_error.splits if_splits)

lemma save_classifier_run_refused:
  assumes "c \<in> set (rec_commands r)" "0 \<in> set (ev_cmd c)" "save_classifier_run e r s db = (res, db')"
  shows "(\<exists>x. res = Inl x) \<and> db_runs db' = db_runs db \<and>
    (db_faults db = [] \<longrightarrow> res = Inl (Psycopg_Error False None) \<and> db' = db)"
proof -
  have rf: "refused (classifier_run_statements e (new_run e r s db))"
    by (rule refused_run [of c]) (use assms in \<open>simp_all add: new_run_def\<close>)
  show ?thesis using assms(3) transact_refused [OF rf] transact_refused_quiet [OF rf]
    by (auto simp: save_classifier_run_def Let_def split: prod.splits option.splits)
qed

lemma save_if_new_refused:
  assumes "c \<in> set (rec_commands r)" "0 \<in> set (ev_cmd c)" "save_classifier_run_if_new e r s db = (res, db')"
  shows "db_runs db' = db_runs db"
proof -
  have rf: "refused (classifier_run_statements e (new_run e r s db))"
    by (rule refused_run [of c]) (use assms in \<open>simp_all add: new_run_def\<close>)
  show ?thesis using assms(3) transact_refused [OF rf]
    by (auto simp: save_classifier_run_if_new_def Let_def split: if_splits prod.splits option.splits dest: transact_Nil)
qed

lemma nul_session_live:
  fixes e now wall session st
  defines "st' \<equiv> auto_classify_and_store e now wall session st"
  assumes "c \<in> set (rec_commands session)" "0 \<in> set (ev_cmd c)"
  shows "db_runs (cs_db st') = db_runs (cs_db st)" "cs_sent st' = cs_sent st"
    "db_faults (cs_db st) = [] \<Longrightarrow> cs_files st' = cs_files st"
proof -
  obtain count db1 where count: "auto_count (ce_storage e) session (cs_db st) = (count, db1)" by force
  note runs = auto_count_runs [OF count] auto_count_faults [OF count]
  have "db_runs (cs_db st') = db_runs (cs_db st) \<and> cs_sent st' = cs_sent st \<and>
    (db_faults (cs_db st) = [] \<longrightarrow> cs_files st' = cs_files st)"
  proof (cases "\<exists>n s. ce_database_url e \<and> count = Inr n \<and> with_rules (ce_rules e) session n = Done s")
    case False
    then show ?thesis using count runs
      by (auto simp: st'_def auto_classify_and_store_def split: sum.splits outcome.splits)
  next
    case True
    then obtain n s where to_save: "ce_database_url e" "count = Inr n" "with_rules (ce_rules e) session n = Done s"
      by blast
    obtain res db2 where sv: "save_classifier_run (ce_storage e) session s db1 = (res, db2)" by force
    from save_classifier_run_refused [OF assms(2,3) sv] obtain x where x: "res = Inl x" "db_runs db2 = db_runs db1"
      "db_faults db1 = [] \<Longrightarrow> x = Psycopg_Error False None" by auto
    then have "db_faults db1 = [] \<Longrightarrow> \<not> is_database_unavailable x \<and> \<not> is_database_busy x"
      by (simp add: is_database_unavailable_def is_database_busy_def sqlstate_of_def)
    then show ?thesis using to_save count runs sv x(1,2)
      by (auto simp: st'_def auto_classify_and_store_def keep_for_later_def)
  qed
  then show "db_runs (cs_db st') = db_runs (cs_db st)" "cs_sent st' = cs_sent st"
    "db_faults (cs_db st) = [] \<Longrightarrow> cs_files st' = cs_files st" by blast+
qed

text \<open>A session with a NUL character in a command is never stored and never alerted on: PostgreSQL
  refuses its timeline, the live path logs the error and stops before the alert, and with a database
  that works it is not even kept for later; catching up and importing cannot store it either.\<close>

theorem nul_session_never_stored:
  assumes "c \<in> set (rec_commands session)" "0 \<in> set (ev_cmd c)"
  shows "db_runs (cs_db (auto_classify_and_store e now wall session st)) = db_runs (cs_db st) \<and>
    cs_sent (auto_classify_and_store e now wall session st) = cs_sent st \<and>
    (db_faults (cs_db st) = [] \<longrightarrow>
       cs_files (auto_classify_and_store e now wall session st) = cs_files st) \<and>
    (\<forall>rs db. db_runs (snd (classify_and_store (ce_storage e) rs session db)) = db_runs db)"
  using nul_session_live [OF assms, where e = e and now = now and wall = wall and st = st] save_if_new_refused [OF assms]
  by (auto simp: classify_and_store_def split: option.splits prod.splits sum.splits outcome.splits dest!: runs_of_count)

lemma store_lines_nothing:
  assumes "parse_lines parse xs = []" "length xs \<le> BATCH_SIZE"
  shows "store_lines stored_session_ids save parse xs db = (no_progress, [], db)"
proof -
  have "take BATCH_SIZE xs = xs" "drop BATCH_SIZE xs = []" using assms(2) by simp_all
  then show ?thesis using assms(1)
    by (simp add: store_lines.simps [of _ _ _ xs] store_lines.simps [of _ _ _ "[]"] stored_session_ids_def
        no_progress_def Let_def)
qed

lemma split_keep_separator:
  "clean_line a \<Longrightarrow> is_linebreak sep \<Longrightarrow> sep \<noteq> carriage \<Longrightarrow>
    split_lines_keep_acc w (a @ sep # s) = (w @ a @ [sep]) # split_lines_keep_acc [] s"
proof (induction a arbitrary: w)
  case (Cons c a)
  then have "\<not> is_linebreak c" "c \<noteq> carriage" by (auto simp: clean_line_def)
  then show ?case using Cons by (simp add: clean_line_def)
qed simp

text \<open>A session kept for later whose record contains a line separator such as U+2028, which JSON
  text carries as it is, is lost when catching up: the file is split inside the record, neither half is
  a record, and the file is removed with the session neither stored nor reported.\<close>

theorem line_separator_session_lost:
  assumes dump: "ce_dump e session = a @ [sep] @ b" "sep \<in> {0x85, 0x2028, 0x2029}" "clean_line a" "clean_line b"
    and parse: "ce_parse e a = None" "ce_parse e b = None"
    and st: "cs_files st = \<lparr>pending_file = None, working_file = None, disk_writable = True\<rparr>"
      "db_faults (cs_db st) = []" "ce_database_url e"
  shows "(case catch_up_pending_sessions e [] (keep_for_later e session st) of
     (res, p, st') \<Rightarrow> res = Some 0 \<and> pr_failed p = [] \<and> db_runs (cs_db st') = db_runs (cs_db st) \<and>
       pending_file (cs_files st') = None \<and> working_file (cs_files st') = None)"
proof -
  let ?file = "ce_dump e session @ [newline]"
  have sep: "is_linebreak sep" "sep \<noteq> carriage" using dump(2) by (auto simp: is_linebreak_def)
  have "split_lines_keep_acc [] ?file = [a @ [sep], b @ [newline]]"
    using split_keep_separator [OF dump(3) sep, of "[]" "b @ [newline]"] split_keep_clean [OF dump(4), of "[]"]
    by (simp add: dump(1))
  then have "split_lines ?file = [a, b]"
    using sep dump(3,4) by (simp add: split_lines_cut cut_end_cases)
  then have lines: "parse_lines (ce_parse e) (text_lines ?file) = []" "length (text_lines ?file) \<le> 2"
    using parse by (auto simp: text_lines_def parse_lines_def map_filter_def)
  have keep: "cs_files (keep_for_later e session st) =
      \<lparr>pending_file = Some ?file, working_file = None, disk_writable = True\<rparr>"
    by (simp add: keep_for_later_def keep_pending_sessions_def append_lines_def st(1))
  have "store_lines stored_session_ids (classify_and_store (ce_storage e) (ce_rules e)) (ce_parse e) (text_lines ?file) (cs_db st)
      = (no_progress, [], cs_db st)"
    by (rule store_lines_nothing) (use lines in \<open>simp_all add: BATCH_SIZE_def\<close>)
  then show ?thesis
    using st keep
    by (simp add: catch_up_pending_sessions_def Let_def ping_def transact_def next_fault_none refused_def has_content_def
        take_over_def keep_for_later_def keep_pending_sessions_def append_lines_def finish_files_def no_progress_def
        send_catch_up_alerts_def late_alerts_of_def)
qed

section \<open>Witnesses\<close>

definition example_classifier :: classifier_env where
  "example_classifier = \<lparr>ce_storage = plain_storage, ce_alerts = example_alert_env,
     ce_rules = Done \<lparr>rules_version = lit ''1'', rules = []\<rparr>, ce_window = 3600, ce_database_url = True,
     ce_dump = (\<lambda>r. rec_session_id r @ concat (map ev_cmd (rec_commands r))),
     ce_parse = (\<lambda>s. if length s = 1 then Some (example_session s) else None)\<rparr>"

definition example_state :: "str option \<Rightarrow> (bool \<times> db_error) option list \<Rightarrow> classifier_state" where
  "example_state file faults = \<lparr>cs_db = empty_database\<lparr>db_faults := faults\<rparr>, cs_alerts = no_alerts,
     cs_files = \<lparr>pending_file = file, working_file = None, disk_writable = True\<rparr>,
     cs_sent = [], cs_issue_syncs = 0\<rparr>"

text \<open>Two pending sessions; the connection is lost when the second is stored.\<close>

definition outage_state :: classifier_state where
  "outage_state = example_state (Some (as_lines [lit ''a'', lit ''b'']))
     [None, None, None, None, Some (False, Psycopg_Error True None)]"

text \<open>The environment with a reader that reads back what it writes, for sessions like the example.\<close>

definition kept_classifier :: classifier_env where
  "kept_classifier = example_classifier\<lparr>ce_parse := (\<lambda>s. Some (example_session s)), ce_dump := rec_session_id\<rparr>"

lemma no_pending_session_lost_witness:
  "case catch_up_pending_sessions kept_classifier [example_session (lit ''c'')] outage_state of (res, p, st') \<Rightarrow>
     \<forall>i \<in> {lit ''a'', lit ''b'', lit ''c''}. i \<in> stored_ids (cs_db st') \<or> i \<in> rec_session_id ` set (pr_failed p) \<or> kept_line (cs_files st') i"
proof -
  obtain res p st' where r: "catch_up_pending_sessions kept_classifier [example_session (lit ''c'')] outage_state = (res, p, st')"
    by (metis prod_cases3)
  have c: "files_complete (cs_files outage_state)"
    by (simp add: outage_state_def example_state_def files_complete_def)
  have ident: "rec_session_id (example_session i) = i" for i by (simp add: example_session_def)
  have files: "cs_files outage_state = \<lparr>pending_file = Some (as_lines [lit ''a'', lit ''b'']), working_file = None, disk_writable = True\<rparr>"
    by (simp add: outage_state_def example_state_def)
  have dump: "ce_dump kept_classifier (example_session i) = i" "ce_parse kept_classifier i = Some (example_session i)" for i
    by (simp_all add: kept_classifier_def ident)
  have written: "kept_line (cs_files outage_state) i" if "i \<in> {lit ''a'', lit ''b''}" for i
    using that holds_line_written [of "[]" i "[lit ''a'', lit ''b'']"] by (auto simp: kept_line_def file_holds_def files)
  have clean: "clean_line i \<and> strip i \<noteq> []" if "i \<in> {lit ''a'', lit ''b'', lit ''c''}" for i
  proof -
    have "clean_line (lit ''a'') \<and> strip (lit ''a'') \<noteq> []" "clean_line (lit ''b'') \<and> strip (lit ''b'') \<noteq> []"
      "clean_line (lit ''c'') \<and> strip (lit ''c'') \<noteq> []" by code_simp+
    then show ?thesis using that by auto
  qed
  have "i \<in> stored_ids (cs_db st') \<or> i \<in> rec_session_id ` set (pr_failed p) \<or> kept_line (cs_files st') i"
    if i: "i \<in> {lit ''a'', lit ''b'', lit ''c''}" for i
  proof -
    have "kept_line (cs_files outage_state) i \<or> disk_writable (cs_files outage_state) \<and> example_session i \<in> set [example_session (lit ''c'')]"
      using i written by (auto simp: files)
    from no_pending_session_lost [OF c r, of "example_session i", unfolded dump ident, OF this] clean [OF i]
    show ?thesis by simp
  qed
  then show ?thesis unfolding r by simp
qed


definition imported_before :: database where
  "imported_before = empty_database\<lparr>db_runs :=
     [\<lparr>run_id = lit ''r'', run_session = example_session (lit ''a''), run_summary = example_summary High\<rparr>]\<rparr>"

lemma import_accounts_for_every_line_witness:
  "case import_session_log example_classifier (as_lines [lit ''a'', lit ''?!'', lit ''a'']) imported_before of
     (Inr r, db', n) \<Rightarrow> im_checked r + im_invalid_lines r = 3 | _ \<Rightarrow> False"
proof -
  let ?log = "as_lines [lit ''a'', lit ''?!'', lit ''a'']"
  have "(case fst (import_session_log example_classifier ?log imported_before) of
      Inr r \<Rightarrow> True | Inl x \<Rightarrow> False)" by code_simp
  then obtain r db' n where i: "import_session_log example_classifier ?log imported_before = (Inr r, db', n)"
    by (cases "import_session_log example_classifier ?log imported_before") (auto split: sum.splits)
  have "length (file_lines ?log) = 3" by code_simp
  then show ?thesis using import_accounts_for_every_line [OF i] by (simp add: i)
qed

definition nul_session :: session_record where
  "nul_session = (example_session (lit ''n''))\<lparr>rec_command_count := 1,
     rec_commands := [\<lparr>ev_cmd = [3, 0, 0, 43], ev_time = 10\<rparr>]\<rparr>"

lemma nul_session_never_stored_witness:
  "model_validate (\<lambda>_. True) (\<lambda>_. True) nul_session = Done nul_session \<and>
   db_runs (cs_db (auto_classify_and_store example_classifier 5 5 nul_session (example_state None []))) = [] \<and>
   cs_files (auto_classify_and_store example_classifier 5 5 nul_session (example_state None []))
     = cs_files (example_state None [])"
proof -
  have c: "\<lparr>ev_cmd = [3, 0, 0, 43], ev_time = 10\<rparr> \<in> set (rec_commands nul_session)"
    by (simp add: nul_session_def)
  have v: "model_validate (\<lambda>_. True) (\<lambda>_. True) nul_session = Done nul_session" by code_simp
  show ?thesis using v nul_session_never_stored [OF c, of example_classifier 5 5 "example_state None []"]
    by (simp add: example_state_def empty_database_def)
qed

definition separator_session :: session_record where
  "separator_session = (example_session (lit ''sep''))\<lparr>rec_command_count := 1,
     rec_commands := [\<lparr>ev_cmd = lit ''echo'' @ [0x2028] @ lit ''x y'', ev_time = 10\<rparr>]\<rparr>"

lemma line_separator_session_lost_witness:
  "case catch_up_pending_sessions example_classifier []
      (keep_for_later example_classifier separator_session (example_state None [])) of
     (res, p, st') \<Rightarrow> res = Some 0 \<and> pr_failed p = [] \<and> db_runs (cs_db st') = [] \<and>
       pending_file (cs_files st') = None \<and> working_file (cs_files st') = None"
proof -
  have d: "ce_dump example_classifier separator_session = lit ''sepecho'' @ [0x2028] @ lit ''x y''" by code_simp
  have p: "ce_parse example_classifier (lit ''sepecho'') = None" "ce_parse example_classifier (lit ''x y'') = None"
    by (simp_all add: example_classifier_def)
  have c: "clean_line (lit ''sepecho'')" "clean_line (lit ''x y'')" by code_simp+
  show ?thesis
    using line_separator_session_lost [OF d _ c p, of "example_state None []"]
    by (simp add: example_state_def empty_database_def example_classifier_def)
qed

lemma events_read_back_witness:
  "map (\<lambda>row. (evr_type row, evr_value row, evr_observed_at row))
      (list_session_events (lit ''s1'') (snd (save_classifier_run plain_storage ssh_record (example_summary High) empty_database)))
    = [(lit ''command'', login_line (lit ''Root''), Some 101), (lit ''command'', password_line (lit ''admin''), Some 101)]"
proof -
  have "(case fst (save_classifier_run plain_storage ssh_record (example_summary High) empty_database) of
      Inr r \<Rightarrow> True | Inl x \<Rightarrow> False)" by code_simp
  then obtain run db' where s: "save_classifier_run plain_storage ssh_record (example_summary High) empty_database = (Inr run, db')"
    by (cases "save_classifier_run plain_storage ssh_record (example_summary High) empty_database") (auto split: sum.splits)
  have r: "rec_session_id ssh_record = lit ''s1''" "rec_decoy_files_surfaced ssh_record = []"
    "rec_commands ssh_record = [\<lparr>ev_cmd = login_line (lit ''Root''), ev_time = 101\<rparr>,
       \<lparr>ev_cmd = password_line (lit ''admin''), ev_time = 101\<rparr>]"
    by (simp_all add: ssh_record_def)
  show ?thesis using events_read_back [OF s] by (simp add: r s)
qed

end
