(* ===== verification/ClassifierQueueProps.thy ===== *)
theory ClassifierQueueProps
  imports ClassifierQueue CatchUpProps "HOL-Library.Multiset"
begin

text \<open>
  What the classification queue promises: the sessions it was given are accounted for in order, the
  backlog is bounded, dropped sessions are counted, and stopping ends.
\<close>

section \<open>The invariant of the queue\<close>

definition sessions_of :: "worker \<Rightarrow> session_record list" where
  "sessions_of w = (case w of Storing s \<Rightarrow> [s] | _ \<Rightarrow> [])"

definition busy :: "worker list \<Rightarrow> session_record list" where
  "busy ws = concat (map sessions_of ws)"

definition in_progress :: "classifier_queue \<Rightarrow> session_record list" where
  "in_progress q = busy (q_workers q)"

definition idle_count :: "worker list \<Rightarrow> nat" where
  "idle_count ws = length (filter (\<lambda>w. w = Idle) ws)"

definition queue_ok :: "classifier_queue \<Rightarrow> bool" where
  "queue_ok q \<longleftrightarrow>
     q_unfinished q = length (q_items q) + length (in_progress q) \<and>
     length (q_items q) \<le> q_maxsize q \<and>
     (q_workers q \<noteq> [] \<longrightarrow> 1 \<le> q_maxsize q) \<and>
     (case q_stage q of
        Not_Stopping \<Rightarrow>
          (if q_open q then q_workers q \<noteq> [] \<and> Returned \<notin> set (q_workers q) \<and> Worker_Stop \<notin> set (q_items q)
           else q_workers q = [] \<and> q_items q = [])
      | Keeping _ \<Rightarrow> \<not> q_open q \<and> q_items q = [] \<and> q_workers q \<noteq> [] \<and> Returned \<notin> set (q_workers q)
      | Draining _ \<Rightarrow> \<not> q_open q \<and> q_items q = [] \<and> q_workers q \<noteq> [] \<and> Returned \<notin> set (q_workers q)
      | Sending n \<Rightarrow> \<not> q_open q \<and> in_progress q = [] \<and> q_workers q \<noteq> [] \<and> set (q_items q) \<subseteq> {Worker_Stop} \<and>
          n + length (q_items q) = idle_count (q_workers q))"

lemma sessions_of_simps [simp]:
  "sessions_of Idle = []" "sessions_of Returned = []" "sessions_of (Storing s) = [s]"
  by (simp_all add: sessions_of_def)

lemma waiting_in_simps [simp]:
  "waiting_in [] = []" "waiting_in (Waiting s # xs) = s # waiting_in xs" "waiting_in (Worker_Stop # xs) = waiting_in xs"
  "waiting_in (xs @ ys) = waiting_in xs @ waiting_in ys"
  by (simp_all add: waiting_in_def)

lemma waiting_in_no_stop: "Worker_Stop \<notin> set items \<Longrightarrow> length (waiting_in items) = length items"
  by (induction items) (auto simp: waiting_in_def split: queue_item.splits)

lemma waiting_in_stops: "set items \<subseteq> {Worker_Stop} \<Longrightarrow> waiting_in items = []"
  by (induction items) (auto simp: waiting_in_def)

lemma busy_simps [simp]: "busy [] = []" "busy (w # ws) = sessions_of w @ busy ws"
  "busy (replicate n Idle) = []"
  by (simp_all add: busy_def)

lemma busy_update:
  "i < length ws \<Longrightarrow> mset (busy (ws[i := w])) + mset (sessions_of (ws ! i)) = mset (busy ws) + mset (sessions_of w)"
proof (induction ws arbitrary: i)
  case (Cons x ws)
  show ?case
  proof (cases i)
    case (Suc j)
    then show ?thesis using Cons.IH [of j] Cons.prems by (simp add: add.assoc)
  qed (simp add: ac_simps)
qed simp

lemma busy_update_length:
  "i < length ws \<Longrightarrow> length (busy (ws[i := w])) + length (sessions_of (ws ! i)) = length (busy ws) + length (sessions_of w)"
  using arg_cong [OF busy_update, of i ws size w] by simp

lemma idle_simps [simp]: "idle_count [] = 0" "idle_count (w # ws) = (if w = Idle then 1 else 0) + idle_count ws"
  by (simp_all add: idle_count_def)

lemma idle_update:
  "i < length ws \<Longrightarrow> idle_count (ws[i := w]) + (if ws ! i = Idle then 1 else 0) = idle_count ws + (if w = Idle then 1 else 0)"
proof (induction ws arbitrary: i)
  case (Cons x ws)
  show ?case
  proof (cases i)
    case (Suc j)
    then show ?thesis using Cons.IH [of j] Cons.prems by simp
  qed auto
qed simp

lemma idle_left: "0 < idle_count ws \<Longrightarrow> \<exists>i < length ws. ws ! i = Idle"
  unfolding idle_count_def by (metis (mono_tags) filter_False in_set_conv_nth length_0_conv less_numeral_extra(3))

section \<open>Every step keeps the invariant\<close>

lemma queue_ok_not_started [simp]: "queue_ok (not_started st)"
  by (simp add: queue_ok_def not_started_def in_progress_def)

lemma note_drop_fields [simp]:
  "q_items (note_drop k now s q) = q_items q" "q_workers (note_drop k now s q) = q_workers q"
  "q_stage (note_drop k now s q) = q_stage q" "q_open (note_drop k now s q) = q_open q"
  "q_maxsize (note_drop k now s q) = q_maxsize q" "q_unfinished (note_drop k now s q) = q_unfinished q"
  "in_progress (note_drop k now s q) = in_progress q"
  by (simp_all add: note_drop_def Let_def in_progress_def)

lemma queue_ok_note_drop [simp]: "queue_ok (note_drop k now s q) = queue_ok q"
  unfolding queue_ok_def note_drop_fields ..

lemma queue_ok_schedule: "queue_ok q \<Longrightarrow> queue_ok (schedule_auto_classification now s q)"
  by (auto simp: schedule_auto_classification_def queue_full_def put_item_def queue_ok_def in_progress_def
      split: stop_stage.splits if_splits)

lemma queue_ok_start: "queue_ok q \<Longrightarrow> start_classification_workers m n q = Inr q' \<Longrightarrow> queue_ok q'"
  by (auto simp: start_classification_workers_def queue_ok_def in_progress_def split: stop_stage.splits if_splits)

lemma queue_ok_close: "queue_ok q \<Longrightarrow> queue_ok (close_intake q)"
  by (auto simp: close_intake_def queue_ok_def in_progress_def Let_def split: stop_stage.splits if_splits)

lemma worker_getE:
  assumes "worker_get i q = Some q'"
  obtains (stop) rest where "i < length (q_workers q)" "q_workers q ! i = Idle" "q_items q = Worker_Stop # rest"
      "q' = q\<lparr>q_items := rest, q_unfinished := q_unfinished q - 1, q_workers := (q_workers q)[i := Returned]\<rparr>"
  | (take) s rest where "i < length (q_workers q)" "q_workers q ! i = Idle" "q_items q = Waiting s # rest"
      "q' = q\<lparr>q_items := rest, q_workers := (q_workers q)[i := Storing s]\<rparr>"
  using assms by (auto simp: worker_get_def split: if_splits list.splits queue_item.splits)

lemma worker_storeE:
  assumes "worker_store e now wall i q = Some q'"
  obtains s where "i < length (q_workers q)" "q_workers q ! i = Storing s"
      "q' = q\<lparr>q_state := auto_classify_and_store e now wall s (q_state q),
              q_unfinished := q_unfinished q - 1, q_workers := (q_workers q)[i := Idle]\<rparr>"
  using assms by (auto simp: worker_store_def split: if_splits worker.splits)

lemma queue_ok_get:
  assumes ok: "queue_ok q" and step: "worker_get i q = Some q'"
  shows "queue_ok q'"
  using step
proof (cases rule: worker_getE)
  case (stop rest)
  then have 2: "length (busy ((q_workers q)[i := Returned])) = length (busy (q_workers q))"
    using busy_update_length [of i "q_workers q" Returned] by simp
  have "idle_count ((q_workers q)[i := Returned]) + 1 = idle_count (q_workers q)"
    using stop idle_update [of i "q_workers q" Returned] by simp
  with ok stop 2 show ?thesis
    by (auto simp: queue_ok_def in_progress_def split: stop_stage.splits if_splits)
next
  case (take s rest)
  have 2: "length (busy ((q_workers q)[i := Storing s])) = length (busy (q_workers q)) + 1"
    using take busy_update_length [of i "q_workers q" "Storing s"] by simp
  have 3: "Returned \<notin> set ((q_workers q)[i := Storing s])" if "Returned \<notin> set (q_workers q)"
    using that by (metis insertE queue_item.distinct(1) set_update_subset_insert subsetD worker.distinct(5))
  from ok take 2 3 show ?thesis
    by (auto simp: queue_ok_def in_progress_def split: stop_stage.splits if_splits)
qed

lemma queue_ok_store:
  assumes ok: "queue_ok q" and step: "worker_store e now wall i q = Some q'"
  shows "queue_ok q'"
  using step
proof (cases rule: worker_storeE)
  case (1 s)
  have 2: "length (busy ((q_workers q)[i := Idle])) + 1 = length (busy (q_workers q))"
    using 1 busy_update_length [of i "q_workers q" Idle] by simp
  have 3: "Returned \<notin> set ((q_workers q)[i := Idle])" if "Returned \<notin> set (q_workers q)"
    using that by (metis insertE set_update_subset_insert subsetD worker.distinct(3))
  from ok 1 2 3 show ?thesis
    by (auto simp: queue_ok_def in_progress_def split: stop_stage.splits if_splits)
qed

lemma queue_ok_keep: "queue_ok q \<Longrightarrow> keep_waiting e q = Some q' \<Longrightarrow> queue_ok q'"
  by (auto simp: keep_waiting_def queue_ok_def in_progress_def split: stop_stage.splits)

lemma queue_ok_slow: "queue_ok q \<Longrightarrow> drain_slow q = Some q' \<Longrightarrow> queue_ok q'"
  by (auto simp: drain_slow_def queue_ok_def in_progress_def split: if_splits)

lemma all_idle: "busy ws = [] \<Longrightarrow> Returned \<notin> set ws \<Longrightarrow> idle_count ws = length ws"
  unfolding idle_count_def by (induction ws) (auto simp: sessions_of_def split: worker.splits)

lemma queue_ok_join: "queue_ok q \<Longrightarrow> join_done q = Some q' \<Longrightarrow> queue_ok q'"
  by (auto simp: join_done_def queue_ok_def in_progress_def all_idle split: stop_stage.splits if_splits)

lemma queue_ok_send: "queue_ok q \<Longrightarrow> send_stop q = Some q' \<Longrightarrow> queue_ok q'"
  by (auto simp: send_stop_def queue_ok_def in_progress_def put_item_def queue_full_def
      split: stop_stage.splits nat.splits if_splits)

lemma all_returned: "list_all (\<lambda>w. w = Returned) ws \<Longrightarrow> idle_count ws = 0"
  by (induction ws) auto

lemma queue_ok_gathered: "queue_ok q \<Longrightarrow> workers_gathered q = Some q' \<Longrightarrow> queue_ok q'"
  by (auto simp: workers_gathered_def queue_ok_def in_progress_def all_returned split: if_splits)

lemma queue_step_ok:
  assumes "queue_step e q ev q'" "queue_ok q" shows "queue_ok q'"
  using assms by (cases rule: queue_step.cases)
    (auto intro: queue_ok_schedule queue_ok_start queue_ok_close queue_ok_get queue_ok_store queue_ok_keep
      queue_ok_slow queue_ok_join queue_ok_send queue_ok_gathered)

lemma queue_run_ok: "queue_run e q evs q' \<Longrightarrow> queue_ok q \<Longrightarrow> queue_ok q'"
  by (induction rule: queue_run.induct) (auto intro: queue_step_ok)

section \<open>The sessions are accounted for, in order\<close>

definition accepted :: "queue_event list \<Rightarrow> session_record list" where
  "accepted evs = concat (map (\<lambda>ev. case ev of Scheduled _ s None \<Rightarrow> [s] | _ \<Rightarrow> []) evs)"

definition taken :: "queue_event list \<Rightarrow> session_record list" where
  "taken evs = concat (map (\<lambda>ev. case ev of Took _ (Waiting s) \<Rightarrow> [s] | _ \<Rightarrow> []) evs)"

definition swept :: "queue_event list \<Rightarrow> session_record list" where
  "swept evs = concat (map (\<lambda>ev. case ev of Stop_Called ss \<Rightarrow> ss | _ \<Rightarrow> []) evs)"

definition left_queue :: "queue_event list \<Rightarrow> session_record list" where
  "left_queue evs = concat (map (\<lambda>ev. case ev of Took _ (Waiting s) \<Rightarrow> [s] | Stop_Called ss \<Rightarrow> ss | _ \<Rightarrow> []) evs)"

definition stored_by :: "queue_event list \<Rightarrow> session_record list" where
  "stored_by evs = concat (map (\<lambda>ev. case ev of Stored _ s \<Rightarrow> [s] | _ \<Rightarrow> []) evs)"

definition kept_by :: "queue_event list \<Rightarrow> session_record list" where
  "kept_by evs = concat (map (\<lambda>ev. case ev of Kept ss \<Rightarrow> ss | _ \<Rightarrow> []) evs)"

definition still_keeping :: "classifier_queue \<Rightarrow> session_record list" where
  "still_keeping q = (case q_stage q of Keeping ss \<Rightarrow> ss | _ \<Rightarrow> [])"

lemma trace_snoc:
  "accepted (evs @ [ev]) = accepted evs @ accepted [ev]" "taken (evs @ [ev]) = taken evs @ taken [ev]"
  "swept (evs @ [ev]) = swept evs @ swept [ev]" "left_queue (evs @ [ev]) = left_queue evs @ left_queue [ev]"
  "stored_by (evs @ [ev]) = stored_by evs @ stored_by [ev]" "kept_by (evs @ [ev]) = kept_by evs @ kept_by [ev]"
  by (simp_all add: accepted_def taken_def swept_def left_queue_def stored_by_def kept_by_def)

lemmas trace_defs = accepted_def taken_def swept_def left_queue_def stored_by_def kept_by_def still_keeping_def

text \<open>What the three equations of the accounting become at one step.\<close>

lemma step_in_order:
  assumes "queue_step e q ev q'" "queue_ok q"
  shows "waiting_in (q_items q) @ accepted [ev] = left_queue [ev] @ waiting_in (q_items q')"
  using assms
  by (cases rule: queue_step.cases)
    (auto simp: trace_defs schedule_verdict_def schedule_auto_classification_def put_item_def close_intake_def
      start_classification_workers_def queue_ok_def keep_waiting_def drain_slow_def join_done_def send_stop_def
      workers_gathered_def Let_def elim!: worker_getE worker_storeE split: if_splits stop_stage.splits nat.splits)

lemma step_in_progress:
  assumes "queue_step e q ev q'" "queue_ok q"
  shows "mset (in_progress q) + mset (taken [ev]) = mset (stored_by [ev]) + mset (in_progress q')"
  using assms
proof (cases rule: queue_step.cases)
  case (took i)
  from took(2) show ?thesis
  proof (cases rule: worker_getE)
    case (stop rest)
    then show ?thesis using took busy_update [of i "q_workers q" Returned] by (simp add: trace_defs in_progress_def)
  next
    case (take s rest)
    then show ?thesis using took busy_update [of i "q_workers q" "Storing s"] by (simp add: trace_defs in_progress_def)
  qed
next
  case (stored now wall i s)
  from stored(2) show ?thesis
  proof (cases rule: worker_storeE)
    case (1 s1)
    then show ?thesis using stored busy_update [of i "q_workers q" Idle] by (simp add: trace_defs in_progress_def add.commute)
  qed
qed (auto simp: trace_defs schedule_auto_classification_def put_item_def close_intake_def in_progress_def
      start_classification_workers_def keep_waiting_def drain_slow_def join_done_def send_stop_def queue_ok_def
      workers_gathered_def Let_def split: if_splits stop_stage.splits nat.splits option.splits)

lemma step_keeping:
  assumes "queue_step e q ev q'" "queue_ok q"
  shows "still_keeping q @ swept [ev] = kept_by [ev] @ still_keeping q'"
  using assms
  by (cases rule: queue_step.cases)
    (auto simp: trace_defs schedule_auto_classification_def put_item_def close_intake_def
      start_classification_workers_def queue_ok_def keep_waiting_def drain_slow_def join_done_def send_stop_def
      workers_gathered_def Let_def note_drop_def elim!: worker_getE worker_storeE split: if_splits stop_stage.splits nat.splits)


lemma trace_Nil [simp]: "accepted [] = []" "taken [] = []" "swept [] = []" "left_queue [] = []" "stored_by [] = []" "kept_by [] = []"
  by (simp_all add: trace_defs)

lemma queue_run_accounts:
  assumes "queue_run e q evs q'" "queue_ok q"
  shows "waiting_in (q_items q) @ accepted evs = left_queue evs @ waiting_in (q_items q')"
    "mset (in_progress q) + mset (taken evs) = mset (stored_by evs) + mset (in_progress q')"
    "still_keeping q @ swept evs = kept_by evs @ still_keeping q'"
  using assms
proof (induction rule: queue_run.induct)
  case (one_more q evs q1 ev q2)
  {
    case 1
    have ok: "queue_ok q1" using queue_run_ok [OF one_more.hyps(1) 1] .
    have "waiting_in (q_items q) @ accepted evs @ accepted [ev] = left_queue evs @ left_queue [ev] @ waiting_in (q_items q2)"
      using one_more.IH(1) [OF 1] step_in_order [OF one_more.hyps(2) ok] by (metis append.assoc)
    then show ?case by (simp only: trace_snoc append.assoc)
  next
    case 2
    have ok: "queue_ok q1" using queue_run_ok [OF one_more.hyps(1) 2] .
    have "mset (in_progress q) + (mset (taken evs) + mset (taken [ev])) = mset (stored_by evs) + (mset (stored_by [ev]) + mset (in_progress q2))"
      using one_more.IH(2) [OF 2] step_in_progress [OF one_more.hyps(2) ok] by (metis add.assoc)
    then show ?case by (simp only: trace_snoc mset_append add.assoc)
  next
    case 3
    have ok: "queue_ok q1" using queue_run_ok [OF one_more.hyps(1) 3] .
    have "still_keeping q @ swept evs @ swept [ev] = kept_by evs @ kept_by [ev] @ still_keeping q2"
      using one_more.IH(3) [OF 3] step_keeping [OF one_more.hyps(2) ok] by (metis append.assoc)
    then show ?case by (simp only: trace_snoc append.assoc)
  }
qed simp_all

lemma not_started_empty [simp]: "q_items (not_started st) = []" "in_progress (not_started st) = []"
  "still_keeping (not_started st) = []" "q_workers (not_started st) = []" "q_open (not_started st) = False"
  "q_stage (not_started st) = Not_Stopping" "q_warnings (not_started st) = []"
  "q_drops (not_started st) k = \<lparr>dropped_count = 0, last_logged = None\<rparr>"
  by (simp_all add: not_started_def in_progress_def still_keeping_def)

lemma left_queue_parts: "mset (left_queue evs) = mset (taken evs) + mset (swept evs)"
  by (induction evs) (auto simp: trace_defs split: queue_event.splits queue_item.splits)


section \<open>The backlog is bounded\<close>

definition starts_within :: "nat \<Rightarrow> nat \<Rightarrow> queue_event list \<Rightarrow> bool" where
  "starts_within m n evs = list_all (\<lambda>ev. case ev of Started m' n' \<Rightarrow> m' \<le> m \<and> n' \<le> n | _ \<Rightarrow> True) evs"

definition q_within :: "nat \<Rightarrow> nat \<Rightarrow> classifier_queue \<Rightarrow> bool" where
  "q_within m n q \<longleftrightarrow> length (q_workers q) \<le> m \<and> q_maxsize q \<le> n"

lemma step_within:
  assumes "queue_step e q ev q'" "q_within m n q" "starts_within m n [ev]"
  shows "q_within m n q'"
  using assms by (cases rule: queue_step.cases)
    (auto simp: q_within_def starts_within_def schedule_auto_classification_def note_drop_def put_item_def
      close_intake_def start_classification_workers_def keep_waiting_def drain_slow_def join_done_def send_stop_def
      workers_gathered_def Let_def elim!: worker_getE worker_storeE split: if_splits stop_stage.splits nat.splits)

lemma run_within: "queue_run e q evs q' \<Longrightarrow> q_within m n q \<Longrightarrow> starts_within m n evs \<Longrightarrow> q_within m n q'"
  by (induction rule: queue_run.induct) (auto simp: starts_within_def intro: step_within)

lemma busy_bound: "length (busy ws) \<le> length ws"
  by (induction ws) (auto simp: sessions_of_def split: worker.splits)

lemma waiting_bound: "length (waiting_in items) \<le> length items"
  by (induction items) (auto simp: waiting_in_def split: queue_item.splits)

text \<open>If every start asks for at most m workers and room for at most n sessions, then at most n
  sessions wait and at most m are being stored at any moment, whatever traffic arrives; and the
  queue refuses a session only when it is closed or holds its full number of items.\<close>

theorem backlog_bounded:
  assumes "queue_run e (not_started st) evs q" "starts_within m n evs"
  shows "length (waiting_in (q_items q)) \<le> n \<and> length (in_progress q) \<le> m \<and>
    (schedule_verdict q \<noteq> None \<longrightarrow> \<not> q_open q \<or> length (waiting_in (q_items q)) = q_maxsize q)"
proof -
  have ok: "queue_ok q" using queue_run_ok [OF assms(1)] by simp
  have "q_within m n q"
    using run_within [OF assms(1) _ assms(2)] by (simp add: q_within_def not_started_def)
  moreover have "length (waiting_in (q_items q)) = length (q_items q)" if "q_open q"
    using ok that by (auto simp: queue_ok_def waiting_in_no_stop split: stop_stage.splits)
  ultimately show ?thesis
    using ok busy_bound [of "q_workers q"] waiting_bound [of "q_items q"]
    by (auto simp: q_within_def queue_ok_def in_progress_def schedule_verdict_def queue_full_def)
qed

section \<open>Dropped sessions\<close>

definition dropped_by :: "drop_kind \<Rightarrow> queue_event list \<Rightarrow> nat" where
  "dropped_by k evs = length (filter (\<lambda>ev. case ev of Scheduled _ _ v \<Rightarrow> v = Some k | _ \<Rightarrow> False) evs)"

definition warned_of :: "drop_kind \<Rightarrow> classifier_queue \<Rightarrow> drop_warning list" where
  "warned_of k q = filter (\<lambda>w. fst w = k) (q_warnings q)"

definition warning_time :: "drop_warning \<Rightarrow> rat" where
  "warning_time w = snd (snd (snd w))"

definition drops_logged :: "drop_kind \<Rightarrow> classifier_queue \<Rightarrow> bool" where
  "drops_logged k q \<longleftrightarrow>
     last_logged (q_drops q k) = (if warned_of k q = [] then None else Some (warning_time (last (warned_of k q)))) \<and>
     (warned_of k q = [] \<longrightarrow> dropped_count (q_drops q k) = 0) \<and>
     sorted_wrt (\<lambda>w w'. DROP_LOG_INTERVAL_SECONDS \<le> warning_time w' - warning_time w) (warned_of k q)"

definition drops_told :: "drop_kind \<Rightarrow> classifier_queue \<Rightarrow> nat" where
  "drops_told k q = sum_list (map (fst \<circ> snd) (warned_of k q)) + dropped_count (q_drops q k)"


lemma note_drop_told:
  "drops_told k (note_drop k' now s q) = drops_told k q + (if k = k' then 1 else 0)"
  by (auto simp: drops_told_def warned_of_def note_drop_def Let_def)

lemma spaced_snoc:
  assumes "sorted_wrt (\<lambda>w w'. d \<le> f w' - f w) ws" "ws \<noteq> [] \<Longrightarrow> d \<le> f w - f (last ws)" "(0::rat) \<le> d"
  shows "sorted_wrt (\<lambda>w w'. d \<le> f w' - f w) (ws @ [w])"
proof -
  have "d \<le> f w - f x" if "x \<in> set ws" for x
  proof -
    have "ws = butlast ws @ [last ws]" using that by (metis append_butlast_last_id empty_iff list.set(1))
    then have "x = last ws \<or> d \<le> f (last ws) - f x"
      using assms(1) that by (metis Un_iff empty_iff list.set(1) list.set_intros(1) set_ConsD set_append sorted_wrt_append)
    moreover have "d \<le> f w - f (last ws)" using assms(2) that by (cases ws) auto
    ultimately show ?thesis using assms(3) by auto
  qed
  with assms(1) show ?thesis by (simp add: sorted_wrt_append)
qed

lemma note_drop_logged:
  assumes "drops_logged k q" shows "drops_logged k (note_drop k' now s q)"
proof -
  have "sorted_wrt (\<lambda>w w'. DROP_LOG_INTERVAL_SECONDS \<le> warning_time w' - warning_time w) (warned_of k q @ [(k, n, sid, now)])"
    if "log_due now (q_drops q k)" for n sid
    using assms that
    by (intro spaced_snoc) (auto simp: drops_logged_def log_due_def DROP_LOG_INTERVAL_SECONDS_def warning_time_def split: if_splits)
  with assms show ?thesis
    by (auto simp: drops_logged_def note_drop_def Let_def warned_of_def warning_time_def log_due_def)
qed

lemma step_drops:
  assumes "queue_step e q ev q'"
  shows "drops_told k q' = drops_told k q + dropped_by k [ev]" "drops_logged k q \<Longrightarrow> drops_logged k q'"
proof -
  have same: "drops_told k q' = drops_told k q \<and> drops_logged k q' = drops_logged k q"
    if "q_drops q' = q_drops q" "q_warnings q' = q_warnings q"
    using that by (simp add: drops_told_def drops_logged_def warned_of_def)
  show "drops_told k q' = drops_told k q + dropped_by k [ev]"
    using assms same
    by (cases rule: queue_step.cases)
      (auto simp: dropped_by_def schedule_auto_classification_def schedule_verdict_def note_drop_told put_item_def
        close_intake_def start_classification_workers_def keep_waiting_def drain_slow_def join_done_def send_stop_def
        workers_gathered_def Let_def elim!: worker_getE worker_storeE split: if_splits stop_stage.splits nat.splits)
  show "drops_logged k q'" if "drops_logged k q"
    using assms same that
    by (cases rule: queue_step.cases)
      (auto simp: schedule_auto_classification_def note_drop_logged put_item_def
        close_intake_def start_classification_workers_def keep_waiting_def drain_slow_def join_done_def send_stop_def
        workers_gathered_def Let_def elim!: worker_getE worker_storeE split: if_splits stop_stage.splits nat.splits)
qed

lemma run_drops:
  "queue_run e q evs q' \<Longrightarrow> drops_told k q' = drops_told k q + dropped_by k evs"
  "queue_run e q evs q' \<Longrightarrow> drops_logged k q \<Longrightarrow> drops_logged k q'"
  by (induction rule: queue_run.induct) (auto simp: step_drops dropped_by_def)

text \<open>For each kind of drop, the warnings' counts and the drops not yet told add up to the sessions
  dropped; any drop has been warned of from the first one on; and two warnings of one kind are never
  less than the interval apart.\<close>

theorem every_drop_counted:
  assumes "queue_run e (not_started st) evs q"
  shows "sum_list (map (fst \<circ> snd) (warned_of k q)) + dropped_count (q_drops q k) = dropped_by k evs \<and>
    (0 < dropped_by k evs \<longrightarrow> warned_of k q \<noteq> []) \<and>
    sorted_wrt (\<lambda>w w'. 30 \<le> warning_time w' - warning_time w) (warned_of k q)"
  using run_drops [OF assms, of k]
  by (auto simp: drops_told_def drops_logged_def warned_of_def DROP_LOG_INTERVAL_SECONDS_def)

section \<open>Stopping ends\<close>

text \<open>The steps left of a stop. Sessions arriving meanwhile change nothing of it.\<close>

definition stop_steps_left :: "classifier_queue \<Rightarrow> nat" where
  "stop_steps_left q =
     (case q_stage q of
        Not_Stopping \<Rightarrow> 0
      | Keeping _ \<Rightarrow> length (in_progress q) + 2 * length (q_workers q) + 4
      | Draining slow \<Rightarrow> length (in_progress q) + 2 * length (q_workers q) + (if slow then 2 else 3)
      | Sending n \<Rightarrow> 2 * n + length (q_items q) + 1)"

text \<open>What the program does by itself, against what its callers do.\<close>

definition own_step :: "queue_event \<Rightarrow> bool" where
  "own_step ev = (case ev of Scheduled _ _ _ \<Rightarrow> False | Started _ _ \<Rightarrow> False | Stop_Called _ \<Rightarrow> False | _ \<Rightarrow> True)"

lemma stop_step:
  assumes "queue_step e q ev q'" "queue_ok q" "q_stage q \<noteq> Not_Stopping"
  shows "if own_step ev then stop_steps_left q' < stop_steps_left q
     else stop_steps_left q' = stop_steps_left q \<and> q_stage q' = q_stage q"
  using assms(1)
proof (cases rule: queue_step.cases)
  case (took i)
  from took(2) show ?thesis
  proof (cases rule: worker_getE)
    case (stop rest)
    then show ?thesis using assms took by (auto simp: own_step_def stop_steps_left_def queue_ok_def split: stop_stage.splits)
  next
    case (take s rest)
    then show ?thesis using assms took by (auto simp: own_step_def stop_steps_left_def queue_ok_def split: stop_stage.splits)
  qed
next
  case (stored now wall i s)
  from stored(2) show ?thesis
  proof (cases rule: worker_storeE)
    case (1 s1)
    then show ?thesis using assms stored busy_update_length [of i "q_workers q" Idle]
      by (auto simp: own_step_def stop_steps_left_def queue_ok_def in_progress_def split: stop_stage.splits)
  qed
qed (use assms in \<open>auto simp: own_step_def stop_steps_left_def queue_ok_def in_progress_def
      schedule_auto_classification_def put_item_def close_intake_def
      start_classification_workers_def keep_waiting_def drain_slow_def join_done_def send_stop_def
      workers_gathered_def Let_def split: if_splits stop_stage.splits nat.splits\<close>)


lemma busy_left: "busy ws \<noteq> [] \<Longrightarrow> \<exists>i s. i < length ws \<and> ws ! i = Storing s"
proof -
  assume "busy ws \<noteq> []"
  then have "\<exists>s. Storing s \<in> set ws" by (induction ws) (auto simp: sessions_of_def split: worker.splits)
  then show ?thesis by (auto simp: in_set_conv_nth)
qed

lemma none_idle:
  "idle_count ws = 0 \<Longrightarrow> busy ws = [] \<Longrightarrow> list_all (\<lambda>w. w = Returned) ws"
  by (induction ws) (auto simp: sessions_of_def split: if_splits worker.splits)

lemma own_step_simps [simp]:
  "own_step (Kept ss)" "own_step Slow_Drain" "own_step Drained" "own_step Stop_Sent" "own_step Workers_Gone"
  "own_step (Took i x)" "own_step (Stored i s)"
  by (simp_all add: own_step_def)

lemma own_stepI: "\<exists>q'. queue_step e q ev q' \<Longrightarrow> own_step ev \<Longrightarrow> \<exists>ev q'. own_step ev \<and> queue_step e q ev q'"
  by blast

lemma drain_progress:
  assumes ok: "queue_ok q" and stage: "q_stage q = Draining slow"
  shows "\<exists>ev q'. own_step ev \<and> queue_step e q ev q'"
proof (cases "q_unfinished q = 0")
  case True
  with stage show ?thesis by (intro own_stepI [of _ _ Drained]) (simp_all add: join_done_def)
next
  case False
  with ok stage obtain i s where "i < length (q_workers q)" "q_workers q ! i = Storing s"
    using busy_left [of "q_workers q"] by (auto simp: queue_ok_def in_progress_def)
  then show ?thesis by (intro own_stepI [of _ _ "Stored i s"]) (auto simp: worker_store_def)
qed

lemma send_progress:
  assumes ok: "queue_ok q" and stage: "q_stage q = Sending n"
  shows "\<exists>ev q'. own_step ev \<and> queue_step e q ev q'"
proof (cases "q_items q")
  case Nil
  show ?thesis
  proof (cases n)
    case 0
    with ok stage Nil none_idle have "list_all (\<lambda>w. w = Returned) (q_workers q)"
      by (auto simp: queue_ok_def in_progress_def)
    with 0 stage show ?thesis by (intro own_stepI [of _ _ Workers_Gone]) (simp_all add: workers_gathered_def)
  next
    case (Suc m)
    from ok stage Nil have "1 \<le> q_maxsize q" by (simp add: queue_ok_def)
    moreover from stage Suc have "q_stage q = Sending (Suc m)" by simp
    ultimately have "send_stop q = Some (put_item Worker_Stop (q\<lparr>q_stage := Sending m\<rparr>))"
      using Nil by (simp add: send_stop_def queue_full_def)
    then show ?thesis by (intro own_stepI [of _ _ Stop_Sent]) simp_all
  qed
next
  case (Cons x rest)
  with ok stage have "x = Worker_Stop" "0 < idle_count (q_workers q)" by (auto simp: queue_ok_def)
  then obtain i where "i < length (q_workers q)" "q_workers q ! i = Idle" using idle_left by blast
  with Cons \<open>x = Worker_Stop\<close> show ?thesis by (intro own_stepI [of _ _ "Took i x"]) (simp_all add: worker_get_def)
qed

text \<open>Until the stop has ended the program always has a step of its own to make.\<close>

lemma stop_progress:
  assumes "queue_ok q" "q_stage q \<noteq> Not_Stopping"
  shows "\<exists>ev q'. own_step ev \<and> queue_step e q ev q'"
proof (cases "q_stage q")
  case (Keeping ss)
  then show ?thesis by (intro own_stepI [of _ _ "Kept ss"]) (simp_all add: keep_waiting_def)
qed (use assms drain_progress send_progress in blast)+

lemma gone_only_then:
  assumes "queue_step e q ev q'" "q_stage q \<noteq> Not_Stopping" "ev \<noteq> Workers_Gone" "queue_ok q"
  shows "q_stage q' \<noteq> Not_Stopping"
  using assms by (cases rule: queue_step.cases)
    (auto simp: schedule_auto_classification_def put_item_def close_intake_def queue_ok_def
      start_classification_workers_def keep_waiting_def drain_slow_def join_done_def send_stop_def
      Let_def elim!: worker_getE worker_storeE split: if_splits stop_stage.splits nat.splits)

lemma stop_run:
  assumes "queue_run e q evs q'" "queue_ok q" "q_stage q \<noteq> Not_Stopping" "Workers_Gone \<notin> set evs"
  shows "q_stage q' \<noteq> Not_Stopping \<and> length (filter own_step evs) + stop_steps_left q' \<le> stop_steps_left q"
  using assms
proof (induction rule: queue_run.induct)
  case (one_more q evs q1 ev q2)
  then have ok: "queue_ok q1" and IH: "q_stage q1 \<noteq> Not_Stopping"
      "length (filter own_step evs) + stop_steps_left q1 \<le> stop_steps_left q"
    by (auto dest: queue_run_ok)
  show ?case
    using stop_step [OF one_more.hyps(2) ok IH(1)] gone_only_then [OF one_more.hyps(2) IH(1) _ ok] IH(2) one_more.prems(3)
    by (auto split: if_splits)
qed simp

lemma stop_steps_bound:
  assumes "queue_ok q" shows "stop_steps_left q \<le> 3 * length (q_workers q) + 4"
proof -
  have "idle_count (q_workers q) \<le> length (q_workers q)" by (simp add: idle_count_def)
  then show ?thesis using assms busy_bound [of "q_workers q"]
    by (auto simp: stop_steps_left_def queue_ok_def in_progress_def split: stop_stage.splits)
qed

text \<open>C26: Once a stop has begun it ends: however sessions keep arriving, the program makes at most
  3 * workers + 4 steps of its own before all workers have returned, until then it always has one
  to make, and when they have, nothing waits and nothing is being stored.\<close>

theorem stopping_ends:
  assumes "queue_run e (not_started st) evs q" "q_stage q \<noteq> Not_Stopping"
  shows "(\<forall>evs' q'. queue_run e q evs' q' \<longrightarrow> Workers_Gone \<notin> set evs' \<longrightarrow>
        length (filter own_step evs') \<le> 3 * length (q_workers q) + 4 \<and>
        (\<exists>ev q''. own_step ev \<and> queue_step e q' ev q'')) \<and>
    (\<forall>evs' q' q''. queue_run e q evs' q' \<longrightarrow> queue_step e q' Workers_Gone q'' \<longrightarrow>
        q_items q'' = [] \<and> q_workers q'' = [] \<and> in_progress q' = [] \<and> still_keeping q' = [] \<and> \<not> q_open q'')"
proof -
  have ok: "queue_ok q" using queue_run_ok [OF assms(1)] by simp
  have "length (filter own_step evs') \<le> 3 * length (q_workers q) + 4 \<and> (\<exists>ev q''. own_step ev \<and> queue_step e q' ev q'')"
    if "queue_run e q evs' q'" "Workers_Gone \<notin> set evs'" for evs' q'
    using stop_run [OF that(1) ok assms(2) that(2)] stop_steps_bound [OF ok] stop_progress [OF queue_run_ok [OF that(1) ok]]
    by fastforce
  moreover have "q_items q'' = [] \<and> q_workers q'' = [] \<and> in_progress q' = [] \<and> still_keeping q' = [] \<and> \<not> q_open q''"
    if run: "queue_run e q evs' q'" and last: "queue_step e q' Workers_Gone q''" for evs' q' q''
    using queue_run_ok [OF run ok] queue_step_ok [OF last queue_run_ok [OF run ok]] last
    by (auto simp: workers_gathered_def queue_ok_def still_keeping_def split: if_splits)
  ultimately show ?thesis by blast
qed


section \<open>A run\<close>

lemma queue_run_Nil: "queue_run e q [] q' \<longleftrightarrow> q' = q"
  by (auto elim: queue_run.cases intro: no_events)

lemma queue_run_Cons: "queue_run e q (ev # evs) q' \<longleftrightarrow> (\<exists>q1. queue_step e q ev q1 \<and> queue_run e q1 evs q')"
proof (induction evs arbitrary: q' rule: rev_induct)
  case Nil
  show ?case by (auto simp: queue_run_Nil elim: queue_run.cases intro: queue_run.intros(2) [of e q "[]", simplified] no_events)
next
  case (snoc x evs)
  have last: "queue_run e a (as @ [b]) c \<longleftrightarrow> (\<exists>d. queue_run e a as d \<and> queue_step e d b c)" for a as b c
    by (auto elim: queue_run.cases intro: one_more)
  show ?case using snoc by (auto simp: last simp flip: append_Cons)
qed

text \<open>One worker, room for one: one session is being stored and one waiting when the stop comes; two
  are dropped.\<close>

definition example_events :: "queue_event list" where
  "example_events =
     (let a = example_session (lit ''a''); b = example_session (lit ''b'')
      in [Started 1 1, Scheduled 1 a None, Scheduled 2 b (Some Queue_Full), Took 0 (Waiting a),
          Scheduled 3 b None, Stop_Called [b], Scheduled 4 a (Some No_Workers)])"

definition example_stopping :: classifier_queue where
  "example_stopping =
     (let a = example_session (lit ''a''); b = example_session (lit ''b'')
      in \<lparr>q_open = False, q_maxsize = 1, q_items = [], q_unfinished = 1, q_workers = [Storing a],
          q_stage = Keeping [b],
          q_drops = (\<lambda>_. \<lparr>dropped_count = 0, last_logged = None\<rparr>)
            (Queue_Full := \<lparr>dropped_count = 0, last_logged = Some 2\<rparr>, No_Workers := \<lparr>dropped_count = 0, last_logged = Some 4\<rparr>),
          q_warnings = [(Queue_Full, 1, lit ''b'', 2), (No_Workers, 1, lit ''a'', 4)], q_slow_drains = 0,
          q_state = example_state None []\<rparr>)"

lemma rec_session_id_example [simp]: "rec_session_id (example_session s) = s"
  by (simp add: example_session_def)

lemma example_queue_run:
  "queue_run example_classifier (not_started (example_state None [])) example_events example_stopping"
  by (simp add: example_events_def example_stopping_def Let_def queue_run_Cons queue_run_Nil not_started_def
      start_classification_workers_def schedule_auto_classification_def schedule_verdict_def queue_full_def put_item_def
      note_drop_def log_due_def worker_get_def close_intake_def)


theorem backlog_bounded_witness:
  "length (waiting_in (q_items example_stopping)) \<le> 1 \<and> length (in_progress example_stopping) \<le> 1"
proof -
  have "starts_within 1 1 example_events" by (simp add: example_events_def starts_within_def Let_def)
  from backlog_bounded [OF example_queue_run this] show ?thesis by blast
qed

theorem every_drop_counted_witness: "dropped_by Queue_Full example_events = 1 \<and> warned_of Queue_Full example_stopping \<noteq> []"
proof -
  have "dropped_by Queue_Full example_events = 1" by (simp add: dropped_by_def example_events_def Let_def)
  with every_drop_counted [OF example_queue_run, of Queue_Full] show ?thesis by simp
qed

theorem stopping_ends_witness: "\<exists>ev q. own_step ev \<and> queue_step example_classifier example_stopping ev q"
proof -
  have "q_stage example_stopping \<noteq> Not_Stopping" by (simp add: example_stopping_def Let_def)
  from stopping_ends [OF example_queue_run this] no_events [of example_classifier example_stopping]
  show ?thesis by fastforce
qed

end
