(* ===== verification/IssueTexts.thy ===== *)
theory IssueTexts
  imports Storage Playbooks
begin

text \<open>
  What \<open>classifier/storage/issue_sync.py\<close> writes into an issue: the names, the evidence text, the
  time window, the severities, and the issue built from one pair's totals or from the
  repeat-connection check.
\<close>

section \<open>The totals of one actor and technique\<close>

record pair_aggregate =
  agg_actor :: str
  agg_tag :: str
  agg_max_risk_rank :: nat
  agg_first_seen :: rat
  agg_last_seen :: rat
  agg_samples :: "str list"

record rollup =
  ru_session_count :: nat
  ru_persona_count :: nat
  ru_source_ip_count :: nat
  ru_first_seen :: "rat option"
  ru_last_seen :: "rat option"
  ru_max_risk_rank :: "nat option"
  ru_samples :: "str list"

record repeat_aggregate =
  rep_session_count :: nat
  rep_persona_count :: nat
  rep_source_ip_count :: nat
  rep_session_ids :: "str list"

text \<open>\<open>IssueRecord\<close>, before it has its creation time; the default status is open.\<close>

datatype issue_status = Open | Closed

record issue_record =
  isr_id :: str
  isr_title :: str
  isr_severity :: str
  isr_evidence :: str
  isr_recommended_fix :: str
  isr_impact :: str
  isr_session_count :: nat
  isr_persona_count :: nat
  isr_status :: issue_status
  isr_actor_label :: "str option"
  isr_mitre :: "(str \<times> str) list"
  isr_session_ids :: "str list"

record sync_env =
  sy_playbook :: issue_playbook
  sy_catalog :: "(str \<times> str) list"
  sy_technique_playbook :: "(str \<times> raw_playbook_entry) list"
  sy_uuid5 :: "str \<Rightarrow> str"
  sy_window_seconds :: int
  sy_min_sessions :: int

section \<open>Texts\<close>

definition RISK_RANK_SEVERITIES :: "(nat \<times> str) list" where
  "RISK_RANK_SEVERITIES = [(4, lit ''high''), (3, lit ''high''), (2, lit ''medium''), (1, lit ''low''), (0, lit ''low'')]"

definition rank_severity :: "nat \<Rightarrow> str" where
  "rank_severity r = (case dict_get RISK_RANK_SEVERITIES r of None \<Rightarrow> lit ''low'' | Some s \<Rightarrow> s)"

definition issue_id_for_pair :: "sync_env \<Rightarrow> str \<Rightarrow> str \<Rightarrow> str" where
  "issue_id_for_pair e actor tag = sy_uuid5 e (lit ''echidra-issue-actor-technique:'' @ actor @ [colon] @ tag)"

definition technique_name :: "sync_env \<Rightarrow> str \<Rightarrow> str" where
  "technique_name e tag =
     (let from_catalog = (case dict_get (sy_catalog e) tag of None \<Rightarrow> tag | Some name \<Rightarrow> name)
      in case dict_get (mitre_technique_names (sy_playbook e)) tag of
           None \<Rightarrow> from_catalog
         | Some name \<Rightarrow> if name \<noteq> [] then name else from_catalog)"

definition count_text :: "nat \<Rightarrow> str \<Rightarrow> str" where
  "count_text n noun = str_of_nat n @ [space] @ noun @ (if n = 1 then [] else lit ''s'')"

text \<open>\<open>datetime.fromtimestamp\<close> in UTC and its \<open>strftime\<close>; a year above 9999 raises.\<close>

definition minute_text :: "rat \<Rightarrow> str outcome" where
  "minute_text t =
     (case civil_from_days (whole_seconds t div 86400) of
        (year, month, day) \<Rightarrow>
          if year < 1 \<or> 9999 < year then Raised (ValueError (lit ''year is out of range''))
          else Done (two_digits (year div 100) @ two_digits (year mod 100) @ [dash] @ two_digits month @ [dash] @ two_digits day
            @ [space] @ hour_minute t @ lit '' UTC''))"

definition seen_window :: "rat option \<Rightarrow> rat option \<Rightarrow> str option outcome" where
  "seen_window first_seen last_seen =
     (case (first_seen, last_seen) of
        (Some a, Some b) \<Rightarrow>
          (case minute_text a of
             Raised x \<Rightarrow> Raised x
           | Done earliest \<Rightarrow>
               if a = b then Done (Some (lit ''first and only seen '' @ earliest))
               else case minute_text b of
                 Raised x \<Rightarrow> Raised x
               | Done latest_text \<Rightarrow> Done (Some (lit ''first seen '' @ earliest @ lit '', most recently '' @ latest_text)))
      | _ \<Rightarrow> Done None)"

definition build_evidence :: "rollup \<Rightarrow> str \<Rightarrow> str outcome" where
  "build_evidence r name =
     (case seen_window (ru_first_seen r) (ru_last_seen r) of
        Raised x \<Rightarrow> Raised x
      | Done window \<Rightarrow>
          let samples = filter (\<lambda>s. s \<noteq> []) (ru_samples r);
              seen = count_text (ru_session_count r) (lit ''session'') @ lit '' across ''
                @ count_text (ru_persona_count r) (lit ''persona'') @ lit '' exhibited '' @ name @ lit '' behavior''
                @ (if ru_source_ip_count r \<noteq> 0 then lit '' from '' @ count_text (ru_source_ip_count r) (lit ''source IP'') else [])
                @ (case window of None \<Rightarrow> [] | Some w \<Rightarrow> lit '', '' @ w) @ lit ''.'';
              matched = lit ''Matched: '' @ join (lit ''; '') (take 5 samples) @ lit ''.''
          in Done (join [space] (if samples = [] then [seen] else [seen, matched])))"

definition build_issue :: "sync_env \<Rightarrow> pair_aggregate \<Rightarrow> rollup \<Rightarrow> issue_record outcome" where
  "build_issue e agg r =
     (let actor = agg_actor agg; tag = agg_tag agg; name = technique_name e tag;
          fix_entry = fix_for (sy_playbook e) actor tag;
          entry = get_playbook_entry (sy_technique_playbook e) (sy_catalog e) tag
      in case build_evidence r name of
           Raised x \<Rightarrow> Raised x
         | Done evidence \<Rightarrow> Done
             \<lparr>isr_id = issue_id_for_pair e actor tag,
              isr_title = (case fix_entry of Some f \<Rightarrow> entry_title f
                 | None \<Rightarrow> actor_label_display (sy_playbook e) actor @ lit '' are exhibiting '' @ name @ lit '' behavior.''),
              isr_severity = (case ru_max_risk_rank r of None \<Rightarrow> lit ''low'' | Some rank \<Rightarrow> rank_severity rank),
              isr_evidence = evidence,
              isr_recommended_fix = (case fix_entry of Some f \<Rightarrow> entry_recommended f | None \<Rightarrow> entry_fix entry),
              isr_impact = (case fix_entry of Some f \<Rightarrow> impact_text f | None \<Rightarrow> entry_impact entry),
              isr_session_count = ru_session_count r, isr_persona_count = ru_persona_count r, isr_status = Open,
              isr_actor_label = Some actor, isr_mitre = [(tag, name)], isr_session_ids = []\<rparr>)"

section \<open>Repeated connections\<close>

definition REPEAT_CONNECTION_ACTOR_LABEL :: str where
  "REPEAT_CONNECTION_ACTOR_LABEL = lit ''brute_force_bot''"

definition REPEAT_CONNECTION_MITRE_TAG :: str where
  "REPEAT_CONNECTION_MITRE_TAG = lit ''T1110''"

definition repeat_connection_severity :: "int \<Rightarrow> int \<Rightarrow> str" where
  "repeat_connection_severity session_count min_sessions =
     (if min_sessions \<le> 0 then lit ''low''
      else if max (min_sessions * 8) (min_sessions + 40) \<le> session_count then lit ''high''
      else if max (min_sessions * 3) (min_sessions + 10) \<le> session_count then lit ''medium''
      else lit ''low'')"

definition format_window :: "int \<Rightarrow> str" where
  "format_window window_seconds =
     (let plural = (\<lambda>n. if n \<noteq> 1 then lit ''s'' else []) in
      if window_seconds mod 86400 = 0
      then str_of_int (window_seconds div 86400) @ lit '' day'' @ plural (window_seconds div 86400)
      else if window_seconds mod 3600 = 0
      then str_of_int (window_seconds div 3600) @ lit '' hour'' @ plural (window_seconds div 3600)
      else str_of_int window_seconds @ lit '' seconds'')"

definition build_repeat_connection_evidence :: "sync_env \<Rightarrow> repeat_aggregate \<Rightarrow> str" where
  "build_repeat_connection_evidence e a =
     count_text (rep_session_count a) (lit ''connection attempt'') @ lit '' across ''
       @ count_text (rep_persona_count a) (lit ''persona'') @ lit '' from ''
       @ count_text (rep_source_ip_count a) (lit ''source IP'') @ lit '', each making at least ''
       @ str_of_int (sy_min_sessions e) @ lit '' connections within '' @ format_window (sy_window_seconds e) @ lit ''.''"

definition build_repeat_connection_issue :: "sync_env \<Rightarrow> repeat_aggregate \<Rightarrow> issue_record" where
  "build_repeat_connection_issue e a =
     (let actor = REPEAT_CONNECTION_ACTOR_LABEL; tag = REPEAT_CONNECTION_MITRE_TAG; name = technique_name e tag;
          fix_entry = fix_for (sy_playbook e) actor tag;
          entry = get_playbook_entry (sy_technique_playbook e) (sy_catalog e) tag
      in \<lparr>isr_id = issue_id_for_pair e actor tag,
          isr_title = (case fix_entry of Some f \<Rightarrow> entry_title f
             | None \<Rightarrow> actor_label_display (sy_playbook e) actor @ lit '' are repeatedly reconnecting from the same source.''),
          isr_severity = repeat_connection_severity (int (rep_session_count a)) (sy_min_sessions e),
          isr_evidence = build_repeat_connection_evidence e a,
          isr_recommended_fix = (case fix_entry of Some f \<Rightarrow> entry_recommended f | None \<Rightarrow> entry_fix entry),
          isr_impact = (case fix_entry of Some f \<Rightarrow> impact_text f | None \<Rightarrow> entry_impact entry),
          isr_session_count = rep_session_count a, isr_persona_count = rep_persona_count a, isr_status = Open,
          isr_actor_label = Some actor, isr_mitre = [(tag, name)], isr_session_ids = rep_session_ids a\<rparr>)"

end
