(* ===== verification/IssueSync.thy ===== *)
theory IssueSync
  imports IssueTexts
begin

text \<open>
  The rollup of stored classifier runs into issues: the \<open>IssueSyncStore\<close> of
  \<open>classifier/storage/repository.py\<close>, one function per SQL statement or method, and
  \<open>classifier/storage/issue_sync.py\<close> on top of it. A transaction of the sync holds the advisory
  lock, or finds it held, or fails; \<open>idb_turns\<close> says which in advance. Tables are lists of rows;
  the bridge tables never hold a row twice.
\<close>

section \<open>The issue tables\<close>

datatype rollup_source = By_Classifier | By_Repeat_Connections

record issue_row =
  iss_title :: str
  iss_severity :: str
  iss_evidence :: str
  iss_recommended_fix :: str
  iss_impact :: str
  iss_session_count :: nat
  iss_persona_count :: nat
  iss_status :: issue_status
  iss_actor_label :: "str option"
  iss_created_at :: rat
  iss_source_ip_count :: "nat option"
  iss_first_seen :: "rat option"
  iss_last_seen :: "rat option"
  iss_max_risk_rank :: "nat option"
  iss_samples :: "str list option"
  iss_source :: "rollup_source option"

text \<open>How the next transaction of the sync goes. A failed one may have committed before the client
  saw the failure.\<close>

datatype sync_turn = Granted | Lock_Held | Lost bool db_error

datatype sync_error = Sync_In_Progress | Sync_Database db_error | Sync_Raised exn

record issue_db =
  idb_base :: database
  idb_issues :: "(str \<times> issue_row) list"
  idb_sessions :: "(str \<times> str) list"
  idb_personas :: "(str \<times> str) list"
  idb_source_ips :: "(str \<times> str) list"
  idb_techniques :: "(str \<times> nat \<times> str \<times> str) list"
  idb_rebuilt :: bool
  idb_turns :: "sync_turn list"

section \<open>The store\<close>

definition mark_rebuilt :: "issue_db \<Rightarrow> issue_db" where
  "mark_rebuilt db = db\<lparr>idb_rebuilt := True\<rparr>"

definition queued :: "issue_db \<Rightarrow> str list" where
  "queued db = db_sync_queue (idb_base db)"

definition set_queue :: "str list \<Rightarrow> issue_db \<Rightarrow> issue_db" where
  "set_queue ids db = db\<lparr>idb_base := (idb_base db)\<lparr>db_sync_queue := ids\<rparr>\<rparr>"

definition clear_queue :: "issue_db \<Rightarrow> issue_db" where
  "clear_queue db = set_queue [] db"

definition next_queued_run_ids :: "nat \<Rightarrow> issue_db \<Rightarrow> str list" where
  "next_queued_run_ids limit db = take limit (queued db)"

definition dequeue :: "str list \<Rightarrow> issue_db \<Rightarrow> issue_db" where
  "dequeue ids db = set_queue (filter (\<lambda>i. i \<notin> set ids) (queued db)) db"

text \<open>\<open>load_runs\<close>: the rows of \<open>issue_sync_runs\<close>. A run without an actor or a technique has none, and
  a run with several techniques one for each.\<close>

record sync_run =
  sr_run_id :: str
  sr_session_id :: str
  sr_actor :: str
  sr_tag :: str
  sr_risk_rank :: nat
  sr_persona :: str
  sr_peer_ip :: "str option"
  sr_started_at :: rat

datatype run_scope = Every_Run | Batch_Runs "str list" | Pair_Runs str str

definition signals_of :: "str \<Rightarrow> str \<Rightarrow> database \<Rightarrow> str list" where
  "signals_of signal_type rid db = map sig_value (filter (\<lambda>r. sig_run_id r = rid \<and> sig_type r = signal_type) (db_signals db))"

definition rows_of_run :: "database \<Rightarrow> run_record \<Rightarrow> sync_run list" where
  "rows_of_run db run =
     (case (sum_actor_label (run_summary run), dict_get (db_sessions db) (rec_session_id (run_session run))) of
        (Some actor, Some row) \<Rightarrow>
          map (\<lambda>tag. \<lparr>sr_run_id = run_id run, sr_session_id = rec_session_id (run_session run),
              sr_actor = actor_name actor, sr_tag = tag, sr_risk_rank = risk_rank (sum_risk_level (run_summary run)),
              sr_persona = row_persona_id row, sr_peer_ip = row_peer_ip row, sr_started_at = row_started_at row\<rparr>)
            (signals_of (lit ''mitre_tag'') (run_id run) db)
      | _ \<Rightarrow> [])"

fun in_scope :: "run_scope \<Rightarrow> sync_run \<Rightarrow> bool" where
  "in_scope Every_Run r = True"
| "in_scope (Batch_Runs ids) r = (sr_run_id r \<in> set ids)"
| "in_scope (Pair_Runs actor tag) r = (sr_actor r = actor \<and> sr_tag r = tag)"

definition fill_sync_runs :: "run_scope \<Rightarrow> database \<Rightarrow> sync_run list" where
  "fill_sync_runs scope db = filter (in_scope scope) (concat (map (rows_of_run db) (db_runs db)))"

definition SAMPLE_EVIDENCE_LIMIT :: nat where
  "SAMPLE_EVIDENCE_LIMIT = 5"

definition pair_of :: "sync_run \<Rightarrow> str \<times> str" where
  "pair_of r = (sr_actor r, sr_tag r)"

definition evidence_texts :: "database \<Rightarrow> sync_run list \<Rightarrow> str list" where
  "evidence_texts db rows = concat (map (\<lambda>r. signals_of (lit ''evidence'') (sr_run_id r) db) rows)"

definition pair_aggregate_of :: "database \<Rightarrow> sync_run list \<Rightarrow> str \<times> str \<Rightarrow> pair_aggregate" where
  "pair_aggregate_of db rows pair =
     (let mine = filter (\<lambda>r. pair_of r = pair) rows
      in \<lparr>agg_actor = fst pair, agg_tag = snd pair,
          agg_max_risk_rank = Max (set (map sr_risk_rank mine)),
          agg_first_seen = Min (set (map sr_started_at mine)),
          agg_last_seen = Max (set (map sr_started_at mine)),
          agg_samples = take SAMPLE_EVIDENCE_LIMIT (sort (remdups (evidence_texts db mine)))\<rparr>)"

text \<open>\<open>SELECT_ISSUE_SYNC_PAIR_AGGREGATES_SQL\<close>, ordered by code point where the server orders by the
  collation of the database.\<close>

definition pair_aggregates :: "database \<Rightarrow> sync_run list \<Rightarrow> pair_aggregate list" where
  "pair_aggregates db rows = map (pair_aggregate_of db rows) (sort (remdups (map pair_of rows)))"

text \<open>\<open>merge_pairs\<close>: the placeholder issues, the cleared bridges, and the rows that are new.\<close>

definition placeholder :: "str \<Rightarrow> rat \<Rightarrow> issue_row" where
  "placeholder actor now = \<lparr>iss_title = [], iss_severity = lit ''low'', iss_evidence = [],
     iss_recommended_fix = [], iss_impact = [], iss_session_count = 0, iss_persona_count = 0, iss_status = Open,
     iss_actor_label = Some actor, iss_created_at = now, iss_source_ip_count = None, iss_first_seen = None,
     iss_last_seen = None, iss_max_risk_rank = None, iss_samples = None, iss_source = None\<rparr>"

definition insert_placeholders :: "((str \<times> str) \<times> str) list \<Rightarrow> issue_db \<Rightarrow> issue_db" where
  "insert_placeholders pairs db =
     db\<lparr>idb_issues := fold (\<lambda>(pair, i) issues.
          if dict_has issues i then issues else dict_put i (placeholder (fst pair) (db_now (idb_base db))) issues)
        pairs (idb_issues db)\<rparr>"

definition delete_bridges :: "str list \<Rightarrow> issue_db \<Rightarrow> issue_db" where
  "delete_bridges ids db =
     (let others = filter (\<lambda>row. fst row \<notin> set ids)
      in db\<lparr>idb_sessions := others (idb_sessions db), idb_personas := others (idb_personas db),
            idb_source_ips := others (idb_source_ips db)\<rparr>)"

definition bridge_rows ::
  "((str \<times> str) \<times> str) list \<Rightarrow> (sync_run \<Rightarrow> str list) \<Rightarrow> sync_run list \<Rightarrow> (str \<times> str) list" where
  "bridge_rows pairs f rows =
     remdups (concat (map (\<lambda>r. case dict_get pairs (pair_of r) of None \<Rightarrow> [] | Some i \<Rightarrow> map (Pair i) (f r)) rows))"

definition new_rows :: "(str \<times> str) list \<Rightarrow> (str \<times> str) list \<Rightarrow> (str \<times> str) list" where
  "new_rows wanted stored = filter (\<lambda>row. row \<notin> set stored) wanted"

definition added_to :: "str \<Rightarrow> (str \<times> str) list \<Rightarrow> nat" where
  "added_to i inserted = length (filter (\<lambda>row. fst row = i) inserted)"

type_synonym added = "str \<Rightarrow> nat \<times> nat \<times> nat"

definition merge_pairs ::
  "((str \<times> str) \<times> str) list \<Rightarrow> str list \<Rightarrow> sync_run list \<Rightarrow> issue_db \<Rightarrow> added \<times> issue_db" where
  "merge_pairs pairs reset_ids rows db =
     (let db1 = insert_placeholders pairs db;
          db2 = (if reset_ids = [] then db1 else delete_bridges reset_ids db1);
          new_sessions = new_rows (bridge_rows pairs (\<lambda>r. [sr_session_id r]) rows) (idb_sessions db2);
          new_personas = new_rows (bridge_rows pairs (\<lambda>r. [sr_persona r]) rows) (idb_personas db2);
          new_ips = new_rows (bridge_rows pairs (\<lambda>r. opt_texts (sr_peer_ip r)) rows) (idb_source_ips db2)
      in (\<lambda>i. (added_to i new_sessions, added_to i new_personas, added_to i new_ips),
          db2\<lparr>idb_sessions := idb_sessions db2 @ new_sessions, idb_personas := idb_personas db2 @ new_personas,
              idb_source_ips := idb_source_ips db2 @ new_ips\<rparr>))"

definition replace_mitre_techniques :: "issue_record \<Rightarrow> issue_db \<Rightarrow> issue_db" where
  "replace_mitre_techniques issue db =
     db\<lparr>idb_techniques := filter (\<lambda>row. fst row \<noteq> isr_id issue) (idb_techniques db)
        @ map (\<lambda>(n, t). (isr_id issue, n, t)) (enumerate 0 (isr_mitre issue))\<rparr>"

text \<open>The status an update leaves: a rise of the session count opens the issue.\<close>

definition merged_status :: "nat \<Rightarrow> issue_row \<Rightarrow> issue_status" where
  "merged_status session_count row = (if iss_session_count row < session_count then Open else iss_status row)"

definition rollup_row :: "issue_record \<Rightarrow> rollup \<Rightarrow> issue_row \<Rightarrow> issue_row" where
  "rollup_row issue r row = row\<lparr>iss_title := isr_title issue, iss_severity := isr_severity issue,
     iss_evidence := isr_evidence issue, iss_recommended_fix := isr_recommended_fix issue,
     iss_impact := isr_impact issue, iss_session_count := isr_session_count issue,
     iss_persona_count := isr_persona_count issue, iss_actor_label := isr_actor_label issue,
     iss_source_ip_count := Some (ru_source_ip_count r), iss_first_seen := ru_first_seen r,
     iss_last_seen := ru_last_seen r, iss_max_risk_rank := ru_max_risk_rank r, iss_samples := Some (ru_samples r),
     iss_source := Some By_Classifier, iss_status := merged_status (isr_session_count issue) row\<rparr>"

definition update_issue :: "str \<Rightarrow> (issue_row \<Rightarrow> issue_row) \<Rightarrow> issue_db \<Rightarrow> issue_db" where
  "update_issue i f db =
     (case dict_get (idb_issues db) i of
        None \<Rightarrow> db
      | Some row \<Rightarrow> db\<lparr>idb_issues := dict_put i (f row) (idb_issues db)\<rparr>)"

definition status_in :: "str \<Rightarrow> issue_db \<Rightarrow> issue_status" where
  "status_in i db = (case dict_get (idb_issues db) i of None \<Rightarrow> Open | Some row \<Rightarrow> iss_status row)"

definition write_rollup_issue :: "issue_record \<Rightarrow> rollup \<Rightarrow> issue_db \<Rightarrow> issue_record \<times> issue_db" where
  "write_rollup_issue issue r db =
     (let db1 = update_issue (isr_id issue) (rollup_row issue r) db
      in (issue\<lparr>isr_status := status_in (isr_id issue) db1\<rparr>, replace_mitre_techniques issue db1))"


text \<open>\<open>write_repeat_connection_issue\<close>: the upsert, the techniques and sessions replaced, the source marked.\<close>

definition upsert_issue :: "issue_record \<Rightarrow> issue_db \<Rightarrow> issue_db" where
  "upsert_issue issue db =
     (let row = (case dict_get (idb_issues db) (isr_id issue) of
            Some old \<Rightarrow> old\<lparr>iss_status := merged_status (isr_session_count issue) old\<rparr>
          | None \<Rightarrow> (placeholder [] (db_now (idb_base db)))\<lparr>iss_status := isr_status issue\<rparr>)
      in db\<lparr>idb_issues := dict_put (isr_id issue)
           (row\<lparr>iss_title := isr_title issue, iss_severity := isr_severity issue, iss_evidence := isr_evidence issue,
              iss_recommended_fix := isr_recommended_fix issue, iss_impact := isr_impact issue,
              iss_session_count := isr_session_count issue, iss_persona_count := isr_persona_count issue,
              iss_actor_label := isr_actor_label issue\<rparr>) (idb_issues db)\<rparr>)"

definition replace_sessions :: "issue_record \<Rightarrow> issue_db \<Rightarrow> issue_db" where
  "replace_sessions issue db =
     db\<lparr>idb_sessions := filter (\<lambda>row. fst row \<noteq> isr_id issue) (idb_sessions db)
        @ map (Pair (isr_id issue)) (remdups (isr_session_ids issue))\<rparr>"

definition write_repeat_connection_issue :: "issue_record \<Rightarrow> issue_db \<Rightarrow> issue_record \<times> issue_db" where
  "write_repeat_connection_issue issue db =
     (let db1 = replace_sessions issue (replace_mitre_techniques issue (upsert_issue issue db));
          db2 = update_issue (isr_id issue) (\<lambda>row. row\<lparr>iss_source := Some By_Repeat_Connections\<rparr>) db1
      in (issue\<lparr>isr_status := status_in (isr_id issue) db2\<rparr>, db2))"

definition aggregate_repeat_connections :: "int \<Rightarrow> int \<Rightarrow> database \<Rightarrow> repeat_aggregate option" where
  "aggregate_repeat_connections window_seconds min_sessions db =
     (let recent = filter (\<lambda>(sid, row). row_peer_ip row \<noteq> None \<and> db_now db - rat_of_int window_seconds \<le> row_started_at row)
            (db_sessions db);
          ips = map (row_peer_ip \<circ> snd) recent;
          offending = filter (\<lambda>(sid, row). min_sessions \<le> int (count_list ips (row_peer_ip row))) recent
      in if offending = [] then None
         else Some \<lparr>rep_session_count = length offending,
           rep_persona_count = card (set (map (row_persona_id \<circ> snd) offending)),
           rep_source_ip_count = card (set (map (row_peer_ip \<circ> snd) offending)),
           rep_session_ids = sort (remdups (map fst offending))\<rparr>)"

text \<open>\<open>update_issue_status\<close>, what an analyst does.\<close>

definition update_issue_status :: "str \<Rightarrow> issue_status \<Rightarrow> issue_db \<Rightarrow> issue_db" where
  "update_issue_status i status db = update_issue i (\<lambda>row. row\<lparr>iss_status := status\<rparr>) db"

section \<open>Merging\<close>

definition combine :: "('a \<Rightarrow> 'a \<Rightarrow> 'a) \<Rightarrow> 'a option \<Rightarrow> 'a option \<Rightarrow> 'a option" where
  "combine pick a b = (case (a, b) of (Some x, Some y) \<Rightarrow> Some (pick x y) | (Some x, None) \<Rightarrow> Some x | (None, _) \<Rightarrow> b)"

definition or_zero :: "nat option \<Rightarrow> nat" where
  "or_zero n = (case n of None \<Rightarrow> 0 | Some k \<Rightarrow> k)"

definition merge_rollup :: "issue_row option \<Rightarrow> pair_aggregate \<Rightarrow> nat \<times> nat \<times> nat \<Rightarrow> rollup" where
  "merge_rollup base agg added =
     (let samples = set (case Option.bind base iss_samples of None \<Rightarrow> [] | Some xs \<Rightarrow> xs) \<union> set (agg_samples agg)
      in \<lparr>ru_session_count = or_zero (map_option iss_session_count base) + fst added,
          ru_persona_count = or_zero (map_option iss_persona_count base) + fst (snd added),
          ru_source_ip_count = or_zero (Option.bind base iss_source_ip_count) + snd (snd added),
          ru_first_seen = combine min (Option.bind base iss_first_seen) (Some (agg_first_seen agg)),
          ru_last_seen = combine max (Option.bind base iss_last_seen) (Some (agg_last_seen agg)),
          ru_max_risk_rank = combine max (Option.bind base iss_max_risk_rank) (Some (agg_max_risk_rank agg)),
          ru_samples = take SAMPLE_EVIDENCE_LIMIT (sorted_list_of_set samples)\<rparr>)"

type_synonym synced = "(str \<times> issue_record) list"

definition new_totals ::
  "str list \<Rightarrow> (str \<times> issue_row) list \<Rightarrow> added \<Rightarrow> pair_aggregate \<Rightarrow> str \<Rightarrow> rollup" where
  "new_totals fresh_ids states added agg i =
     merge_rollup (if i \<in> set fresh_ids then None else dict_get states i) agg (added i)"

text \<open>The loop of \<open>_merge_runs\<close> that writes the issues, given the issues as they were before.\<close>

fun write_merged ::
  "sync_env \<Rightarrow> ((str \<times> str) \<times> str) list \<Rightarrow> str list \<Rightarrow> (str \<times> issue_row) list \<Rightarrow> added \<Rightarrow> pair_aggregate list
     \<Rightarrow> synced \<Rightarrow> issue_db \<Rightarrow> (synced \<times> issue_db) outcome" where
  "write_merged e pairs fresh_ids states added [] synced db = Done (synced, db)"
| "write_merged e pairs fresh_ids states added (agg # aggs) synced db =
     (case dict_get pairs (agg_actor agg, agg_tag agg) of
        None \<Rightarrow> write_merged e pairs fresh_ids states added aggs synced db
      | Some i \<Rightarrow>
          (case build_issue e agg (new_totals fresh_ids states added agg i) of
             Raised x \<Rightarrow> Raised x
           | Done issue \<Rightarrow>
               (case write_rollup_issue issue (new_totals fresh_ids states added agg i) db of
                  (written, db') \<Rightarrow> write_merged e pairs fresh_ids states added aggs (dict_put i written synced) db')))"

definition source_in :: "issue_db \<Rightarrow> str \<Rightarrow> rollup_source option" where
  "source_in db i = (case dict_get (idb_issues db) i of None \<Rightarrow> None | Some row \<Rightarrow> iss_source row)"

definition pairs_to_merge :: "sync_env \<Rightarrow> bool \<Rightarrow> pair_aggregate list \<Rightarrow> issue_db \<Rightarrow> ((str \<times> str) \<times> str) list" where
  "pairs_to_merge e rebuild aggs db =
     filter (\<lambda>(pair, i). rebuild \<or> source_in db i \<noteq> Some By_Repeat_Connections)
       (map (\<lambda>agg. ((agg_actor agg, agg_tag agg), issue_id_for_pair e (agg_actor agg) (agg_tag agg))) aggs)"

definition fresh_ids :: "bool \<Rightarrow> ((str \<times> str) \<times> str) list \<Rightarrow> issue_db \<Rightarrow> str list" where
  "fresh_ids rebuild pairs db = filter (\<lambda>i. rebuild \<or> source_in db i \<noteq> Some By_Classifier) (map snd pairs)"

definition merge_runs ::
  "sync_env \<Rightarrow> bool \<Rightarrow> sync_run list \<Rightarrow> synced \<Rightarrow> issue_db \<Rightarrow> (synced \<times> issue_db) outcome" where
  "merge_runs e rebuild rows synced db =
     (let aggs = pair_aggregates (idb_base db) rows; pairs = pairs_to_merge e rebuild aggs db
      in if pairs = [] then Done (synced, db)
         else let fresh = fresh_ids rebuild pairs db
              in case merge_pairs pairs fresh rows db of
                   (added, db1) \<Rightarrow> write_merged e pairs fresh (idb_issues db) added aggs synced db1)"

section \<open>A pass\<close>

text \<open>The body of each transaction. The rebuild clears the queue before it reads the runs.\<close>

definition rebuild_all :: "sync_env \<Rightarrow> synced \<Rightarrow> issue_db \<Rightarrow> (synced \<times> issue_db) outcome" where
  "rebuild_all e synced db =
     (case merge_runs e True (fill_sync_runs Every_Run (idb_base db)) synced db of
        Raised x \<Rightarrow> Raised x
      | Done (synced', db') \<Rightarrow> Done (synced', mark_rebuilt db'))"

definition first_step :: "sync_env \<Rightarrow> bool \<Rightarrow> issue_db \<Rightarrow> (synced \<times> issue_db) outcome" where
  "first_step e full db = (if full \<or> \<not> idb_rebuilt db then rebuild_all e [] (clear_queue db) else Done ([], db))"

definition merge_batch :: "sync_env \<Rightarrow> str list \<Rightarrow> synced \<Rightarrow> issue_db \<Rightarrow> (synced \<times> issue_db) outcome" where
  "merge_batch e ids synced db =
     (case merge_runs e False (fill_sync_runs (Batch_Runs ids) (idb_base db)) synced db of
        Raised x \<Rightarrow> Raised x
      | Done (synced', db') \<Rightarrow> Done (synced', dequeue ids db'))"

definition batch_step :: "sync_env \<Rightarrow> nat \<Rightarrow> synced \<Rightarrow> issue_db \<Rightarrow> (synced option \<times> issue_db) outcome" where
  "batch_step e batch_size synced db =
     (let ids = next_queued_run_ids batch_size db
      in if ids = [] then Done (None, db)
         else case merge_batch e ids synced db of
           Raised x \<Rightarrow> Raised x
         | Done (synced', db') \<Rightarrow> Done (Some synced', db'))"

definition sync_repeat_connection_issue :: "sync_env \<Rightarrow> synced \<Rightarrow> issue_db \<Rightarrow> (synced \<times> issue_db) outcome" where
  "sync_repeat_connection_issue e synced db =
     (let i = issue_id_for_pair e REPEAT_CONNECTION_ACTOR_LABEL REPEAT_CONNECTION_MITRE_TAG
      in case aggregate_repeat_connections (sy_window_seconds e) (sy_min_sessions e) (idb_base db) of
           Some a \<Rightarrow>
             (case write_repeat_connection_issue (build_repeat_connection_issue e a) db of
                (written, db') \<Rightarrow> Done (dict_put i written synced, db'))
         | None \<Rightarrow>
             if source_in db i \<noteq> Some By_Repeat_Connections then Done (synced, db)
             else merge_runs e True
               (fill_sync_runs (Pair_Runs REPEAT_CONNECTION_ACTOR_LABEL REPEAT_CONNECTION_MITRE_TAG) (idb_base db)) synced db)"

text \<open>\<open>issue_sync_transaction\<close> with \<open>_require_lock\<close>: what a body that raised has written is rolled back.\<close>

definition issue_sync_transaction ::
  "(issue_db \<Rightarrow> ('a \<times> issue_db) outcome) \<Rightarrow> issue_db \<Rightarrow> (sync_error + 'a) \<times> issue_db" where
  "issue_sync_transaction body db =
     (let turn = (case idb_turns db of [] \<Rightarrow> Granted | t # ts \<Rightarrow> t); db0 = db\<lparr>idb_turns := drop 1 (idb_turns db)\<rparr>
      in case turn of
           Lock_Held \<Rightarrow> (Inl Sync_In_Progress, db0)
         | Granted \<Rightarrow>
             (case body db0 of Raised x \<Rightarrow> (Inl (Sync_Raised x), db0) | Done (a, db') \<Rightarrow> (Inr a, db'))
         | Lost committed x \<Rightarrow>
             (Inl (Sync_Database x),
              if committed then (case body db0 of Raised y \<Rightarrow> db0 | Done (a, db') \<Rightarrow> db') else db0))"


lemma queued_simps [simp]: "queued (set_queue ids db) = ids" "idb_issues (set_queue ids db) = idb_issues db"
  "idb_sessions (set_queue ids db) = idb_sessions db" "idb_personas (set_queue ids db) = idb_personas db"
  "idb_source_ips (set_queue ids db) = idb_source_ips db" "idb_turns (set_queue ids db) = idb_turns db"
  "idb_rebuilt (set_queue ids db) = idb_rebuilt db"
  by (simp_all add: set_queue_def queued_def)

text \<open>What writing the issues leaves alone.\<close>

definition same_frame :: "issue_db \<Rightarrow> issue_db \<Rightarrow> bool" where
  "same_frame db db' \<longleftrightarrow> idb_base db' = idb_base db \<and> idb_rebuilt db' = idb_rebuilt db \<and> idb_turns db' = idb_turns db"

lemma same_frame_refl [simp]: "same_frame db db" by (simp add: same_frame_def)

lemma same_frame_trans: "same_frame a b \<Longrightarrow> same_frame b c \<Longrightarrow> same_frame a c"
  by (simp add: same_frame_def)

lemma frame_of_writes:
  "same_frame db (update_issue i f db)" "same_frame db (replace_mitre_techniques issue db)"
  "same_frame db (insert_placeholders pairs db)" "same_frame db (delete_bridges ids db)"
  "same_frame db (upsert_issue issue db)" "same_frame db (replace_sessions issue db)"
  by (simp_all add: same_frame_def update_issue_def replace_mitre_techniques_def insert_placeholders_def
      delete_bridges_def upsert_issue_def replace_sessions_def Let_def split: option.splits)

lemma write_rollup_frame: "write_rollup_issue issue r db = (w, db') \<Longrightarrow> same_frame db db'"
  by (auto simp: write_rollup_issue_def Let_def intro!: same_frame_trans [OF _ frame_of_writes(2)] frame_of_writes(1))

lemma merge_pairs_frame: "merge_pairs pairs ids rows db = (a, db') \<Longrightarrow> same_frame db db'"
  using frame_of_writes(3) [of db pairs] frame_of_writes(4) [of "insert_placeholders pairs db" ids]
  by (auto simp: merge_pairs_def Let_def same_frame_def split: if_splits)

lemma write_repeat_frame: "write_repeat_connection_issue issue db = (w, db') \<Longrightarrow> same_frame db db'"
  by (auto simp: write_repeat_connection_issue_def Let_def
      intro!: same_frame_trans [OF _ frame_of_writes(1)] same_frame_trans [OF _ frame_of_writes(6)]
        same_frame_trans [OF _ frame_of_writes(2)] frame_of_writes(5))

lemma write_merged_frame:
  "write_merged e pairs fresh states added aggs synced db = Done (synced', db') \<Longrightarrow> same_frame db db'"
proof (induction aggs arbitrary: synced db)
  case (Cons agg aggs)
  show ?case
  proof (cases "dict_get pairs (agg_actor agg, agg_tag agg)")
    case (Some i)
    with Cons.prems obtain issue r w db1 where "write_rollup_issue issue r db = (w, db1)"
        "write_merged e pairs fresh states added aggs (dict_put i w synced) db1 = Done (synced', db')"
      by (auto split: outcome.splits prod.splits)
    with Cons.IH write_rollup_frame same_frame_trans show ?thesis by blast
  qed (use Cons in simp)
qed simp

lemma merge_runs_frame: "merge_runs e rebuild rows synced db = Done (synced', db') \<Longrightarrow> same_frame db db'"
  by (auto simp: merge_runs_def Let_def dest!: write_merged_frame merge_pairs_frame intro: same_frame_trans
      split: if_splits prod.splits)

lemma merge_runs_base: "merge_runs e rebuild rows synced db = Done (synced', db') \<Longrightarrow> idb_base db' = idb_base db"
  by (auto simp: same_frame_def dest: merge_runs_frame)

lemma merge_batch_base:
  "merge_batch e ids synced db = Done (synced', db') \<Longrightarrow>
     idb_base db' = (idb_base db)\<lparr>db_sync_queue := filter (\<lambda>i. i \<notin> set ids) (queued db)\<rparr>"
  by (auto simp: merge_batch_def dequeue_def set_queue_def queued_def dest: merge_runs_base split: outcome.splits)

lemma batch_step_shrinks:
  assumes "batch_step e n synced db = Done (Some synced', db')"
  shows "length (queued db') < length (queued db)"
proof -
  from assms have ne: "take n (queued db) \<noteq> []"
    by (simp add: batch_step_def next_queued_run_ids_def split: if_split_asm)
  with assms have step: "merge_batch e (take n (queued db)) synced db = Done (synced', db')"
    by (simp add: batch_step_def next_queued_run_ids_def split: outcome.split_asm prod.split_asm)
  from ne obtain i where i: "i \<in> set (take n (queued db))" by (metis list.set_sel(1))
  have "queued db' = filter (\<lambda>i. i \<notin> set (take n (queued db))) (queued db)"
    using merge_batch_base [OF step] by (simp add: queued_def)
  with i length_filter_less [of i "queued db" "\<lambda>i. i \<notin> set (take n (queued db))"] show ?thesis
    by (auto dest: in_set_takeD)
qed

lemma sync_transaction_turns: "idb_base (db\<lparr>idb_turns := ts\<rparr>) = idb_base db"
  by simp

function merge_queue :: "sync_env \<Rightarrow> nat \<Rightarrow> synced \<Rightarrow> issue_db \<Rightarrow> (sync_error + synced) \<times> issue_db" where
  "merge_queue e batch_size synced db =
     (case issue_sync_transaction (batch_step e batch_size synced) db of
        (Inl x, db') \<Rightarrow> (Inl x, db')
      | (Inr None, db') \<Rightarrow> (Inr synced, db')
      | (Inr (Some synced'), db') \<Rightarrow> merge_queue e batch_size synced' db')"
  by pat_completeness auto
termination
proof (relation "measure (\<lambda>(e, n, synced, db). length (queued db))")
  fix e n synced db r db' r' synced'
  assume "(r, db') = issue_sync_transaction (batch_step e n synced) db" "r = Inr r'" "r' = Some synced'"
  then have "batch_step e n synced (db\<lparr>idb_turns := drop 1 (idb_turns db)\<rparr>) = Done (Some synced', db')"
    by (auto simp: issue_sync_transaction_def Let_def split: list.splits sync_turn.splits outcome.splits if_splits prod.splits)
  from batch_step_shrinks [OF this]
  show "((e, n, synced', db'), e, n, synced, db) \<in> measure (\<lambda>(e, n, synced, db). length (queued db))"
    by (simp add: queued_def)
qed simp

definition sync_issues_from_classifier_runs ::
  "sync_env \<Rightarrow> bool \<Rightarrow> nat \<Rightarrow> issue_db \<Rightarrow> (sync_error + issue_record list) \<times> issue_db" where
  "sync_issues_from_classifier_runs e full batch_size db =
     (case issue_sync_transaction (first_step e full) db of
        (Inl x, db1) \<Rightarrow> (Inl x, db1)
      | (Inr synced, db1) \<Rightarrow>
          (case merge_queue e batch_size synced db1 of
             (Inl x, db2) \<Rightarrow> (Inl x, db2)
           | (Inr synced2, db2) \<Rightarrow>
               (case issue_sync_transaction (sync_repeat_connection_issue e synced2) db2 of
                  (Inl x, db3) \<Rightarrow> (Inl x, db3)
                | (Inr synced3, db3) \<Rightarrow> (Inr (map snd synced3), db3))))"

definition ISSUE_SYNC_BATCH_SIZE :: nat where
  "ISSUE_SYNC_BATCH_SIZE = 1000"

section \<open>One pass at a time\<close>

text \<open>\<open>maybe_sync_issues_from_classifier_runs\<close>: given the clock and whether a thread could be
  started, whether it started one. \<open>sync_finished\<close> is the end of the thread, whatever the pass did.\<close>

record sync_gate =
  last_issue_sync :: "rat option"
  issue_sync_running :: bool

definition ISSUE_SYNC_MIN_INTERVAL_SECONDS :: rat where
  "ISSUE_SYNC_MIN_INTERVAL_SECONDS = 30"

definition maybe_sync_issues :: "rat \<Rightarrow> bool \<Rightarrow> rat \<Rightarrow> sync_gate \<Rightarrow> bool \<times> sync_gate" where
  "maybe_sync_issues min_interval thread_starts now gate =
     (if issue_sync_running gate then (False, gate)
      else let due = (case last_issue_sync gate of None \<Rightarrow> True | Some t \<Rightarrow> min_interval \<le> now - t)
           in if \<not> due then (False, gate)
              else (thread_starts, \<lparr>last_issue_sync = Some now, issue_sync_running = thread_starts\<rparr>))"

definition sync_finished :: "sync_gate \<Rightarrow> sync_gate" where
  "sync_finished gate = gate\<lparr>issue_sync_running := False\<rparr>"

end
