(* ===== verification/IssueMerge.thy ===== *)
theory IssueMerge
  imports IssueSync
begin

text \<open>
  What merging does to one issue: its stored totals stay those of the set of runs merged into it.
  The specification is \<open>totals_of\<close>, a function of that set; the code keeps counts, bounds and a
  handful of samples and never reads old runs again.
\<close>

section \<open>The first few of a set\<close>

definition least :: "nat \<Rightarrow> 'a::linorder set \<Rightarrow> 'a list" where
  "least k S = take k (sorted_list_of_set S)"

lemma mem_take_sorted:
  fixes xs :: "'a::linorder list"
  shows "sorted xs \<Longrightarrow> distinct xs \<Longrightarrow> x \<in> set (take k xs) \<longleftrightarrow> x \<in> set xs \<and> card {y \<in> set xs. y < x} < k"
proof (induction xs arbitrary: k)
  case (Cons a xs)
  have above: "a < y" if "y \<in> set xs" for y using Cons.prems that by (auto simp: order.strict_iff_order)
  show ?case
  proof (cases k)
    case (Suc j)
    have rank_a: "{y \<in> set (a # xs). y < a} = {}" using above by (auto dest: less_asym)
    have rank_x: "card {y \<in> set (a # xs). y < x} = Suc (card {y \<in> set xs. y < x})" if "x \<in> set xs"
    proof -
      have "{y \<in> set (a # xs). y < x} = insert a {y \<in> set xs. y < x}" using above [OF that] by auto
      moreover have "a \<notin> {y \<in> set xs. y < x}" using Cons.prems by simp
      ultimately show ?thesis by simp
    qed
    show ?thesis
    proof (cases "x \<in> set xs")
      case True
      then have "x \<noteq> a" using above by auto
      with True rank_x [OF True] Cons.IH [of j] Cons.prems Suc show ?thesis by (simp del: set_simps) auto
    next
      case False
      then have l: "x \<in> set (take k (a # xs)) \<longleftrightarrow> x = a" using Suc by (auto dest: in_set_takeD)
      have "card {y \<in> set (a # xs). y < a} < k" using Suc by (simp only: rank_a card.empty)
      with l False show ?thesis by (metis list.set_intros(1) set_ConsD)
    qed
  qed simp
qed simp

lemma mem_least: "finite S \<Longrightarrow> x \<in> set (least k S) \<longleftrightarrow> x \<in> S \<and> card {y \<in> S. y < x} < k"
  using mem_take_sorted [of "sorted_list_of_set S" x k] by (simp add: least_def)

lemma least_by_set: "finite S \<Longrightarrow> least k S = sorted_list_of_set (set (least k S))"
  by (simp add: least_def sorted_list_of_set_sort_remdups sorted_wrt_take distinct_remdups_id sort_key_id_if_sorted
      flip: sorted_sort_id)

lemma rank_mono: "finite T \<Longrightarrow> S \<subseteq> T \<Longrightarrow> card {y \<in> S. y < (x::'a::linorder)} \<le> card {y \<in> T. y < x}"
  by (rule card_mono) auto

text \<open>The least of two sets' least are the least of the union: what the code keeps is enough.\<close>

lemma least_union:
  fixes S T :: "'a::linorder set"
  assumes "finite S" "finite T"
  shows "least k (set (least k S) \<union> set (least k T)) = least k (S \<union> T)"
proof -
  let ?U = "set (least k S) \<union> set (least k T)" and ?V = "S \<union> T"
  have sub: "?U \<subseteq> ?V" using assms by (auto simp: mem_least)
  have low: "x \<in> ?U" if "x \<in> ?V" "card {y \<in> ?V. y < x} < k" for x
  proof -
    have "card {y \<in> S. y < x} < k" "card {y \<in> T. y < x} < k"
      using that(2) rank_mono [of ?V S x] rank_mono [of ?V T x] assms by auto
    then show ?thesis using that(1) assms by (auto simp: mem_least)
  qed
  have "x \<in> set (least k ?U) \<longleftrightarrow> x \<in> set (least k ?V)" for x
  proof
    assume "x \<in> set (least k ?V)"
    then show "x \<in> set (least k ?U)"
      using low [of x] rank_mono [of ?V ?U x] sub assms by (auto simp: mem_least)
  next
    assume a: "x \<in> set (least k ?U)"
    show "x \<in> set (least k ?V)"
    proof (rule ccontr)
      assume n: "x \<notin> set (least k ?V)"
      have fin: "finite ?V" using assms by simp
      from a sub have x: "x \<in> ?V" by (auto simp: mem_least)
      with n fin have many: "k \<le> card {y \<in> ?V. y < x}" by (auto simp: mem_least not_less)
      have below: "y < x" if "y \<in> set (least k ?V)" for y
      proof (rule ccontr)
        assume "\<not> y < x"
        then have "{z \<in> ?V. z < x} \<subseteq> {z \<in> ?V. z < y}" by auto
        then have "card {z \<in> ?V. z < x} \<le> card {z \<in> ?V. z < y}" using fin by (intro card_mono) auto
        with many that fin show False by (simp add: mem_least)
      qed
      have "set (least k ?V) \<subseteq> {y \<in> ?U. y < x}"
      proof (intro subsetI CollectI conjI)
        fix y assume "y \<in> set (least k ?V)"
        then show "y < x" "y \<in> ?U" using below [of y] low [of y] by (simp_all only: mem_least [OF fin])
      qed
      then have "card (set (least k ?V)) \<le> card {y \<in> ?U. y < x}" by (intro card_mono) auto
      moreover have "card {y \<in> ?V. y < x} \<le> card ?V" using fin by (intro card_mono) auto
      with many have "card (set (least k ?V)) = k"
        using fin by (simp add: least_def distinct_card)
      ultimately show False using a by (simp add: mem_least)
    qed
  qed
  then show ?thesis using least_by_set [of ?U k] least_by_set [of ?V k] assms by (metis finite_Un List.finite_set subset_antisym subsetI)
qed


section \<open>The totals of a set of runs\<close>

definition mine :: "str \<times> str \<Rightarrow> sync_run list \<Rightarrow> sync_run set" where
  "mine p rows = {r \<in> set rows. pair_of r = p}"

definition ips_of :: "sync_run set \<Rightarrow> str set" where
  "ips_of S = (\<Union>r \<in> S. set (opt_texts (sr_peer_ip r)))"

definition evidence_set :: "database \<Rightarrow> sync_run set \<Rightarrow> str set" where
  "evidence_set db S = (\<Union>r \<in> S. set (signals_of (lit ''evidence'') (sr_run_id r) db))"

definition totals_of :: "database \<Rightarrow> sync_run set \<Rightarrow> rollup" where
  "totals_of db S =
     \<lparr>ru_session_count = card (sr_session_id ` S), ru_persona_count = card (sr_persona ` S),
      ru_source_ip_count = card (ips_of S),
      ru_first_seen = Some (Min (sr_started_at ` S)), ru_last_seen = Some (Max (sr_started_at ` S)),
      ru_max_risk_rank = Some (Max (sr_risk_rank ` S)), ru_samples = least SAMPLE_EVIDENCE_LIMIT (evidence_set db S)\<rparr>"

definition row_shows :: "issue_row \<Rightarrow> rollup \<Rightarrow> bool" where
  "row_shows row r \<longleftrightarrow>
     iss_session_count row = ru_session_count r \<and> iss_persona_count row = ru_persona_count r \<and>
     iss_source_ip_count row = Some (ru_source_ip_count r) \<and> iss_first_seen row = ru_first_seen r \<and>
     iss_last_seen row = ru_last_seen r \<and> iss_max_risk_rank row = ru_max_risk_rank r \<and> iss_samples row = Some (ru_samples r)"

lemma finite_mine [simp]: "finite (mine p rows)" by (simp add: mine_def)

lemma finite_ips [simp]: "finite S \<Longrightarrow> finite (ips_of S)" by (simp add: ips_of_def)

lemma finite_evidence [simp]: "finite S \<Longrightarrow> finite (evidence_set db S)" by (simp add: evidence_set_def)

lemma ips_empty [simp]: "ips_of {} = {}" by (simp add: ips_of_def)

lemma ips_Un [simp]: "ips_of (S \<union> T) = ips_of S \<union> ips_of T" by (simp add: ips_of_def)

lemma evidence_Un [simp]: "evidence_set db (S \<union> T) = evidence_set db S \<union> evidence_set db T"
  by (simp add: evidence_set_def)

lemma aggregate_of_mine:
  "pair_aggregate_of db rows p = \<lparr>agg_actor = fst p, agg_tag = snd p,
     agg_max_risk_rank = Max (sr_risk_rank ` mine p rows), agg_first_seen = Min (sr_started_at ` mine p rows),
     agg_last_seen = Max (sr_started_at ` mine p rows),
     agg_samples = least SAMPLE_EVIDENCE_LIMIT (evidence_set db (mine p rows))\<rparr>"
proof -
  have m: "set (filter (\<lambda>r. pair_of r = p) rows) = mine p rows" by (auto simp: mine_def)
  have "set (evidence_texts db (filter (\<lambda>r. pair_of r = p) rows)) = evidence_set db (mine p rows)"
    by (simp only: evidence_texts_def evidence_set_def set_concat set_map m image_image)
  then have s: "sort (remdups (evidence_texts db (filter (\<lambda>r. pair_of r = p) rows))) = sorted_list_of_set (evidence_set db (mine p rows))"
    by (simp flip: sorted_list_of_set_sort_remdups)
  show ?thesis unfolding pair_aggregate_of_def Let_def least_def s set_map m ..
qed

lemma card_more: "finite A \<Longrightarrow> finite B \<Longrightarrow> card A + card (B - A) = card (A \<union> B)"
  by (metis Un_Diff_cancel card_Un_disjoint Diff_disjoint finite_Diff)

lemma merge_rollup_fresh:
  assumes "mine p rows \<noteq> {}"
  shows "merge_rollup None (pair_aggregate_of db rows p)
     (card (sr_session_id ` mine p rows), card (sr_persona ` mine p rows), card (ips_of (mine p rows)))
       = totals_of db (mine p rows)"
proof -
  have "take SAMPLE_EVIDENCE_LIMIT (sorted_list_of_set (set (least SAMPLE_EVIDENCE_LIMIT E))) = least SAMPLE_EVIDENCE_LIMIT E"
    if "finite E" for E :: "str set"
    using least_union [of "{}" E SAMPLE_EVIDENCE_LIMIT] that by (simp add: least_def)
  then show ?thesis
    by (simp add: merge_rollup_def totals_of_def aggregate_of_mine combine_def or_zero_def Let_def)
qed

lemma merge_rollup_more:
  assumes "row_shows row (totals_of db S)" "S \<noteq> {}" "finite S" "W = mine p rows" "W \<noteq> {}"
  shows "merge_rollup (Some row) (pair_aggregate_of db rows p)
     (card (sr_session_id ` W - sr_session_id ` S), card (sr_persona ` W - sr_persona ` S), card (ips_of W - ips_of S))
       = totals_of db (S \<union> W)"
proof -
  have fin: "finite W" using assms(4) by simp
  have samples: "take SAMPLE_EVIDENCE_LIMIT (sorted_list_of_set
       (set (least SAMPLE_EVIDENCE_LIMIT (evidence_set db S)) \<union> set (least SAMPLE_EVIDENCE_LIMIT (evidence_set db W))))
     = least SAMPLE_EVIDENCE_LIMIT (evidence_set db S \<union> evidence_set db W)"
    using least_union [of "evidence_set db S" "evidence_set db W"] assms(3) fin by (simp add: least_def)
  show ?thesis
    using assms(1,2,3,5) fin samples unfolding aggregate_of_mine assms(4) [symmetric]
    by (simp add: merge_rollup_def row_shows_def totals_of_def combine_def or_zero_def card_more
        image_Un Min_Un Max_Un)
qed

section \<open>The bridge tables\<close>

definition linked :: "str \<Rightarrow> (str \<times> str) list \<Rightarrow> str set" where
  "linked i rows = {x. (i, x) \<in> set rows}"

definition ids_distinct :: "((str \<times> str) \<times> str) list \<Rightarrow> bool" where
  "ids_distinct pairs \<longleftrightarrow> (\<forall>p q i. dict_get pairs p = Some i \<longrightarrow> dict_get pairs q = Some i \<longrightarrow> p = q)"

lemma linked_simps [simp]: "linked i (xs @ ys) = linked i xs \<union> linked i ys" "linked i [] = {}"
  "linked i (filter (\<lambda>row. fst row \<notin> A) rows) = (if i \<in> A then {} else linked i rows)"
  "linked i (new_rows wanted stored) = linked i wanted - linked i stored"
  by (auto simp: linked_def new_rows_def)

lemma finite_linked [simp]: "finite (linked i rows)"
proof -
  have "linked i rows \<subseteq> snd ` set rows" by (force simp: linked_def)
  then show ?thesis by (rule finite_subset) simp
qed

lemma linked_bridge_iff:
  "x \<in> linked i (bridge_rows pairs f rows) \<longleftrightarrow> (\<exists>r \<in> set rows. dict_get pairs (pair_of r) = Some i \<and> x \<in> set (f r))"
proof -
  have "(i, x) \<in> set (case dict_get pairs (pair_of r) of None \<Rightarrow> [] | Some j \<Rightarrow> map (Pair j) (f r)) \<longleftrightarrow>
      dict_get pairs (pair_of r) = Some i \<and> x \<in> set (f r)" for r
    by (auto split: option.splits)
  then show ?thesis by (simp add: linked_def bridge_rows_def)
qed

lemma linked_bridge:
  assumes "ids_distinct pairs" "dict_get pairs p = Some i"
  shows "linked i (bridge_rows pairs f rows) = (\<Union>r \<in> mine p rows. set (f r))"
proof -
  have "dict_get pairs (pair_of r) = Some i \<longleftrightarrow> pair_of r = p" for r
    using assms unfolding ids_distinct_def by metis
  then show ?thesis by (auto simp: linked_bridge_iff mine_def)
qed

lemma linked_bridge_other:
  assumes "i \<notin> snd ` set pairs" shows "linked i (bridge_rows pairs f rows) = {}"
proof -
  have "dict_get pairs (pair_of r) \<noteq> Some i" for r using assms by (force simp: dict_get_def dest: map_of_SomeD)
  then show ?thesis by (auto simp: linked_bridge_iff)
qed

lemma added_card:
  assumes "distinct wanted" shows "added_to i (new_rows wanted stored) = card (linked i wanted - linked i stored)"
proof -
  let ?mine = "filter (\<lambda>row. fst row = i) (new_rows wanted stored)"
  have "set ?mine = Pair i ` (linked i wanted - linked i stored)"
    by (auto simp: linked_def new_rows_def)
  then have "card (set ?mine) = card (linked i wanted - linked i stored)" by (simp add: card_image inj_on_def)
  moreover have "distinct ?mine" using assms by (simp add: new_rows_def)
  ultimately show ?thesis using distinct_card [of ?mine] by (simp add: added_to_def)
qed

lemma distinct_bridge [simp]: "distinct (bridge_rows pairs f rows)"
  by (simp add: bridge_rows_def)

text \<open>The issue rows, with placeholders for the pairs that had none.\<close>

lemma fold_placeholders:
  "dict_get (fold (\<lambda>(pair, i) issues. if dict_has issues i then issues else dict_put i (new pair) issues) pairs issues) j =
     (case dict_get issues j of Some row \<Rightarrow> Some row | None \<Rightarrow> map_option new (map_of (map (\<lambda>(p, i). (i, p)) pairs) j))"
proof (induction pairs arbitrary: issues)
  case (Cons pi pairs)
  obtain p i where pi: "pi = (p, i)" by (cases pi)
  show ?case
  proof (cases "dict_has issues i")
    case True
    then show ?thesis using Cons.IH [of issues] by (auto simp: pi dict_has_def split: option.splits)
  next
    case False
    then show ?thesis using Cons.IH [of "dict_put i (new p) issues"] by (auto simp: pi dict_has_def split: option.splits)
  qed
qed (simp split: option.splits)

lemma placeholders_get:
  "dict_get (idb_issues (insert_placeholders pairs db)) j =
     (case dict_get (idb_issues db) j of Some row \<Rightarrow> Some row
      | None \<Rightarrow> map_option (\<lambda>p. placeholder (fst p) (db_now (idb_base db))) (map_of (map (\<lambda>(p, i). (i, p)) pairs) j))"
  by (simp add: insert_placeholders_def fold_placeholders)

lemma placeholders_bridges [simp]:
  "idb_sessions (insert_placeholders pairs db) = idb_sessions db"
  "idb_personas (insert_placeholders pairs db) = idb_personas db"
  "idb_source_ips (insert_placeholders pairs db) = idb_source_ips db"
  "idb_rebuilt (insert_placeholders pairs db) = idb_rebuilt db" "idb_turns (insert_placeholders pairs db) = idb_turns db"
  by (simp_all add: insert_placeholders_def)

definition kept_links :: "str list \<Rightarrow> str \<Rightarrow> (str \<times> str) list \<Rightarrow> str set" where
  "kept_links reset_ids i rows = (if i \<in> set reset_ids then {} else linked i rows)"

lemma merge_pairs_links:
  assumes "merge_pairs pairs reset_ids rows db = (added, db1)" "ids_distinct pairs" "dict_get pairs p = Some i"
  shows "linked i (idb_sessions db1) = kept_links reset_ids i (idb_sessions db) \<union> sr_session_id ` mine p rows"
    "linked i (idb_personas db1) = kept_links reset_ids i (idb_personas db) \<union> sr_persona ` mine p rows"
    "linked i (idb_source_ips db1) = kept_links reset_ids i (idb_source_ips db) \<union> ips_of (mine p rows)"
    "added i = (card (sr_session_id ` mine p rows - kept_links reset_ids i (idb_sessions db)),
        card (sr_persona ` mine p rows - kept_links reset_ids i (idb_personas db)),
        card (ips_of (mine p rows) - kept_links reset_ids i (idb_source_ips db)))"
    "idb_issues db1 = idb_issues (insert_placeholders pairs db)"
proof -
  have one: "(\<Union>r \<in> S. set [f r]) = f ` S" for f :: "sync_run \<Rightarrow> str" and S by auto
  note bridge = linked_bridge [OF assms(2,3), of "\<lambda>r. [sr_session_id r]", unfolded one]
    linked_bridge [OF assms(2,3), of "\<lambda>r. [sr_persona r]", unfolded one]
    linked_bridge [OF assms(2,3), of "\<lambda>r. opt_texts (sr_peer_ip r)", folded ips_of_def]
  let ?db2 = "if reset_ids = [] then insert_placeholders pairs db else delete_bridges reset_ids (insert_placeholders pairs db)"
  have kept: "linked i (idb_sessions ?db2) = kept_links reset_ids i (idb_sessions db)"
    "linked i (idb_personas ?db2) = kept_links reset_ids i (idb_personas db)"
    "linked i (idb_source_ips ?db2) = kept_links reset_ids i (idb_source_ips db)"
    "idb_issues ?db2 = idb_issues (insert_placeholders pairs db)"
    by (simp_all add: kept_links_def delete_bridges_def Let_def)
  show "linked i (idb_sessions db1) = kept_links reset_ids i (idb_sessions db) \<union> sr_session_id ` mine p rows"
    "linked i (idb_personas db1) = kept_links reset_ids i (idb_personas db) \<union> sr_persona ` mine p rows"
    "linked i (idb_source_ips db1) = kept_links reset_ids i (idb_source_ips db) \<union> ips_of (mine p rows)"
    "added i = (card (sr_session_id ` mine p rows - kept_links reset_ids i (idb_sessions db)),
        card (sr_persona ` mine p rows - kept_links reset_ids i (idb_personas db)),
        card (ips_of (mine p rows) - kept_links reset_ids i (idb_source_ips db)))"
    "idb_issues db1 = idb_issues (insert_placeholders pairs db)"
    using assms(1) [unfolded merge_pairs_def Let_def] kept(4)
    by (auto simp: bridge kept(1-3) added_card)
qed

lemma merge_pairs_others:
  assumes "merge_pairs pairs reset_ids rows db = (added, db1)" "set reset_ids \<subseteq> snd ` set pairs" "j \<notin> snd ` set pairs"
  shows "linked j (idb_sessions db1) = linked j (idb_sessions db)" "linked j (idb_personas db1) = linked j (idb_personas db)"
    "linked j (idb_source_ips db1) = linked j (idb_source_ips db)"
    "dict_get (idb_issues db1) j = dict_get (idb_issues db) j"
proof -
  have "map_of (map (\<lambda>(p, i). (i, p)) pairs) j = None"
    using assms(3) by (force simp: map_of_eq_None_iff image_iff)
  moreover have "j \<notin> set reset_ids" using assms(2,3) by auto
  ultimately show "linked j (idb_sessions db1) = linked j (idb_sessions db)"
    "linked j (idb_personas db1) = linked j (idb_personas db)" "linked j (idb_source_ips db1) = linked j (idb_source_ips db)"
    "dict_get (idb_issues db1) j = dict_get (idb_issues db) j"
    using assms(1) by (auto simp: merge_pairs_def Let_def linked_bridge_other [OF assms(3)] delete_bridges_def
        placeholders_get split: if_splits option.splits)
qed


section \<open>Writing the issues\<close>

definition pair_id :: "sync_env \<Rightarrow> str \<times> str \<Rightarrow> str" where
  "pair_id e p = issue_id_for_pair e (fst p) (snd p)"

text \<open>The issue that a pair's totals make.\<close>

definition issue_of :: "sync_env \<Rightarrow> str \<times> str \<Rightarrow> rollup \<Rightarrow> issue_record outcome" where
  "issue_of e p r = build_issue e \<lparr>agg_actor = fst p, agg_tag = snd p, agg_max_risk_rank = 0, agg_first_seen = 0,
     agg_last_seen = 0, agg_samples = []\<rparr> r"

lemma build_issue_of: "build_issue e agg r = issue_of e (agg_actor agg, agg_tag agg) r"
  by (simp add: issue_of_def build_issue_def)

lemma issue_of_fields:
  assumes "issue_of e p r = Done issue"
  shows "isr_id issue = pair_id e p" "isr_session_count issue = ru_session_count r"
    "isr_persona_count issue = ru_persona_count r" "isr_actor_label issue = Some (fst p)"
  using assms by (auto simp: issue_of_def build_issue_def Let_def pair_id_def split: outcome.splits)

definition row_says :: "issue_row \<Rightarrow> issue_record \<Rightarrow> bool" where
  "row_says row issue \<longleftrightarrow>
     iss_title row = isr_title issue \<and> iss_severity row = isr_severity issue \<and> iss_evidence row = isr_evidence issue \<and>
     iss_recommended_fix row = isr_recommended_fix issue \<and> iss_impact row = isr_impact issue \<and>
     iss_actor_label row = isr_actor_label issue"

lemma rollup_row_shows:
  assumes "issue_of e p r = Done issue"
  shows "row_shows (rollup_row issue r row) r" "row_says (rollup_row issue r row) issue"
    "iss_source (rollup_row issue r row) = Some By_Classifier"
  using issue_of_fields [OF assms] by (simp_all add: row_shows_def row_says_def rollup_row_def)

definition same_links :: "issue_db \<Rightarrow> issue_db \<Rightarrow> bool" where
  "same_links db db' \<longleftrightarrow> idb_sessions db' = idb_sessions db \<and> idb_personas db' = idb_personas db \<and>
     idb_source_ips db' = idb_source_ips db"

lemma write_rollup_effect:
  assumes "write_rollup_issue issue r db = (w, db')"
  shows "same_links db db'"
    "dict_get (idb_issues db') j = (if j = isr_id issue then map_option (rollup_row issue r) (dict_get (idb_issues db) j)
       else dict_get (idb_issues db) j)"
  using assms by (auto simp: write_rollup_issue_def update_issue_def replace_mitre_techniques_def same_links_def Let_def
      split: option.splits)

definition pairs_named :: "sync_env \<Rightarrow> ((str \<times> str) \<times> str) list \<Rightarrow> bool" where
  "pairs_named e pairs \<longleftrightarrow> (\<forall>p i. dict_get pairs p = Some i \<longrightarrow> i = pair_id e p)"

lemma pairs_namedD: "pairs_named e pairs \<Longrightarrow> dict_get pairs p = Some i \<Longrightarrow> i = pair_id e p"
  unfolding pairs_named_def by blast

definition key_of :: "pair_aggregate \<Rightarrow> str \<times> str" where
  "key_of agg = (agg_actor agg, agg_tag agg)"

lemma write_merged_ConsE:
  assumes "write_merged e pairs fresh states added (agg # aggs) synced db = Done (synced', db')"
  obtains (skip) "dict_get pairs (key_of agg) = None"
      "write_merged e pairs fresh states added aggs synced db = Done (synced', db')"
  | (written) i issue w db1 where "dict_get pairs (key_of agg) = Some i"
      "issue_of e (key_of agg) (new_totals fresh states added agg i) = Done issue"
      "write_rollup_issue issue (new_totals fresh states added agg i) db = (w, db1)"
      "write_merged e pairs fresh states added aggs (dict_put i w synced) db1 = Done (synced', db')"
  using assms by (auto simp: key_of_def build_issue_of split: option.splits outcome.splits prod.splits)

lemma same_links_trans: "same_links a b \<Longrightarrow> same_links b c \<Longrightarrow> same_links a c"
  by (simp add: same_links_def)

lemma write_merged_links:
  "write_merged e pairs fresh states added aggs synced db = Done (synced', db') \<Longrightarrow> same_links db db'"
proof (induction aggs arbitrary: synced db)
  case (Cons agg aggs)
  from Cons.prems show ?case
    by (cases rule: write_merged_ConsE) (blast intro: Cons.IH same_links_trans write_rollup_effect(1))+
qed (simp add: same_links_def)

lemma write_merged_same:
  assumes "write_merged e pairs fresh states added aggs synced db = Done (synced', db')" "pairs_named e pairs"
    "\<And>agg. agg \<in> set aggs \<Longrightarrow> dict_get pairs (key_of agg) \<noteq> None \<Longrightarrow> pair_id e (key_of agg) \<noteq> j"
  shows "dict_get (idb_issues db') j = dict_get (idb_issues db) j"
  using assms
proof (induction aggs arbitrary: synced db)
  case (Cons agg aggs)
  from Cons.prems(1) show ?case
  proof (cases rule: write_merged_ConsE)
    case skip
    with Cons show ?thesis by simp
  next
    case (written i issue w db1)
    have "isr_id issue \<noteq> j" using issue_of_fields(1) [OF written(2)] Cons.prems(3) written(1) by fastforce
    then show ?thesis using Cons.IH [OF written(4)] Cons.prems write_rollup_effect(2) [OF written(3), of j] by simp
  qed
qed simp

lemma write_merged_row:
  assumes "write_merged e pairs fresh states added aggs synced db = Done (synced', db')"
    and "pairs_named e pairs" "ids_distinct pairs" "distinct (map key_of aggs)"
    and "agg \<in> set aggs" "dict_get pairs (key_of agg) = Some i" "dict_get (idb_issues db) i = Some row"
  shows "\<exists>issue. issue_of e (key_of agg) (new_totals fresh states added agg i) = Done issue \<and>
     dict_get (idb_issues db') i = Some (rollup_row issue (new_totals fresh states added agg i) row)"
  using assms
proof (induction aggs arbitrary: synced db)
  case (Cons a aggs)
  have other: "i' \<noteq> i" if "dict_get pairs (key_of b) = Some i'" "key_of b \<noteq> key_of agg" for b i'
    using Cons.prems(3,6) that unfolding ids_distinct_def by blast
  from Cons.prems(1) show ?case
  proof (cases rule: write_merged_ConsE)
    case skip
    with Cons show ?thesis by fastforce
  next
    case (written k issue w db1)
    note id = issue_of_fields(1) [OF written(2)] and named = pairs_namedD [OF Cons.prems(2)]
    show ?thesis
    proof (cases "key_of a = key_of agg")
      case True
      with Cons.prems(4,5) have a: "a = agg" by (auto simp: image_iff)
      with written(1) Cons.prems(6) have k: "k = i" by simp
      have "dict_get (idb_issues db') i = dict_get (idb_issues db1) i"
      proof (rule write_merged_same [OF written(4) Cons.prems(2)])
        fix b assume b: "b \<in> set aggs" "dict_get pairs (key_of b) \<noteq> None"
        then have "key_of b \<noteq> key_of agg" using Cons.prems(4) a by (auto simp: image_iff)
        with b(2) show "pair_id e (key_of b) \<noteq> i" using other named by blast
      qed
      also have "\<dots> = Some (rollup_row issue (new_totals fresh states added agg i) row)"
        using write_rollup_effect(2) [OF written(3), of i] id Cons.prems(7) named [OF Cons.prems(6)] a k by simp
      finally show ?thesis using written(2) a k by blast
    next
      case False
      then have "agg \<in> set aggs" using Cons.prems(5) by auto
      moreover have "isr_id issue \<noteq> i" using False written(1) other id named by metis
      ultimately show ?thesis
        using Cons.IH [OF written(4) Cons.prems(2,3)] Cons.prems(4,6,7) write_rollup_effect(2) [OF written(3), of i] by simp
    qed
  qed
qed simp


section \<open>Merging keeps the totals exact\<close>

text \<open>The pairs that occur: an actor is one of the labels. The ids of two of them are distinct.\<close>

definition real_pairs :: "(str \<times> str) set" where
  "real_pairs = {p. fst p \<in> range actor_name}"

definition ids_ok :: "sync_env \<Rightarrow> bool" where
  "ids_ok e \<longleftrightarrow> inj_on (pair_id e) real_pairs"

definition rows_real :: "sync_run list \<Rightarrow> bool" where
  "rows_real rows \<longleftrightarrow> pair_of ` set rows \<subseteq> real_pairs"

definition issue_exact :: "sync_env \<Rightarrow> str \<times> str \<Rightarrow> sync_run set \<Rightarrow> issue_db \<Rightarrow> bool" where
  "issue_exact e p S db \<longleftrightarrow>
     linked (pair_id e p) (idb_sessions db) = sr_session_id ` S \<and>
     linked (pair_id e p) (idb_personas db) = sr_persona ` S \<and>
     linked (pair_id e p) (idb_source_ips db) = ips_of S \<and>
     (\<exists>row issue. dict_get (idb_issues db) (pair_id e p) = Some row \<and> iss_source row = Some By_Classifier \<and>
        row_shows row (totals_of (idb_base db) S) \<and>
        issue_of e p (totals_of (idb_base db) S) = Done issue \<and> row_says row issue)"

definition same_issue :: "str \<Rightarrow> issue_db \<Rightarrow> issue_db \<Rightarrow> bool" where
  "same_issue i db db' \<longleftrightarrow> dict_get (idb_issues db') i = dict_get (idb_issues db) i \<and>
     linked i (idb_sessions db') = linked i (idb_sessions db) \<and>
     linked i (idb_personas db') = linked i (idb_personas db) \<and>
     linked i (idb_source_ips db') = linked i (idb_source_ips db)"

lemma map_of_named: "map_of (map (\<lambda>p. (p, f p)) keys) p = (if p \<in> set keys then Some (f p) else None)"
  by (induction keys) auto

definition wanted_pairs :: "sync_env \<Rightarrow> bool \<Rightarrow> sync_run list \<Rightarrow> issue_db \<Rightarrow> (str \<times> str) list" where
  "wanted_pairs e rebuild rows db =
     filter (\<lambda>p. rebuild \<or> source_in db (pair_id e p) \<noteq> Some By_Repeat_Connections) (sort (remdups (map pair_of rows)))"

lemma aggregates_keys: "map key_of (pair_aggregates base rows) = sort (remdups (map pair_of rows))"
  by (simp add: pair_aggregates_def key_of_def pair_aggregate_of_def Let_def o_def)

lemma pairs_to_merge_eq:
  "pairs_to_merge e rebuild (pair_aggregates base rows) db = map (\<lambda>p. (p, pair_id e p)) (wanted_pairs e rebuild rows db)"
  by (simp add: pairs_to_merge_def pair_aggregates_def wanted_pairs_def pair_aggregate_of_def Let_def filter_map o_def pair_id_def)

lemma wanted_pairs_set:
  "p \<in> set (wanted_pairs e rebuild rows db) \<longleftrightarrow>
     p \<in> pair_of ` set rows \<and> (rebuild \<or> source_in db (pair_id e p) \<noteq> Some By_Repeat_Connections)"
  by (auto simp: wanted_pairs_def)

lemma mine_empty: "mine p rows = {} \<longleftrightarrow> p \<notin> pair_of ` set rows"
  by (auto simp: mine_def)

lemma pairs_facts:
  assumes "ids_ok e" "rows_real rows" and pairs_def: "pairs = map (\<lambda>p. (p, pair_id e p)) (wanted_pairs e rebuild rows db)"
  shows "pairs_named e pairs" "ids_distinct pairs"
    "dict_get pairs p = (if p \<in> set (wanted_pairs e rebuild rows db) then Some (pair_id e p) else None)"
    "snd ` set pairs = pair_id e ` set (wanted_pairs e rebuild rows db)"
proof -
  show get: "dict_get pairs p = (if p \<in> set (wanted_pairs e rebuild rows db) then Some (pair_id e p) else None)" for p
    by (simp add: pairs_def dict_get_def map_of_named)
  then show "pairs_named e pairs" by (auto simp: pairs_named_def split: if_splits)
  have "set (wanted_pairs e rebuild rows db) \<subseteq> real_pairs"
    using assms(2) by (auto simp: wanted_pairs_set rows_real_def)
  then have "inj_on (pair_id e) (set (wanted_pairs e rebuild rows db))"
    using assms(1) unfolding ids_ok_def by (rule inj_on_subset [rotated])
  then show "ids_distinct pairs"
    unfolding ids_distinct_def get by (metis (no_types, lifting) inj_onD option.inject option.distinct(1))
  show "snd ` set pairs = pair_id e ` set (wanted_pairs e rebuild rows db)"
    by (simp add: pairs_def image_image)
qed

lemma merge_runs_cases:
  assumes "merge_runs e rebuild rows synced db = Done (synced', db')"
  obtains (nothing) "wanted_pairs e rebuild rows db = []" "db' = db" "synced' = synced"
  | (merged) added db1 where
      "merge_pairs (map (\<lambda>p. (p, pair_id e p)) (wanted_pairs e rebuild rows db))
         (fresh_ids rebuild (map (\<lambda>p. (p, pair_id e p)) (wanted_pairs e rebuild rows db)) db) rows db = (added, db1)"
      "write_merged e (map (\<lambda>p. (p, pair_id e p)) (wanted_pairs e rebuild rows db))
         (fresh_ids rebuild (map (\<lambda>p. (p, pair_id e p)) (wanted_pairs e rebuild rows db)) db) (idb_issues db) added
         (pair_aggregates (idb_base db) rows) synced db1 = Done (synced', db')"
  using assms by (auto simp: merge_runs_def pairs_to_merge_eq Let_def split: if_splits prod.splits)

lemma fresh_ids_sub: "set (fresh_ids rebuild pairs db) \<subseteq> snd ` set pairs"
  unfolding fresh_ids_def by (metis filter_is_subset list.set_map)

lemma map_of_swapped: "p \<in> set keys \<Longrightarrow> map_of (map (\<lambda>(p, i). (i, p)) (map (\<lambda>p. (p, f p)) keys)) (f p) \<noteq> None"
  by (induction keys) auto

lemma merge_runs_others:
  assumes run: "merge_runs e rebuild rows synced db = Done (synced', db')" and ok: "ids_ok e" "rows_real rows"
    and j: "j \<notin> pair_id e ` set (wanted_pairs e rebuild rows db)"
  shows "same_issue j db db'"
  using run
proof (cases rule: merge_runs_cases)
  case (merged added db1)
  note facts = pairs_facts [OF ok refl, of rebuild db]
  have fresh: "set (fresh_ids rebuild (map (\<lambda>p. (p, pair_id e p)) (wanted_pairs e rebuild rows db)) db)
      \<subseteq> snd ` set (map (\<lambda>p. (p, pair_id e p)) (wanted_pairs e rebuild rows db))"
    by (rule fresh_ids_sub)
  have rows: "dict_get (idb_issues db') j = dict_get (idb_issues db1) j"
    using write_merged_same [OF merged(2) facts(1)] j facts(3) by (metis imageI)
  show ?thesis
    using merge_pairs_others [OF merged(1) fresh] write_merged_links [OF merged(2)] rows j facts(4)
    by (simp add: same_issue_def same_links_def)
qed (simp add: same_issue_def)

abbreviation named_pairs :: "sync_env \<Rightarrow> bool \<Rightarrow> sync_run list \<Rightarrow> issue_db \<Rightarrow> ((str \<times> str) \<times> str) list" where
  "named_pairs e rebuild rows db \<equiv> map (\<lambda>p. (p, pair_id e p)) (wanted_pairs e rebuild rows db)"

text \<open>What an issue shows before the merge: the runs S, or nothing when it starts over.\<close>

definition shows_before :: "sync_env \<Rightarrow> bool \<Rightarrow> str \<times> str \<Rightarrow> sync_run set \<Rightarrow> issue_db \<Rightarrow> bool" where
  "shows_before e rebuild p S db \<longleftrightarrow>
     (if rebuild \<or> source_in db (pair_id e p) \<noteq> Some By_Classifier then S = {}
      else S \<noteq> {} \<and> finite S \<and> issue_exact e p S db)"

lemma kept_before:
  assumes "p \<in> set (wanted_pairs e rebuild rows db)" "shows_before e rebuild p S db"
  defines "fresh \<equiv> fresh_ids rebuild (named_pairs e rebuild rows db) db"
  shows "pair_id e p \<in> set fresh \<longleftrightarrow> S = {}"
    "kept_links fresh (pair_id e p) (idb_sessions db) = sr_session_id ` S"
    "kept_links fresh (pair_id e p) (idb_personas db) = sr_persona ` S"
    "kept_links fresh (pair_id e p) (idb_source_ips db) = ips_of S"
proof -
  have "pair_id e p \<in> set fresh \<longleftrightarrow> rebuild \<or> source_in db (pair_id e p) \<noteq> Some By_Classifier"
    using assms(1) by (auto simp: fresh_def fresh_ids_def image_iff)
  then show "pair_id e p \<in> set fresh \<longleftrightarrow> S = {}"
    "kept_links fresh (pair_id e p) (idb_sessions db) = sr_session_id ` S"
    "kept_links fresh (pair_id e p) (idb_personas db) = sr_persona ` S"
    "kept_links fresh (pair_id e p) (idb_source_ips db) = ips_of S"
    using assms(2) by (auto simp: shows_before_def kept_links_def issue_exact_def split: if_splits)
qed

lemma merged_totals:
  assumes merge: "merge_pairs (named_pairs e rebuild rows db) (fresh_ids rebuild (named_pairs e rebuild rows db) db) rows db = (added, db1)"
    and ok: "ids_ok e" "rows_real rows" and p: "p \<in> set (wanted_pairs e rebuild rows db)" and before: "shows_before e rebuild p S db"
  shows "new_totals (fresh_ids rebuild (named_pairs e rebuild rows db) db) (idb_issues db) added
     (pair_aggregate_of (idb_base db) rows p) (pair_id e p) = totals_of (idb_base db) (S \<union> mine p rows)"
proof -
  note facts = pairs_facts [OF ok refl, of rebuild db] and kept = kept_before [OF p before]
  have get: "dict_get (named_pairs e rebuild rows db) p = Some (pair_id e p)" using p facts(3) by simp
  note links = merge_pairs_links [OF merge facts(2) get]
  have W: "mine p rows \<noteq> {}" using p by (auto simp: mine_empty wanted_pairs_set)
  show ?thesis
  proof (cases "S = {}")
    case True
    with merge_rollup_fresh [OF W, of "idb_base db"] kept show ?thesis by (simp add: new_totals_def links(4))
  next
    case False
    with before obtain row where row: "dict_get (idb_issues db) (pair_id e p) = Some row"
        "row_shows row (totals_of (idb_base db) S)" and S: "S \<noteq> {}" "finite S"
      by (auto simp: issue_exact_def shows_before_def split: if_splits)
    with merge_rollup_more [OF row(2) S refl W] kept show ?thesis by (simp add: new_totals_def links(4))
  qed
qed

lemma merge_runs_written:
  assumes run: "merge_runs e rebuild rows synced db = Done (synced', db')" and ok: "ids_ok e" "rows_real rows"
    and p: "p \<in> set (wanted_pairs e rebuild rows db)" and before: "shows_before e rebuild p S db"
  obtains issue row where "issue_of e p (totals_of (idb_base db) (S \<union> mine p rows)) = Done issue"
    "dict_get (idb_issues db') (pair_id e p) = Some (rollup_row issue (totals_of (idb_base db) (S \<union> mine p rows)) row)"
    "\<And>old. dict_get (idb_issues db) (pair_id e p) = Some old \<Longrightarrow> row = old"
    "linked (pair_id e p) (idb_sessions db') = sr_session_id ` (S \<union> mine p rows)"
    "linked (pair_id e p) (idb_personas db') = sr_persona ` (S \<union> mine p rows)"
    "linked (pair_id e p) (idb_source_ips db') = ips_of (S \<union> mine p rows)"
  using run
proof (cases rule: merge_runs_cases)
  case nothing
  with p show ?thesis by simp
next
  case (merged added db1)
  let ?i = "pair_id e p" and ?agg = "pair_aggregate_of (idb_base db) rows p"
  note facts = pairs_facts [OF ok refl, of rebuild db] and totals = merged_totals [OF merged(1) ok p before]
  have get: "dict_get (named_pairs e rebuild rows db) p = Some ?i" using p facts(3) by simp
  note links = merge_pairs_links [OF merged(1) facts(2) get]
  have agg: "?agg \<in> set (pair_aggregates (idb_base db) rows)" "key_of ?agg = p"
    using p by (auto simp: pair_aggregates_def wanted_pairs_set key_of_def pair_aggregate_of_def Let_def)
  have "dict_get (idb_issues db1) ?i \<noteq> None"
    using map_of_swapped [OF p, of "pair_id e"] unfolding links(5) placeholders_get by (auto split: option.splits)
  then obtain row where row: "dict_get (idb_issues db1) ?i = Some row" by blast
  have old: "row = old" if "dict_get (idb_issues db) ?i = Some old" for old
    using row that unfolding links(5) placeholders_get by simp
  have dist: "distinct (map key_of (pair_aggregates (idb_base db) rows))" by (simp add: aggregates_keys)
  from write_merged_row [OF merged(2) facts(1,2) dist agg(1) _ row] get agg(2) totals obtain issue where
      issue: "issue_of e p (totals_of (idb_base db) (S \<union> mine p rows)) = Done issue"
      "dict_get (idb_issues db') ?i = Some (rollup_row issue (totals_of (idb_base db) (S \<union> mine p rows)) row)"
    by auto
  show ?thesis
    by (rule that [OF issue old])
      (use links(1-3) kept_before [OF p before] write_merged_links [OF merged(2)] in \<open>auto simp: same_links_def image_Un\<close>)
qed

lemma merge_runs_pair:
  assumes run: "merge_runs e rebuild rows synced db = Done (synced', db')" and ok: "ids_ok e" "rows_real rows"
    and p: "p \<in> set (wanted_pairs e rebuild rows db)" and before: "shows_before e rebuild p S db"
  shows "issue_exact e p (S \<union> mine p rows) db'"
proof (rule merge_runs_written [OF assms])
  fix issue row assume "issue_of e p (totals_of (idb_base db) (S \<union> mine p rows)) = Done issue"
    "dict_get (idb_issues db') (pair_id e p) = Some (rollup_row issue (totals_of (idb_base db) (S \<union> mine p rows)) row)"
    "linked (pair_id e p) (idb_sessions db') = sr_session_id ` (S \<union> mine p rows)"
    "linked (pair_id e p) (idb_personas db') = sr_persona ` (S \<union> mine p rows)"
    "linked (pair_id e p) (idb_source_ips db') = ips_of (S \<union> mine p rows)"
  then show ?thesis using merge_runs_base [OF run] by (auto simp: issue_exact_def rollup_row_shows)
qed

lemma write_merged_issues:
  assumes "write_merged e pairs fresh states added aggs synced db = Done r"
    "agg \<in> set aggs" "dict_get pairs (key_of agg) = Some i"
  shows "\<exists>issue. issue_of e (key_of agg) (new_totals fresh states added agg i) = Done issue"
proof -
  obtain synced' db' where "write_merged e pairs fresh states added aggs synced db = Done (synced', db')" using assms(1) by (cases r) auto
  then show ?thesis using assms(2,3)
  proof (induction aggs arbitrary: synced db)
    case (Cons a aggs)
    from Cons.prems(1) show ?case by (cases rule: write_merged_ConsE) (use Cons in auto)
  qed simp
qed

text \<open>A merge raises only where an issue's text does.\<close>

lemma write_merged_total:
  assumes "\<And>agg i. agg \<in> set aggs \<Longrightarrow> dict_get pairs (key_of agg) = Some i \<Longrightarrow>
     \<exists>issue. issue_of e (key_of agg) (new_totals fresh states added agg i) = Done issue"
  shows "\<exists>r. write_merged e pairs fresh states added aggs synced db = Done r"
  using assms
proof (induction aggs arbitrary: synced db)
  case (Cons agg aggs)
  show ?case
  proof (cases "dict_get pairs (key_of agg)")
    case (Some i)
    with Cons.prems [of agg i] obtain issue where "issue_of e (key_of agg) (new_totals fresh states added agg i) = Done issue" by auto
    then show ?thesis using Some Cons by (auto simp: key_of_def build_issue_of split: prod.splits)
  qed (use Cons in \<open>simp add: key_of_def\<close>)
qed simp

lemma merge_runs_total:
  assumes ok: "ids_ok e" "rows_real rows"
    and each: "\<And>p. p \<in> set (wanted_pairs e rebuild rows db) \<Longrightarrow>
       \<exists>S issue. shows_before e rebuild p S db \<and> issue_of e p (totals_of (idb_base db) (S \<union> mine p rows)) = Done issue"
  shows "\<exists>r. merge_runs e rebuild rows synced db = Done r"
proof (cases "wanted_pairs e rebuild rows db = []")
  case False
  let ?pairs = "named_pairs e rebuild rows db"
  obtain added db1 where merge: "merge_pairs ?pairs (fresh_ids rebuild ?pairs db) rows db = (added, db1)" by fastforce
  have "\<exists>r. write_merged e ?pairs (fresh_ids rebuild ?pairs db) (idb_issues db) added (pair_aggregates (idb_base db) rows) synced db1 = Done r"
  proof (rule write_merged_total)
    fix agg i assume agg: "agg \<in> set (pair_aggregates (idb_base db) rows)" "dict_get ?pairs (key_of agg) = Some i"
    from agg(1) obtain p where p: "agg = pair_aggregate_of (idb_base db) rows p" "key_of agg = p"
      by (auto simp: pair_aggregates_def key_of_def pair_aggregate_of_def Let_def)
    with agg(2) have "p \<in> set (wanted_pairs e rebuild rows db)" "i = pair_id e p"
      using pairs_facts(3) [OF ok refl, of rebuild db p] by (auto split: if_splits)
    moreover from each [OF this(1)] obtain S issue where "shows_before e rebuild p S db"
        "issue_of e p (totals_of (idb_base db) (S \<union> mine p rows)) = Done issue" by blast
    ultimately show "\<exists>issue. issue_of e (key_of agg) (new_totals (fresh_ids rebuild ?pairs db) (idb_issues db) added agg i) = Done issue"
      using merged_totals [OF merge ok, of p S] p by simp
  qed
  then show ?thesis using merge False by (simp add: merge_runs_def pairs_to_merge_eq Let_def)
qed (simp add: merge_runs_def pairs_to_merge_eq)

end
