(* ===== verification/IssueSyncSteps.thy ===== *)
theory IssueSyncSteps
  imports IssueMerge
begin

text \<open>
  The issue sync as a system of steps: runs are stored, transactions of the sync commit, an analyst
  changes a status. Its invariant says which runs each issue shows. One section per kind of step
  shows that it is kept.
\<close>

section \<open>What storing a run does to the tables the sync reads\<close>

lemma fold_events [simp]:
  "db_sessions (fold execute_statement (map Insert_Session_Event rows) db) = db_sessions db"
  "db_signals (fold execute_statement (map Insert_Session_Event rows) db) = db_signals db"
  "db_runs (fold execute_statement (map Insert_Session_Event rows) db) = db_runs db"
  "db_sync_queue (fold execute_statement (map Insert_Session_Event rows) db) = db_sync_queue db"
  by (induction rows arbitrary: db) simp_all

lemma fold_signals [simp]:
  "db_sessions (fold execute_statement (map Insert_Classifier_Signal rows) db) = db_sessions db"
  "db_signals (fold execute_statement (map Insert_Classifier_Signal rows) db) = db_signals db @ rows"
  "db_runs (fold execute_statement (map Insert_Classifier_Signal rows) db) = db_runs db"
  "db_sync_queue (fold execute_statement (map Insert_Classifier_Signal rows) db) = db_sync_queue db"
  by (induction rows arbitrary: db) simp_all

lemma stored_run_tables:
  fixes se run db
  defines "db' \<equiv> fold execute_statement (classifier_run_statements se run) db"
  shows "db_sessions db' = dict_put (rec_session_id (run_session run)) (session_insert_params se (run_session run)) (db_sessions db)"
    "db_signals db' = db_signals db @ classifier_signal_insert_params se run"
    "db_runs db' = db_runs db @ [run]" "db_sync_queue db' = List.insert (run_id run) (db_sync_queue db)"
  unfolding db'_def by (simp_all add: classifier_run_statements_def)

lemma signal_params_run: "row \<in> set (classifier_signal_insert_params se run) \<Longrightarrow> sig_run_id row = run_id run"
  by (auto simp: classifier_signal_insert_params_def)

lemma next_fault_queue [simp]: "db_sync_queue (snd (next_fault db)) = db_sync_queue db"
  by (auto simp: next_fault_def split: list.splits)

section \<open>Well-formed run tables\<close>

definition run_ids :: "database \<Rightarrow> str set" where
  "run_ids base = set (map run_id (db_runs base))"

definition base_ok :: "storage_env \<Rightarrow> database \<Rightarrow> bool" where
  "base_ok se base \<longleftrightarrow>
     run_ids base = se_run_id se ` {..<length (db_runs base)} \<and>
     sig_run_id ` set (db_signals base) \<subseteq> run_ids base \<and>
     (\<forall>run \<in> set (db_runs base). dict_get (db_sessions base) (rec_session_id (run_session run)) \<noteq> None)"

text \<open>The sender, the decoy and the start of a session stored again are those it was stored with.\<close>

definition same_source :: "session_record \<Rightarrow> database \<Rightarrow> bool" where
  "same_source r base \<longleftrightarrow>
     (case dict_get (db_sessions base) (rec_session_id r) of
        None \<Rightarrow> True
      | Some row \<Rightarrow> row_persona_id row = rec_persona_id r \<and> row_peer_ip row = rec_peer_ip r \<and>
          row_started_at row = rec_started_at r)"

text \<open>What the sync may rely on while runs arrive.\<close>

definition grown :: "database \<Rightarrow> database \<Rightarrow> bool" where
  "grown base base' \<longleftrightarrow>
     (\<exists>new. db_runs base' = db_runs base @ new \<and> run_id ` set new \<subseteq> set (db_sync_queue base') - run_ids base) \<and>
     set (db_sync_queue base) \<subseteq> set (db_sync_queue base') \<and>
     (\<forall>run \<in> set (db_runs base). rows_of_run base' run = rows_of_run base run) \<and>
     (\<forall>rid \<in> run_ids base. \<forall>k. signals_of k rid base' = signals_of k rid base)"

lemma signals_of_cong: "db_signals base' = db_signals base \<Longrightarrow> signals_of k rid base' = signals_of k rid base"
  by (simp add: signals_of_def)

lemma rows_of_run_cong:
  "db_signals base' = db_signals base \<Longrightarrow> db_sessions base' = db_sessions base \<Longrightarrow> rows_of_run base' run = rows_of_run base run"
  by (auto simp: rows_of_run_def signals_of_def split: option.splits)

lemma grown_same:
  assumes "db_runs base' = db_runs base" "db_sync_queue base' = db_sync_queue base" "db_signals base' = db_signals base"
    "db_sessions base' = db_sessions base"
  shows "grown base base'" "base_ok se base' = base_ok se base"
proof -
  have "run_ids base' = run_ids base" by (simp add: run_ids_def assms)
  moreover have "rows_of_run base' = rows_of_run base" using rows_of_run_cong [OF assms(3,4)] by blast
  ultimately show "grown base base'" "base_ok se base' = base_ok se base"
    using assms signals_of_cong [OF assms(3)] by (simp_all add: grown_def base_ok_def)
qed

lemma base_okD:
  assumes "base_ok se base"
  shows "run_ids base = se_run_id se ` {..<length (db_runs base)}"
    "run \<in> set (db_runs base) \<Longrightarrow> dict_get (db_sessions base) (rec_session_id (run_session run)) \<noteq> None"
    "row \<in> set (db_signals base) \<Longrightarrow> sig_run_id row \<in> run_ids base"
  using assms unfolding base_ok_def by auto

lemma run_in_ids: "run \<in> set (db_runs base) \<Longrightarrow> run_id run \<in> run_ids base"
  by (simp add: run_ids_def)

lemma rows_of_run_upsert:
  assumes "same_source r base" "dict_get (db_sessions base) (rec_session_id (run_session run)) \<noteq> None"
    "db_sessions base' = dict_put (rec_session_id r) (session_insert_params se r) (db_sessions base)"
    "\<And>k. signals_of k (run_id run) base' = signals_of k (run_id run) base"
  shows "rows_of_run base' run = rows_of_run base run"
  using assms by (auto simp: rows_of_run_def same_source_def session_insert_params_def split: option.splits prod.splits)

lemma run_fresh: "inj (se_run_id se) \<Longrightarrow> base_ok se base \<Longrightarrow> se_run_id se (length (db_runs base)) \<notin> run_ids base"
  by (simp add: base_okD inj_image_mem_iff)

lemma stored_run_grown:
  assumes inj: "inj (se_run_id se)" and ok: "base_ok se base" and same: "same_source r base"
    and run: "run = new_run se r s base" and base': "base' = fold execute_statement (classifier_run_statements se run) (snd (next_fault base))"
  shows "grown base base' \<and> base_ok se base'"
proof -
  note tables = stored_run_tables [of se run "snd (next_fault base)", folded base', simplified]
  have r [simp]: "run_session run = r" "run_id run = se_run_id se (length (db_runs base))" by (simp_all add: run new_run_def)
  have fresh: "run_id run \<notin> run_ids base" using run_fresh [OF inj ok] by simp
  have signals: "signals_of k rid base' = signals_of k rid base" if "rid \<in> run_ids base" for k rid
    using that fresh signal_params_run [of _ se run] by (auto simp: signals_of_def tables filter_empty_conv)
  have rows: "rows_of_run base' run' = rows_of_run base run'" if "run' \<in> set (db_runs base)" for run'
    by (rule rows_of_run_upsert [OF same base_okD(2) [OF ok that]]) (simp_all add: tables signals run_in_ids [OF that])
  have "grown base base'"
    unfolding grown_def using tables(3,4) fresh signals rows by (auto intro!: exI [of _ "[run]"])
  moreover have "base_ok se base'"
  proof -
    have ids: "run_ids base' = insert (run_id run) (run_ids base)" by (simp add: run_ids_def tables)
    have "sig_run_id ` set (db_signals base') \<subseteq> run_ids base'"
      using base_okD(3) [OF ok] signal_params_run [of _ se run] by (auto simp: tables ids)
    moreover have "run_ids base' = se_run_id se ` {..<length (db_runs base')}"
      using base_okD(1) [OF ok] by (simp add: ids tables lessThan_Suc)
    ultimately show ?thesis using base_okD(2) [OF ok] by (auto simp: base_ok_def tables)
  qed
  ultimately show ?thesis ..
qed

lemma save_grown:
  assumes "save_classifier_run se r s base = (res, base')" "inj (se_run_id se)" "base_ok se base" "same_source r base"
  shows "grown base base' \<and> base_ok se base'"
proof -
  let ?run = "new_run se r s base"
  from assms(1) obtain x where "transact (classifier_run_statements se ?run) base = (x, base')"
    by (auto simp: save_classifier_run_def Let_def split: prod.splits option.splits)
  from transact_cases [OF this] consider "base' = snd (next_fault base)"
    | "base' = fold execute_statement (classifier_run_statements se ?run) (snd (next_fault base))" by blast
  then show ?thesis
  proof cases
    case 1
    then show ?thesis using grown_same [of base' base] assms(3) by simp
  next
    case 2
    then show ?thesis using stored_run_grown [OF assms(2,3,4) refl] by blast
  qed
qed

lemma upsert_grown:
  assumes "base_ok se base" "same_source r base"
    and base': "base' = execute_statement (Upsert_Session (rec_session_id r) (session_insert_params se r)) (snd (next_fault base))"
  shows "grown base base' \<and> base_ok se base'"
proof -
  have tables: "db_runs base' = db_runs base" "db_signals base' = db_signals base" "db_sync_queue base' = db_sync_queue base"
    "db_sessions base' = dict_put (rec_session_id r) (session_insert_params se r) (db_sessions base)"
    by (simp_all add: base')
  have "rows_of_run base' run = rows_of_run base run" if "run \<in> set (db_runs base)" for run
    using rows_of_run_upsert [OF assms(2) base_okD(2) [OF assms(1) that] tables(4)] signals_of_cong [OF tables(2)] by simp
  then have "grown base base'" using tables signals_of_cong [OF tables(2)] by (simp add: grown_def)
  moreover have "base_ok se base'"
  proof -
    have "run_ids base' = run_ids base" by (simp add: run_ids_def tables)
    then show ?thesis using assms(1) unfolding base_ok_def by (auto simp: tables)
  qed
  ultimately show ?thesis ..
qed

lemma count_grown:
  assumes "record_session_and_count_from_ip se r ip base = (res, base')" "base_ok se base" "same_source r base"
  shows "grown base base' \<and> base_ok se base'"
proof -
  from assms(1) obtain x where
    "transact [Upsert_Session (rec_session_id r) (session_insert_params se r)] base = (x, base')"
    by (auto simp: record_session_and_count_from_ip_def split: prod.splits option.splits)
  from transact_cases [OF this] consider "base' = snd (next_fault base)"
    | "base' = execute_statement (Upsert_Session (rec_session_id r) (session_insert_params se r)) (snd (next_fault base))"
    by auto
  then show ?thesis
  proof cases
    case 1
    then show ?thesis using grown_same [of base' base] assms(2) by simp
  qed (use upsert_grown [OF assms(2,3)] in blast)
qed


section \<open>The system and its invariant\<close>

text \<open>Runs are stored and addresses counted at any time; the clock moves; an analyst changes a status.\<close>

inductive store_step :: "storage_env \<Rightarrow> issue_db \<Rightarrow> issue_db \<Rightarrow> bool" for se :: storage_env where
  run_stored: "save_classifier_run se r s (idb_base db) = (res, base') \<Longrightarrow> same_source r (idb_base db) \<Longrightarrow>
     store_step se db (db\<lparr>idb_base := base'\<rparr>)"
| address_counted: "record_session_and_count_from_ip se r ip (idb_base db) = (res, base') \<Longrightarrow> same_source r (idb_base db) \<Longrightarrow>
     store_step se db (db\<lparr>idb_base := base'\<rparr>)"
| time_passes: "store_step se db (db\<lparr>idb_base := (idb_base db)\<lparr>db_now := now\<rparr>\<rparr>)"

text \<open>The committed transactions of the sync. Runs may be stored between the clearing of the queue and
  the reading of the runs, and a batch may be any part of the queue.\<close>

inductive sync_step :: "sync_env \<Rightarrow> storage_env \<Rightarrow> issue_db \<Rightarrow> issue_db \<Rightarrow> bool"
  for e :: sync_env and se :: storage_env where
  stored: "store_step se db db' \<Longrightarrow> sync_step e se db db'"
| triaged: "sync_step e se db (update_issue_status i status db)"
| turn: "sync_step e se db (db\<lparr>idb_turns := ts\<rparr>)"
| rebuilt: "(store_step se)\<^sup>*\<^sup>* (clear_queue db) mid \<Longrightarrow> rebuild_all e synced mid = Done (synced', db') \<Longrightarrow>
     sync_step e se db db'"
| batch_merged: "idb_rebuilt db \<Longrightarrow> set ids \<subseteq> set (queued db) \<Longrightarrow> merge_batch e ids synced db = Done (synced', db') \<Longrightarrow>
     sync_step e se db db'"
| repeats_checked: "idb_rebuilt db \<Longrightarrow> sync_repeat_connection_issue e synced db = Done (synced', db') \<Longrightarrow>
     sync_step e se db db'"

definition all_rows :: "database \<Rightarrow> sync_run set" where
  "all_rows base = set (fill_sync_runs Every_Run base)"

definition rows_among :: "database \<Rightarrow> str set \<Rightarrow> str \<times> str \<Rightarrow> sync_run set" where
  "rows_among base M p = {r \<in> all_rows base. sr_run_id r \<in> M \<and> pair_of r = p}"

definition pair_settled :: "sync_env \<Rightarrow> str \<times> str \<Rightarrow> str set \<Rightarrow> issue_db \<Rightarrow> bool" where
  "pair_settled e p M db \<longleftrightarrow>
     run_ids (idb_base db) - set (queued db) \<subseteq> M \<and> M \<subseteq> run_ids (idb_base db) \<and>
     (if rows_among (idb_base db) M p = {} then source_in db (pair_id e p) \<noteq> Some By_Classifier
      else issue_exact e p (rows_among (idb_base db) M p) db)"

abbreviation repeat_pair :: "str \<times> str" where
  "repeat_pair \<equiv> (REPEAT_CONNECTION_ACTOR_LABEL, REPEAT_CONNECTION_MITRE_TAG)"

text \<open>Only the brute-force issue is ever the repeat-connection check's.\<close>

definition only_repeat_pair :: "sync_env \<Rightarrow> issue_db \<Rightarrow> bool" where
  "only_repeat_pair e db \<longleftrightarrow> (\<forall>i. source_in db i = Some By_Repeat_Connections \<longrightarrow> i = pair_id e repeat_pair)"

definition sync_inv :: "sync_env \<Rightarrow> storage_env \<Rightarrow> issue_db \<Rightarrow> bool" where
  "sync_inv e se db \<longleftrightarrow> base_ok se (idb_base db) \<and> only_repeat_pair e db \<and>
     (if idb_rebuilt db
      then \<forall>p \<in> real_pairs. source_in db (pair_id e p) \<noteq> Some By_Repeat_Connections \<longrightarrow> (\<exists>M. pair_settled e p M db)
      else \<forall>i. source_in db i = None)"

definition fresh_db :: "storage_env \<Rightarrow> issue_db \<Rightarrow> bool" where
  "fresh_db se db \<longleftrightarrow> base_ok se (idb_base db) \<and> \<not> idb_rebuilt db \<and> (\<forall>i. source_in db i = None)"

lemma sync_inv_fresh: "fresh_db se db \<Longrightarrow> sync_inv e se db"
  by (simp add: fresh_db_def sync_inv_def only_repeat_pair_def)

lemma finite_all_rows [simp]: "finite (all_rows base)" "finite (rows_among base M p)"
  by (simp_all add: all_rows_def rows_among_def)

lemma all_rows_iff: "r \<in> all_rows base \<longleftrightarrow> (\<exists>run \<in> set (db_runs base). r \<in> set (rows_of_run base run))"
  by (auto simp: all_rows_def fill_sync_runs_def)

lemma rows_of_run_id:
  "r \<in> set (rows_of_run base run) \<Longrightarrow> sr_run_id r = run_id run \<and> sr_actor r \<in> range actor_name"
  by (auto simp: rows_of_run_def split: option.splits)

lemma all_rows_id: "r \<in> all_rows base \<Longrightarrow> sr_run_id r \<in> run_ids base"
  by (auto simp: all_rows_iff run_ids_def dest: rows_of_run_id)

lemma rows_real_fill [simp]: "rows_real (fill_sync_runs scope base)"
  by (auto simp: rows_real_def fill_sync_runs_def real_pairs_def pair_of_def dest!: rows_of_run_id)

lemma mine_fill: "mine p (fill_sync_runs scope base) = {r \<in> all_rows base. pair_of r = p \<and> in_scope scope r}"
  by (auto simp: mine_def all_rows_def fill_sync_runs_def)

lemma mine_fill_batch: "mine p (fill_sync_runs (Batch_Runs ids) base) = rows_among base (set ids) p"
  by (auto simp: mine_fill rows_among_def)

lemma mine_fill_all: "mine p (fill_sync_runs Every_Run base) = rows_among base (run_ids base) p"
  by (auto simp: mine_fill rows_among_def dest: all_rows_id)

lemma mine_fill_pair: "mine (a, t) (fill_sync_runs (Pair_Runs a t) base) = rows_among base (run_ids base) (a, t)"
  by (auto simp: mine_fill rows_among_def pair_of_def dest: all_rows_id)

lemma rows_among_empty [simp]: "rows_among base {} p = {}"
  by (simp add: rows_among_def)

lemma rows_among_Un: "rows_among base (M \<union> N) p = rows_among base M p \<union> rows_among base N p"
  by (auto simp: rows_among_def)

text \<open>Storing leaves what was merged as it is.\<close>

lemma grown_rows:
  assumes "grown base base'" "M \<subseteq> run_ids base"
  shows "rows_among base' M p = rows_among base M p"
    "S \<subseteq> all_rows base \<Longrightarrow> totals_of base' S = totals_of base S"
    "run_ids base' - set (db_sync_queue base') \<subseteq> run_ids base - set (db_sync_queue base)" "run_ids base \<subseteq> run_ids base'"
proof -
  from assms(1) obtain new where new: "db_runs base' = db_runs base @ new" "run_id ` set new \<subseteq> set (db_sync_queue base') - run_ids base"
      "set (db_sync_queue base) \<subseteq> set (db_sync_queue base')"
      "\<And>run. run \<in> set (db_runs base) \<Longrightarrow> rows_of_run base' run = rows_of_run base run"
      "\<And>rid k. rid \<in> run_ids base \<Longrightarrow> signals_of k rid base' = signals_of k rid base"
    by (auto simp: grown_def)
  have "r \<in> all_rows base' \<longleftrightarrow> r \<in> all_rows base \<or> (\<exists>run \<in> set new. r \<in> set (rows_of_run base' run))" for r
    using new(4) by (simp add: all_rows_iff new(1) bex_Un cong: bex_cong)
  moreover have "sr_run_id r \<notin> M" if "run \<in> set new" "r \<in> set (rows_of_run base' run)" for run r
    using that new(2) assms(2) rows_of_run_id [OF that(2)] by auto
  ultimately have "r \<in> all_rows base' \<longleftrightarrow> r \<in> all_rows base" if "sr_run_id r \<in> M" for r
    using that by blast
  then show "rows_among base' M p = rows_among base M p" by (auto simp: rows_among_def)
  show "totals_of base' S = totals_of base S" if "S \<subseteq> all_rows base"
  proof -
    have "evidence_set base' S = evidence_set base S"
      unfolding evidence_set_def
    proof (rule SUP_cong [OF refl])
      fix r assume "r \<in> S"
      with that have "sr_run_id r \<in> run_ids base" by (auto dest: all_rows_id)
      then show "set (signals_of (lit ''evidence'') (sr_run_id r) base') = set (signals_of (lit ''evidence'') (sr_run_id r) base)"
        by (simp add: new(5))
    qed
    then show ?thesis by (simp add: totals_of_def)
  qed
  show "run_ids base' - set (db_sync_queue base') \<subseteq> run_ids base - set (db_sync_queue base)" "run_ids base \<subseteq> run_ids base'"
    using new(1,2,3) by (auto simp: run_ids_def)
qed

lemma rows_among_sub: "rows_among base M p \<subseteq> all_rows base"
  by (auto simp: rows_among_def)

lemma store_step_grown:
  assumes "store_step se db db'" "inj (se_run_id se)" "base_ok se (idb_base db)"
  shows "grown (idb_base db) (idb_base db') \<and> base_ok se (idb_base db') \<and> db' = db\<lparr>idb_base := idb_base db'\<rparr>"
  using assms(1)
proof (cases rule: store_step.cases)
  case (run_stored r s res base')
  then show ?thesis using save_grown [OF run_stored(2) assms(2,3)] by simp
next
  case (address_counted r ip res base')
  then show ?thesis using count_grown [OF address_counted(2) assms(3)] by simp
next
  case (time_passes now)
  then show ?thesis
    using grown_same(1) [of "(idb_base db)\<lparr>db_now := now\<rparr>" "idb_base db"]
      grown_same(2) [of "(idb_base db)\<lparr>db_now := now\<rparr>" "idb_base db" se] assms(3) by simp
qed

lemma issue_exact_grown:
  assumes "grown (idb_base db) base'" "M \<subseteq> run_ids (idb_base db)"
  shows "issue_exact e p (rows_among (idb_base db) M p) (db\<lparr>idb_base := base'\<rparr>) \<longleftrightarrow>
     issue_exact e p (rows_among (idb_base db) M p) db"
  by (simp add: issue_exact_def grown_rows(2) [OF assms rows_among_sub])

lemma pair_settled_grown:
  assumes "grown (idb_base db) base'" "pair_settled e p M db"
  shows "pair_settled e p M (db\<lparr>idb_base := base'\<rparr>)"
proof -
  have M: "M \<subseteq> run_ids (idb_base db)" using assms(2) by (simp add: pair_settled_def)
  show ?thesis
    using assms(2) grown_rows(1) [OF assms(1) M, of p] grown_rows(3,4) [OF assms(1) M] issue_exact_grown [OF assms(1) M, of e p]
    by (auto simp: pair_settled_def queued_def source_in_def split: if_splits)
qed

lemma sync_inv_store:
  assumes "store_step se db db'" "inj (se_run_id se)" "sync_inv e se db"
  shows "sync_inv e se db'"
proof -
  have g: "grown (idb_base db) (idb_base db')" "base_ok se (idb_base db')" and db': "db' = db\<lparr>idb_base := idb_base db'\<rparr>"
    using store_step_grown [OF assms(1,2)] assms(3) by (auto simp: sync_inv_def)
  have "source_in db' i = source_in db i" "idb_rebuilt db' = idb_rebuilt db" for i by (subst db', simp add: source_in_def)+
  moreover have "pair_settled e p M db'" if "pair_settled e p M db" for p M
    by (subst db') (rule pair_settled_grown [OF g(1) that])
  ultimately show ?thesis using assms(3) g(2) unfolding sync_inv_def only_repeat_pair_def by (auto split: if_splits) blast
qed


section \<open>Every transaction keeps it\<close>

lemma source_in_same: "same_issue i db db' \<Longrightarrow> source_in db' i = source_in db i"
  by (simp add: same_issue_def source_in_def)

lemma issue_exact_same:
  "same_issue (pair_id e p) db db' \<Longrightarrow> totals_of (idb_base db') S = totals_of (idb_base db) S \<Longrightarrow>
     issue_exact e p S db' = issue_exact e p S db"
  by (simp add: issue_exact_def same_issue_def)

lemma issue_exact_source: "issue_exact e p S db \<Longrightarrow> source_in db (pair_id e p) = Some By_Classifier"
  by (auto simp: issue_exact_def source_in_def)

lemma totals_queue [simp]: "totals_of (base\<lparr>db_sync_queue := q\<rparr>) S = totals_of base S"
  by (simp add: totals_of_def evidence_set_def signals_of_def)

lemma rows_queue [simp]: "rows_of_run (base\<lparr>db_sync_queue := q\<rparr>) run = rows_of_run base run"
  by (auto simp: rows_of_run_def signals_of_def split: option.splits)

lemma fill_queue [simp]: "fill_sync_runs scope (base\<lparr>db_sync_queue := q\<rparr>) = fill_sync_runs scope base"
proof -
  have "rows_of_run (base\<lparr>db_sync_queue := q\<rparr>) = rows_of_run base" by (rule ext) simp
  then show ?thesis by (simp add: fill_sync_runs_def)
qed

lemma among_queue [simp]: "rows_among (base\<lparr>db_sync_queue := q\<rparr>) M p = rows_among base M p"
  "run_ids (base\<lparr>db_sync_queue := q\<rparr>) = run_ids base" "base_ok se (base\<lparr>db_sync_queue := q\<rparr>) = base_ok se base"
  by (simp_all add: rows_among_def all_rows_def run_ids_def base_ok_def)

lemma not_wanted_id:
  assumes "ids_ok e" "rows_real rows" "p \<in> real_pairs" "p \<notin> set (wanted_pairs e rebuild rows db)"
  shows "pair_id e p \<notin> pair_id e ` set (wanted_pairs e rebuild rows db)"
proof
  assume "pair_id e p \<in> pair_id e ` set (wanted_pairs e rebuild rows db)"
  then obtain q where q: "q \<in> set (wanted_pairs e rebuild rows db)" "pair_id e q = pair_id e p" by auto
  then have "q \<in> real_pairs" using assms(2) by (auto simp: wanted_pairs_set rows_real_def)
  with q assms show False by (auto simp: ids_ok_def dest: inj_onD)
qed

text \<open>One merge, for a pair whose issue shows the runs of M so far. For a rebuild the issue starts over.\<close>

lemma merge_runs_settles:
  assumes run: "merge_runs e rebuild rows synced db = Done (synced', db')" and ids: "ids_ok e" and real: "rows_real rows"
    and p: "p \<in> real_pairs" and mine: "mine p rows = rows_among (idb_base db) N p"
    and start: "if rebuild then M = {} else source_in db (pair_id e p) \<noteq> Some By_Repeat_Connections \<and>
      (if rows_among (idb_base db) M p = {} then source_in db (pair_id e p) \<noteq> Some By_Classifier
       else issue_exact e p (rows_among (idb_base db) M p) db)"
    and calm: "rebuild \<Longrightarrow> rows_among (idb_base db) N p = {} \<Longrightarrow> source_in db (pair_id e p) \<noteq> Some By_Classifier"
  shows "if rows_among (idb_base db') (M \<union> N) p = {} then source_in db' (pair_id e p) \<noteq> Some By_Classifier
     else issue_exact e p (rows_among (idb_base db') (M \<union> N) p) db'"
proof -
  let ?S = "rows_among (idb_base db) M p" and ?W = "rows_among (idb_base db) N p"
  have base: "idb_base db' = idb_base db" by (rule merge_runs_base [OF run])
  show ?thesis
    unfolding base rows_among_Un
  proof (cases "p \<in> set (wanted_pairs e rebuild rows db)")
    case True
    then have "?W \<noteq> {}" using mine mine_empty [of p rows] by (simp add: wanted_pairs_set)
    moreover have "issue_exact e p (?S \<union> ?W) db'"
      unfolding mine [symmetric]
    proof (rule merge_runs_pair [OF run ids real True])
      show "shows_before e rebuild p ?S db"
        using start issue_exact_source [of e p ?S db] by (auto simp: shows_before_def split: if_splits)
    qed
    ultimately show "if ?S \<union> ?W = {} then source_in db' (pair_id e p) \<noteq> Some By_Classifier else issue_exact e p (?S \<union> ?W) db'"
      by simp
  next
    case False
    then have W: "?W = {}" using start mine mine_empty [of p rows] by (auto simp: wanted_pairs_set split: if_splits)
    note elsewhere = not_wanted_id [OF ids real p False]
    from merge_runs_others [OF run ids real elsewhere] have same: "same_issue (pair_id e p) db db'" .
    then show "if ?S \<union> ?W = {} then source_in db' (pair_id e p) \<noteq> Some By_Classifier else issue_exact e p (?S \<union> ?W) db'"
      using start calm W source_in_same [OF same] issue_exact_same [OF same, of ?S] base
      by (auto split: if_splits)
  qed
qed

lemma write_merged_source:
  "write_merged e pairs fresh states added aggs synced db = Done (synced', db') \<Longrightarrow>
     source_in db' i = Some By_Repeat_Connections \<Longrightarrow> source_in db i = Some By_Repeat_Connections"
proof (induction aggs arbitrary: synced db)
  case (Cons agg aggs)
  from Cons.prems(1) show ?case
  proof (cases rule: write_merged_ConsE)
    case (written j issue w db1)
    have "source_in db1 i = Some By_Repeat_Connections" by (rule Cons.IH [OF written(4) Cons.prems(2)])
    then show ?thesis using write_rollup_effect(2) [OF written(3), of i]
      by (auto simp: source_in_def rollup_row_def split: option.splits if_splits)
  qed (use Cons in blast)
qed simp

lemma merge_runs_only:
  assumes run: "merge_runs e rebuild rows synced db = Done (synced', db')" and only: "only_repeat_pair e db"
  shows "only_repeat_pair e db'"
  using run
proof (cases rule: merge_runs_cases)
  case (merged added db1)
  have "idb_issues db1 = idb_issues (insert_placeholders (named_pairs e rebuild rows db) db)"
    using merged(1) by (auto simp: merge_pairs_def Let_def delete_bridges_def split: if_splits)
  then have "source_in db1 i = Some By_Repeat_Connections \<Longrightarrow> source_in db i = Some By_Repeat_Connections" for i
    by (auto simp: source_in_def placeholders_get placeholder_def split: option.splits)
  with write_merged_source [OF merged(2)] only show ?thesis unfolding only_repeat_pair_def by blast
qed (use only in simp)

lemma merge_runs_elsewhere:
  assumes "merge_runs e rebuild rows synced db = Done (synced', db')" "ids_ok e" "rows_real rows"
    and "q \<in> real_pairs" "q \<notin> pair_of ` set rows"
  shows "same_issue (pair_id e q) db db'"
  by (rule merge_runs_others [OF assms(1-3) not_wanted_id [OF assms(2-4)]]) (use assms(5) in \<open>simp add: wanted_pairs_set\<close>)


text \<open>An issue whose pair has no runs at all is not the classifier's.\<close>

definition calm :: "sync_env \<Rightarrow> issue_db \<Rightarrow> bool" where
  "calm e db \<longleftrightarrow> (\<forall>p \<in> real_pairs. rows_among (idb_base db) (run_ids (idb_base db)) p = {} \<longrightarrow>
     source_in db (pair_id e p) \<noteq> Some By_Classifier)"

lemma rows_among_mono: "M \<subseteq> N \<Longrightarrow> rows_among base M p \<subseteq> rows_among base N p"
  by (auto simp: rows_among_def)

lemma sync_invD:
  "sync_inv e se db \<Longrightarrow> idb_rebuilt db \<Longrightarrow> p \<in> real_pairs \<Longrightarrow> source_in db (pair_id e p) \<noteq> Some By_Repeat_Connections \<Longrightarrow>
     \<exists>M. pair_settled e p M db"
  by (simp add: sync_inv_def)

lemma calm_inv: assumes "sync_inv e se db" shows "calm e db"
proof -
  have "source_in db (pair_id e p) \<noteq> Some By_Classifier"
    if "p \<in> real_pairs" "rows_among (idb_base db) (run_ids (idb_base db)) p = {}" for p
  proof (cases "idb_rebuilt db \<and> source_in db (pair_id e p) \<noteq> Some By_Repeat_Connections")
    case True
    from sync_invD [OF assms conjunct1 [OF True] that(1) conjunct2 [OF True]] obtain M where "pair_settled e p M db" by blast
    moreover from this have "rows_among (idb_base db) M p = {}"
      using rows_among_mono [of M "run_ids (idb_base db)" "idb_base db" p] that(2) by (auto simp: pair_settled_def)
    ultimately show ?thesis by (simp add: pair_settled_def)
  qed (use assms in \<open>auto simp: sync_inv_def split: if_splits\<close>)
  then show ?thesis by (simp add: calm_def)
qed

lemma only_clear [simp]: "only_repeat_pair e (clear_queue db) = only_repeat_pair e db"
  by (simp add: only_repeat_pair_def clear_queue_def set_queue_def source_in_def)

lemma calm_clear [simp]: "calm e (clear_queue db) = calm e db" "idb_base (clear_queue db) = (idb_base db)\<lparr>db_sync_queue := []\<rparr>"
  by (simp_all add: calm_def clear_queue_def set_queue_def source_in_def)

lemma calm_stores:
  assumes "(store_step se)\<^sup>*\<^sup>* db mid" "inj (se_run_id se)" "base_ok se (idb_base db)" "calm e db" "only_repeat_pair e db"
  shows "calm e mid \<and> base_ok se (idb_base mid) \<and> only_repeat_pair e mid"
  using assms(1)
proof (induction rule: rtranclp_induct)
  case (step y z)
  then have g: "grown (idb_base y) (idb_base z)" "base_ok se (idb_base z)" and z: "z = y\<lparr>idb_base := idb_base z\<rparr>"
    using store_step_grown [OF step.hyps(2) assms(2)] by auto
  have "rows_among (idb_base y) (run_ids (idb_base y)) p = {}" if "rows_among (idb_base z) (run_ids (idb_base z)) p = {}" for p
    using that grown_rows(1) [OF g(1) order_refl, of p] grown_rows(4) [OF g(1) order_refl]
      rows_among_mono [of "run_ids (idb_base y)" "run_ids (idb_base z)" "idb_base z" p] by auto
  moreover have "source_in z i = source_in y i" for i by (subst z) (simp add: source_in_def)
  ultimately show ?case using step.IH g(2) by (simp add: calm_def only_repeat_pair_def)
qed (use assms in simp)

lemma mark_rebuilt_simps [simp]: "idb_base (mark_rebuilt db) = idb_base db" "idb_rebuilt (mark_rebuilt db)"
  "source_in (mark_rebuilt db) i = source_in db i" "issue_exact e p S (mark_rebuilt db) = issue_exact e p S db"
  by (simp_all add: mark_rebuilt_def source_in_def issue_exact_def)

lemma rebuild_inv:
  assumes "rebuild_all e synced db = Done (synced', db')" "ids_ok e" "base_ok se (idb_base db)" "calm e db" "only_repeat_pair e db"
  shows "sync_inv e se db' \<and> idb_rebuilt db' \<and> idb_base db' = idb_base db \<and>
     (\<forall>p \<in> real_pairs. pair_settled e p (run_ids (idb_base db)) db')"
proof -
  from assms(1) obtain db1 where run: "merge_runs e True (fill_sync_runs Every_Run (idb_base db)) synced db = Done (synced', db1)"
      and db': "db' = mark_rebuilt db1"
    by (auto simp: rebuild_all_def split: outcome.splits)
  have base: "idb_base db1 = idb_base db" by (rule merge_runs_base [OF run])
  have settled: "pair_settled e p (run_ids (idb_base db)) db'" if "p \<in> real_pairs" for p
    using merge_runs_settles [OF run assms(2) rows_real_fill that mine_fill_all, of "{}", unfolded base] assms(4) that
    unfolding Un_empty_left by (simp add: pair_settled_def db' base calm_def)
  moreover have "only_repeat_pair e db'"
    using merge_runs_only [OF run assms(5)] by (simp add: only_repeat_pair_def db')
  ultimately show ?thesis using assms(3) by (auto simp: sync_inv_def db' base)
qed

lemma set_queue_simps [simp]: "source_in (set_queue q db) i = source_in db i"
  "idb_base (set_queue q db) = (idb_base db)\<lparr>db_sync_queue := q\<rparr>" "issue_exact e p S (set_queue q db) = issue_exact e p S db"
  by (simp_all add: set_queue_def source_in_def issue_exact_def)

lemma merge_runs_keeps_repeat:
  assumes "merge_runs e False rows synced db = Done (synced', db')" "ids_ok e" "rows_real rows" "p \<in> real_pairs"
    and "source_in db (pair_id e p) = Some By_Repeat_Connections"
  shows "source_in db' (pair_id e p) = Some By_Repeat_Connections"
proof -
  have "pair_id e p \<notin> pair_id e ` set (wanted_pairs e False rows db)" using assms(5) by (auto simp: wanted_pairs_set)
  from merge_runs_others [OF assms(1-3) this] show ?thesis using assms(5) by (simp add: source_in_same)
qed


lemma batch_inv:
  assumes inv: "sync_inv e se db" and rebuilt: "idb_rebuilt db" and ids: "ids_ok e" "set ids \<subseteq> set (queued db)"
    and step: "merge_batch e ids synced db = Done (synced', db')"
  shows "sync_inv e se db'" "idb_rebuilt db'"
proof -
  from step obtain db1 where run: "merge_runs e False (fill_sync_runs (Batch_Runs ids) (idb_base db)) synced db = Done (synced', db1)"
      and db': "db' = dequeue ids db1"
    by (auto simp: merge_batch_def split: outcome.splits)
  have base: "idb_base db1 = idb_base db" and rb: "idb_rebuilt db1" using merge_runs_frame [OF run] rebuilt by (auto simp: same_frame_def)
  then have "queued db1 = queued db" by (simp add: queued_def)
  then have eq: "db' = set_queue (filter (\<lambda>i. i \<notin> set ids) (queued db)) db1" by (simp add: db' dequeue_def)
  show "idb_rebuilt db'" using rb by (simp add: eq)
  have "\<exists>M. pair_settled e p M db'" if p: "p \<in> real_pairs" and src: "source_in db' (pair_id e p) \<noteq> Some By_Repeat_Connections" for p
  proof -
    have s: "source_in db (pair_id e p) \<noteq> Some By_Repeat_Connections"
      using merge_runs_keeps_repeat [OF run ids(1) rows_real_fill p] src by (auto simp: eq)
    from sync_invD [OF inv rebuilt p s] obtain M where M: "pair_settled e p M db" by blast
    let ?N = "set ids \<inter> run_ids (idb_base db)"
    have N: "mine p (fill_sync_runs (Batch_Runs ids) (idb_base db)) = rows_among (idb_base db) ?N p"
      by (auto simp: mine_fill rows_among_def dest: all_rows_id)
    have "pair_settled e p (M \<union> ?N) db'"
      using merge_runs_settles [OF run ids(1) rows_real_fill p N, of M, unfolded base] M s
      by (auto simp: pair_settled_def eq base split: if_splits)
    then show ?thesis ..
  qed
  moreover have "only_repeat_pair e db'"
    using merge_runs_only [OF run] inv by (simp add: only_repeat_pair_def eq sync_inv_def)
  ultimately show "sync_inv e se db'" using inv \<open>idb_rebuilt db'\<close> by (auto simp: sync_inv_def eq base)
qed

text \<open>Nothing but the issue with this id has changed.\<close>

lemma same_issue_settled:
  assumes "same_issue (pair_id e p) db db'" "idb_base db' = idb_base db"
  shows "pair_settled e p M db' = pair_settled e p M db"
  using source_in_same [OF assms(1)] issue_exact_same [OF assms(1), of "rows_among (idb_base db) M p"] assms(2)
  by (simp add: pair_settled_def queued_def)

lemma repeat_pair_real [simp]: "repeat_pair \<in> real_pairs"
  by (auto simp: real_pairs_def REPEAT_CONNECTION_ACTOR_LABEL_def intro!: image_eqI [of _ _ Brute_Force_Bot])

lemma other_pair: "ids_ok e \<Longrightarrow> p \<in> real_pairs \<Longrightarrow> p \<noteq> repeat_pair \<Longrightarrow> pair_id e p \<noteq> pair_id e repeat_pair"
  unfolding ids_ok_def by (metis inj_onD repeat_pair_real)

lemma linked_map_Pair: "linked j (map (Pair i) xs) = (if j = i then set xs else {})"
  by (auto simp: linked_def)

lemma linked_filter_not: "linked j (filter (\<lambda>row. fst row \<noteq> i) rows) = (if j = i then {} else linked j rows)"
  by (auto simp: linked_def)

lemma write_repeat_effect:
  assumes "write_repeat_connection_issue issue db = (w, db')"
  shows "j \<noteq> isr_id issue \<Longrightarrow> same_issue j db db'" "source_in db' (isr_id issue) = Some By_Repeat_Connections"
  using assms
  by (auto simp: write_repeat_connection_issue_def Let_def same_issue_def source_in_def update_issue_def replace_sessions_def
      replace_mitre_techniques_def upsert_issue_def linked_map_Pair linked_filter_not split: option.splits)

lemma repeat_issue_id: "isr_id (build_repeat_connection_issue e a) = pair_id e repeat_pair"
  by (simp add: build_repeat_connection_issue_def Let_def pair_id_def)

abbreviation repeat_rows :: "database \<Rightarrow> sync_run list" where
  "repeat_rows base \<equiv> fill_sync_runs (Pair_Runs REPEAT_CONNECTION_ACTOR_LABEL REPEAT_CONNECTION_MITRE_TAG) base"

definition repeat_check :: "sync_env \<Rightarrow> issue_db \<Rightarrow> repeat_aggregate option" where
  "repeat_check e db = aggregate_repeat_connections (sy_window_seconds e) (sy_min_sessions e) (idb_base db)"

lemma repeat_stepE:
  assumes "sync_repeat_connection_issue e synced db = Done (synced', db')"
  obtains (check) a w where "repeat_check e db = Some a"
      "write_repeat_connection_issue (build_repeat_connection_issue e a) db = (w, db')"
    | (idle) "repeat_check e db = None" "source_in db (pair_id e repeat_pair) \<noteq> Some By_Repeat_Connections" "db' = db"
    | (handed) "repeat_check e db = None" "source_in db (pair_id e repeat_pair) = Some By_Repeat_Connections"
      "merge_runs e True (repeat_rows (idb_base db)) synced db = Done (synced', db')"
proof -
  have id: "issue_id_for_pair e REPEAT_CONNECTION_ACTOR_LABEL REPEAT_CONNECTION_MITRE_TAG = pair_id e repeat_pair"
    by (simp add: pair_id_def)
  show thesis
    using assms that unfolding sync_repeat_connection_issue_def Let_def id repeat_check_def [symmetric]
    by (auto split: option.splits if_splits prod.splits)
qed

lemma handed_back:
  assumes "merge_runs e True (repeat_rows (idb_base db)) synced db = Done (synced', db')" "ids_ok e"
    and "source_in db (pair_id e repeat_pair) = Some By_Repeat_Connections"
  shows "p \<in> real_pairs \<Longrightarrow> p \<noteq> repeat_pair \<Longrightarrow> same_issue (pair_id e p) db db'"
    "pair_settled e repeat_pair (run_ids (idb_base db)) db'"
proof -
  have base: "idb_base db' = idb_base db" by (rule merge_runs_base [OF assms(1)])
  show "same_issue (pair_id e p) db db'" if "p \<in> real_pairs" "p \<noteq> repeat_pair"
  proof (rule merge_runs_elsewhere [OF assms(1,2) rows_real_fill that(1)])
    show "p \<notin> pair_of ` set (repeat_rows (idb_base db))"
      using that(2) by (auto simp: fill_sync_runs_def pair_of_def)
  qed
  have "if rows_among (idb_base db') ({} \<union> run_ids (idb_base db)) repeat_pair = {}
      then source_in db' (pair_id e repeat_pair) \<noteq> Some By_Classifier
      else issue_exact e repeat_pair (rows_among (idb_base db') ({} \<union> run_ids (idb_base db)) repeat_pair) db'"
    by (rule merge_runs_settles [OF assms(1,2) rows_real_fill repeat_pair_real mine_fill_pair]) (use assms(3) in simp_all)
  then show "pair_settled e repeat_pair (run_ids (idb_base db)) db'"
    unfolding Un_empty_left base by (simp add: pair_settled_def base)
qed

lemma repeat_effect:
  assumes inv: "sync_inv e se db" and rebuilt: "idb_rebuilt db" and ids: "ids_ok e"
    and step: "sync_repeat_connection_issue e synced db = Done (synced', db')"
  shows "same_frame db db' \<and> (\<forall>p. p \<in> real_pairs \<longrightarrow> p \<noteq> repeat_pair \<longrightarrow> same_issue (pair_id e p) db db') \<and>
    (source_in db' (pair_id e repeat_pair) = Some By_Repeat_Connections \<or> (\<exists>M. pair_settled e repeat_pair M db'))"
  using step
proof (cases rule: repeat_stepE)
  case (check a w)
  then show ?thesis
    using write_repeat_frame [OF check(2)] write_repeat_effect [OF check(2)] other_pair [OF ids]
    by (simp del: split_paired_All add: repeat_issue_id)
next
  case idle
  then show ?thesis using sync_invD [OF inv rebuilt repeat_pair_real] by (simp add: same_issue_def)
next
  case handed
  then show ?thesis
    using handed_back [OF handed(3) ids handed(2)] merge_runs_frame [OF handed(3)] by blast
qed

lemma repeat_only:
  assumes step: "sync_repeat_connection_issue e synced db = Done (synced', db')" and only: "only_repeat_pair e db"
  shows "only_repeat_pair e db'"
  using step
proof (cases rule: repeat_stepE)
  case (check a w)
  have "source_in db' j = source_in db j" if "j \<noteq> pair_id e repeat_pair" for j
    using write_repeat_effect(1) [OF check(2), of j] that source_in_same by (simp add: repeat_issue_id)
  then show ?thesis using only unfolding only_repeat_pair_def by metis
qed (use only merge_runs_only in auto)

lemma repeat_inv:
  assumes inv: "sync_inv e se db" and rebuilt: "idb_rebuilt db" and ids: "ids_ok e"
    and step: "sync_repeat_connection_issue e synced db = Done (synced', db')"
  shows "sync_inv e se db'"
proof -
  from repeat_effect [OF assms] have effect: "same_frame db db'"
      "\<And>p. p \<in> real_pairs \<Longrightarrow> p \<noteq> repeat_pair \<Longrightarrow> same_issue (pair_id e p) db db'"
      "source_in db' (pair_id e repeat_pair) = Some By_Repeat_Connections \<or> (\<exists>M. pair_settled e repeat_pair M db')"
    by blast+
  have base: "idb_base db' = idb_base db" "idb_rebuilt db'" using effect(1) rebuilt by (auto simp: same_frame_def)
  have "\<exists>M. pair_settled e p M db'" if p: "p \<in> real_pairs" and src: "source_in db' (pair_id e p) \<noteq> Some By_Repeat_Connections" for p
  proof (cases "p = repeat_pair")
    case False
    have same: "same_issue (pair_id e p) db db'" by (rule effect(2) [OF p False])
    then show ?thesis
      using sync_invD [OF inv rebuilt p] src same_issue_settled [OF same base(1)] source_in_same [OF same] by auto
  qed (use effect(3) src in blast)
  then show ?thesis using inv base repeat_only [OF step] by (simp add: sync_inv_def)
qed


lemma triage_same:
  "source_in (update_issue_status i st db) j = source_in db j" "same_frame db (update_issue_status i st db)"
  "issue_exact e p S (update_issue_status i st db) = issue_exact e p S db"
  by (auto simp: update_issue_status_def update_issue_def source_in_def same_frame_def issue_exact_def row_shows_def row_says_def
      split: option.splits)

lemma sync_inv_triage: "sync_inv e se db \<Longrightarrow> sync_inv e se (update_issue_status i st db)"
proof -
  have frame: "idb_base (update_issue_status i st db) = idb_base db" "idb_rebuilt (update_issue_status i st db) = idb_rebuilt db"
    using triage_same(2) [of db i st] by (simp_all add: same_frame_def)
  have "pair_settled e p M (update_issue_status i st db) = pair_settled e p M db" for p M
    by (simp add: pair_settled_def queued_def frame triage_same)
  then show "sync_inv e se db \<Longrightarrow> sync_inv e se (update_issue_status i st db)"
    by (simp add: sync_inv_def frame triage_same(1) only_repeat_pair_def)
qed

lemma sync_inv_turns [simp]: "sync_inv e se (db\<lparr>idb_turns := ts\<rparr>) = sync_inv e se db"
  by (simp add: sync_inv_def pair_settled_def queued_def source_in_def issue_exact_def only_repeat_pair_def)

lemma sync_step_inv:
  assumes "sync_step e se db db'" "ids_ok e" "inj (se_run_id se)" "sync_inv e se db"
  shows "sync_inv e se db'"
  using assms(1)
proof (cases rule: sync_step.cases)
  case stored
  then show ?thesis using sync_inv_store assms by blast
next
  case (rebuilt mid synced synced')
  have "base_ok se (idb_base (clear_queue db))" "calm e (clear_queue db)" "only_repeat_pair e (clear_queue db)"
    using assms(4) calm_inv [OF assms(4)] by (simp_all add: sync_inv_def)
  then show ?thesis using calm_stores [OF rebuilt(1) assms(3)] rebuild_inv [OF rebuilt(2) assms(2)] by blast
next
  case (batch_merged ids synced synced')
  then show ?thesis using batch_inv [OF assms(4) _ assms(2)] by blast
next
  case (repeats_checked synced synced')
  then show ?thesis using repeat_inv [OF assms(4) _ assms(2)] by blast
qed (use assms(4) sync_inv_triage in auto)

lemma reachable_inv:
  assumes "fresh_db se db0" "(sync_step e se)\<^sup>*\<^sup>* db0 db" "ids_ok e" "inj (se_run_id se)"
  shows "sync_inv e se db"
  using assms(2,1) by (induction rule: rtranclp_induct) (auto intro: sync_inv_fresh sync_step_inv [OF _ assms(3,4)])

lemma settled_issue:
  assumes "fresh_db se db0" "(sync_step e se)\<^sup>*\<^sup>* db0 db" "ids_ok e" "inj (se_run_id se)"
    and "p \<in> real_pairs" "source_in db (pair_id e p) = Some By_Classifier"
  shows "\<exists>M. run_ids (idb_base db) - set (queued db) \<subseteq> M \<and> M \<subseteq> run_ids (idb_base db) \<and>
     rows_among (idb_base db) M p \<noteq> {} \<and> issue_exact e p (rows_among (idb_base db) M p) db"
proof -
  have inv: "sync_inv e se db" by (rule reachable_inv [OF assms(1-4)])
  have "idb_rebuilt db" using inv assms(6) by (cases "idb_rebuilt db") (simp_all add: sync_inv_def)
  then have "\<exists>M. pair_settled e p M db" using sync_invD [OF inv _ assms(5)] assms(6) by simp
  then show ?thesis using assms(6) by (auto simp: pair_settled_def split: if_splits)
qed

text \<open>C24: Whatever is stored, merged, rebuilt, triaged and counted, in whatever order and batches, an
  issue of the classifier shows exactly the totals of a set of runs that contains every stored run
  no longer queued: its distinct sessions, personas and addresses, the first and last time, the
  highest risk, the first evidence samples and the texts built from them, with the bridge rows of
  exactly those sessions, personas and addresses. Runs stored while a rebuild is reading are no exception.\<close>

theorem classifier_issue_exact:
  assumes "fresh_db se db0" "(sync_step e se)\<^sup>*\<^sup>* db0 db" "ids_ok e" "inj (se_run_id se)"
    and "p \<in> real_pairs" "source_in db (pair_id e p) = Some By_Classifier"
  shows "\<exists>M. run_ids (idb_base db) - set (queued db) \<subseteq> M \<and> M \<subseteq> run_ids (idb_base db) \<and>
     rows_among (idb_base db) M p \<noteq> {} \<and> issue_exact e p (rows_among (idb_base db) M p) db"
  using assms by (rule settled_issue)

end
