(* ===== verification/IssueSyncProps.thy ===== *)
theory IssueSyncProps
  imports IssueSyncSteps FeatureProps AlertGroupProps
begin

text \<open>
  What a pass of the issue sync promises: it ends, leaves nothing queued and agrees with a rebuild
  of everything; what changes an issue's status; and what one impossible date does to it. The
  last section is the gate that lets one pass run at a time.
\<close>

section \<open>A pass\<close>

text \<open>Dates \<open>datetime\<close> can show; the bound is in the year 9575.\<close>

definition dates_ok :: "database \<Rightarrow> bool" where
  "dates_ok base \<longleftrightarrow> (\<forall>r \<in> all_rows base. 0 \<le> sr_started_at r \<and> sr_started_at r < 240000000000)"

lemma whole_seconds_bounds:
  assumes "0 \<le> t" "t < of_int n" shows "0 \<le> whole_seconds t" "whole_seconds t \<le> n"
proof -
  have "0 \<le> round_half_even (t * 1000000) \<and> round_half_even (t * 1000000) \<le> n * 1000000"
    by (rule round_half_even_bounds) (use assms in simp_all)
  then show "0 \<le> whole_seconds t" "whole_seconds t \<le> n" by (auto simp: whole_seconds_def)
qed

lemma civil_year_bounds:
  assumes "0 \<le> days" "days \<le> 2777777" "civil_from_days days = (year, month, day)"
  shows "1 \<le> year \<and> year \<le> 9999"
proof -
  define era where "era = (days + 719468) div 146097"
  define doe where "doe = (days + 719468) mod 146097"
  define yoe where "yoe = (doe - doe div 1460 + doe div 36524 - doe div 146096) div 365"
  have era: "4 \<le> era" "era \<le> 23" using assms(1,2) by (simp_all add: era_def)
  have doe: "0 \<le> doe" "doe < 146097" by (simp_all add: doe_def)
  then have "0 \<le> doe div 1460" "doe div 1460 \<le> 100" "0 \<le> doe div 36524" "doe div 36524 \<le> 4"
      "0 \<le> doe div 146096" "doe div 146096 \<le> 1" by simp_all
  with doe have n: "- 365 \<le> doe - doe div 1460 + doe div 36524 - doe div 146096"
      "doe - doe div 1460 + doe div 36524 - doe div 146096 \<le> 146100" by linarith+
  have yoe: "- 1 \<le> yoe" "yoe \<le> 400" unfolding yoe_def
    using zdiv_mono1 [OF n(1), of 365] zdiv_mono1 [OF n(2), of 365] by simp_all
  have leap: "x + (if b then 1 else 0) = x \<or> x + (if b then 1 else 0) = x + 1" for x :: int and b by simp
  have "fst (civil_from_days days) = yoe + era * 400 \<or> fst (civil_from_days days) = yoe + era * 400 + 1"
    unfolding civil_from_days_def Let_def fst_conv yoe_def doe_def era_def by (rule leap)
  then show ?thesis using era yoe assms(3) by (simp only: fst_conv) linarith
qed

lemma minute_text_total:
  assumes "0 \<le> t" "t < 240000000000" shows "\<exists>s. minute_text t = Done s"
proof -
  have "0 \<le> whole_seconds t" "whole_seconds t \<le> 240000000000" using whole_seconds_bounds [of t 240000000000] assms by simp_all
  then have "0 \<le> whole_seconds t div 86400" "whole_seconds t div 86400 \<le> 2777777" by simp_all
  then show ?thesis using civil_year_bounds by (fastforce simp: minute_text_def split: prod.splits)
qed


lemma issue_of_total:
  assumes "S \<subseteq> all_rows base" "S \<noteq> {}" "dates_ok base"
  shows "\<exists>issue. issue_of e p (totals_of base S) = Done issue"
proof -
  have fin: "finite S" by (rule finite_subset [OF assms(1)]) simp
  then have "Min (sr_started_at ` S) \<in> sr_started_at ` S" "Max (sr_started_at ` S) \<in> sr_started_at ` S"
    using assms(2) by simp_all
  then obtain r1 r2 where r: "r1 \<in> S" "Min (sr_started_at ` S) = sr_started_at r1" "r2 \<in> S" "Max (sr_started_at ` S) = sr_started_at r2"
    by (auto elim!: imageE)
  then have "\<exists>a. minute_text (sr_started_at r1) = Done a" "\<exists>b. minute_text (sr_started_at r2) = Done b"
    using assms(1,3) by (auto simp: dates_ok_def intro!: minute_text_total)
  then obtain a b where ab: "minute_text (Min (sr_started_at ` S)) = Done a" "minute_text (Max (sr_started_at ` S)) = Done b"
    unfolding r by blast
  then have "\<exists>w. seen_window (ru_first_seen (totals_of base S)) (ru_last_seen (totals_of base S)) = Done w"
    by (simp add: seen_window_def totals_of_def)
  then show ?thesis by (auto simp: issue_of_def build_issue_def build_evidence_def Let_def)
qed

lemma rebuild_total:
  assumes "ids_ok e" "dates_ok (idb_base db)"
  shows "\<exists>r. merge_runs e True (fill_sync_runs scope (idb_base db)) synced db = Done r"
proof (rule merge_runs_total [OF assms(1) rows_real_fill])
  fix p assume p: "p \<in> set (wanted_pairs e True (fill_sync_runs scope (idb_base db)) db)"
  let ?W = "mine p (fill_sync_runs scope (idb_base db))"
  have "?W \<noteq> {}" using p by (auto simp: mine_empty wanted_pairs_set)
  moreover have "?W \<subseteq> all_rows (idb_base db)" by (auto simp: mine_fill)
  ultimately have "\<exists>issue. issue_of e p (totals_of (idb_base db) ({} \<union> ?W)) = Done issue"
    using issue_of_total [OF _ _ assms(2)] by simp
  moreover have "shows_before e True p {} db" by (simp add: shows_before_def)
  ultimately show "\<exists>S issue. shows_before e True p S db \<and> issue_of e p (totals_of (idb_base db) (S \<union> ?W)) = Done issue"
    by blast
qed

lemma batch_total:
  assumes inv: "sync_inv e se db" "idb_rebuilt db" and ids: "ids_ok e" and dates: "dates_ok (idb_base db)"
  shows "\<exists>r. merge_runs e False (fill_sync_runs scope (idb_base db)) synced db = Done r"
proof (rule merge_runs_total [OF ids rows_real_fill])
  fix p assume p: "p \<in> set (wanted_pairs e False (fill_sync_runs scope (idb_base db)) db)"
  let ?W = "mine p (fill_sync_runs scope (idb_base db))"
  have W: "?W \<noteq> {}" "?W \<subseteq> all_rows (idb_base db)"
    using p mine_empty [of p "fill_sync_runs scope (idb_base db)"] by (auto simp: wanted_pairs_set mine_fill)
  have real: "p \<in> real_pairs" using p rows_real_fill [of scope "idb_base db"] by (auto simp: wanted_pairs_set rows_real_def)
  have "source_in db (pair_id e p) \<noteq> Some By_Repeat_Connections" using p by (simp add: wanted_pairs_set)
  from sync_invD [OF inv real this] obtain M where M: "pair_settled e p M db" by blast
  let ?S = "rows_among (idb_base db) M p"
  have "shows_before e False p ?S db"
    using M issue_exact_source [of e p ?S db] by (auto simp: shows_before_def pair_settled_def split: if_splits)
  moreover have "\<exists>issue. issue_of e p (totals_of (idb_base db) (?S \<union> ?W)) = Done issue"
    using issue_of_total [OF _ _ dates, of "?S \<union> ?W"] W rows_among_sub [of "idb_base db" M p] by simp
  ultimately show "\<exists>S issue. shows_before e False p S db \<and> issue_of e p (totals_of (idb_base db) (S \<union> ?W)) = Done issue"
    by blast
qed

lemma no_turns: "idb_turns db = [] \<Longrightarrow> db\<lparr>idb_turns := []\<rparr> = db"
  by (cases db) simp

lemma granted:
  "idb_turns db = [] \<Longrightarrow> issue_sync_transaction body db =
     (case body db of Raised x \<Rightarrow> (Inl (Sync_Raised x), db) | Done (a, db') \<Rightarrow> (Inr a, db'))"
  by (simp add: issue_sync_transaction_def no_turns cong: outcome.case_cong)

text \<open>Ready for the sync: the invariant holds, nothing raises, no transaction is lost.\<close>

definition sync_ready :: "sync_env \<Rightarrow> storage_env \<Rightarrow> issue_db \<Rightarrow> bool" where
  "sync_ready e se db \<longleftrightarrow> sync_inv e se db \<and> dates_ok (idb_base db) \<and> idb_turns db = []"

definition same_runs :: "issue_db \<Rightarrow> issue_db \<Rightarrow> bool" where
  "same_runs db db' \<longleftrightarrow> (\<exists>q. idb_base db' = (idb_base db)\<lparr>db_sync_queue := q\<rparr>)"

lemma same_runs_refl [simp]: "same_runs db db"
  unfolding same_runs_def by (rule exI [of _ "db_sync_queue (idb_base db)"]) simp

lemma same_runs_trans: "same_runs a b \<Longrightarrow> same_runs b c \<Longrightarrow> same_runs a c"
  by (auto simp: same_runs_def)

lemma same_frame_runs: "same_frame a b \<Longrightarrow> same_runs a b"
  using same_runs_refl [of a] unfolding same_runs_def same_frame_def by metis

lemma dates_same: "same_runs db db' \<Longrightarrow> dates_ok (idb_base db') = dates_ok (idb_base db)"
  by (auto simp: same_runs_def dates_ok_def all_rows_def)

lemma first_step_total:
  assumes ready: "sync_ready e se db" and ids: "ids_ok e"
  shows "\<exists>synced db'. first_step e full db = Done (synced, db') \<and> sync_ready e se db' \<and> idb_rebuilt db' \<and> same_runs db db'"
proof (cases "full \<or> \<not> idb_rebuilt db")
  case True
  let ?db = "clear_queue db"
  have dates: "dates_ok (idb_base ?db)" using ready dates_same [of db ?db] by (auto simp: sync_ready_def same_runs_def)
  from rebuild_total [OF ids dates] obtain s db1 where
    run: "merge_runs e True (fill_sync_runs Every_Run (idb_base ?db)) [] ?db = Done (s, db1)" by force
  then have all: "rebuild_all e [] ?db = Done (s, mark_rebuilt db1)" by (simp add: rebuild_all_def)
  have "sync_inv e se (mark_rebuilt db1)" "idb_base (mark_rebuilt db1) = idb_base ?db"
    using rebuild_inv [OF all ids] ready calm_inv [of e se db] by (auto simp: sync_ready_def sync_inv_def)
  moreover have "idb_turns (mark_rebuilt db1) = []"
    using merge_runs_frame [OF run] ready by (simp add: same_frame_def sync_ready_def mark_rebuilt_def clear_queue_def)
  ultimately show ?thesis using True all dates by (auto simp: first_step_def sync_ready_def same_runs_def)
qed (use ready in \<open>auto simp: first_step_def\<close>)

lemma merge_queue_total:
  assumes "sync_ready e se db" "idb_rebuilt db" "ids_ok e" "0 < n"
  shows "\<exists>synced' db'. merge_queue e n synced db = (Inr synced', db') \<and> sync_ready e se db' \<and> idb_rebuilt db' \<and>
     same_runs db db' \<and> queued db' = []"
  using assms
proof (induction e n synced db rule: merge_queue.induct)
  case (1 e n synced db)
  have turns: "idb_turns db = []" using 1(2) by (simp add: sync_ready_def)
  show ?case
  proof (cases "queued db = []")
    case True
    then have "batch_step e n synced db = Done (None, db)" by (simp add: batch_step_def next_queued_run_ids_def)
    then show ?thesis using 1(2,3) True by (subst merge_queue.simps) (simp add: granted turns)
  next
    case False
    let ?ids = "take n (queued db)"
    have ids: "?ids \<noteq> []" "set ?ids \<subseteq> set (queued db)" using False 1(5) by (auto dest: in_set_takeD)
    from batch_total [of e se db] 1(2-4) obtain s db1 where
      run: "merge_runs e False (fill_sync_runs (Batch_Runs ?ids) (idb_base db)) synced db = Done (s, db1)"
      by (force simp: sync_ready_def)
    let ?db' = "dequeue ?ids db1"
    have batch: "merge_batch e ?ids synced db = Done (s, ?db')" using run by (simp add: merge_batch_def)
    with ids(1) have step: "batch_step e n synced db = Done (Some s, ?db')"
      by (simp add: batch_step_def next_queued_run_ids_def)
    have frame: "same_frame db db1" by (rule merge_runs_frame [OF run])
    have same: "same_runs db ?db'" using frame by (auto simp: same_runs_def dequeue_def same_frame_def)
    have ready: "sync_ready e se ?db'"
      using batch_inv(1) [OF _ 1(3) 1(4) ids(2) batch] 1(2) dates_same [OF same] frame
      by (simp add: sync_ready_def same_frame_def dequeue_def)
    have "idb_rebuilt ?db'" using frame 1(3) by (simp add: same_frame_def dequeue_def)
    from 1(1) [of "Inr (Some s)" ?db' "Some s" s] this ready 1(4,5) same show ?thesis
      by (subst merge_queue.simps) (auto simp: granted turns step intro: same_runs_trans)
  qed
qed


lemma repeat_total:
  assumes "ids_ok e" "dates_ok (idb_base db)"
  shows "\<exists>synced' db'. sync_repeat_connection_issue e synced db = Done (synced', db')"
proof -
  obtain r where "merge_runs e True (repeat_rows (idb_base db)) synced db = Done r" using rebuild_total [OF assms] by blast
  then show ?thesis by (cases r) (auto simp: sync_repeat_connection_issue_def Let_def split: option.splits prod.splits)
qed

text \<open>With an empty queue every issue shows all runs.\<close>

abbreviation pair_rows :: "database \<Rightarrow> str \<times> str \<Rightarrow> sync_run set" where
  "pair_rows base p \<equiv> rows_among base (run_ids base) p"

lemma settled_all:
  assumes "pair_settled e p M db" "queued db = []" "pair_rows (idb_base db) p \<noteq> {}"
  shows "issue_exact e p (pair_rows (idb_base db) p) db"
proof -
  have "M = run_ids (idb_base db)" using assms(1,2) by (auto simp: pair_settled_def)
  then show ?thesis using assms(1,3) by (auto simp: pair_settled_def)
qed

lemma repeat_step_all:
  assumes ready: "sync_ready e se db" "idb_rebuilt db" "queued db = []" and ids: "ids_ok e"
    and step: "sync_repeat_connection_issue e synced db = Done (synced', db')"
    and p: "p \<in> real_pairs" "pair_rows (idb_base db) p \<noteq> {}" "p \<noteq> repeat_pair \<or> repeat_check e db = None"
  shows "issue_exact e p (pair_rows (idb_base db) p) db'"
proof -
  have inv: "sync_inv e se db" using ready(1) by (simp add: sync_ready_def)
  have settled: "issue_exact e p (pair_rows (idb_base db) p) db" if "source_in db (pair_id e p) \<noteq> Some By_Repeat_Connections"
  proof -
    from sync_invD [OF inv ready(2) p(1) that] obtain M where "pair_settled e p M db" by blast
    from settled_all [OF this ready(3) p(2)] show ?thesis .
  qed
  show ?thesis
  proof (cases "p = repeat_pair")
    case False
    have same: "same_issue (pair_id e p) db db'" "same_frame db db'"
      using repeat_effect [OF inv ready(2) ids step] p(1) False by blast+
    have "source_in db (pair_id e p) \<noteq> Some By_Repeat_Connections"
      using inv other_pair [OF ids p(1) False] by (auto simp: sync_inv_def only_repeat_pair_def)
    from settled [OF this] issue_exact_same [OF same(1), of "pair_rows (idb_base db) p"] same(2) show ?thesis
      by (simp add: same_frame_def)
  next
    case True
    from step show ?thesis
    proof (cases rule: repeat_stepE)
      case handed
      note settled = handed_back(2) [OF handed(3) ids handed(2)]
      have "idb_base db' = idb_base db" by (rule merge_runs_base [OF handed(3)])
      then show ?thesis using settled True p(2) by (auto simp: pair_settled_def)
    qed (use settled p(3) True in auto)
  qed
qed

lemma pass_total:
  assumes ready: "sync_ready e se db" and ids: "ids_ok e" and n: "0 < n"
  shows "\<exists>issues db'. sync_issues_from_classifier_runs e full n db = (Inr issues, db') \<and> queued db' = [] \<and>
     idb_base db' = (idb_base db)\<lparr>db_sync_queue := []\<rparr> \<and>
     (\<forall>p. p \<in> real_pairs \<longrightarrow> pair_rows (idb_base db) p \<noteq> {} \<longrightarrow> (p \<noteq> repeat_pair \<or> repeat_check e db = None) \<longrightarrow>
        issue_exact e p (pair_rows (idb_base db) p) db')"
proof -
  from first_step_total [OF ready ids, of full] obtain s1 db1 where
    1: "first_step e full db = Done (s1, db1)" "sync_ready e se db1" "idb_rebuilt db1" "same_runs db db1" by blast
  from merge_queue_total [OF 1(2,3) ids n, of s1] obtain s2 db2 where
    2: "merge_queue e n s1 db1 = (Inr s2, db2)" "sync_ready e se db2" "idb_rebuilt db2" "same_runs db1 db2" "queued db2 = []" by blast
  from repeat_total [OF ids, of db2 s2] 2(2) obtain s3 db3 where
    3: "sync_repeat_connection_issue e s2 db2 = Done (s3, db3)" by (auto simp: sync_ready_def)
  have same: "same_runs db db2" by (rule same_runs_trans [OF 1(4) 2(4)])
  then have base2: "idb_base db2 = (idb_base db)\<lparr>db_sync_queue := []\<rparr>" using 2(5) by (auto simp: same_runs_def queued_def)
  have check: "repeat_check e db2 = repeat_check e db" by (simp add: repeat_check_def base2 aggregate_repeat_connections_def)
  have base3: "idb_base db3 = idb_base db2"
    using repeat_effect [OF _ 2(3) ids 3, of se] 2(2) by (simp add: sync_ready_def same_frame_def)
  have "issue_exact e p (pair_rows (idb_base db) p) db3"
    if "p \<in> real_pairs" "pair_rows (idb_base db) p \<noteq> {}" "p \<noteq> repeat_pair \<or> repeat_check e db = None" for p
    using repeat_step_all [OF 2(2,3,5) ids 3 that(1)] that(2,3) by (simp add: check base2)
  moreover have "sync_issues_from_classifier_runs e full n db = (Inr (map snd s3), db3)"
    using 1 2 3 ready by (simp add: sync_issues_from_classifier_runs_def granted sync_ready_def)
  ultimately show ?thesis using base2 base3 by (simp add: queued_def)
qed

text \<open>All of an issue but its status and the time it was made.\<close>

definition issue_view :: "issue_db \<Rightarrow> str \<Rightarrow> issue_row option \<times> str set \<times> str set \<times> str set" where
  "issue_view db i = (map_option (\<lambda>row. row\<lparr>iss_status := Open, iss_created_at := 0\<rparr>) (dict_get (idb_issues db) i),
     linked i (idb_sessions db), linked i (idb_personas db), linked i (idb_source_ips db))"

lemma exact_same_view:
  assumes "issue_exact e p S db1" "issue_exact e p S db2" "totals_of (idb_base db1) S = totals_of (idb_base db2) S"
  shows "issue_view db1 (pair_id e p) = issue_view db2 (pair_id e p)"
proof -
  from assms obtain row1 row2 issue where
    "dict_get (idb_issues db1) (pair_id e p) = Some row1" "dict_get (idb_issues db2) (pair_id e p) = Some row2"
    "row_shows row1 (totals_of (idb_base db2) S)" "row_shows row2 (totals_of (idb_base db2) S)"
    "row_says row1 issue" "row_says row2 issue" "iss_source row1 = iss_source row2"
    by (auto simp: issue_exact_def)
  then show ?thesis using assms(1,2)
    by (auto simp: issue_view_def issue_exact_def row_shows_def row_says_def intro!: issue_row.equality)
qed

text \<open>C23: After any history in which every stored session start can be shown as a date, and with every transaction of
  the pass granted (the lock free and nothing failing while it runs), a pass that merges only the queued runs, in
  batches of any size, and a pass that rebuilds every issue from all stored runs both return, leave nothing queued, and
  leave every issue of the classifier, but for the one the repeat-connection check owns, the same in everything but
  its status: totals, texts and links. Both conditions are needed: a single run dated too far ahead makes every pass
  raise (\<open>far_date_stops_sync\<close>), and a pass that does not get the lock gives up.\<close>

theorem incremental_equals_rebuild:
  assumes "fresh_db se db0" "(sync_step e se)\<^sup>*\<^sup>* db0 db" "ids_ok e" "inj (se_run_id se)"
    and "dates_ok (idb_base db)" "idb_turns db = []" "0 < n" "0 < m"
  shows "\<exists>issues1 db1 issues2 db2.
     sync_issues_from_classifier_runs e False n db = (Inr issues1, db1) \<and>
     sync_issues_from_classifier_runs e True m db = (Inr issues2, db2) \<and> queued db1 = [] \<and> queued db2 = [] \<and>
     (\<forall>p. p \<in> real_pairs \<longrightarrow> pair_rows (idb_base db) p \<noteq> {} \<longrightarrow> (p \<noteq> repeat_pair \<or> repeat_check e db = None) \<longrightarrow>
        issue_view db1 (pair_id e p) = issue_view db2 (pair_id e p))"
proof -
  have ready: "sync_ready e se db" using reachable_inv [OF assms(1-4)] assms(5,6) by (simp add: sync_ready_def)
  from pass_total [OF ready assms(3,7), of False] obtain i1 db1 where 1: "sync_issues_from_classifier_runs e False n db = (Inr i1, db1)"
      "queued db1 = []" "idb_base db1 = (idb_base db)\<lparr>db_sync_queue := []\<rparr>"
      "\<And>p. p \<in> real_pairs \<Longrightarrow> pair_rows (idb_base db) p \<noteq> {} \<Longrightarrow> p \<noteq> repeat_pair \<or> repeat_check e db = None \<Longrightarrow>
        issue_exact e p (pair_rows (idb_base db) p) db1" by blast
  from pass_total [OF ready assms(3,8), of True] obtain i2 db2 where 2: "sync_issues_from_classifier_runs e True m db = (Inr i2, db2)"
      "queued db2 = []" "idb_base db2 = (idb_base db)\<lparr>db_sync_queue := []\<rparr>"
      "\<And>p. p \<in> real_pairs \<Longrightarrow> pair_rows (idb_base db) p \<noteq> {} \<Longrightarrow> p \<noteq> repeat_pair \<or> repeat_check e db = None \<Longrightarrow>
        issue_exact e p (pair_rows (idb_base db) p) db2" by blast
  have "issue_view db1 (pair_id e p) = issue_view db2 (pair_id e p)"
    if "p \<in> real_pairs" "pair_rows (idb_base db) p \<noteq> {}" "p \<noteq> repeat_pair \<or> repeat_check e db = None" for p
    by (rule exact_same_view [OF 1(4) [OF that] 2(4) [OF that]]) (simp add: 1(3) 2(3))
  with 1 2 show ?thesis by blast
qed


section \<open>The status of an issue\<close>

lemma merged_row_status [simp]: "iss_status (rollup_row issue r row) = merged_status (isr_session_count issue) row"
  by (simp add: rollup_row_def)

text \<open>Merging runs into an issue of the classifier opens it when it gains a session it did not
  have, and otherwise leaves the status the analyst gave it.\<close>

theorem status_after_merge:
  assumes "fresh_db se db0" "(sync_step e se)\<^sup>*\<^sup>* db0 db" "ids_ok e" "inj (se_run_id se)"
    and "p \<in> real_pairs" "source_in db (pair_id e p) = Some By_Classifier"
    and "merge_batch e ids synced db = Done (synced', db')"
  shows "status_in (pair_id e p) db' =
     (if linked (pair_id e p) (idb_sessions db') = linked (pair_id e p) (idb_sessions db)
      then status_in (pair_id e p) db else Open)"
proof -
  let ?i = "pair_id e p" and ?rows = "fill_sync_runs (Batch_Runs ids) (idb_base db)"
  from assms(7) obtain db1 where run: "merge_runs e False ?rows synced db = Done (synced', db1)" and db': "db' = dequeue ids db1"
    by (auto simp: merge_batch_def split: outcome.splits)
  have same: "idb_issues db' = idb_issues db1" "idb_sessions db' = idb_sessions db1"
    by (simp_all add: db' dequeue_def set_queue_def)
  from settled_issue [OF assms(1-6)] obtain M where
    M: "rows_among (idb_base db) M p \<noteq> {}" "issue_exact e p (rows_among (idb_base db) M p) db" by blast
  let ?S = "rows_among (idb_base db) M p"
  from M(2) obtain old where old: "dict_get (idb_issues db) ?i = Some old" "iss_session_count old = card (sr_session_id ` ?S)"
      "linked ?i (idb_sessions db) = sr_session_id ` ?S"
    by (auto simp: issue_exact_def row_shows_def totals_of_def)
  show ?thesis
  proof (cases "p \<in> set (wanted_pairs e False ?rows db)")
    case True
    have "shows_before e False p ?S db" using M assms(6) by (simp add: shows_before_def)
    from merge_runs_written [OF run assms(3) rows_real_fill True this] old(1) obtain issue where
      new: "issue_of e p (totals_of (idb_base db) (?S \<union> mine p ?rows)) = Done issue"
        "dict_get (idb_issues db1) ?i = Some (rollup_row issue (totals_of (idb_base db) (?S \<union> mine p ?rows)) old)"
        "linked ?i (idb_sessions db1) = sr_session_id ` (?S \<union> mine p ?rows)" by metis
    define A B where "A = sr_session_id ` ?S" and "B = sr_session_id ` (?S \<union> mine p ?rows)"
    have count: "isr_session_count issue = card B"
      using issue_of_fields(2) [OF new(1)] by (simp add: totals_of_def B_def)
    have "A \<subseteq> B" "finite B" by (auto simp: A_def B_def)
    then have "card A < card B \<longleftrightarrow> B \<noteq> A" using psubset_card_mono [of B A] by blast
    then show ?thesis
      unfolding same status_in_def new(2,3) old A_def [symmetric] B_def [symmetric]
      by (simp add: merged_status_def old(2) count flip: A_def)
  next
    case False
    from merge_runs_others [OF run assms(3) rows_real_fill not_wanted_id [OF assms(3) rows_real_fill assms(5) False]]
    show ?thesis by (simp add: same_issue_def status_in_def same)
  qed
qed

text \<open>When the repeat-connection check no longer matches, the issue goes back to the classifier, and
  an issue an analyst has closed is opened although no session came: the session count of all the
  runs is compared with the count of the last check.\<close>

theorem handover_reopens_closed_issue:
  assumes "ids_ok e" "dates_ok (idb_base db)" "repeat_check e db = None"
    and "dict_get (idb_issues db) (pair_id e repeat_pair) = Some row" "iss_source row = Some By_Repeat_Connections"
    and "iss_status row = Closed" "iss_session_count row < card (sr_session_id ` pair_rows (idb_base db) repeat_pair)"
  shows "\<exists>synced' db'. sync_repeat_connection_issue e synced db = Done (synced', db') \<and> idb_base db' = idb_base db \<and>
     status_in (pair_id e repeat_pair) db' = Open"
proof -
  let ?rows = "repeat_rows (idb_base db)" and ?i = "pair_id e repeat_pair"
  have src: "source_in db ?i = Some By_Repeat_Connections" using assms(4,5) by (simp add: source_in_def)
  obtain synced' db' where run: "merge_runs e True ?rows synced db = Done (synced', db')"
    using rebuild_total [OF assms(1,2)] by fastforce
  have mine: "mine repeat_pair ?rows = pair_rows (idb_base db) repeat_pair" by (rule mine_fill_pair)
  have "pair_rows (idb_base db) repeat_pair \<noteq> {}" using assms(7) by auto
  then have wanted: "repeat_pair \<in> set (wanted_pairs e True ?rows db)"
    using mine mine_empty [of repeat_pair ?rows] by (simp add: wanted_pairs_set)
  have before: "shows_before e True repeat_pair {} db" by (simp add: shows_before_def)
  from merge_runs_written [OF run assms(1) rows_real_fill wanted before] assms(4) obtain issue where
    new: "issue_of e repeat_pair (totals_of (idb_base db) (mine repeat_pair ?rows)) = Done issue"
      "dict_get (idb_issues db') ?i = Some (rollup_row issue (totals_of (idb_base db) (mine repeat_pair ?rows)) row)"
    by (metis Un_empty_left)
  have "isr_session_count issue = card (sr_session_id ` pair_rows (idb_base db) repeat_pair)"
    using issue_of_fields(2) [OF new(1)] by (simp add: totals_of_def mine)
  then have "status_in ?i db' = Open" using new(2) assms(7) by (simp add: status_in_def merged_status_def)
  moreover have "sync_repeat_connection_issue e synced db = Done (synced', db')"
    using assms(3) src run by (simp add: sync_repeat_connection_issue_def repeat_check_def Let_def pair_id_def)
  ultimately show ?thesis using merge_runs_base [OF run] by blast
qed


section \<open>A date that cannot be shown\<close>

lemma far_year:
  assumes "11574074 \<le> days" "civil_from_days days = (year, month, day)" shows "9999 < year"
proof -
  define era where "era = (days + 719468) div 146097"
  define doe where "doe = (days + 719468) mod 146097"
  define yoe where "yoe = (doe - doe div 1460 + doe div 36524 - doe div 146096) div 365"
  have era: "84 \<le> era" using assms(1) by (simp add: era_def)
  have doe: "0 \<le> doe" "doe < 146097" by (simp_all add: doe_def)
  then have "doe div 1460 \<le> 100" "0 \<le> doe div 36524" "doe div 146096 \<le> 1" by simp_all
  with doe have n: "- 365 \<le> doe - doe div 1460 + doe div 36524 - doe div 146096" by linarith
  have yoe: "- 1 \<le> yoe" unfolding yoe_def using zdiv_mono1 [OF n, of 365] by simp
  have leap: "x + (if b then 1 else 0) = x \<or> x + (if b then 1 else 0) = x + 1" for x :: int and b by simp
  have "fst (civil_from_days days) = yoe + era * 400 \<or> fst (civil_from_days days) = yoe + era * 400 + 1"
    unfolding civil_from_days_def Let_def fst_conv yoe_def doe_def era_def by (rule leap)
  then show ?thesis using era yoe assms(2) by (simp only: fst_conv) linarith
qed

lemma far_minute:
  assumes "1000000000000 \<le> t" shows "\<exists>x. minute_text t = Raised x"
proof -
  have "1000000000000 * 1000000 \<le> round_half_even (t * 1000000) \<and> round_half_even (t * 1000000) \<le> \<lceil>t * 1000000\<rceil>"
    by (rule round_half_even_bounds) (use assms in simp_all)
  then have "1000000000000 * 1000000 \<le> round_half_even (t * 1000000)" by blast
  from zdiv_mono1 [OF this, of 1000000] have "1000000000000 \<le> whole_seconds t" by (simp add: whole_seconds_def)
  from zdiv_mono1 [OF this, of 86400] have "11574074 \<le> whole_seconds t div 86400" by simp
  then show ?thesis using far_year by (fastforce simp: minute_text_def split: prod.splits)
qed

lemma far_issue:
  assumes "ru_first_seen r = Some a" "ru_last_seen r = Some b" "1000000000000 \<le> b"
  shows "\<exists>x. issue_of e p r = Raised x"
proof -
  have "\<exists>x. seen_window (Some a) (Some b) = Raised x"
    using far_minute [OF assms(3)] by (auto simp: seen_window_def split: outcome.splits)
  then show ?thesis using assms by (auto simp: issue_of_def build_issue_def build_evidence_def Let_def)
qed

lemma far_totals:
  assumes "r \<in> mine p rows" "1000000000000 \<le> sr_started_at r"
  shows "\<exists>x. issue_of e q (new_totals fresh states added (pair_aggregate_of base rows p) i) = Raised x"
proof -
  have "sr_started_at r \<le> Max (sr_started_at ` mine p rows)" using assms(1) by (intro Max_ge) auto
  then have far: "1000000000000 \<le> agg_last_seen (pair_aggregate_of base rows p)" using assms(2) by (simp add: aggregate_of_mine)
  have some: "\<exists>v. combine min x (Some y) = Some v" "\<exists>v. combine max x (Some y) = Some v \<and> y \<le> v" for x and y :: rat
    by (cases x; simp add: combine_def)+
  have "\<exists>a. ru_first_seen (new_totals fresh states added (pair_aggregate_of base rows p) i) = Some a"
    "\<exists>b. ru_last_seen (new_totals fresh states added (pair_aggregate_of base rows p) i) = Some b \<and>
       agg_last_seen (pair_aggregate_of base rows p) \<le> b"
    by (simp_all only: new_totals_def merge_rollup_def Let_def rollup.simps some)
  then obtain a b where "ru_first_seen (new_totals fresh states added (pair_aggregate_of base rows p) i) = Some a"
    "ru_last_seen (new_totals fresh states added (pair_aggregate_of base rows p) i) = Some b"
    "agg_last_seen (pair_aggregate_of base rows p) \<le> b" by blast
  with far show ?thesis using far_issue order_trans by blast
qed

text \<open>One stored run of a session whose start cannot be shown as a date (a time given in
  milliseconds is one) stops the issue sync for good: the pass that has it in its next batch
  raises, everything it wrote is rolled back, and the queue is as before, so every later pass does
  the same.\<close>

theorem far_date_stops_sync:
  assumes "ids_ok e" "idb_rebuilt db" "idb_turns db = []"
    and "r \<in> all_rows (idb_base db)" "sr_run_id r \<in> set (next_queued_run_ids n db)"
    and "source_in db (pair_id e (pair_of r)) \<noteq> Some By_Repeat_Connections" "1000000000000 \<le> sr_started_at r"
  shows "\<exists>x. sync_issues_from_classifier_runs e False n db = (Inl (Sync_Raised x), db)"
proof -
  let ?ids = "next_queued_run_ids n db" and ?p = "pair_of r"
  let ?rows = "fill_sync_runs (Batch_Runs ?ids) (idb_base db)" and ?agg = "\<lambda>rows. pair_aggregate_of (idb_base db) rows ?p"
  have r: "r \<in> mine ?p ?rows" using assms(4,5) by (simp add: mine_fill)
  then have wanted: "?p \<in> set (wanted_pairs e False ?rows db)"
    using assms(6) mine_empty [of ?p ?rows] by (auto simp: wanted_pairs_set)
  have "\<exists>x. merge_runs e False ?rows [] db = Raised x"
  proof (rule ccontr)
    assume "\<nexists>x. merge_runs e False ?rows [] db = Raised x"
    then obtain s db' where "merge_runs e False ?rows [] db = Done (s, db')" by (cases "merge_runs e False ?rows [] db") auto
    then show False
    proof (cases rule: merge_runs_cases)
      case (merged added db1)
      have agg: "?agg ?rows \<in> set (pair_aggregates (idb_base db) ?rows)" "key_of (?agg ?rows) = ?p"
        using wanted by (auto simp: pair_aggregates_def wanted_pairs_set key_of_def pair_aggregate_of_def Let_def)
      have "dict_get (named_pairs e False ?rows db) (key_of (?agg ?rows)) = Some (pair_id e ?p)"
        using pairs_facts(3) [OF assms(1) rows_real_fill refl] wanted agg(2) by simp
      from write_merged_issues [OF merged(2) agg(1) this] far_totals [OF r assms(7)] show False by (metis outcome.distinct(1))
    qed (use wanted in simp)
  qed
  then have "\<exists>x. batch_step e n [] db = Raised x"
    using assms(5) by (auto simp: batch_step_def merge_batch_def Let_def)
  then have "\<exists>x. merge_queue e n [] db = (Inl (Sync_Raised x), db)"
    by (subst merge_queue.simps) (auto simp: granted assms(3))
  then show ?thesis
    using assms(2) by (auto simp: sync_issues_from_classifier_runs_def granted assms(3) first_step_def)
qed


section \<open>One pass at a time\<close>

text \<open>What happens at the gate: a call with its clock and whether a thread can be started, or the end
  of the running pass. The history is the starts and ends.\<close>

datatype gate_event = Call rat bool | Pass_Over

datatype gate_note = Pass_Started rat | Pass_Ended

fun gate_run :: "rat \<Rightarrow> gate_event list \<Rightarrow> sync_gate \<Rightarrow> gate_note list" where
  "gate_run interval [] gate = []"
| "gate_run interval (Call now thread_starts # evs) gate =
     (case maybe_sync_issues interval thread_starts now gate of
        (started, gate') \<Rightarrow> (if started then [Pass_Started now] else []) @ gate_run interval evs gate')"
| "gate_run interval (Pass_Over # evs) gate =
     (if issue_sync_running gate then Pass_Ended # gate_run interval evs (sync_finished gate) else gate_run interval evs gate)"

fun alternates :: "bool \<Rightarrow> gate_note list \<Rightarrow> bool" where
  "alternates running [] = True"
| "alternates running (Pass_Started t # ns) = (\<not> running \<and> alternates True ns)"
| "alternates running (Pass_Ended # ns) = (running \<and> alternates False ns)"

fun starts :: "gate_note list \<Rightarrow> rat list" where
  "starts [] = []"
| "starts (Pass_Started t # ns) = t # starts ns"
| "starts (Pass_Ended # ns) = starts ns"

lemma gate_alternates: "alternates (issue_sync_running gate) (gate_run interval evs gate)"
proof (induction interval evs gate rule: gate_run.induct)
  case (2 interval now thread_starts evs gate)
  obtain started gate' where g: "maybe_sync_issues interval thread_starts now gate = (started, gate')" by fastforce
  from 2 [OF g [symmetric]] g show ?case by (auto simp: maybe_sync_issues_def Let_def split: if_splits)
qed (auto simp: sync_finished_def)

lemma gate_starts:
  "0 \<le> interval \<Longrightarrow> sorted_wrt (\<lambda>a b. interval \<le> b - a) ((case last_issue_sync gate of None \<Rightarrow> [] | Some t \<Rightarrow> [t])
     @ starts (gate_run interval evs gate))"
proof (induction interval evs gate rule: gate_run.induct)
  case (2 interval now thread_starts evs gate)
  obtain started gate' where g: "maybe_sync_issues interval thread_starts now gate = (started, gate')" by fastforce
  from 2(1) [OF g [symmetric] 2(2)] 2(2) g show ?case
    by (force simp: maybe_sync_issues_def Let_def split: if_splits option.splits)
qed (auto simp: sync_finished_def split: option.splits)

text \<open>In one process at most one background sync runs at a time, however often it is asked for, and
  two of them start at least the interval apart.\<close>

theorem one_sync_at_a_time:
  "alternates False (gate_run 30 evs \<lparr>last_issue_sync = None, issue_sync_running = False\<rparr>) \<and>
   sorted_wrt (\<lambda>a b. ISSUE_SYNC_MIN_INTERVAL_SECONDS \<le> b - a) (starts (gate_run ISSUE_SYNC_MIN_INTERVAL_SECONDS evs
     \<lparr>last_issue_sync = None, issue_sync_running = False\<rparr>))"
  using gate_alternates [of "\<lparr>last_issue_sync = None, issue_sync_running = False\<rparr>"]
    gate_starts [of ISSUE_SYNC_MIN_INTERVAL_SECONDS "\<lparr>last_issue_sync = None, issue_sync_running = False\<rparr>" evs]
  by (simp add: ISSUE_SYNC_MIN_INTERVAL_SECONDS_def)


section \<open>Witnesses\<close>

definition example_sync :: sync_env where
  "example_sync = \<lparr>sy_playbook = \<lparr>mitre_technique_names = [], actor_label_names = [], issue_fixes = []\<rparr>,
     sy_catalog = [], sy_technique_playbook = [], sy_uuid5 = (\<lambda>s. s), sy_window_seconds = 86400, sy_min_sessions = 5\<rparr>"

definition example_storage :: storage_env where
  "example_storage = plain_storage\<lparr>se_run_id := (\<lambda>n. replicate n 120)\<rparr>"

lemma example_ids [simp]: "inj (se_run_id example_storage)"
  by (auto simp: example_storage_def inj_def)

lemma no_colon: "colon \<notin> set (actor_name l)"
proof -
  have "list_all (\<lambda>l. colon \<notin> set (actor_name l))
      [Automated_Scanner, Brute_Force_Bot, Commodity_Bot, Script_Kiddie, Skilled_Human_Operator]" by code_simp
  then show ?thesis by (cases l) simp_all
qed

lemma first_split: "c \<notin> set a \<Longrightarrow> c \<notin> set b \<Longrightarrow> a @ c # s = b @ c # t \<Longrightarrow> a = b \<and> s = t"
proof (induction a arbitrary: b)
  case (Cons x a)
  then show ?case by (cases b) auto
qed (auto simp: Cons_eq_append_conv)

lemma example_ids_ok [simp]: "ids_ok example_sync"
proof -
  have "p = q" if "p \<in> real_pairs" "q \<in> real_pairs" "pair_id example_sync p = pair_id example_sync q" for p q
  proof -
    have "fst p @ colon # snd p = fst q @ colon # snd q"
      using that(3) by (simp add: pair_id_def issue_id_for_pair_def example_sync_def)
    moreover have "colon \<notin> set (fst p)" "colon \<notin> set (fst q)" using that(1,2) no_colon by (auto simp: real_pairs_def)
    ultimately show ?thesis using first_split by (metis prod_eq_iff)
  qed
  then show ?thesis by (simp add: ids_ok_def inj_on_def)
qed

definition no_issues :: issue_db where
  "no_issues = \<lparr>idb_base = empty_database, idb_issues = [], idb_sessions = [], idb_personas = [], idb_source_ips = [],
     idb_techniques = [], idb_rebuilt = False, idb_turns = []\<rparr>"

definition store_example :: "session_record \<Rightarrow> issue_db \<Rightarrow> issue_db" where
  "store_example r db = db\<lparr>idb_base := snd (save_classifier_run example_storage r (example_summary High) (idb_base db))\<rparr>"

lemma fresh_example: "fresh_db example_storage no_issues"
  by (simp add: fresh_db_def base_ok_def no_issues_def empty_database_def run_ids_def source_in_def)

lemma store_example_step:
  "same_source r (idb_base db) \<Longrightarrow> sync_step e example_storage db (store_example r db)"
  unfolding store_example_def by (rule sync_step.stored, rule store_step.run_stored [OF surjective_pairing])

definition one_run :: issue_db where
  "one_run = store_example (example_session (lit ''a'')) no_issues"

lemma one_run_reached: "(sync_step example_sync example_storage)\<^sup>*\<^sup>* no_issues one_run"
  unfolding one_run_def
  by (rule r_into_rtranclp, rule store_example_step) (simp add: same_source_def no_issues_def empty_database_def)

theorem incremental_equals_rebuild_witness:
  "\<exists>issues1 db1 issues2 db2.
     sync_issues_from_classifier_runs example_sync False 10 one_run = (Inr issues1, db1) \<and>
     sync_issues_from_classifier_runs example_sync True 10 one_run = (Inr issues2, db2) \<and> queued db1 = [] \<and>
     issue_view db1 (pair_id example_sync repeat_pair) = issue_view db2 (pair_id example_sync repeat_pair)"
proof -
  have dates: "dates_ok (idb_base one_run)" by code_simp
  have turns: "idb_turns one_run = []" by code_simp
  have rows: "pair_rows (idb_base one_run) repeat_pair \<noteq> {}" by code_simp
  have check: "repeat_check example_sync one_run = None" by code_simp
  from incremental_equals_rebuild [OF fresh_example one_run_reached example_ids_ok example_ids dates turns, of 10 10]
  obtain i1 db1 i2 db2 where "sync_issues_from_classifier_runs example_sync False 10 one_run = (Inr i1, db1)"
    "sync_issues_from_classifier_runs example_sync True 10 one_run = (Inr i2, db2)" "queued db1 = []"
    "\<And>p. p \<in> real_pairs \<Longrightarrow> pair_rows (idb_base one_run) p \<noteq> {} \<Longrightarrow> p \<noteq> repeat_pair \<or> repeat_check example_sync one_run = None \<Longrightarrow>
        issue_view db1 (pair_id example_sync p) = issue_view db2 (pair_id example_sync p)" by force
  then show ?thesis using rows check repeat_pair_real by blast
qed

definition after_rebuild :: issue_db where
  "after_rebuild = (case rebuild_all example_sync [] (clear_queue one_run) of Done (s, db) \<Rightarrow> db | _ \<Rightarrow> one_run)"

lemma after_rebuild_source: "source_in after_rebuild (pair_id example_sync repeat_pair) = Some By_Classifier"
  by code_simp

lemma after_rebuild_reached: "(sync_step example_sync example_storage)\<^sup>*\<^sup>* no_issues after_rebuild"
proof -
  have "case rebuild_all example_sync [] (clear_queue one_run) of Done r \<Rightarrow> True | Raised x \<Rightarrow> False" by code_simp
  then obtain s where "rebuild_all example_sync [] (clear_queue one_run) = Done (s, after_rebuild)"
    unfolding after_rebuild_def by (cases "rebuild_all example_sync [] (clear_queue one_run)") auto
  then have "sync_step example_sync example_storage one_run after_rebuild"
    by (rule sync_step.rebuilt [OF rtranclp.rtrancl_refl])
  with one_run_reached show ?thesis by (rule rtranclp.rtrancl_into_rtrancl)
qed

theorem classifier_issue_exact_witness:
  "\<exists>M. M \<subseteq> run_ids (idb_base after_rebuild) \<and>
     issue_exact example_sync repeat_pair (rows_among (idb_base after_rebuild) M repeat_pair) after_rebuild"
  using classifier_issue_exact [OF fresh_example after_rebuild_reached example_ids_ok example_ids repeat_pair_real after_rebuild_source]
  by blast

text \<open>The analyst closes the issue, a second session comes, and its merge opens it.\<close>

definition closed_then_stored :: issue_db where
  "closed_then_stored = store_example (example_session (lit ''b''))
     (update_issue_status (pair_id example_sync repeat_pair) Closed after_rebuild)"

lemma closed_then_stored_reached: "(sync_step example_sync example_storage)\<^sup>*\<^sup>* no_issues closed_then_stored"
proof -
  let ?closed = "update_issue_status (pair_id example_sync repeat_pair) Closed after_rebuild"
  have "dict_get (db_sessions (idb_base ?closed)) (rec_session_id (example_session (lit ''b''))) = None" by code_simp
  then have "same_source (example_session (lit ''b'')) (idb_base ?closed)" by (simp add: same_source_def)
  from store_example_step [OF this] have "sync_step example_sync example_storage ?closed closed_then_stored"
    by (simp add: closed_then_stored_def)
  then show ?thesis
    using after_rebuild_reached sync_step.triaged [of example_sync example_storage after_rebuild] by (meson rtranclp.simps)
qed

theorem status_after_merge_witness:
  "\<exists>s db'. merge_batch example_sync (queued closed_then_stored) [] closed_then_stored = Done (s, db') \<and>
     status_in (pair_id example_sync repeat_pair) closed_then_stored = Closed \<and>
     status_in (pair_id example_sync repeat_pair) db' = Open"
proof -
  let ?i = "pair_id example_sync repeat_pair"
  have linked: "linked i rows = set (map snd (filter (\<lambda>row. fst row = i) rows))" for i rows
    by (force simp: linked_def)
  have "case merge_batch example_sync (queued closed_then_stored) [] closed_then_stored of Raised x \<Rightarrow> False
      | Done (s, db') \<Rightarrow> set (map snd (filter (\<lambda>row. fst row = ?i) (idb_sessions db')))
          \<noteq> set (map snd (filter (\<lambda>row. fst row = ?i) (idb_sessions closed_then_stored)))" by code_simp
  then obtain s db' where run: "merge_batch example_sync (queued closed_then_stored) [] closed_then_stored = Done (s, db')"
      and gained: "linked ?i (idb_sessions db') \<noteq> linked ?i (idb_sessions closed_then_stored)"
    by (auto simp: linked split: outcome.splits prod.splits)
  have src: "source_in closed_then_stored ?i = Some By_Classifier" by code_simp
  have old: "status_in ?i closed_then_stored = Closed" by code_simp
  from status_after_merge [OF fresh_example closed_then_stored_reached example_ids_ok example_ids repeat_pair_real src run] gained old run
  show ?thesis by auto
qed

text \<open>The check held the issue with no session counted; an analyst closed it.\<close>

definition held_and_closed :: issue_db where
  "held_and_closed = one_run\<lparr>idb_issues := [(pair_id example_sync repeat_pair,
     (placeholder (lit ''brute_force_bot'') 0)\<lparr>iss_source := Some By_Repeat_Connections, iss_status := Closed\<rparr>)]\<rparr>"

theorem handover_reopens_closed_issue_witness:
  "\<exists>s db'. sync_repeat_connection_issue example_sync [] held_and_closed = Done (s, db') \<and>
     status_in (pair_id example_sync repeat_pair) held_and_closed = Closed \<and>
     status_in (pair_id example_sync repeat_pair) db' = Open"
proof -
  let ?row = "(placeholder (lit ''brute_force_bot'') 0)\<lparr>iss_source := Some By_Repeat_Connections, iss_status := Closed\<rparr>"
  have dates: "dates_ok (idb_base held_and_closed)" by code_simp
  have check: "repeat_check example_sync held_and_closed = None" by code_simp
  have row: "dict_get (idb_issues held_and_closed) (pair_id example_sync repeat_pair) = Some ?row"
    by (simp add: held_and_closed_def dict_get_def)
  have count: "iss_session_count ?row < card (sr_session_id ` pair_rows (idb_base held_and_closed) repeat_pair)" by code_simp
  have "status_in (pair_id example_sync repeat_pair) held_and_closed = Closed" using row by (simp add: status_in_def)
  with handover_reopens_closed_issue [OF example_ids_ok dates check row _ _ count] show ?thesis by (simp, blast)
qed

text \<open>A session that started in the year 33658.\<close>

definition far_run :: issue_db where
  "far_run = (store_example ((example_session (lit ''a''))\<lparr>rec_started_at := 1000000000000, rec_ended_at := 1000000000060\<rparr>)
     no_issues)\<lparr>idb_rebuilt := True\<rparr>"

theorem far_date_stops_sync_witness:
  "\<exists>x. sync_issues_from_classifier_runs example_sync False 1000 far_run = (Inl (Sync_Raised x), far_run)"
proof -
  let ?r = "hd (fill_sync_runs Every_Run (idb_base far_run))"
  have "fill_sync_runs Every_Run (idb_base far_run) \<noteq> []" by code_simp
  then have r: "?r \<in> all_rows (idb_base far_run)" by (simp add: all_rows_def)
  have "sr_run_id ?r \<in> set (next_queued_run_ids 1000 far_run)" by code_simp
  moreover have "source_in far_run (pair_id example_sync (pair_of ?r)) \<noteq> Some By_Repeat_Connections" by code_simp
  moreover have "1000000000000 \<le> sr_started_at ?r" "idb_rebuilt far_run" "idb_turns far_run = []" by code_simp+
  ultimately show ?thesis using far_date_stops_sync [OF example_ids_ok _ _ r] by blast
qed

end
