(* ===== verification/Connections.thy ===== *)
theory Connections
  imports Session
begin

text \<open>
  One client connection as the protocol handlers see it: \<open>asyncio.StreamReader\<close> with its buffer and
  its limit, the writer, the clock, and what ends an await early. What the network and the event
  loop do is a schedule in the connection itself: \<open>cn_arrivals\<close> is what comes in while the handler
  waits for the client, \<open>cn_pauses\<close> how each other await (\<open>drain\<close>, \<open>sleep\<close>, \<open>wait_closed\<close>) ends, and
  \<open>cn_ticks\<close> how much time passes before each reading of the clock. A used-up schedule means a client
  that has closed its side, awaits that end well and a clock that stands still.
\<close>

section \<open>The schedule\<close>

text \<open>While the handler waits: bytes come, the client closes its side, nothing more comes until the
  timeout of the wait, the connection breaks, or the task is cancelled.\<close>

datatype arrival = Arrives bytes | Ends | Quiet | Breaks | Cancel

text \<open>What an await raises: \<open>asyncio.TimeoutError\<close>, \<open>CancelledError\<close>, \<open>ConnectionError\<close>, or any other
  \<open>Exception\<close> (\<open>readline\<close> raises \<open>ValueError\<close> for an overlong line).\<close>

datatype stop = Await_Timeout | Await_Cancelled | Await_Lost | Await_Failed

record connection =
  cn_arrivals :: "arrival list"
  cn_buffer :: bytes
  cn_eof :: bool
  cn_broken :: bool
  cn_sent :: bytes
  cn_pauses :: "stop option list"
  cn_now :: rat
  cn_ticks :: "rat list"

type_synonym ('a, 'c) io = "'c connection_scheme \<Rightarrow> (stop + 'a) \<times> 'c connection_scheme"

definition new_connection :: "arrival list \<Rightarrow> stop option list \<Rightarrow> rat \<Rightarrow> rat list \<Rightarrow> connection" where
  "new_connection arrivals pauses now ticks =
     \<lparr>cn_arrivals = arrivals, cn_buffer = [], cn_eof = False, cn_broken = False, cn_sent = [],
      cn_pauses = pauses, cn_now = now, cn_ticks = ticks\<rparr>"

text \<open>\<open>time.time()\<close>.\<close>

definition clock :: "'c connection_scheme \<Rightarrow> rat \<times> 'c connection_scheme" where
  "clock c =
     (case cn_ticks c of
        [] \<Rightarrow> (cn_now c, c)
      | d # ds \<Rightarrow> (cn_now c + d, c\<lparr>cn_now := cn_now c + d, cn_ticks := ds\<rparr>))"

text \<open>An await of \<open>drain\<close>, \<open>sleep\<close> or \<open>wait_closed\<close>.\<close>

definition pause :: "(unit, 'c) io" where
  "pause c =
     (case cn_pauses c of
        [] \<Rightarrow> (Inr (), c)
      | p # ps' \<Rightarrow> ((case p of None \<Rightarrow> Inr () | Some x \<Rightarrow> Inl x), c\<lparr>cn_pauses := ps'\<rparr>))"

text \<open>\<open>writer.write\<close> followed by \<open>await writer.drain()\<close>.\<close>

definition send_bytes :: "bytes \<Rightarrow> (unit, 'c) io" where
  "send_bytes b c = pause (c\<lparr>cn_sent := cn_sent c @ b\<rparr>)"

text \<open>Running one await after another.\<close>

definition after :: "('a, 'c) io \<Rightarrow> ('a \<Rightarrow> ('b, 'c) io) \<Rightarrow> ('b, 'c) io" where
  "after m f c = (case m c of (Inl x, c') \<Rightarrow> (Inl x, c') | (Inr a, c') \<Rightarrow> f a c')"

definition doing :: "('c \<Rightarrow> 'c) \<Rightarrow> ('c \<Rightarrow> 'r) \<Rightarrow> 'c \<Rightarrow> 'r" where
  "doing f m c = m (f c)"

section \<open>The reader\<close>

text \<open>\<open>StreamReader._wait_for_data\<close> and what wakes it, once: bytes go to the buffer.\<close>

definition wait_for_data :: "(unit, 'c) io" where
  "wait_for_data c =
     (case cn_arrivals c of
        [] \<Rightarrow> (Inr (), c\<lparr>cn_eof := True\<rparr>)
      | a # as \<Rightarrow>
          (case a of
             Arrives b \<Rightarrow> (Inr (), c\<lparr>cn_arrivals := as, cn_buffer := cn_buffer c @ b\<rparr>)
           | Ends \<Rightarrow> (Inr (), c\<lparr>cn_arrivals := as, cn_eof := True\<rparr>)
           | Quiet \<Rightarrow> (Inl Await_Timeout, c\<lparr>cn_arrivals := as\<rparr>)
           | Breaks \<Rightarrow> (Inl Await_Lost, c\<lparr>cn_arrivals := as, cn_broken := True\<rparr>)
           | Cancel \<Rightarrow> (Inl Await_Cancelled, c\<lparr>cn_arrivals := as\<rparr>)))"

text \<open>The default limit of \<open>asyncio.start_server\<close>: 64 KiB.\<close>

definition STREAM_LIMIT :: nat where
  "STREAM_LIMIT = 65536"

definition waits_left :: "'c connection_scheme \<Rightarrow> nat" where
  "waits_left c = length (cn_arrivals c) + (if cn_eof c then 0 else 1)"

lemma wait_for_data_less:
  "wait_for_data c = (Inr u, c') \<Longrightarrow> \<not> cn_eof c \<Longrightarrow> waits_left c' < waits_left c"
  by (auto simp: wait_for_data_def waits_left_def split: list.splits arrival.splits)

text \<open>\<open>readline\<close>: a line with its line feed, or what is left at the end of the stream.\<close>

function readline :: "(bytes, 'c) io" where
  "readline c =
     (if cn_broken c then (Inl Await_Lost, c)
      else let line = takeWhile (\<lambda>b. b \<noteq> newline) (cn_buffer c); n = length line in
      if n < length (cn_buffer c) then
        (if STREAM_LIMIT < n then (Inl Await_Failed, c\<lparr>cn_buffer := drop (n + 1) (cn_buffer c)\<rparr>)
         else (Inr (line @ [newline]), c\<lparr>cn_buffer := drop (n + 1) (cn_buffer c)\<rparr>))
      else if STREAM_LIMIT < n then (Inl Await_Failed, c\<lparr>cn_buffer := []\<rparr>)
      else if cn_eof c then (Inr (cn_buffer c), c\<lparr>cn_buffer := []\<rparr>)
      else (case wait_for_data c of (Inl x, c') \<Rightarrow> (Inl x, c') | (Inr u, c') \<Rightarrow> readline c'))"
  by pat_completeness auto
termination
  by (relation "measure waits_left") (auto simp: wait_for_data_less)

text \<open>\<open>read(n)\<close>, for positive \<open>n\<close>: up to \<open>n\<close> bytes, at least one unless the stream has ended.\<close>

function read_some :: "nat \<Rightarrow> (bytes, 'c) io" where
  "read_some n c =
     (if cn_broken c then (Inl Await_Lost, c)
      else if cn_buffer c = [] \<and> \<not> cn_eof c then
        (case wait_for_data c of (Inl x, c') \<Rightarrow> (Inl x, c') | (Inr u, c') \<Rightarrow> read_some n c')
      else (Inr (take n (cn_buffer c)), c\<lparr>cn_buffer := drop n (cn_buffer c)\<rparr>))"
  by pat_completeness auto
termination
  by (relation "measure (waits_left \<circ> snd)") (auto simp: wait_for_data_less)

text \<open>\<open>readexactly(n)\<close>, where the caller takes the partial data of an \<open>IncompleteReadError\<close>.\<close>

function read_exactly :: "nat \<Rightarrow> (bytes, 'c) io" where
  "read_exactly n c =
     (if cn_broken c then (Inl Await_Lost, c)
      else if length (cn_buffer c) < n then
        (if cn_eof c then (Inr (cn_buffer c), c\<lparr>cn_buffer := []\<rparr>)
         else (case wait_for_data c of (Inl x, c') \<Rightarrow> (Inl x, c') | (Inr u, c') \<Rightarrow> read_exactly n c'))
      else (Inr (take n (cn_buffer c)), c\<lparr>cn_buffer := drop n (cn_buffer c)\<rparr>))"
  by pat_completeness auto
termination
  by (relation "measure (waits_left \<circ> snd)") (auto simp: wait_for_data_less)

declare readline.simps [simp del] read_some.simps [simp del] read_exactly.simps [simp del]

end
