(* ===== verification/SessionLog.thy ===== *)
theory SessionLog
  imports ClassifierQueue
begin

text \<open>
  \<open>honeypot/logging/session_logger.py\<close>: the session log and what every handler calls with its
  finished session. Serialising a record to its JSON line and the address and UUID parsers of the
  schema are parameters. A write to the log may fail, or, on a disk that fills up, write only the
  first bytes of the line: \<open>os.write\<close> then returns a short count and nothing is raised.
\<close>

datatype log_write = Whole | Short nat | Not_Written

datatype failure_report = First_Failure str str | More_Failures nat str str

record session_log =
  lg_text :: str
  lg_writes :: "log_write list"
  lg_failures :: nat
  lg_last_logged :: "rat option"
  lg_reports :: "(failure_report \<times> rat) list"
  lg_queue :: classifier_queue

record log_env =
  le_ip_ok :: "str \<Rightarrow> bool"
  le_uuid_ok :: "str \<Rightarrow> bool"
  le_json :: "session_record \<Rightarrow> str"

definition LOG_FAILURE_INTERVAL_SECONDS :: rat where
  "LOG_FAILURE_INTERVAL_SECONDS = 30"

text \<open>\<open>SessionRecord.model_validate(session.to_record())\<close>.\<close>

definition validated_record :: "log_env \<Rightarrow> session_record outcome \<Rightarrow> session_record option" where
  "validated_record e to_rec =
     (case to_rec of
        Raised x \<Rightarrow> None
      | Done r \<Rightarrow> (case model_validate (le_ip_ok e) (le_uuid_ok e) r of Raised x \<Rightarrow> None | Done r' \<Rightarrow> Some r'))"

text \<open>\<open>SessionLogger.log\<close>: \<open>None\<close> when it raises.\<close>

definition log_line :: "log_env \<Rightarrow> session_record \<Rightarrow> str" where
  "log_line e r = le_json e r @ [newline]"

definition log_session :: "log_env \<Rightarrow> session_record outcome \<Rightarrow> session_log \<Rightarrow> session_record option \<times> session_log" where
  "log_session e to_rec lg =
     (case validated_record e to_rec of
        None \<Rightarrow> (None, lg)
      | Some r \<Rightarrow>
          (let result = (case lg_writes lg of [] \<Rightarrow> Whole | w # _ \<Rightarrow> w); lg' = lg\<lparr>lg_writes := drop 1 (lg_writes lg)\<rparr>
           in case result of
                Whole \<Rightarrow> (Some r, lg'\<lparr>lg_text := lg_text lg' @ log_line e r\<rparr>)
              | Short n \<Rightarrow> (Some r, lg'\<lparr>lg_text := lg_text lg' @ take n (log_line e r)\<rparr>)
              | Not_Written \<Rightarrow> (None, lg')))"

text \<open>\<open>_report_log_failure\<close>.\<close>

definition report_log_failure :: "rat \<Rightarrow> str \<Rightarrow> str \<Rightarrow> session_log \<Rightarrow> session_log" where
  "report_log_failure now protocol sid lg =
     (let n = lg_failures lg + 1; counted = lg\<lparr>lg_failures := n\<rparr>;
          told = (\<lambda>r. lg\<lparr>lg_failures := 0, lg_last_logged := Some now, lg_reports := lg_reports lg @ [(r, now)]\<rparr>)
      in case lg_last_logged lg of
           None \<Rightarrow> told (First_Failure protocol sid)
         | Some t \<Rightarrow>
             if now - t \<ge> LOG_FAILURE_INTERVAL_SECONDS then told (More_Failures n protocol sid) else counted)"

text \<open>\<open>finalize_and_schedule\<close>, at the readings \<open>now\<close> and \<open>later\<close> of the monotonic clock.\<close>

definition schedule_in_log :: "rat \<Rightarrow> session_record \<Rightarrow> session_log \<Rightarrow> session_log" where
  "schedule_in_log now r lg = lg\<lparr>lg_queue := schedule_auto_classification now r (lg_queue lg)\<rparr>"

definition finalize_and_schedule ::
  "log_env \<Rightarrow> rat \<Rightarrow> rat \<Rightarrow> session_record outcome \<Rightarrow> str \<Rightarrow> str \<Rightarrow> session_log \<Rightarrow> session_log" where
  "finalize_and_schedule e now later to_rec protocol sid lg =
     (case log_session e to_rec lg of
        (Some r, lg1) \<Rightarrow> schedule_in_log later r lg1
      | (None, lg1) \<Rightarrow>
          (let lg2 = report_log_failure now protocol sid lg1
           in case validated_record e to_rec of
                None \<Rightarrow> lg2
              | Some r \<Rightarrow> schedule_in_log later r lg2))"


lemma scheduled_once:
  "validated_record e to_rec = Some r \<Longrightarrow>
    lg_queue (finalize_and_schedule e now later to_rec protocol sid lg) = schedule_auto_classification later r (lg_queue lg)"
  by (auto simp: finalize_and_schedule_def log_session_def report_log_failure_def schedule_in_log_def Let_def
      split: list.split log_write.split option.split)

end
