(* ===== verification/HttpPages.thy ===== *)
theory HttpPages
  imports Session
begin

text \<open>
  The pages of \<open>honeypot/network/http_handler.py\<close> and the choice among them: which status, type and
  body a request gets from a persona's web server. The texts are those of the source, one line of
  the page per element. A persona's host name is taken to be encodable.
\<close>

section \<open>Pages\<close>

definition APACHE_DEFAULT :: str where
  "APACHE_DEFAULT = join [newline] [
     lit ''<!DOCTYPE html>'',
     lit ''<html><head><title>Apache2 Ubuntu Default Page: It works</title></head>'',
     lit ''<body>'',
     lit ''<div style=\"width:640px;margin:0 auto\">'',
     lit ''<h1>Apache2 Ubuntu Default Page</h1>'',
     lit ''<p>It works!</p>'',
     lit ''<p>The Apache2 server is running. If you can read this page, the site is'',
     lit ''running normally. Further configuration is required.</p>'',
     lit ''</div>'',
     lit ''</body></html>'']"

definition WP_LOGIN :: str where
  "WP_LOGIN = join [newline] [
     lit ''<!DOCTYPE html>'',
     lit ''<html lang=\"en-US\">'',
     lit ''<head>'',
     lit ''<meta charset=\"UTF-8\"/>'',
     lit ''<title>Log In &#8212; WordPress</title>'',
     lit ''</head>'',
     lit ''<body class=\"login wp-core-ui\">'',
     lit ''<div id=\"login\">'',
     lit ''<h1><a href=\"https://wordpress.org/\">Powered by WordPress</a></h1>'',
     lit ''<form name=\"loginform\" id=\"loginform\" action=\"/wp-login.php\" method=\"post\">'',
     lit ''<p><label for=\"user_login\">Username or Email Address<br/>'',
     lit ''<input type=\"text\" name=\"log\" id=\"user_login\" class=\"input\" size=\"20\"/></label></p>'',
     lit ''<p><label for=\"user_pass\">Password<br/>'',
     lit ''<input type=\"password\" name=\"pwd\" id=\"user_pass\" class=\"input\" size=\"20\"/></label></p>'',
     lit ''<p class=\"submit\">'',
     lit ''<input type=\"submit\" name=\"wp-submit\" id=\"wp-submit\" class=\"button button-primary button-large\" value=\"Log In\"/>'',
     lit ''</p>'',
     lit ''<input type=\"hidden\" name=\"redirect_to\" value=\"/wp-admin/\"/>'',
     lit ''<input type=\"hidden\" name=\"testcookie\" value=\"1\"/>'',
     lit ''</form>'',
     lit ''<p id=\"nav\"><a href=\"/wp-login.php?action=lostpassword\">Lost your password?</a></p>'',
     lit ''</div>'',
     lit ''</body></html>'']"

definition WP_HOME :: str where
  "WP_HOME = join [newline] [
     lit ''<!DOCTYPE html>'',
     lit ''<html lang=\"en-US\">'',
     lit ''<head>'',
     lit ''<meta charset=\"UTF-8\"/>'',
     lit ''<title>WordPress &#8211; Just another WordPress site</title>'',
     lit ''<meta name=\"generator\" content=\"WordPress 6.4.3\"/>'',
     lit ''</head>'',
     lit ''<body class=\"home blog\">'',
     lit ''<header id=\"masthead\">'',
     lit ''<div class=\"site-branding\">'',
     lit ''<p class=\"site-title\"><a href=\"/\">WordPress</a></p>'',
     lit ''<p class=\"site-description\">Just another WordPress site</p>'',
     lit ''</div>'',
     lit ''</header>'',
     lit ''<main id=\"primary\">'',
     lit ''<p>Welcome to WordPress. This is your first post. Edit or delete it, then start writing!</p>'',
     lit ''</main>'',
     lit ''</body></html>'']"

definition PHPMYADMIN :: str where
  "PHPMYADMIN = join [newline] [
     lit ''<!DOCTYPE html>'',
     lit ''<html><head><title>phpMyAdmin 5.2.1</title>'',
     lit ''<meta name=\"robots\" content=\"noindex,nofollow\"/>'',
     lit ''</head>'',
     lit ''<body>'',
     lit ''<div id=\"pma_navigation\">'',
     lit ''<form method=\"post\" action=\"index.php\" name=\"login_form\" id=\"login_form\">'',
     lit ''<fieldset id=\"fieldset_userpass\">'',
     lit ''<legend>phpMyAdmin 5.2.1</legend>'',
     lit ''<table>'',
     lit ''<tr><td><label for=\"input_username\">Username:</label></td>'',
     lit ''<td><input type=\"text\" name=\"pma_username\" id=\"input_username\" value=\"\" size=\"24\" autocomplete=\"username\"/></td></tr>'',
     lit ''<tr><td><label for=\"input_password\">Password:</label></td>'',
     lit ''<td><input type=\"password\" name=\"pma_password\" id=\"input_password\" value=\"\" size=\"24\" autocomplete=\"current-password\"/></td></tr>'',
     lit ''</table>'',
     lit ''</fieldset>'',
     lit ''<fieldset id=\"fieldset_userpass_footer\">'',
     lit ''<input value=\"Go\" type=\"submit\" id=\"input_go\"/>'',
     lit ''<input type=\"hidden\" name=\"server\" value=\"1\"/>'',
     lit ''<input type=\"hidden\" name=\"target\" value=\"index.php\"/>'',
     lit ''</fieldset>'',
     lit ''</form>'',
     lit ''</div>'',
     lit ''</body></html>'']"

definition NGINX_FORBIDDEN :: str where
  "NGINX_FORBIDDEN = join [newline] [
     lit ''<!DOCTYPE html>'',
     lit ''<html><head><title>403 Forbidden</title></head>'',
     lit ''<body>'',
     lit ''<center><h1>403 Forbidden</h1></center>'',
     lit ''<hr><center>nginx/1.18.0 (Ubuntu)</center>'',
     lit ''</body></html>'']"

definition NGINX_NOT_FOUND :: str where
  "NGINX_NOT_FOUND = join [newline] [
     lit ''<!DOCTYPE html>'',
     lit ''<html><head><title>404 Not Found</title></head>'',
     lit ''<body>'',
     lit ''<center><h1>404 Not Found</h1></center>'',
     lit ''<hr><center>nginx/1.18.0</center>'',
     lit ''</body></html>'']"

definition BUSYBOX_FORBIDDEN :: str where
  "BUSYBOX_FORBIDDEN = join [newline] [
     lit ''<head><title>403 Forbidden</title></head>'',
     lit ''<body>'',
     lit ''<h1>Forbidden</h1>'',
     lit ''</body>'']"

definition BUSYBOX_NOT_FOUND :: str where
  "BUSYBOX_NOT_FOUND = join [newline] [
     lit ''<head><title>404 Not Found</title></head>'',
     lit ''<body>'',
     lit ''<h1>Not Found</h1>'',
     lit ''The requested URL was not found on this server.'',
     lit ''</body>'']"

definition ROUTER_LOGIN :: str where
  "ROUTER_LOGIN = join [newline] [
     lit ''<html><head><title>D-Link Router</title></head>'',
     lit ''<body bgcolor=\"#FFFFFF\">'',
     lit ''<form method=\"post\" action=\"/login.cgi\">'',
     lit ''<table>'',
     lit ''<tr><td>Login:</td><td><input type=\"text\" name=\"username\"/></td></tr>'',
     lit ''<tr><td>Password:</td><td><input type=\"password\" name=\"password\"/></td></tr>'',
     lit ''<tr><td colspan=\"2\"><input type=\"submit\" value=\"Login\"/></td></tr>'',
     lit ''</table>'',
     lit ''</form>'',
     lit ''</body></html>'']"

definition encode_text :: "str \<Rightarrow> bytes" where
  "encode_text s = concat (map utf8_char s)"

definition apache_page :: "str \<Rightarrow> str \<Rightarrow> str \<Rightarrow> str \<Rightarrow> str list" where
  "apache_page title heading description host = [
     lit ''<!DOCTYPE HTML PUBLIC \"-//IETF//DTD HTML 2.0//EN\">'',
     lit ''<html><head>'',
     lit ''<title>'' @ title @ lit ''</title>'',
     lit ''</head><body>'',
     lit ''<h1>'' @ heading @ lit ''</h1>'',
     lit ''<p>'' @ description @ lit ''</p>'',
     lit ''<hr>'',
     lit ''<address>Apache/2.4.54 (Debian) Server at '' @ host @ lit '' Port 80</address>'',
     lit ''</body></html>'']"

definition apache_forbidden :: "str \<Rightarrow> bytes" where
  "apache_forbidden host =
     encode_text (join [newline] (apache_page (lit ''403 Forbidden'') (lit ''Forbidden'')
       (lit ''You don't have permission to access this resource.'') host))"

definition apache_not_found :: "str \<Rightarrow> bytes" where
  "apache_not_found host =
     encode_text (join [newline] (apache_page (lit ''404 Not Found'') (lit ''Not Found'')
       (lit ''The requested URL was not found on this server.'') host))"

definition apache_error :: "str \<Rightarrow> str \<Rightarrow> str \<Rightarrow> str \<Rightarrow> bytes" where
  "apache_error code message description host =
     encode_text (join [newline] (apache_page (code @ [space] @ message) message description host))"

definition nginx_error :: "str \<Rightarrow> str \<Rightarrow> bytes" where
  "nginx_error code message = encode_text (join [newline] [
     lit ''<!DOCTYPE html>'',
     lit ''<html><head><title>'' @ code @ [space] @ message @ lit ''</title></head>'',
     lit ''<body>'',
     lit ''<center><h1>'' @ code @ [space] @ message @ lit ''</h1></center>'',
     lit ''<hr><center>nginx/1.18.0 (Ubuntu)</center>'',
     lit ''</body></html>''])"

definition busybox_error :: "str \<Rightarrow> str \<Rightarrow> bytes" where
  "busybox_error code message = encode_text (join [newline] [
     lit ''<head><title>'' @ code @ [space] @ message @ lit ''</title></head>'',
     lit ''<body>'',
     lit ''<h1>'' @ message @ lit ''</h1>'',
     lit ''</body>''])"

section \<open>Servers\<close>

datatype server_kind = Nginx | Busybox | Apache

text \<open>\<open>_server_kind\<close>: \<open>None\<close> stands for its \<open>ValueError\<close>.\<close>

definition server_kind_of :: "persona \<Rightarrow> server_kind option" where
  "server_kind_of p =
     (if http_server_type p = lit ''nginx'' then Some Nginx
      else if http_server_type p = lit ''busybox'' then Some Busybox
      else if http_server_type p = lit ''apache'' then Some Apache
      else None)"

definition SERVER_HEADERS :: "server_kind \<Rightarrow> str" where
  "SERVER_HEADERS k =
     (case k of
        Nginx \<Rightarrow> lit ''nginx/1.18.0 (Ubuntu)''
      | Busybox \<Rightarrow> lit ''BusyBox httpd''
      | Apache \<Rightarrow> lit ''Apache/2.4.54 (Debian)'')"

definition ALLOWED_METHODS :: "str list" where
  "ALLOWED_METHODS = map lit [''GET'', ''HEAD'', ''POST'', ''OPTIONS'']"

definition SUPPORTED_HTTP_VERSIONS :: "str list" where
  "SUPPORTED_HTTP_VERSIONS = map lit [''HTTP/1.0'', ''HTTP/1.1'']"

definition bad_request_body :: "server_kind \<Rightarrow> str \<Rightarrow> bytes" where
  "bad_request_body k host =
     (let message = lit ''Bad Request'' in
      case k of
        Nginx \<Rightarrow> nginx_error (lit ''400'') message
      | Busybox \<Rightarrow> busybox_error (lit ''400'') message
      | Apache \<Rightarrow> apache_error (lit ''400'') message
          (lit ''Your browser sent a request that this server could not understand.'') host)"

definition method_not_allowed_body :: "server_kind \<Rightarrow> str \<Rightarrow> bytes" where
  "method_not_allowed_body k host =
     (let message = lit ''Method Not Allowed'' in
      case k of
        Nginx \<Rightarrow> nginx_error (lit ''405'') message
      | Busybox \<Rightarrow> busybox_error (lit ''405'') message
      | Apache \<Rightarrow> apache_error (lit ''405'') message (lit ''The requested method is not allowed for this URL.'') host)"

definition ROBOTS_TXT :: str where
  "ROBOTS_TXT = lit ''User-agent: *\<newline>Disallow: /wp-admin/\<newline>Disallow: /admin/\<newline>''"

definition FAVICON_ICO :: bytes where
  "FAVICON_ICO = the (b64decode (concat (map lit [
     ''AAABAAEAEBAAAAEAIABoBAAAFgAAACgAAAAQAAAAIAAAAAEAIAAAAAAAQAQAAAAAAAAAAAAAAAAA'',
     ''AAAAAAAAAAAzLB//Mywf/zMsH/8zLB//Mywf/zMsH/8zLB//Mywf/zMsH/8zLB//Mywf/zMsH/8z'',
     ''LB//Mywf/zMsH/8zLB//Mywf/zMsH/8zLB//Mywf/zMsH/8zLB//Mywf/zMsH/8zLB//Mywf/zMs'',
     ''H/8zLB//Mywf/zMsH/8zLB//Mywf/zMsH/8zLB//Mywf/zMsH/8zLB//Mywf/zMsH/8zLB//Mywf'',
     ''/zMsH/8zLB//Mywf/zMsH/8zLB//Mywf/zMsH/8zLB//Mywf/zMsH/8zLB//Mywf/zMsH/8zLB//'',
     ''Mywf/zMsH/8zLB//Mywf/zMsH/8zLB//Mywf/zMsH/8zLB//Mywf/zMsH/8zLB//Mywf/zMsH/8z'',
     ''LB//Mywf/zMsH/8zLB//Mywf/zMsH/8zLB//Mywf/zMsH/8zLB//Mywf/zMsH/8zLB//Mywf/zMs'',
     ''H/8zLB//Mywf/zMsH/8zLB//Mywf/zMsH/8zLB//Mywf/zMsH/8zLB//Mywf/zMsH/8zLB//Mywf'',
     ''/zMsH/8zLB//Mywf/zMsH/8zLB//Mywf/zMsH/8zLB//Mywf/zMsH/8zLB//Mywf/zMsH/8zLB//'',
     ''Mywf/zMsH/8zLB//Mywf/zMsH/8zLB//Mywf/zMsH/8zLB//Mywf/zMsH/8zLB//Mywf/zMsH/8z'',
     ''LB//Mywf/zMsH/8zLB//Mywf/zMsH/8zLB//Mywf/zMsH/8zLB//Mywf/zMsH/8zLB//Mywf/zMs'',
     ''H/8zLB//Mywf/zMsH/8zLB//Mywf/zMsH/8zLB//Mywf/zMsH/8zLB//Mywf/zMsH/8zLB//Mywf'',
     ''/zMsH/8zLB//Mywf/zMsH/8zLB//Mywf/zMsH/8zLB//Mywf/zMsH/8zLB//Mywf/zMsH/8zLB//'',
     ''Mywf/zMsH/8zLB//Mywf/zMsH/8zLB//Mywf/zMsH/8zLB//AAAAAAAAAAAAAAAAAAAAAAAAAAAA'',
     ''AAAAAAAAAAAAAAAAAAAAAAAAAAAAAAAAAAAAAAAAAAAAAAAAAAAAAA==''])))"

section \<open>The choice of a page\<close>

abbreviation (input) html_type :: str where
  "html_type \<equiv> lit ''text/html; charset=UTF-8''"

definition contains_any :: "str \<Rightarrow> string list \<Rightarrow> bool" where
  "contains_any p xs = list_ex (\<lambda>x. contains p (lit x)) xs"

text \<open>The path a request asks for: lower case, without the query and trailing slashes.\<close>

definition page_path :: "str \<Rightarrow> str" where
  "page_path path =
     (let p = rstrip_if (\<lambda>c. c = slash) (fst (partition_at question (lower path))) in if p = [] then [slash] else p)"

definition pick_body :: "persona \<Rightarrow> str \<Rightarrow> server_kind \<Rightarrow> str \<times> str \<times> bytes" where
  "pick_body prs path k =
     (let p = page_path path; ok = lit ''200 OK'' in
      if p = lit ''/favicon.ico'' then (ok, lit ''image/x-icon'', FAVICON_ICO)
      else if p = lit ''/robots.txt'' then (ok, lit ''text/plain; charset=UTF-8'', encode_text ROBOTS_TXT)
      else if contains_any p [''/.env'', ''/wp-config'', ''/.git'', ''/config.php'', ''/.htaccess''] then
        (lit ''403 Forbidden'', html_type,
         (case k of Nginx \<Rightarrow> encode_text NGINX_FORBIDDEN | Busybox \<Rightarrow> encode_text BUSYBOX_FORBIDDEN
          | Apache \<Rightarrow> apache_forbidden (hostname prs)))
      else if contains_any p [''/wp-login'', ''/wp-admin'', ''/wp-content'', ''/wp-includes''] then
        (ok, html_type, encode_text WP_LOGIN)
      else if contains_any p [''/phpmyadmin'', ''/pma'', ''/mysqladmin'', ''/dbadmin'', ''/myadmin''] then
        (ok, html_type, encode_text PHPMYADMIN)
      else if p \<in> set (map lit [''/'', ''/index.html'', ''/index.php'']) then
        (ok, html_type,
         (case k of Nginx \<Rightarrow> encode_text WP_HOME | Busybox \<Rightarrow> encode_text ROUTER_LOGIN
          | Apache \<Rightarrow> if persona_id prs = lit ''centos_database'' then encode_text PHPMYADMIN else encode_text APACHE_DEFAULT))
      else
        (lit ''404 Not Found'', html_type,
         (case k of Nginx \<Rightarrow> encode_text NGINX_NOT_FOUND | Busybox \<Rightarrow> encode_text BUSYBOX_NOT_FOUND
          | Apache \<Rightarrow> apache_not_found (hostname prs))))"

section \<open>The response\<close>

definition malformed_request :: "str \<Rightarrow> nat \<Rightarrow> bool" where
  "malformed_request http_version hosts \<longleftrightarrow>
     http_version \<notin> set SUPPORTED_HTTP_VERSIONS \<or> 1 < hosts \<or> (http_version = lit ''HTTP/1.1'' \<and> hosts = 0)"

definition allow_header :: str where
  "allow_header = lit ''Allow: '' @ join (lit '', '') ALLOWED_METHODS @ [carriage, newline]"

text \<open>Status, type, body and the extra header of a response.\<close>

definition response_parts :: "persona \<Rightarrow> server_kind \<Rightarrow> str \<Rightarrow> str \<Rightarrow> str \<Rightarrow> nat \<Rightarrow> str \<times> str \<times> bytes \<times> str" where
  "response_parts prs k meth path http_version hosts =
     (if malformed_request http_version hosts then
        (lit ''400 Bad Request'', html_type, bad_request_body k (hostname prs), [])
      else if meth = lit ''OPTIONS'' then (lit ''200 OK'', html_type, [], allow_header)
      else if meth \<notin> set ALLOWED_METHODS then
        (lit ''405 Method Not Allowed'', html_type, method_not_allowed_body k (hostname prs), allow_header)
      else (case pick_body prs path k of (status, content_type, body) \<Rightarrow> (status, content_type, body, [])))"

definition header_line :: "str \<Rightarrow> str \<Rightarrow> str" where
  "header_line name value = name @ lit '': '' @ value @ [carriage, newline]"

definition response_head :: "server_kind \<Rightarrow> str \<times> str \<times> bytes \<times> str \<Rightarrow> str" where
  "response_head k parts =
     (case parts of (status, content_type, body, allow) \<Rightarrow>
        lit ''HTTP/1.1 '' @ status @ [carriage, newline]
        @ header_line (lit ''Server'') (SERVER_HEADERS k)
        @ header_line (lit ''Content-Type'') content_type
        @ header_line (lit ''Content-Length'') (str_of_nat (length body))
        @ allow @ header_line (lit ''Connection'') (lit ''close'') @ [carriage, newline])"

definition build_response :: "persona \<Rightarrow> str \<Rightarrow> str \<Rightarrow> str \<Rightarrow> nat \<Rightarrow> bytes option" where
  "build_response prs meth path http_version hosts =
     (case server_kind_of prs of
        None \<Rightarrow> None
      | Some k \<Rightarrow>
          (let parts = response_parts prs k meth path http_version hosts
           in Some (if meth = lit ''HEAD'' then encode_text (response_head k parts)
                    else encode_text (response_head k parts) @ fst (snd (snd parts)))))"

end
