(* ===== verification/Handlers.thy ===== *)
theory Handlers
  imports Connections SessionLog HttpPages
begin

text \<open>
  The Telnet and FTP decoys (\<open>honeypot/network/telnet_handler.py\<close>, \<open>ftp_handler.py\<close>), the frame all
  three protocol handlers share, and the server that accepts their connections
  (\<open>protocol_server.py\<close>). A handler is a function on a conversation: the connection and the
  session it fills. Its result says how it left: normally, or with what an await raised.
\<close>

lemma strip_Nil [simp]: "strip [] = []"
  by (simp add: strip_def strip_if_def lstrip_if_def rstrip_if_def)

lemma strip_eq_Nil_iff: "strip s = [] \<longleftrightarrow> list_all is_space s"
proof -
  have "strip s = [] \<longleftrightarrow> list_all is_space (dropWhile is_space s)"
    by (simp add: strip_def strip_if_def lstrip_if_def rstrip_if_def list_all_iff)
  also have "\<dots> \<longleftrightarrow> list_all is_space s" by (induction s) simp_all
  finally show ?thesis .
qed

section \<open>Conversations\<close>

record conversation = connection +
  cv_session :: protocol_session

definition new_conversation :: "str \<Rightarrow> peer_address \<Rightarrow> str \<Rightarrow> persona \<Rightarrow> connection \<Rightarrow> conversation" where
  "new_conversation sid p protocol prs c =
     (case clock c of (now, c') \<Rightarrow> connection.extend c' \<lparr>cv_session = new_protocol_session sid now p protocol prs\<rparr>)"

text \<open>\<open>self.session.log_command(...)\<close>; a blank line reads no clock.\<close>

definition note_line :: "str \<Rightarrow> conversation \<Rightarrow> conversation" where
  "note_line text cv =
     (if text = [] then cv
      else case clock cv of (now, cv') \<Rightarrow> cv'\<lparr>cv_session := ps_log_command now text (cv_session cv')\<rparr>)"

definition cv_persona :: "conversation \<Rightarrow> persona" where
  "cv_persona cv = ps_persona (cv_session cv)"

text \<open>The end of \<open>handle\<close>: the reason from how the body left, then the \<open>finally\<close> block. Exceptions of
  closing are dropped, but a cancellation while the connection closes is none of them: the session
  is then neither finalized nor logged (\<open>None\<close>).\<close>

definition close_connection :: "str \<Rightarrow> conversation \<Rightarrow> protocol_session option \<times> conversation" where
  "close_connection reason cv =
     (case pause cv of
        (Inl Await_Cancelled, cv1) \<Rightarrow> (None, cv1)
      | (_, cv1) \<Rightarrow>
          (let session = cv_session cv1 in
           if ps_end_time session = None
           then (case clock cv1 of (now, cv2) \<Rightarrow> (Some (ps_finalize now reason session), cv2\<lparr>cv_session := ps_finalize now reason session\<rparr>))
           else (Some session, cv1)))"

section \<open>Telnet\<close>

definition MAX_LOGIN_ATTEMPTS :: nat where
  "MAX_LOGIN_ATTEMPTS = 5"

text \<open>\<open>_send\<close>: Latin-1, with a question mark for what it cannot hold.\<close>

definition latin_1 :: "str \<Rightarrow> bytes" where
  "latin_1 s = map (\<lambda>c. if c < 256 then c else question) s"

abbreviation (input) crlf :: str where "crlf \<equiv> [carriage, newline]"

definition telnet_send :: "str \<Rightarrow> conversation \<Rightarrow> (stop + unit) \<times> conversation" where
  "telnet_send text = send_bytes (latin_1 text)"

text \<open>\<open>_drain_iac\<close>: the replies to the options of the first burst, and the bytes between them.\<close>

definition iac_reply :: "nat \<Rightarrow> nat \<Rightarrow> bytes" where
  "iac_reply cmd option = (if cmd = 0xFD then [0xFF, 0xFC, option] else if cmd = 0xFB then [0xFF, 0xFE, option] else [])"

fun iac_scan :: "bytes \<Rightarrow> bytes \<times> bytes" where
  "iac_scan [] = ([], [])"
| "iac_scan (b # bs) =
     (if b = 0xFF then
        (if 2 \<le> length bs then (case iac_scan (drop 2 bs) of (reply, rest) \<Rightarrow> (iac_reply (bs ! 0) (bs ! 1) @ reply, rest))
         else ([], []))
      else (case iac_scan bs of (reply, rest) \<Rightarrow> (reply, b # rest)))"

definition is_os_stop :: "stop \<Rightarrow> bool" where
  "is_os_stop x \<longleftrightarrow> x = Await_Timeout \<or> x = Await_Lost"

definition drain_iac :: "conversation \<Rightarrow> (stop + bytes) \<times> conversation" where
  "drain_iac cv =
     (case read_some 64 cv of
        (Inl x, cv1) \<Rightarrow> (if is_os_stop x then Inr [] else Inl x, cv1)
      | (Inr data, cv1) \<Rightarrow>
          (case iac_scan data of (reply, rest) \<Rightarrow>
             if reply = [] then (Inr rest, cv1)
             else case send_bytes reply cv1 of
                    (Inl x, cv2) \<Rightarrow> (if is_os_stop x then Inr rest else Inl x, cv2)
                  | (Inr u, cv2) \<Rightarrow> (Inr rest, cv2)))"

text \<open>The scan of \<open>_read_line\<close>: the line so far and, after its end, the unconsumed bytes.\<close>

fun scan_line :: "str \<Rightarrow> bytes \<Rightarrow> str \<times> bytes option" where
  "scan_line text [] = (text, None)"
| "scan_line text (b # bs) =
     (if b = 0xFF then (if 2 \<le> length bs then scan_line text (drop 2 bs) else (text, None))
      else if b = 0x08 \<or> b = 0x7F then scan_line (butlast text) bs
      else if b = carriage \<or> b = newline then
        (text, Some (if b = carriage \<and> bs \<noteq> [] \<and> hd bs = newline then tl bs else bs))
      else scan_line (text @ [b]) bs)"

definition read_scanned :: "bool \<Rightarrow> bytes \<Rightarrow> conversation \<Rightarrow> (stop + str option \<times> bytes) \<times> conversation" where
  "read_scanned echoed data cv =
     (case scan_line [] data of
        (text, None) \<Rightarrow> (Inr (Some text, []), cv)
      | (text, Some rest) \<Rightarrow>
          if echoed then after (telnet_send crlf) (\<lambda>u. Pair (Inr (Some text, rest))) cv
          else (Inr (Some text, rest), cv))"

definition read_line :: "bool \<Rightarrow> bytes \<Rightarrow> conversation \<Rightarrow> (stop + str option \<times> bytes) \<times> conversation" where
  "read_line echoed initial cv =
     (if carriage \<notin> set initial \<and> newline \<notin> set initial then
        after readline (\<lambda>more_data.
          if more_data = [] \<and> initial = [] then Pair (Inr (None, []))
          else read_scanned echoed (initial @ more_data)) cv
      else read_scanned echoed initial cv)"

text \<open>The loop over the login attempts, one question after the other.\<close>

definition note_credential :: "str \<Rightarrow> str \<Rightarrow> conversation \<Rightarrow> conversation" where
  "note_credential label value cv = (if strip value = [] then cv else note_line (label @ strip value) cv)"

definition ask_password ::
  "bytes \<Rightarrow> (bytes \<Rightarrow> conversation \<Rightarrow> (stop + unit) \<times> conversation) \<Rightarrow> conversation \<Rightarrow> (stop + unit) \<times> conversation" where
  "ask_password leftover retry =
     after (telnet_send (lit ''Password: '')) (\<lambda>_.
     after (read_line False leftover) (\<lambda>answer.
       case fst answer of
         None \<Rightarrow> Pair (Inr ())
       | Some password \<Rightarrow>
           doing (note_credential (lit ''password: '') password)
             (after pause (\<lambda>_.
              after (telnet_send (crlf @ lit ''Login incorrect'' @ crlf)) (\<lambda>_. retry (snd answer))))))"

definition ask_login ::
  "bytes \<Rightarrow> (bytes \<Rightarrow> conversation \<Rightarrow> (stop + unit) \<times> conversation) \<Rightarrow> conversation \<Rightarrow> (stop + unit) \<times> conversation" where
  "ask_login leftover retry cv =
     after (telnet_send (hostname (cv_persona cv) @ lit '' login: '')) (\<lambda>_.
     after (read_line True leftover) (\<lambda>answer.
       case fst answer of
         None \<Rightarrow> Pair (Inr ())
       | Some user \<Rightarrow> doing (note_credential (lit ''login: '') user) (ask_password (snd answer) retry))) cv"

fun login_attempts :: "nat \<Rightarrow> bytes \<Rightarrow> conversation \<Rightarrow> (stop + unit) \<times> conversation" where
  "login_attempts 0 leftover = Pair (Inr ())"
| "login_attempts (Suc n) leftover = ask_login leftover (login_attempts n)"

text \<open>\<open>handle\<close> up to its \<open>finally\<close>.\<close>

definition telnet_body :: "conversation \<Rightarrow> (stop + unit) \<times> conversation" where
  "telnet_body =
     after drain_iac (\<lambda>leftover cv.
       after (telnet_send (crlf @ os_banner (cv_persona cv) @ crlf @ crlf)) (\<lambda>_. login_attempts MAX_LOGIN_ATTEMPTS leftover) cv)"

definition telnet_reason :: "stop + unit \<Rightarrow> str" where
  "telnet_reason result =
     (case result of
        Inr u \<Rightarrow> lit ''disconnect''
      | Inl Await_Timeout \<Rightarrow> lit ''timeout''
      | Inl Await_Cancelled \<Rightarrow> lit ''shutdown''
      | Inl Await_Lost \<Rightarrow> lit ''disconnect''
      | Inl Await_Failed \<Rightarrow> lit ''error'')"

section \<open>FTP\<close>

text \<open>\<open>data.decode(errors="ignore").rstrip("\r\n")\<close>.\<close>

definition ftp_text :: "bytes \<Rightarrow> str" where
  "ftp_text data = rstrip_if (\<lambda>c. c = carriage \<or> c = newline) (utf8_decode dec_ignore data)"

text \<open>\<open>_RDP_COOKIE_PATTERN.search\<close>: the first place \<open>mstshash=\<close> is followed by a printable character.\<close>

fun rdp_cookie :: "bytes \<Rightarrow> str option" where
  "rdp_cookie [] = None"
| "rdp_cookie (b # bs) =
     (let found = takeWhile (\<lambda>c. 0x21 \<le> c \<and> c \<le> 0x7E) (drop 9 (b # bs))
      in if startswith (b # bs) (lit ''mstshash='') \<and> found \<noteq> [] then Some (take 64 found) else rdp_cookie bs)"

definition hex_dump :: "bytes \<Rightarrow> str" where
  "hex_dump bs = join [space] (map hex2 bs)"

definition describe_first_message :: "bytes \<Rightarrow> str" where
  "describe_first_message data =
     (if take 1 data = [0x16] \<and> (take 1 (drop 1 data) = [0x03] \<or> drop 1 data = [])
      then lit ''[TLS handshake] '' @ hex_dump (take 16 data)
      else if take 2 data = [0x03, 0x00]
      then lit ''[RDP connection request]'' @ (case rdp_cookie data of None \<Rightarrow> [] | Some c \<Rightarrow> lit '' mstshash='' @ c)
      else ftp_text data)"

definition BINARY_FIRST_BYTES :: "nat list" where
  "BINARY_FIRST_BYTES = [0x16, 0x03]"

definition read_first_message :: "conversation \<Rightarrow> (stop + str option) \<times> conversation" where
  "read_first_message =
     after (read_some 1) (\<lambda>first.
       if first = [] then Pair (Inr None)
       else if hd first \<in> set BINARY_FIRST_BYTES then
         (\<lambda>cv. case read_some 4096 cv of
            (Inl Await_Timeout, cv') \<Rightarrow> (Inr (Some (describe_first_message first)), cv')
          | (Inl x, cv') \<Rightarrow> (Inl x, cv')
          | (Inr rest, cv') \<Rightarrow> (Inr (Some (describe_first_message (first @ rest))), cv'))
       else after readline (\<lambda>rest. Pair (Inr (Some (describe_first_message (first @ rest))))))"

definition read_command :: "conversation \<Rightarrow> (stop + str option) \<times> conversation" where
  "read_command = after readline (\<lambda>data. Pair (Inr (if data = [] then None else Some (ftp_text data))))"

text \<open>\<open>text.upper().startswith(word)\<close> for an ASCII word: what \<open>upper\<close> gives for ASCII letters and for
  the other characters whose upper case contains an ASCII letter of \<open>USER\<close> or \<open>PASS\<close>.\<close>

definition upper_part :: "nat \<Rightarrow> str" where
  "upper_part c =
     (if 97 \<le> c \<and> c \<le> 122 then [c - 32]
      else if c = 0xDF then lit ''SS''
      else if c = 0x17F then lit ''S''
      else if c = 0xFB05 \<or> c = 0xFB06 then lit ''ST''
      else if c = 0x1E9A then [65, 0x2BE]
      else [c])"

definition upper_starts :: "str \<Rightarrow> str \<Rightarrow> bool" where
  "upper_starts text word = startswith (concat (map upper_part text)) word"

definition ftp_send :: "str \<Rightarrow> conversation \<Rightarrow> (stop + unit) \<times> conversation" where
  "ftp_send text = send_bytes (encode_text (text @ crlf))"

definition ftp_password :: "str \<Rightarrow> conversation \<Rightarrow> (stop + unit) \<times> conversation" where
  "ftp_password password =
     doing (note_line (if upper_starts password (lit ''PASS'') then lit ''PASS '' @ strip (drop 4 password) else password))
       (after (ftp_send (lit ''530 Login incorrect.'')) (\<lambda>_. ftp_send (lit ''421 Timeout.'')))"

definition ftp_user :: "str \<Rightarrow> conversation \<Rightarrow> (stop + unit) \<times> conversation" where
  "ftp_user user =
     (if upper_starts user (lit ''USER'') then
        doing (note_line (lit ''USER '' @ strip (drop 4 user)))
          (after (ftp_send (lit ''331 Please specify the password.'')) (\<lambda>_.
           after read_command (\<lambda>answer.
             case answer of
               None \<Rightarrow> Pair (Inr ())
             | Some password \<Rightarrow> if password = [] then Pair (Inr ()) else ftp_password password)))
      else doing (note_line user) (ftp_send (lit ''530 Login incorrect.'')))"

definition ftp_body :: "conversation \<Rightarrow> (stop + unit) \<times> conversation" where
  "ftp_body =
     after (ftp_send (lit ''220 (vsFTPd 3.0.3)'')) (\<lambda>_.
     after read_first_message (\<lambda>answer.
       case answer of
         None \<Rightarrow> Pair (Inr ())
       | Some user \<Rightarrow> if user = [] then Pair (Inr ()) else ftp_user user))"

text \<open>What \<open>handle\<close> of the FTP and HTTP handlers makes of an exception: a lost connection is an error.\<close>

definition plain_reason :: "stop + unit \<Rightarrow> str" where
  "plain_reason result =
     (case result of
        Inr u \<Rightarrow> lit ''disconnect''
      | Inl Await_Timeout \<Rightarrow> lit ''timeout''
      | Inl Await_Cancelled \<Rightarrow> lit ''shutdown''
      | Inl x \<Rightarrow> lit ''error'')"

end
