(* ===== verification/HttpHandler.thy ===== *)
theory HttpHandler
  imports Handlers
begin

text \<open>
  \<open>HttpHandler\<close> of \<open>honeypot/network/http_handler.py\<close>: reading one request, what of it is logged, and
  the answer.
\<close>

section \<open>Reading a request\<close>

definition HEADER_BYTES :: nat where
  "HEADER_BYTES = 16384"

function read_headers :: "bytes \<Rightarrow> conversation \<Rightarrow> (stop + bytes) \<times> conversation" where
  "read_headers data cv =
     (if HEADER_BYTES \<le> length data then (Inr data, cv)
      else (case readline cv of
         (Inl x, cv') \<Rightarrow> (Inl x, cv')
       | (Inr line, cv') \<Rightarrow>
           if line = [] then (Inr data, cv')
           else if line = crlf \<or> line = [newline] then (Inr (data @ line), cv')
           else read_headers (data @ line) cv'))"
  by pat_completeness auto
termination
  by (relation "measure (\<lambda>(data, cv). HEADER_BYTES - length data)") (auto simp: neq_Nil_conv)

declare read_headers.simps [simp del]

text \<open>The header lines: how many name a host, the values by lower-case name, the lines that are logged.\<close>

definition LOGGED_HEADERS :: "str list" where
  "LOGGED_HEADERS = map lit [''user-agent'', ''x-forwarded-for'', ''authorization'']"

record headers =
  hd_values :: "(str \<times> str) list"
  hd_hosts :: nat

definition note_header :: "str \<Rightarrow> headers \<times> conversation \<Rightarrow> headers \<times> conversation" where
  "note_header text hc =
     (case partition_at colon text of
        (name, None) \<Rightarrow> hc
      | (name, Some val) \<Rightarrow>
          (let key = lower (strip name); h = fst hc in
           (h\<lparr>hd_values := dict_put key (strip val) (hd_values h),
              hd_hosts := hd_hosts h + (if key = lit ''host'' then 1 else 0)\<rparr>,
            if key \<in> set LOGGED_HEADERS then note_line (strip text) (snd hc) else snd hc)))"

text \<open>\<open>request_line.split(" ", 2)\<close> and its three parts.\<close>

definition request_parts :: "str \<Rightarrow> str list" where
  "request_parts text =
     (case partition_at space text of
        (a, None) \<Rightarrow> [a]
      | (a, Some r) \<Rightarrow> (case partition_at space r of (b, None) \<Rightarrow> [a, b] | (b, Some c) \<Rightarrow> [a, b, c]))"

definition request_method :: "str list \<Rightarrow> str" where
  "request_method parts = hd parts"

definition request_path :: "str list \<Rightarrow> str" where
  "request_path parts = (if 1 < length parts then parts ! 1 else [slash])"

definition request_version :: "str list \<Rightarrow> str" where
  "request_version parts = (if 2 < length parts then strip (parts ! 2) else lit ''HTTP/1.1'')"

text \<open>\<open>_read_body\<close>. \<open>int\<close> refuses more than 4,300 digits.\<close>

definition content_length :: "(str \<times> str) list \<Rightarrow> int" where
  "content_length values =
     (let text = (case dict_get values (lit ''content-length'') of None \<Rightarrow> lit ''0'' | Some v \<Rightarrow> v) in
      if 4300 < length (filter is_decimal text) then 0
      else case int_of_str text of None \<Rightarrow> 0 | Some n \<Rightarrow> n)"

definition MAX_BODY :: int where
  "MAX_BODY = 65536"

definition read_body :: "(str \<times> str) list \<Rightarrow> conversation \<Rightarrow> (stop + bytes) \<times> conversation" where
  "read_body values =
     (let n = content_length values
      in if n \<le> 0 then Pair (Inr []) else read_exactly (nat (min n MAX_BODY)))"

definition body_text :: "bytes \<Rightarrow> str" where
  "body_text body = take 1024 (utf8_decode dec_ignore body)"

definition note_body :: "str \<Rightarrow> bytes \<Rightarrow> conversation \<Rightarrow> conversation" where
  "note_body path body cv =
     (if strip (body_text body) = [] then cv
      else note_line (lit ''POST '' @ path @ lit '': '' @ body_text body) cv)"

section \<open>One connection\<close>

definition http_lines :: "bytes \<Rightarrow> str list" where
  "http_lines raw = split_on newline (replace_str crlf [newline] (utf8_decode dec_ignore raw))"

definition note_request :: "str list \<Rightarrow> conversation \<Rightarrow> headers \<times> conversation" where
  "note_request xs cv =
     fold note_header (tl xs) (\<lparr>hd_values = [], hd_hosts = 0\<rparr>, note_line (hd xs) cv)"

definition answer :: "str list \<Rightarrow> nat \<Rightarrow> conversation \<Rightarrow> (stop + unit) \<times> conversation" where
  "answer parts hosts cv =
     (case build_response (cv_persona cv) (request_method parts) (request_path parts) (request_version parts) hosts of
        None \<Rightarrow> (Inl Await_Failed, cv)
      | Some response \<Rightarrow> send_bytes response cv)"

definition http_request :: "bytes \<Rightarrow> conversation \<Rightarrow> (stop + unit) \<times> conversation" where
  "http_request raw cv =
     (let xs = http_lines raw; parts = request_parts (hd xs) in
      case note_request xs cv of
        (h, cv1) \<Rightarrow>
          if request_method parts = lit ''POST'' then
            after (read_body (hd_values h))
              (\<lambda>body cv2. answer parts (hd_hosts h) (note_body (request_path parts) body cv2)) cv1
          else answer parts (hd_hosts h) cv1)"

definition http_body :: "conversation \<Rightarrow> (stop + unit) \<times> conversation" where
  "http_body = after (read_headers []) (\<lambda>raw. if raw = [] then Pair (Inr ()) else http_request raw)"

section \<open>Serving a connection\<close>

text \<open>\<open>handle\<close> of each handler class: its body, then its \<open>finally\<close> block. \<open>serve_connection\<close> adds what the
  block does with the finished session.\<close>

datatype handler_class = Telnet_Handler | Ftp_Handler | Http_Handler

fun protocol_of :: "handler_class \<Rightarrow> str" where
  "protocol_of Telnet_Handler = lit ''telnet''"
| "protocol_of Ftp_Handler = lit ''ftp''"
| "protocol_of Http_Handler = lit ''http''"

fun handler_label :: "handler_class \<Rightarrow> str" where
  "handler_label Telnet_Handler = lit ''Telnet''"
| "handler_label Ftp_Handler = lit ''FTP''"
| "handler_label Http_Handler = lit ''HTTP''"

fun handler_body :: "handler_class \<Rightarrow> conversation \<Rightarrow> (stop + unit) \<times> conversation" where
  "handler_body Telnet_Handler = telnet_body"
| "handler_body Ftp_Handler = ftp_body"
| "handler_body Http_Handler = http_body"

fun end_reason_of :: "handler_class \<Rightarrow> stop + unit \<Rightarrow> str" where
  "end_reason_of Telnet_Handler = telnet_reason"
| "end_reason_of Ftp_Handler = plain_reason"
| "end_reason_of Http_Handler = plain_reason"

definition handle :: "handler_class \<Rightarrow> conversation \<Rightarrow> protocol_session option \<times> conversation" where
  "handle k cv = (case handler_body k cv of (result, cv') \<Rightarrow> close_connection (end_reason_of k result) cv')"

definition serve_connection ::
  "log_env \<Rightarrow> rat \<Rightarrow> rat \<Rightarrow> handler_class \<Rightarrow> conversation \<Rightarrow> session_log \<Rightarrow> session_log" where
  "serve_connection e now later k cv lg =
     (case fst (handle k cv) of
        None \<Rightarrow> lg
      | Some s \<Rightarrow> finalize_and_schedule e now later (ps_to_record s) (handler_label k) (ps_session_id s) lg)"

end
