(* ===== verification/ConversationInvariants.thy ===== *)
theory ConversationInvariants
  imports HttpHandler
begin

text \<open>
  What the handlers keep of a conversation. Each of them changes it through five primitives only:
  waiting for data, taking from the buffer, sending, pausing and logging a line. So an invariant of
  these is kept by whole handlers: the locale \<open>conversation_invariant\<close>, which extends the one for what
  touches only the transport. It is interpreted on the
  consistency of the session's log, from which a finished session serialises to a valid record.
\<close>

section \<open>Keeping an invariant\<close>

definition keeps :: "(conversation \<Rightarrow> bool) \<Rightarrow> (conversation \<Rightarrow> 'a \<times> conversation) \<Rightarrow> bool" where
  "keeps I m \<longleftrightarrow> (\<forall>cv r cv'. I cv \<longrightarrow> m cv = (r, cv') \<longrightarrow> I cv')"

lemma keepsD: "keeps I m \<Longrightarrow> I cv \<Longrightarrow> m cv = (r, cv') \<Longrightarrow> I cv'"
  by (simp add: keeps_def)

lemma keepsI: "(\<And>cv r cv'. I cv \<Longrightarrow> m cv = (r, cv') \<Longrightarrow> I cv') \<Longrightarrow> keeps I m"
  by (simp add: keeps_def)

lemma keeps_Pair [simp]: "keeps I (Pair r)"
  by (simp add: keeps_def)

lemma keeps_after: "keeps I m \<Longrightarrow> (\<And>a. keeps I (f a)) \<Longrightarrow> keeps I (after m f)"
  by (rule keepsI) (auto simp: after_def split: prod.splits sum.splits dest: keepsD)

lemma keeps_doing: "(\<And>cv. I cv \<Longrightarrow> I (f cv)) \<Longrightarrow> keeps I m \<Longrightarrow> keeps I (doing f m)"
  unfolding keeps_def doing_def by blast

lemma keeps_of: "(\<And>cv0. keeps I (m cv0)) \<Longrightarrow> keeps I (\<lambda>cv. m cv cv)"
  by (simp add: keeps_def)

locale transport_invariant =
  fixes I :: "conversation \<Rightarrow> bool"
  assumes I_wait: "I cv \<Longrightarrow> wait_for_data cv = (r, cv') \<Longrightarrow> I cv'"
    and I_take: "I cv \<Longrightarrow> I (cv\<lparr>cn_buffer := b\<rparr>)"
    and I_sent: "I cv \<Longrightarrow> I (cv\<lparr>cn_sent := b\<rparr>)"
    and I_pause: "I cv \<Longrightarrow> pause cv = (r', cv') \<Longrightarrow> I cv'"
begin

lemma keeps_wait: "keeps I wait_for_data"
  by (rule keepsI) (rule I_wait)

lemma keeps_pause: "keeps I pause"
  by (rule keepsI) (rule I_pause)

lemma keeps_send: "keeps I (send_bytes b)"
  by (rule keepsI) (auto simp: send_bytes_def dest: I_pause [OF I_sent])

lemma keeps_readline: "keeps I readline"
proof (rule keepsI)
  show "I cv \<Longrightarrow> readline cv = (r, cv') \<Longrightarrow> I cv'" for cv r cv'
  proof (induction cv rule: readline.induct)
    case (1 cv)
    show ?case using 1(2,3)
      by (subst (asm) readline.simps)
        (auto simp: Let_def I_take split: if_splits prod.splits sum.splits dest: I_wait intro: 1(1) [OF _ refl refl])
  qed
qed

lemma keeps_read_some: "keeps I (read_some n)"
proof (rule keepsI)
  show "I cv \<Longrightarrow> read_some n cv = (r, cv') \<Longrightarrow> I cv'" for cv r cv'
  proof (induction n cv rule: read_some.induct)
    case (1 n cv)
    show ?case using 1(2,3)
      by (subst (asm) read_some.simps)
        (auto simp: I_take split: if_splits prod.splits sum.splits dest: I_wait intro: 1(1))
  qed
qed

lemma keeps_read_exactly: "keeps I (read_exactly n)"
proof (rule keepsI)
  show "I cv \<Longrightarrow> read_exactly n cv = (r, cv') \<Longrightarrow> I cv'" for cv r cv'
  proof (induction n cv rule: read_exactly.induct)
    case (1 n cv)
    show ?case using 1(2,3)
      by (subst (asm) read_exactly.simps)
        (auto simp: I_take split: if_splits prod.splits sum.splits dest: I_wait intro: 1(1))
  qed
qed

lemmas keeps_primitives = keeps_wait keeps_pause keeps_send keeps_readline keeps_read_some keeps_read_exactly

lemma keeps_drain_iac: "keeps I drain_iac"
  by (rule keepsI) (auto simp: drain_iac_def split: prod.splits sum.splits if_splits
      dest: keepsD [OF keeps_read_some] keepsD [OF keeps_send])

lemma keeps_read_scanned: "keeps I (read_scanned echoed data)"
proof -
  have e: "keeps I (\<lambda>cv. after (telnet_send crlf) (\<lambda>u. Pair (Inr (Some s, rest))) cv)" for s rest
    by (intro keeps_after) (simp_all add: telnet_send_def keeps_primitives)
  show ?thesis
    by (rule keepsI) (auto simp: read_scanned_def split: prod.splits option.splits if_splits dest: keepsD [OF e])
qed

lemma keeps_read_line: "keeps I (read_line echoed initial)"
proof -
  have e: "keeps I (after readline (\<lambda>more_data.
          if more_data = [] \<and> initial = [] then Pair (Inr (None, []))
          else read_scanned echoed (initial @ more_data)))"
    by (intro keeps_after) (simp_all add: keeps_primitives keeps_read_scanned)
  show ?thesis
    by (rule keepsI) (auto simp: read_line_def split: if_splits dest: keepsD [OF e] keepsD [OF keeps_read_scanned])
qed

lemma keeps_telnet_send: "keeps I (telnet_send s)"
  by (simp add: telnet_send_def keeps_send)

end

locale conversation_invariant = transport_invariant +
  assumes I_note: "I cv \<Longrightarrow> I (note_line text cv)"
begin

lemma I_credential: "I cv \<Longrightarrow> I (note_credential label value cv)"
  by (simp add: note_credential_def I_note)

lemma keeps_ask_password: "(\<And>l. keeps I (retry l)) \<Longrightarrow> keeps I (ask_password leftover retry)"
  unfolding ask_password_def
  by (intro keeps_after keeps_telnet_send keeps_read_line)
    (auto intro!: keeps_doing keeps_after keeps_pause keeps_telnet_send I_credential split: option.split)

lemma keeps_ask_login: "(\<And>l. keeps I (retry l)) \<Longrightarrow> keeps I (ask_login leftover retry)"
  unfolding ask_login_def
  by (rule keeps_of, intro keeps_after keeps_telnet_send keeps_read_line)
    (auto intro!: keeps_doing keeps_ask_password I_credential split: option.split)

lemma keeps_login_attempts: "keeps I (login_attempts n leftover)"
  by (induction n arbitrary: leftover) (simp_all add: keeps_ask_login)

lemma keeps_telnet_body: "keeps I telnet_body"
proof -
  have "keeps I (\<lambda>cv. after (telnet_send (crlf @ os_banner (cv_persona cv) @ crlf @ crlf))
      (\<lambda>_. login_attempts MAX_LOGIN_ATTEMPTS leftover) cv)" for leftover
    by (rule keeps_of, intro keeps_after keeps_telnet_send keeps_login_attempts)
  then show ?thesis unfolding telnet_body_def
    by (intro keeps_after keeps_drain_iac)
qed

lemma keeps_ftp_send: "keeps I (ftp_send s)"
  by (simp add: ftp_send_def keeps_send)

lemma keeps_read_first_message: "keeps I read_first_message"
proof -
  have b: "keeps I (\<lambda>cv. case read_some 4096 cv of
            (Inl Await_Timeout, cv') \<Rightarrow> (Inr (Some (describe_first_message first)), cv')
          | (Inl x, cv') \<Rightarrow> (Inl x, cv')
          | (Inr rest, cv') \<Rightarrow> (Inr (Some (describe_first_message (first @ rest))), cv'))" for first
    by (rule keepsI) (auto split: prod.splits sum.splits stop.splits dest: keepsD [OF keeps_read_some])
  show ?thesis unfolding read_first_message_def
    by (intro keeps_after keeps_read_some) (auto intro!: keeps_after keeps_readline b)
qed

lemma keeps_ftp_body: "keeps I ftp_body"
  unfolding ftp_body_def ftp_user_def ftp_password_def read_command_def
  by (intro keeps_after keeps_ftp_send keeps_read_first_message)
    (auto intro!: keeps_doing keeps_after keeps_ftp_send keeps_readline I_note split: option.split)

lemma keeps_read_headers: "keeps I (read_headers data)"
proof (rule keepsI)
  show "I cv \<Longrightarrow> read_headers data cv = (r, cv') \<Longrightarrow> I cv'" for cv r cv'
  proof (induction data cv rule: read_headers.induct)
    case (1 data cv)
    obtain l cv1 where l: "readline cv = (l, cv1)" by force
    have cv1: "I cv1" using keepsD [OF keeps_readline 1(2) l] .
    note unfolded = 1(3) [unfolded read_headers.simps [of data cv]] l
    show ?case
    proof (cases "HEADER_BYTES \<le> length data")
      case True
      then show ?thesis using unfolded 1(2) by simp
    next
      case more: False
      show ?thesis
      proof (cases l)
        case (Inl x)
        then show ?thesis using unfolded more cv1 by simp
      next
        case (Inr line)
        show ?thesis
        proof (cases "line = [] \<or> line = crlf \<or> line = [newline]")
          case True
          then show ?thesis using unfolded more cv1 Inr by auto
        next
          case False
          then have "read_headers (data @ line) cv1 = (r, cv')" using unfolded more Inr by simp
          then show ?thesis using 1(1) [OF more l [symmetric] Inr] False cv1 by simp
        qed
      qed
    qed
  qed
qed

lemma keeps_note_request: "keeps I (note_request xs)"
proof (rule keepsI)
  have step: "I (snd hc) \<Longrightarrow> I (snd (note_header s hc))" for s hc
    by (auto simp: note_header_def Let_def I_note split: prod.splits option.splits)
  have "I (snd hc) \<Longrightarrow> I (snd (fold note_header ss hc))" for ss hc
    by (induction ss arbitrary: hc) (simp_all add: step)
  from this [of "(\<lparr>hd_values = [], hd_hosts = 0\<rparr>, note_line (hd xs) cv)" "tl xs" for cv]
  show "I cv \<Longrightarrow> note_request xs cv = (r, cv') \<Longrightarrow> I cv'" for cv r cv'
    by (metis I_note note_request_def snd_conv)
qed

lemma keeps_answer: "keeps I (answer parts hosts)"
  by (rule keepsI) (auto simp: answer_def split: option.splits dest: keepsD [OF keeps_send])

lemma keeps_http_body: "keeps I http_body"
proof -
  have b: "keeps I (read_body values)" for "values"
    by (simp add: read_body_def Let_def keeps_read_exactly)
  have noted: "I cv \<Longrightarrow> I (note_body path body cv)" for path body cv
    by (simp add: note_body_def I_note)
  have r: "keeps I (after (read_body values) (\<lambda>body cv2. answer parts hosts (note_body path body cv2)))"
    for "values" parts hosts path
    by (intro keeps_after b) (auto simp: keeps_def dest: noted keepsD [OF keeps_answer])
  have "keeps I (http_request raw)" for raw
  proof (rule keepsI)
    fix cv r' cv'
    assume I: "I cv" and run: "http_request raw cv = (r', cv')"
    obtain h cv1 where noted: "note_request (http_lines raw) cv = (h, cv1)" by force
    have cv1: "I cv1" using keepsD [OF keeps_note_request I noted] .
    show "I cv'"
    proof (cases "request_method (request_parts (hd (http_lines raw))) = lit ''POST''")
      case True
      show ?thesis by (rule keepsD [OF r cv1]) (use run noted True in \<open>simp add: http_request_def Let_def\<close>)
    next
      case False
      show ?thesis by (rule keepsD [OF keeps_answer cv1]) (use run noted False in \<open>simp add: http_request_def Let_def\<close>)
    qed
  qed
  then show ?thesis unfolding http_body_def
    by (intro keeps_after keeps_read_headers) simp
qed

end

text \<open>Whole handlers.\<close>

context conversation_invariant
begin

lemma keeps_handler_body: "keeps I (handler_body k)"
  by (cases k) (simp_all add: keeps_telnet_body keeps_ftp_body keeps_http_body)

end

section \<open>Interpretations\<close>

text \<open>The log of an open session: no line is blank, the times are in order, between the start and now.\<close>

definition log_fits :: "conversation \<Rightarrow> bool" where
  "log_fits cv \<longleftrightarrow>
     (let s = cv_session cv in
      list_all (\<lambda>d. 0 \<le> d) (cn_ticks cv) \<and> ps_start_time s \<le> cn_now cv
      \<and> times_ordered (ps_start_time s) (ps_commands s) (cn_now cv)
      \<and> list_all (\<lambda>c. ev_cmd c \<noteq> []) (ps_commands s) \<and> ps_end_time s = None)"

lemma times_ordered_snoc: "times_ordered t cs (ev_time c) \<Longrightarrow> t \<le> ev_time c \<Longrightarrow> times_ordered t (cs @ [c]) (ev_time c)"
  by (auto simp: times_ordered_def list_all_iff sorted_append)

lemma clock_later:
  assumes "clock cv = (now, cv')" "list_all (\<lambda>d. 0 \<le> d) (cn_ticks cv)"
  shows "cn_now cv \<le> now \<and> cn_now cv' = now \<and> list_all (\<lambda>d. 0 \<le> d) (cn_ticks cv')"
  using assms by (auto simp: clock_def split: list.splits)

lemma clock_session: "clock cv = (now, cv') \<Longrightarrow> cv_session cv' = cv_session cv"
  by (auto simp: clock_def split: list.splits)

lemma log_fits_note:
  assumes "log_fits cv"
  shows "log_fits (note_line s cv)"
proof (cases "s = []")
  case True
  then show ?thesis using assms by (simp add: note_line_def)
next
  case False
  obtain now cv' where c: "clock cv = (now, cv')" by force
  note later = clock_later [OF c] clock_session [OF c]
  have t: "times_ordered (ps_start_time (cv_session cv)) (ps_commands (cv_session cv)) now"
    "ps_start_time (cv_session cv) \<le> now"
    using assms later by (auto simp: log_fits_def Let_def elim: times_ordered_later)
  then show ?thesis using assms False c later times_ordered_snoc [of _ _ "\<lparr>ev_cmd = s, ev_time = now\<rparr>"]
    by (simp add: note_line_def log_fits_def Let_def ps_log_command_def)
qed

lemma wait_same: "wait_for_data cv = (r, cv') \<Longrightarrow>
    cv_session cv' = cv_session cv \<and> cn_now cv' = cn_now cv \<and> cn_ticks cv' = cn_ticks cv \<and> cn_pauses cv' = cn_pauses cv"
  by (auto simp: wait_for_data_def split: list.splits arrival.splits)

lemma pause_same: "pause cv = (r, cv') \<Longrightarrow>
    cv_session cv' = cv_session cv \<and> cn_now cv' = cn_now cv \<and> cn_ticks cv' = cn_ticks cv"
  by (auto simp: pause_def split: list.splits)

interpretation log_fits: conversation_invariant log_fits
proof unfold_locales
  show "log_fits cv \<Longrightarrow> wait_for_data cv = (r, cv') \<Longrightarrow> log_fits cv'" for cv cv' and r :: "stop + unit"
    using wait_same [of cv r cv'] by (simp add: log_fits_def)
  show "log_fits cv \<Longrightarrow> pause cv = (r, cv') \<Longrightarrow> log_fits cv'" for cv cv' and r :: "stop + unit"
    using pause_same [of cv r cv'] by (simp add: log_fits_def)
qed (simp_all add: log_fits_note, simp_all add: log_fits_def)

text \<open>What a session is called and where it comes from.\<close>

definition session_identity :: "protocol_session \<Rightarrow> str \<times> peer_address \<times> str \<times> persona \<times> rat" where
  "session_identity s = (ps_session_id s, ps_peer s, ps_protocol s, ps_persona s, ps_start_time s)"

definition identified :: "str \<times> peer_address \<times> str \<times> persona \<times> rat \<Rightarrow> conversation \<Rightarrow> bool" where
  "identified i cv \<longleftrightarrow> session_identity (cv_session cv) = i"

interpretation identified: conversation_invariant "identified i" for i
proof unfold_locales
  show "identified i cv \<Longrightarrow> wait_for_data cv = (r, cv') \<Longrightarrow> identified i cv'" for cv cv' and r :: "stop + unit"
    using wait_same [of cv r cv'] by (simp add: identified_def)
  show "identified i cv \<Longrightarrow> pause cv = (r, cv') \<Longrightarrow> identified i cv'" for cv cv' and r :: "stop + unit"
    using pause_same [of cv r cv'] by (simp add: identified_def)
  show "identified i cv \<Longrightarrow> identified i (note_line s cv)" for cv s
    by (auto simp: note_line_def identified_def session_identity_def ps_log_command_def split: prod.split dest: clock_session)
qed (simp_all add: identified_def)

text \<open>A connection whose other awaits all end well keeps doing so.\<close>

definition undisturbed :: "conversation \<Rightarrow> bool" where
  "undisturbed cv \<longleftrightarrow> cn_pauses cv = []"

interpretation undisturbed: conversation_invariant undisturbed
proof unfold_locales
  show "undisturbed cv \<Longrightarrow> wait_for_data cv = (r, cv') \<Longrightarrow> undisturbed cv'" for cv cv' and r :: "stop + unit"
    using wait_same [of cv r cv'] by (simp add: undisturbed_def)
  show "undisturbed cv \<Longrightarrow> undisturbed (note_line s cv)" for cv s
    by (auto simp: note_line_def undisturbed_def clock_def split: list.split)
qed (auto simp: undisturbed_def pause_def)

section \<open>Finished sessions\<close>

lemma new_conversation_starts:
  assumes "list_all (\<lambda>d. 0 \<le> d) (cn_ticks c)"
  shows "log_fits (new_conversation sid p proto prs c)"
    "identified (sid, p, proto, prs, ps_start_time (cv_session (new_conversation sid p proto prs c)))
      (new_conversation sid p proto prs c)"
  using assms
  by (auto simp: new_conversation_def log_fits_def Let_def identified_def session_identity_def new_protocol_session_def
      times_ordered_def clock_def connection.defs split: list.splits)

lemma closed_session:
  assumes "log_fits cv" "identified i cv" "close_connection reason cv = (Some s, cv')"
  shows "\<exists>ended. ps_end_time s = Some ended \<and> ps_end_reason s = Some reason \<and> ps_start_time s \<le> ended
    \<and> times_ordered (ps_start_time s) (ps_commands s) ended \<and> list_all (\<lambda>c. ev_cmd c \<noteq> []) (ps_commands s)
    \<and> session_identity s = i \<and> ps_commands s = ps_commands (cv_session cv)"
proof -
  obtain r cv1 where p: "pause cv = (r, cv1)" by force
  obtain now cv2 where c: "clock cv1 = (now, cv2)" by force
  note same = pause_same [OF p]
  have fits: "log_fits cv1" using log_fits.I_pause [OF assms(1) p] .
  then have "s = ps_finalize now reason (cv_session cv)" "ps_end_time (cv_session cv) = None"
    using assms(3) p c same
    by (auto simp: close_connection_def log_fits_def Let_def split: sum.splits stop.splits)
  then show ?thesis using fits same clock_later [OF c] assms(2)
    by (auto simp: log_fits_def Let_def ps_finalize_def identified_def session_identity_def elim: times_ordered_later)
qed

end
