(* ===== verification/TelnetProps.thy ===== *)
theory TelnetProps
  imports ConversationInvariants CatchUpProps
begin

text \<open>
  What the Telnet decoy records of a client's bytes: the credentials line by line, however the
  network cuts the stream, except where it cuts between a carriage return and its line feed; and
  what becomes of a client that ends its lines the way RFC 854 also allows, with a NUL.
\<close>

section \<open>A stream without interruptions\<close>

definition arrived :: "arrival \<Rightarrow> bytes" where
  "arrived a = (case a of Arrives b \<Rightarrow> b | _ \<Rightarrow> [])"

definition calm :: "'c connection_scheme \<Rightarrow> bool" where
  "calm c \<longleftrightarrow> \<not> cn_broken c \<and> \<not> cn_eof c \<and> list_all (\<lambda>a. a = Arrives (arrived a)) (cn_arrivals c)"

definition pending :: "'c connection_scheme \<Rightarrow> bytes" where
  "pending c = cn_buffer c @ concat (map arrived (cn_arrivals c))"

lemma wait_calm:
  assumes "calm c" "cn_arrivals c = a # as"
  shows "wait_for_data c = (Inr (), c\<lparr>cn_arrivals := as, cn_buffer := cn_buffer c @ arrived a\<rparr>)"
  using assms by (cases a) (auto simp: wait_for_data_def calm_def arrived_def)

lemma takeWhile_free: "x \<notin> set l \<Longrightarrow> takeWhile (\<lambda>b. b \<noteq> x) l = l"
  by (auto simp: takeWhile_eq_all_conv)

lemma takeWhile_to: "x \<notin> set l \<Longrightarrow> takeWhile (\<lambda>b. b \<noteq> x) (l @ x # r) = l"
  by (induction l) auto

lemma readline_buffered:
  assumes "\<not> cn_broken c" "cn_buffer c = l @ newline # b" "newline \<notin> set l" "length l \<le> STREAM_LIMIT"
  shows "readline c = (Inr (l @ [newline]), c\<lparr>cn_buffer := b\<rparr>)"
  using assms by (subst readline.simps) (simp add: Let_def takeWhile_to)

lemma readline_waits:
  assumes "\<not> cn_broken c" "\<not> cn_eof c" "newline \<notin> set (cn_buffer c)" "length (cn_buffer c) \<le> STREAM_LIMIT"
  shows "readline c = (case wait_for_data c of (Inl x, c') \<Rightarrow> (Inl x, c') | (Inr u, c') \<Rightarrow> readline c')"
  using assms by (subst readline.simps) (simp add: Let_def takeWhile_free)

lemma readline_ended: "\<not> cn_broken c \<Longrightarrow> cn_buffer c = [] \<Longrightarrow> cn_eof c \<Longrightarrow> readline c = (Inr [], c)"
  by (subst readline.simps) simp

lemma split_at_first:
  assumes "x @ y = l @ n # r" "n \<notin> set l"
  shows "if n \<in> set x then \<exists>b. x = l @ n # b \<and> r = b @ y else \<exists>m. l = x @ m \<and> y = m @ n # r"
  using assms by (auto simp: append_eq_append_conv2 append_eq_Cons_conv Cons_eq_append_conv)

lemma readline_calm:
  assumes "calm c" "pending c = l @ newline # rest" "newline \<notin> set l" "length l \<le> STREAM_LIMIT"
  shows "\<exists>b as. readline c = (Inr (l @ [newline]), c\<lparr>cn_buffer := b, cn_arrivals := as\<rparr>)
    \<and> calm (c\<lparr>cn_buffer := b, cn_arrivals := as\<rparr>) \<and> pending (c\<lparr>cn_buffer := b, cn_arrivals := as\<rparr>) = rest"
  using assms(1,2)
proof (induction "cn_arrivals c" arbitrary: c)
  case Nil
  then have "cn_buffer c = l @ newline # rest" by (simp add: pending_def)
  from readline_buffered [OF _ this assms(3,4)] show ?case using Nil
    by (intro exI [of _ rest] exI [of _ "[]"]) (simp add: calm_def pending_def)
next
  case (Cons a as)
  note split = split_at_first [OF Cons.prems(2) [unfolded pending_def] assms(3)]
  have calm: "\<not> cn_broken c" "\<not> cn_eof c" using Cons.prems(1) by (simp_all add: calm_def)
  show ?case
  proof (cases "newline \<in> set (cn_buffer c)")
    case True
    then obtain b where b: "cn_buffer c = l @ newline # b" "rest = b @ concat (map arrived (cn_arrivals c))"
      using split by auto
    from readline_buffered [OF calm(1) b(1) assms(3,4)] show ?thesis using Cons.prems(1) b(2)
      by (intro exI [of _ b] exI [of _ "cn_arrivals c"]) (simp add: calm_def pending_def)
  next
    case False
    let ?c = "c\<lparr>cn_arrivals := as, cn_buffer := cn_buffer c @ arrived a\<rparr>"
    have small: "length (cn_buffer c) \<le> STREAM_LIMIT" using False split assms(4) by auto
    have step: "readline c = readline ?c"
      using readline_waits [OF calm False small] wait_calm [OF Cons.prems(1) Cons.hyps(2) [symmetric]] by simp
    have "calm ?c" "pending ?c = l @ newline # rest"
      using Cons.prems Cons.hyps(2) [symmetric] by (simp_all add: calm_def pending_def)
    from Cons.hyps(1) [of ?c, OF _ this] obtain b as' where
      "readline ?c = (Inr (l @ [newline]), ?c\<lparr>cn_buffer := b, cn_arrivals := as'\<rparr>)"
      "calm (?c\<lparr>cn_buffer := b, cn_arrivals := as'\<rparr>)" "pending (?c\<lparr>cn_buffer := b, cn_arrivals := as'\<rparr>) = rest"
      by auto
    then show ?thesis using step by (intro exI [of _ b] exI [of _ as']) (simp add: calm_def pending_def)
  qed
qed

lemma readline_at_end:
  assumes "calm c" "pending c = []"
  shows "readline c = (Inr [], c\<lparr>cn_arrivals := [], cn_buffer := [], cn_eof := True\<rparr>)"
  using assms
proof (induction "cn_arrivals c" arbitrary: c)
  case Nil
  let ?c = "c\<lparr>cn_arrivals := [], cn_buffer := [], cn_eof := True\<rparr>"
  have b: "cn_buffer c = []" "\<not> cn_broken c" "\<not> cn_eof c" using Nil.prems by (simp_all add: pending_def calm_def)
  have "readline c = readline (c\<lparr>cn_eof := True\<rparr>)"
    using readline_waits [of c] b Nil.hyps by (simp add: wait_for_data_def)
  moreover have "c\<lparr>cn_eof := True\<rparr> = ?c" using b Nil.hyps by simp
  ultimately show ?case using readline_ended [of ?c] b by simp
next
  case (Cons a as)
  let ?c = "c\<lparr>cn_arrivals := as, cn_buffer := cn_buffer c @ arrived a\<rparr>"
  have b: "cn_buffer c = []" "arrived a = []" "\<not> cn_broken c" "\<not> cn_eof c" "calm ?c" "pending ?c = []"
    using Cons.prems Cons.hyps(2) [symmetric] by (simp_all add: pending_def calm_def)
  have "readline c = readline ?c"
    using readline_waits [of c] b wait_calm [OF Cons.prems(1) Cons.hyps(2) [symmetric]] by simp
  then show ?case using Cons.hyps(1) [of ?c, OF _ b(5,6)] b by simp
qed

lemma read_some_calm:
  assumes "calm c" "pending c \<noteq> []" "0 < n"
  shows "\<exists>d b as. read_some n c = (Inr d, c\<lparr>cn_buffer := b, cn_arrivals := as\<rparr>) \<and> d \<noteq> []
    \<and> calm (c\<lparr>cn_buffer := b, cn_arrivals := as\<rparr>) \<and> d @ pending (c\<lparr>cn_buffer := b, cn_arrivals := as\<rparr>) = pending c"
  using assms(1,2)
proof (induction "length (cn_arrivals c)" arbitrary: c)
  case 0
  then show ?case using assms(3)
    by (intro exI [of _ "take n (cn_buffer c)"] exI [of _ "drop n (cn_buffer c)"] exI [of _ "[]"])
      (subst read_some.simps, auto simp: pending_def calm_def)
next
  case (Suc k)
  then obtain a as where as: "cn_arrivals c = a # as" by (cases "cn_arrivals c") auto
  show ?case
  proof (cases "cn_buffer c = []")
    case False
    then show ?thesis using Suc.prems assms(3)
      by (intro exI [of _ "take n (cn_buffer c)"] exI [of _ "drop n (cn_buffer c)"] exI [of _ "cn_arrivals c"])
        (subst read_some.simps, auto simp: pending_def calm_def)
  next
    case True
    let ?c = "c\<lparr>cn_arrivals := as, cn_buffer := arrived a\<rparr>"
    have c: "calm ?c" "pending ?c = pending c" "k = length (cn_arrivals ?c)"
      using Suc.prems Suc.hyps(2) as True by (simp_all add: pending_def calm_def)
    have step: "read_some n c = read_some n ?c"
      using wait_calm [OF Suc.prems(1) as] True Suc.prems(1)
      by (subst read_some.simps) (simp add: calm_def)
    from Suc.hyps(1) [OF c(3,1)] c(2) Suc.prems(2) obtain d b as' where
      "read_some n ?c = (Inr d, ?c\<lparr>cn_buffer := b, cn_arrivals := as'\<rparr>)" "d \<noteq> []"
      "calm (?c\<lparr>cn_buffer := b, cn_arrivals := as'\<rparr>)" "d @ pending (?c\<lparr>cn_buffer := b, cn_arrivals := as'\<rparr>) = pending c"
      by auto
    then show ?thesis using step
      by (intro exI [of _ d] exI [of _ b] exI [of _ as']) (simp add: calm_def pending_def)
  qed
qed

section \<open>One line at a time\<close>

text \<open>The bytes a Telnet line may hold: no option marker, no erase character, no line end.\<close>

definition typed_text :: "bytes \<Rightarrow> bool" where
  "typed_text u \<longleftrightarrow> list_all (\<lambda>b. b \<notin> {0xFF, 0x08, 0x7F, carriage, newline}) u"

definition line_end :: "bytes \<Rightarrow> bool" where
  "line_end e \<longleftrightarrow> e = [newline] \<or> e = crlf"

lemma scan_typed: "typed_text u \<Longrightarrow> scan_line t (u @ rest) = scan_line (t @ u) rest"
  by (induction u arbitrary: t) (auto simp: typed_text_def)

lemma scan_line_end:
  "typed_text u \<Longrightarrow> line_end e \<Longrightarrow> scan_line [] (u @ e @ rest) = (u, Some rest)"
  by (auto simp: scan_typed line_end_def)

lemma iac_scan_plain: "0xFF \<notin> set d \<Longrightarrow> iac_scan d = ([], d)"
  by (induction d) auto

definition logged_lines :: "conversation \<Rightarrow> str list" where
  "logged_lines cv = map ev_cmd (ps_commands (cv_session cv))"

lemma note_line_simps [simp]:
  "calm (note_line t cv) = calm cv" "pending (note_line t cv) = pending cv"
  "cn_pauses (note_line t cv) = cn_pauses cv"
  "logged_lines (note_line t cv) = logged_lines cv @ (if t = [] then [] else [t])"
  by (auto simp: note_line_def clock_def calm_def pending_def logged_lines_def ps_log_command_def split: list.splits)

text \<open>A conversation in good order: bytes in hand, then what is still to come, make up the stream.\<close>

definition talk :: "conversation \<Rightarrow> bytes \<Rightarrow> bytes \<Rightarrow> str list \<Rightarrow> bool" where
  "talk cv l stream logged \<longleftrightarrow>
     calm cv \<and> cn_pauses cv = [] \<and> l @ pending cv = stream \<and> (l = [] \<or> last l \<noteq> carriage) \<and> logged_lines cv = logged"

lemma talk_send:
  assumes "talk cv l stream logged"
  shows "\<exists>cv'. telnet_send t cv = (Inr (), cv') \<and> talk cv' l stream logged"
  using assms
  by (auto simp: telnet_send_def send_bytes_def pause_def talk_def calm_def pending_def logged_lines_def)

lemma talk_pause: "talk cv l stream logged \<Longrightarrow> pause cv = (Inr (), cv)"
  by (simp add: talk_def pause_def)

lemma talk_note:
  "talk cv l stream logged \<Longrightarrow>
   talk (note_credential label value cv) l stream (logged @ (if strip value = [] then [] else [label @ strip value]))"
  by (cases "label @ strip value = []") (auto simp: talk_def note_credential_def)

lemma talk_scanned:
  assumes "talk cv [] stream logged" "typed_text u" "line_end e" "l = [] \<or> last l \<noteq> carriage"
  shows "\<exists>cv'. read_scanned echoed (u @ e @ l) cv = (Inr (Some u, l), cv') \<and> talk cv' l (l @ stream) logged"
  using assms(1,4) talk_send [OF assms(1), of crlf]
  by (auto simp: read_scanned_def scan_line_end [OF assms(2,3)] after_def talk_def)

lemma talk_line:
  assumes t: "talk cv l (u @ e @ rest) logged" and u: "typed_text u" "length u < STREAM_LIMIT" and e: "line_end e"
  shows "\<exists>l' cv'. read_line echoed l cv = (Inr (Some u, l'), cv') \<and> talk cv' l' rest logged"
proof (cases "carriage \<in> set l \<or> newline \<in> set l")
  case True
  have free: "carriage \<notin> set u" "newline \<notin> set u" using u(1) by (auto simp: typed_text_def list_all_iff)
  obtain b where l: "l = u @ e @ b" "b @ pending cv = rest"
  proof (cases "e = crlf")
    case cr: True
    with t have split: "l @ pending cv = u @ carriage # newline # rest" "l = [] \<or> last l \<noteq> carriage"
      by (simp_all add: talk_def)
    have "carriage \<in> set l"
      using split_at_first [OF split(1) free(1)] True free(2) by (auto split: if_splits)
    then obtain b where b: "l = u @ carriage # b" "newline # rest = b @ pending cv"
      using split_at_first [OF split(1) free(1)] by auto
    then have "b \<noteq> []" using split(2) by auto
    then show thesis using b cr that [of "tl b"] by (cases b) auto
  next
    case False
    then have e: "e = [newline]" using e by (simp add: line_end_def)
    then have split: "l @ pending cv = u @ newline # rest" using t by (simp add: talk_def)
    have "newline \<in> set l"
      using split_at_first [OF split free(2)] True free(1) by (auto split: if_splits)
    then obtain b where "l = u @ newline # b" "rest = b @ pending cv"
      using split_at_first [OF split free(2)] by auto
    then show thesis using e that [of b] by simp
  qed
  have "talk cv [] (pending cv) logged" "b = [] \<or> last b \<noteq> carriage"
    using t l(1) by (auto simp: talk_def split: if_splits)
  then obtain cv' where "read_scanned echoed (u @ e @ b) cv = (Inr (Some u, b), cv')" "talk cv' b (b @ pending cv) logged"
    using talk_scanned [OF _ u(1) e] by blast
  moreover have "read_line echoed l cv = read_scanned echoed (u @ e @ b) cv"
    using True by (auto simp: read_line_def l(1) [symmetric])
  ultimately show ?thesis using l(2) by (intro exI [of _ b] exI [of _ cv']) simp
next
  case False
  have "newline \<notin> set u" using u(1) by (auto simp: typed_text_def list_all_iff)
  moreover have "newline \<notin> set (butlast e)" using e by (auto simp: line_end_def)
  ultimately have free: "newline \<notin> set (u @ butlast e)" by simp
  have e': "e = butlast e @ [newline]" using e by (auto simp: line_end_def)
  have "l @ pending cv = (u @ butlast e) @ newline # rest" using t e' by (simp add: talk_def)
  from split_at_first [OF this free] False obtain m where m: "u @ butlast e = l @ m" "pending cv = m @ newline # rest"
    by auto
  have "length (butlast e) \<le> 1" using e by (auto simp: line_end_def)
  moreover have "length u + length (butlast e) = length l + length m" using arg_cong [OF m(1), of length] by simp
  ultimately have small: "length m \<le> STREAM_LIMIT" using u(2) by linarith
  have no_end: "newline \<notin> set m" using free unfolding m(1) by simp
  from readline_calm [OF _ m(2) no_end small] t obtain b as where r:
    "readline cv = (Inr (m @ [newline]), cv\<lparr>cn_buffer := b, cn_arrivals := as\<rparr>)"
    "talk (cv\<lparr>cn_buffer := b, cn_arrivals := as\<rparr>) [] rest logged"
    by (auto simp: talk_def logged_lines_def)
  have whole: "l @ m @ [newline] = u @ e @ []" 
    using arg_cong [OF m(1), of "\<lambda>x. x @ [newline]"] e' [symmetric] by simp
  obtain cv' where "read_scanned echoed (u @ e @ []) (cv\<lparr>cn_buffer := b, cn_arrivals := as\<rparr>) = (Inr (Some u, []), cv')"
    "talk cv' [] rest logged" using talk_scanned [OF r(2) u(1) e, of "[]" echoed] by auto
  moreover have "read_line echoed l cv = read_scanned echoed (l @ m @ [newline]) (cv\<lparr>cn_buffer := b, cn_arrivals := as\<rparr>)"
    using False r(1) by (simp add: read_line_def after_def)
  ultimately show ?thesis unfolding whole by (intro exI [of _ "[]"] exI [of _ cv']) simp
qed

lemma talk_ends:
  assumes "talk cv l [] logged"
  shows "\<exists>cv'. read_line echoed l cv = (Inr (None, []), cv') \<and> logged_lines cv' = logged"
  using assms by (auto simp: talk_def read_line_def after_def readline_at_end logged_lines_def)

section \<open>Logins\<close>

definition login_lines :: "str \<times> str \<Rightarrow> str list" where
  "login_lines login =
     (if strip (fst login) = [] then [] else [lit ''login: '' @ strip (fst login)])
     @ (if strip (snd login) = [] then [] else [lit ''password: '' @ strip (snd login)])"

definition login_stream :: "bytes \<Rightarrow> (str \<times> str) list \<Rightarrow> bytes" where
  "login_stream e logins = concat (map (\<lambda>login. fst login @ e @ snd login @ e) logins)"

definition typed_login :: "str \<times> str \<Rightarrow> bool" where
  "typed_login login \<longleftrightarrow> typed_text (fst login) \<and> typed_text (snd login)
     \<and> length (fst login) < STREAM_LIMIT \<and> length (snd login) < STREAM_LIMIT"

lemma talk_password:
  assumes t: "talk cv l (p @ e @ rest) logged" and p: "typed_text p" "length p < STREAM_LIMIT" and e: "line_end e"
  shows "\<exists>l' cv'. ask_password l retry cv = retry l' cv' \<and> talk cv' l' rest (logged @ login_lines ([], p))"
proof -
  obtain cv1 where 1: "telnet_send (lit ''Password: '') cv = (Inr (), cv1)" "talk cv1 l (p @ e @ rest) logged"
    using talk_send [OF t] by blast
  obtain l2 cv2 where 2: "read_line False l cv1 = (Inr (Some p, l2), cv2)" "talk cv2 l2 rest logged"
    using talk_line [OF 1(2) p e] by blast
  have 3: "talk (note_credential (lit ''password: '') p cv2) l2 rest (logged @ login_lines ([], p))"
    using talk_note [OF 2(2), of "lit ''password: ''" p] by (auto simp: login_lines_def split: if_splits)
  obtain cv4 where 4: "telnet_send (crlf @ lit ''Login incorrect'' @ crlf) (note_credential (lit ''password: '') p cv2) = (Inr (), cv4)"
    "talk cv4 l2 rest (logged @ login_lines ([], p))"
    using talk_send [OF 3] by blast
  have "ask_password l retry cv = retry l2 cv4"
    by (simp only: ask_password_def doing_def after_def 1(1) 2(1) talk_pause [OF 3] 4(1)
        sum.case prod.case option.case fst_conv snd_conv)
  then show ?thesis using 4(2) by blast
qed

lemma login_lines_split: "login_lines (u, p) = login_lines (u, []) @ login_lines ([], p)"
  by (simp add: login_lines_def)

lemma talk_user:
  assumes t: "talk cv l (u @ e @ rest) logged" and u: "typed_text u" "length u < STREAM_LIMIT" and e: "line_end e"
  shows "\<exists>l' cv'. ask_login l retry cv = ask_password l' retry cv' \<and> talk cv' l' rest (logged @ login_lines (u, []))"
proof -
  obtain cv1 where 1: "telnet_send (hostname (cv_persona cv) @ lit '' login: '') cv = (Inr (), cv1)"
    "talk cv1 l (u @ e @ rest) logged" using talk_send [OF t] by blast
  obtain l2 cv2 where 2: "read_line True l cv1 = (Inr (Some u, l2), cv2)" "talk cv2 l2 rest logged"
    using talk_line [OF 1(2) u e] by blast
  have 3: "talk (note_credential (lit ''login: '') u cv2) l2 rest (logged @ login_lines (u, []))"
    using talk_note [OF 2(2), of "lit ''login: ''" u] by (auto simp: login_lines_def split: if_splits)
  have "ask_login l retry cv = ask_password l2 retry (note_credential (lit ''login: '') u cv2)"
    by (simp only: ask_login_def doing_def after_def 1(1) 2(1) sum.case prod.case option.case fst_conv snd_conv)
  then show ?thesis using 3 by blast
qed

lemma talk_login:
  assumes "talk cv l (u @ e @ p @ e' @ rest) logged" "typed_login (u, p)" "line_end e" "line_end e'"
  shows "\<exists>l' cv'. ask_login l retry cv = retry l' cv' \<and> talk cv' l' rest (logged @ login_lines (u, p))"
proof -
  have typed: "typed_text u" "length u < STREAM_LIMIT" "typed_text p" "length p < STREAM_LIMIT"
    using assms(2) by (simp_all add: typed_login_def)
  obtain l1 cv1 where 1: "ask_login l retry cv = ask_password l1 retry cv1"
    "talk cv1 l1 (p @ e' @ rest) (logged @ login_lines (u, []))"
    using talk_user [OF assms(1) typed(1,2) assms(3), where retry = retry] by blast
  obtain l2 cv2 where "ask_password l1 retry cv1 = retry l2 cv2" "talk cv2 l2 rest (logged @ login_lines (u, p))"
    using talk_password [OF 1(2) typed(3,4) assms(4), where retry = retry] login_lines_split [of u p] by auto
  then show ?thesis using 1(1) by auto
qed

lemma talk_no_password:
  assumes "talk cv l [] logged"
  shows "\<exists>cv'. ask_password l retry cv = (Inr (), cv') \<and> logged_lines cv' = logged"
proof -
  obtain cv1 where 1: "telnet_send (lit ''Password: '') cv = (Inr (), cv1)" "talk cv1 l [] logged"
    using talk_send [OF assms] by blast
  obtain cv2 where 2: "read_line False l cv1 = (Inr (None, []), cv2)" "logged_lines cv2 = logged"
    using talk_ends [OF 1(2)] by blast
  show ?thesis using 2(2)
    by (simp only: ask_password_def after_def 1(1) 2(1) sum.case prod.case option.case fst_conv) simp
qed

lemma talk_no_login:
  assumes "talk cv l [] logged"
  shows "\<exists>cv'. ask_login l retry cv = (Inr (), cv') \<and> logged_lines cv' = logged"
proof -
  obtain cv1 where 1: "telnet_send (hostname (cv_persona cv) @ lit '' login: '') cv = (Inr (), cv1)" "talk cv1 l [] logged"
    using talk_send [OF assms] by blast
  obtain cv2 where 2: "read_line True l cv1 = (Inr (None, []), cv2)" "logged_lines cv2 = logged"
    using talk_ends [OF 1(2)] by blast
  show ?thesis using 2(2)
    by (simp only: ask_login_def after_def 1(1) 2(1) sum.case prod.case option.case fst_conv) simp
qed

lemma talk_logins:
  assumes "talk cv l (login_stream e logins) logged" "list_all typed_login logins" "line_end e"
  shows "\<exists>cv'. login_attempts n l cv = (Inr (), cv') \<and> logged_lines cv' = logged @ concat (map login_lines (take n logins))"
  using assms(1,2)
proof (induction n arbitrary: cv l logins logged)
  case 0
  then show ?case by (simp add: talk_def)
next
  case (Suc n)
  show ?case
  proof (cases logins)
    case Nil
    then show ?thesis using Suc.prems talk_no_login by (simp add: login_stream_def)
  next
    case (Cons login more_logins)
    have t: "talk cv l (fst login @ e @ snd login @ e @ login_stream e more_logins) logged"
      using Suc.prems(1) Cons by (simp add: login_stream_def)
    obtain l' cv' where "ask_login l (login_attempts n) cv = login_attempts n l' cv'"
      "talk cv' l' (login_stream e more_logins) (logged @ login_lines login)"
      using talk_login [OF t _ assms(3) assms(3), where retry = "login_attempts n"] Suc.prems(2) Cons by auto
    then show ?thesis using Suc.IH [of cv' l' more_logins "logged @ login_lines login"] Suc.prems(2) Cons by simp
  qed
qed

text \<open>The first burst: what comes in before the banner is sent.\<close>

abbreviation (input) telnet_call ::
  "arrival list \<Rightarrow> str \<Rightarrow> peer_address \<Rightarrow> persona \<Rightarrow> rat \<Rightarrow> rat list \<Rightarrow> conversation" where
  "telnet_call incoming sid p prs now ticks \<equiv>
     new_conversation sid p (lit ''telnet'') prs (new_connection incoming [] now ticks)"

lemma new_conversation_simps [simp]:
  "calm (new_conversation sid p proto prs c) = calm c" "pending (new_conversation sid p proto prs c) = pending c"
  "cn_pauses (new_conversation sid p proto prs c) = cn_pauses c"
  "cn_buffer (new_conversation sid p proto prs c) = cn_buffer c"
  "cn_arrivals (new_conversation sid p proto prs c) = cn_arrivals c"
  "logged_lines (new_conversation sid p proto prs c) = []"
  by (auto simp: new_conversation_def clock_def calm_def pending_def logged_lines_def new_protocol_session_def
      connection.defs split: list.splits)

lemma calm_bursts: "calm (new_connection (map Arrives bursts) [] now ticks)"
  by (induction bursts) (auto simp: calm_def new_connection_def arrived_def)

lemma pending_bursts: "pending (new_connection (map Arrives bursts) pauses now ticks) = concat bursts"
  by (simp add: pending_def new_connection_def arrived_def o_def)

lemma first_read:
  assumes "calm cv" "cn_buffer cv = []" "cn_arrivals cv = Arrives c # as" "c \<noteq> []" "0 < n"
  shows "read_some n cv = (Inr (take n c), cv\<lparr>cn_arrivals := as, cn_buffer := drop n c\<rparr>)"
  using assms wait_calm [OF assms(1,3)]
  by (subst read_some.simps, simp add: calm_def arrived_def) (subst read_some.simps, simp)

lemma first_burst:
  fixes c cs sid p prs now ticks
  assumes c: "c \<noteq> []" "0xFF \<notin> set (take 64 c)"
  defines "cv \<equiv> telnet_call (map Arrives (c # cs)) sid p prs now ticks"
  shows "\<exists>cv1. telnet_body cv = login_attempts MAX_LOGIN_ATTEMPTS (take 64 c) cv1 \<and> talk cv1 [] (drop 64 c @ concat cs) []"
proof -
  have cv: "calm cv" "cn_pauses cv = []" "cn_buffer cv = []" "cn_arrivals cv = Arrives c # map Arrives cs"
    "logged_lines cv = []"
    using calm_bursts [of "c # cs" now ticks]
    by (simp_all add: cv_def) (simp_all add: new_connection_def)
  let ?cv = "cv\<lparr>cn_arrivals := map Arrives cs, cn_buffer := drop 64 c\<rparr>"
  have d: "drain_iac cv = (Inr (take 64 c), ?cv)"
    using first_read [OF cv(1,3,4) c(1), of 64] c(2) by (simp add: drain_iac_def iac_scan_plain)
  have "talk ?cv [] (drop 64 c @ concat cs) []"
    using cv by (auto simp: talk_def calm_def pending_def logged_lines_def arrived_def o_def)
  then obtain cv1 where "telnet_send (crlf @ os_banner (cv_persona ?cv) @ crlf @ crlf) ?cv = (Inr (), cv1)"
    "talk cv1 [] (drop 64 c @ concat cs) []" using talk_send by blast
  with d show ?thesis
    by (intro exI [of _ cv1]) (simp only: telnet_body_def after_def sum.case prod.case simp_thms)
qed

lemma talk_in_hand:
  "talk cv [] stream logged \<Longrightarrow> l \<noteq> [] \<Longrightarrow> last l \<noteq> carriage \<Longrightarrow> talk cv l (l @ stream) logged"
  by (simp add: talk_def)

lemma close_calm:
  assumes "ps_end_time (cv_session cv) = None" "cn_pauses cv = []"
  shows "\<exists>s. fst (close_connection reason cv) = Some s \<and> map ev_cmd (ps_commands s) = logged_lines cv \<and> ps_end_reason s = Some reason"
  using assms by (auto simp: close_connection_def Let_def pause_def clock_def ps_finalize_def logged_lines_def split: list.splits)

lemma handled_calm:
  assumes body: "handler_body k cv = (result, cv1)" "logged_lines cv1 = logged"
    and start: "undisturbed cv" "log_fits cv"
  shows "\<exists>s. fst (handle k cv) = Some s \<and> map ev_cmd (ps_commands s) = logged
    \<and> ps_end_reason s = Some (end_reason_of k result)"
proof -
  have "undisturbed cv1" using keepsD [OF undisturbed.keeps_handler_body start(1) body(1)] .
  moreover have "log_fits cv1" using keepsD [OF log_fits.keeps_handler_body start(2) body(1)] .
  ultimately show ?thesis using close_calm [of cv1 "end_reason_of k result"] body
    by (simp add: handle_def undisturbed_def log_fits_def Let_def)
qed

lemma call_starts:
  "list_all (\<lambda>d. 0 \<le> d) ticks \<Longrightarrow> undisturbed (telnet_call incoming sid p prs now ticks)
    \<and> log_fits (telnet_call incoming sid p prs now ticks)"
  by (simp add: undisturbed_def new_conversation_starts new_connection_def)

text \<open>C8: The Telnet decoy records the credentials a client types, line by line, login and password in turn, up to the
  attempts it allows, for plain names and passwords on lines that end in a line feed or in a carriage return and a line
  feed, and for every way of cutting the stream into bursts but one: what the handler reads first, at most 64 bytes of
  the first burst, must not end in a carriage return. Cut there, between the two ends of a line, the decoy misreads it
  (\<open>split_line_end_misreads\<close>).\<close>

theorem telnet_logins_recorded:
  assumes "concat bursts = login_stream e logins" "logins \<noteq> []" "list_all typed_login logins" "line_end e"
    and "[] \<notin> set bursts" "last (take 64 (hd bursts)) \<noteq> carriage" "list_all (\<lambda>d. 0 \<le> d) ticks"
  shows "\<exists>s. fst (handle Telnet_Handler (telnet_call (map Arrives bursts) sid p prs now ticks)) = Some s
    \<and> map ev_cmd (ps_commands s) = concat (map login_lines (take MAX_LOGIN_ATTEMPTS logins))
    \<and> ps_end_reason s = Some (lit ''disconnect'')"
proof -
  have stream: "login_stream e logins \<noteq> []" using assms(2,4) by (cases logins) (auto simp: login_stream_def line_end_def)
  then obtain c cs where bursts: "bursts = c # cs" using assms(1) by (cases bursts) auto
  have "0xFF \<notin> set (login_stream e logins)"
    using assms(3,4) by (auto simp: login_stream_def typed_login_def typed_text_def list_all_iff line_end_def)
  moreover have whole: "take 64 c @ drop 64 c @ concat cs = login_stream e logins"
    unfolding append_assoc [symmetric] append_take_drop_id using assms(1) bursts by simp
  ultimately have "0xFF \<notin> set (take 64 c)" using assms(1) bursts by (metis UnCI concat.simps(2) in_set_takeD set_append)
  from first_burst [OF _ this, where cs = cs and sid = sid and p = p and prs = prs and now = now and ticks = ticks] obtain cv1 where
    "telnet_body (telnet_call (map Arrives bursts) sid p prs now ticks) = login_attempts MAX_LOGIN_ATTEMPTS (take 64 c) cv1"
    "talk cv1 [] (drop 64 c @ concat cs) []" using assms(5) bursts by auto
  then have body: "telnet_body (telnet_call (map Arrives bursts) sid p prs now ticks)
      = login_attempts MAX_LOGIN_ATTEMPTS (take 64 c) cv1" "talk cv1 (take 64 c) (login_stream e logins) []"
    using talk_in_hand [of cv1 "drop 64 c @ concat cs" "[]" "take 64 c"] assms(5,6) bursts whole by auto
  from talk_logins [OF body(2) assms(3,4), of MAX_LOGIN_ATTEMPTS] obtain cv2 where
    "login_attempts MAX_LOGIN_ATTEMPTS (take 64 c) cv1 = (Inr (), cv2)"
    "logged_lines cv2 = concat (map login_lines (take MAX_LOGIN_ATTEMPTS logins))" by auto
  with handled_calm [of Telnet_Handler _ "Inr ()" cv2 "concat (map login_lines (take MAX_LOGIN_ATTEMPTS logins))"]
    call_starts [OF assms(7)] body(1)
  show ?thesis by (simp add: telnet_reason_def)
qed

text \<open>When the first burst ends between a carriage return and its line feed, the line feed counts
  as an empty password and the password is recorded as the next login.\<close>

theorem split_line_end_misreads:
  assumes "typed_login (u, p)" "length u < 64" "list_all (\<lambda>d. 0 \<le> d) ticks"
  shows "\<exists>s. fst (handle Telnet_Handler
      (telnet_call [Arrives (u @ [carriage]), Arrives ([newline] @ p @ crlf)] sid pr prs now ticks)) = Some s
    \<and> map ev_cmd (ps_commands s) = login_lines (u, []) @ login_lines (p, [])"
proof -
  let ?cv = "telnet_call [Arrives (u @ [carriage]), Arrives ([newline] @ p @ crlf)] sid pr prs now ticks"
  have typed: "typed_text u" "length u < STREAM_LIMIT" "typed_text p" "length p < STREAM_LIMIT" "0xFF \<notin> set u"
    using assms(1) by (auto simp: typed_login_def typed_text_def list_all_iff)
  have burst: "take 64 (u @ [carriage]) = u @ [carriage]" "drop 64 (u @ [carriage]) = []" using assms(2) by simp_all
  obtain cv1 where 1: "telnet_body ?cv = login_attempts MAX_LOGIN_ATTEMPTS (u @ [carriage]) cv1"
    "talk cv1 [] ([newline] @ p @ crlf) []"
    using first_burst [where c = "u @ [carriage]" and cs = "[[newline] @ p @ crlf]" and sid = sid and p = pr and prs = prs and now = now and ticks = ticks]
    unfolding burst using typed(5) by auto
  obtain cv2 where 2: "telnet_send (hostname (cv_persona cv1) @ lit '' login: '') cv1 = (Inr (), cv2)"
    "talk cv2 [] ([newline] @ p @ crlf) []" using talk_send [OF 1(2)] by blast
  obtain cv3 where 3: "telnet_send crlf cv2 = (Inr (), cv3)" "talk cv3 [] ([newline] @ p @ crlf) []"
    using talk_send [OF 2(2)] by blast
  have scan: "scan_line [] (u @ [carriage]) = (u, Some [])" using typed(1) by (simp add: scan_typed)
  have line: "read_line True (u @ [carriage]) cv2 = (Inr (Some u, []), cv3)"
    by (simp add: read_line_def read_scanned_def scan after_def 3(1))
  let ?cv4 = "note_credential (lit ''login: '') u cv3"
  have 4: "talk ?cv4 [] ([] @ [newline] @ p @ crlf) (login_lines (u, []))"
    using talk_note [OF 3(2), of "lit ''login: ''" u] by (auto simp: login_lines_def split: if_splits)
  have asked: "ask_login (u @ [carriage]) retry cv1 = ask_password [] retry ?cv4" for retry
    by (simp only: ask_login_def doing_def after_def 2(1) line sum.case prod.case option.case fst_conv snd_conv)
  obtain l5 cv5 where 5: "ask_password [] (login_attempts 4) ?cv4 = login_attempts 4 l5 cv5"
    "talk cv5 l5 (p @ crlf @ []) (login_lines (u, []))"
    using talk_password [OF 4, where retry = "login_attempts 4"] by (auto simp: typed_text_def line_end_def STREAM_LIMIT_def login_lines_def strip_def strip_if_def lstrip_if_def rstrip_if_def)
  obtain l6 cv6 where 6: "ask_login l5 (login_attempts 3) cv5 = ask_password l6 (login_attempts 3) cv6"
    "talk cv6 l6 [] (login_lines (u, []) @ login_lines (p, []))"
    using talk_user [OF 5(2) typed(3,4), where retry = "login_attempts 3"] by (auto simp: line_end_def)
  obtain cv7 where 7: "ask_password l6 (login_attempts 3) cv6 = (Inr (), cv7)"
    "logged_lines cv7 = login_lines (u, []) @ login_lines (p, [])"
    using talk_no_password [OF 6(2), where retry = "login_attempts 3"] by blast
  have "telnet_body ?cv = (Inr (), cv7)"
    using 1(1) asked [of "login_attempts 4"] 5(1) 6(1) 7(1) by (simp add: MAX_LOGIN_ATTEMPTS_def eval_nat_numeral)
  then have "handler_body Telnet_Handler ?cv = (Inr (), cv7)" by simp
  from handled_calm [OF this 7(2)] call_starts [OF assms(3)] show ?thesis by blast
qed

section \<open>Lines that end in a NUL\<close>

definition nul_logged :: "conversation \<Rightarrow> bool" where
  "nul_logged cv \<longleftrightarrow> (\<exists>c \<in> set (ps_commands (cv_session cv)). 0 \<in> set (ev_cmd c))"

interpretation nul_logged: conversation_invariant nul_logged
proof unfold_locales
  show "nul_logged cv \<Longrightarrow> wait_for_data cv = (r, cv') \<Longrightarrow> nul_logged cv'" for cv cv' and r :: "stop + unit"
    using wait_same [of cv r cv'] by (simp add: nul_logged_def)
  show "nul_logged cv \<Longrightarrow> pause cv = (r, cv') \<Longrightarrow> nul_logged cv'" for cv cv' and r :: "stop + unit"
    using pause_same [of cv r cv'] by (simp add: nul_logged_def)
  show "nul_logged cv \<Longrightarrow> nul_logged (note_line s cv)" for cv s
    by (auto simp: note_line_def nul_logged_def ps_log_command_def split: prod.split dest: clock_session)
qed (simp_all add: nul_logged_def)

lemma nul_in_strip: "0 \<in> set (strip (0 # p))"
  by (simp add: strip_def strip_if_def lstrip_if_def rstrip_if_def is_space_def dropWhile_append)

lemma handled_record:
  assumes "handler_body k cv = (result, cv1)" "undisturbed cv" "log_fits cv"
  shows "\<exists>s r. fst (handle k cv) = Some s \<and> ps_to_record s = Done r \<and> rec_commands r = ps_commands (cv_session cv1)"
proof -
  have "undisturbed cv1" using keepsD [OF undisturbed.keeps_handler_body assms(2,1)] .
  then have "fst (close_connection (end_reason_of k result) cv1) \<noteq> None"
    by (simp add: undisturbed_def close_connection_def Let_def pause_def split: prod.split)
  then obtain s cv2 where c: "close_connection (end_reason_of k result) cv1 = (Some s, cv2)"
    by (cases "close_connection (end_reason_of k result) cv1") auto
  have "log_fits cv1" using keepsD [OF log_fits.keeps_handler_body assms(3,1)] .
  from closed_session [OF this _ c, of "session_identity (cv_session cv1)"]
  show ?thesis using assms(1) c
    by (auto simp: identified_def handle_def ps_to_record_def Let_def)
qed

lemma nul_burst_logged:
  assumes "typed_login (u, p)" "length u + length p \<le> 60"
  shows "nul_logged (snd (telnet_body (telnet_call [Arrives (u @ [carriage, 0] @ p @ [carriage, 0])] sid pr prs now ticks)))"
proof -
  let ?b = "u @ [carriage, 0] @ p @ [carriage, 0]"
  let ?l = "[0] @ p @ [carriage, 0]"
  have typed: "typed_text u" "typed_text (0 # p)" "0xFF \<notin> set ?b"
    using assms(1) by (auto simp: typed_login_def typed_text_def list_all_iff)
  have burst: "take 64 ?b = ?b" "drop 64 ?b = []" using assms(2) by simp_all
  obtain cv1 where 1: "telnet_body (telnet_call [Arrives ?b] sid pr prs now ticks) = login_attempts MAX_LOGIN_ATTEMPTS ?b cv1"
    "talk cv1 [] [] []"
    using first_burst [where c = ?b and cs = "[]" and sid = sid and p = pr and prs = prs and now = now and ticks = ticks]
    unfolding burst using typed(3) by auto
  obtain cv2 where 2: "telnet_send (hostname (cv_persona cv1) @ lit '' login: '') cv1 = (Inr (), cv2)" "talk cv2 [] [] []"
    using talk_send [OF 1(2)] by blast
  obtain cv3 where 3: "telnet_send crlf cv2 = (Inr (), cv3)" "talk cv3 [] [] []"
    using talk_send [OF 2(2)] by blast
  have scan: "scan_line [] ?b = (u, Some ?l)" "scan_line [] ?l = (0 # p, Some [0])"
    using scan_typed [OF typed(1), of "[]" "[carriage, 0] @ p @ [carriage, 0]"]
      scan_typed [OF typed(2), of "[]" "[carriage, 0]"] by simp_all
  have line: "read_line True ?b cv2 = (Inr (Some u, ?l), cv3)"
    unfolding read_line_def read_scanned_def scan after_def 3(1) by simp
  let ?cv4 = "note_credential (lit ''login: '') u cv3"
  have 4: "talk ?cv4 [] [] (login_lines (u, []))"
    using talk_note [OF 3(2), of "lit ''login: ''" u] by (auto simp: login_lines_def split: if_splits)
  obtain cv5 where 5: "telnet_send (lit ''Password: '') ?cv4 = (Inr (), cv5)"
    using talk_send [OF 4] by blast
  have line2: "read_line False ?l cv5 = (Inr (Some (0 # p), [0]), cv5)"
    unfolding read_line_def read_scanned_def scan by simp
  let ?rest = "after pause (\<lambda>_. after (telnet_send (crlf @ lit ''Login incorrect'' @ crlf)) (\<lambda>_. login_attempts 4 [0]))"
  let ?cv6 = "note_credential (lit ''password: '') (0 # p) cv5"
  have "login_attempts MAX_LOGIN_ATTEMPTS ?b cv1 = ask_login ?b (login_attempts 4) cv1"
    by (simp add: MAX_LOGIN_ATTEMPTS_def eval_nat_numeral)
  also have "\<dots> = ?rest ?cv6"
    by (simp only: ask_login_def ask_password_def doing_def after_def 2(1) line 5 line2
        sum.case prod.case option.case fst_conv snd_conv)
  finally have run: "telnet_body (telnet_call [Arrives ?b] sid pr prs now ticks) = ?rest ?cv6"
    using 1(1) by simp
  have "nul_logged ?cv6"
    using nul_in_strip [of p]
    by (force simp: note_credential_def note_line_def nul_logged_def ps_log_command_def split: prod.split)
  moreover have "keeps nul_logged ?rest"
    by (intro keeps_after nul_logged.keeps_pause nul_logged.keeps_telnet_send nul_logged.keeps_login_attempts)
  moreover obtain r cv' where "?rest ?cv6 = (r, cv')" by force
  ultimately show ?thesis unfolding run using keepsD by auto
qed

text \<open>A client that ends its lines with a carriage return and a NUL, as RFC 854 has it, and sends
  them in one burst leaves a session that is neither stored nor alerted on.\<close>

theorem nul_line_end_never_stored:
  assumes "typed_login (u, p)" "length u + length p \<le> 60" "list_all (\<lambda>d. 0 \<le> d) ticks"
  shows "\<exists>s r. fst (handle Telnet_Handler
      (telnet_call [Arrives (u @ [carriage, 0] @ p @ [carriage, 0])] sid pr prs now ticks)) = Some s
    \<and> ps_to_record s = Done r
    \<and> db_runs (cs_db (auto_classify_and_store e uptime wall r st)) = db_runs (cs_db st)
    \<and> cs_sent (auto_classify_and_store e uptime wall r st) = cs_sent st"
proof -
  let ?cv = "telnet_call [Arrives (u @ [carriage, 0] @ p @ [carriage, 0])] sid pr prs now ticks"
  obtain result cv1 where body: "telnet_body ?cv = (result, cv1)" by force
  then have "nul_logged cv1" using nul_burst_logged [OF assms(1,2), of sid pr prs now ticks] by simp
  moreover obtain s r where "fst (handle Telnet_Handler ?cv) = Some s" "ps_to_record s = Done r"
    "rec_commands r = ps_commands (cv_session cv1)"
    using handled_record [of Telnet_Handler ?cv result cv1] body call_starts [OF assms(3)] by auto
  ultimately show ?thesis
    using nul_session_live [where session = r and e = e and now = uptime and wall = wall and st = st]
    unfolding nul_logged_def by metis
qed

section \<open>Examples\<close>

theorem telnet_logins_recorded_witness:
  "\<exists>s. fst (handle Telnet_Handler (telnet_call (map Arrives [lit ''ro'', lit ''ot'' @ crlf @ lit ''xc3511'', crlf])
      (lit ''sid'') NoPeer generic_linux 5 [1, 2])) = Some s
    \<and> map ev_cmd (ps_commands s) = concat (map login_lines (take MAX_LOGIN_ATTEMPTS [(lit ''root'', lit ''xc3511'')]))
    \<and> ps_end_reason s = Some (lit ''disconnect'')"
proof (rule telnet_logins_recorded)
  show "concat [lit ''ro'', lit ''ot'' @ crlf @ lit ''xc3511'', crlf] = login_stream crlf [(lit ''root'', lit ''xc3511'')]"
    by code_simp
  show "list_all typed_login [(lit ''root'', lit ''xc3511'')]" by code_simp
  show "last (take 64 (hd [lit ''ro'', lit ''ot'' @ crlf @ lit ''xc3511'', crlf])) \<noteq> carriage" by code_simp
qed (simp_all add: line_end_def lit_Cons)

theorem split_line_end_misreads_witness:
  "\<exists>s. fst (handle Telnet_Handler
      (telnet_call [Arrives (lit ''root'' @ [carriage]), Arrives ([newline] @ lit ''xc3511'' @ crlf)]
        (lit ''sid'') NoPeer generic_linux 5 [])) = Some s
    \<and> map ev_cmd (ps_commands s) = login_lines (lit ''root'', []) @ login_lines (lit ''xc3511'', [])"
proof (rule split_line_end_misreads)
  show "typed_login (lit ''root'', lit ''xc3511'')" by code_simp
qed simp_all

theorem nul_line_end_never_stored_witness:
  "\<exists>s r. fst (handle Telnet_Handler
      (telnet_call [Arrives (lit ''root'' @ [carriage, 0] @ lit ''1234'' @ [carriage, 0])] (lit ''sid'') NoPeer generic_linux 5 [])) = Some s
    \<and> ps_to_record s = Done r
    \<and> db_runs (cs_db (auto_classify_and_store example_classifier 0 1 r (example_state None []))) = db_runs (cs_db (example_state None []))
    \<and> cs_sent (auto_classify_and_store example_classifier 0 1 r (example_state None [])) = cs_sent (example_state None [])"
proof (rule nul_line_end_never_stored)
  show "typed_login (lit ''root'', lit ''1234'')" by code_simp
qed simp_all

end
