(* ===== verification/HttpProps.thy ===== *)
theory HttpProps
  imports ConversationInvariants
begin

text \<open>
  The form of the HTTP decoy's answers, read as a client reads them, and the bounds on what a client can
  make the decoys read and note.
\<close>

section \<open>What a client makes of an answer\<close>

text \<open>The lines up to the first empty one, each ended by CR LF, and the bytes after it.\<close>

fun client_head :: "bytes \<Rightarrow> bytes \<Rightarrow> (bytes list \<times> bytes) option" where
  "client_head acc (a # b # r) =
     (if a = carriage \<and> b = newline
      then (if acc = [] then Some ([], r) else map_option (\<lambda>(xs, body). (acc # xs, body)) (client_head [] r))
      else client_head (acc @ [a]) (b # r))"
| "client_head acc _ = None"

lemma client_head_line_acc:
  "carriage \<notin> set l \<Longrightarrow> acc @ l \<noteq> [] \<Longrightarrow>
    client_head acc (l @ crlf @ r) = map_option (\<lambda>(xs, body). ((acc @ l) # xs, body)) (client_head [] r)"
proof (induction l arbitrary: acc)
  case (Cons a l)
  obtain b rest where ahead: "l @ crlf @ r = b # rest" by (cases l) auto
  have "client_head acc ((a # l) @ crlf @ r) = client_head (acc @ [a]) (l @ crlf @ r)"
    using Cons.prems(1) by (simp add: ahead [simplified])
  then show ?case using Cons.IH [of "acc @ [a]"] Cons.prems by simp
qed simp

lemma client_head_line:
  "carriage \<notin> set l \<Longrightarrow> l \<noteq> [] \<Longrightarrow>
    client_head [] (l @ crlf @ r) = map_option (\<lambda>(xs, body). (l # xs, body)) (client_head [] r)"
  using client_head_line_acc [of l "[]" r] by simp

lemma client_head_lines:
  assumes "list_all (\<lambda>l. carriage \<notin> set l \<and> l \<noteq> []) xs"
  shows "client_head [] (concat (map (\<lambda>l. l @ crlf) xs) @ crlf @ body) = Some (xs, body)"
  using assms
proof (induction xs)
  case (Cons l xs)
  then show ?case using client_head_line [of l "concat (map (\<lambda>l. l @ crlf) xs) @ crlf @ body"] by simp
qed simp

definition plain_line :: "str \<Rightarrow> bool" where
  "plain_line l \<longleftrightarrow> l \<noteq> [] \<and> list_all (\<lambda>c. c < 128 \<and> c \<noteq> carriage) l"

lemma encode_text_ascii: "list_all (\<lambda>c. c < 128) s \<Longrightarrow> encode_text s = s"
  by (induction s) (simp_all add: encode_text_def utf8_char_def)

lemma encode_text_append: "encode_text (s @ t) = encode_text s @ encode_text t"
  by (simp add: encode_text_def)

lemma encode_lines:
  "list_all plain_line xs \<Longrightarrow> encode_text (concat (map (\<lambda>l. l @ crlf) xs) @ crlf) = concat (map (\<lambda>l. l @ crlf) xs) @ crlf"
  by (rule encode_text_ascii) (auto simp: list_all_iff plain_line_def)

lemma str_of_nat_plain: "plain_line (str_of_nat n)"
  unfolding str_of_nat_def
proof (induction n rule: digits_of.induct)
  case (1 n)
  then show ?case by (cases "n < 10") (auto simp: plain_line_def digits_of.simps [of n])
qed

definition answer_lines :: "server_kind \<Rightarrow> str \<times> str \<times> bytes \<times> str \<Rightarrow> str list" where
  "answer_lines k parts =
     (case parts of (status, content_type, body, allow) \<Rightarrow>
        [lit ''HTTP/1.1 '' @ status, lit ''Server: '' @ SERVER_HEADERS k, lit ''Content-Type: '' @ content_type,
         lit ''Content-Length: '' @ str_of_nat (length body)]
        @ (if allow = [] then [] else [lit ''Allow: GET, HEAD, POST, OPTIONS''])
        @ [lit ''Connection: close''])"

definition ANSWER_STATUSES :: "str list" where
  "ANSWER_STATUSES = map lit [''200 OK'', ''400 Bad Request'', ''403 Forbidden'', ''404 Not Found'', ''405 Method Not Allowed'']"

definition CONTENT_TYPES :: "str list" where
  "CONTENT_TYPES = map lit [''text/html; charset=UTF-8'', ''text/plain; charset=UTF-8'', ''image/x-icon'']"

lemma pick_body_known:
  "pick_body prs path k = (status, content_type, body) \<Longrightarrow> status \<in> set ANSWER_STATUSES \<and> content_type \<in> set CONTENT_TYPES"
  by (auto simp: pick_body_def Let_def ANSWER_STATUSES_def CONTENT_TYPES_def split: if_splits)

lemma response_parts_known:
  assumes "response_parts prs k meth path http_version hosts = (status, content_type, body, allow)"
  shows "status \<in> set ANSWER_STATUSES" "content_type \<in> set CONTENT_TYPES" "allow \<in> {[], allow_header}"
  using assms pick_body_known [of prs path k]
  by (auto simp: response_parts_def ANSWER_STATUSES_def CONTENT_TYPES_def split: if_splits prod.splits)

lemma answer_lines_plain:
  assumes "status \<in> set ANSWER_STATUSES" "content_type \<in> set CONTENT_TYPES"
  shows "list_all plain_line (answer_lines k (status, content_type, body, allow))"
proof -
  have "list_all (\<lambda>s. plain_line (lit ''HTTP/1.1 '' @ s)) ANSWER_STATUSES"
    "list_all (\<lambda>t. plain_line (lit ''Content-Type: '' @ t)) CONTENT_TYPES"
    "list_all plain_line (map lit [''Allow: GET, HEAD, POST, OPTIONS'', ''Connection: close''])" by code_simp+
  moreover have "list_all (\<lambda>k. plain_line (lit ''Server: '' @ SERVER_HEADERS k)) [Nginx, Busybox, Apache]" by code_simp
  then have "plain_line (lit ''Server: '' @ SERVER_HEADERS k)" by (cases k) auto
  moreover have "plain_line (lit ''Content-Length: '' @ str_of_nat n)" for n
    using str_of_nat_plain [of n] by (auto simp: plain_line_def lit_Cons)
  ultimately show ?thesis using assms by (auto simp: answer_lines_def list_all_iff)
qed

lemma response_head_lines:
  assumes "allow \<in> {[], allow_header}"
  shows "response_head k (status, content_type, body, allow)
    = concat (map (\<lambda>l. l @ crlf) (answer_lines k (status, content_type, body, allow))) @ crlf"
proof -
  have "allow_header = lit ''Allow: GET, HEAD, POST, OPTIONS'' @ crlf" "allow_header \<noteq> []" by code_simp+
  then show ?thesis using assms
    by (auto simp: response_head_def answer_lines_def header_line_def lit_Cons)
qed

text \<open>C14: Every answer of the HTTP decoy is framed as a client expects: one head of whole lines with a known status,
  the server name of the persona's kind and a length that is that of the body; the body follows exactly, and
  is left out for HEAD.\<close>

theorem http_answer_framed:
  assumes "build_response prs meth path http_version hosts = Some response"
  shows "\<exists>k status content_type body allow.
    server_kind_of prs = Some k \<and> response_parts prs k meth path http_version hosts = (status, content_type, body, allow)
    \<and> status \<in> set ANSWER_STATUSES
    \<and> client_head [] response =
        Some (answer_lines k (status, content_type, body, allow), if meth = lit ''HEAD'' then [] else body)"
proof -
  obtain k where k: "server_kind_of prs = Some k"
    using assms by (auto simp: build_response_def split: option.splits)
  obtain status content_type body allow where
    parts: "response_parts prs k meth path http_version hosts = (status, content_type, body, allow)" by (metis prod_cases4)
  note known = response_parts_known [OF parts]
  let ?xs = "answer_lines k (status, content_type, body, allow)"
  have plain: "list_all plain_line ?xs" by (rule answer_lines_plain [OF known(1,2)])
  then have "list_all (\<lambda>l. carriage \<notin> set l \<and> l \<noteq> []) ?xs" by (auto simp: list_all_iff plain_line_def)
  moreover have "response = concat (map (\<lambda>l. l @ crlf) ?xs) @ crlf @ (if meth = lit ''HEAD'' then [] else body)"
    using assms k parts encode_lines [OF plain] response_head_lines [OF known(3)] by (auto simp: build_response_def Let_def)
  ultimately show ?thesis using client_head_lines k parts known(1) by blast
qed

section \<open>What a client can make the decoys read\<close>

lemma readline_length: "readline cv = (Inr b, cv') \<Longrightarrow> length b \<le> STREAM_LIMIT + 1"
proof (induction cv rule: readline.induct)
  case (1 cv)
  show ?case using 1(2)
    by (subst (asm) readline.simps)
      (auto simp: Let_def split: if_splits prod.splits sum.splits dest: 1(1) [OF _ refl refl])
qed

lemma read_exactly_length: "read_exactly n cv = (Inr b, cv') \<Longrightarrow> length b \<le> n"
proof (induction n cv rule: read_exactly.induct)
  case (1 n cv)
  show ?case using 1(2)
    by (subst (asm) read_exactly.simps) (auto split: if_splits prod.splits sum.splits dest: 1(1))
qed

lemma read_headers_length:
  "read_headers data cv = (Inr raw, cv') \<Longrightarrow> length data \<le> HEADER_BYTES + STREAM_LIMIT
    \<Longrightarrow> length raw \<le> HEADER_BYTES + STREAM_LIMIT"
proof (induction data cv rule: read_headers.induct)
  case (1 data cv)
  show ?case
  proof (cases "HEADER_BYTES \<le> length data")
    case True
    then show ?thesis using 1(2,3) by (simp add: read_headers.simps)
  next
    case False
    obtain r cv1 where line: "readline cv = (r, cv1)" by force
    show ?thesis
    proof (cases r)
      case (Inl x)
      then show ?thesis using 1(2) False line by (simp add: read_headers.simps [of data])
    next
      case (Inr l)
      then have "length (data @ l) \<le> HEADER_BYTES + STREAM_LIMIT" using readline_length [of cv l cv1] line False by simp
      then show ?thesis using 1(1) [OF False line [symmetric]] 1(2,3) False line Inr
        by (auto simp: read_headers.simps [of data] split: if_splits)
    qed
  qed
qed

text \<open>Whatever a client sends, the HTTP decoy holds at most 80 KiB of head and 64 KiB of body, and puts at most
  1,024 characters of a body in the session's log.\<close>

theorem http_input_bounded:
  "(read_headers [] cv = (Inr raw, cv') \<longrightarrow> length raw \<le> 81920)
   \<and> (read_body values cv = (Inr body, cv') \<longrightarrow> length body \<le> 65536)
   \<and> length (body_text body) \<le> 1024"
proof (intro conjI impI)
  show "length raw \<le> 81920" if "read_headers [] cv = (Inr raw, cv')"
    using read_headers_length [OF that] by (simp add: HEADER_BYTES_def STREAM_LIMIT_def)
  show "length body \<le> 65536" if "read_body values cv = (Inr body, cv')"
    using that read_exactly_length [of "nat (min (content_length values) MAX_BODY)" cv body cv']
    by (auto simp: read_body_def Let_def MAX_BODY_def split: if_splits)
qed (simp add: body_text_def)

section \<open>How much a Telnet dialogue notes\<close>

definition noted :: "conversation \<Rightarrow> nat" where
  "noted cv = length (ps_commands (cv_session cv))"

definition notes_at_most :: "nat \<Rightarrow> conversation \<Rightarrow> bool" where
  "notes_at_most n cv \<longleftrightarrow> noted cv \<le> n"

interpretation noting: transport_invariant "notes_at_most n" for n
proof unfold_locales
  show "notes_at_most n cv \<Longrightarrow> wait_for_data cv = (r, cv') \<Longrightarrow> notes_at_most n cv'" for cv cv' and r :: "stop + unit"
    using wait_same [of cv r cv'] by (simp add: notes_at_most_def noted_def)
  show "notes_at_most n cv \<Longrightarrow> pause cv = (r, cv') \<Longrightarrow> notes_at_most n cv'" for cv cv' and r :: "stop + unit"
    using pause_same [of cv r cv'] by (simp add: notes_at_most_def noted_def)
qed (simp_all add: notes_at_most_def noted_def)

text \<open>A step that starts with at most \<open>a\<close> lines noted leaves at most \<open>b\<close>.\<close>

definition grows :: "nat \<Rightarrow> nat \<Rightarrow> (conversation \<Rightarrow> 'a \<times> conversation) \<Rightarrow> bool" where
  "grows a b m \<longleftrightarrow> (\<forall>cv r cv'. notes_at_most a cv \<longrightarrow> m cv = (r, cv') \<longrightarrow> notes_at_most b cv')"

lemma grows_keeps: "(\<And>n. keeps (notes_at_most n) m) \<Longrightarrow> a \<le> b \<Longrightarrow> grows a b m"
  unfolding grows_def keeps_def notes_at_most_def by (meson le_trans)

lemma grows_after:
  assumes "\<And>n. keeps (notes_at_most n) m" "\<And>x. grows a b (f x)" "a \<le> b"
  shows "grows a b (after m f)"
  unfolding grows_def
proof (intro allI impI)
  fix cv r cv' assume cv: "notes_at_most a cv" "after m f cv = (r, cv')"
  obtain q cv1 where m: "m cv = (q, cv1)" by force
  have "notes_at_most a cv1" by (rule keepsD [OF assms(1) cv(1) m])
  then show "notes_at_most b cv'" using cv(2) m assms(2,3)
    by (cases q) (auto simp: after_def grows_def notes_at_most_def)
qed

lemma noted_credential: "noted (note_credential label val cv) \<le> noted cv + 1"
  by (auto simp: note_credential_def note_line_def noted_def ps_log_command_def clock_def split: list.split)

lemma grows_doing_credential: "grows (Suc a) b m \<Longrightarrow> grows a b (doing (note_credential label val) m)"
  unfolding grows_def doing_def
proof (intro allI impI)
  fix cv r cv' assume grow: "\<forall>cv r cv'. notes_at_most (Suc a) cv \<longrightarrow> m cv = (r, cv') \<longrightarrow> notes_at_most b cv'"
    and cv: "notes_at_most a cv" "m (note_credential label val cv) = (r, cv')"
  have "notes_at_most (Suc a) (note_credential label val cv)"
    using noted_credential [of label val cv] cv(1) by (simp add: notes_at_most_def)
  then show "notes_at_most b cv'" using grow cv(2) by blast
qed

lemma grows_login_attempts: "grows a (a + 2 * n) (login_attempts n leftover)"
proof (induction n arbitrary: a leftover)
  case 0
  then show ?case by (simp add: grows_keeps)
next
  case (Suc n)
  have again: "grows (a + 2) (a + 2 * Suc n) (login_attempts n l)" for l using Suc.IH [of "a + 2" l] by simp
  have retry: "grows (a + 2) (a + 2 * Suc n) (after pause (\<lambda>_. after (telnet_send s) (\<lambda>_. login_attempts n l)))" for s l
    by (intro grows_after noting.keeps_pause noting.keeps_telnet_send again) simp_all
  have password: "grows (a + 1) (a + 2 * Suc n) (ask_password l (login_attempts n))" for l
    unfolding ask_password_def
    by (intro grows_after noting.keeps_telnet_send noting.keeps_read_line)
      (auto intro!: grows_keeps grows_doing_credential retry [simplified] split: option.split)
  have "grows a (a + 2 * Suc n) (\<lambda>cv. after (telnet_send (hostname (cv_persona cv0) @ s)) (\<lambda>_.
      after (read_line True leftover) (\<lambda>answer. case fst answer of
         None \<Rightarrow> Pair (Inr ())
       | Some user \<Rightarrow> doing (note_credential t user) (ask_password (snd answer) (login_attempts n)))) cv)" for cv0 s t
    by (intro grows_after noting.keeps_telnet_send noting.keeps_read_line)
      (auto intro!: grows_keeps grows_doing_credential password [simplified] split: option.split)
  then show ?case by (auto simp: grows_def ask_login_def)
qed

section \<open>What a Telnet dialogue says\<close>

text \<open>What a step writes, with how it left and the conversation it leaves; the decoy it speaks for stays the same.\<close>

definition says :: "persona \<Rightarrow> (conversation \<Rightarrow> 'a \<times> conversation) \<Rightarrow> ('a \<Rightarrow> bytes \<Rightarrow> conversation \<Rightarrow> bool) \<Rightarrow> bool" where
  "says prs m Q \<longleftrightarrow> (\<forall>cv r cv'. cv_persona cv = prs \<longrightarrow> m cv = (r, cv') \<longrightarrow>
     cv_persona cv' = prs \<and> (\<exists>w. cn_sent cv' = cn_sent cv @ w \<and> Q r w cv'))"

lemma saysI:
  assumes "\<And>cv r cv'. cv_persona cv = prs \<Longrightarrow> m cv = (r, cv') \<Longrightarrow> cv_persona cv' = prs \<and> (\<exists>w. cn_sent cv' = cn_sent cv @ w \<and> Q r w cv')"
  shows "says prs m Q"
  unfolding says_def
proof (intro allI impI)
  fix cv r cv' assume "cv_persona cv = prs" "m cv = (r, cv')"
  then show "cv_persona cv' = prs \<and> (\<exists>w. cn_sent cv' = cn_sent cv @ w \<and> Q r w cv')" by (rule assms)
qed

lemma saysE:
  assumes "says prs m Q" "cv_persona cv = prs" "m cv = (r, cv')"
  obtains w where "cv_persona cv' = prs" "cn_sent cv' = cn_sent cv @ w" "Q r w cv'"
proof -
  from assms(1) have "cv_persona cv = prs \<longrightarrow> m cv = (r, cv') \<longrightarrow> cv_persona cv' = prs \<and> (\<exists>w. cn_sent cv' = cn_sent cv @ w \<and> Q r w cv')"
    unfolding says_def by iprover
  with assms(2,3) obtain w where "cv_persona cv' = prs" "cn_sent cv' = cn_sent cv @ w" "Q r w cv'" by iprover
  then show thesis by (rule that)
qed

lemma says_after:
  assumes "says prs m P" "\<And>x. says prs (f x) (Q x)"
    "\<And>x w cv. P (Inl x) w cv \<Longrightarrow> R (Inl x) w cv"
    "\<And>x u cv0 r v cv. P (Inr x) u cv0 \<Longrightarrow> Q x r v cv \<Longrightarrow> R r (u @ v) cv"
  shows "says prs (after m f) R"
proof (rule saysI)
  fix cv r cv' assume cv: "cv_persona cv = prs" "after m f cv = (r, cv')"
  obtain q cv1 where m: "m cv = (q, cv1)" by force
  obtain u where u: "cv_persona cv1 = prs" "cn_sent cv1 = cn_sent cv @ u" "P q u cv1" by (rule saysE [OF assms(1) cv(1) m])
  show "cv_persona cv' = prs \<and> (\<exists>w. cn_sent cv' = cn_sent cv @ w \<and> R r w cv')"
  proof (cases q)
    case (Inl x)
    then show ?thesis using cv(2) m u assms(3) by (auto simp: after_def)
  next
    case (Inr x)
    then have "f x cv1 = (r, cv')" using cv(2) m by (simp add: after_def)
    from saysE [OF assms(2) u(1) this] obtain v where
      v: "cv_persona cv' = prs" "cn_sent cv' = cn_sent cv1 @ v" "Q x r v cv'" by blast
    then show ?thesis using assms(4) [of x u cv1 r v cv'] u(2,3) Inr by auto
  qed
qed

definition silent :: "('a \<Rightarrow> conversation \<Rightarrow> bool) \<Rightarrow> 'a \<Rightarrow> bytes \<Rightarrow> conversation \<Rightarrow> bool" where
  "silent Q r w cv \<longleftrightarrow> w = [] \<and> Q r cv"

text \<open>Reading writes nothing.\<close>

definition hushed :: "bytes \<Rightarrow> protocol_session \<Rightarrow> conversation \<Rightarrow> bool" where
  "hushed sent s cv \<longleftrightarrow> cn_sent cv = sent \<and> cv_session cv = s"

lemma hushed_wait: "hushed sent s cv \<Longrightarrow> wait_for_data cv = (r, cv') \<Longrightarrow> hushed sent s cv'"
  by (auto simp: hushed_def wait_for_data_def split: list.splits arrival.splits)

lemma hushed_take: "hushed sent s cv \<Longrightarrow> hushed sent s (cv\<lparr>cn_buffer := b\<rparr>)"
  by (simp add: hushed_def)

lemma pause_silent: "says prs pause (silent (\<lambda>_ _. True))"
  by (rule saysI) (auto simp: silent_def pause_def cv_persona_def split: list.splits)

lemma says_telnet_send: "says prs (telnet_send s) (\<lambda>_ w _. w = latin_1 s)"
  by (rule saysI) (auto simp: telnet_send_def send_bytes_def pause_def cv_persona_def split: list.splits)

text \<open>The client has closed its side and nothing is left to read.\<close>

definition client_closed :: "conversation \<Rightarrow> bool" where
  "client_closed cv \<longleftrightarrow> cn_eof cv \<and> cn_buffer cv = []"

lemma hushed_readline: "hushed sent s cv \<Longrightarrow> readline cv = (r, cv') \<Longrightarrow> hushed sent s cv'"
proof (induction cv rule: readline.induct)
  case (1 cv)
  show ?case using 1(2,3)
    by (subst (asm) readline.simps)
      (auto simp: Let_def hushed_take split: if_splits prod.splits sum.splits dest: hushed_wait intro: 1(1) [OF _ refl refl])
qed

lemma readline_end: "readline cv = (Inr [], cv') \<Longrightarrow> client_closed cv'"
proof (induction cv rule: readline.induct)
  case (1 cv)
  show ?case using 1(2)
    by (subst (asm) readline.simps)
      (auto simp: Let_def client_closed_def split: if_splits prod.splits sum.splits dest: 1(1) [OF _ refl refl])
qed

lemma hushed_read_some: "hushed sent s cv \<Longrightarrow> read_some n cv = (r, cv') \<Longrightarrow> hushed sent s cv'"
proof (induction n cv rule: read_some.induct)
  case (1 n cv)
  show ?case using 1(2,3)
    by (subst (asm) read_some.simps)
      (auto simp: hushed_take split: if_splits prod.splits sum.splits dest: hushed_wait intro: 1(1))
qed

lemma read_some_length: "read_some n cv = (Inr d, cv') \<Longrightarrow> length d \<le> n"
proof (induction n cv rule: read_some.induct)
  case (1 n cv)
  show ?case using 1(2) by (subst (asm) read_some.simps) (auto split: if_splits prod.splits sum.splits dest: 1(1))
qed

lemma hushed_silent:
  assumes "\<And>sent s cv r cv'. hushed sent s cv \<Longrightarrow> m cv = (r, cv') \<Longrightarrow> hushed sent s cv'" "\<And>cv r cv'. m cv = (r, cv') \<Longrightarrow> Q r cv'"
  shows "says prs m (silent Q)"
proof (rule saysI)
  fix cv r cv' assume cv: "cv_persona cv = prs" "m cv = (r, cv')"
  have "hushed (cn_sent cv) (cv_session cv) cv'" by (rule assms(1) [OF _ cv(2)]) (simp add: hushed_def)
  then show "cv_persona cv' = prs \<and> (\<exists>w. cn_sent cv' = cn_sent cv @ w \<and> silent Q r w cv')"
    using cv assms(2) by (simp add: hushed_def silent_def cv_persona_def)
qed

lemma readline_silent: "says prs readline (silent (\<lambda>r cv. r = Inr [] \<longrightarrow> client_closed cv))"
  by (rule hushed_silent) (use readline_end in \<open>blast intro: hushed_readline\<close>)+

lemma read_some_silent: "says prs (read_some n) (silent (\<lambda>r cv. \<forall>d. r = Inr d \<longrightarrow> length d \<le> n))"
  by (rule hushed_silent) (use read_some_length in \<open>blast intro: hushed_read_some\<close>)+

text \<open>The decoy is about to write \<open>t\<close> and to go on with \<open>K\<close>: it writes all of it and goes on, or leaves before that,
  normally only when the client has closed.\<close>

definition about_to :: "bytes \<Rightarrow> (stop + unit \<Rightarrow> bytes \<Rightarrow> conversation \<Rightarrow> bool) \<Rightarrow> stop + unit \<Rightarrow> bytes \<Rightarrow> conversation \<Rightarrow> bool" where
  "about_to t K r w cv \<longleftrightarrow>
     prefix w t \<and> (r = Inr () \<longrightarrow> client_closed cv) \<or> (\<exists>v. w = t @ v \<and> K r v cv)"

abbreviation says_one :: "persona \<Rightarrow> (conversation \<Rightarrow> (stop + unit) \<times> conversation) \<Rightarrow> (bool \<Rightarrow> bytes)
    \<Rightarrow> (stop + unit \<Rightarrow> bytes \<Rightarrow> conversation \<Rightarrow> bool) \<Rightarrow> bool" where
  "says_one prs m T K \<equiv> says prs m (\<lambda>r w cv. \<exists>e. about_to (T e) K r w cv)"

lemma says_one_send:
  assumes "says_one prs m T K"
  shows "says_one prs (after (telnet_send s) (\<lambda>_. m)) (\<lambda>e. latin_1 s @ T e) K"
  by (rule says_after [OF says_telnet_send assms]) (auto simp: about_to_def)

lemma says_one_pause: "says_one prs m T K \<Longrightarrow> says_one prs (after pause (\<lambda>_. m)) T K"
  by (rule says_after [OF pause_silent]) (auto simp: about_to_def silent_def)

lemma note_credential_says:
  "cv_persona (note_credential label s cv) = cv_persona cv \<and> cn_sent (note_credential label s cv) = cn_sent cv"
  by (simp add: note_credential_def note_line_def clock_def cv_persona_def ps_log_command_def split: list.split)

lemma says_note: "says prs m Q \<Longrightarrow> says prs (doing (note_credential label s) m) Q"
proof (rule saysI)
  fix cv r cv' assume m: "says prs m Q" and cv: "cv_persona cv = prs" "doing (note_credential label s) m cv = (r, cv')"
  have persona: "cv_persona (note_credential label s cv) = prs" using cv(1) note_credential_says by simp
  have run: "m (note_credential label s cv) = (r, cv')" using cv(2) by (simp add: doing_def)
  from saysE [OF m persona run] show "cv_persona cv' = prs \<and> (\<exists>w. cn_sent cv' = cn_sent cv @ w \<and> Q r w cv')"
    unfolding note_credential_says [THEN conjunct2] by blast
qed

subsection \<open>Reading a line\<close>

definition echo_of :: "bool \<Rightarrow> bool \<Rightarrow> bytes" where
  "echo_of echoed e = (if echoed \<and> e then crlf else [])"

definition line_read :: "bool \<Rightarrow> stop + str option \<times> bytes \<Rightarrow> bytes \<Rightarrow> conversation \<Rightarrow> bool" where
  "line_read echoed r w cv \<longleftrightarrow> (\<exists>e. w = echo_of echoed e) \<and> (\<forall>rest. r = Inr (None, rest) \<longrightarrow> w = [] \<and> client_closed cv)"

lemma says_here: "(\<And>cv. Q r [] cv) \<Longrightarrow> says prs (Pair r) Q"
  by (simp add: says_def)

lemma says_read_scanned: "says prs (read_scanned echoed data) (line_read echoed)"
proof -
  obtain s rest where scan: "scan_line [] data = (s, rest)" by force
  have echo: "says prs (after (telnet_send crlf) (\<lambda>u. Pair (Inr (Some s, l)))) (line_read True)" for l
    by (rule says_after [OF says_telnet_send says_here [of "\<lambda>r w cv. r = Inr (Some s, l) \<and> w = []"]])
      (auto simp: line_read_def echo_of_def latin_1_def)
  have quiet: "says prs (Pair (Inr (Some s, l))) (line_read e)" for l e
    by (rule says_here) (auto simp: line_read_def echo_of_def)
  show ?thesis
    using echo quiet by (cases rest; cases echoed) (auto simp: read_scanned_def [abs_def] scan)
qed

lemma says_read_line: "says prs (read_line echoed initial) (line_read echoed)"
proof (cases "carriage \<notin> set initial \<and> newline \<notin> set initial")
  case True
  show ?thesis
  proof (rule saysI)
    fix cv r cv' assume cv: "cv_persona cv = prs" "read_line echoed initial cv = (r, cv')"
    obtain q cv1 where line: "readline cv = (q, cv1)" by force
    obtain w where w: "cv_persona cv1 = prs" "cn_sent cv1 = cn_sent cv @ w" "silent (\<lambda>r cv. r = Inr [] \<longrightarrow> client_closed cv) q w cv1"
      by (rule saysE [OF readline_silent cv(1) line])
    then have sent: "cn_sent cv1 = cn_sent cv" and closed: "q = Inr [] \<longrightarrow> client_closed cv1" by (simp_all add: silent_def)
    have at_once: "\<exists>e. [] = echo_of echoed e" by (auto simp: echo_of_def)
    have run: "(case q of Inl x \<Rightarrow> (Inl x, cv1)
        | Inr d \<Rightarrow> if d = [] \<and> initial = [] then (Inr (None, []), cv1) else read_scanned echoed (initial @ d) cv1) = (r, cv')"
      using cv(2) True by (auto simp: read_line_def after_def line split: sum.splits if_splits)
    show "cv_persona cv' = prs \<and> (\<exists>w. cn_sent cv' = cn_sent cv @ w \<and> line_read echoed r w cv')"
    proof (cases "(\<exists>x. q = Inl x) \<or> q = Inr [] \<and> initial = []")
      case True
      then have "cv' = cv1" "r = Inr (None, []) \<longrightarrow> client_closed cv1" "\<exists>x. r = Inl x \<or> r = Inr (None, [])"
        using run closed by auto
      then show ?thesis using w(1) sent at_once by (auto simp: line_read_def)
    next
      case False
      then obtain d where "q = Inr d" "\<not> (d = [] \<and> initial = [])" by (cases q) auto
      then have "read_scanned echoed (initial @ d) cv1 = (r, cv')" using run by (simp split: if_splits)
      from saysE [OF says_read_scanned w(1) this] show ?thesis unfolding sent by blast
    qed
  qed
next
  case False
  then have "read_line echoed initial = read_scanned echoed initial" by (intro ext) (auto simp: read_line_def)
  then show ?thesis by (simp add: says_read_scanned)
qed

lemma says_one_read:
  assumes "\<And>s l. says_one prs (f s l) (\<lambda>_. t) K"
  shows "says_one prs (after (read_line echoed initial) (\<lambda>answer. case fst answer of None \<Rightarrow> Pair (Inr ()) | Some s \<Rightarrow> f s (snd answer)))
    (\<lambda>e. echo_of echoed e @ t) K"
proof (rule saysI)
  fix cv r cv' assume cv: "cv_persona cv = prs"
    "after (read_line echoed initial) (\<lambda>answer. case fst answer of None \<Rightarrow> Pair (Inr ()) | Some s \<Rightarrow> f s (snd answer)) cv = (r, cv')"
  obtain q cv1 where line: "read_line echoed initial cv = (q, cv1)" by force
  obtain w where w: "cv_persona cv1 = prs" "cn_sent cv1 = cn_sent cv @ w" "line_read echoed q w cv1"
    by (rule saysE [OF says_read_line cv(1) line])
  then obtain e where e: "w = echo_of echoed e" by (auto simp: line_read_def)
  show "cv_persona cv' = prs \<and> (\<exists>w. cn_sent cv' = cn_sent cv @ w \<and> (\<exists>e. about_to (echo_of echoed e @ t) K r w cv'))"
  proof (cases "\<exists>s l. q = Inr (Some s, l)")
    case True
    then obtain s l where "f s l cv1 = (r, cv')" using cv(2) line by (auto simp: after_def)
    from saysE [OF assms w(1) this] obtain v where v: "cv_persona cv' = prs" "cn_sent cv' = cn_sent cv1 @ v" "about_to t K r v cv'"
      by blast
    then have "about_to (echo_of echoed e @ t) K r (w @ v) cv'" by (auto simp: about_to_def e)
    then show ?thesis using v w(2) by auto
  next
    case False
    then have left: "cv' = cv1" "r = Inr () \<longrightarrow> client_closed cv1"
      using cv(2) line w(3) by (auto simp: after_def line_read_def split: sum.splits option.splits)
    then have "about_to (echo_of echoed e @ t) K r w cv'" by (simp add: about_to_def e)
    then show ?thesis using w left by auto
  qed
qed

text \<open>One attempt as the client sees it: the name is asked, its line echoed unless it was cut short, the
  password is asked and refused.\<close>

definition attempt_text :: "persona \<Rightarrow> bool \<Rightarrow> bytes" where
  "attempt_text prs e = latin_1 (hostname prs @ lit '' login: '') @ (if e then crlf else []) @ lit ''Password: '' @ crlf
     @ lit ''Login incorrect'' @ crlf"

text \<open>At most \<open>n\<close> attempts, perhaps the beginning of one more of them, and the normal end only after all of
  them or when the client has closed.\<close>

definition attempts_said :: "persona \<Rightarrow> nat \<Rightarrow> stop + unit \<Rightarrow> bytes \<Rightarrow> conversation \<Rightarrow> bool" where
  "attempts_said prs n r w cv \<longleftrightarrow> (\<exists>echoes e rest.
     w = concat (map (attempt_text prs) echoes) @ rest \<and> prefix rest (attempt_text prs e) \<and>
     length echoes \<le> n \<and> (length echoes = n \<longrightarrow> rest = []) \<and>
     (r = Inr () \<longrightarrow> length echoes = n \<or> client_closed cv))"

lemma attempts_said_Suc:
  assumes "about_to (attempt_text prs e) (attempts_said prs n) r w cv"
  shows "attempts_said prs (Suc n) r w cv"
  using assms unfolding about_to_def
proof (elim disjE conjE exE)
  assume "prefix w (attempt_text prs e)" "r = Inr () \<longrightarrow> client_closed cv"
  then show ?thesis unfolding attempts_said_def by (intro exI [of _ "[]"] exI [of _ e] exI [of _ w]) simp
next
  fix v assume v: "w = attempt_text prs e @ v" "attempts_said prs n r v cv"
  then obtain echoes e' rest where "v = concat (map (attempt_text prs) echoes) @ rest" "prefix rest (attempt_text prs e')"
     "length echoes \<le> n \<and> (length echoes = n \<longrightarrow> rest = [])" "r = Inr () \<longrightarrow> length echoes = n \<or> client_closed cv"
    unfolding attempts_said_def by blast
  then show ?thesis unfolding attempts_said_def v(1)
    by (intro exI [of _ "e # echoes"] exI [of _ e'] exI [of _ rest]) simp
qed

lemma says_ask_login:
  assumes "\<And>l. says prs (retry l) (attempts_said prs n)"
  shows "says prs (ask_login leftover retry) (attempts_said prs (Suc n))"
proof -
  have retried: "says_one prs (retry l) (\<lambda>_. []) (attempts_said prs n)" for l
    by (rule saysI) (erule (1) saysE [OF assms], simp add: about_to_def)
  have refuse: "says_one prs (doing (note_credential (lit ''password: '') s) (after pause (\<lambda>_.
      after (telnet_send (crlf @ lit ''Login incorrect'' @ crlf)) (\<lambda>_. retry l))))
      (\<lambda>_. latin_1 (crlf @ lit ''Login incorrect'' @ crlf) @ []) (attempts_said prs n)" for s l
    by (intro says_note says_one_pause says_one_send retried)
  have password: "says_one prs (ask_password l retry)
      (\<lambda>_. latin_1 (lit ''Password: '') @ echo_of False True @ latin_1 (crlf @ lit ''Login incorrect'' @ crlf) @ [])
      (attempts_said prs n)" for l
    unfolding ask_password_def using says_one_send [OF says_one_read [OF refuse, where echoed = False]]
    by (simp add: echo_of_def)
  have name: "says_one prs (doing (note_credential (lit ''login: '') s) (ask_password l retry))
      (\<lambda>_. latin_1 (lit ''Password: '') @ echo_of False True @ latin_1 (crlf @ lit ''Login incorrect'' @ crlf) @ [])
      (attempts_said prs n)" for s l
    by (intro says_note password)
  let ?asked = "after (telnet_send (hostname prs @ lit '' login: '')) (\<lambda>_. after (read_line True leftover) (\<lambda>answer.
      case fst answer of None \<Rightarrow> Pair (Inr ())
      | Some user \<Rightarrow> doing (note_credential (lit ''login: '') user) (ask_password (snd answer) retry)))"
  have whole: "latin_1 (hostname prs @ lit '' login: '') @ echo_of True e @ latin_1 (lit ''Password: '') @ echo_of False True
      @ latin_1 (crlf @ lit ''Login incorrect'' @ crlf) @ [] = attempt_text prs e" for e
    by (simp add: attempt_text_def echo_of_def latin_1_def lit_def)
  have "says_one prs ?asked (attempt_text prs) (attempts_said prs n)"
    using says_one_send [OF says_one_read [where f = "\<lambda>user l. doing (note_credential (lit ''login: '') user) (ask_password l retry)",
        OF name, where echoed = True and initial = leftover], where s = "hostname prs @ lit '' login: ''"] unfolding whole .
  moreover have "ask_login leftover retry cv = ?asked cv" if "cv_persona cv = prs" for cv
    using that by (simp add: ask_login_def)
  ultimately show ?thesis
    by (intro saysI) (erule saysE, assumption, simp, blast intro: attempts_said_Suc)
qed

lemma says_login_attempts: "says prs (login_attempts n leftover) (attempts_said prs n)"
proof (induction n arbitrary: leftover)
  case 0
  show ?case unfolding login_attempts.simps by (rule says_here) (simp add: attempts_said_def)
next
  case (Suc n)
  show ?case unfolding login_attempts.simps by (rule says_ask_login) (rule Suc.IH)
qed

lemma says_drain_iac: "says prs drain_iac (\<lambda>_ w _. \<exists>opts. length opts \<le> 64 \<and> w = fst (iac_scan opts))"
proof (rule saysI)
  fix cv r cv' assume cv: "cv_persona cv = prs" "drain_iac cv = (r, cv')"
  obtain q cv1 where data: "read_some 64 cv = (q, cv1)" by force
  obtain w where "cv_persona cv1 = prs" "cn_sent cv1 = cn_sent cv @ w"
      "silent (\<lambda>r cv. \<forall>d. r = Inr d \<longrightarrow> length d \<le> 64) q w cv1"
    by (rule saysE [OF read_some_silent cv(1) data])
  then have cv1: "cv_persona cv1 = prs" "cn_sent cv1 = cn_sent cv" "\<forall>d. q = Inr d \<longrightarrow> length d \<le> 64"
    by (simp_all add: silent_def)
  show "cv_persona cv' = prs \<and> (\<exists>w. cn_sent cv' = cn_sent cv @ w \<and> (\<exists>opts. length opts \<le> 64 \<and> w = fst (iac_scan opts)))"
  proof (cases q)
    case (Inl x)
    then have "cv' = cv1" using cv(2) data by (simp add: drain_iac_def)
    then show ?thesis using cv1 by (intro conjI exI [of _ "[]"]) simp_all
  next
    case (Inr opts)
    obtain reply rest where scan: "iac_scan opts = (reply, rest)" by force
    obtain q' cv2 where sent: "send_bytes reply cv1 = (q', cv2)" by force
    have "cv' = (if reply = [] then cv1 else cv2)"
      using cv(2) data Inr scan sent by (auto simp: drain_iac_def split: if_splits sum.splits)
    moreover have "cv_persona cv2 = cv_persona cv1 \<and> cn_sent cv2 = cn_sent cv1 @ reply"
      using sent by (auto simp: send_bytes_def pause_def cv_persona_def split: list.splits)
    ultimately show ?thesis using cv1 Inr scan by (intro conjI exI [of _ reply] exI [of _ opts]) auto
  qed
qed

definition greeting_text :: "persona \<Rightarrow> bytes" where
  "greeting_text prs = latin_1 (crlf @ os_banner prs @ crlf @ crlf)"

text \<open>A whole dialogue: the answers to the client's first Telnet options, the greeting, and at most five attempts.\<close>

definition dialogue_said :: "persona \<Rightarrow> bytes \<Rightarrow> stop + unit \<Rightarrow> bytes \<Rightarrow> conversation \<Rightarrow> bool" where
  "dialogue_said prs opts r w cv \<longleftrightarrow>
     r \<noteq> Inr () \<and> prefix w (fst (iac_scan opts) @ greeting_text prs) \<or>
     (\<exists>v. w = fst (iac_scan opts) @ greeting_text prs @ v \<and> attempts_said prs 5 r v cv)"

lemma says_telnet_body: "says prs telnet_body (\<lambda>r w cv. \<exists>opts. length opts \<le> 64 \<and> dialogue_said prs opts r w cv)"
proof -
  have attempts: "says prs (after (telnet_send (crlf @ os_banner prs @ crlf @ crlf)) (\<lambda>_. login_attempts MAX_LOGIN_ATTEMPTS leftover))
      (\<lambda>r w cv. r \<noteq> Inr () \<and> w = greeting_text prs \<or> (\<exists>v. w = greeting_text prs @ v \<and> attempts_said prs 5 r v cv))" for leftover
    by (rule says_after [OF says_telnet_send says_login_attempts]) (simp_all add: greeting_text_def MAX_LOGIN_ATTEMPTS_def)
  have greeting: "says prs (\<lambda>cv. after (telnet_send (crlf @ os_banner (cv_persona cv) @ crlf @ crlf)) (\<lambda>_. login_attempts MAX_LOGIN_ATTEMPTS leftover) cv)
      (\<lambda>r w cv. r \<noteq> Inr () \<and> w = greeting_text prs \<or> (\<exists>v. w = greeting_text prs @ v \<and> attempts_said prs 5 r v cv))" for leftover
  proof (rule saysI)
    fix cv r cv' assume cv: "cv_persona cv = prs"
      "after (telnet_send (crlf @ os_banner (cv_persona cv) @ crlf @ crlf)) (\<lambda>_. login_attempts MAX_LOGIN_ATTEMPTS leftover) cv = (r, cv')"
    from saysE [OF attempts cv(1) cv(2) [unfolded cv(1)]]
    show "cv_persona cv' = prs \<and> (\<exists>w. cn_sent cv' = cn_sent cv @ w \<and>
        (r \<noteq> Inr () \<and> w = greeting_text prs \<or> (\<exists>v. w = greeting_text prs @ v \<and> attempts_said prs 5 r v cv')))" by blast
  qed
  show ?thesis unfolding telnet_body_def
    by (rule says_after [OF says_drain_iac greeting]) (auto simp: dialogue_said_def)
qed

lemma noted_telnet_body: "noted (snd (telnet_body cv)) \<le> noted cv + 10"
proof -
  have "grows a (a + 10) (\<lambda>cv. after (telnet_send (crlf @ os_banner (cv_persona cv0) @ s)) (\<lambda>_. login_attempts MAX_LOGIN_ATTEMPTS l) cv)"
    for a cv0 s l
    by (intro grows_after noting.keeps_telnet_send)
      (use grows_login_attempts [of a 5] in \<open>simp_all add: MAX_LOGIN_ATTEMPTS_def\<close>)
  then have "grows (noted cv) (noted cv + 10) (\<lambda>cv. after (telnet_send (crlf @ os_banner (cv_persona cv) @ s)) (\<lambda>_. login_attempts MAX_LOGIN_ATTEMPTS l) cv)"
    for s l by (simp add: grows_def)
  then have "grows (noted cv) (noted cv + 10) telnet_body"
    unfolding telnet_body_def by (intro grows_after noting.keeps_drain_iac) simp_all
  then show ?thesis by (cases "telnet_body cv") (auto simp: grows_def notes_at_most_def)
qed

text \<open>C33: A Telnet dialogue is over after five attempts, however the client answers and even when it leaves names
  or passwords blank: the decoy writes its answers to the client's options, its greeting and at most five rounds of
  name, password and refusal, the last perhaps cut short, and notes at most ten lines. It leaves normally only after
  the fifth refusal or when the client has closed its side; otherwise a timeout, a lost connection, an overlong line
  or a shutdown ended it.\<close>

theorem telnet_dialogue_ends:
  "case telnet_body cv of (r, cv') \<Rightarrow>
     (\<exists>opts w. length opts \<le> 64 \<and> cn_sent cv' = cn_sent cv @ w \<and> dialogue_said (cv_persona cv) opts r w cv')
     \<and> noted cv' \<le> noted cv + 10"
proof (cases "telnet_body cv")
  case (Pair r cv')
  obtain w where "cn_sent cv' = cn_sent cv @ w" "\<exists>opts. length opts \<le> 64 \<and> dialogue_said (cv_persona cv) opts r w cv'"
    by (rule saysE [OF says_telnet_body refl Pair])
  then show ?thesis using noted_telnet_body [of cv] Pair by auto
qed

section \<open>Examples\<close>

theorem http_answer_framed_witness:
  "\<exists>k status content_type body allow.
    server_kind_of ubuntu_web_server = Some k
    \<and> response_parts ubuntu_web_server k (lit ''HEAD'') (lit ''/.env'') (lit ''HTTP/1.1'') 1 = (status, content_type, body, allow)
    \<and> status \<in> set ANSWER_STATUSES
    \<and> client_head [] (the (build_response ubuntu_web_server (lit ''HEAD'') (lit ''/.env'') (lit ''HTTP/1.1'') 1)) =
        Some (answer_lines k (status, content_type, body, allow), if lit ''HEAD'' = lit ''HEAD'' then [] else body)"
  by (rule http_answer_framed) (simp add: build_response_def server_kind_of_def ubuntu_web_server_def Let_def)

theorem http_input_bounded_witness:
  "let cv = new_conversation (lit ''s'') NoPeer (lit ''http'') generic_linux (new_connection [Arrives crlf] [] 5 [])
   in (read_headers [] cv = (Inr crlf, snd (read_headers [] cv)) \<longrightarrow> length crlf \<le> 81920)
    \<and> (read_body [] cv = (Inr [], snd (read_headers [] cv)) \<longrightarrow> length ([] :: bytes) \<le> 65536) \<and> length (body_text []) \<le> 1024"
  unfolding Let_def by (rule http_input_bounded)

end
