(* ===== verification/LiveClassification.thy ===== *)
theory LiveClassification
  imports Pipeline
begin

text \<open>
  \<open>classifier/realtime.py\<close>: the rules that make sense before a session ends, and the classification of
  a session that is still open. The rules file and the sleeping between two checks belong to the
  caller: what loading the file gives is an argument, and each check is one call at one time.
\<close>

definition LIVE_RULE_IDS :: "str list" where
  "LIVE_RULE_IDS = map lit [''automated_discovery_burst'', ''sensitive_file_probe'', ''repeat_connections_same_ip'',
     ''authentication_attempt'', ''script_kiddie_tool_names'', ''interactive_low_and_slow'']"

definition live_rules_of :: "rule_set \<Rightarrow> rule_set" where
  "live_rules_of rs = rs\<lparr>rules := filter (\<lambda>r. rule_id r \<in> set LIVE_RULE_IDS) (rules rs)\<rparr>"

text \<open>\<open>load_live_rules\<close>, whose cache holds the first set that was built. The model of a rule set asks for
  at least one rule, so a file without any of these ids has no live rules.\<close>

definition load_live_rules :: "rule_set outcome \<Rightarrow> rule_set option \<Rightarrow> rule_set outcome \<times> rule_set option" where
  "load_live_rules loaded cache =
     (case cache of
        Some live \<Rightarrow> (Done live, cache)
      | None \<Rightarrow>
          (case loaded of
             Raised x \<Rightarrow> (Raised x, None)
           | Done rs \<Rightarrow>
               (if rule_set_ok (live_rules_of rs) then (Done (live_rules_of rs), Some (live_rules_of rs))
                else (Raised (ValueError (lit ''invalid rules'')), None))))"

text \<open>One pass of \<open>LiveSessionClassifier.run\<close> up to the callback; \<open>None\<close> when it raised, which is logged.\<close>

definition live_summary ::
  "(str \<Rightarrow> bool) \<Rightarrow> (str \<Rightarrow> bool) \<Rightarrow> rule_set \<Rightarrow> rat \<Rightarrow> session \<Rightarrow> classification_summary option" where
  "live_summary ip_ok uuid_ok live now s =
     (case model_validate ip_ok uuid_ok (active_record now s) of
        Raised x \<Rightarrow> None
      | Done snapshot \<Rightarrow>
          (case classify_session live snapshot None True of Raised x \<Rightarrow> None | Done summary \<Rightarrow> Some summary))"

section \<open>What the callback of the SSH shell keeps\<close>

record live_state =
  lv_delay :: rat
  lv_rank :: int
  lv_alerts :: "(session_record \<times> classification_summary) list"

definition no_live_results :: live_state where
  "no_live_results = \<lparr>lv_delay = 0, lv_rank = -1, lv_alerts = []\<rparr>"

text \<open>\<open>handle_live_classification\<close> of \<open>handle_shell\<close>: \<open>lv_alerts\<close> are the calls of \<open>_maybe_send_alert\<close>, each
  with the record read when it is made.\<close>

definition slow_down :: "classification_summary \<Rightarrow> live_state \<Rightarrow> live_state" where
  "slow_down summary lv =
     (case sum_deception_action summary of
        None \<Rightarrow> lv
      | Some a \<Rightarrow> lv\<lparr>lv_delay := max (lv_delay lv) (delay_seconds a)\<rparr>)"

definition handle_live_classification :: "session_record \<Rightarrow> classification_summary \<Rightarrow> live_state \<Rightarrow> live_state" where
  "handle_live_classification snapshot summary lv =
     (let lv1 = slow_down summary lv; rank = int (risk_rank (sum_risk_level summary)) in
      if sum_alert_action summary = None \<or> rank \<le> lv_rank lv1 then lv1
      else lv1\<lparr>lv_rank := rank, lv_alerts := lv_alerts lv1 @ [(snapshot, summary)]\<rparr>)"

definition live_check ::
  "(str \<Rightarrow> bool) \<Rightarrow> (str \<Rightarrow> bool) \<Rightarrow> rule_set \<Rightarrow> rat \<Rightarrow> rat \<Rightarrow> session \<Rightarrow> live_state \<Rightarrow> live_state" where
  "live_check ip_ok uuid_ok live now later s lv =
     (case live_summary ip_ok uuid_ok live now s of
        None \<Rightarrow> lv
      | Some summary \<Rightarrow> handle_live_classification (active_record later s) summary lv)"

end
