(* ===== verification/SshProfile.thy ===== *)
theory SshProfile
  imports Persona
begin

text \<open>
  \<open>honeypot/network/ssh_profile.py\<close>: what an OpenSSH decoy offers during the handshake. The names
  asyncssh supports, and the host keys a connection holds, are arguments.
\<close>

record ssh_profile =
  kex_algs :: "str list"
  encryption_algs :: "str list"
  mac_algs :: "str list"
  compression_algs :: "str list"
  host_key_algs :: "str list"
  ext_info :: bool

definition SNTRUP :: str where
  "SNTRUP = lit ''sntrup761x25519-sha512@openssh.com''"

definition ECDH_KEX :: "str list" where
  "ECDH_KEX = map lit [''curve25519-sha256'', ''curve25519-sha256@libssh.org'', ''ecdh-sha2-nistp256'',
     ''ecdh-sha2-nistp384'', ''ecdh-sha2-nistp521'']"

definition DH_KEX :: "str list" where
  "DH_KEX = map lit [''diffie-hellman-group-exchange-sha256'', ''diffie-hellman-group16-sha512'',
     ''diffie-hellman-group18-sha512'', ''diffie-hellman-group14-sha256'']"

definition DH_KEX_BEFORE_8_2 :: "str list" where
  "DH_KEX_BEFORE_8_2 = map lit [''diffie-hellman-group-exchange-sha256'', ''diffie-hellman-group16-sha512'',
     ''diffie-hellman-group18-sha512'', ''diffie-hellman-group-exchange-sha1'', ''diffie-hellman-group14-sha256'',
     ''diffie-hellman-group14-sha1'']"

definition CIPHERS :: "str list" where
  "CIPHERS = map lit [''chacha20-poly1305@openssh.com'', ''aes128-ctr'', ''aes192-ctr'', ''aes256-ctr'',
     ''aes128-gcm@openssh.com'', ''aes256-gcm@openssh.com'']"

definition MACS :: "str list" where
  "MACS = map lit [''umac-64-etm@openssh.com'', ''umac-128-etm@openssh.com'', ''hmac-sha2-256-etm@openssh.com'',
     ''hmac-sha2-512-etm@openssh.com'', ''hmac-sha1-etm@openssh.com'', ''umac-64@openssh.com'',
     ''umac-128@openssh.com'', ''hmac-sha2-256'', ''hmac-sha2-512'', ''hmac-sha1'']"

definition COMPRESSION :: "str list" where
  "COMPRESSION = map lit [''none'', ''zlib@openssh.com'']"

definition HOST_KEY_ALGS :: "str list" where
  "HOST_KEY_ALGS = map lit [''rsa-sha2-512'', ''rsa-sha2-256'', ''ecdsa-sha2-nistp256'', ''ssh-ed25519'']"

definition HOST_KEY_ALGS_BEFORE_8_8 :: "str list" where
  "HOST_KEY_ALGS_BEFORE_8_8 = map lit [''rsa-sha2-512'', ''rsa-sha2-256'', ''ssh-rsa'', ''ecdsa-sha2-nistp256'', ''ssh-ed25519'']"

definition STRICT_KEX :: str where
  "STRICT_KEX = lit ''kex-strict-s-v00@openssh.com''"

definition EXT_INFO :: str where
  "EXT_INFO = lit ''ext-info-s''"

section \<open>The version in a banner\<close>

text \<open>\<open>_OPENSSH_VERSION.search\<close> and the two conversions to \<open>int\<close>, which refuse more than 4,300 digits.\<close>

definition version_at :: "str \<Rightarrow> (str \<times> str) option" where
  "version_at s =
     (let r = drop 8 s; a = takeWhile is_decimal r; rest = dropWhile is_decimal r;
          b = takeWhile is_decimal (drop 1 rest)
      in if startswith s (lit ''OpenSSH_'') \<and> a \<noteq> [] \<and> take 1 rest = [dot] \<and> b \<noteq> [] then Some (a, b) else None)"

fun version_in :: "str \<Rightarrow> (str \<times> str) option" where
  "version_in [] = None"
| "version_in (c # s) = (case version_at (c # s) of Some v \<Rightarrow> Some v | None \<Rightarrow> version_in s)"

definition openssh_version :: "str \<Rightarrow> (nat \<times> nat) option outcome" where
  "openssh_version banner =
     (case version_in banner of
        None \<Rightarrow> Done None
      | Some (a, b) \<Rightarrow>
          if 4300 < length a \<or> 4300 < length b then Raised (ValueError (lit ''Exceeds the limit for integer string conversion''))
          else Done (Some (nat_of_digits 10 a, nat_of_digits 10 b)))"

text \<open>Tuples compare like dictionary words.\<close>

definition version_from :: "nat \<times> nat \<Rightarrow> nat \<times> nat \<Rightarrow> bool" where
  "version_from least v \<longleftrightarrow> fst least < fst v \<or> (fst least = fst v \<and> snd least \<le> snd v)"

definition profile_of_version :: "nat \<times> nat \<Rightarrow> ssh_profile" where
  "profile_of_version v =
     \<lparr>kex_algs =
        (if version_from (9, 0) v then [SNTRUP] @ ECDH_KEX @ DH_KEX
         else if version_from (8, 5) v then ECDH_KEX @ [SNTRUP] @ DH_KEX
         else if version_from (8, 2) v then ECDH_KEX @ DH_KEX
         else ECDH_KEX @ DH_KEX_BEFORE_8_2),
      encryption_algs = CIPHERS, mac_algs = MACS, compression_algs = COMPRESSION,
      host_key_algs = (if version_from (8, 8) v then HOST_KEY_ALGS else HOST_KEY_ALGS_BEFORE_8_8),
      ext_info = version_from (9, 6) v\<rparr>"

definition profile_for_banner :: "str \<Rightarrow> ssh_profile option outcome" where
  "profile_for_banner banner =
     (case openssh_version banner of
        Raised x \<Rightarrow> Raised x
      | Done v \<Rightarrow> Done (map_option profile_of_version v))"

section \<open>What is offered\<close>

text \<open>\<open>_supported\<close> and \<open>server_options\<close>.\<close>

definition supported :: "str list \<Rightarrow> str list \<Rightarrow> str list" where
  "supported names available = filter (\<lambda>n. n \<in> set available) names"

record asyncssh_algs =
  aa_kex :: "str list"
  aa_encryption :: "str list"
  aa_mac :: "str list"
  aa_compression :: "str list"

definition server_options :: "asyncssh_algs \<Rightarrow> ssh_profile \<Rightarrow> asyncssh_algs" where
  "server_options aa p =
     \<lparr>aa_kex = supported (kex_algs p) (aa_kex aa), aa_encryption = supported (encryption_algs p) (aa_encryption aa),
      aa_mac = supported (mac_algs p) (aa_mac aa), aa_compression = supported (compression_algs p) (aa_compression aa)\<rparr>"

text \<open>\<open>apply_to\<close>: the host key types offered and the markers, when the connection has the attribute
  \<open>_server_host_keys\<close> (\<open>Some\<close> of the key types it holds).\<close>

definition apply_to :: "str list option \<Rightarrow> ssh_profile \<Rightarrow> (str list \<times> str list) option" where
  "apply_to held_keys p =
     map_option (\<lambda>available. (supported (host_key_algs p) available, (if ext_info p then [EXT_INFO] else []) @ [STRICT_KEX])) held_keys"

text \<open>\<open>_server_version_for\<close> of \<open>ssh_server.py\<close>.\<close>

definition SSH_VERSION_PREFIX :: str where
  "SSH_VERSION_PREFIX = lit ''SSH-2.0-''"

definition server_version_for :: "persona \<Rightarrow> str" where
  "server_version_for p =
     (if startswith (ssh_banner p) SSH_VERSION_PREFIX then drop (length SSH_VERSION_PREFIX) (ssh_banner p) else ssh_banner p)"

end
