(* ===== verification/SshServer.thy ===== *)
theory SshServer
  imports SessionLog LiveClassification SshProfile EngineProps
begin

text \<open>
  \<open>honeypot/network/ssh_server.py\<close>: the callbacks asyncssh makes on one connection
  (\<open>HoneypotSSHServer\<close>) and the shells opened on it (\<open>handle_shell\<close>). asyncssh decides when which
  callback runs, so a connection's life is a list of events in any order; a step is what runs from
  one await to the next. A connection may open several shells, one after the other or together: all
  of them share the connection's session.
\<close>

section \<open>Texts\<close>

text \<open>The exceptions of asyncssh the callbacks tell apart, with their text.\<close>

datatype close_cause =
    Connection_Lost str
  | Key_Exchange_Failed str
  | Protocol_Not_Supported str
  | Protocol_Error str
  | Other_Disconnect str
  | Other_Exception str

fun cause_text :: "close_cause \<Rightarrow> str" where
  "cause_text (Connection_Lost t) = t"
| "cause_text (Key_Exchange_Failed t) = t"
| "cause_text (Protocol_Not_Supported t) = t"
| "cause_text (Protocol_Error t) = t"
| "cause_text (Other_Disconnect t) = t"
| "cause_text (Other_Exception t) = t"

definition CLIENT_VERSION_LIMIT :: nat where
  "CLIENT_VERSION_LIMIT = 255"

definition END_ERROR_LIMIT :: nat where
  "END_ERROR_LIMIT = 1000"

text \<open>\<open>str.isprintable\<close> for one character; beyond Latin-1 the Unicode tables are an argument.\<close>

definition is_printable :: "(nat \<Rightarrow> bool) \<Rightarrow> nat \<Rightarrow> bool" where
  "is_printable wide c \<longleftrightarrow> (if c < 256 then (32 \<le> c \<and> c \<le> 126) \<or> (161 \<le> c \<and> c \<noteq> 173) else wide c)"

definition printable_text :: "(nat \<Rightarrow> bool) \<Rightarrow> nat \<Rightarrow> str \<Rightarrow> str" where
  "printable_text wide limit text = take limit (map (\<lambda>c. if is_printable wide c then c else question) text)"

definition close_detail :: "(nat \<Rightarrow> bool) \<Rightarrow> close_cause option \<Rightarrow> str list option \<Rightarrow> str option" where
  "close_detail wide cause client_algs =
     (case cause of
        None \<Rightarrow> None
      | Some x \<Rightarrow>
          if x = Connection_Lost (lit ''Connection lost'') then None
          else
            let offer = (case x of
                  Key_Exchange_Failed t \<Rightarrow>
                    (case client_algs of
                       Some (a # as) \<Rightarrow>
                         if contains t (lit ''host key'') then lit ''; client offered '' @ join [comma] (a # as) else []
                     | _ \<Rightarrow> [])
                | _ \<Rightarrow> []);
              detail = printable_text wide END_ERROR_LIMIT (cause_text x @ offer)
            in if detail = [] then None else Some detail)"

section \<open>A connection\<close>

record shell =
  sh_running :: bool
  sh_live :: live_state
  sh_unsent :: "str option"
  sh_out :: str

record ssh_connection =
  sc_session :: "session option"
  sc_end_reason :: str
  sc_finalized :: bool
  sc_admitted :: bool
  sc_auth_started :: bool
  sc_password_sent :: bool
  sc_client_algs :: "str list option"
  sc_offered :: "str list option"
  sc_version :: "str option"
  sc_shells :: "shell list"

record ssh_env =
  se_engine :: env
  se_log :: log_env
  se_wide :: "nat \<Rightarrow> bool"
  se_live_rules :: "rule_set outcome"

text \<open>What finishing a session reads: the wall clock for its end, then the monotonic clock twice.\<close>

record end_clocks =
  ec_ended :: rat
  ec_now :: rat
  ec_later :: rat

definition new_ssh_server :: ssh_connection where
  "new_ssh_server =
     \<lparr>sc_session = None, sc_end_reason = lit ''disconnect'', sc_finalized = False, sc_admitted = False,
      sc_auth_started = False, sc_password_sent = False, sc_client_algs = None, sc_offered = None,
      sc_version = None, sc_shells = []\<rparr>"

definition map_session :: "(session \<Rightarrow> session) \<Rightarrow> ssh_connection \<Rightarrow> ssh_connection" where
  "map_session f c = c\<lparr>sc_session := map_option f (sc_session c)\<rparr>"

text \<open>\<open>connection_made\<close>: \<open>admitted\<close> is the listener's answer; a refused connection is aborted.\<close>

definition connection_made ::
  "bool \<Rightarrow> str \<Rightarrow> rat \<Rightarrow> peer_address \<Rightarrow> persona \<Rightarrow> (str list \<times> str list) option \<Rightarrow> ssh_connection" where
  "connection_made admitted sid now p prs applied =
     (if admitted
      then new_ssh_server\<lparr>sc_admitted := True, sc_session := Some (new_session sid now p prs), sc_offered := map_option fst applied\<rparr>
      else new_ssh_server)"

text \<open>\<open>note_client_host_key_algs\<close>: what is noted, and the choice left to asyncssh.\<close>

definition shown_alg :: "(nat \<Rightarrow> bool) \<Rightarrow> bytes \<Rightarrow> str" where
  "shown_alg wide alg = printable_text wide 100 (map (\<lambda>b. if b < 128 then b else 0xFFFD) alg)"

definition note_client_host_key_algs :: "(nat \<Rightarrow> bool) \<Rightarrow> bytes list \<Rightarrow> ssh_connection \<Rightarrow> bytes list \<times> ssh_connection" where
  "note_client_host_key_algs wide peer_algs c =
     ((case sc_offered c of None \<Rightarrow> peer_algs | Some offered \<Rightarrow> filter (\<lambda>a. a \<in> set offered) peer_algs),
      c\<lparr>sc_client_algs := Some (map (shown_alg wide) (take 30 peer_algs))\<rparr>)"

definition record_client_version :: "(nat \<Rightarrow> bool) \<Rightarrow> ssh_connection \<Rightarrow> ssh_connection" where
  "record_client_version wide c =
     (case sc_version c of
        Some (x # v) \<Rightarrow>
          map_session (\<lambda>s. if client_version s = None \<or> client_version s = Some []
                           then s\<lparr>client_version := Some (printable_text wide CLIENT_VERSION_LIMIT (x # v))\<rparr> else s) c
      | _ \<Rightarrow> c)"

definition begin_auth :: "(nat \<Rightarrow> bool) \<Rightarrow> ssh_connection \<Rightarrow> ssh_connection" where
  "begin_auth wide c = record_client_version wide (c\<lparr>sc_auth_started := True\<rparr>)"

text \<open>\<open>validate_password\<close>, with the clock as it is read for each of the two lines.\<close>

definition log_given :: "rat \<Rightarrow> str \<Rightarrow> str \<Rightarrow> session \<Rightarrow> session" where
  "log_given now label val s = (if strip val = [] then s else log_command now (label @ strip val) s)"

definition validate_password :: "rat \<Rightarrow> rat \<Rightarrow> str \<Rightarrow> str \<Rightarrow> ssh_connection \<Rightarrow> ssh_connection" where
  "validate_password t1 t2 user password c =
     map_session (log_given t2 (lit ''password: '') password \<circ> log_given t1 (lit ''login: '') user) (c\<lparr>sc_password_sent := True\<rparr>)"

section \<open>The end of a connection\<close>

definition stage_at_close :: "close_cause option \<Rightarrow> ssh_connection \<Rightarrow> session \<Rightarrow> str" where
  "stage_at_close cause c s =
     (case cause of
        Some (Protocol_Not_Supported t) \<Rightarrow> lit ''not_ssh''
      | Some (Key_Exchange_Failed t) \<Rightarrow> lit ''key_exchange_failed''
      | _ \<Rightarrow>
          if client_version s = None then lit ''no_version''
          else if sc_password_sent c then lit ''after_password''
          else if sc_auth_started c then lit ''auth_without_password''
          else lit ''before_auth'')"

definition end_reason_at_close :: "close_cause option \<Rightarrow> ssh_connection \<Rightarrow> str" where
  "end_reason_at_close cause c =
     (case cause of
        None \<Rightarrow> sc_end_reason c
      | Some (Connection_Lost t) \<Rightarrow> if contains (lower t) (lit ''timeout'') then lit ''timeout'' else sc_end_reason c
      | Some (Other_Disconnect t) \<Rightarrow> sc_end_reason c
      | Some x \<Rightarrow> lit ''error'')"

text \<open>\<open>_finalize\<close>.\<close>

definition finalize_once :: "ssh_env \<Rightarrow> end_clocks \<Rightarrow> str \<Rightarrow> ssh_connection \<times> session_log \<Rightarrow> ssh_connection \<times> session_log" where
  "finalize_once e t reason cl =
     (case sc_session (fst cl) of
        Some s \<Rightarrow>
          (if sc_finalized (fst cl) then cl
           else let s' = finalize (ec_ended t) reason s in
             ((fst cl)\<lparr>sc_finalized := True, sc_session := Some s'\<rparr>,
              finalize_and_schedule (se_log e) (ec_now t) (ec_later t) (to_record s') (lit ''SSH'') (session_id s') (snd cl)))
      | None \<Rightarrow> cl)"

definition note_failed_login :: "ssh_env \<Rightarrow> close_cause option \<Rightarrow> ssh_connection \<Rightarrow> ssh_connection" where
  "note_failed_login e cause c =
     (case sc_session c of
        None \<Rightarrow> c
      | Some s \<Rightarrow>
          (if end_stage s \<noteq> None then c
           else let c1 = record_client_version (se_wide e) c in
             map_session (\<lambda>s. s\<lparr>end_stage := Some (stage_at_close cause c1 s),
                               end_error := close_detail (se_wide e) cause (sc_client_algs c1)\<rparr>) c1))"

definition connection_lost :: "ssh_env \<Rightarrow> end_clocks \<Rightarrow> close_cause option \<Rightarrow> ssh_connection \<times> session_log \<Rightarrow> ssh_connection \<times> session_log" where
  "connection_lost e t cause cl =
     (let c = note_failed_login e cause (fst cl) in finalize_once e t (end_reason_at_close cause c) (c, snd cl))"

section \<open>A shell\<close>

definition map_shell :: "nat \<Rightarrow> (shell \<Rightarrow> shell) \<Rightarrow> ssh_connection \<Rightarrow> ssh_connection" where
  "map_shell i f c = (if i < length (sc_shells c) then c\<lparr>sc_shells := (sc_shells c)[i := f (sc_shells c ! i)]\<rparr> else c)"

definition shell_writes :: "nat \<Rightarrow> str \<Rightarrow> ssh_connection \<Rightarrow> ssh_connection" where
  "shell_writes i out = map_shell i (\<lambda>sh. sh\<lparr>sh_out := sh_out sh @ out\<rparr>)"

text \<open>The \<open>finally\<close> block of \<open>handle_shell\<close>: the live check stops, the session is finalized and the
  channel closes.\<close>

definition end_shell :: "ssh_env \<Rightarrow> end_clocks \<Rightarrow> nat \<Rightarrow> str \<Rightarrow> ssh_connection \<times> session_log \<Rightarrow> ssh_connection \<times> session_log" where
  "end_shell e t i reason cl =
     finalize_once e t reason
       (map_shell i (\<lambda>sh. sh\<lparr>sh_running := False, sh_unsent := None\<rparr>) ((fst cl)\<lparr>sc_end_reason := reason\<rparr>), snd cl)"

text \<open>Up to the first await. Without live rules the shell never starts, and nothing finalizes the
  session before the connection is lost.\<close>

definition shell_session :: "ssh_env \<Rightarrow> ssh_connection \<Rightarrow> ssh_connection" where
  "shell_session e c = record_client_version (se_wide e) (map_session (\<lambda>s. s\<lparr>end_stage := Some (lit ''shell'')\<rparr>) c)"

definition new_shell :: shell where
  "new_shell = \<lparr>sh_running = True, sh_live = no_live_results, sh_unsent = None, sh_out = []\<rparr>"

definition start_shell :: "ssh_env \<Rightarrow> ssh_connection \<Rightarrow> ssh_connection option" where
  "start_shell e c =
     (case se_live_rules e of
        Raised x \<Rightarrow> None
      | Done live \<Rightarrow> Some ((shell_session e c)\<lparr>sc_shells := sc_shells c @ [new_shell]\<rparr>))"

text \<open>The engine on the connection's session.\<close>

definition engine_process :: "ssh_env \<Rightarrow> rat \<Rightarrow> str \<Rightarrow> ssh_connection \<Rightarrow> str outcome \<times> ssh_connection" where
  "engine_process e now raw c =
     (case sc_session c of
        None \<Rightarrow> (Raised (ValueError []), c)
      | Some s \<Rightarrow> (case process (se_engine e) now raw s of (answer, s') \<Rightarrow> (answer, c\<lparr>sc_session := Some s'\<rparr>)))"

text \<open>A client that runs one command: the answer without the prompt.\<close>

definition bare_answer :: "ssh_connection \<Rightarrow> str \<Rightarrow> str" where
  "bare_answer c response =
     (case sc_session c of
        None \<Rightarrow> removesuffix response CLOSE_SIGNAL
      | Some s \<Rightarrow> removesuffix (removesuffix response CLOSE_SIGNAL) (prompt s))"

definition exec_shell ::
  "ssh_env \<Rightarrow> end_clocks \<Rightarrow> rat \<Rightarrow> str \<Rightarrow> ssh_connection \<times> session_log \<Rightarrow> ssh_connection \<times> session_log" where
  "exec_shell e t now command cl =
     (let i = length (sc_shells (fst cl)) in
      case start_shell e (fst cl) of
        None \<Rightarrow> (shell_session e (fst cl), snd cl)
      | Some c \<Rightarrow>
          (case engine_process e now command c of
             (Raised x, c') \<Rightarrow> end_shell e t i (lit ''error'') (c', snd cl)
           | (Done response, c') \<Rightarrow>
               end_shell e t i (lit ''disconnect'') (shell_writes i (bare_answer c' response) c', snd cl)))"

text \<open>An interactive client: the banner, then a line at a time.\<close>

definition open_shell :: "ssh_env \<Rightarrow> str \<Rightarrow> nat \<Rightarrow> nat \<Rightarrow> ssh_connection \<Rightarrow> ssh_connection" where
  "open_shell e last_login net host c =
     (case start_shell e c of
        None \<Rightarrow> shell_session e c
      | Some c1 \<Rightarrow>
          (case sc_session c1 of
             None \<Rightarrow> c1
           | Some s \<Rightarrow> shell_writes (length (sc_shells c)) (build_banner last_login net host s) c1))"

definition answer_line :: "ssh_env \<Rightarrow> end_clocks \<Rightarrow> nat \<Rightarrow> str \<Rightarrow> ssh_connection \<times> session_log \<Rightarrow> ssh_connection \<times> session_log" where
  "answer_line e t i response cl =
     (if endswith response CLOSE_SIGNAL then
        end_shell e t i (lit ''logout'')
          (shell_writes i (removesuffix response CLOSE_SIGNAL @ lit ''logout\<newline>'') (fst cl), snd cl)
      else if lv_delay (sh_live (sc_shells (fst cl) ! i)) = 0 then (shell_writes i response (fst cl), snd cl)
      else (map_shell i (\<lambda>sh. sh\<lparr>sh_unsent := Some response\<rparr>) (fst cl), snd cl))"

definition shell_line :: "ssh_env \<Rightarrow> end_clocks \<Rightarrow> nat \<Rightarrow> rat \<Rightarrow> str \<Rightarrow> ssh_connection \<times> session_log \<Rightarrow> ssh_connection \<times> session_log" where
  "shell_line e t i now raw cl =
     (if raw = [] then end_shell e t i (lit ''disconnect'') cl
      else case engine_process e now (rstrip_if (\<lambda>c. c = carriage \<or> c = newline) raw) (fst cl) of
        (Raised x, c) \<Rightarrow> end_shell e t i (lit ''error'') (c, snd cl)
      | (Done response, c) \<Rightarrow> answer_line e t i response (c, snd cl))"

definition shell_slept :: "nat \<Rightarrow> ssh_connection \<Rightarrow> ssh_connection" where
  "shell_slept i =
     map_shell i (\<lambda>sh. case sh_unsent sh of None \<Rightarrow> sh | Some out \<Rightarrow> sh\<lparr>sh_unsent := None, sh_out := sh_out sh @ out\<rparr>)"

definition shell_timed_out :: "ssh_env \<Rightarrow> end_clocks \<Rightarrow> nat \<Rightarrow> ssh_connection \<times> session_log \<Rightarrow> ssh_connection \<times> session_log" where
  "shell_timed_out e t i cl =
     end_shell e t i (lit ''timeout'')
       (shell_writes i (lit ''\<newline>timed out waiting for input: auto-logout\<newline>'') (fst cl), snd cl)"

definition shell_checked :: "ssh_env \<Rightarrow> nat \<Rightarrow> rat \<Rightarrow> rat \<Rightarrow> ssh_connection \<Rightarrow> ssh_connection" where
  "shell_checked e i now later c =
     (case (sc_session c, se_live_rules e) of
        (Some s, Done live) \<Rightarrow>
          map_shell i (\<lambda>sh. sh\<lparr>sh_live := live_check (le_ip_ok (se_log e)) (le_uuid_ok (se_log e)) live now later s (sh_live sh)\<rparr>) c
      | _ \<Rightarrow> c)"

section \<open>A life\<close>

text \<open>The events after an admitted \<open>connection_made\<close>. \<open>sv_time\<close> names the clock readings of each.\<close>

datatype ssh_event =
    Version_Read str
  | Key_Types "bytes list"
  | Begins_Auth
  | Sends_Password rat rat str str
  | Opens_Shell str nat nat
  | Runs_Command end_clocks rat str
  | Types_Line end_clocks nat rat str
  | Sleep_Ends nat
  | Stays_Silent end_clocks nat
  | Live_Check nat rat rat
  | Shell_Cancelled end_clocks nat
  | Shell_Fails end_clocks nat
  | Lost end_clocks "close_cause option"

definition shell_runs :: "nat \<Rightarrow> ssh_connection \<Rightarrow> bool" where
  "shell_runs i c \<longleftrightarrow> i < length (sc_shells c) \<and> sh_running (sc_shells c ! i)"

definition shell_reads :: "nat \<Rightarrow> ssh_connection \<Rightarrow> bool" where
  "shell_reads i c \<longleftrightarrow> shell_runs i c \<and> sh_unsent (sc_shells c ! i) = None"

fun ssh_step :: "ssh_env \<Rightarrow> ssh_event \<Rightarrow> ssh_connection \<times> session_log \<Rightarrow> ssh_connection \<times> session_log" where
  "ssh_step e (Version_Read v) (c, lg) = (c\<lparr>sc_version := Some v\<rparr>, lg)"
| "ssh_step e (Key_Types algs) (c, lg) = (snd (note_client_host_key_algs (se_wide e) algs c), lg)"
| "ssh_step e Begins_Auth (c, lg) = (begin_auth (se_wide e) c, lg)"
| "ssh_step e (Sends_Password t1 t2 user password) (c, lg) = (validate_password t1 t2 user password c, lg)"
| "ssh_step e (Opens_Shell last_login net host) (c, lg) = (open_shell e last_login net host c, lg)"
| "ssh_step e (Runs_Command t now command) (c, lg) = exec_shell e t now command (c, lg)"
| "ssh_step e (Types_Line t i now raw) (c, lg) = (if shell_reads i c then shell_line e t i now raw (c, lg) else (c, lg))"
| "ssh_step e (Sleep_Ends i) (c, lg) = ((if shell_runs i c then shell_slept i c else c), lg)"
| "ssh_step e (Stays_Silent t i) (c, lg) = (if shell_reads i c then shell_timed_out e t i (c, lg) else (c, lg))"
| "ssh_step e (Live_Check i now later) (c, lg) = ((if shell_runs i c then shell_checked e i now later c else c), lg)"
| "ssh_step e (Shell_Cancelled t i) (c, lg) = (if shell_runs i c then end_shell e t i (lit ''shutdown'') (c, lg) else (c, lg))"
| "ssh_step e (Shell_Fails t i) (c, lg) = (if shell_runs i c then end_shell e t i (lit ''error'') (c, lg) else (c, lg))"
| "ssh_step e (Lost t cause) (c, lg) = connection_lost e t cause (c, lg)"

definition ssh_run :: "ssh_env \<Rightarrow> ssh_event list \<Rightarrow> ssh_connection \<times> session_log \<Rightarrow> ssh_connection \<times> session_log" where
  "ssh_run e events cl = fold (ssh_step e) events cl"

end
