(* ===== verification/HandlerProps.thy ===== *)
theory HandlerProps
  imports ConversationInvariants CatchUpProps
begin

text \<open>
  What becomes of a connection to a Telnet, FTP or HTTP decoy: its session is handed on exactly once
  with a record the schema accepts, whatever the client, the network and the log file do; the one
  exception is a task cancelled while it closes. Then the counting of failed log writes, and the
  form of the HTTP answers.
\<close>

section \<open>One record per connection\<close>

definition peer_ok :: "log_env \<Rightarrow> peer_address \<Rightarrow> bool" where
  "peer_ok e p \<longleftrightarrow> opt_all (le_ip_ok e) (fst (peer_ip_and_port p))
     \<and> opt_all (\<lambda>port. 1 \<le> port \<and> port \<le> 65535) (snd (peer_ip_and_port p))"

lemma protocol_known: "protocol_of k \<in> set protocols"
  by (cases k) (simp_all add: protocols_def)

lemma reason_known: "end_reason_of k result \<in> set end_reasons"
  by (cases k; cases result rule: sum.exhaust; simp add: telnet_reason_def plain_reason_def end_reasons_def split: stop.split)

lemma finished_record:
  assumes "ps_end_time s = Some ended" "ps_end_reason s = Some reason" "reason \<in> set end_reasons"
    and "ps_start_time s \<le> ended" "times_ordered (ps_start_time s) (ps_commands s) ended"
    and "list_all (\<lambda>c. ev_cmd c \<noteq> []) (ps_commands s)"
    and "session_identity s = (sid, p, proto, prs, start)"
    and "le_uuid_ok e sid" "peer_ok e p" "proto \<in> set protocols" "persona_id prs \<noteq> []"
  shows "\<exists>r. validated_record e (ps_to_record s) = Some r \<and> rec_session_id r = sid \<and> rec_protocol r = proto
    \<and> rec_end_reason r = reason \<and> rec_commands r = ps_commands s \<and> rec_persona_id r = persona_id prs"
proof -
  have same: "ps_session_id s = sid" "ps_peer s = p" "ps_protocol s = proto" "ps_persona s = prs"
    using assms(7) by (simp_all add: session_identity_def)
  obtain ip port where p: "peer_ip_and_port p = (ip, port)" by force
  obtain r where r: "ps_to_record s = Done r" "r = \<lparr>rec_schema_version = 1, rec_session_id = sid, rec_protocol = proto,
      rec_peer_ip = ip, rec_peer_port = port, rec_latitude = None, rec_longitude = None, rec_persona_id = persona_id prs,
      rec_started_at = ps_start_time s, rec_ended_at = ended, rec_duration_seconds = ended - ps_start_time s,
      rec_end_reason = reason, rec_command_count = int (length (ps_commands s)), rec_commands = ps_commands s,
      rec_decoy_files_surfaced = [], rec_client_version = None, rec_end_stage = None, rec_end_error = None\<rparr>"
    using assms(1,2) same p by (simp add: ps_to_record_def Let_def)
  have "fields_valid (le_ip_ok e) (le_uuid_ok e) r"
    using assms(3,4,6,8-11) p unfolding r(2) by (simp add: fields_valid_def peer_ok_def opt_all_def)
  moreover have "record_consistent r"
    using assms(4,5) unfolding r(2) by (simp add: record_consistent_def)
  ultimately have "model_validate (le_ip_ok e) (le_uuid_ok e) r = Done r" by (simp only: model_validate_iff)
  then have "validated_record e (ps_to_record s) = Some r" by (simp add: validated_record_def r(1))
  then show ?thesis using r(2) by simp
qed

definition close_cancelled :: "handler_class \<Rightarrow> conversation \<Rightarrow> bool" where
  "close_cancelled k cv =
     (case cn_pauses (snd (handler_body k cv)) of p # _ \<Rightarrow> p = Some Await_Cancelled | [] \<Rightarrow> False)"

lemma close_None_iff:
  "fst (close_connection reason cv) = None \<longleftrightarrow>
    (case cn_pauses cv of p # _ \<Rightarrow> p = Some Await_Cancelled | [] \<Rightarrow> False)"
  by (auto simp: close_connection_def pause_def Let_def split: list.split option.split stop.split prod.split)

text \<open>C6: Every connection to a Telnet, FTP or HTTP decoy hands its session on for classification exactly
  once, with a record the schema accepts and whatever the write to the session log does; when the task
  is cancelled while the connection closes, nothing is logged or handed on.\<close>

theorem connection_recorded:
  assumes "list_all (\<lambda>d. 0 \<le> d) (cn_ticks c)" "le_uuid_ok e sid" "peer_ok e p" "persona_id prs \<noteq> []"
    and cv_def: "cv = new_conversation sid p (protocol_of k) prs c"
  shows "if close_cancelled k cv then serve_connection e now later k cv lg = lg
    else \<exists>r. model_validate (le_ip_ok e) (le_uuid_ok e) r = Done r
      \<and> rec_session_id r = sid \<and> rec_protocol r = protocol_of k \<and> rec_persona_id r = persona_id prs
      \<and> rec_end_reason r = end_reason_of k (fst (handler_body k cv))
      \<and> rec_commands r = ps_commands (cv_session (snd (handler_body k cv)))
      \<and> lg_queue (serve_connection e now later k cv lg) = schedule_auto_classification later r (lg_queue lg)"
proof -
  obtain result cv1 where body: "handler_body k cv = (result, cv1)" by force
  note start = new_conversation_starts [OF assms(1), of sid p "protocol_of k" prs, folded cv_def]
  have fits: "log_fits cv1" using keepsD [OF log_fits.keeps_handler_body start(1) body] .
  have same: "identified (sid, p, protocol_of k, prs, ps_start_time (cv_session cv)) cv1"
    using keepsD [OF identified.keeps_handler_body start(2) body] .
  show ?thesis
  proof (cases "fst (close_connection (end_reason_of k result) cv1)")
    case None
    then show ?thesis using body close_None_iff [of "end_reason_of k result" cv1]
      by (simp add: serve_connection_def handle_def close_cancelled_def)
  next
    case (Some s)
    then obtain cv2 where close: "close_connection (end_reason_of k result) cv1 = (Some s, cv2)"
      by (cases "close_connection (end_reason_of k result) cv1") auto
    from closed_session [OF fits same close] obtain ended where s: "ps_end_time s = Some ended"
      "ps_end_reason s = Some (end_reason_of k result)" "ps_start_time s \<le> ended"
      "times_ordered (ps_start_time s) (ps_commands s) ended" "list_all (\<lambda>c. ev_cmd c \<noteq> []) (ps_commands s)"
      "session_identity s = (sid, p, protocol_of k, prs, ps_start_time (cv_session cv))"
      "ps_commands s = ps_commands (cv_session cv1)" by blast
    from finished_record [OF s(1,2) reason_known s(3-6) assms(2,3) protocol_known assms(4)] obtain r where r:
      "validated_record e (ps_to_record s) = Some r" "rec_session_id r = sid" "rec_protocol r = protocol_of k"
      "rec_end_reason r = end_reason_of k result" "rec_commands r = ps_commands s" "rec_persona_id r = persona_id prs"
      by blast
    have "model_validate (le_ip_ok e) (le_uuid_ok e) r = Done r"
      using r(1) by (auto simp: validated_record_def model_validate_iff split: outcome.splits)
    moreover have "\<not> close_cancelled k cv"
      using Some body close_None_iff [of "end_reason_of k result" cv1] by (simp add: close_cancelled_def)
    moreover have "lg_queue (serve_connection e now later k cv lg) = schedule_auto_classification later r (lg_queue lg)"
      using close body scheduled_once [OF r(1)] by (simp add: serve_connection_def handle_def)
    ultimately show ?thesis using r s(7) body by auto
  qed
qed

section \<open>The session log\<close>

fun written :: "log_env \<Rightarrow> log_write list \<Rightarrow> session_record outcome list \<Rightarrow> session_record list" where
  "written e ws [] = []"
| "written e ws (t # ts) =
     (case validated_record e t of
        None \<Rightarrow> written e ws ts
      | Some r \<Rightarrow> (if ws = [] \<or> hd ws = Whole then [r] else []) @ written e (drop 1 ws) ts)"

type_synonym log_call = "rat \<times> rat \<times> session_record outcome \<times> str \<times> str"

definition log_all :: "log_env \<Rightarrow> log_call list \<Rightarrow> session_log \<Rightarrow> session_log" where
  "log_all e calls lg =
     fold (\<lambda>(now, later, to_rec, protocol, sid). finalize_and_schedule e now later to_rec protocol sid) calls lg"

definition json_lines :: "log_env \<Rightarrow> bool" where
  "json_lines e \<longleftrightarrow> (\<forall>r. newline \<notin> set (le_json e r) \<and> strip (le_json e r) \<noteq> [])"

lemma split_on_complete: "split_on c (xs @ c # ys) = split_on c xs @ split_on c ys"
  by (induction xs) (auto split: list.split)

lemma file_lines_snoc:
  assumes "complete_text a" "newline \<notin> set l" "strip l \<noteq> []"
  shows "file_lines (a @ l @ [newline]) = file_lines a @ [l]"
proof -
  have l: "split_on newline (l @ [newline]) = [l, []]" using split_on_append [OF assms(2), of "[]"] by simp
  show ?thesis
  proof (cases "a = []")
    case True
    then show ?thesis using l assms(3) by (simp add: file_lines_def)
  next
    case False
    then obtain b where a: "a = b @ [newline]" using assms(1) by (metis append_butlast_last_id complete_text_def)
    show ?thesis unfolding a file_lines_def
      using split_on_complete [of newline b "l @ [newline]"] split_on_complete [of newline b "[]"] l assms(3)
      by simp
  qed
qed

lemma finalize_text:
  "lg_text (finalize_and_schedule e now later to_rec protocol sid lg) =
    lg_text lg @ (case validated_record e to_rec of None \<Rightarrow> []
      | Some r \<Rightarrow> (case lg_writes lg of [] \<Rightarrow> log_line e r | Whole # _ \<Rightarrow> log_line e r
          | Short n # _ \<Rightarrow> take n (log_line e r) | Not_Written # _ \<Rightarrow> []))"
  "lg_writes (finalize_and_schedule e now later to_rec protocol sid lg) =
    (if validated_record e to_rec = None then lg_writes lg else drop 1 (lg_writes lg))"
  by (auto simp: finalize_and_schedule_def log_session_def report_log_failure_def schedule_in_log_def Let_def
      split: list.split log_write.split option.split)

text \<open>C32: The session log reads back: while each write happens as a whole or not at all, the lines an import
  reads from the file are those of the sessions whose write happened, in order.\<close>

theorem log_reads_back:
  assumes "json_lines e" "complete_text (lg_text lg)" "\<forall>w \<in> set (lg_writes lg). w = Whole \<or> w = Not_Written"
  shows "file_lines (lg_text (log_all e calls lg)) =
    file_lines (lg_text lg) @ map (le_json e) (written e (lg_writes lg) (map (fst \<circ> snd \<circ> snd) calls))"
  using assms(2,3)
proof (induction calls arbitrary: lg)
  case Nil
  then show ?case by (simp add: log_all_def)
next
  case (Cons call calls)
  obtain now later to_rec protocol sid where call: "call = (now, later, to_rec, protocol, sid)" by (metis prod_cases5)
  let ?lg = "finalize_and_schedule e now later to_rec protocol sid lg"
  have step: "log_all e (call # calls) lg = log_all e calls ?lg" by (simp add: log_all_def call)
  have line: "newline \<notin> set (le_json e r)" "strip (le_json e r) \<noteq> []" for r using assms(1) by (simp_all add: json_lines_def)
  have grown: "complete_text (lg_text ?lg)"
    "file_lines (lg_text ?lg) = file_lines (lg_text lg) @ (case validated_record e to_rec of None \<Rightarrow> []
       | Some r \<Rightarrow> if lg_writes lg = [] \<or> hd (lg_writes lg) = Whole then [le_json e r] else [])"
    using Cons.prems file_lines_snoc [OF Cons.prems(1) line]
    by (auto simp: finalize_text log_line_def complete_text_def split: option.split list.split log_write.split)
  have "\<forall>w \<in> set (lg_writes ?lg). w = Whole \<or> w = Not_Written"
    using Cons.prems(2) by (auto simp: finalize_text dest: in_set_dropD)
  from Cons.IH [OF grown(1) this] show ?case unfolding step grown(2)
    by (simp add: call finalize_text(2) split: option.split)
qed

text \<open>A write cut short, as on a disk that fills up, raises nothing; the next session's line is appended to
  the stump, and neither session can be read back from the log.\<close>

theorem short_write_joins_lines:
  assumes "json_lines e" "complete_text (lg_text lg)" "lg_writes lg = [Short n]" "n \<le> length (le_json e r1)"
    and "validated_record e t1 = Some r1" "validated_record e t2 = Some r2"
  shows "file_lines (lg_text (log_all e [(a1, b1, t1, p1, s1), (a2, b2, t2, p2, s2)] lg)) =
    file_lines (lg_text lg) @ [take n (le_json e r1) @ le_json e r2]"
proof -
  have "lg_text (log_all e [(a1, b1, t1, p1, s1), (a2, b2, t2, p2, s2)] lg)
      = lg_text lg @ (take n (le_json e r1) @ le_json e r2) @ [newline]"
    using assms(3-6) by (simp add: log_all_def finalize_text log_line_def)
  moreover have "newline \<notin> set (take n (le_json e r1) @ le_json e r2)"
    using assms(1) by (auto simp: json_lines_def dest: in_set_takeD)
  moreover have "strip (take n (le_json e r1) @ le_json e r2) \<noteq> []"
    using assms(1) by (auto simp: json_lines_def strip_eq_Nil_iff)
  ultimately show ?thesis
    using file_lines_snoc [OF assms(2), of "take n (le_json e r1) @ le_json e r2"] by simp
qed

section \<open>Examples\<close>

text \<open>A log environment for examples: every address and id is fine, and a record's line is its id in quotes.\<close>

definition example_log_env :: log_env where
  "example_log_env = \<lparr>le_ip_ok = (\<lambda>_. True), le_uuid_ok = (\<lambda>_. True),
     le_json = (\<lambda>r. dquote # filter (\<lambda>c. c \<noteq> newline) (rec_session_id r) @ [dquote])\<rparr>"

definition example_log :: "log_write list \<Rightarrow> session_log" where
  "example_log writes = \<lparr>lg_text = [], lg_writes = writes, lg_failures = 0, lg_last_logged = None, lg_reports = [],
     lg_queue = \<lparr>q_open = True, q_maxsize = 5, q_items = [], q_unfinished = 0, q_workers = [Idle], q_stage = Not_Stopping,
       q_drops = (\<lambda>_. \<lparr>dropped_count = 0, last_logged = None\<rparr>), q_warnings = [], q_slow_drains = 0, q_state = example_state None []\<rparr>\<rparr>"

lemma example_json_lines: "json_lines example_log_env"
  by (simp add: json_lines_def example_log_env_def strip_eq_Nil_iff is_space_def)

definition example_call :: "str \<Rightarrow> log_call" where
  "example_call sid = (0, 0, ps_to_record (ps_finalize 9 (lit ''timeout'')
     (new_protocol_session sid 5 NoPeer (lit ''ftp'') generic_linux)), lit ''FTP'', sid)"

theorem connection_recorded_witness:
  "let cv = new_conversation (lit ''s'') (TuplePeer [lit ''1.2.3.4''] (Some 40000)) (protocol_of Ftp_Handler) generic_linux
       (new_connection [Arrives (lit ''USER bob'' @ [newline]), Breaks] [] 5 [1, 2]);
     served = serve_connection example_log_env 0 0 Ftp_Handler cv (example_log [Not_Written])
   in if close_cancelled Ftp_Handler cv then served = example_log [Not_Written]
      else \<exists>r. model_validate (le_ip_ok example_log_env) (le_uuid_ok example_log_env) r = Done r
        \<and> rec_session_id r = lit ''s'' \<and> rec_protocol r = protocol_of Ftp_Handler \<and> rec_persona_id r = persona_id generic_linux
        \<and> rec_end_reason r = end_reason_of Ftp_Handler (fst (handler_body Ftp_Handler cv))
        \<and> rec_commands r = ps_commands (cv_session (snd (handler_body Ftp_Handler cv)))
        \<and> lg_queue served = schedule_auto_classification 0 r (lg_queue (example_log [Not_Written]))"
  unfolding Let_def
proof (rule connection_recorded)
  show "peer_ok example_log_env (TuplePeer [lit ''1.2.3.4''] (Some 40000))"
    by (simp add: peer_ok_def example_log_env_def peer_ip_and_port_def)
qed (simp_all add: example_log_env_def new_connection_def generic_linux_def)

theorem log_reads_back_witness:
  "file_lines (lg_text (log_all example_log_env [example_call (lit ''a''), example_call (lit ''b''), example_call (lit ''c'')]
       (example_log [Whole, Not_Written]))) =
     file_lines (lg_text (example_log [Whole, Not_Written])) @ map (le_json example_log_env)
       (written example_log_env (lg_writes (example_log [Whole, Not_Written]))
         (map (fst \<circ> snd \<circ> snd) [example_call (lit ''a''), example_call (lit ''b''), example_call (lit ''c'')]))
   \<and> length (written example_log_env [Whole, Not_Written]
         (map (fst \<circ> snd \<circ> snd) [example_call (lit ''a''), example_call (lit ''b''), example_call (lit ''c'')])) = 2"
proof (rule conjI)
  show "length (written example_log_env [Whole, Not_Written]
         (map (fst \<circ> snd \<circ> snd) [example_call (lit ''a''), example_call (lit ''b''), example_call (lit ''c'')])) = 2"
    by code_simp
qed (rule log_reads_back, simp_all add: example_json_lines, simp_all add: example_log_def complete_text_def)

theorem short_write_joins_lines_witness:
  "\<exists>r1 r2. file_lines (lg_text (log_all example_log_env [example_call (lit ''a''), example_call (lit ''b'')] (example_log [Short 2]))) =
     file_lines (lg_text (example_log [Short 2])) @ [take 2 (le_json example_log_env r1) @ le_json example_log_env r2]"
proof -
  have valid: "\<exists>r. validated_record example_log_env (fst (snd (snd (example_call sid)))) = Some r \<and> rec_session_id r = sid" for sid
  proof -
    obtain r where r: "fst (snd (snd (example_call sid))) = Done r" "rec_session_id r = sid"
      "fields_valid (\<lambda>_. True) (\<lambda>_. True) r" "record_consistent r"
      by (simp add: example_call_def ps_to_record_def ps_finalize_def new_protocol_session_def fields_valid_def
          record_consistent_def peer_ip_and_port_def protocols_def end_reasons_def times_ordered_def generic_linux_def Let_def)
    then have "model_validate (\<lambda>_. True) (\<lambda>_. True) r = Done r" by (simp add: model_validate_iff)
    then show ?thesis using r(1,2) by (simp add: validated_record_def example_log_env_def)
  qed
  obtain r1 r2 where r: "validated_record example_log_env (fst (snd (snd (example_call (lit ''a''))))) = Some r1" "rec_session_id r1 = lit ''a''"
    "validated_record example_log_env (fst (snd (snd (example_call (lit ''b''))))) = Some r2"
    using valid by metis
  have "2 \<le> length (le_json example_log_env r1)" by (simp add: example_log_env_def)
  from short_write_joins_lines [OF example_json_lines _ _ this r(1,3)] show ?thesis
    unfolding example_call_def by (auto simp: example_log_def complete_text_def)
qed

end
