(* ===== verification/PersonaConfig.thy ===== *)
theory PersonaConfig
  imports AlertMessages Regex
begin

text \<open>
  A persona saved on the dashboard (\<open>DecoyFile\<close> and \<open>PersonaConfigInput\<close> of \<open>classifier/storage/models.py\<close>)
  and the live persona made of it (\<open>honeypot/network/config.py\<close>). The texts of validation errors are not
  modelled: a validator is the predicate that it does not raise.
\<close>

section \<open>The saved form\<close>

record decoy_file =
  df_path :: str
  df_content :: str

record persona_row = persona_config +
  pr_id :: str
  pr_name :: str
  pr_os_banner :: str
  pr_ssh_banner :: str
  pr_hostname :: str
  pr_internal_notes :: str
  pr_fake_users :: "str list"
  pr_running_processes :: "str list"
  pr_http_server_type :: str
  pr_decoy_files :: "decoy_file list"

definition PERSONA_HTTP_SERVER_TYPES :: "str list" where
  "PERSONA_HTTP_SERVER_TYPES = map lit [''nginx'', ''apache'', ''busybox'', ''none'']"

definition PERSONA_ALERT_ROUTING_LEVELS :: "str list" where
  "PERSONA_ALERT_ROUTING_LEVELS = map lit [''none'', ''email'', ''slack'', ''both'']"

definition RISK_LEVELS_ORDERED :: "str list" where
  "RISK_LEVELS_ORDERED = map lit [''critical'', ''high'', ''medium'', ''low'']"

definition decoy_file_ok :: "decoy_file \<Rightarrow> bool" where
  "decoy_file_ok f \<longleftrightarrow>
     1 \<le> length (df_path f) \<and> length (df_path f) \<le> 256 \<and> length (df_content f) \<le> 65536
     \<and> startswith (df_path f) [slash] \<and> [dot, dot] \<notin> set (path_parts (pure_path (df_path f)))"

definition list_items_ok :: "str list \<Rightarrow> bool" where
  "list_items_ok items \<longleftrightarrow> length items \<le> 100 \<and> list_all (\<lambda>i. strip i \<noteq> [] \<and> length i \<le> 128) items"

text \<open>\<open>_EMAIL_RE.match\<close>: the closing \<open>$\<close> also matches before a final line feed.\<close>

definition at_end :: re where
  "at_end = Alt (NotAhead (Cls (\<lambda>_. True))) (Cat (Cls (\<lambda>c. c = newline)) (NotAhead (Cls (\<lambda>_. True))))"

definition email_local :: "nat \<Rightarrow> bool" where
  "email_local c \<longleftrightarrow> is_ascii_alnum c \<or> c \<in> set (lit ''.!#$%&'' @ [squote] @ lit ''*+/=?^_`{|}~-'')"

definition email_label :: re where
  "email_label = some (Cls (\<lambda>c. is_ascii_alnum c \<or> c = dash))"

definition email_re :: re where
  "email_re = seq [AtStart, some (Cls email_local), Cls (\<lambda>c. c = at_sign), email_label,
     some (Cat (Cls (\<lambda>c. c = dot)) email_label), at_end]"

definition email_ok :: "str \<Rightarrow> bool" where
  "email_ok s \<longleftrightarrow> re_run email_re (\<lambda>_ _. True) [] s"

text \<open>\<open>_is_slack_webhook_url\<close>: a port is absent or it is an error or not None.\<close>

definition port_text :: "str \<Rightarrow> str" where
  "port_text netloc =
     (let hostinfo = after_last at_sign netloc;
          rest = (case partition_at lbracket hostinfo of
             (_, Some bracketed) \<Rightarrow> (case partition_at rbracket bracketed of (_, None) \<Rightarrow> [] | (_, Some r) \<Rightarrow> r)
           | (_, None) \<Rightarrow> hostinfo)
      in case partition_at colon rest of (_, None) \<Rightarrow> [] | (_, Some port) \<Rightarrow> port)"

definition is_slack_webhook_url :: "env \<Rightarrow> str \<Rightarrow> bool" where
  "is_slack_webhook_url e url \<longleftrightarrow>
     (case urlsplit_hostname e url of
        Raised x \<Rightarrow> False
      | Done host \<Rightarrow>
          let netloc = netloc_of (drop_scheme (clean_url url)) in
          url_scheme url = lit ''https'' \<and> host = Some (lit ''hooks.slack.com'')
          \<and> at_sign \<notin> set netloc \<and> port_text netloc = [])"

text \<open>\<open>PersonaConfigInput\<close>: the field bounds, the field validators, the validator over the whole.\<close>

definition fields_in_bounds :: "persona_row \<Rightarrow> bool" where
  "fields_in_bounds r \<longleftrightarrow>
     1 \<le> length (pr_name r) \<and> length (pr_name r) \<le> 100 \<and> length (pr_os_banner r) \<le> 256
     \<and> length (pr_ssh_banner r) \<le> 256 \<and> length (pr_hostname r) \<le> 253 \<and> length (pr_internal_notes r) \<le> 4000
     \<and> length (pr_decoy_files r) \<le> 50 \<and> opt_all (\<lambda>s. length s \<le> 254) (pc_contact_email r)
     \<and> opt_all (\<lambda>s. length s \<le> 512) (pc_slack_webhook r)"

definition routing_complete :: "persona_row \<Rightarrow> bool" where
  "routing_complete r \<longleftrightarrow>
     (pc_routing r \<in> {lit ''email'', lit ''both''} \<longrightarrow> given (pc_contact_email r))
     \<and> (pc_routing r \<in> {lit ''slack'', lit ''both''} \<longrightarrow> given (pc_slack_webhook r))"

definition persona_input_ok :: "env \<Rightarrow> persona_row \<Rightarrow> bool" where
  "persona_input_ok e r \<longleftrightarrow>
     fields_in_bounds r \<and> list_items_ok (pr_fake_users r) \<and> list_items_ok (pr_running_processes r)
     \<and> list_all decoy_file_ok (pr_decoy_files r) \<and> distinct (map df_path (pr_decoy_files r))
     \<and> pr_http_server_type r \<in> set PERSONA_HTTP_SERVER_TYPES \<and> pc_routing r \<in> set PERSONA_ALERT_ROUTING_LEVELS
     \<and> opt_all (\<lambda>l. l \<in> set RISK_LEVELS_ORDERED) (pc_min_risk_level r)
     \<and> opt_all email_ok (pc_contact_email r) \<and> opt_all (is_slack_webhook_url e) (pc_slack_webhook r)
     \<and> routing_complete r"

section \<open>The live persona\<close>

definition DB_PERSONA_USERNAME :: str where
  "DB_PERSONA_USERNAME = lit ''root''"

definition DB_PERSONA_HOME_DIR :: str where
  "DB_PERSONA_HOME_DIR = lit ''/home/admin''"

definition STARTER_BASHRC :: str where
  "STARTER_BASHRC =
     lit ''# ~/.bashrc: executed by bash(1) for non-login shells.\<newline>''
     @ lit ''case $- in\<newline>    *i*) ;;\<newline>      *) return;;\<newline>esac\<newline>''
     @ lit ''HISTCONTROL=ignoreboth\<newline>HISTSIZE=1000\<newline>HISTFILESIZE=2000\<newline>''
     @ lit ''alias ll='' @ [squote] @ lit ''ls -alF'' @ [squote, newline] @ lit ''alias la='' @ [squote] @ lit ''ls -A'' @ [squote, newline]"

definition STARTER_PROFILE :: str where
  "STARTER_PROFILE =
     lit ''# ~/.profile: executed by the command interpreter for login shells.\<newline>''
     @ lit ''if [ -n '' @ [dquote] @ lit ''$BASH_VERSION'' @ [dquote] @ lit '' ]; then\<newline>''
     @ lit ''    if [ -f '' @ [dquote] @ lit ''$HOME/.bashrc'' @ [dquote] @ lit '' ]; then\<newline>        . ''
     @ [dquote] @ lit ''$HOME/.bashrc'' @ [dquote] @ lit ''\<newline>    fi\<newline>fi\<newline>''"

definition passwd_line :: "nat \<Rightarrow> str \<Rightarrow> str" where
  "passwd_line i user =
     user @ lit '':x:'' @ str_of_nat (1000 + i) @ lit '':'' @ str_of_nat (1000 + i) @ lit '':'' @ user
     @ lit '':/home/'' @ user @ lit '':/bin/bash\<newline>''"

fun passwd_lines :: "nat \<Rightarrow> str list \<Rightarrow> str" where
  "passwd_lines i [] = []"
| "passwd_lines i (user # users) = passwd_line i user @ passwd_lines (i + 1) users"

definition starter_users :: "str \<Rightarrow> str list \<Rightarrow> str list" where
  "starter_users home users =
     filter (\<lambda>u. u \<noteq> [] \<and> u \<noteq> lit ''root'') (unique_ordered (users @ [path_name (pure_path home)]))"

definition starter_files :: "str \<Rightarrow> str \<Rightarrow> str list \<Rightarrow> fake_file_rec list" where
  "starter_files host home users =
     [fake_file (home @ lit ''/.bashrc'') STARTER_BASHRC,
      fake_file (home @ lit ''/.profile'') STARTER_PROFILE,
      fake_file (home @ lit ''/.bash_history'') [],
      fake_file (lit ''/etc/hostname'') (host @ [newline]),
      fake_file (lit ''/etc/hosts'') (lit ''127.0.0.1 localhost\<newline>127.0.1.1 '' @ host @ [newline]),
      fake_file (lit ''/etc/passwd'') (lit ''root:x:0:0:root:/root:/bin/bash\<newline>'' @ passwd_lines 0 (starter_users home users))]"

text \<open>The loop over the decoy files, on the paths seen and the files so far.\<close>

fun add_decoys :: "str list \<Rightarrow> decoy_file list \<Rightarrow> (str \<times> str) list \<Rightarrow> (str \<times> str) list outcome" where
  "add_decoys seen [] d = Done d"
| "add_decoys seen (f # fs) d =
     (if df_path f \<in> set seen then Raised (ValueError (lit ''Duplicate decoy file path: '' @ df_path f))
      else add_decoys (df_path f # seen) fs (dict_put (df_path f) (df_content f) d))"

definition row_hostname :: "persona_row \<Rightarrow> str" where
  "row_hostname r = (if pr_hostname r \<noteq> [] then pr_hostname r else pr_id r)"

definition starting_files :: "persona_row \<Rightarrow> fake_file_rec list" where
  "starting_files r =
     (case dict_get PRESET_PERSONAS (pr_id r) of
        Some preset \<Rightarrow> fake_filesystem preset
      | None \<Rightarrow> starter_files (row_hostname r) DB_PERSONA_HOME_DIR (pr_fake_users r))"

definition live_persona :: "persona_row \<Rightarrow> (str \<times> str) list \<Rightarrow> persona" where
  "live_persona r d =
     (let preset = dict_get PRESET_PERSONAS (pr_id r); host = row_hostname r
      in \<lparr>persona_id = pr_id r,
          os_banner = (if pr_os_banner r \<noteq> [] then pr_os_banner r else lit ''Linux '' @ host @ lit '' 5.15.0-91-generic x86_64''),
          ssh_banner = (if pr_ssh_banner r \<noteq> [] then pr_ssh_banner r else lit ''SSH-2.0-OpenSSH_8.9p1 Ubuntu-3ubuntu0.6''),
          hostname = host,
          uname_output = lit ''Linux '' @ host @ lit '' 5.15.0-91-generic #101-Ubuntu SMP x86_64 GNU/Linux'',
          username = (case preset of None \<Rightarrow> DB_PERSONA_USERNAME | Some p \<Rightarrow> username p),
          home_dir = (case preset of None \<Rightarrow> DB_PERSONA_HOME_DIR | Some p \<Rightarrow> home_dir p),
          fake_filesystem = map (\<lambda>(path, content). fake_file path content) d,
          running_processes = pr_running_processes r,
          http_server_type = pr_http_server_type r,
          fake_users = pr_fake_users r,
          suid_binaries = (case preset of None \<Rightarrow> [] | Some p \<Rightarrow> suid_binaries p),
          open_ports_visible = (case preset of None \<Rightarrow> [] | Some p \<Rightarrow> open_ports_visible p),
          fake_credentials = (case preset of None \<Rightarrow> [] | Some p \<Rightarrow> fake_credentials p)\<rparr>)"

text \<open>\<open>_persona_from_config_record\<close>.\<close>

definition persona_from_config_record :: "persona_row \<Rightarrow> persona outcome" where
  "persona_from_config_record r =
     (case add_decoys [] (pr_decoy_files r) (dict_of (map (\<lambda>f. (ff_path f, ff_content f)) (starting_files r))) of
        Raised x \<Rightarrow> Raised x
      | Done d \<Rightarrow> Done (live_persona r d))"

end
