(* ===== verification/PersonaCache.thy ===== *)
theory PersonaCache
  imports PersonaConfig
begin

text \<open>
  \<open>honeypot/network/config.py\<close>: the settings read from the environment, and the cache behind
  \<open>get_active_persona\<close>. The database is what its lookup gives each time it is asked; the background
  thread is one step of its own, taken at any time after it was started.
\<close>

section \<open>Settings\<close>

text \<open>\<open>int(raw)\<close> refuses more than 4,300 digits, like every other text that is no integer.\<close>

definition int_from_env :: "str \<Rightarrow> str option \<Rightarrow> int \<Rightarrow> int outcome" where
  "int_from_env name raw dflt =
     (case raw of
        None \<Rightarrow> Done dflt
      | Some t \<Rightarrow>
          if strip t = [] then Done dflt
          else (case (if 4300 < length (filter is_decimal t) then None else int_of_str t) of
                  Some n \<Rightarrow> Done n
                | None \<Rightarrow> Raised (ValueError (name @ lit '' must be an integer''))))"

definition checked_int :: "(int \<Rightarrow> bool) \<Rightarrow> str \<Rightarrow> int outcome \<Rightarrow> int outcome" where
  "checked_int P message result =
     (case result of Raised x \<Rightarrow> Raised x | Done n \<Rightarrow> if P n then Done n else Raised (ValueError message))"

definition positive_int_from_env :: "str \<Rightarrow> str option \<Rightarrow> int \<Rightarrow> int outcome" where
  "positive_int_from_env name raw dflt =
     checked_int (\<lambda>n. 0 < n) (name @ lit '' must be positive'') (int_from_env name raw dflt)"

definition port_from_env :: "str \<Rightarrow> str option \<Rightarrow> int \<Rightarrow> int outcome" where
  "port_from_env name raw dflt =
     checked_int (\<lambda>n. 1 \<le> n \<and> n \<le> 65535) (name @ lit '' must be between 1 and 65535'') (int_from_env name raw dflt)"

definition optional_port_from_env :: "str \<Rightarrow> str option \<Rightarrow> int \<Rightarrow> int outcome" where
  "optional_port_from_env name raw dflt =
     checked_int (\<lambda>n. n = 0 \<or> (1 \<le> n \<and> n \<le> 65535)) (name @ lit '' must be 0 or between 1 and 65535'')
       (int_from_env name raw dflt)"

section \<open>Looking up the persona\<close>

datatype persona_lookup = No_Database | No_Row | Saved persona_row | Lookup_Failed

definition DEFAULT_PERSONA_ID :: str where
  "DEFAULT_PERSONA_ID = lit ''generic_linux''"

definition PERSONA_CACHE_TTL_SECONDS :: rat where
  "PERSONA_CACHE_TTL_SECONDS = 5"

text \<open>\<open>_load_persona_from_db\<close>: \<open>Inl\<close> when the lookup itself failed.\<close>

definition load_persona_from_db :: "persona_lookup \<Rightarrow> unit + persona option" where
  "load_persona_from_db lookup =
     (case lookup of
        Lookup_Failed \<Rightarrow> Inl ()
      | Saved r \<Rightarrow>
          Inr (case persona_from_config_record r of
                 Raised x \<Rightarrow> None
               | Done p \<Rightarrow> (case validate_persona p of Raised x \<Rightarrow> None | Done u \<Rightarrow> Some p))
      | _ \<Rightarrow> Inr None)"

section \<open>The cache\<close>

record persona_cache =
  ch_persona :: "persona option"
  ch_id :: "str option"
  ch_expires :: "rat option"
  ch_refreshing :: "str option"

definition clear_active_persona_cache :: "persona_cache \<Rightarrow> persona_cache" where
  "clear_active_persona_cache c = c\<lparr>ch_persona := None, ch_id := None, ch_expires := None\<rparr>"

definition preset_persona :: "str \<Rightarrow> persona outcome" where
  "preset_persona pid =
     (case get_persona pid of
        Raised x \<Rightarrow> Raised x
      | Done p \<Rightarrow> (case validate_persona p of Raised x \<Rightarrow> Raised x | Done u \<Rightarrow> Done p))"

text \<open>\<open>_refresh_active_persona\<close>; \<open>now\<close> is the monotonic clock after the load.\<close>

definition refresh_active_persona :: "str \<Rightarrow> persona_lookup \<Rightarrow> rat \<Rightarrow> persona_cache \<Rightarrow> persona outcome \<times> persona_cache" where
  "refresh_active_persona pid lookup now c =
     (let found = (case load_persona_from_db lookup of
                     Inl u \<Rightarrow> (if ch_id c = Some pid then ch_persona c else None)
                   | Inr p \<Rightarrow> p)
      in case (case found of Some p \<Rightarrow> Done p | None \<Rightarrow> preset_persona pid) of
           Raised x \<Rightarrow> (Raised x, c)
         | Done p \<Rightarrow> (Done p, c\<lparr>ch_persona := Some p, ch_id := Some pid, ch_expires := Some (now + PERSONA_CACHE_TTL_SECONDS)\<rparr>))"

definition start_persona_refresh :: "str \<Rightarrow> persona_cache \<Rightarrow> persona_cache" where
  "start_persona_refresh pid c = (if ch_refreshing c = None then c\<lparr>ch_refreshing := Some pid\<rparr> else c)"

text \<open>\<open>get_active_persona\<close> at the time \<open>now\<close>; \<open>lookup\<close> and \<open>later\<close> matter only when it loads.\<close>

definition get_active_persona :: "str \<Rightarrow> rat \<Rightarrow> persona_lookup \<Rightarrow> rat \<Rightarrow> persona_cache \<Rightarrow> persona outcome \<times> persona_cache" where
  "get_active_persona pid now lookup later c =
     (case ch_persona c of
        Some p \<Rightarrow>
          (if ch_id c = Some pid
           then (Done p, case ch_expires c of
                           Some t \<Rightarrow> if t \<le> now then start_persona_refresh pid c else c
                         | None \<Rightarrow> c)
           else refresh_active_persona pid lookup later c)
      | None \<Rightarrow> refresh_active_persona pid lookup later c)"

text \<open>The thread: \<open>run\<close> of \<open>_start_persona_refresh\<close>.\<close>

definition run_persona_refresh :: "persona_lookup \<Rightarrow> rat \<Rightarrow> persona_cache \<Rightarrow> persona_cache" where
  "run_persona_refresh lookup now c =
     (case ch_refreshing c of
        None \<Rightarrow> c
      | Some pid \<Rightarrow> (snd (refresh_active_persona pid lookup now c))\<lparr>ch_refreshing := None\<rparr>)"

datatype cache_event =
    Asked rat persona_lookup rat
  | Refreshed persona_lookup rat

text \<open>What the callers were given, and the cache after.\<close>

fun cache_run :: "str \<Rightarrow> cache_event list \<Rightarrow> persona_cache \<Rightarrow> persona outcome list \<times> persona_cache" where
  "cache_run pid [] c = ([], c)"
| "cache_run pid (Asked now lookup later # events) c =
     (case get_active_persona pid now lookup later c of
        (p, c') \<Rightarrow> (case cache_run pid events c' of (ps', c'') \<Rightarrow> (p # ps', c'')))"
| "cache_run pid (Refreshed lookup now # events) c = cache_run pid events (run_persona_refresh lookup now c)"

end
