(* ===== verification/PersonaProps.thy ===== *)
theory PersonaProps
  imports PersonaCache
begin

text \<open>
  A persona the dashboard accepts makes a live persona that passes \<open>validate_persona\<close>, with its decoy
  files over the starting files; an outage of the database never changes the persona in use.
\<close>

section \<open>From the saved form to the live persona\<close>

lemma add_decoys_Done:
  assumes "distinct (map df_path fs)" "set (map df_path fs) \<inter> set seen = {}"
  shows "add_decoys seen fs d = Done (fold (\<lambda>f. dict_put (df_path f) (df_content f)) fs d)"
  using assms by (induction fs arbitrary: seen d) auto

lemma add_decoys_keys:
  "set (dict_keys (fold (\<lambda>f. dict_put (df_path f) (df_content f)) fs d)) = df_path ` set fs \<union> set (dict_keys d)"
  by (induction fs arbitrary: d) auto

lemma add_decoys_distinct:
  "distinct (dict_keys d) \<Longrightarrow> distinct (dict_keys (fold (\<lambda>f. dict_put (df_path f) (df_content f)) fs d))"
  by (induction fs arbitrary: d) auto

lemma add_decoys_get:
  assumes "distinct (map df_path fs)"
  shows "dict_get (fold (\<lambda>f. dict_put (df_path f) (df_content f)) fs d) path =
    (case find (\<lambda>f. df_path f = path) fs of Some f \<Rightarrow> Some (df_content f) | None \<Rightarrow> dict_get d path)"
  using assms
proof (induction fs arbitrary: d)
  case (Cons f fs)
  have "df_path f = path \<Longrightarrow> find (\<lambda>g. df_path g = path) fs = None"
    using Cons.prems by (auto simp: find_None_iff) (metis image_eqI)
  then show ?case using Cons by (auto split: option.split)
qed simp

lemma fold_put_self: "distinct (dict_keys (d @ d')) \<Longrightarrow> fold (\<lambda>(k, v). dict_put k v) d' d = d @ d'"
proof (induction d' arbitrary: d)
  case (Cons kv d')
  obtain k v where kv: "kv = (k, v)" by force
  have "k \<notin> fst ` set d" using Cons.prems kv by (simp add: dict_keys_def)
  then have "dict_put k v d = d @ [(k, v)]" by (induction d) (auto simp: dict_put_def)
  then show ?case using Cons.IH [of "d @ [(k, v)]"] Cons.prems kv by (simp add: dict_keys_def)
qed simp

lemma dict_of_self: "distinct (dict_keys d) \<Longrightarrow> dict_of d = d"
  using fold_put_self [of "[]" d] by (simp add: dict_of_def)

definition start_dict :: "persona_row \<Rightarrow> (str \<times> str) list" where
  "start_dict r = dict_of (map (\<lambda>f. (ff_path f, ff_content f)) (starting_files r))"

definition decoys_on_top :: "persona_row \<Rightarrow> (str \<times> str) list" where
  "decoys_on_top r = fold (\<lambda>f. dict_put (df_path f) (df_content f)) (pr_decoy_files r) (start_dict r)"

lemma from_record_Done:
  "distinct (map df_path (pr_decoy_files r)) \<Longrightarrow> persona_from_config_record r = Done (live_persona r (decoys_on_top r))"
  by (simp add: persona_from_config_record_def decoys_on_top_def start_dict_def add_decoys_Done)

lemma home_files:
  "list_all (\<lambda>(k, p). list_ex (\<lambda>f. is_relative_to (pure_path (ff_path f)) (pure_path (home_dir p))) (fake_filesystem p)
     \<and> list_all (\<lambda>f. safe_decoy_path (ff_path f)) (fake_filesystem p)
     \<and> username p \<noteq> [] \<and> home_dir p \<noteq> [] \<and> startswith (home_dir p) [slash]
     \<and> list_all (\<lambda>c. cred_username c \<noteq> [] \<and> cred_password c \<noteq> []) (fake_credentials p)
     \<and> list_all (\<lambda>port. 1 \<le> port \<and> port \<le> 65535) (open_ports_visible p)) PRESET_PERSONAS"
  by code_simp

lemma dict_get_mem: "dict_get d k = Some v \<Longrightarrow> (k, v) \<in> set d"
  unfolding dict_get_def by (rule map_of_SomeD)

lemma preset_facts:
  assumes "dict_get PRESET_PERSONAS k = Some p"
  shows "\<exists>f \<in> set (fake_filesystem p). is_relative_to (pure_path (ff_path f)) (pure_path (home_dir p))"
    and "\<forall>f \<in> set (fake_filesystem p). safe_decoy_path (ff_path f)"
    and "username p \<noteq> []" "home_dir p \<noteq> []" "startswith (home_dir p) [slash]"
    and "\<forall>c \<in> set (fake_credentials p). cred_username c \<noteq> [] \<and> cred_password c \<noteq> []"
    and "\<forall>port \<in> set (open_ports_visible p). 1 \<le> port \<and> port \<le> 65535"
  using home_files dict_get_mem [OF assms] by (auto simp: list_all_iff list_ex_iff)

definition home_of :: "persona_row \<Rightarrow> str" where
  "home_of r = (case dict_get PRESET_PERSONAS (pr_id r) of None \<Rightarrow> DB_PERSONA_HOME_DIR | Some p \<Rightarrow> home_dir p)"

lemma starter_safe: "list_all (\<lambda>f. safe_decoy_path (ff_path f)) (starter_files host DB_PERSONA_HOME_DIR users)"
  "is_relative_to (pure_path (DB_PERSONA_HOME_DIR @ lit ''/.bashrc'')) (pure_path DB_PERSONA_HOME_DIR)"
proof -
  have "list_all safe_decoy_path (map lit [''/home/admin/.bashrc'', ''/home/admin/.profile'', ''/home/admin/.bash_history'',
      ''/etc/hostname'', ''/etc/hosts'', ''/etc/passwd''])"
    by code_simp
  then show "list_all (\<lambda>f. safe_decoy_path (ff_path f)) (starter_files host DB_PERSONA_HOME_DIR users)"
    by (simp add: starter_files_def fake_file_def DB_PERSONA_HOME_DIR_def lit_append [symmetric])
  show "is_relative_to (pure_path (DB_PERSONA_HOME_DIR @ lit ''/.bashrc'')) (pure_path DB_PERSONA_HOME_DIR)"
    by code_simp
qed

lemma starting_safe:
  "f \<in> set (starting_files r) \<Longrightarrow> safe_decoy_path (ff_path f)"
  "\<exists>f \<in> set (starting_files r). is_relative_to (pure_path (ff_path f)) (pure_path (home_of r))"
proof -
  have *: "(\<forall>f \<in> set (starting_files r). safe_decoy_path (ff_path f))
      \<and> (\<exists>f \<in> set (starting_files r). is_relative_to (pure_path (ff_path f)) (pure_path (home_of r)))"
  proof (cases "dict_get PRESET_PERSONAS (pr_id r)")
    case None
    then show ?thesis using starter_safe
      by (auto simp: starting_files_def home_of_def list_all_iff) (simp add: starter_files_def fake_file_def)
  next
    case (Some p)
    then show ?thesis using preset_facts(1,2) [OF Some] by (simp add: starting_files_def home_of_def)
  qed
  then show "f \<in> set (starting_files r) \<Longrightarrow> safe_decoy_path (ff_path f)"
    "\<exists>f \<in> set (starting_files r). is_relative_to (pure_path (ff_path f)) (pure_path (home_of r))" by auto
qed

lemma live_files: "ff_path ` set (fake_filesystem (live_persona r d)) = set (dict_keys d)"
  "map ff_path (fake_filesystem (live_persona r d)) = dict_keys d"
  by (force simp: live_persona_def Let_def fake_file_def dict_keys_def, simp add: live_persona_def Let_def fake_file_def dict_keys_def case_prod_beta)

lemma saved_persona_live:
  assumes "persona_input_ok e r" "pr_id r \<noteq> []"
  shows "\<exists>p. persona_from_config_record r = Done p \<and> validate_persona p = Done ()
    \<and> persona_id p = pr_id r \<and> http_server_type p = pr_http_server_type r
    \<and> (\<forall>path. dict_get (file_map p) path =
         (case find (\<lambda>f. df_path f = path) (pr_decoy_files r) of
            Some f \<Rightarrow> Some (df_content f)
          | None \<Rightarrow> dict_get (start_dict r) path))"
proof -
  have decoys: "distinct (map df_path (pr_decoy_files r))" "list_all decoy_file_ok (pr_decoy_files r)"
    using assms(1) by (simp_all add: persona_input_ok_def)
  let ?d = "decoys_on_top r" let ?p = "live_persona r (decoys_on_top r)"
  have keys: "set (dict_keys ?d) = df_path ` set (pr_decoy_files r) \<union> ff_path ` set (starting_files r)"
    by (simp add: decoys_on_top_def start_dict_def add_decoys_keys dict_of_keys image_image)
  have distinct: "distinct (dict_keys ?d)"
    by (simp add: decoys_on_top_def start_dict_def add_decoys_distinct dict_of_distinct)
  have "path \<in> set (dict_keys ?d) \<Longrightarrow> safe_decoy_path path" for path
    using keys decoys(2) starting_safe(1) [of _ r] by (auto simp: list_all_iff decoy_file_ok_def safe_decoy_path_def)
  then have files: "files_ok (fake_filesystem ?p)"
    using distinct live_files [of r ?d] by (auto simp: files_ok_def list_all_iff)
  have "home_dir ?p = home_of r" by (simp add: live_persona_def home_of_def Let_def)
  moreover have "\<exists>path \<in> set (dict_keys ?d). is_relative_to (pure_path path) (pure_path (home_of r))"
    using keys starting_safe(2) [of r] by auto
  ultimately have home: "\<exists>f \<in> set (fake_filesystem ?p). is_relative_to (pure_path (ff_path f)) (pure_path (home_dir ?p))"
    using live_files(1) [of r ?d] by (metis (no_types, lifting) imageE)
  have host: "row_hostname r \<noteq> []" using assms(2) by (simp add: row_hostname_def)
  have parts: "[] \<notin> set [persona_id ?p, os_banner ?p, ssh_banner ?p, hostname ?p, uname_output ?p, username ?p, home_dir ?p]"
    "startswith (home_dir ?p) [slash]" "\<forall>c \<in> set (fake_credentials ?p). cred_username c \<noteq> [] \<and> cred_password c \<noteq> []"
    "\<forall>port \<in> set (open_ports_visible ?p). 1 \<le> port \<and> port \<le> 65535"
    using host assms(2) preset_facts(3-7) [of "pr_id r"]
    by (cases "dict_get PRESET_PERSONAS (pr_id r)";
        simp add: live_persona_def Let_def DB_PERSONA_USERNAME_def DB_PERSONA_HOME_DIR_def startswith_def lit_Cons)+
  have "persona_ok ?p" unfolding persona_ok_def by (intro conjI parts files home)
  then have "validate_persona ?p = Done ()" by (simp add: validate_persona_iff)
  moreover have "dict_get (file_map ?p) path = (case find (\<lambda>f. df_path f = path) (pr_decoy_files r) of
      Some f \<Rightarrow> Some (df_content f) | None \<Rightarrow> dict_get (start_dict r) path)" for path
    using add_decoys_get [OF decoys(1), of "start_dict r" path] dict_of_self [OF distinct] by (simp add: decoys_on_top_def [symmetric] file_map_def live_persona_def Let_def fake_file_def comp_def case_prod_beta)
  ultimately show ?thesis
    using from_record_Done [OF decoys(1)] by (simp add: live_persona_def Let_def)
qed

text \<open>C11: Every persona configuration the dashboard accepts makes a live persona that passes
  \<open>validate_persona\<close>, so a saved persona is never silently replaced by a preset. The decoy files it shows are the
  saved ones, with their contents, and the starting files they do not replace.\<close>

theorem saved_persona_goes_live:
  assumes "persona_input_ok e r" "pr_id r \<noteq> []"
  shows "\<exists>p. persona_from_config_record r = Done p \<and> validate_persona p = Done ()
    \<and> persona_id p = pr_id r \<and> http_server_type p = pr_http_server_type r
    \<and> (\<forall>path. dict_get (file_map p) path =
         (case find (\<lambda>f. df_path f = path) (pr_decoy_files r) of
            Some f \<Rightarrow> Some (df_content f)
          | None \<Rightarrow> dict_get (start_dict r) path))"
  using assms by (rule saved_persona_live)

section \<open>The cache\<close>

lemma cached_get:
  assumes "ch_persona c = Some p" "ch_id c = Some pid"
  shows "fst (get_active_persona pid now lookup later c) = Done p"
    and "ch_persona (snd (get_active_persona pid now lookup later c)) = Some p"
    and "ch_id (snd (get_active_persona pid now lookup later c)) = Some pid"
    and "ch_refreshing (snd (get_active_persona pid now lookup later c)) \<in> {ch_refreshing c, Some pid}"
  using assms by (auto simp: get_active_persona_def start_persona_refresh_def split: option.split)

fun lookup_of :: "cache_event \<Rightarrow> persona_lookup" where
  "lookup_of (Asked now lookup later) = lookup"
| "lookup_of (Refreshed lookup now) = lookup"

text \<open>C12: An outage of the database never changes the persona in use: while every lookup fails, every new
  session gets the persona loaded before, whether the cache has expired or not.\<close>

theorem outage_keeps_persona:
  assumes "ch_persona c = Some p" "ch_id c = Some pid" "ch_refreshing c \<in> {None, Some pid}"
    and "\<forall>event \<in> set events. lookup_of event = Lookup_Failed"
  shows "set (fst (cache_run pid events c)) \<subseteq> {Done p}"
  using assms
proof (induction events arbitrary: c)
  case (Cons event events)
  show ?case
  proof (cases event)
    case (Asked now lookup later)
    obtain q c' where get: "get_active_persona pid now lookup later c = (q, c')" by force
    have "ch_persona c' = Some p" "ch_id c' = Some pid" "ch_refreshing c' \<in> {None, Some pid}" "q = Done p"
      using cached_get [OF Cons.prems(1,2), of now lookup later] get Cons.prems(3) by auto
    then show ?thesis using Cons.IH [of c'] Cons.prems(4) get Asked
      by (cases "cache_run pid events c'") simp
  next
    case (Refreshed lookup now)
    let ?c = "run_persona_refresh lookup now c"
    have "lookup = Lookup_Failed" using Cons.prems(4) Refreshed by simp
    then have "ch_persona ?c = Some p" "ch_id ?c = Some pid" "ch_refreshing ?c \<in> {None, Some pid}"
      using Cons.prems(1-3)
      by (auto simp: run_persona_refresh_def refresh_active_persona_def load_persona_from_db_def Let_def split: option.split)
    then show ?thesis using Cons.IH [of ?c] Cons.prems(4) Refreshed by simp
  qed
qed simp

text \<open>C13: A persona saved on the dashboard reaches the decoy without a restart and without a session waiting for
  the database: the first session after the cache expires still gets the old persona and has it
  reloaded, and the next one gets the saved persona.\<close>

theorem saved_change_reaches_decoy:
  assumes "persona_input_ok e r" "pr_id r = pid" "pid \<noteq> []"
    and "ch_persona c = Some before" "ch_id c = Some pid" "ch_expires c = Some t" "t \<le> now" "ch_refreshing c = None"
  shows "\<exists>p. persona_from_config_record r = Done p \<and>
    fst (cache_run pid [Asked now l1 later1, Refreshed (Saved r) done_at, Asked next l2 later2] c) = [Done before, Done p]"
proof -
  obtain p where p: "persona_from_config_record r = Done p" "validate_persona p = Done ()"
    using saved_persona_live [OF assms(1)] assms(2,3) by auto
  have first: "get_active_persona pid now l1 later1 c = (Done before, c\<lparr>ch_refreshing := Some pid\<rparr>)"
    using assms(4-8) by (simp add: get_active_persona_def start_persona_refresh_def)
  have "run_persona_refresh (Saved r) done_at (c\<lparr>ch_refreshing := Some pid\<rparr>)
      = c\<lparr>ch_persona := Some p, ch_id := Some pid, ch_expires := Some (done_at + PERSONA_CACHE_TTL_SECONDS), ch_refreshing := None\<rparr>"
    using p by (simp add: run_persona_refresh_def refresh_active_persona_def load_persona_from_db_def)
  then show ?thesis using p(1) first by (simp add: get_active_persona_def start_persona_refresh_def)
qed

section \<open>Examples\<close>

definition example_row :: persona_row where
  "example_row = \<lparr>pc_routing = lit ''email'', pc_min_risk_level = Some (lit ''high''), pc_contact_email = Some (lit ''soc@example.org''),
     pc_slack_webhook = None, pr_id = lit ''branch_office'', pr_name = lit ''Branch office'', pr_os_banner = [], pr_ssh_banner = [],
     pr_hostname = lit ''files01'', pr_internal_notes = [], pr_fake_users = [lit ''root'', lit ''bob''], pr_running_processes = [lit ''smbd''],
     pr_http_server_type = lit ''nginx'', pr_decoy_files = [\<lparr>df_path = lit ''/etc/passwd'', df_content = lit ''x''\<rparr>]\<rparr>"

lemma example_row_ok: "persona_input_ok plain_env example_row"
  by code_simp

definition example_cache :: persona_cache where
  "example_cache = \<lparr>ch_persona = Some generic_linux, ch_id = Some (lit ''branch_office''), ch_expires = Some 10, ch_refreshing = None\<rparr>"

theorem saved_persona_goes_live_witness:
  "\<exists>p. persona_from_config_record example_row = Done p \<and> validate_persona p = Done ()
    \<and> persona_id p = pr_id example_row \<and> http_server_type p = pr_http_server_type example_row
    \<and> (\<forall>path. dict_get (file_map p) path =
         (case find (\<lambda>f. df_path f = path) (pr_decoy_files example_row) of
            Some f \<Rightarrow> Some (df_content f)
          | None \<Rightarrow> dict_get (start_dict example_row) path))"
  by (rule saved_persona_goes_live [OF example_row_ok]) (simp add: example_row_def)

theorem outage_keeps_persona_witness:
  "set (fst (cache_run (lit ''branch_office'') [Asked 12 Lookup_Failed 13, Refreshed Lookup_Failed 14, Asked 20 Lookup_Failed 21] example_cache))
    \<subseteq> {Done generic_linux}"
  by (rule outage_keeps_persona) (simp_all add: example_cache_def)

theorem saved_change_reaches_decoy_witness:
  "\<exists>p. persona_from_config_record example_row = Done p \<and>
    fst (cache_run (lit ''branch_office'') [Asked 12 Lookup_Failed 13, Refreshed (Saved example_row) 14, Asked 15 Lookup_Failed 16] example_cache)
      = [Done generic_linux, Done p]"
  by (rule saved_change_reaches_decoy [OF example_row_ok, where t = 10]) (simp_all add: example_row_def example_cache_def)

end
