(* ===== verification/Listeners.thy ===== *)
theory Listeners
  imports HttpHandler PersonaCache
begin

text \<open>
  How connections are admitted: \<open>SSHListener\<close> of \<open>honeypot/network/ssh_server.py\<close> and \<open>ProtocolServer\<close> of
  \<open>protocol_server.py\<close>, both clients of one contract, the locale \<open>admission\<close>; and the main program
  (\<open>honeypot/main.py\<close>), which starts the listeners and waits for a signal or for the last of them to end.
  Connections and tasks are numbers.
\<close>

section \<open>The SSH listener\<close>

record ssh_listener =
  sl_max :: nat
  sl_count :: nat
  sl_active :: "nat set"

definition new_listener :: "nat \<Rightarrow> ssh_listener" where
  "new_listener n = \<lparr>sl_max = n, sl_count = 0, sl_active = {}\<rparr>"

definition admit :: "nat \<Rightarrow> ssh_listener \<Rightarrow> bool \<times> ssh_listener" where
  "admit conn l =
     (if sl_max l \<le> sl_count l then (False, l)
      else (True, l\<lparr>sl_count := sl_count l + 1, sl_active := insert conn (sl_active l)\<rparr>))"

definition release :: "nat \<Rightarrow> ssh_listener \<Rightarrow> ssh_listener" where
  "release conn l = l\<lparr>sl_count := sl_count l - 1, sl_active := sl_active l - {conn}\<rparr>"

section \<open>The server of the other protocols\<close>

record protocol_server =
  pv_max :: nat
  pv_listening :: bool
  pv_tasks :: "nat set"
  pv_cancelled :: "nat set"

definition new_protocol_server :: "nat \<Rightarrow> protocol_server" where
  "new_protocol_server n = \<lparr>pv_max = n, pv_listening = False, pv_tasks = {}, pv_cancelled = {}\<rparr>"

text \<open>\<open>_handle_client\<close>: \<open>constructed\<close> says whether the handler could be built; the task's number is new.\<close>

definition handle_client :: "bool \<Rightarrow> nat \<Rightarrow> protocol_server \<Rightarrow> bool \<times> protocol_server" where
  "handle_client constructed task v =
     (if pv_max v \<le> card (pv_tasks v) then (False, v)
      else if \<not> constructed then (False, v)
      else (True, v\<lparr>pv_tasks := insert task (pv_tasks v)\<rparr>))"

text \<open>The callback of a task that is done, and \<open>shutdown\<close> up to waiting for the tasks.\<close>

definition task_done :: "nat \<Rightarrow> protocol_server \<Rightarrow> protocol_server" where
  "task_done task v = v\<lparr>pv_tasks := pv_tasks v - {task}\<rparr>"

definition start_server :: "protocol_server \<Rightarrow> protocol_server" where
  "start_server v = v\<lparr>pv_listening := True\<rparr>"

definition shutdown_server :: "protocol_server \<Rightarrow> protocol_server" where
  "shutdown_server v = v\<lparr>pv_listening := False, pv_cancelled := pv_cancelled v \<union> pv_tasks v\<rparr>"

section \<open>The contract\<close>

datatype traffic = Comes nat | Leaves nat

text \<open>One server under a stream of connections that come and leave; the set beside the state are those
  admitted and still there. Leaving frees a place only for an admitted connection, once.\<close>

fun serve :: "(nat \<Rightarrow> 's \<Rightarrow> bool \<times> 's) \<Rightarrow> (nat \<Rightarrow> 's \<Rightarrow> 's) \<Rightarrow> traffic list \<Rightarrow> 's \<times> nat set \<Rightarrow> 's \<times> nat set" where
  "serve adm rel [] sA = sA"
| "serve adm rel (Comes c # events) (s, A) =
     (case adm c s of (ok, s') \<Rightarrow> serve adm rel events (s', if ok then insert c A else A))"
| "serve adm rel (Leaves c # events) (s, A) =
     (if c \<in> A then serve adm rel events (rel c s, A - {c}) else serve adm rel events (s, A))"

fun comers :: "traffic list \<Rightarrow> nat list" where
  "comers [] = []"
| "comers (Comes c # events) = c # comers events"
| "comers (Leaves c # events) = comers events"

locale admission =
  fixes adm :: "nat \<Rightarrow> 's \<Rightarrow> bool \<times> 's" and rel :: "nat \<Rightarrow> 's \<Rightarrow> 's"
    and serving :: "'s \<Rightarrow> nat set" and limit :: "'s \<Rightarrow> nat" and consistent :: "'s \<Rightarrow> bool"
  assumes consistent_finite: "consistent s \<Longrightarrow> finite (serving s)"
    and admitted: "consistent s \<Longrightarrow> c \<notin> serving s \<Longrightarrow> adm c s = (True, s') \<Longrightarrow>
      card (serving s) < limit s \<and> consistent s' \<and> serving s' = insert c (serving s) \<and> limit s' = limit s"
    and refused: "adm c s = (False, s') \<Longrightarrow> s' = s"
    and released: "consistent s \<Longrightarrow> c \<in> serving s \<Longrightarrow>
      consistent (rel c s) \<and> serving (rel c s) = serving s - {c} \<and> limit (rel c s) = limit s"
begin

lemma serve_bounded:
  assumes "consistent s" "card (serving s) \<le> limit s" "distinct (comers events)" "serving s \<inter> set (comers events) = {}"
  shows "\<exists>s' A. serve adm rel events (s, serving s) = (s', A) \<and> consistent s' \<and> serving s' = A \<and> card A \<le> limit s
    \<and> limit s' = limit s"
  using assms
proof (induction events arbitrary: s)
  case (Cons event events)
  show ?case
  proof (cases event)
    case (Comes c)
    have new: "c \<notin> serving s" "c \<notin> set (comers events)" using Cons.prems(3,4) Comes by auto
    obtain ok s1 where step: "adm c s = (ok, s1)" by force
    show ?thesis
    proof (cases ok)
      case True
      then have s1: "card (serving s) < limit s" "consistent s1" "serving s1 = insert c (serving s)" "limit s1 = limit s"
        using admitted [OF Cons.prems(1) new(1), of s1] step by simp_all
      have "card (serving s1) \<le> limit s1" using s1 new(1) consistent_finite [OF Cons.prems(1)] by simp
      from Cons.IH [OF s1(2) this] show ?thesis using Cons.prems(3,4) new s1 step True Comes by auto
    next
      case False
      then have "s1 = s" using refused [of c s s1] step by simp
      then show ?thesis using Cons.IH [OF Cons.prems(1,2)] Cons.prems(3,4) step False Comes by auto
    qed
  next
    case (Leaves c)
    show ?thesis
    proof (cases "c \<in> serving s")
      case True
      have s1: "consistent (rel c s)" "serving (rel c s) = serving s - {c}" "limit (rel c s) = limit s"
        using released [OF Cons.prems(1) True] by simp_all
      have "card (serving (rel c s)) \<le> limit (rel c s)"
        using s1 Cons.prems(2) card_Diff1_le [of "serving s" c] by simp
      from Cons.IH [OF s1(1) this] show ?thesis using Cons.prems(3,4) s1 True Leaves by auto
    next
      case False
      then show ?thesis using Cons.IH [OF Cons.prems(1,2)] Cons.prems(3,4) Leaves by auto
    qed
  qed
qed simp

end

interpretation ssh_admission: admission admit release sl_active sl_max "\<lambda>l. finite (sl_active l) \<and> sl_count l = card (sl_active l)"
  by unfold_locales (auto simp: admit_def release_def split: if_splits)

interpretation protocol_admission: admission "\<lambda>task. handle_client (constructed task) task" task_done pv_tasks pv_max "\<lambda>v. finite (pv_tasks v)"
  for constructed
  by unfold_locales (auto simp: handle_client_def task_done_def split: if_splits)

text \<open>The SSH decoy never serves more connections than its limit, its count never drifts from the
  connections really open, and a refused connection takes no place: whatever comes and leaves, the next
  one is admitted exactly when fewer than the limit are being served.\<close>

theorem ssh_connections_bounded:
  assumes "distinct (comers events)"
  shows "case serve admit release events (new_listener n, {}) of
    (l, A) \<Rightarrow> sl_active l = A \<and> sl_count l = card A \<and> card A \<le> n \<and> (\<forall>c. fst (admit c l) \<longleftrightarrow> card A < n)"
proof -
  obtain l A where run: "serve admit release events (new_listener n, {}) = (l, A)" by force
  have "finite (sl_active l) \<and> sl_count l = card (sl_active l)" "sl_active l = A" "card A \<le> n" "sl_max l = n"
    using ssh_admission.serve_bounded [of "new_listener n" events] assms run by (auto simp: new_listener_def)
  then show ?thesis using run by (auto simp: admit_def)
qed

text \<open>A Telnet, FTP or HTTP decoy never runs more handlers than its limit, and turns a client away only when
  the limit is reached or the handler could not be built.\<close>

theorem protocol_tasks_bounded:
  assumes "distinct (comers events)"
  shows "case serve (\<lambda>task. handle_client (constructed task) task) task_done events (new_protocol_server n, {}) of
    (v, A) \<Rightarrow> pv_tasks v = A \<and> card A \<le> n \<and> (\<forall>t. fst (handle_client (constructed t) t v) \<longleftrightarrow> card A < n \<and> constructed t)"
proof -
  obtain v A where run: "serve (\<lambda>task. handle_client (constructed task) task) task_done events (new_protocol_server n, {}) = (v, A)"
    by force
  have "pv_tasks v = A" "card A \<le> n" "pv_max v = n"
    using protocol_admission.serve_bounded [of "new_protocol_server n" events constructed] assms run
    by (auto simp: new_protocol_server_def)
  then show ?thesis using run by (auto simp: handle_client_def)
qed

section \<open>The main program\<close>

text \<open>The listeners beside SSH: those whose port is not 0.\<close>

definition extra_listeners :: "int \<Rightarrow> int \<Rightarrow> int \<Rightarrow> (int \<times> handler_class) list" where
  "extra_listeners http ftp telnet =
     filter (\<lambda>pk. fst pk \<noteq> 0) [(http, Http_Handler), (ftp, Ftp_Handler), (telnet, Telnet_Handler)]"

text \<open>The loop of \<open>main\<close>: what each \<open>asyncio.wait\<close> finds done, the stop signal and listeners that ended.\<close>

datatype main_result = Still_Running | Stopped_By_Signal | Exits_With_Error

fun main_loop :: "nat list \<Rightarrow> (bool \<times> nat set) list \<Rightarrow> main_result" where
  "main_loop [] waits = Exits_With_Error"
| "main_loop remaining [] = Still_Running"
| "main_loop remaining ((stop_done, ended) # waits) =
     (if stop_done then Stopped_By_Signal else main_loop (filter (\<lambda>t. t \<notin> ended) remaining) waits)"

text \<open>The program ends with an error exactly when every listener has ended before a stop signal came: one
  listener that still runs keeps it up, and a signal always ends it cleanly.\<close>

theorem main_ends_in_error_iff:
  "main_loop remaining waits = Exits_With_Error \<longleftrightarrow>
    (\<exists>k \<le> length waits. list_all (\<lambda>w. \<not> fst w) (take k waits) \<and> set remaining \<subseteq> \<Union> (snd ` set (take k waits)))"
proof (induction remaining waits rule: main_loop.induct)
  case (3 t ts stop_done ended waits)
  have "(\<exists>k \<le> Suc (length waits). P k) \<longleftrightarrow> P 0 \<or> (\<exists>k \<le> length waits. P (Suc k))" for P
    by (metis Suc_le_mono le0 not0_implies_Suc)
  then show ?case using 3 by (auto simp: subset_iff)
qed auto

section \<open>Examples\<close>

theorem ssh_connections_bounded_witness:
  "case serve admit release [Comes 1, Comes 2, Comes 3, Leaves 3, Leaves 1, Comes 4] (new_listener 2, {}) of
    (l, A) \<Rightarrow> sl_active l = A \<and> sl_count l = card A \<and> card A \<le> 2 \<and> (\<forall>c. fst (admit c l) \<longleftrightarrow> card A < 2)"
  by (rule ssh_connections_bounded) simp

theorem protocol_tasks_bounded_witness:
  "case serve (\<lambda>task. handle_client (even task) task) task_done [Comes 1, Comes 2, Leaves 2, Comes 4] (new_protocol_server 1, {}) of
    (v, A) \<Rightarrow> pv_tasks v = A \<and> card A \<le> 1 \<and> (\<forall>t. fst (handle_client (even t) t v) \<longleftrightarrow> card A < 1 \<and> even t)"
  by (rule protocol_tasks_bounded) simp

end
