(* ===== verification/Passwords.thy ===== *)
theory Passwords
  imports Regex Codecs
begin

text \<open>
  \<open>classifier/passwords.py\<close>: which passwords are accepted, how one is hashed and how it is checked. The key
  derivation \<open>hashlib.pbkdf2_hmac("sha256", ...)\<close> is a parameter, from the bytes of the password and of the salt
  and the number of iterations to the hex digits of the key; as documented it refuses fewer than one iteration.
  Characters above U+00FF that \<open>\d\<close> accepts are a parameter too.
\<close>

section \<open>Splitting with a limit, comparing digests\<close>

text \<open>\<open>s.split(c, n)\<close>.\<close>

fun split_max :: "nat \<Rightarrow> nat \<Rightarrow> str \<Rightarrow> str list" where
  "split_max 0 c s = [s]"
| "split_max (Suc n) c s =
     (case partition_at c s of (p, None) \<Rightarrow> [p] | (p, Some r) \<Rightarrow> p # split_max n c r)"

text \<open>\<open>s.rsplit(c, 1)\<close> when the caller unpacks two parts.\<close>

definition rsplit_once :: "nat \<Rightarrow> str \<Rightarrow> (str \<times> str) option" where
  "rsplit_once c s =
     (case partition_at c (rev s) of (b, None) \<Rightarrow> None | (b, Some a) \<Rightarrow> Some (rev a, rev b))"

text \<open>\<open>hmac.compare_digest\<close> on two texts: it raises unless both are ASCII.\<close>

definition all_ascii :: "str \<Rightarrow> bool" where
  "all_ascii s \<longleftrightarrow> list_all (\<lambda>c. c < 128) s"

definition compare_digest :: "str \<Rightarrow> str \<Rightarrow> bool outcome" where
  "compare_digest a b = (if all_ascii a \<and> all_ascii b then Done (a = b) else Raised TypeError)"

section \<open>Which passwords are accepted\<close>

definition MIN_PASSWORD_LENGTH :: nat where "MIN_PASSWORD_LENGTH = 8"
definition MAX_PASSWORD_LENGTH :: nat where "MAX_PASSWORD_LENGTH = 128"
definition PASSWORD_HASH_ITERATIONS :: nat where "PASSWORD_HASH_ITERATIONS = 390000"

definition validate_password_format :: "(nat \<Rightarrow> bool) \<Rightarrow> str \<Rightarrow> unit outcome" where
  "validate_password_format wide_digit s =
     (if length s < MIN_PASSWORD_LENGTH
      then Raised (ValueError (lit ''Password must be at least '' @ str_of_nat MIN_PASSWORD_LENGTH @ lit '' characters.''))
      else if MAX_PASSWORD_LENGTH < length s
      then Raised (ValueError (lit ''Password must be at most '' @ str_of_nat MAX_PASSWORD_LENGTH @ lit '' characters.''))
      else if list_ex is_space s then Raised (ValueError (lit ''Password must not contain spaces.''))
      else if \<not> list_ex is_ascii_letter s then Raised (ValueError (lit ''Password must contain a letter.''))
      else if \<not> list_ex (\<lambda>c. is_decimal c \<or> (255 < c \<and> wide_digit c) ) s
      then Raised (ValueError (lit ''Password must contain a number.''))
      else Done ())"

section \<open>Hashing\<close>

definition PBKDF2_SHA256 :: str where "PBKDF2_SHA256 = lit ''pbkdf2_sha256''"

text \<open>\<open>text.encode("utf-8")\<close>, which refuses surrogates.\<close>

definition encode_strict :: "str \<Rightarrow> bytes outcome" where
  "encode_strict s = (case utf8_encode (\<lambda>_. None) s of None \<Rightarrow> Raised UnicodeEncodeError | Some bs \<Rightarrow> Done bs)"

definition pbkdf2_hmac :: "(bytes \<Rightarrow> bytes \<Rightarrow> nat \<Rightarrow> str) \<Rightarrow> str \<Rightarrow> str \<Rightarrow> int \<Rightarrow> str outcome" where
  "pbkdf2_hmac kdf pw salt iterations =
     (case encode_strict pw of
        Raised x \<Rightarrow> Raised x
      | Done p \<Rightarrow>
          (case encode_strict salt of
             Raised x \<Rightarrow> Raised x
           | Done s \<Rightarrow>
               if iterations < 1 then Raised (ValueError (lit ''iteration value must be greater than 0.''))
               else Done (kdf p s (nat iterations))))"

text \<open>\<open>hash_password\<close> with the salt that \<open>secrets.token_hex(16)\<close> gives.\<close>

definition hash_password :: "(bytes \<Rightarrow> bytes \<Rightarrow> nat \<Rightarrow> str) \<Rightarrow> str \<Rightarrow> str \<Rightarrow> str outcome" where
  "hash_password kdf salt pw =
     (case pbkdf2_hmac kdf pw salt (int PASSWORD_HASH_ITERATIONS) of
        Raised x \<Rightarrow> Raised x
      | Done digest \<Rightarrow>
          Done (PBKDF2_SHA256 @ lit ''$'' @ str_of_nat PASSWORD_HASH_ITERATIONS @ lit ''$'' @ salt @ lit ''$'' @ digest))"

text \<open>The \<open>try\<close> block of \<open>verify_password\<close>: the key derived again, and the stored one.\<close>

definition derived_again :: "(bytes \<Rightarrow> bytes \<Rightarrow> nat \<Rightarrow> str) \<Rightarrow> str \<Rightarrow> str \<Rightarrow> (str \<times> str) option" where
  "derived_again kdf pw password_hash =
     (case split_max 3 36 password_hash of
        [algorithm, iterations, salt, digest] \<Rightarrow>
          if algorithm \<noteq> PBKDF2_SHA256 then None
          else (case int_of_str iterations of
                  None \<Rightarrow> None
                | Some n \<Rightarrow>
                    (case pbkdf2_hmac kdf pw salt n of Raised x \<Rightarrow> None | Done candidate \<Rightarrow> Some (candidate, digest)))
      | _ \<Rightarrow> None)"

definition verify_password :: "(bytes \<Rightarrow> bytes \<Rightarrow> nat \<Rightarrow> str) \<Rightarrow> str \<Rightarrow> str \<Rightarrow> bool outcome" where
  "verify_password kdf pw password_hash =
     (case derived_again kdf pw password_hash of
        None \<Rightarrow> Done False
      | Some (candidate, digest) \<Rightarrow> compare_digest candidate digest)"

section \<open>A stored password\<close>

lemma partition_at_split: "c \<notin> set a \<Longrightarrow> partition_at c (a @ c # b) = (a, Some b)"
  by (induction a) auto

lemma partition_at_none: "c \<notin> set a \<Longrightarrow> partition_at c a = (a, None)"
  by (induction a) auto

lemma hash_checked:
  assumes stored: "hash_password kdf salt pw = Done h"
    and salt: "36 \<notin> set salt" "encode_strict salt = Done sb"
    and digests: "\<And>p s n. all_ascii (kdf p s n)"
    and typed: "encode_strict pw = Done b" "encode_strict other = Done b2"
  shows "verify_password kdf other h = Done (kdf b2 sb PASSWORD_HASH_ITERATIONS = kdf b sb PASSWORD_HASH_ITERATIONS)"
proof -
  let ?digest = "kdf b sb PASSWORD_HASH_ITERATIONS" and ?n = "str_of_nat PASSWORD_HASH_ITERATIONS"
  have h: "h = PBKDF2_SHA256 @ 36 # ?n @ 36 # salt @ 36 # ?digest"
    using stored salt(2) typed(1) by (simp add: hash_password_def pbkdf2_hmac_def PASSWORD_HASH_ITERATIONS_def lit_Cons)
  have "36 \<notin> set PBKDF2_SHA256" "36 \<notin> set ?n" "int_of_str ?n = Some 390000" by code_simp+
  moreover from this have "split_max 3 36 h = [PBKDF2_SHA256, ?n, salt, ?digest]"
    unfolding h using salt(1) by (simp add: numeral_3_eq_3 partition_at_split)
  ultimately have "derived_again kdf other h = Some (kdf b2 sb PASSWORD_HASH_ITERATIONS, ?digest)"
    using salt(2) typed(2) by (simp add: derived_again_def pbkdf2_hmac_def PASSWORD_HASH_ITERATIONS_def)
  then show ?thesis using digests by (simp add: verify_password_def compare_digest_def)
qed

text \<open>What is stored for a password is checked by deriving the key again: the password itself is accepted, and
  another one exactly when its key under the same salt is the same.\<close>

theorem stored_password_checks:
  assumes stored: "hash_password kdf salt pw = Done h"
    and salt: "36 \<notin> set salt" "encode_strict salt = Done sb"
    and digests: "\<And>p s n. all_ascii (kdf p s n)"
    and typed: "encode_strict pw = Done b" "encode_strict other = Done b2"
  shows "verify_password kdf other h = Done (kdf b2 sb PASSWORD_HASH_ITERATIONS = kdf b sb PASSWORD_HASH_ITERATIONS)"
  by (rule hash_checked [OF assms])

theorem stored_password_checks_witness:
  "verify_password (\<lambda>p s n. lit ''ab'' @ hex2 (sum_list p mod 256)) (lit ''hunter22'')
     (lit ''pbkdf2_sha256$390000$5a17$abfb'') = Done False"
proof -
  let ?kdf = "\<lambda>p s n. lit ''ab'' @ hex2 (sum_list p mod 256)" and ?b = "lit ''hunter23''" and ?b2 = "lit ''hunter22''"
  have "all_ascii (hex2 (k mod 256))" for k by (auto simp: all_ascii_def hex2_def hex_digit_def)
  then have "all_ascii (?kdf p s n)" for p s :: bytes and n :: nat by (simp add: all_ascii_def lit_Cons)
  moreover have "hash_password ?kdf (lit ''5a17'') ?b = Done (lit ''pbkdf2_sha256$390000$5a17$abfb'')"
    "36 \<notin> set (lit ''5a17'')" "encode_strict (lit ''5a17'') = Done (lit ''5a17'')" "encode_strict ?b = Done ?b" "encode_strict ?b2 = Done ?b2"
    by code_simp+
  ultimately have "verify_password ?kdf ?b2 (lit ''pbkdf2_sha256$390000$5a17$abfb'') =
      Done (?kdf ?b2 (lit ''5a17'') PASSWORD_HASH_ITERATIONS = ?kdf ?b (lit ''5a17'') PASSWORD_HASH_ITERATIONS)"
    by (intro stored_password_checks)
  moreover have "hex2 (sum_list ?b2 mod 256) \<noteq> hex2 (sum_list ?b mod 256)" by code_simp
  ultimately show ?thesis by simp
qed

end
