(* ===== verification/DashboardStore.thy ===== *)
theory DashboardStore
  imports Storage PersonaConfig Passwords
begin

text \<open>
  What the dashboard keeps in the database (\<open>classifier/storage/repository.py\<close>): its users, the failed logins
  its rate limit counts, and the saved personas. Each method of \<open>PostgresClassifierRepository\<close> here is one
  transaction on these tables. \<open>ds_faults\<close> says in advance which transactions fail, with which error, and
  whether the server had committed by then. Columns are unbounded, and the clock \<open>dt_now\<close> is the database's.
\<close>

section \<open>Tables\<close>

record dashboard_user =
  du_id :: str
  du_email :: str
  du_password_hash :: str
  du_session_version :: int

record stored_persona =
  sp_row :: persona_row
  sp_created_at :: rat
  sp_updated_at :: rat

record dash_tables =
  dt_users :: "dashboard_user list"
  dt_failures :: "(str \<times> rat) list"
  dt_personas :: "(str \<times> stored_persona) list"
  dt_now :: rat

record dash_store =
  ds_tables :: dash_tables
  ds_faults :: "(bool \<times> db_error) option list"

type_synonym 'a db_result = "db_error + 'a"

text \<open>A transaction that raises is rolled back.\<close>

definition in_transaction :: "(dash_tables \<Rightarrow> 'a db_result \<times> dash_tables) \<Rightarrow> dash_store \<Rightarrow> 'a db_result \<times> dash_store" where
  "in_transaction op s =
     (let committed = (case op (ds_tables s) of (Inl x, t) \<Rightarrow> (Inl x, ds_tables s) | (Inr a, t) \<Rightarrow> (Inr a, t));
          later = s\<lparr>ds_faults := tl (ds_faults s)\<rparr>
      in case ds_faults s of
           [] \<Rightarrow> (fst committed, s\<lparr>ds_tables := snd committed\<rparr>)
         | None # _ \<Rightarrow> (fst committed, later\<lparr>ds_tables := snd committed\<rparr>)
         | Some (reached, x) # _ \<Rightarrow> (Inl x, if reached then later\<lparr>ds_tables := snd committed\<rparr> else later))"

definition select :: "(dash_tables \<Rightarrow> 'a) \<Rightarrow> dash_store \<Rightarrow> 'a db_result \<times> dash_store" where
  "select q = in_transaction (\<lambda>t. (Inr (q t), t))"

definition update_tables :: "(dash_tables \<Rightarrow> dash_tables) \<Rightarrow> dash_store \<Rightarrow> unit db_result \<times> dash_store" where
  "update_tables f = in_transaction (\<lambda>t. (Inr (), f t))"

section \<open>Users\<close>

definition user_by_email :: "str \<Rightarrow> dash_tables \<Rightarrow> dashboard_user option" where
  "user_by_email email t = find (\<lambda>u. du_email u = email) (dt_users t)"

definition session_version_of :: "str \<Rightarrow> dash_tables \<Rightarrow> int option" where
  "session_version_of uid t = map_option du_session_version (find (\<lambda>u. du_id u = uid) (dt_users t))"

definition rotate_user :: "str \<Rightarrow> dash_tables \<Rightarrow> dash_tables" where
  "rotate_user uid t =
     t\<lparr>dt_users := map (\<lambda>u. if du_id u = uid then u\<lparr>du_session_version := du_session_version u + 1\<rparr> else u) (dt_users t)\<rparr>"

definition get_dashboard_user_by_email :: "str \<Rightarrow> dash_store \<Rightarrow> dashboard_user option db_result \<times> dash_store" where
  "get_dashboard_user_by_email email = select (user_by_email email)"

definition get_dashboard_user_session_version :: "str \<Rightarrow> dash_store \<Rightarrow> int option db_result \<times> dash_store" where
  "get_dashboard_user_session_version uid = select (session_version_of uid)"

definition rotate_dashboard_user_session :: "str \<Rightarrow> dash_store \<Rightarrow> unit db_result \<times> dash_store" where
  "rotate_dashboard_user_session uid = update_tables (rotate_user uid)"

definition count_dashboard_users :: "dash_store \<Rightarrow> nat db_result \<times> dash_store" where
  "count_dashboard_users = select (\<lambda>t. length (dt_users t))"

text \<open>\<open>create_dashboard_user_if_eligible\<close>: the advisory lock makes checks and insert one step. The errors
  of the code's own are told apart from those of the database.\<close>

datatype signup_refusal = Signup_Not_Allowed | Email_Already_Registered

definition sign_up :: "str \<Rightarrow> str \<Rightarrow> str \<Rightarrow> bool \<Rightarrow> dash_tables \<Rightarrow> (signup_refusal + dashboard_user) db_result \<times> dash_tables" where
  "sign_up uid email pw_hash allow_multiple t =
     (if \<not> allow_multiple \<and> 0 < length (dt_users t) then (Inr (Inl Signup_Not_Allowed), t)
      else if user_by_email email t \<noteq> None then (Inr (Inl Email_Already_Registered), t)
      else let user = \<lparr>du_id = uid, du_email = email, du_password_hash = pw_hash, du_session_version = 1\<rparr>
        in (Inr (Inr user), t\<lparr>dt_users := dt_users t @ [user]\<rparr>))"

definition create_dashboard_user_if_eligible ::
  "str \<Rightarrow> str \<Rightarrow> str \<Rightarrow> bool \<Rightarrow> dash_store \<Rightarrow> (signup_refusal + dashboard_user) db_result \<times> dash_store" where
  "create_dashboard_user_if_eligible uid email pw_hash allow_multiple = in_transaction (sign_up uid email pw_hash allow_multiple)"

text \<open>\<open>reset_dashboard_user_password\<close>: one statement changes the hash, logs out and ends the lockout.\<close>

definition reset_password :: "str \<Rightarrow> str \<Rightarrow> dash_tables \<Rightarrow> bool db_result \<times> dash_tables" where
  "reset_password email pw_hash t =
     (if user_by_email email t = None then (Inr False, t)
      else (Inr True,
        t\<lparr>dt_users := map (\<lambda>u. if du_email u = email
              then u\<lparr>du_password_hash := pw_hash, du_session_version := du_session_version u + 1\<rparr> else u) (dt_users t),
          dt_failures := filter (\<lambda>(key, at_time). \<not> endswith key (colon # email)) (dt_failures t)\<rparr>))"

definition reset_dashboard_user_password :: "str \<Rightarrow> str \<Rightarrow> dash_store \<Rightarrow> bool db_result \<times> dash_store" where
  "reset_dashboard_user_password email pw_hash = in_transaction (reset_password email pw_hash)"

section \<open>Failed logins\<close>

definition recent_failures :: "str \<Rightarrow> rat \<Rightarrow> dash_tables \<Rightarrow> nat" where
  "recent_failures key window t = length (filter (\<lambda>(k, at_time). k = key \<and> dt_now t - window < at_time) (dt_failures t))"

definition add_failure :: "str \<Rightarrow> rat \<Rightarrow> dash_tables \<Rightarrow> dash_tables" where
  "add_failure key window t =
     t\<lparr>dt_failures := filter (\<lambda>(k, at_time). \<not> at_time < dt_now t - window) (dt_failures t) @ [(key, dt_now t)]\<rparr>"

definition forget_failures :: "str \<Rightarrow> dash_tables \<Rightarrow> dash_tables" where
  "forget_failures key t = t\<lparr>dt_failures := filter (\<lambda>(k, at_time). k \<noteq> key) (dt_failures t)\<rparr>"

definition count_recent_login_failures :: "str \<Rightarrow> rat \<Rightarrow> dash_store \<Rightarrow> nat db_result \<times> dash_store" where
  "count_recent_login_failures key window = select (recent_failures key window)"

definition record_login_failure :: "str \<Rightarrow> rat \<Rightarrow> dash_store \<Rightarrow> unit db_result \<times> dash_store" where
  "record_login_failure key window = update_tables (add_failure key window)"

definition clear_login_failures :: "str \<Rightarrow> dash_store \<Rightarrow> unit db_result \<times> dash_store" where
  "clear_login_failures key = update_tables (forget_failures key)"

section \<open>Saved personas\<close>

text \<open>PostgreSQL refuses a NUL in a text, and an escaped one in the JSON of the decoy files.\<close>

definition persona_texts :: "persona_row \<Rightarrow> str list" where
  "persona_texts r =
     [pr_id r, pr_name r, pr_os_banner r, pr_ssh_banner r, pr_hostname r, pr_internal_notes r, pr_http_server_type r, pc_routing r]
     @ pr_fake_users r @ pr_running_processes r @ map df_path (pr_decoy_files r) @ map df_content (pr_decoy_files r)
     @ opt_texts (pc_min_risk_level r) @ opt_texts (pc_contact_email r) @ opt_texts (pc_slack_webhook r)"

definition storable :: "persona_row \<Rightarrow> bool" where
  "storable r \<longleftrightarrow> list_all (\<lambda>s. 0 \<notin> set s) (persona_texts r)"

datatype persona_conflict = Persona_Already_Exists

text \<open>\<open>created_at\<close> and \<open>updated_at\<close> are the API's clock.\<close>

definition insert_persona :: "str \<Rightarrow> persona_row \<Rightarrow> rat \<Rightarrow> dash_tables \<Rightarrow> (persona_conflict + stored_persona) db_result \<times> dash_tables" where
  "insert_persona pid config now t =
     (let stored = \<lparr>sp_row = config\<lparr>pr_id := pid\<rparr>, sp_created_at = now, sp_updated_at = now\<rparr> in
      if \<not> storable (sp_row stored) then (Inl (Psycopg_Error False None), t)
      else if dict_has (dt_personas t) pid then (Inr (Inl Persona_Already_Exists), t)
      else (Inr (Inr stored), t\<lparr>dt_personas := dict_put pid stored (dt_personas t)\<rparr>))"

definition replace_persona :: "str \<Rightarrow> persona_row \<Rightarrow> rat \<Rightarrow> dash_tables \<Rightarrow> stored_persona option db_result \<times> dash_tables" where
  "replace_persona pid config now t =
     (if \<not> storable (config\<lparr>pr_id := pid\<rparr>) then (Inl (Psycopg_Error False None), t)
      else case dict_get (dt_personas t) pid of
        None \<Rightarrow> (Inr None, t)
      | Some before \<Rightarrow>
          let stored = before\<lparr>sp_row := config\<lparr>pr_id := pid\<rparr>, sp_updated_at := now\<rparr>
          in (Inr (Some stored), t\<lparr>dt_personas := dict_put pid stored (dt_personas t)\<rparr>))"

definition remove_persona :: "str \<Rightarrow> dash_tables \<Rightarrow> bool db_result \<times> dash_tables" where
  "remove_persona pid t =
     (Inr (dict_has (dt_personas t) pid), t\<lparr>dt_personas := filter (\<lambda>kv. fst kv \<noteq> pid) (dt_personas t)\<rparr>)"

definition create_persona_config ::
  "str \<Rightarrow> persona_row \<Rightarrow> rat \<Rightarrow> dash_store \<Rightarrow> (persona_conflict + stored_persona) db_result \<times> dash_store" where
  "create_persona_config pid config now = in_transaction (insert_persona pid config now)"

definition get_persona_config :: "str \<Rightarrow> dash_store \<Rightarrow> stored_persona option db_result \<times> dash_store" where
  "get_persona_config pid = select (\<lambda>t. dict_get (dt_personas t) pid)"

definition update_persona_config :: "str \<Rightarrow> persona_row \<Rightarrow> rat \<Rightarrow> dash_store \<Rightarrow> stored_persona option db_result \<times> dash_store" where
  "update_persona_config pid config now = in_transaction (replace_persona pid config now)"

definition delete_persona_config :: "str \<Rightarrow> dash_store \<Rightarrow> bool db_result \<times> dash_store" where
  "delete_persona_config pid = in_transaction (remove_persona pid)"

end
