(* ===== verification/DashboardAuth.thy ===== *)
theory DashboardAuth
  imports DashboardStore
begin

text \<open>
  Signing up, in and out of the dashboard (\<open>classifier/api/app.py\<close>): the rules for email addresses, the
  signed session cookie and its check against the database, the login with its rate limit, and the key for
  ingesting sessions. A request is what these read of it. The HMAC, the UUID parser and the key derivation
  are in the environment \<open>dash_env\<close>. \<open>Crashed\<close> stands for an exception no handler catches. A login is three
  transactions; \<open>login_step\<close> makes one of them, so that logins can run at the same time. \<open>dash_event\<close> is
  anything that changes what the dashboard keeps of accounts and logins.
\<close>

record dash_env =
  de_hmac :: "str \<Rightarrow> str \<Rightarrow> str"
  de_uuid :: "str \<Rightarrow> str option"
  de_kdf :: "bytes \<Rightarrow> bytes \<Rightarrow> nat \<Rightarrow> str"
  de_wide_digit :: "nat \<Rightarrow> bool"
  de_secret :: str
  de_ingest_key :: "str option"
  de_allow_signups :: "str option"
  de_cookie_secure :: "str option"

record dash_request =
  rq_cookie :: "str option"
  rq_client :: "str option"
  rq_api_key :: "str option"
  rq_path :: str
  rq_query :: str

datatype 'v api_reply =
    Reply nat 'v
  | Http_Error nat str
  | File_Reply str
  | Html_Reply nat str
  | Redirect_Reply nat str
  | Text_Reply str
  | Crash exn

datatype cookie_action = Keep_Cookie | Set_Cookie str bool | Delete_Cookie

datatype session_answer = Session_Answer bool "str option"

section \<open>Email addresses\<close>

definition MAX_EMAIL_LENGTH :: nat where "MAX_EMAIL_LENGTH = 254"

definition dashboard_email_re :: re where
  "dashboard_email_re = seq [some (Cls email_local), Cls (\<lambda>c. c = at_sign), email_label,
     some (Cat (Cls (\<lambda>c. c = dot)) email_label)]"

definition normalize_email :: "str \<Rightarrow> str" where
  "normalize_email s = lower (strip s)"

definition BAD_EMAIL :: str where "BAD_EMAIL = lit ''Enter a valid email address.''"

definition validate_email_format :: "str \<Rightarrow> str outcome" where
  "validate_email_format s =
     (let address = normalize_email s in
      if MAX_EMAIL_LENGTH < length address \<or> \<not> re_fullmatch dashboard_email_re address
         \<or> startswith address [dot] \<or> contains address [dot, dot]
      then Raised (ValueError BAD_EMAIL)
      else case rsplit_once at_sign address of
        None \<Rightarrow> Raised (ValueError BAD_EMAIL)
      | Some (local_part, domain) \<Rightarrow>
          if 64 < length local_part \<or> endswith local_part [dot]
             \<or> list_ex (\<lambda>label. startswith label [dash] \<or> endswith label [dash]) (split_on dot domain)
          then Raised (ValueError BAD_EMAIL)
          else Done address)"

text \<open>\<open>DashboardSignupInput\<close> and \<open>DashboardLoginInput\<close>; either failed field makes the request a 422.\<close>

definition credentials_input :: "dash_env \<Rightarrow> str \<Rightarrow> str \<Rightarrow> (str \<times> str) option" where
  "credentials_input e email pw =
     (case (validate_email_format email, validate_password_format (de_wide_digit e) pw) of
        (Done address, Done _) \<Rightarrow> Some (address, pw) | _ \<Rightarrow> None)"

section \<open>Errors\<close>

definition DATABASE_UNAVAILABLE_DETAIL :: str where
  "DATABASE_UNAVAILABLE_DETAIL = lit ''Can'' @ [squote]
     @ lit ''t reach the database. Check that PostgreSQL is running, then try again.''"

definition DATABASE_DISK_FULL_DETAIL :: str where
  "DATABASE_DISK_FULL_DETAIL = lit ''The database'' @ [squote]
     @ lit ''s disk is full. Free some space on the database server, then try again.''"

definition DATABASE_BUSY_DETAIL :: str where
  "DATABASE_BUSY_DETAIL = lit ''The database took too long to answer. Try again in a moment.''"

definition DASHBOARD_SIGNED_OUT_DETAIL :: str where
  "DASHBOARD_SIGNED_OUT_DETAIL = lit ''You'' @ [squote] @ lit ''ve been signed out. Reload the page to sign in again.''"

definition LOGOUT_UNAVAILABLE :: str where
  "LOGOUT_UNAVAILABLE = lit ''Couldn'' @ [squote] @ lit ''t log out because the database is unavailable. Try again.''"

definition server_error :: "db_error \<Rightarrow> nat \<times> str" where
  "server_error x =
     (if is_database_disk_full x then (503, DATABASE_DISK_FULL_DETAIL)
      else if is_database_busy x then (503, DATABASE_BUSY_DETAIL)
      else if is_database_unavailable x then (503, DATABASE_UNAVAILABLE_DETAIL)
      else (500, lit ''Internal server error''))"

definition DETAIL_REPLACEMENTS :: "(str \<times> str) list" where
  "DETAIL_REPLACEMENTS = map (\<lambda>(raw, label). (lit raw, lit label))
     [(''ECHIDRA_DATABASE_URL'', ''database URL''), (''ECHIDRA_INGEST_API_KEY'', ''ingest API key''),
      (''ECHIDRA_ALERT_SECRET'', ''alert secret''), (''ECHIDRA_SECRET_KEY'', ''secret key''),
      (''smtp_from_email'', ''SMTP from email''), (''classification_status'', ''classification status''),
      (''http_server_type'', ''HTTP server type''), (''alert_routing_level'', ''alert routing level''),
      (''alert_min_risk_level'', ''alert minimum risk level''), (''contact_email'', ''contact email''),
      (''slack_webhook'', ''Slack webhook''), (''global_min_risk_level'', ''global minimum risk level''),
      (''decoy_files'', ''decoy files'')]"

text \<open>\<open>_user_facing_error_detail\<close> on the text of an exception, and on the two errors it knows. The first
  letter is one of the code's own messages, which are ASCII.\<close>

fun first_upper :: "str \<Rightarrow> str" where
  "first_upper [] = []"
| "first_upper (c # s) = (if 97 \<le> c \<and> c \<le> 122 then c - 32 else c) # s"

definition user_facing_text :: "str \<Rightarrow> str" where
  "user_facing_text s = first_upper (fold (\<lambda>(raw, label) detail. replace_str raw label detail) DETAIL_REPLACEMENTS (strip s))"

definition NOT_CONFIGURED_DETAIL :: str where
  "NOT_CONFIGURED_DETAIL = lit ''PostgreSQL storage is not configured''"

definition DRIVER_MISSING_DETAIL :: str where
  "DRIVER_MISSING_DETAIL = lit ''PostgreSQL driver is missing. Install psycopg to use PostgreSQL storage.''"

text \<open>The two \<open>except\<close> branches around the repository calls of every endpoint.\<close>

definition storage_error :: "db_error \<Rightarrow> nat \<times> str" where
  "storage_error x =
     (case x of
        Not_Configured \<Rightarrow> (503, NOT_CONFIGURED_DETAIL)
      | Driver_Missing \<Rightarrow> (503, DRIVER_MISSING_DETAIL)
      | _ \<Rightarrow> server_error x)"

definition error_reply :: "nat \<times> str \<Rightarrow> 'v api_reply" where
  "error_reply se = Http_Error (fst se) (snd se)"

section \<open>The session cookie\<close>

definition SESSION_MAX_AGE_SECONDS :: int where "SESSION_MAX_AGE_SECONDS = 60 * 60 * 24 * 7"

definition session_payload :: "str \<Rightarrow> int \<Rightarrow> int \<Rightarrow> str" where
  "session_payload uid version issued_at = uid @ [colon] @ str_of_int version @ [colon] @ str_of_int issued_at"

definition dashboard_session_cookie_signature :: "dash_env \<Rightarrow> str \<Rightarrow> int \<Rightarrow> int \<Rightarrow> str" where
  "dashboard_session_cookie_signature e uid version issued_at =
     de_hmac e (de_secret e) (session_payload uid version issued_at)"

definition dashboard_session_cookie_value :: "dash_env \<Rightarrow> rat \<Rightarrow> dashboard_user \<Rightarrow> str" where
  "dashboard_session_cookie_value e now u =
     session_payload (du_id u) (du_session_version u) \<lfloor>now\<rfloor> @ [colon]
     @ dashboard_session_cookie_signature e (du_id u) (du_session_version u) \<lfloor>now\<rfloor>"

definition parse_dashboard_session_cookie :: "dash_env \<Rightarrow> str \<Rightarrow> (str \<times> int \<times> int \<times> str) option" where
  "parse_dashboard_session_cookie e v =
     (case rsplit_once colon v of
        None \<Rightarrow> None
      | Some (payload, signature) \<Rightarrow>
          (case split_max 2 colon payload of
             [uid_str, version_str, issued_at_str] \<Rightarrow>
               (case (de_uuid e uid_str, int_of_str version_str, int_of_str issued_at_str) of
                  (Some uid, Some version, Some issued_at) \<Rightarrow> Some (uid, version, issued_at, signature)
                | _ \<Rightarrow> None)
           | _ \<Rightarrow> None))"

datatype 'a checked = Checked 'a | Database_Unreachable | Crashed exn

text \<open>\<open>_dashboard_session_cookie_user_id\<close>, for signing out.\<close>

definition dashboard_session_cookie_user_id :: "dash_env \<Rightarrow> str \<Rightarrow> str option outcome" where
  "dashboard_session_cookie_user_id e v =
     (case parse_dashboard_session_cookie e v of
        None \<Rightarrow> Done None
      | Some (uid, version, issued_at, signature) \<Rightarrow>
          (case compare_digest signature (dashboard_session_cookie_signature e uid version issued_at) of
             Raised x \<Rightarrow> Raised x
           | Done same \<Rightarrow> Done (if same then Some uid else None)))"

definition verify_dashboard_session_cookie :: "dash_env \<Rightarrow> rat \<Rightarrow> str \<Rightarrow> dash_store \<Rightarrow> bool checked \<times> dash_store" where
  "verify_dashboard_session_cookie e now v s =
     (case parse_dashboard_session_cookie e v of
        None \<Rightarrow> (Checked False, s)
      | Some (uid, version, issued_at, signature) \<Rightarrow>
          let age = \<lfloor>now\<rfloor> - issued_at in
          if \<not> (0 \<le> age \<and> age \<le> SESSION_MAX_AGE_SECONDS) then (Checked False, s)
          else case compare_digest signature (dashboard_session_cookie_signature e uid version issued_at) of
            Raised x \<Rightarrow> (Crashed x, s)
          | Done False \<Rightarrow> (Checked False, s)
          | Done True \<Rightarrow>
              (case get_dashboard_user_session_version uid s of
                 (Inl Driver_Missing, s') \<Rightarrow> (Checked False, s')
               | (Inl Not_Configured, s') \<Rightarrow> (Checked False, s')
               | (Inl x, s') \<Rightarrow>
                   (if is_database_unavailable x \<or> is_database_busy x then Database_Unreachable else Checked False, s')
               | (Inr current, s') \<Rightarrow> (Checked (current = Some version), s')))"

definition dashboard_request_is_authenticated :: "dash_env \<Rightarrow> rat \<Rightarrow> dash_request \<Rightarrow> dash_store \<Rightarrow> bool checked \<times> dash_store" where
  "dashboard_request_is_authenticated e now r s =
     (case rq_cookie r of None \<Rightarrow> (Checked False, s) | Some v \<Rightarrow> verify_dashboard_session_cookie e now v s)"

text \<open>\<open>_require_dashboard_auth\<close>: None when the request may go on, else the reply.\<close>

definition require_dashboard_auth :: "dash_env \<Rightarrow> rat \<Rightarrow> dash_request \<Rightarrow> dash_store \<Rightarrow> 'v api_reply option \<times> dash_store" where
  "require_dashboard_auth e now r s =
     (case dashboard_request_is_authenticated e now r s of
        (Database_Unreachable, s') \<Rightarrow> (Some (Http_Error 503 DATABASE_UNAVAILABLE_DETAIL), s')
      | (Crashed x, s') \<Rightarrow> (Some (Crash x), s')
      | (Checked False, s') \<Rightarrow> (Some (Http_Error 401 DASHBOARD_SIGNED_OUT_DETAIL), s')
      | (Checked True, s') \<Rightarrow> (None, s'))"

text \<open>A switch in the environment.\<close>

definition env_switch :: "str list \<Rightarrow> str option \<Rightarrow> bool" where
  "env_switch accepted x \<longleftrightarrow> lower (strip (case x of None \<Rightarrow> [] | Some t \<Rightarrow> t)) \<in> set accepted"

definition dashboard_cookie_secure :: "dash_env \<Rightarrow> bool" where
  "dashboard_cookie_secure e = env_switch (map lit [''1'', ''true'', ''yes'', ''on'']) (de_cookie_secure e)"

definition dashboard_allow_multiple_signups :: "dash_env \<Rightarrow> bool" where
  "dashboard_allow_multiple_signups e = env_switch (map lit [''1'', ''true'', ''yes'']) (de_allow_signups e)"

definition set_dashboard_session_cookie :: "dash_env \<Rightarrow> rat \<Rightarrow> dashboard_user \<Rightarrow> cookie_action" where
  "set_dashboard_session_cookie e now u = Set_Cookie (dashboard_session_cookie_value e now u) (dashboard_cookie_secure e)"

section \<open>The ingest key\<close>

definition require_ingest_api_key :: "dash_env \<Rightarrow> dash_request \<Rightarrow> 'v api_reply option" where
  "require_ingest_api_key e r =
     (let configured = (case de_ingest_key e of None \<Rightarrow> [] | Some k \<Rightarrow> k);
          provided = (case rq_api_key r of None \<Rightarrow> [] | Some k \<Rightarrow> k)
      in if configured = [] then Some (Http_Error 503 (lit ''Ingest API key is not configured on this server''))
         else if provided = [] then Some (Http_Error 401 (lit ''Invalid or missing API key''))
         else case compare_digest provided configured of
           Raised x \<Rightarrow> Some (Crash x)
         | Done same \<Rightarrow> if same then None else Some (Http_Error 401 (lit ''Invalid or missing API key'')))"

section \<open>Signing up and out\<close>

definition SIGNUP_CLOSED :: str where
  "SIGNUP_CLOSED = lit ''Sign-up is closed because this dashboard already has an account. Log in instead.''"

definition EMAIL_TAKEN :: str where "EMAIL_TAKEN = lit ''An account with this email already exists.''"

text \<open>\<open>uid\<close> and \<open>salt\<close> are what \<open>uuid4\<close> and \<open>secrets\<close> give.\<close>

definition signup_dashboard_user ::
  "dash_env \<Rightarrow> rat \<Rightarrow> str \<Rightarrow> str \<Rightarrow> str \<Rightarrow> str \<Rightarrow> dash_store \<Rightarrow> (session_answer api_reply \<times> cookie_action) \<times> dash_store" where
  "signup_dashboard_user e now uid salt email pw s =
     (case hash_password (de_kdf e) salt pw of
        Raised x \<Rightarrow> ((error_reply (server_error (Program_Error x)), Keep_Cookie), s)
      | Done pw_hash \<Rightarrow>
          (case create_dashboard_user_if_eligible uid email pw_hash (dashboard_allow_multiple_signups e) s of
             (Inl x, s') \<Rightarrow> ((error_reply (storage_error x), Keep_Cookie), s')
           | (Inr (Inl Signup_Not_Allowed), s') \<Rightarrow> ((Http_Error 403 SIGNUP_CLOSED, Keep_Cookie), s')
           | (Inr (Inl Email_Already_Registered), s') \<Rightarrow> ((Http_Error 409 EMAIL_TAKEN, Keep_Cookie), s')
           | (Inr (Inr u), s') \<Rightarrow>
               ((Reply 200 (Session_Answer True (Some (du_email u))), set_dashboard_session_cookie e now u), s')))"

definition logout_dashboard :: "dash_env \<Rightarrow> str option \<Rightarrow> dash_store \<Rightarrow> (session_answer api_reply \<times> cookie_action) \<times> dash_store" where
  "logout_dashboard e cookie_value s =
     (case (case cookie_value of None \<Rightarrow> Done None | Some v \<Rightarrow> dashboard_session_cookie_user_id e v) of
        Raised x \<Rightarrow> ((Crash x, Keep_Cookie), s)
      | Done None \<Rightarrow> ((Reply 200 (Session_Answer False None), Delete_Cookie), s)
      | Done (Some uid) \<Rightarrow>
          (case rotate_dashboard_user_session uid s of
             (Inl x, s') \<Rightarrow> ((Http_Error 503 LOGOUT_UNAVAILABLE, Keep_Cookie), s')
           | (Inr _, s') \<Rightarrow> ((Reply 200 (Session_Answer False None), Delete_Cookie), s')))"

section \<open>Signing in\<close>

definition LOGIN_RATE_LIMIT_MAX_ATTEMPTS :: nat where "LOGIN_RATE_LIMIT_MAX_ATTEMPTS = 5"
definition LOGIN_RATE_LIMIT_WINDOW_SECONDS :: rat where "LOGIN_RATE_LIMIT_WINDOW_SECONDS = 15 * 60"

definition TOO_MANY_LOGINS :: str where
  "TOO_MANY_LOGINS = lit ''Too many failed login attempts. Try again in 15 minutes.''"

definition WRONG_CREDENTIALS :: str where "WRONG_CREDENTIALS = lit ''Incorrect email or password.''"

definition login_rate_limit_key :: "str option \<Rightarrow> str \<Rightarrow> str" where
  "login_rate_limit_key client email =
     (case client of None \<Rightarrow> lit ''unknown'' | Some host \<Rightarrow> host) @ [colon] @ normalize_email email"

record login_attempt =
  la_client :: "str option"
  la_email :: str
  la_password :: str

definition attempt_key :: "login_attempt \<Rightarrow> str" where
  "attempt_key a = login_rate_limit_key (la_client a) (la_email a)"

datatype login_progress =
    Checking_Limit
  | Looking_Up
  | Deciding "dashboard_user option"
  | Answered "session_answer api_reply" cookie_action

definition check_login_rate_limit :: "str \<Rightarrow> dash_store \<Rightarrow> bool db_result \<times> dash_store" where
  "check_login_rate_limit key s =
     (case count_recent_login_failures key LOGIN_RATE_LIMIT_WINDOW_SECONDS s of
        (Inl x, s') \<Rightarrow> (Inl x, s')
      | (Inr recent, s') \<Rightarrow> (Inr (\<not> LOGIN_RATE_LIMIT_MAX_ATTEMPTS \<le> recent), s'))"

text \<open>\<open>_record_login_failure\<close> and \<open>_clear_login_failures\<close> ignore what goes wrong.\<close>

definition note_login_failure :: "str \<Rightarrow> dash_store \<Rightarrow> dash_store" where
  "note_login_failure key s = snd (record_login_failure key LOGIN_RATE_LIMIT_WINDOW_SECONDS s)"

definition drop_login_failures :: "str \<Rightarrow> dash_store \<Rightarrow> dash_store" where
  "drop_login_failures key s = snd (clear_login_failures key s)"

definition decide_login ::
  "dash_env \<Rightarrow> rat \<Rightarrow> login_attempt \<Rightarrow> dashboard_user option \<Rightarrow> dash_store \<Rightarrow> login_progress \<times> dash_store" where
  "decide_login e now a user s =
     (let key = attempt_key a;
          refuse = (Answered (Http_Error 401 WRONG_CREDENTIALS) Keep_Cookie, note_login_failure key s)
      in case user of
           None \<Rightarrow> refuse
         | Some u \<Rightarrow>
             (case verify_password (de_kdf e) (la_password a) (du_password_hash u) of
                Raised x \<Rightarrow> (Answered (Crash x) Keep_Cookie, s)
              | Done False \<Rightarrow> refuse
              | Done True \<Rightarrow>
                  (Answered (Reply 200 (Session_Answer True (Some (du_email u)))) (set_dashboard_session_cookie e now u),
                   drop_login_failures key s)))"

fun login_step :: "dash_env \<Rightarrow> rat \<Rightarrow> login_attempt \<Rightarrow> login_progress \<Rightarrow> dash_store \<Rightarrow> login_progress \<times> dash_store" where
  "login_step e now a Checking_Limit s =
     (case check_login_rate_limit (attempt_key a) s of
        (Inl x, s') \<Rightarrow> (Answered (error_reply (storage_error x)) Keep_Cookie, s')
      | (Inr False, s') \<Rightarrow> (Answered (Http_Error 429 TOO_MANY_LOGINS) Keep_Cookie, s')
      | (Inr True, s') \<Rightarrow> (Looking_Up, s'))"
| "login_step e now a Looking_Up s =
     (case get_dashboard_user_by_email (la_email a) s of
        (Inl x, s') \<Rightarrow> (Answered (error_reply (storage_error x)) Keep_Cookie, s')
      | (Inr user, s') \<Rightarrow> (Deciding user, s'))"
| "login_step e now a (Deciding user) s = decide_login e now a user s"
| "login_step e now a (Answered reply cookie) s = (Answered reply cookie, s)"

definition login_dashboard_user :: "dash_env \<Rightarrow> rat \<Rightarrow> login_attempt \<Rightarrow> dash_store \<Rightarrow> login_progress \<times> dash_store" where
  "login_dashboard_user e now a s =
     (case login_step e now a Checking_Limit s of
        (p1, s1) \<Rightarrow> (case login_step e now a p1 s1 of (p2, s2) \<Rightarrow> login_step e now a p2 s2))"

section \<open>What changes the dashboard's tables\<close>

datatype dash_event =
    Sign_Up rat str str str str
  | Sign_In rat login_attempt
  | Sign_Out "str option"
  | Password_Reset str str
  | Request_Checked rat str
  | Seconds_Pass rat
  | Trouble "(bool \<times> db_error) option list"

fun dash_step :: "dash_env \<Rightarrow> dash_event \<Rightarrow> dash_store \<Rightarrow> dash_store" where
  "dash_step e (Sign_Up now uid salt email pw) s = snd (signup_dashboard_user e now uid salt email pw s)"
| "dash_step e (Sign_In now a) s = snd (login_dashboard_user e now a s)"
| "dash_step e (Sign_Out cookie_value) s = snd (logout_dashboard e cookie_value s)"
| "dash_step e (Password_Reset email pw_hash) s = snd (reset_dashboard_user_password email pw_hash s)"
| "dash_step e (Request_Checked now v) s = snd (verify_dashboard_session_cookie e now v s)"
| "dash_step e (Seconds_Pass d) s = s\<lparr>ds_tables := (ds_tables s)\<lparr>dt_now := dt_now (ds_tables s) + \<bar>d\<bar>\<rparr>\<rparr>"
| "dash_step e (Trouble faults) s = s\<lparr>ds_faults := faults\<rparr>"

definition dash_run :: "dash_env \<Rightarrow> dash_event list \<Rightarrow> dash_store \<Rightarrow> dash_store" where
  "dash_run e events s = fold (dash_step e) events s"

end
