(* ===== verification/NumberTexts.thy ===== *)
theory NumberTexts
  imports Prelude
begin

text \<open>
  Python's \<open>int\<close> reads back what \<open>str\<close> writes of an integer of at most 4300 digits.
\<close>

lemma digits_of_decimal: "list_all is_decimal (digits_of n)"
proof (induction n rule: digits_of.induct)
  case (1 n)
  have "is_decimal (48 + n mod 10)" "n < 10 \<Longrightarrow> is_decimal (48 + n)" by (auto simp: is_decimal_def)
  with 1 show ?case by (subst digits_of.simps) simp
qed

lemma digits_of_nonempty [simp]: "digits_of n \<noteq> []"
  by (subst digits_of.simps) simp

lemma nat_of_digits_snoc: "nat_of_digits b (s @ [c]) = nat_of_digits b s * b + digit_value c"
  by (simp add: nat_of_digits_def)

lemma nat_of_digits_of [simp]: "nat_of_digits 10 (digits_of n) = n"
proof (induction n rule: digits_of.induct)
  case (1 n)
  show ?case
  proof (cases "n < 10")
    case True
    then show ?thesis by (subst digits_of.simps) (simp add: nat_of_digits_def digit_value_def is_decimal_def)
  next
    case False
    then have "nat_of_digits 10 (digits_of n) = n div 10 * 10 + n mod 10"
      using 1 by (subst digits_of.simps) (simp add: nat_of_digits_snoc digit_value_def is_decimal_def)
    then show ?thesis by simp
  qed
qed

lemma length_digits_of: "n < 10 ^ k \<Longrightarrow> 0 < k \<Longrightarrow> length (digits_of n) \<le> k"
proof (induction n arbitrary: k rule: digits_of.induct)
  case (1 n)
  show ?case
  proof (cases "n < 10")
    case True
    then show ?thesis using "1.prems" by (subst digits_of.simps) simp
  next
    case False
    obtain j where k: "k = Suc j" using "1.prems"(2) by (cases k) auto
    have "0 < j" using False "1.prems"(1) k by (cases j) auto
    note k = k this
    have "n div 10 < 10 ^ j" using "1.prems"(1) k(1) by (simp add: less_mult_imp_div_less mult.commute)
    then have "length (digits_of (n div 10)) \<le> j" using "1.IH" [OF False] k(2) by simp
    then show ?thesis using False k(1) by (subst digits_of.simps) simp
  qed
qed

lemma decimals_filter: "list_all is_decimal ds \<Longrightarrow> filter is_decimal ds = ds"
  by (simp add: list_all_iff)

lemma decimals_syntax: "list_all is_decimal ds \<Longrightarrow> ds \<noteq> [] \<Longrightarrow> digits_with_underscores ds"
  by (induction ds rule: digits_with_underscores.induct) (auto simp: is_decimal_def)

lemma no_space_strip:
  assumes "list_all (\<lambda>c. \<not> is_space c) s"
  shows "strip s = s"
proof -
  have "dropWhile is_space s = s" using assms by (cases s) auto
  moreover have "list_all (\<lambda>c. \<not> is_space c) (rev s)" using assms by simp
  then have "dropWhile is_space (rev s) = rev s" by (cases "rev s") auto
  ultimately show ?thesis by (simp add: strip_def strip_if_def lstrip_if_def rstrip_if_def)
qed

lemma decimal_not_space: "is_decimal c \<Longrightarrow> \<not> is_space c"
  by (auto simp: is_decimal_def is_space_def)

text \<open>The integers that \<open>int\<close> does not refuse for their length.\<close>

definition short_int :: "int \<Rightarrow> bool" where
  "short_int i \<longleftrightarrow> length (digits_of (nat \<bar>i\<bar>)) \<le> 4300"

lemma short_intI: "\<bar>i\<bar> < 10 ^ 20 \<Longrightarrow> short_int i"
  using length_digits_of [of "nat \<bar>i\<bar>" 20] unfolding short_int_def by (simp add: nat_less_iff)

lemma int_of_digits:
  assumes "length (digits_of n) \<le> 4300"
  shows "int_of_str (digits_of n) = Some (int n)" "int_of_str (dash # digits_of n) = Some (- int n)"
proof -
  let ?ds = "digits_of n"
  have dec: "list_all is_decimal ?ds" by (rule digits_of_decimal)
  have "list_all (\<lambda>c. \<not> is_space c) ?ds" using dec by (rule list.pred_mono_strong) (simp add: decimal_not_space)
  then have plain: "strip ?ds = ?ds" "strip (dash # ?ds) = dash # ?ds"
    by (intro no_space_strip; simp add: is_space_def)+
  have lead: "hd ?ds \<noteq> dash" "hd ?ds \<noteq> plus"
    using dec by (cases ?ds; simp add: is_decimal_def)+
  note parts = decimals_filter [OF dec] decimals_syntax [OF dec] assms
  show "int_of_str ?ds = Some (int n)" using plain(1) lead parts by (simp add: int_of_str_def Let_def)
  show "int_of_str (dash # ?ds) = Some (- int n)" using plain(2) parts by (simp add: int_of_str_def Let_def)
qed

lemma int_of_str_of_int [simp]: "short_int i \<Longrightarrow> int_of_str (str_of_int i) = Some i"
  using int_of_digits [of "nat i"] int_of_digits [of "nat (- i)"]
  by (cases "i < 0") (simp_all add: short_int_def str_of_int_def)

lemma str_of_int_chars: "c \<in> set (str_of_int i) \<Longrightarrow> is_decimal c \<or> c = dash"
  using digits_of_decimal [of "nat i"] digits_of_decimal [of "nat (- i)"]
  by (auto simp: str_of_int_def list_all_iff split: if_splits)

lemma colon_not_in_str_of_int [simp]: "colon \<notin> set (str_of_int i)"
  using str_of_int_chars [of colon i] by (auto simp: is_decimal_def)

end
