(* ===== verification/DashboardInvariants.thy ===== *)
theory DashboardInvariants
  imports DashboardAuth NumberTexts
begin

text \<open>
  What the endpoints keep of the dashboard's tables. Each changes them through the six updates of the
  repository only, so an invariant of these is kept by every request: the locale \<open>dashboard_invariant\<close>. It is
  interpreted for the session versions, which only grow and stay while nobody signs the user out, and for
  the accounts.
\<close>

section \<open>Transactions\<close>

lemma in_transaction_tables:
  "ds_tables (snd (in_transaction op s)) = ds_tables s
   \<or> (\<exists>a. fst (op (ds_tables s)) = Inr a) \<and> ds_tables (snd (in_transaction op s)) = snd (op (ds_tables s))"
  by (auto simp: in_transaction_def Let_def split: list.splits option.splits sum.splits prod.splits)

lemma in_transaction_done:
  "in_transaction op s = (Inr a, s') \<Longrightarrow> fst (op (ds_tables s)) = Inr a \<and> ds_tables s' = snd (op (ds_tables s))"
  by (auto simp: in_transaction_def Let_def split: list.splits option.splits sum.splits prod.splits)

lemma in_transaction_calm:
  "ds_faults s = [] \<Longrightarrow> op (ds_tables s) = (Inr a, t) \<Longrightarrow> in_transaction op s = (Inr a, s\<lparr>ds_tables := t\<rparr>)"
  by (simp add: in_transaction_def)

lemma select_tables [simp]: "ds_tables (snd (select q s)) = ds_tables s"
  using in_transaction_tables [of "\<lambda>t. (Inr (q t), t)" s] by (auto simp: select_def)

lemma select_done: "select q s = (Inr a, s') \<Longrightarrow> a = q (ds_tables s) \<and> ds_tables s' = ds_tables s"
  using in_transaction_done [of "\<lambda>t. (Inr (q t), t)" s a s'] by (simp add: select_def)

lemma select_same: "select q s = (r, s') \<Longrightarrow> ds_tables s' = ds_tables s"
  using select_tables [of q s] by simp

lemma select_calm: "ds_faults s = [] \<Longrightarrow> select q s = (Inr (q (ds_tables s)), s)"
  by (simp add: select_def in_transaction_def)

lemma update_tables_cases: "ds_tables (snd (update_tables f s)) \<in> {ds_tables s, f (ds_tables s)}"
  using in_transaction_tables [of "\<lambda>t. (Inr (), f t)" s] by (auto simp: update_tables_def)

lemma update_tables_done: "update_tables f s = (Inr a, s') \<Longrightarrow> ds_tables s' = f (ds_tables s)"
  using in_transaction_done [of "\<lambda>t. (Inr (), f t)" s a s'] by (simp add: update_tables_def)

lemmas repository_defs = get_dashboard_user_by_email_def get_dashboard_user_session_version_def
  rotate_dashboard_user_session_def count_dashboard_users_def create_dashboard_user_if_eligible_def
  reset_dashboard_user_password_def count_recent_login_failures_def record_login_failure_def clear_login_failures_def

section \<open>The contract\<close>

locale dashboard_invariant =
  fixes env :: dash_env and keeps :: "dash_tables \<Rightarrow> bool" and may :: "dash_event \<Rightarrow> bool"
  assumes signed_up: "keeps t \<Longrightarrow> may (Sign_Up now uid salt email pw) \<Longrightarrow>
      keeps (snd (sign_up uid email pw_hash (dashboard_allow_multiple_signups env) t))"
    and signed_out: "keeps t \<Longrightarrow> may (Sign_Out (Some v)) \<Longrightarrow> dashboard_session_cookie_user_id env v = Done (Some uid) \<Longrightarrow>
      keeps (rotate_user uid t)"
    and password_reset: "keeps t \<Longrightarrow> may (Password_Reset email pw_hash) \<Longrightarrow> keeps (snd (reset_password email pw_hash t))"
    and failure_added: "keeps t \<Longrightarrow> may (Sign_In now a) \<Longrightarrow> keeps (add_failure (attempt_key a) LOGIN_RATE_LIMIT_WINDOW_SECONDS t)"
    and failures_forgotten: "keeps t \<Longrightarrow> keeps (forget_failures key t)"
    and time_passed: "keeps t \<Longrightarrow> 0 \<le> d \<Longrightarrow> keeps (t\<lparr>dt_now := dt_now t + d\<rparr>)"
begin

lemma kept_login_step:
  assumes kept: "keeps (ds_tables s)" and may_sign_in: "may (Sign_In now a)"
  shows "keeps (ds_tables (snd (login_step env now a p s)))"
proof (cases p)
  case (Deciding user)
  have "keeps (ds_tables (note_login_failure (attempt_key a) s))" "keeps (ds_tables (drop_login_failures (attempt_key a) s))"
    using update_tables_cases kept failure_added [OF kept may_sign_in] failures_forgotten
    by (metis (no_types) note_login_failure_def drop_login_failures_def repository_defs insertE singletonD)+
  then show ?thesis using kept Deciding
    by (auto simp: decide_login_def Let_def split: option.splits outcome.splits bool.splits)
qed (use kept in \<open>auto simp: check_login_rate_limit_def repository_defs dest!: select_same split: prod.splits sum.splits bool.splits\<close>)

lemma kept_login:
  assumes kept: "keeps (ds_tables s)" and may_sign_in: "may (Sign_In now a)"
  shows "keeps (ds_tables (snd (login_dashboard_user env now a s)))"
proof -
  obtain p1 s1 where one: "login_step env now a Checking_Limit s = (p1, s1)" by force
  obtain p2 s2 where two: "login_step env now a p1 s1 = (p2, s2)" by force
  have "keeps (ds_tables s1)" using kept_login_step [OF kept may_sign_in, of Checking_Limit] one by simp
  from kept_login_step [OF this may_sign_in, of p1] have "keeps (ds_tables s2)" using two by simp
  from kept_login_step [OF this may_sign_in, of p2] show ?thesis using one two by (simp add: login_dashboard_user_def)
qed

lemma kept_signup:
  assumes "keeps (ds_tables s)" "may (Sign_Up now uid salt email pw)"
  shows "keeps (ds_tables (snd (signup_dashboard_user env now uid salt email pw s)))"
proof (cases "hash_password (de_kdf env) salt pw")
  case (Done pw_hash)
  have "ds_tables (snd (create_dashboard_user_if_eligible uid email pw_hash (dashboard_allow_multiple_signups env) s))
      \<in> {ds_tables s, snd (sign_up uid email pw_hash (dashboard_allow_multiple_signups env) (ds_tables s))}"
    using in_transaction_tables by (fastforce simp: repository_defs)
  then have "keeps (ds_tables (snd (create_dashboard_user_if_eligible uid email pw_hash (dashboard_allow_multiple_signups env) s)))"
    using assms signed_up by auto
  then show ?thesis using Done
    by (auto simp: signup_dashboard_user_def split: prod.splits sum.splits signup_refusal.splits)
qed (simp add: signup_dashboard_user_def assms)

lemma kept_logout:
  assumes "keeps (ds_tables s)" "may (Sign_Out cookie_value)"
  shows "keeps (ds_tables (snd (logout_dashboard env cookie_value s)))"
proof (cases cookie_value)
  case (Some v)
  have "keeps (ds_tables (snd (rotate_dashboard_user_session uid s)))"
    if "dashboard_session_cookie_user_id env v = Done (Some uid)" for uid
    using update_tables_cases [of "rotate_user uid" s] assms Some signed_out that by (auto simp: repository_defs)
  then show ?thesis using assms(1) Some
    by (auto simp: logout_dashboard_def split: outcome.splits option.splits prod.splits sum.splits)
qed (simp add: logout_dashboard_def assms)

lemma kept_reset:
  assumes "keeps (ds_tables s)" "may (Password_Reset email pw_hash)"
  shows "keeps (ds_tables (snd (reset_dashboard_user_password email pw_hash s)))"
  using in_transaction_tables [of "reset_password email pw_hash" s] assms password_reset by (auto simp: repository_defs)

lemma kept_check: "keeps (ds_tables s) \<Longrightarrow> keeps (ds_tables (snd (verify_dashboard_session_cookie env now v s)))"
  by (auto simp: verify_dashboard_session_cookie_def repository_defs Let_def
      dest!: select_same split: option.splits outcome.splits bool.splits prod.splits sum.splits db_error.splits)

lemma kept_step: "keeps (ds_tables s) \<Longrightarrow> may event \<Longrightarrow> keeps (ds_tables (dash_step env event s))"
  by (cases event) (simp_all add: kept_login kept_signup kept_logout kept_reset kept_check time_passed)

lemma kept_run: "keeps (ds_tables s) \<Longrightarrow> list_all may events \<Longrightarrow> keeps (ds_tables (dash_run env events s))"
proof (induction events arbitrary: s)
  case (Cons event events)
  then show ?case using kept_step [of s event] by (simp add: dash_run_def)
qed (simp add: dash_run_def)

end

section \<open>Session versions\<close>

lemma find_map_same: "(\<And>u. P (f u) = P u) \<Longrightarrow> find P (map f us) = map_option f (find P us)"
  by (induction us) auto

lemma find_append: "find P (xs @ ys) = (case find P xs of None \<Rightarrow> find P ys | Some x \<Rightarrow> Some x)"
  by (induction xs) auto

lemma version_rotated:
  "session_version_of uid (rotate_user other t) =
     map_option (\<lambda>v. if uid = other then v + 1 else v) (session_version_of uid t)"
  by (auto simp: session_version_of_def rotate_user_def find_map_same option.map_comp comp_def find_Some_iff intro!: option.map_cong0)

lemma version_signed_up:
  "session_version_of uid t = Some v \<Longrightarrow> session_version_of uid (snd (sign_up new email pw_hash multiple t)) = Some v"
  by (auto simp: session_version_of_def sign_up_def find_append Let_def split: option.splits)

lemma version_failures [simp]:
  "session_version_of uid (add_failure key w t) = session_version_of uid t"
  "session_version_of uid (forget_failures key t) = session_version_of uid t"
  "session_version_of uid (t\<lparr>dt_now := n\<rparr>) = session_version_of uid t"
  by (simp_all add: session_version_of_def add_failure_def forget_failures_def)

lemma version_reset:
  "session_version_of uid (snd (reset_password email pw_hash t)) =
     (if user_by_email email t = None then session_version_of uid t
      else map_option (\<lambda>u. if du_email u = email then du_session_version u + 1 else du_session_version u)
        (find (\<lambda>u. du_id u = uid) (dt_users t)))"
  by (auto simp: session_version_of_def reset_password_def find_map_same option.map_comp comp_def if_distrib cong: if_cong)

definition version_at_least :: "str \<Rightarrow> int \<Rightarrow> dash_tables \<Rightarrow> bool" where
  "version_at_least uid v t \<longleftrightarrow> (case session_version_of uid t of None \<Rightarrow> False | Some w \<Rightarrow> v \<le> w)"

interpretation versions: dashboard_invariant e "version_at_least uid v" "\<lambda>_. True" for e uid v
proof
  show "version_at_least uid v t \<Longrightarrow> version_at_least uid v (snd (sign_up new email pw_hash (dashboard_allow_multiple_signups e) t))"
    for t new email pw_hash
    by (cases "session_version_of uid t") (auto simp: version_at_least_def version_signed_up)
  show "version_at_least uid v t \<Longrightarrow> version_at_least uid v (snd (reset_password email pw_hash t))" for t email pw_hash
    unfolding version_at_least_def version_reset by (auto simp: session_version_of_def split: option.splits if_splits)
qed (auto simp: version_at_least_def version_rotated split: option.splits)

text \<open>What leaves a user's sessions alone: everything but signing out with a cookie of theirs and a reset of
  their password.\<close>

definition spares :: "dash_env \<Rightarrow> str \<Rightarrow> str \<Rightarrow> dash_event \<Rightarrow> bool" where
  "spares e uid email event =
     (case event of
        Sign_Out (Some v) \<Rightarrow> dashboard_session_cookie_user_id e v \<noteq> Done (Some uid)
      | Password_Reset other pw_hash \<Rightarrow> other \<noteq> email
      | _ \<Rightarrow> True)"

definition user_is :: "str \<Rightarrow> str \<Rightarrow> int \<Rightarrow> dash_tables \<Rightarrow> bool" where
  "user_is uid email v t \<longleftrightarrow>
     map_option (\<lambda>u. (du_email u, du_session_version u)) (find (\<lambda>u. du_id u = uid) (dt_users t)) = Some (email, v)"

lemma user_is_version: "user_is uid email v t \<Longrightarrow> session_version_of uid t = Some v"
  by (auto simp: user_is_def session_version_of_def)

interpretation spared: dashboard_invariant e "user_is uid email v" "spares e uid email" for e uid email v
proof
  show "user_is uid email v (snd (sign_up new other pw_hash (dashboard_allow_multiple_signups e) t))"
    if "user_is uid email v t" for t new other pw_hash
    using that by (auto simp: user_is_def sign_up_def find_append Let_def)
  show "user_is uid email v (rotate_user other t)"
    if "user_is uid email v t" "spares e uid email (Sign_Out (Some w))" "dashboard_session_cookie_user_id e w = Done (Some other)" for t w other
  proof -
    have "uid \<noteq> other" using that(2,3) by (auto simp: spares_def)
    then show ?thesis using that(1) by (auto simp: user_is_def rotate_user_def find_map_same find_Some_iff)
  qed
  show "user_is uid email v (snd (reset_password other pw_hash t))"
    if "user_is uid email v t" "spares e uid email (Password_Reset other pw_hash)" for t other pw_hash
    using that by (auto simp: user_is_def spares_def reset_password_def find_map_same)
qed (auto simp: user_is_def add_failure_def forget_failures_def)

section \<open>Accounts\<close>

definition accounts_ok :: "dash_env \<Rightarrow> dash_tables \<Rightarrow> bool" where
  "accounts_ok e t \<longleftrightarrow> distinct (map du_email (dt_users t))
     \<and> (dashboard_allow_multiple_signups e \<or> length (dt_users t) \<le> 1)"

lemma user_by_email_None: "user_by_email email t = None \<longleftrightarrow> email \<notin> set (map du_email (dt_users t))"
  by (auto simp: user_by_email_def find_None_iff)

lemma emails_kept [simp]:
  "map (du_email \<circ> (\<lambda>u. if P u then u\<lparr>du_session_version := f u\<rparr> else u)) us = map du_email us"
  "map (du_email \<circ> (\<lambda>u. if P u then u\<lparr>du_password_hash := h, du_session_version := f u\<rparr> else u)) us = map du_email us"
  by auto

interpretation accounts: dashboard_invariant e "accounts_ok e" "\<lambda>_. True" for e
proof
  show "accounts_ok e (snd (sign_up new email pw_hash (dashboard_allow_multiple_signups e) t))"
    if "accounts_ok e t" for t new email pw_hash
    using that by (auto simp: accounts_ok_def sign_up_def Let_def user_by_email_None)
qed (auto simp: accounts_ok_def rotate_user_def reset_password_def add_failure_def forget_failures_def)

end
