(* ===== verification/SessionCookies.thy ===== *)
theory SessionCookies
  imports DashboardInvariants
begin

text \<open>
  What a session cookie is good for: it is accepted for seven days from its login, until its user signs out or
  their password is reset, and never after; and two cookies the code does not expect.
\<close>

section \<open>Reading a cookie\<close>

lemma rsplit_once_last: "c \<notin> set b \<Longrightarrow> rsplit_once c (a @ c # b) = Some (a, b)"
  by (simp add: rsplit_once_def partition_at_split [of c "rev b" "rev a"])

definition env_ok :: "dash_env \<Rightarrow> bool" where
  "env_ok e \<longleftrightarrow> (\<forall>k p. all_ascii (de_hmac e k p) \<and> colon \<notin> set (de_hmac e k p))"

definition id_ok :: "dash_env \<Rightarrow> str \<Rightarrow> bool" where
  "id_ok e uid \<longleftrightarrow> de_uuid e uid = Some uid \<and> colon \<notin> set uid"

lemma cookie_parses:
  assumes "id_ok e uid" "short_int version" "short_int issued_at" "colon \<notin> set signature"
  shows "parse_dashboard_session_cookie e (session_payload uid version issued_at @ [colon] @ signature)
    = Some (uid, version, issued_at, signature)"
proof -
  have "rsplit_once colon (session_payload uid version issued_at @ colon # signature)
      = Some (session_payload uid version issued_at, signature)"
    using assms(4) by (rule rsplit_once_last)
  moreover have "split_max 2 colon (session_payload uid version issued_at) = [uid, str_of_int version, str_of_int issued_at]"
    using assms(1) by (simp add: numeral_2_eq_2 session_payload_def id_ok_def partition_at_split partition_at_none)
  ultimately show ?thesis using assms by (simp add: parse_dashboard_session_cookie_def id_ok_def)
qed

lemma compare_digest_same: "all_ascii s \<Longrightarrow> compare_digest s s = Done True"
  by (simp add: compare_digest_def)

text \<open>When a cookie is accepted: signed, in time, and of the session version in the database.\<close>

lemma verified:
  assumes "verify_dashboard_session_cookie e now v s = (Checked True, s')"
  obtains uid version issued_at signature where
    "parse_dashboard_session_cookie e v = Some (uid, version, issued_at, signature)"
    "dashboard_session_cookie_user_id e v = Done (Some uid)"
    "session_version_of uid (ds_tables s) = Some version"
  using assms
  by (auto simp: verify_dashboard_session_cookie_def dashboard_session_cookie_user_id_def repository_defs Let_def
      dest!: select_done split: option.splits outcome.splits bool.splits prod.splits sum.splits db_error.splits if_splits)

lemma own_cookie_checked:
  assumes "env_ok e" "id_ok e (du_id u)" "short_int (du_session_version u)" "short_int \<lfloor>t\<rfloor>" "ds_faults s = []"
    "session_version_of (du_id u) (ds_tables s) = Some (du_session_version u)"
  shows "verify_dashboard_session_cookie e now (dashboard_session_cookie_value e t u) s
    = (Checked (0 \<le> \<lfloor>now\<rfloor> - \<lfloor>t\<rfloor> \<and> \<lfloor>now\<rfloor> - \<lfloor>t\<rfloor> \<le> SESSION_MAX_AGE_SECONDS), s)"
proof -
  have "all_ascii (dashboard_session_cookie_signature e (du_id u) (du_session_version u) \<lfloor>t\<rfloor>)"
    "colon \<notin> set (dashboard_session_cookie_signature e (du_id u) (du_session_version u) \<lfloor>t\<rfloor>)"
    using assms(1) by (simp_all add: env_ok_def dashboard_session_cookie_signature_def)
  note sig = this
  have "parse_dashboard_session_cookie e (dashboard_session_cookie_value e t u)
      = Some (du_id u, du_session_version u, \<lfloor>t\<rfloor>, dashboard_session_cookie_signature e (du_id u) (du_session_version u) \<lfloor>t\<rfloor>)"
    unfolding dashboard_session_cookie_value_def by (rule cookie_parses) (use assms sig in auto)
  then show ?thesis
    using sig(1) assms(5,6)
    by (simp add: verify_dashboard_session_cookie_def compare_digest_same repository_defs select_calm)
qed

section \<open>Signing out\<close>

lemma signed_out_version:
  assumes "fst (logout_dashboard e (Some w) s) = (Reply 200 (Session_Answer False None), Delete_Cookie)"
    "dashboard_session_cookie_user_id e w = Done (Some uid)" "session_version_of uid (ds_tables s) = Some v"
  shows "version_at_least uid (v + 1) (ds_tables (snd (logout_dashboard e (Some w) s)))"
  using assms
  by (auto simp: logout_dashboard_def repository_defs version_at_least_def version_rotated
      dest!: update_tables_done split: prod.splits sum.splits)

text \<open>C9: Once a user has signed out, no cookie of theirs that was accepted before is ever accepted again, on
  any device, whatever happens in between and whatever the database does.\<close>

theorem sign_out_revokes:
  assumes accepted: "fst (verify_dashboard_session_cookie e now v s) = Checked True"
    and same_user: "dashboard_session_cookie_user_id e w = dashboard_session_cookie_user_id e v"
    and out: "fst (logout_dashboard e (Some w) (dash_run e before s)) = (Reply 200 (Session_Answer False None), Delete_Cookie)"
  shows "fst (verify_dashboard_session_cookie e later v (dash_run e (before @ Sign_Out (Some w) # after_it) s)) \<noteq> Checked True"
proof
  let ?s1 = "dash_run e before s" and ?s3 = "dash_run e (before @ Sign_Out (Some w) # after_it) s"
  assume "fst (verify_dashboard_session_cookie e later v ?s3) = Checked True"
  then have again: "verify_dashboard_session_cookie e later v ?s3 = (Checked True, snd (verify_dashboard_session_cookie e later v ?s3))"
    by (simp add: prod_eq_iff)
  have first: "verify_dashboard_session_cookie e now v s = (Checked True, snd (verify_dashboard_session_cookie e now v s))"
    using accepted by (simp add: prod_eq_iff)
  obtain uid version issued_at sig where cookie:
    "parse_dashboard_session_cookie e v = Some (uid, version, issued_at, sig)"
    "dashboard_session_cookie_user_id e v = Done (Some uid)" "session_version_of uid (ds_tables s) = Some version"
    by (rule verified [OF first])
  have at_end: "session_version_of uid (ds_tables ?s3) = Some version"
    using verified [OF again] cookie(1) by force
  have "version_at_least uid version (ds_tables s)" using cookie(3) by (simp add: version_at_least_def)
  then have "version_at_least uid version (ds_tables ?s1)" by (rule versions.kept_run) (simp add: list_all_iff)
  then obtain v1 where v1: "session_version_of uid (ds_tables ?s1) = Some v1" "version \<le> v1"
    by (auto simp: version_at_least_def split: option.splits)
  have "version_at_least uid (v1 + 1) (ds_tables (dash_step e (Sign_Out (Some w)) ?s1))"
    using signed_out_version [OF out _ v1(1)] cookie(2) same_user by simp
  then have "version_at_least uid (v1 + 1) (ds_tables (dash_run e after_it (dash_step e (Sign_Out (Some w)) ?s1)))"
    by (rule versions.kept_run) (simp add: list_all_iff)
  then have "version_at_least uid (v1 + 1) (ds_tables ?s3)" by (simp add: dash_run_def)
  then show False using at_end v1(2) by (simp add: version_at_least_def)
qed

definition example_env :: dash_env where
  "example_env = \<lparr>de_hmac = (\<lambda>k p. lit ''5e55'' @ k), de_uuid = Some, de_kdf = (\<lambda>p salt n. lit ''ab'' @ hex2 (sum_list p mod 256)),
     de_wide_digit = (\<lambda>_. False), de_secret = lit ''k'', de_ingest_key = None, de_allow_signups = None, de_cookie_secure = None\<rparr>"

definition example_user :: dashboard_user where
  "example_user = \<lparr>du_id = lit ''u1'', du_email = lit ''a@b.co'', du_password_hash = lit ''pbkdf2_sha256$1$s$ab26'', du_session_version = 1\<rparr>"

definition example_dash :: dash_store where
  "example_dash = \<lparr>ds_tables = \<lparr>dt_users = [example_user], dt_failures = [], dt_personas = [], dt_now = 0\<rparr>, ds_faults = []\<rparr>"

definition example_attempt :: "str \<Rightarrow> login_attempt" where
  "example_attempt pw = \<lparr>la_client = Some (lit ''203.0.113.9''), la_email = lit ''a@b.co'', la_password = pw\<rparr>"

definition example_cookie :: str where
  "example_cookie = dashboard_session_cookie_value example_env 100 example_user"

theorem sign_out_revokes_witness:
  "fst (verify_dashboard_session_cookie example_env 130 example_cookie
     (dash_run example_env ([Seconds_Pass 5] @ Sign_Out (Some example_cookie) # [Trouble [None]]) example_dash)) \<noteq> Checked True"
proof (rule sign_out_revokes)
  show "fst (verify_dashboard_session_cookie example_env 120 example_cookie example_dash) = Checked True" by code_simp
  show "fst (logout_dashboard example_env (Some example_cookie) (dash_run example_env [Seconds_Pass 5] example_dash)) =
      (Reply 200 (Session_Answer False None), Delete_Cookie)" by code_simp
qed simp

section \<open>Staying signed in\<close>

lemma login_signs_in:
  assumes "login_dashboard_user e now a s = (Answered reply (Set_Cookie c secure), s1)"
  obtains u where "user_by_email (la_email a) (ds_tables s) = Some u" "c = dashboard_session_cookie_value e now u"
    "dt_users (ds_tables s1) = dt_users (ds_tables s)"
proof -
  obtain p1 s2 where one: "login_step e now a Checking_Limit s = (p1, s2)" by force
  obtain p2 s3 where two: "login_step e now a p1 s2 = (p2, s3)" by force
  have last_step: "login_step e now a p2 s3 = (Answered reply (Set_Cookie c secure), s1)"
    using assms one two by (simp add: login_dashboard_user_def)
  have p1: "p1 = Looking_Up \<and> ds_tables s2 = ds_tables s \<or> (\<exists>r. p1 = Answered r Keep_Cookie)"
    using one by (auto simp: check_login_rate_limit_def repository_defs dest!: select_same split: prod.splits sum.splits bool.splits if_splits)
  have p2: "p2 = Deciding (user_by_email (la_email a) (ds_tables s)) \<and> ds_tables s3 = ds_tables s \<or> (\<exists>r. p2 = Answered r Keep_Cookie)"
    using p1 two by (auto simp: repository_defs dest!: select_done split: prod.splits sum.splits)
  have s3: "p2 = Deciding (user_by_email (la_email a) (ds_tables s))" "ds_tables s3 = ds_tables s"
    using p2 last_step by auto
  then obtain u where u: "user_by_email (la_email a) (ds_tables s) = Some u" "s1 = drop_login_failures (attempt_key a) s3"
      "c = dashboard_session_cookie_value e now u"
    using last_step
    by (auto simp: decide_login_def set_dashboard_session_cookie_def Let_def split: option.splits outcome.splits bool.splits)
  have "dt_users (ds_tables s1) = dt_users (ds_tables s)"
    using update_tables_cases [of "forget_failures (attempt_key a)" s3] s3(2) u(2)
    by (auto simp: drop_login_failures_def repository_defs forget_failures_def)
  then show ?thesis using that u by blast
qed

lemma find_by_id:
  "distinct (map du_id us) \<Longrightarrow> u \<in> set us \<Longrightarrow> find (\<lambda>x. du_id x = du_id u) us = Some u"
  by (induction us) auto

lemma user_by_email_Some: "user_by_email email t = Some u \<Longrightarrow> u \<in> set (dt_users t) \<and> du_email u = email"
  by (auto simp: user_by_email_def find_Some_iff)

text \<open>C20: The cookie of a login is accepted on every request of the seven days after it, and not after them, as
  long as nobody signs its user out and their password is not reset; other users, failed logins and database
  trouble that has passed make no difference.\<close>

theorem session_lasts:
  assumes login: "login_dashboard_user e t a s = (Answered reply (Set_Cookie c secure), s1)"
    and user: "user_by_email (la_email a) (ds_tables s) = Some u"
    and table: "distinct (map du_id (dt_users (ds_tables s)))" "id_ok e (du_id u)" "short_int (du_session_version u)"
    and env: "env_ok e" "short_int \<lfloor>t\<rfloor>"
    and spared: "list_all (spares e (du_id u) (du_email u)) events"
  shows "fst (verify_dashboard_session_cookie e now c ((dash_run e events s1)\<lparr>ds_faults := []\<rparr>))
    = Checked (0 \<le> \<lfloor>now\<rfloor> - \<lfloor>t\<rfloor> \<and> \<lfloor>now\<rfloor> - \<lfloor>t\<rfloor> \<le> SESSION_MAX_AGE_SECONDS)"
proof -
  have c: "c = dashboard_session_cookie_value e t u" and users: "dt_users (ds_tables s1) = dt_users (ds_tables s)"
    using login_signs_in [OF login] user by (metis option.inject)+
  have "find (\<lambda>x. du_id x = du_id u) (dt_users (ds_tables s1)) = Some u"
    using find_by_id [OF table(1)] user_by_email_Some [OF user] users by simp
  then have "user_is (du_id u) (du_email u) (du_session_version u) (ds_tables s1)" by (simp add: user_is_def)
  from spared.kept_run [OF this spared]
  have "session_version_of (du_id u) (ds_tables (dash_run e events s1)) = Some (du_session_version u)"
    by (rule user_is_version)
  then show ?thesis unfolding c using own_cookie_checked [OF env(1) table(2,3) env(2)] by simp
qed

lemma example_env_ok: "env_ok (example_env\<lparr>de_hmac := \<lambda>k p. lit ''5e55''\<rparr>)"
  by (simp add: env_ok_def all_ascii_def lit_Cons)

theorem session_lasts_witness:
  "fst (verify_dashboard_session_cookie (example_env\<lparr>de_hmac := \<lambda>k p. lit ''5e55''\<rparr>) 604900
      (lit ''u1:1:100:5e55'') ((dash_run (example_env\<lparr>de_hmac := \<lambda>k p. lit ''5e55''\<rparr>) [Seconds_Pass 9, Trouble [None], Sign_Out None] example_dash)\<lparr>ds_faults := []\<rparr>))
    = Checked True"
proof -
  let ?e = "example_env\<lparr>de_hmac := \<lambda>k p. lit ''5e55''\<rparr>"
  have "fst (verify_dashboard_session_cookie ?e 604900 (lit ''u1:1:100:5e55'')
      ((dash_run ?e [Seconds_Pass 9, Trouble [None], Sign_Out None] example_dash)\<lparr>ds_faults := []\<rparr>))
    = Checked (0 \<le> \<lfloor>604900 :: rat\<rfloor> - \<lfloor>100 :: rat\<rfloor> \<and> \<lfloor>604900 :: rat\<rfloor> - \<lfloor>100 :: rat\<rfloor> \<le> SESSION_MAX_AGE_SECONDS)"
  proof (rule session_lasts [OF _ _ _ _ _ example_env_ok])
    show "login_dashboard_user ?e 100 (example_attempt (lit ''ab12'')) example_dash =
        (Answered (Reply 200 (Session_Answer True (Some (lit ''a@b.co'')))) (Set_Cookie (lit ''u1:1:100:5e55'') False), example_dash)"
      by code_simp
    show "user_by_email (la_email (example_attempt (lit ''ab12''))) (ds_tables example_dash) = Some example_user" by code_simp
    show "distinct (map du_id (dt_users (ds_tables example_dash)))" by code_simp
    show "id_ok ?e (du_id example_user)" by code_simp
    show "short_int (du_session_version example_user)" by code_simp
    show "short_int \<lfloor>100 :: rat\<rfloor>" by code_simp
    show "list_all (spares ?e (du_id example_user) (du_email example_user)) [Seconds_Pass 9, Trouble [None], Sign_Out None]" by code_simp
  qed
  then show ?thesis by (simp add: SESSION_MAX_AGE_SECONDS_def)
qed

section \<open>Texts that are not ASCII\<close>

text \<open>A cookie in time whose signature holds a character above ASCII, such as a byte of the header that arrives
  as Latin-1, is not refused: the comparison raises, and the request ends as an internal error. The same
  happens to every request with a key once the configured ingest key is not ASCII, the right key included.\<close>

theorem non_ascii_crashes:
  assumes "rq_cookie r = Some v" "parse_dashboard_session_cookie e v = Some (uid, version, issued_at, signature)"
    "0 \<le> \<lfloor>now\<rfloor> - issued_at" "\<lfloor>now\<rfloor> - issued_at \<le> SESSION_MAX_AGE_SECONDS" "\<not> all_ascii signature"
    "de_ingest_key e = Some k" "\<not> all_ascii k" "rq_api_key r = Some provided" "provided \<noteq> []"
  shows "require_dashboard_auth e now r s = (Some (Crash TypeError), s) \<and> require_ingest_api_key e r = Some (Crash TypeError)"
proof -
  have "k \<noteq> []" using assms(7) by (auto simp: all_ascii_def)
  then show ?thesis using assms
    by (simp add: require_dashboard_auth_def dashboard_request_is_authenticated_def verify_dashboard_session_cookie_def
        compare_digest_def require_ingest_api_key_def)
qed

definition odd_request :: dash_request where
  "odd_request = \<lparr>rq_cookie = Some (lit ''u1:1:100:'' @ [233]), rq_client = None, rq_api_key = Some [233],
     rq_path = lit ''/dashboard'', rq_query = []\<rparr>"

theorem non_ascii_crashes_witness:
  "require_dashboard_auth (example_env\<lparr>de_ingest_key := Some [233]\<rparr>) 150 odd_request example_dash = (Some (Crash TypeError), example_dash)
   \<and> require_ingest_api_key (example_env\<lparr>de_ingest_key := Some [233]\<rparr>) odd_request = Some (Crash TypeError)"
proof (rule non_ascii_crashes)
  show "rq_cookie odd_request = Some (lit ''u1:1:100:'' @ [233])" by (simp add: odd_request_def)
  show "parse_dashboard_session_cookie (example_env\<lparr>de_ingest_key := Some [233]\<rparr>) (lit ''u1:1:100:'' @ [233])
      = Some (lit ''u1'', 1, 100, [233])" by code_simp
  show "\<not> all_ascii [233]" "\<not> all_ascii [233]" by (simp_all add: all_ascii_def)
  show "[233] \<noteq> ([] :: str)" by simp
qed (simp_all add: odd_request_def SESSION_MAX_AGE_SECONDS_def)

section \<open>One account\<close>

text \<open>Unless several accounts are allowed, there is never more than one, and no email address ever has two,
  whoever signs up at the same time.\<close>

theorem one_account:
  "let us = dt_users (ds_tables (dash_run e events (s\<lparr>ds_tables := (ds_tables s)\<lparr>dt_users := []\<rparr>\<rparr>)))
   in distinct (map du_email us) \<and> (dashboard_allow_multiple_signups e \<or> length us \<le> 1)"
proof -
  have "accounts_ok e (ds_tables (dash_run e events (s\<lparr>ds_tables := (ds_tables s)\<lparr>dt_users := []\<rparr>\<rparr>)))"
    by (rule accounts.kept_run) (simp_all add: accounts_ok_def list_all_iff)
  then show ?thesis by (simp add: accounts_ok_def Let_def)
qed

end
