(* ===== verification/LoginLimit.thy ===== *)
theory LoginLimit
  imports SessionCookies
begin

text \<open>
  The rate limit on logins when several run at the same time. A login that was let past the limit may fail
  later, so what the limit bounds is the failures in the last fifteen minutes together with the logins under way;
  and it is no limit while failures cannot be written down.
\<close>

section \<open>Logins at the same time\<close>

record login_system =
  ly_store :: dash_store
  ly_active :: "(nat \<times> login_attempt \<times> login_progress) list"

datatype login_event =
    Login_Arrives nat login_attempt
  | Login_Advances nat rat
  | Elsewhere dash_event

text \<open>At most \<open>n\<close> logins are served at a time; a login that has its answer leaves. \<open>Elsewhere\<close> is any other
  request, and time passing.\<close>

definition no_login :: "dash_event \<Rightarrow> bool" where
  "no_login event = (case event of Sign_In now a \<Rightarrow> False | _ \<Rightarrow> True)"

definition is_answered :: "login_progress \<Rightarrow> bool" where
  "is_answered p = (case p of Answered r c \<Rightarrow> True | _ \<Rightarrow> False)"

fun login_system_step :: "dash_env \<Rightarrow> nat \<Rightarrow> login_event \<Rightarrow> login_system \<Rightarrow> login_system" where
  "login_system_step e n (Login_Arrives i a) y =
     (if length (ly_active y) < n \<and> \<not> dict_has (ly_active y) i
      then y\<lparr>ly_active := ly_active y @ [(i, a, Checking_Limit)]\<rparr> else y)"
| "login_system_step e n (Login_Advances i now) y =
     (case dict_get (ly_active y) i of
        None \<Rightarrow> y
      | Some (a, p) \<Rightarrow>
          (case login_step e now a p (ly_store y) of
             (p', s') \<Rightarrow>
               \<lparr>ly_store = s',
                ly_active = (if is_answered p' then filter (\<lambda>kv. fst kv \<noteq> i) (ly_active y) else dict_put i (a, p') (ly_active y))\<rparr>))"
| "login_system_step e n (Elsewhere event) y =
     (if no_login event then y\<lparr>ly_store := dash_step e event (ly_store y)\<rparr> else y)"

definition login_system_run :: "dash_env \<Rightarrow> nat \<Rightarrow> login_event list \<Rightarrow> login_system \<Rightarrow> login_system" where
  "login_system_run e n events y = fold (login_system_step e n) events y"

section \<open>The bound\<close>

definition failures_now :: "str \<Rightarrow> dash_store \<Rightarrow> nat" where
  "failures_now key s = recent_failures key LOGIN_RATE_LIMIT_WINDOW_SECONDS (ds_tables s)"

text \<open>A login past the check: it may still fail.\<close>

definition let_past :: "str \<Rightarrow> nat \<times> login_attempt \<times> login_progress \<Rightarrow> bool" where
  "let_past key = (\<lambda>(i, a, p). attempt_key a = key \<and> p \<noteq> Checking_Limit)"

definition under_way :: "str \<Rightarrow> login_system \<Rightarrow> nat" where
  "under_way key y = length (filter (let_past key) (ly_active y))"

definition limit_inv :: "nat \<Rightarrow> str \<Rightarrow> login_system \<Rightarrow> bool" where
  "limit_inv n key y \<longleftrightarrow> distinct (dict_keys (ly_active y)) \<and> length (ly_active y) \<le> n
     \<and> failures_now key (ly_store y) + under_way key y < LOGIN_RATE_LIMIT_MAX_ATTEMPTS + n"

lemma length_filter_le: "(\<And>x. P x \<Longrightarrow> Q x) \<Longrightarrow> length (filter P xs) \<le> length (filter Q xs)"
  by (induction xs) (auto intro: le_SucI)

lemma failures_grow:
  "failures_now key (note_login_failure other s) \<le> failures_now key s + (if other = key then 1 else 0)"
proof -
  let ?t = "ds_tables s" and ?w = LOGIN_RATE_LIMIT_WINDOW_SECONDS
  have "recent_failures key ?w (add_failure other ?w ?t) \<le> recent_failures key ?w ?t + (if other = key then 1 else 0)"
    by (auto simp: recent_failures_def add_failure_def case_prod_unfold LOGIN_RATE_LIMIT_WINDOW_SECONDS_def
        intro!: length_filter_le le_SucI)
  then show ?thesis
    using update_tables_cases [of "add_failure other ?w" s]
    by (auto simp: failures_now_def note_login_failure_def repository_defs split: if_splits)
qed

interpretation failures: dashboard_invariant e "\<lambda>t. recent_failures key window t \<le> m" no_login for e key window m
proof
  show "recent_failures key window (snd (sign_up new email pw_hash (dashboard_allow_multiple_signups e) t)) \<le> m"
    if "recent_failures key window t \<le> m" for t new email pw_hash
    using that by (simp add: recent_failures_def sign_up_def Let_def)
  show "recent_failures key window (snd (reset_password email pw_hash t)) \<le> m"
    if "recent_failures key window t \<le> m" for t email pw_hash
    using that by (auto simp: recent_failures_def reset_password_def case_prod_unfold intro!: length_filter_le elim!: order_trans [rotated])
  show "recent_failures key window (forget_failures other t) \<le> m"
    if "recent_failures key window t \<le> m" for t other
    using that by (auto simp: recent_failures_def forget_failures_def case_prod_unfold intro!: length_filter_le elim!: order_trans [rotated])
  show "recent_failures key window (t\<lparr>dt_now := dt_now t + d\<rparr>) \<le> m"
    if "recent_failures key window t \<le> m" "0 \<le> d" for t d
    using that by (auto simp: recent_failures_def case_prod_unfold intro!: length_filter_le elim!: order_trans [rotated])
qed (auto simp: recent_failures_def rotate_user_def no_login_def)

lemma failures_forgotten: "failures_now key (drop_login_failures other s) \<le> failures_now key s"
proof -
  have "recent_failures key LOGIN_RATE_LIMIT_WINDOW_SECONDS (forget_failures other (ds_tables s)) \<le> failures_now key s"
    unfolding failures_now_def by (rule failures.failures_forgotten) simp
  then show ?thesis
    using update_tables_cases [of "forget_failures other" s] by (auto simp: failures_now_def drop_login_failures_def repository_defs)
qed

lemma failures_elsewhere: "no_login event \<Longrightarrow> failures_now key (dash_step e event s) \<le> failures_now key s"
  unfolding failures_now_def by (rule failures.kept_step) simp_all

subsection \<open>One login among the active ones\<close>

lemma dict_at:
  assumes "dict_get d i = Some x" "distinct (dict_keys d)"
  obtains us vs where "d = us @ (i, x) # vs" "\<And>y. dict_put i y d = us @ (i, y) # vs" "filter (\<lambda>kv. fst kv \<noteq> i) d = us @ vs"
proof -
  have "(i, x) \<in> set d" using assms(1) by (simp add: dict_get_def map_of_SomeD)
  then obtain us vs where d: "d = us @ (i, x) # vs" by (meson split_list)
  then have apart: "i \<notin> fst ` set us" "i \<notin> fst ` set vs" using assms(2) by (auto simp: dict_keys_def)
  have "dict_put i y (us @ (i, x) # vs) = us @ (i, y) # vs" for y
    using apart(1) by (induction us) (auto simp: dict_put_def)
  moreover have "filter (\<lambda>kv. fst kv \<noteq> i) us = us" "filter (\<lambda>kv. fst kv \<noteq> i) vs = vs"
    using apart by (auto simp: filter_id_conv image_iff)
  ultimately show ?thesis using that d by simp
qed

definition one_if :: "bool \<Rightarrow> nat" where "one_if b = (if b then 1 else 0)"

lemma login_advance:
  assumes "login_step e now a p s = (p', s')"
  shows "failures_now key s' + one_if (let_past key (i, a, p') \<and> \<not> is_answered p')
      \<le> failures_now key s + one_if (let_past key (i, a, p))
    \<or> p' = Looking_Up \<and> failures_now key s' < LOGIN_RATE_LIMIT_MAX_ATTEMPTS"
proof (cases p)
  case Checking_Limit
  then show ?thesis
    using assms
    by (auto simp: check_login_rate_limit_def repository_defs failures_now_def is_answered_def one_if_def let_past_def
        dest: select_done select_same split: prod.splits sum.splits bool.splits)
next
  case Looking_Up
  then show ?thesis
    using assms
    by (auto simp: repository_defs failures_now_def is_answered_def one_if_def let_past_def
        dest!: select_same split: prod.splits sum.splits)
next
  case (Deciding user)
  have "is_answered p' \<and> s' \<in> {s, note_login_failure (attempt_key a) s, drop_login_failures (attempt_key a) s}"
    using assms Deciding
    by (auto simp: decide_login_def is_answered_def Let_def split: option.splits outcome.splits bool.splits)
  then show ?thesis
    using failures_grow [of key "attempt_key a" s] failures_forgotten [of key "attempt_key a" s] Deciding
    by (auto simp: one_if_def let_past_def split: if_splits)
next
  case (Answered r c)
  then show ?thesis using assms by (auto simp: is_answered_def one_if_def)
qed

lemma advance_keeps_limit:
  assumes inv: "limit_inv n key y" and active: "dict_get (ly_active y) i = Some (a, p)"
  shows "limit_inv n key (login_system_step e n (Login_Advances i now) y)"
proof -
  obtain p' s' where step: "login_step e now a p (ly_store y) = (p', s')" by force
  obtain us vs where d: "ly_active y = us @ (i, a, p) # vs" "dict_put i (a, p') (ly_active y) = us @ (i, a, p') # vs"
      "filter (\<lambda>kv. fst kv \<noteq> i) (ly_active y) = us @ vs"
    using dict_at [OF active] inv unfolding limit_inv_def by metis
  let ?y = "login_system_step e n (Login_Advances i now) y"
  have y: "ly_store ?y = s'" "ly_active ?y = (if is_answered p' then us @ vs else us @ (i, a, p') # vs)"
    using active step d by simp_all
  let ?rest = "length (filter (let_past key) (us @ vs))"
  have before: "failures_now key (ly_store y) + (one_if (let_past key (i, a, p)) + ?rest) < LOGIN_RATE_LIMIT_MAX_ATTEMPTS + n"
    using inv d(1) by (cases "let_past key (i, a, p)") (simp_all add: limit_inv_def under_way_def one_if_def)
  have now_under_way: "under_way key ?y = one_if (let_past key (i, a, p') \<and> \<not> is_answered p') + ?rest"
    unfolding under_way_def y(2) by (simp add: one_if_def)
  have "length (us @ (i, a, p) # vs) \<le> n" using inv d(1) by (simp add: limit_inv_def)
  then have room: "?rest < n" using length_filter_le [of "let_past key" "\<lambda>_. True" "us @ vs"] by simp
  have "failures_now key s' + under_way key ?y < LOGIN_RATE_LIMIT_MAX_ATTEMPTS + n"
    using login_advance [OF step, of key i]
  proof
    assume "failures_now key s' + one_if (let_past key (i, a, p') \<and> \<not> is_answered p')
        \<le> failures_now key (ly_store y) + one_if (let_past key (i, a, p))"
    then show ?thesis using before now_under_way by simp
  next
    assume "p' = Looking_Up \<and> failures_now key s' < LOGIN_RATE_LIMIT_MAX_ATTEMPTS"
    then show ?thesis using now_under_way room by (simp add: one_if_def)
  qed
  moreover have "distinct (dict_keys (ly_active ?y))" "length (ly_active ?y) \<le> n"
    using inv d(1) y(2) by (auto simp: limit_inv_def dict_keys_def)
  ultimately show ?thesis unfolding limit_inv_def y(1) by blast
qed

lemma limit_inv_step: "limit_inv n key y \<Longrightarrow> limit_inv n key (login_system_step e n event y)"
proof (cases event)
  case (Login_Arrives i a)
  assume inv: "limit_inv n key y"
  then show ?thesis using Login_Arrives
    by (auto simp: limit_inv_def under_way_def let_past_def dict_keys_def dict_has_iff)
next
  case (Login_Advances i now)
  assume inv: "limit_inv n key y"
  then show ?thesis using Login_Advances advance_keeps_limit [OF inv]
    by (cases "dict_get (ly_active y) i") (auto simp del: login_system_step.simps(2), simp)
next
  case (Elsewhere other)
  assume inv: "limit_inv n key y"
  then show ?thesis using Elsewhere failures_elsewhere [of other key e "ly_store y"]
    by (auto simp: limit_inv_def under_way_def)
qed

lemma limit_inv_run: "limit_inv n key y \<Longrightarrow> limit_inv n key (login_system_run e n events y)"
  by (induction events arbitrary: y) (simp_all add: login_system_run_def limit_inv_step)

text \<open>C15: However many logins for one address and account come in, whatever else happens meanwhile, the
  recorded failures of the last fifteen minutes stay below five plus the number of logins served at a time: five
  when they come one after another.\<close>

theorem login_failures_bounded:
  assumes "0 < n" "dt_failures (ds_tables s) = []"
  shows "recent_failures key LOGIN_RATE_LIMIT_WINDOW_SECONDS
      (ds_tables (ly_store (login_system_run e n events \<lparr>ly_store = s, ly_active = []\<rparr>))) < 5 + n"
proof -
  have "limit_inv n key \<lparr>ly_store = s, ly_active = []\<rparr>"
    using assms by (simp add: limit_inv_def dict_keys_def under_way_def failures_now_def recent_failures_def)
  from limit_inv_run [OF this, of e events]
  show ?thesis by (simp add: limit_inv_def failures_now_def LOGIN_RATE_LIMIT_MAX_ATTEMPTS_def)
qed

definition guessing :: "login_event list" where
  "guessing = concat (map (\<lambda>i. [Login_Arrives i (example_attempt (lit ''wrong'')), Login_Advances i 1, Login_Advances i 1,
     Login_Advances i 1]) [1, 2, 3, 4, 5, 6])"

theorem login_failures_bounded_witness:
  "recent_failures (attempt_key (example_attempt [])) LOGIN_RATE_LIMIT_WINDOW_SECONDS
      (ds_tables (ly_store (login_system_run example_env 1 guessing \<lparr>ly_store = example_dash, ly_active = []\<rparr>))) < 5 + 1"
  by (rule login_failures_bounded) (simp_all add: example_dash_def)

section \<open>When failures cannot be recorded\<close>

text \<open>Logins one after another on a database whose disk is full: it answers both reads and refuses the write.\<close>

definition disk_full :: "(bool \<times> db_error) option" where
  "disk_full = Some (False, Psycopg_Error True (Some (lit ''53100'')))"

fun guess_replies :: "dash_env \<Rightarrow> rat \<Rightarrow> login_attempt list \<Rightarrow> dash_store \<Rightarrow> login_progress list" where
  "guess_replies e now [] s = []"
| "guess_replies e now (a # rest) s =
     (case login_dashboard_user e now a (s\<lparr>ds_faults := [None, None, disk_full]\<rparr>) of
        (p, s') \<Rightarrow> p # guess_replies e now rest s')"

definition wrong_guess :: "dash_env \<Rightarrow> dash_tables \<Rightarrow> login_attempt \<Rightarrow> bool" where
  "wrong_guess e t a = (case user_by_email (la_email a) t of
      None \<Rightarrow> True | Some u \<Rightarrow> verify_password (de_kdf e) (la_password a) (du_password_hash u) = Done False)"

lemma select_with_faults:
  "select q (s\<lparr>ds_faults := None # fs\<rparr>) = (Inr (q (ds_tables s)), s\<lparr>ds_faults := fs\<rparr>)"
  by (simp add: select_def in_transaction_def)

lemma unrecorded:
  assumes "recent_failures (attempt_key a) LOGIN_RATE_LIMIT_WINDOW_SECONDS (ds_tables s) < LOGIN_RATE_LIMIT_MAX_ATTEMPTS"
    "wrong_guess e (ds_tables s) a"
  shows "login_dashboard_user e now a (s\<lparr>ds_faults := [None, None, disk_full]\<rparr>)
    = (Answered (Http_Error 401 WRONG_CREDENTIALS) Keep_Cookie, s\<lparr>ds_faults := []\<rparr>)"
proof -
  have "note_login_failure key (s\<lparr>ds_faults := [disk_full]\<rparr>) = s\<lparr>ds_faults := []\<rparr>" for key
    by (simp add: note_login_failure_def repository_defs update_tables_def in_transaction_def disk_full_def)
  then have "decide_login e now a (user_by_email (la_email a) (ds_tables s)) (s\<lparr>ds_faults := [disk_full]\<rparr>)
      = (Answered (Http_Error 401 WRONG_CREDENTIALS) Keep_Cookie, s\<lparr>ds_faults := []\<rparr>)"
    using assms(2) by (simp add: decide_login_def wrong_guess_def split: option.splits)
  then show ?thesis using assms(1)
    by (simp add: login_dashboard_user_def check_login_rate_limit_def repository_defs select_with_faults)
qed

text \<open>While failed logins cannot be written down the limit does not exist: with a full disk any number of wrong
  passwords is checked, each answered as wrong and none as one too many.\<close>

theorem full_disk_lifts_limit:
  assumes "dt_failures (ds_tables s) = []" "list_all (wrong_guess e (ds_tables s)) attempts"
  shows "guess_replies e now attempts s = replicate (length attempts) (Answered (Http_Error 401 WRONG_CREDENTIALS) Keep_Cookie)"
  using assms
proof (induction attempts arbitrary: s)
  case (Cons a rest)
  have "recent_failures (attempt_key a) LOGIN_RATE_LIMIT_WINDOW_SECONDS (ds_tables s) < LOGIN_RATE_LIMIT_MAX_ATTEMPTS"
    using Cons.prems(1) by (simp add: recent_failures_def LOGIN_RATE_LIMIT_MAX_ATTEMPTS_def)
  from unrecorded [OF this, of e now] show ?case using Cons.prems Cons.IH [of "s\<lparr>ds_faults := []\<rparr>"] by simp
qed simp

theorem full_disk_lifts_limit_witness:
  "guess_replies example_env 1 (replicate 7 (example_attempt (lit ''wrong''))) example_dash
     = replicate 7 (Answered (Http_Error 401 WRONG_CREDENTIALS) Keep_Cookie)"
proof -
  have "list_all (wrong_guess example_env (ds_tables example_dash)) (replicate 7 (example_attempt (lit ''wrong'')))" by code_simp
  from full_disk_lifts_limit [OF _ this, of 1] show ?thesis by (simp add: example_dash_def)
qed

end
