(* ===== verification/EmailRules.thy ===== *)
theory EmailRules
  imports LoginLimit
begin

text \<open>
  What an accepted email address is made of, and why the keys of the rate limit, which join a client's address and
  an account's with a colon, never mix two accounts up.
\<close>

section \<open>The characters a pattern lets through\<close>

primrec allows :: "re \<Rightarrow> nat \<Rightarrow> bool" where
  "allows Eps c = False"
| "allows (Cls q) c = q c"
| "allows (Cat r s) c = (allows r c \<or> allows s c)"
| "allows (Alt r s) c = (allows r c \<or> allows s c)"
| "allows (Star r) c = allows r c"
| "allows AtStart c = False"
| "allows (NotBehind q) c = False"
| "allows (NotAhead r) c = False"
| "allows WordBoundary c = False"

lemma mt_allows: "mt r p p' \<Longrightarrow> c \<in> set (fst p') \<Longrightarrow> c \<in> set (fst p) \<or> allows r c"
  by (induction rule: mt.induct) auto

lemma fullmatch_allows: "re_fullmatch r s \<Longrightarrow> c \<in> set s \<Longrightarrow> allows r c"
  using mt_allows mt_moves by (fastforce simp: re_fullmatch_iff)

section \<open>Accepted addresses\<close>

lemma lower_no_upper: "c \<in> set (lower s) \<Longrightarrow> \<not> (65 \<le> c \<and> c \<le> 90)"
  by (auto simp: lower_def lower_char_def split: if_splits)

lemma lower_id: "list_all (\<lambda>c. c < 128 \<and> \<not> (65 \<le> c \<and> c \<le> 90)) s \<Longrightarrow> lower s = s"
  by (induction s) (auto simp: lower_def lower_char_def)

definition email_char :: "nat \<Rightarrow> bool" where
  "email_char c \<longleftrightarrow> c < 128 \<and> \<not> (65 \<le> c \<and> c \<le> 90) \<and> \<not> is_space c \<and> c \<noteq> colon"

lemma email_re_allows: "allows dashboard_email_re c \<Longrightarrow> c < 128 \<and> \<not> is_space c \<and> c \<noteq> colon"
  by (auto simp: dashboard_email_re_def some_def email_label_def email_local_def is_ascii_alnum_def is_ascii_letter_def
      is_decimal_def is_space_def lit_Cons)

lemma accepted_email:
  assumes "validate_email_format s = Done a"
  shows "a = normalize_email s" "list_all email_char a"
proof -
  have a: "a = normalize_email s" "re_fullmatch dashboard_email_re a"
    using assms by (auto simp: validate_email_format_def Let_def split: if_splits option.splits)
  show "a = normalize_email s" by (rule a(1))
  show "list_all email_char a"
    using fullmatch_allows [OF a(2)] email_re_allows lower_no_upper [of _ "strip s"] a(1)
    by (auto simp: list_all_iff email_char_def normalize_email_def)
qed

lemma normalize_accepted: "validate_email_format s = Done a \<Longrightarrow> normalize_email a = a"
proof -
  assume "validate_email_format s = Done a"
  then have chars: "list_all email_char a" by (rule accepted_email(2))
  then have "list_all (\<lambda>c. \<not> is_space c) a" "list_all (\<lambda>c. c < 128 \<and> \<not> (65 \<le> c \<and> c \<le> 90)) a"
    by (auto simp: list_all_iff email_char_def)
  then show ?thesis by (simp add: normalize_email_def no_space_strip lower_id)
qed

definition valid_email :: "str \<Rightarrow> bool" where
  "valid_email a \<longleftrightarrow> validate_email_format a = Done a"

lemma validated_accepted: "validate_email_format s = Done a \<Longrightarrow> valid_email a"
proof -
  assume ok: "validate_email_format s = Done a"
  then have "normalize_email a = normalize_email s" using normalize_accepted accepted_email(1) by simp
  then have "validate_email_format a = validate_email_format s" by (simp only: validate_email_format_def)
  then show ?thesis using ok by (simp add: valid_email_def)
qed

lemma valid_email_no_colon: "valid_email a \<Longrightarrow> colon \<notin> set a"
  using accepted_email(2) [of a a] by (auto simp: valid_email_def list_all_iff email_char_def)

lemma accepted_key: "valid_email a \<Longrightarrow> login_rate_limit_key c a = (case c of None \<Rightarrow> lit ''unknown'' | Some h \<Rightarrow> h) @ colon # a"
  using normalize_accepted [of a a] by (simp add: valid_email_def login_rate_limit_key_def)

lemma last_colon:
  assumes "colon \<notin> set a" "colon \<notin> set b" "h @ colon # a = k @ colon # b"
  shows "h = k \<and> a = b"
proof -
  have "rsplit_once colon (h @ colon # a) = rsplit_once colon (k @ colon # b)" using assms(3) by simp
  then show ?thesis using assms(1,2) by (simp add: rsplit_once_last)
qed

lemma key_ends_with:
  assumes "valid_email a" "valid_email b"
  shows "endswith (login_rate_limit_key c b) (colon # a) \<longleftrightarrow> a = b"
proof
  assume "endswith (login_rate_limit_key c b) (colon # a)"
  then obtain h where "(case c of None \<Rightarrow> lit ''unknown'' | Some h \<Rightarrow> h) @ colon # b = h @ colon # a"
    by (auto simp: accepted_key [OF assms(2)] endswith_iff_suffix suffix_def)
  then show "a = b" using last_colon assms valid_email_no_colon by blast
next
  assume "a = b"
  then show "endswith (login_rate_limit_key c b) (colon # a)" by (simp add: accepted_key [OF assms(2)])
qed

section \<open>Resetting a password\<close>

text \<open>Resetting a user's password ends the lockout of exactly that account, from every client address,
  and changes the count of no other account, although the keys are told apart by their endings only.\<close>

theorem reset_ends_own_lockout:
  assumes "valid_email a" "valid_email b" "user_by_email a t \<noteq> None"
  shows "recent_failures (login_rate_limit_key c b) window (snd (reset_password a pw_hash t))
    = (if b = a then 0 else recent_failures (login_rate_limit_key c b) window t)"
proof -
  let ?k = "login_rate_limit_key c b"
  have "filter (\<lambda>(k, at_time). k = ?k \<and> dt_now t - window < at_time) (dt_failures (snd (reset_password a pw_hash t)))
      = (if b = a then [] else filter (\<lambda>(k, at_time). k = ?k \<and> dt_now t - window < at_time) (dt_failures t))"
    using assms(3) key_ends_with [OF assms(1,2), of c]
    by (auto simp: reset_password_def case_prod_unfold filter_empty_conv intro!: filter_cong)
  moreover have "dt_now (snd (reset_password a pw_hash t)) = dt_now t" by (simp add: reset_password_def)
  ultimately show ?thesis unfolding recent_failures_def by simp
qed

theorem reset_ends_own_lockout_witness:
  "recent_failures (login_rate_limit_key (Some (lit ''::1'')) (lit ''a@b.co'')) 900
     (snd (reset_password (lit ''a@b.co'') (lit ''h'')
       (add_failure (login_rate_limit_key (Some (lit ''::1'')) (lit ''a@b.co'')) 900 (ds_tables example_dash)))) = 0"
proof -
  have "valid_email (lit ''a@b.co'')" by code_simp
  from reset_ends_own_lockout [OF this this] show ?thesis
    by (simp add: example_dash_def example_user_def user_by_email_def add_failure_def)
qed

end
