(* ===== verification/Blocklist.thy ===== *)
theory Blocklist
  imports Storage Regex "HOL-Library.Word" "HOL-Library.Multiset" "HOL-Library.Product_Lexorder" "HOL-Library.List_Lexorder"
begin

text \<open>
  The exported blocklist: the query for attacker addresses (\<open>list_attacker_ips\<close> of
  \<open>classifier/storage/repository.py\<close>), which of them may go to a firewall (\<open>classifier/blocklist.py\<close>), and
  \<open>echidra blocklist\<close> (\<open>echidra/cli.py\<close>). Addresses are machine words, as \<open>ipaddress\<close> holds them; its parser is
  a parameter, its tables of special networks are those of Python 3.11.10.
\<close>

section \<open>Addresses and networks\<close>

datatype ip_address = V4 "32 word" | V6 "128 word"

datatype ip_network = Net4 "32 word" nat | Net6 "128 word" nat

text \<open>An address is in a network when their first bits agree.\<close>

definition in_net :: "'w::len word \<Rightarrow> 'w word \<times> nat \<Rightarrow> bool" where
  "in_net a net = (case net of (base, bits) \<Rightarrow> drop_bit (LENGTH('w) - bits) a = drop_bit (LENGTH('w) - bits) base)"

definition quad :: "nat \<Rightarrow> nat \<Rightarrow> nat \<Rightarrow> nat \<Rightarrow> 32 word" where
  "quad a b c d = word_of_nat (((a * 256 + b) * 256 + c) * 256 + d)"

definition PRIVATE_V4 :: "(32 word \<times> nat) list" where
  "PRIVATE_V4 = [(quad 0 0 0 0, 8), (quad 10 0 0 0, 8), (quad 127 0 0 0, 8), (quad 169 254 0 0, 16), (quad 172 16 0 0, 12),
     (quad 192 0 0 0, 24), (quad 192 0 0 170, 31), (quad 192 0 2 0, 24), (quad 192 168 0 0, 16), (quad 198 18 0 0, 15),
     (quad 198 51 100 0, 24), (quad 203 0 113 0, 24), (quad 240 0 0 0, 4), (quad 255 255 255 255, 32)]"

definition PRIVATE_V4_EXCEPTIONS :: "(32 word \<times> nat) list" where
  "PRIVATE_V4_EXCEPTIONS = [(quad 192 0 0 9, 32), (quad 192 0 0 10, 32)]"

definition is_private_v4 :: "32 word \<Rightarrow> bool" where
  "is_private_v4 a \<longleftrightarrow> list_ex (in_net a) PRIVATE_V4 \<and> list_all (\<lambda>n. \<not> in_net a n) PRIVATE_V4_EXCEPTIONS"

definition is_special_v4 :: "32 word \<Rightarrow> bool" where
  "is_special_v4 a \<longleftrightarrow> is_private_v4 a \<or> in_net a (quad 127 0 0 0, 8) \<or> in_net a (quad 169 254 0 0, 16) \<or> a = 0
     \<or> in_net a (quad 224 0 0 0, 4) \<or> in_net a (quad 240 0 0 0, 4)"

text \<open>An IPv6 network by the first 32 bits of its base, which all of these but three need no more than.\<close>

definition hi32 :: "nat \<Rightarrow> 128 word" where
  "hi32 n = push_bit 96 (word_of_nat n)"

definition PRIVATE_V6 :: "(128 word \<times> nat) list" where
  "PRIVATE_V6 = [(1, 128), (0, 128), (push_bit 32 0xFFFF, 96), (push_bit 80 0x0064FF9B0001, 48), (hi32 0x01000000, 64),
     (hi32 0x20010000, 23), (hi32 0x20010DB8, 32), (hi32 0x20020000, 16), (hi32 0xFC000000, 7), (hi32 0xFE800000, 10)]"

definition PRIVATE_V6_EXCEPTIONS :: "(128 word \<times> nat) list" where
  "PRIVATE_V6_EXCEPTIONS = [(hi32 0x20010001 + 1, 128), (hi32 0x20010001 + 2, 128), (hi32 0x20010003, 32),
     (push_bit 80 0x200100040112, 48), (hi32 0x20010020, 28), (hi32 0x20010030, 28)]"

definition RESERVED_V6 :: "(128 word \<times> nat) list" where
  "RESERVED_V6 = map (\<lambda>(n, bits). (hi32 n, bits))
     [(0, 8), (0x01000000, 8), (0x02000000, 7), (0x04000000, 6), (0x08000000, 5), (0x10000000, 4), (0x40000000, 3),
      (0x60000000, 3), (0x80000000, 3), (0xA0000000, 3), (0xC0000000, 3), (0xE0000000, 4), (0xF0000000, 5),
      (0xF8000000, 6), (0xFE000000, 9)]"

definition ipv4_mapped :: "128 word \<Rightarrow> 32 word option" where
  "ipv4_mapped a = (if drop_bit 32 a = 0xFFFF then Some (ucast a) else None)"

definition is_private_v6 :: "128 word \<Rightarrow> bool" where
  "is_private_v6 a \<longleftrightarrow>
     (case ipv4_mapped a of
        Some b \<Rightarrow> is_private_v4 b
      | None \<Rightarrow> list_ex (in_net a) PRIVATE_V6 \<and> list_all (\<lambda>n. \<not> in_net a n) PRIVATE_V6_EXCEPTIONS)"

definition is_special_v6 :: "128 word \<Rightarrow> bool" where
  "is_special_v6 a \<longleftrightarrow> is_private_v6 a \<or> a = 1 \<or> in_net a (hi32 0xFE800000, 10) \<or> a = 0
     \<or> in_net a (hi32 0xFF000000, 8) \<or> list_ex (in_net a) RESERVED_V6"

section \<open>\<open>classifier/blocklist.py\<close>\<close>

fun is_special :: "ip_address \<Rightarrow> bool" where
  "is_special (V4 a) = is_special_v4 a"
| "is_special (V6 a) = is_special_v6 a"

fun same_version_in :: "ip_address \<Rightarrow> ip_network \<Rightarrow> bool" where
  "same_version_in (V4 a) (Net4 b n) = in_net a (b, n)"
| "same_version_in (V6 a) (Net6 b n) = in_net a (b, n)"
| "same_version_in _ _ = False"

definition is_blocklistable :: "(str \<Rightarrow> ip_address option) \<Rightarrow> ip_network list \<Rightarrow> bool \<Rightarrow> str \<Rightarrow> bool" where
  "is_blocklistable parse_ip excluded include_private peer_ip =
     (case parse_ip peer_ip of
        None \<Rightarrow> False
      | Some address \<Rightarrow>
          if \<not> include_private \<and> is_special address then False else \<not> list_ex (same_version_in address) excluded)"

definition blocklist_ips :: "(str \<Rightarrow> ip_address option) \<Rightarrow> ip_network list \<Rightarrow> bool \<Rightarrow> str list \<Rightarrow> str list" where
  "blocklist_ips parse_ip excluded include_private peer_ips = filter (is_blocklistable parse_ip excluded include_private) peer_ips"

section \<open>The addresses seen\<close>

record attacker_row =
  ar_peer_ip :: str
  ar_session_count :: nat
  ar_first_seen :: rat
  ar_last_seen :: rat
  ar_max_risk_rank :: nat

fun sql_risk_rank :: "risk_level \<Rightarrow> nat" where
  "sql_risk_rank Critical = 4"
| "sql_risk_rank High = 3"
| "sql_risk_rank Medium = 2"
| "sql_risk_rank Low = 1"
| "sql_risk_rank No_Risk = 0"

text \<open>The \<open>session_risk\<close> rows: address, start and risk of each session with an address in the range.\<close>

definition session_rank :: "database \<Rightarrow> str \<Rightarrow> nat" where
  "session_rank db sid = foldr max (map (\<lambda>run. sql_risk_rank (sum_risk_level (run_summary run)))
     (filter (\<lambda>run. rec_session_id (run_session run) = sid) (db_runs db))) 0"

definition session_risk :: "database \<Rightarrow> rat \<Rightarrow> rat option \<Rightarrow> (str \<times> rat \<times> nat) list" where
  "session_risk db since_ts until_ts =
     concat (map (\<lambda>(sid, row).
       (case row_peer_ip row of
          None \<Rightarrow> []
        | Some ip \<Rightarrow>
            if since_ts \<le> row_started_at row \<and> (case until_ts of None \<Rightarrow> True | Some u \<Rightarrow> row_started_at row \<le> u)
            then [(ip, row_started_at row, session_rank db sid)]
            else [])) (db_sessions db))"

definition attacker_row_of :: "str \<Rightarrow> (rat \<times> nat) list \<Rightarrow> attacker_row" where
  "attacker_row_of ip seen =
     \<lparr>ar_peer_ip = ip, ar_session_count = length seen, ar_first_seen = Min (set (map fst seen)),
      ar_last_seen = Max (set (map fst seen)), ar_max_risk_rank = foldr max (map snd seen) 0\<rparr>"

definition list_attacker_ips :: "database \<Rightarrow> rat \<Rightarrow> rat option \<Rightarrow> nat \<Rightarrow> nat \<Rightarrow> attacker_row list" where
  "list_attacker_ips db since_ts until_ts min_risk_rank min_sessions =
     (let risks = session_risk db since_ts until_ts;
          rows = map (\<lambda>ip. attacker_row_of ip (map snd (filter (\<lambda>r. fst r = ip) risks))) (remdups (map fst risks))
      in sort_key (\<lambda>r. (- int (ar_max_risk_rank r), - int (ar_session_count r), ar_peer_ip r))
           (filter (\<lambda>r. min_sessions \<le> ar_session_count r \<and> min_risk_rank \<le> ar_max_risk_rank r) rows))"

section \<open>\<open>echidra blocklist\<close>\<close>

definition parse_duration :: "str \<Rightarrow> int option" where
  "parse_duration value =
     (let t = lower (strip value); digits = takeWhile is_decimal t; unit = dropWhile is_decimal t in
      if digits = [] \<or> nat_of_digits 10 digits = 0 then None
      else if unit = lit ''m'' then Some (int (nat_of_digits 10 digits) * 60)
      else if unit = lit ''h'' then Some (int (nat_of_digits 10 digits) * 3600)
      else if unit = lit ''d'' then Some (int (nat_of_digits 10 digits) * 86400)
      else None)"

definition RISK_RANKS :: "(str \<times> nat) list" where
  "RISK_RANKS = [(lit ''low'', 1), (lit ''medium'', 2), (lit ''high'', 3), (lit ''critical'', 4)]"

definition rank_name :: "nat \<Rightarrow> str" where
  "rank_name rank = (case map_of (map (\<lambda>(n, r). (r, n)) RISK_RANKS) rank of None \<Rightarrow> lit ''unclassified'' | Some n \<Rightarrow> n)"

text \<open>\<open>time.gmtime\<close> rounds down; a date it refuses is not modelled.\<close>

definition utc_iso :: "rat \<Rightarrow> str" where
  "utc_iso t =
     (let s = \<lfloor>t\<rfloor> in
      case civil_from_days (s div 86400) of
        (year, month, day) \<Rightarrow>
          str_of_int year @ [dash] @ two_digits month @ [dash] @ two_digits day @ lit ''T''
          @ two_digits (s mod 86400 div 3600) @ [colon] @ two_digits (s mod 3600 div 60) @ [colon] @ two_digits (s mod 60) @ lit ''Z'')"

text \<open>\<open>csv.writer\<close> on parts without commas, quotes and line ends.\<close>

definition csv_row :: "str list \<Rightarrow> str" where
  "csv_row parts = join [comma] parts @ [carriage, newline]"

definition write_blocklist :: "attacker_row list \<Rightarrow> bool \<Rightarrow> str" where
  "write_blocklist rows plain =
     (if plain then concat (map (\<lambda>r. ar_peer_ip r @ [newline]) rows)
      else csv_row (map lit [''ip'', ''sessions'', ''first_seen_utc'', ''last_seen_utc'', ''max_risk''])
        @ concat (map (\<lambda>r. csv_row [ar_peer_ip r, str_of_nat (ar_session_count r), utc_iso (ar_first_seen r),
            utc_iso (ar_last_seen r), rank_name (ar_max_risk_rank r)]) rows))"

record blocklist_args =
  ba_since :: int
  ba_min_risk :: "str option"
  ba_min_sessions :: int
  ba_excluded :: "ip_network list option"
  ba_include_private :: bool
  ba_plain :: bool

text \<open>\<open>_cmd_blocklist\<close>: exit code and what is written, given what the query does. Networks that do not parse are
  \<open>None\<close>.\<close>

definition cmd_blocklist ::
  "(str \<Rightarrow> ip_address option) \<Rightarrow> rat \<Rightarrow> blocklist_args \<Rightarrow> db_error option \<Rightarrow> database \<Rightarrow> nat \<times> str" where
  "cmd_blocklist parse_ip now args fault db =
     (if ba_min_sessions args < 1 then (2, [])
      else case ba_excluded args of
        None \<Rightarrow> (2, [])
      | Some excluded \<Rightarrow>
          (case fault of
             Some x \<Rightarrow> (1, [])
           | None \<Rightarrow>
               let rows = list_attacker_ips db (now - of_int (ba_since args)) None
                     (case ba_min_risk args of None \<Rightarrow> 0 | Some name \<Rightarrow> (case map_of RISK_RANKS name of None \<Rightarrow> 0 | Some r \<Rightarrow> r))
                     (nat (ba_min_sessions args))
               in (0, write_blocklist
                    (filter (\<lambda>r. is_blocklistable parse_ip excluded (ba_include_private args) (ar_peer_ip r)) rows)
                    (ba_plain args))))"

section \<open>What is exported\<close>

lemma in_net_range_32:
  shows "in_net (a :: 32 word) (b, bits) \<longleftrightarrow> unat a div 2 ^ (32 - bits) = unat b div 2 ^ (32 - bits)"
  unfolding in_net_def prod.case word_unat_eq_iff unat_drop_bit_eq by (simp add: drop_bit_eq_div)

lemma unat_quad:
  "a < 256 \<Longrightarrow> b < 256 \<Longrightarrow> c < 256 \<Longrightarrow> d < 256 \<Longrightarrow> unat (quad a b c d) = ((a * 256 + b) * 256 + c) * 256 + d"
  unfolding quad_def unat_of_nat by simp

text \<open>The IPv4 addresses left out, as ranges of numbers.\<close>

definition SPECIAL_RANGES :: "(nat \<times> nat) list" where
  "SPECIAL_RANGES = map (\<lambda>((a, b, c, d), (a', b', c', d')). (((a * 256 + b) * 256 + c) * 256 + d, ((a' * 256 + b') * 256 + c') * 256 + d'))
     [((0, 0, 0, 0), (0, 255, 255, 255)), ((10, 0, 0, 0), (10, 255, 255, 255)), ((127, 0, 0, 0), (127, 255, 255, 255)),
      ((169, 254, 0, 0), (169, 254, 255, 255)), ((172, 16, 0, 0), (172, 31, 255, 255)), ((192, 0, 0, 0), (192, 0, 0, 8)),
      ((192, 0, 0, 11), (192, 0, 0, 255)), ((192, 0, 2, 0), (192, 0, 2, 255)), ((192, 168, 0, 0), (192, 168, 255, 255)),
      ((198, 18, 0, 0), (198, 19, 255, 255)), ((198, 51, 100, 0), (198, 51, 100, 255)), ((203, 0, 113, 0), (203, 0, 113, 255)),
      ((224, 0, 0, 0), (255, 255, 255, 255))]"

lemma div_range: "0 < k \<Longrightarrow> (n :: nat) div k = q \<longleftrightarrow> q * k \<le> n \<and> n < q * k + k"
  by (metis add.commute div_nat_eqI dividend_less_div_times div_times_less_eq_dividend mult.commute mult_Suc_right)

lemma net_range:
  "a < 256 \<Longrightarrow> b < 256 \<Longrightarrow> c < 256 \<Longrightarrow> d < 256 \<Longrightarrow>
   in_net x (quad a b c d, bits) \<longleftrightarrow>
     (let k = 2 ^ (32 - bits); base = (((a * 256 + b) * 256 + c) * 256 + d) div k * k in base \<le> unat x \<and> unat x < base + k)"
  unfolding in_net_range_32 by (simp add: unat_quad div_range Let_def)

lemma special_ranges: "is_special_v4 a \<longleftrightarrow> list_ex (\<lambda>(lo, hi). lo \<le> unat a \<and> unat a \<le> hi) SPECIAL_RANGES"
proof -
  have bound: "unat a < 4294967296" using unsigned_less [of a] by simp
  define n where "n = unat a"
  have zero: "a = 0 \<longleftrightarrow> n = 0" unfolding n_def by (simp add: word_unat_eq_iff)
  have "n < 4294967296" using bound n_def by simp
  then show ?thesis
    unfolding is_special_v4_def is_private_v4_def PRIVATE_V4_def PRIVATE_V4_EXCEPTIONS_def zero SPECIAL_RANGES_def
    by (simp add: net_range Let_def flip: n_def) presburger
qed

subsection \<open>The addresses\<close>

text \<open>The sessions of an address since a time, and whether one of them reaches a risk.\<close>

definition sessions_from :: "database \<Rightarrow> rat \<Rightarrow> str \<Rightarrow> (str \<times> session_row) list" where
  "sessions_from db since_ts ip =
     filter (\<lambda>(sid, row). row_peer_ip row = Some ip \<and> since_ts \<le> row_started_at row) (db_sessions db)"

definition reaches :: "database \<Rightarrow> nat \<Rightarrow> str \<Rightarrow> bool" where
  "reaches db rank sid \<longleftrightarrow> list_ex (\<lambda>run. rec_session_id (run_session run) = sid
     \<and> rank \<le> sql_risk_rank (sum_risk_level (run_summary run))) (db_runs db)"

lemma foldr_max_le: "r \<le> foldr max (xs :: nat list) 0 \<longleftrightarrow> r = 0 \<or> list_ex (\<lambda>x. r \<le> x) xs"
  by (induction xs) auto

lemma session_rank_le: "r \<le> session_rank db sid \<longleftrightarrow> r = 0 \<or> reaches db r sid"
  by (auto simp: session_rank_def foldr_max_le reaches_def list_ex_iff)

lemma risks_of_ip:
  "map snd (filter (\<lambda>r. fst r = ip) (session_risk db since_ts None))
   = map (\<lambda>(sid, row). (row_started_at row, session_rank db sid)) (sessions_from db since_ts ip)"
proof -
  have "map snd (filter (\<lambda>r. fst r = ip) (concat (map (\<lambda>(sid, row).
       (case row_peer_ip row of
          None \<Rightarrow> []
        | Some ip \<Rightarrow> if since_ts \<le> row_started_at row \<and> (case None of None \<Rightarrow> True | Some u \<Rightarrow> row_started_at row \<le> u)
            then [(ip, row_started_at row, rank sid)] else [])) rows)))
     = map (\<lambda>(sid, row). (row_started_at row, rank sid))
         (filter (\<lambda>(sid, row). row_peer_ip row = Some ip \<and> since_ts \<le> row_started_at row) rows)"
    for rank :: "str \<Rightarrow> nat" and rows
    by (induction rows) (auto split: option.splits if_splits)
  then show ?thesis unfolding session_risk_def sessions_from_def .
qed

lemma ips_with_risk:
  "ip \<in> set (map fst (session_risk db since_ts None)) \<longleftrightarrow> sessions_from db since_ts ip \<noteq> []"
proof -
  have "ip \<in> set (map fst (session_risk db since_ts None)) \<longleftrightarrow> filter (\<lambda>r. fst r = ip) (session_risk db since_ts None) \<noteq> []"
    by (force simp: filter_empty_conv)
  also have "\<dots> \<longleftrightarrow> sessions_from db since_ts ip \<noteq> []"
    using risks_of_ip [of ip db since_ts] by (metis (no_types, lifting) Nil_is_map_conv)
  finally show ?thesis .
qed

lemma attacker_ips:
  assumes "1 \<le> min_sessions"
  shows "distinct (map ar_peer_ip (list_attacker_ips db since_ts None rank min_sessions))"
    and "ip \<in> set (map ar_peer_ip (list_attacker_ips db since_ts None rank min_sessions)) \<longleftrightarrow>
      min_sessions \<le> length (sessions_from db since_ts ip)
      \<and> (rank = 0 \<or> list_ex (\<lambda>(sid, row). reaches db rank sid) (sessions_from db since_ts ip))"
proof -
  let ?risks = "session_risk db since_ts None"
  let ?row = "\<lambda>ip. attacker_row_of ip (map snd (filter (\<lambda>r. fst r = ip) ?risks))"
  let ?keep = "\<lambda>r. min_sessions \<le> ar_session_count r \<and> rank \<le> ar_max_risk_rank r"
  let ?rows = "filter ?keep (map ?row (remdups (map fst ?risks)))"
  have same: "mset (list_attacker_ips db since_ts None rank min_sessions) = mset ?rows"
    unfolding list_attacker_ips_def Let_def by (rule mset_sort)
  have ips: "map ar_peer_ip ?rows = filter (\<lambda>ip. ?keep (?row ip)) (remdups (map fst ?risks))"
    by (simp add: filter_map comp_def attacker_row_of_def)
  have "mset (map ar_peer_ip (list_attacker_ips db since_ts None rank min_sessions)) = mset (map ar_peer_ip ?rows)"
    using same by (simp add: mset_map)
  then have perm: "distinct (map ar_peer_ip (list_attacker_ips db since_ts None rank min_sessions)) = distinct (map ar_peer_ip ?rows)"
    "set (map ar_peer_ip (list_attacker_ips db since_ts None rank min_sessions)) = set (map ar_peer_ip ?rows)"
    by (rule mset_eq_imp_distinct_iff, rule mset_eq_setD)
  show "distinct (map ar_peer_ip (list_attacker_ips db since_ts None rank min_sessions))"
    unfolding perm(1) ips by simp
  have keep: "?keep (?row ip) \<longleftrightarrow> min_sessions \<le> length (sessions_from db since_ts ip)
      \<and> (rank = 0 \<or> list_ex (\<lambda>(sid, row). reaches db rank sid) (sessions_from db since_ts ip))"
    unfolding risks_of_ip
    by (auto simp: attacker_row_of_def foldr_max_le list_ex_iff session_rank_le case_prod_unfold)
  show "ip \<in> set (map ar_peer_ip (list_attacker_ips db since_ts None rank min_sessions)) \<longleftrightarrow>
      min_sessions \<le> length (sessions_from db since_ts ip)
      \<and> (rank = 0 \<or> list_ex (\<lambda>(sid, row). reaches db rank sid) (sessions_from db since_ts ip))"
    unfolding perm(2) ips using assms ips_with_risk [of ip db since_ts] keep by auto
qed

subsection \<open>The file\<close>

lemma exported_ips:
  assumes "1 \<le> ba_min_sessions args" "ba_excluded args = Some excluded" "ba_plain args"
  obtains ips where "cmd_blocklist parse_ip now args None db = (0, concat (map (\<lambda>ip. ip @ [newline]) ips))"
    "ips = filter (is_blocklistable parse_ip excluded (ba_include_private args)) (map ar_peer_ip
      (list_attacker_ips db (now - of_int (ba_since args)) None
        (case ba_min_risk args of None \<Rightarrow> 0 | Some name \<Rightarrow> (case map_of RISK_RANKS name of None \<Rightarrow> 0 | Some r \<Rightarrow> r))
        (nat (ba_min_sessions args))))"
  using assms by (simp add: cmd_blocklist_def write_blocklist_def filter_map comp_def)

text \<open>C36: \<open>echidra blocklist\<close> writes each address once: exactly those with enough sessions in the window, one of
  them of the risk asked for, that parse as an address, are not special unless asked for and are in none of the
  excluded networks.\<close>

theorem blocklist_exact:
  assumes "1 \<le> ba_min_sessions args" "ba_excluded args = Some excluded" "ba_plain args" "ba_min_risk args = Some name"
    "map_of RISK_RANKS name = Some rank"
  shows "\<exists>ips. cmd_blocklist parse_ip now args None db = (0, concat (map (\<lambda>ip. ip @ [newline]) ips)) \<and> distinct ips
    \<and> (\<forall>ip. ip \<in> set ips \<longleftrightarrow>
         nat (ba_min_sessions args) \<le> length (sessions_from db (now - of_int (ba_since args)) ip)
         \<and> list_ex (\<lambda>(sid, row). reaches db rank sid) (sessions_from db (now - of_int (ba_since args)) ip)
         \<and> (\<exists>a. parse_ip ip = Some a \<and> (ba_include_private args \<or> \<not> is_special a) \<and> \<not> list_ex (same_version_in a) excluded))"
proof -
  obtain ips where ips: "cmd_blocklist parse_ip now args None db = (0, concat (map (\<lambda>ip. ip @ [newline]) ips))"
    "ips = filter (is_blocklistable parse_ip excluded (ba_include_private args)) (map ar_peer_ip
      (list_attacker_ips db (now - of_int (ba_since args)) None rank (nat (ba_min_sessions args))))"
    using exported_ips [OF assms(1-3), of parse_ip now db] assms(4,5) by auto
  have min_sessions: "1 \<le> nat (ba_min_sessions args)" using assms(1) by simp
  have "rank \<noteq> 0" using assms(5) by (auto simp: RISK_RANKS_def split: if_splits)
  moreover have "is_blocklistable parse_ip excluded (ba_include_private args) ip \<longleftrightarrow>
      (\<exists>a. parse_ip ip = Some a \<and> (ba_include_private args \<or> \<not> is_special a) \<and> \<not> list_ex (same_version_in a) excluded)" for ip
    by (auto simp: is_blocklistable_def split: option.splits)
  ultimately show ?thesis
    using ips attacker_ips(1) [OF min_sessions] attacker_ips(2) [OF min_sessions] by (intro exI [of _ ips]) auto
qed

text \<open>Without \<open>--include-private\<close> the number of no exported IPv4 address lies in a range of private, loopback,
  link-local, documentation, multicast or reserved addresses, and none lies in an excluded network.\<close>

theorem exported_v4_public:
  assumes "ip \<in> set (blocklist_ips parse_ip excluded False peer_ips)" "parse_ip ip = Some (V4 a)"
  shows "\<not> list_ex (\<lambda>(lo, hi). lo \<le> unat a \<and> unat a \<le> hi) SPECIAL_RANGES \<and> \<not> list_ex (same_version_in (V4 a)) excluded"
  using assms special_ranges [of a] by (auto simp: blocklist_ips_def is_blocklistable_def split: if_splits)

text \<open>An address parser that knows two addresses.\<close>

definition two_addresses :: "str \<Rightarrow> ip_address option" where
  "two_addresses s = map_of [(lit ''8.8.4.4'', V4 (quad 8 8 4 4)), (lit ''100.64.0.7'', V4 (quad 100 64 0 7))] s"

theorem exported_v4_public_witness:
  "\<not> list_ex (\<lambda>(lo, hi). lo \<le> unat (quad 8 8 4 4) \<and> unat (quad 8 8 4 4) \<le> hi) SPECIAL_RANGES
   \<and> \<not> list_ex (same_version_in (V4 (quad 8 8 4 4))) [Net4 (quad 10 0 0 0) 8]"
proof (rule exported_v4_public)
  show "lit ''8.8.4.4'' \<in> set (blocklist_ips two_addresses [Net4 (quad 10 0 0 0) 8] False [lit ''8.8.4.4'', lit ''x''])" by code_simp
  show "two_addresses (lit ''8.8.4.4'') = Some (V4 (quad 8 8 4 4))" by code_simp
qed

text \<open>Addresses shared by a provider's customers or by an overlay network are not private to \<open>ipaddress\<close>.\<close>

theorem shared_space_exported:
  "is_blocklistable two_addresses [] False (lit ''100.64.0.7'')"
  by code_simp

definition example_args :: blocklist_args where
  "example_args = \<lparr>ba_since = 604800, ba_min_risk = Some (lit ''low''), ba_min_sessions = 1, ba_excluded = Some [],
     ba_include_private = False, ba_plain = True\<rparr>"

theorem blocklist_exact_witness:
  "\<exists>ips. cmd_blocklist two_addresses 604800 example_args None empty_database = (0, concat (map (\<lambda>ip. ip @ [newline]) ips)) \<and> distinct ips
    \<and> (\<forall>ip. ip \<in> set ips \<longleftrightarrow>
         nat (ba_min_sessions example_args) \<le> length (sessions_from empty_database (604800 - of_int (ba_since example_args)) ip)
         \<and> list_ex (\<lambda>(sid, row). reaches empty_database 1 sid) (sessions_from empty_database (604800 - of_int (ba_since example_args)) ip)
         \<and> (\<exists>a. two_addresses ip = Some a \<and> (ba_include_private example_args \<or> \<not> is_special a) \<and> \<not> list_ex (same_version_in a) []))"
proof (rule blocklist_exact [where name = "lit ''low''"])
  show "map_of RISK_RANKS (lit ''low'') = Some 1" by code_simp
qed (simp_all add: example_args_def)

end
