(* ===== verification/DashboardRoutes.thy ===== *)
theory DashboardRoutes
  imports DashboardAuth Blocklist
begin

text \<open>
  The routes of the dashboard (\<open>classifier/api/app.py\<close>). FastAPI has parsed and validated path, query and body
  before a handler runs. What the handlers read of the classifier's tables, the issues, the labels and the alert
  settings is a record of results, one for each repository method; users and saved personas are in
  \<open>DashboardStore\<close>. \<open>'v\<close> is the JSON the repository's models serialise to.
\<close>

section \<open>What the handlers call\<close>

record run_filter =
  rf_session_id :: "str option"
  rf_risk_level :: "str option"
  rf_actor_label :: "str option"
  rf_persona_id :: "str option"
  rf_issue_id :: "str option"
  rf_from_ts :: "rat option"
  rf_to_ts :: "rat option"
  rf_limit :: int
  rf_offset :: int

text \<open>\<open>_dashboard_persona_from_preset\<close>: the preset as the dashboard sees it, its credentials counted only.\<close>

record preset_view =
  pv_persona :: persona
  pv_decoy_credential_count :: nat

definition dashboard_persona_from_preset :: "persona \<Rightarrow> preset_view" where
  "dashboard_persona_from_preset p =
     \<lparr>pv_persona = p\<lparr>fake_credentials := []\<rparr>, pv_decoy_credential_count = length (fake_credentials p)\<rparr>"

record 'v backend =
  bk_report_summary :: "'v db_result"
  bk_analytics :: "rat \<Rightarrow> rat \<Rightarrow> 'v db_result"
  bk_attackers :: "rat \<Rightarrow> rat \<Rightarrow> attacker_row list db_result"
  bk_runs :: "run_filter \<Rightarrow> 'v db_result"
  bk_run :: "str \<Rightarrow> 'v option db_result"
  bk_session_events :: "str \<Rightarrow> 'v db_result"
  bk_session_issues :: "str \<Rightarrow> 'v db_result"
  bk_labels :: "str option \<Rightarrow> str option \<Rightarrow> int \<Rightarrow> 'v db_result"
  bk_label :: "str \<Rightarrow> 'v option db_result"
  bk_issues :: "str option \<Rightarrow> int \<Rightarrow> rat option \<Rightarrow> rat option \<Rightarrow> 'v db_result"
  bk_update_issue :: "str \<Rightarrow> str \<Rightarrow> 'v option db_result"
  bk_personas :: "'v db_result"
  bk_persona_analytics :: "str \<Rightarrow> rat option \<Rightarrow> rat option \<Rightarrow> 'v db_result"
  bk_alert_config :: "alert_config option db_result"
  bk_save_alert_config :: "alert_config \<Rightarrow> (unit + 'v) db_result"
  bk_alert_events :: "int \<Rightarrow> 'v db_result"
  bk_count_alert_events :: "'v db_result"
  bk_persona_json :: "stored_persona \<Rightarrow> 'v"
  bk_config_json :: "alert_config option \<Rightarrow> 'v"
  bk_presets_json :: "preset_view list \<Rightarrow> 'v"
  bk_sent :: 'v
  bk_parse_ip :: "str \<Rightarrow> ip_address option"
  bk_alerts :: alert_env

text \<open>An effect outside the database: what was mailed, posted, or asked of the other tables.\<close>

datatype side_effect = Sent outgoing | Issue_Update_Sent str str | Config_Update_Sent alert_config

type_synonym 'v route_result = "'v api_reply \<times> side_effect list \<times> dash_store"

text \<open>The frame of every data route: \<open>_require_dashboard_auth\<close>, then the handler.\<close>

definition guarded :: "dash_env \<Rightarrow> rat \<Rightarrow> dash_request \<Rightarrow> dash_store \<Rightarrow> (dash_store \<Rightarrow> 'v route_result) \<Rightarrow> 'v route_result" where
  "guarded e now r s handler =
     (case require_dashboard_auth e now r s of
        (Some reply, s') \<Rightarrow> (reply, [], s')
      | (None, s') \<Rightarrow> handler s')"

definition answer_with :: "'a db_result \<Rightarrow> ('a \<Rightarrow> 'v api_reply) \<Rightarrow> dash_store \<Rightarrow> 'v route_result" where
  "answer_with result f s = ((case result of Inl x \<Rightarrow> error_reply (storage_error x) | Inr a \<Rightarrow> f a), [], s)"

definition found_or_404 :: "str \<Rightarrow> 'v option \<Rightarrow> 'v api_reply" where
  "found_or_404 detail x = (case x of None \<Rightarrow> Http_Error 404 detail | Some v \<Rightarrow> Reply 200 v)"

section \<open>Reports and stored runs\<close>

definition dashboard_report_summary_endpoint :: "'v backend \<Rightarrow> dash_store \<Rightarrow> 'v route_result" where
  "dashboard_report_summary_endpoint b = answer_with (bk_report_summary b) (Reply 200)"

definition analytics_summary_endpoint :: "'v backend \<Rightarrow> rat \<Rightarrow> rat \<Rightarrow> dash_store \<Rightarrow> 'v route_result" where
  "analytics_summary_endpoint b from_ts to_ts = answer_with (bk_analytics b from_ts to_ts) (Reply 200)"

definition BAD_RANGE :: str where "BAD_RANGE = lit ''from_ts must not be after to_ts''"

definition analytics_blocklist_endpoint :: "'v backend \<Rightarrow> rat \<Rightarrow> rat \<Rightarrow> dash_store \<Rightarrow> 'v route_result" where
  "analytics_blocklist_endpoint b from_ts to_ts s =
     (if to_ts < from_ts then (Http_Error 400 BAD_RANGE, [], s)
      else answer_with (bk_attackers b from_ts to_ts)
        (\<lambda>rows. Text_Reply (concat (map (\<lambda>ip. ip @ [newline]) (blocklist_ips (bk_parse_ip b) [] False (map ar_peer_ip rows))))) s)"

definition list_classifier_runs_endpoint :: "'v backend \<Rightarrow> run_filter \<Rightarrow> dash_store \<Rightarrow> 'v route_result" where
  "list_classifier_runs_endpoint b q = answer_with (bk_runs b q) (Reply 200)"

definition get_classifier_run_endpoint :: "'v backend \<Rightarrow> str \<Rightarrow> dash_store \<Rightarrow> 'v route_result" where
  "get_classifier_run_endpoint b rid = answer_with (bk_run b rid) (found_or_404 (lit ''Classifier run not found''))"

definition list_session_events_endpoint :: "'v backend \<Rightarrow> str \<Rightarrow> dash_store \<Rightarrow> 'v route_result" where
  "list_session_events_endpoint b sid = answer_with (bk_session_events b sid) (Reply 200)"

definition list_issues_for_session_endpoint :: "'v backend \<Rightarrow> str \<Rightarrow> dash_store \<Rightarrow> 'v route_result" where
  "list_issues_for_session_endpoint b sid = answer_with (bk_session_issues b sid) (Reply 200)"

definition list_manual_labels_endpoint :: "'v backend \<Rightarrow> str option \<Rightarrow> str option \<Rightarrow> int \<Rightarrow> dash_store \<Rightarrow> 'v route_result" where
  "list_manual_labels_endpoint b sid rid limit = answer_with (bk_labels b sid rid limit) (Reply 200)"

definition get_manual_label_endpoint :: "'v backend \<Rightarrow> str \<Rightarrow> dash_store \<Rightarrow> 'v route_result" where
  "get_manual_label_endpoint b lid = answer_with (bk_label b lid) (found_or_404 (lit ''Manual label not found''))"

definition list_issues_endpoint :: "'v backend \<Rightarrow> str option \<Rightarrow> int \<Rightarrow> rat option \<Rightarrow> rat option \<Rightarrow> dash_store \<Rightarrow> 'v route_result" where
  "list_issues_endpoint b status limit from_ts to_ts = answer_with (bk_issues b status limit from_ts to_ts) (Reply 200)"

definition update_issue_status_endpoint :: "'v backend \<Rightarrow> str \<Rightarrow> str \<Rightarrow> dash_store \<Rightarrow> 'v route_result" where
  "update_issue_status_endpoint b iid status s =
     (case answer_with (bk_update_issue b iid status) (found_or_404 (lit ''Issue not found'')) s of
        (reply, _, s') \<Rightarrow> (reply, [Issue_Update_Sent iid status], s'))"

section \<open>Saved personas\<close>

text \<open>\<open>_PERSONA_ID_PATTERN\<close>, which FastAPI checks of the path.\<close>

definition persona_id_ok :: "str \<Rightarrow> bool" where
  "persona_id_ok pid \<longleftrightarrow> pid \<noteq> [] \<and> 97 \<le> hd pid \<and> hd pid \<le> 122 \<and> length pid \<le> 64
     \<and> list_all (\<lambda>c. (97 \<le> c \<and> c \<le> 122) \<or> is_decimal c \<or> c = underscore) (tl pid)"

definition PERSONA_NOT_FOUND :: str where "PERSONA_NOT_FOUND = lit ''Persona config not found''"

definition list_persona_configs_endpoint :: "'v backend \<Rightarrow> dash_store \<Rightarrow> 'v route_result" where
  "list_persona_configs_endpoint b = answer_with (bk_personas b) (Reply 200)"

definition create_persona_config_endpoint :: "'v backend \<Rightarrow> rat \<Rightarrow> str \<Rightarrow> persona_row \<Rightarrow> dash_store \<Rightarrow> 'v route_result" where
  "create_persona_config_endpoint b now pid config s =
     (case create_persona_config pid config now s of
        (result, s') \<Rightarrow> answer_with result
          (\<lambda>x. case x of Inl Persona_Already_Exists \<Rightarrow> Http_Error 409 (lit ''Persona config already exists'')
             | Inr stored \<Rightarrow> Reply 201 (bk_persona_json b stored)) s')"

definition get_persona_config_endpoint :: "'v backend \<Rightarrow> str \<Rightarrow> dash_store \<Rightarrow> 'v route_result" where
  "get_persona_config_endpoint b pid s =
     (case get_persona_config pid s of
        (result, s') \<Rightarrow> answer_with result (\<lambda>x. found_or_404 PERSONA_NOT_FOUND (map_option (bk_persona_json b) x)) s')"

definition update_persona_config_endpoint :: "'v backend \<Rightarrow> rat \<Rightarrow> str \<Rightarrow> persona_row \<Rightarrow> dash_store \<Rightarrow> 'v route_result" where
  "update_persona_config_endpoint b now pid config s =
     (case update_persona_config pid config now s of
        (result, s') \<Rightarrow> answer_with result (\<lambda>x. found_or_404 PERSONA_NOT_FOUND (map_option (bk_persona_json b) x)) s')"

text \<open>A deletion answers 204, without a body.\<close>

definition delete_persona_config_endpoint :: "str \<Rightarrow> dash_store \<Rightarrow> 'v route_result" where
  "delete_persona_config_endpoint pid s =
     (case delete_persona_config pid s of
        (result, s') \<Rightarrow> answer_with result (\<lambda>deleted. if deleted then Text_Reply [] else Http_Error 404 PERSONA_NOT_FOUND) s')"

definition get_persona_analytics_endpoint :: "'v backend \<Rightarrow> str \<Rightarrow> rat option \<Rightarrow> rat option \<Rightarrow> dash_store \<Rightarrow> 'v route_result" where
  "get_persona_analytics_endpoint b pid from_ts to_ts s =
     (if (case (from_ts, to_ts) of (Some a, Some c) \<Rightarrow> c < a | _ \<Rightarrow> False) then (Http_Error 400 BAD_RANGE, [], s)
      else answer_with (bk_persona_analytics b pid from_ts to_ts) (Reply 200) s)"

definition dashboard_personas_endpoint :: "'v backend \<Rightarrow> dash_store \<Rightarrow> 'v route_result" where
  "dashboard_personas_endpoint b s =
     (Reply 200 (bk_presets_json b (map dashboard_persona_from_preset (sort_key persona_id (map snd PRESET_PERSONAS)))), [], s)"

section \<open>Alert settings\<close>

definition ALERT_SECRET_MISSING_DETAIL :: str where
  "ALERT_SECRET_MISSING_DETAIL = lit ''Set ECHIDRA_ALERT_SECRET in .env (generate one with: python -c ''
     @ [dquote] @ lit ''import secrets; print(secrets.token_urlsafe(32))'' @ [dquote] @ lit ''), restart Echidra, then save again.''"

definition get_alert_config_endpoint :: "'v backend \<Rightarrow> dash_store \<Rightarrow> 'v route_result" where
  "get_alert_config_endpoint b = answer_with (bk_alert_config b) (\<lambda>c. Reply 200 (bk_config_json b c))"

text \<open>\<open>Inl ()\<close> stands for \<open>AlertSecretMissingError\<close>, raised before the database is asked.\<close>

definition update_alert_config_endpoint :: "'v backend \<Rightarrow> alert_config \<Rightarrow> dash_store \<Rightarrow> 'v route_result" where
  "update_alert_config_endpoint b config s =
     (case bk_save_alert_config b config of
        Inl x \<Rightarrow> (error_reply (storage_error x), [Config_Update_Sent config], s)
      | Inr (Inl _) \<Rightarrow> (Http_Error 400 ALERT_SECRET_MISSING_DETAIL, [], s)
      | Inr (Inr v) \<Rightarrow> (Reply 200 v, [Config_Update_Sent config], s))"

definition sent_or_error :: "'v backend \<Rightarrow> outgoing list \<times> str option \<Rightarrow> dash_store \<Rightarrow> 'v route_result" where
  "sent_or_error b result s =
     (case result of (out, err) \<Rightarrow>
        ((case err of Some why \<Rightarrow> if why = [] then Reply 200 (bk_sent b) else Http_Error 502 why | None \<Rightarrow> Reply 200 (bk_sent b)),
         map Sent out, s))"

definition NO_FROM_ADDRESS :: str where
  "NO_FROM_ADDRESS = lit ''Set the From email address first. The test email is sent to that address.''"

definition dispatch_test_email :: "alert_env \<Rightarrow> alert_config \<Rightarrow> outgoing list \<times> str option" where
  "dispatch_test_email ae c =
     (case cfg_smtp_from_email c of
        None \<Rightarrow> ([], Some NO_FROM_ADDRESS)
      | Some recipient \<Rightarrow>
          if recipient = [] then ([], Some NO_FROM_ADDRESS)
          else smtp_send ae c recipient (lit ''[Echidra] Test email'')
            (lit ''Test email from Echidra OSS.\<newline>\<newline>Your SMTP settings work, so Echidra can deliver alerts by email.'') None)"

definition send_test_alert_endpoint :: "'v backend \<Rightarrow> dash_store \<Rightarrow> 'v route_result" where
  "send_test_alert_endpoint b s =
     (case bk_alert_config b of
        Inl x \<Rightarrow> (error_reply (storage_error x), [], s)
      | Inr None \<Rightarrow> (Http_Error 400 (lit ''Turn on alerts and save the settings first.''), [], s)
      | Inr (Some c) \<Rightarrow>
          if \<not> cfg_enabled c then (Http_Error 400 (lit ''Turn on alerts and save the settings first.''), [], s)
          else if \<not> given (cfg_smtp_host c) \<or> \<not> given (cfg_smtp_from_email c)
          then (Http_Error 400 (lit ''Enter the SMTP host and From email, then save.''), [], s)
          else sent_or_error b (dispatch_test_email (bk_alerts b) c) s)"

definition TEST_SLACK_TEXT :: str where
  "TEST_SLACK_TEXT = lit ''*[Echidra] Test message*\<newline>This Slack webhook works, so alerts for this persona will be posted here.''"

definition send_test_slack_endpoint :: "'v backend \<Rightarrow> str \<Rightarrow> dash_store \<Rightarrow> 'v route_result" where
  "send_test_slack_endpoint b webhook s =
     (case slack_post (bk_alerts b) webhook TEST_SLACK_TEXT of
        Raised x \<Rightarrow> (Crash x, [], s)
      | Done result \<Rightarrow> sent_or_error b result s)"

definition list_alert_events_endpoint :: "'v backend \<Rightarrow> int \<Rightarrow> dash_store \<Rightarrow> 'v route_result" where
  "list_alert_events_endpoint b limit = answer_with (bk_alert_events b limit) (Reply 200)"

definition count_alert_events_endpoint :: "'v backend \<Rightarrow> dash_store \<Rightarrow> 'v route_result" where
  "count_alert_events_endpoint b = answer_with (bk_count_alert_events b) (Reply 200)"

section \<open>Pages\<close>

text \<open>\<open>urllib.parse.urlencode({"next": path})\<close>.\<close>

definition form_quote_byte :: "nat \<Rightarrow> str" where
  "form_quote_byte c =
     (if c = space then [plus]
      else if is_ascii_alnum c \<or> c \<in> set (lit ''_.-~'') then [c]
      else percent # map (\<lambda>d. if d < 10 then d + 48 else d + 55) [c div 16, c mod 16])"

definition login_redirect :: "dash_request \<Rightarrow> 'v api_reply" where
  "login_redirect r =
     (if rq_path r = lit ''/dashboard'' \<and> rq_query r = [] then Redirect_Reply 303 (lit ''/auth'')
      else let next_path = rq_path r @ (if rq_query r = [] then [] else question # rq_query r)
        in Redirect_Reply 303 (lit ''/auth?next='' @ concat (map form_quote_byte (concat (map utf8_char next_path)))))"

definition DASHBOARD_PAGES :: "str list" where
  "DASHBOARD_PAGES = map lit [''sessions'', ''analytics'', ''intelligence'', ''personas'', ''alerts'']"

definition DATABASE_UNAVAILABLE_PAGE :: str where
  "DATABASE_UNAVAILABLE_PAGE = join [newline] (
      (lit ''<!doctype html>'')
    # (lit ''<html lang='' @ [dquote] @ lit ''en'' @ [dquote] @ lit ''>'')
    # (lit ''<head>'')
    # (lit ''  <meta charset='' @ [dquote] @ lit ''utf-8'' @ [dquote] @ lit ''>'')
    # (lit ''  <meta name='' @ [dquote] @ lit ''viewport'' @ [dquote] @ lit '' content='' @ [dquote] @ lit ''width=device-width, initial-scale=1'' @ [dquote] @ lit ''>'')
    # (lit ''  <title>Database Unavailable - Echidra OSS | Qyleron</title>'')
    # (lit ''  <link rel='' @ [dquote] @ lit ''stylesheet'' @ [dquote] @ lit '' href='' @ [dquote] @ lit ''/dashboard.css'' @ [dquote] @ lit ''>'')
    # (lit ''  <style>'')
    # (lit ''    main { min-height: 100vh; display: grid; place-items: center; padding: 24px; }'')
    # (lit ''    section { max-width: 450px; padding: 32px; border: 1px solid var(--line);'')
    # (lit ''      border-radius: 12px; background: var(--surface); text-align: center; }'')
    # (lit ''    h1 { margin: 0 0 12px; font-size: 22px; font-weight: 600; }'')
    # (lit ''    p { margin: 0; color: var(--hint); font-size: 15px; line-height: 1.5; }'')
    # (lit ''  </style>'')
    # (lit ''</head>'')
    # (lit ''<body>'')
    # (lit ''  <main>'')
    # (lit ''    <section>'')
    # (lit ''      <h1>Can'' @ [squote] @ lit ''t reach the database</h1>'')
    # (lit ''      <p>Check that PostgreSQL is running, then reload this page.</p>'')
    # (lit ''    </section>'')
    # (lit ''  </main>'')
    # (lit ''</body>'')
    # (lit ''</html>'')
    # ([]) # [])"

text \<open>The pages behind the sign-in; \<open>on_disk\<close> says which files are there.\<close>

definition page_guard :: "dash_env \<Rightarrow> rat \<Rightarrow> dash_request \<Rightarrow> dash_store \<Rightarrow> (dash_store \<Rightarrow> 'v route_result) \<Rightarrow> 'v route_result" where
  "page_guard e now r s handler =
     (case dashboard_request_is_authenticated e now r s of
        (Database_Unreachable, s') \<Rightarrow> (Html_Reply 503 DATABASE_UNAVAILABLE_PAGE, [], s')
      | (Crashed x, s') \<Rightarrow> (Crash x, [], s')
      | (Checked False, s') \<Rightarrow> (login_redirect r, [], s')
      | (Checked True, s') \<Rightarrow> handler s')"

definition home_file :: "(str \<Rightarrow> bool) \<Rightarrow> 'v api_reply" where
  "home_file on_disk = (if on_disk (lit ''index'') then File_Reply (lit ''index'') else Http_Error 404 (lit ''Dashboard not found''))"

definition page_file :: "(str \<Rightarrow> bool) \<Rightarrow> str \<Rightarrow> 'v api_reply" where
  "page_file on_disk page_name =
     (if page_name \<in> set DASHBOARD_PAGES \<and> on_disk page_name then File_Reply page_name
      else Http_Error 404 (lit ''Dashboard page not found''))"

definition custom_select_js :: "(str \<Rightarrow> bool) \<Rightarrow> dash_store \<Rightarrow> 'v route_result" where
  "custom_select_js on_disk s =
     ((if on_disk (lit ''custom-select.js'') then File_Reply (lit ''custom-select.js'')
       else Http_Error 404 (lit ''Dashboard script not found'')), [], s)"

text \<open>What anyone may see.\<close>

definition auth_page :: "(str \<Rightarrow> bool) \<Rightarrow> 'v api_reply" where
  "auth_page on_disk = (if on_disk (lit ''auth'') then File_Reply (lit ''auth'') else Http_Error 404 (lit ''Auth page not found''))"

definition dashboard_css :: "(str \<Rightarrow> bool) \<Rightarrow> 'v api_reply" where
  "dashboard_css on_disk = (if on_disk (lit ''dashboard.css'') then File_Reply (lit ''dashboard.css'')
     else Http_Error 404 (lit ''Dashboard stylesheet not found''))"

definition dashboard_asset :: "(str \<Rightarrow> bool) \<Rightarrow> str \<Rightarrow> 'v api_reply" where
  "dashboard_asset on_disk filename =
     (if filename \<in> set (map lit [''Qyleron_Banner.png'', ''qyleron_logo.png'']) \<and> on_disk filename then File_Reply filename
      else Http_Error 404 (lit ''Asset not found''))"

datatype database_health = Database_Ok | Database_Not_Configured | Database_Down

definition health :: "db_error option \<Rightarrow> database_health" where
  "health fault = (case fault of None \<Rightarrow> Database_Ok | Some Not_Configured \<Rightarrow> Database_Not_Configured | Some x \<Rightarrow> Database_Down)"

definition signup_allowed_status :: "dash_store \<Rightarrow> bool \<times> dash_store" where
  "signup_allowed_status s = (case count_dashboard_users s of (Inl x, s') \<Rightarrow> (False, s') | (Inr n, s') \<Rightarrow> (n = 0, s'))"

section \<open>Which responses may be stored\<close>

definition NO_STORE_EXEMPT_PATHS :: "str list" where
  "NO_STORE_EXEMPT_PATHS = map lit [''/health'', ''/'', ''/classify/session'', ''/openapi.json'', ''/docs'', ''/redoc'']"

definition no_store_exempt :: "str \<Rightarrow> bool" where
  "no_store_exempt path \<longleftrightarrow> path \<in> set NO_STORE_EXEMPT_PATHS \<or> startswith path (lit ''/assets/'')"

text \<open>The middleware, on a response's \<open>Cache-Control\<close> and \<open>Pragma\<close>.\<close>

definition no_store_headers :: "str \<Rightarrow> str option \<Rightarrow> str option \<Rightarrow> str option \<times> str option" where
  "no_store_headers path cache_control pragma =
     (if no_store_exempt path then (cache_control, pragma)
      else ((case cache_control of
               Some v \<Rightarrow> if v \<noteq> [] \<and> contains (lower v) (lit ''no-store'') then Some v else Some (lit ''no-store, must-revalidate'')
             | None \<Rightarrow> Some (lit ''no-store, must-revalidate'')),
            (case pragma of
               Some v \<Rightarrow> if v \<noteq> [] \<and> contains (lower v) (lit ''no-cache'') then Some v else Some (lit ''no-cache'')
             | None \<Rightarrow> Some (lit ''no-cache''))))"

section \<open>The routes behind the sign-in\<close>

datatype route =
    Report_Summary
  | Analytics_Summary rat rat
  | Analytics_Blocklist rat rat
  | List_Runs run_filter
  | Get_Run str
  | Session_Events str
  | Session_Issues str
  | List_Labels "str option" "str option" int
  | Get_Label str
  | List_Issues "str option" int "rat option" "rat option"
  | Update_Issue str str
  | List_Personas
  | Create_Persona str persona_row
  | Get_Persona str
  | Update_Persona str persona_row
  | Delete_Persona str
  | Persona_Analytics str "rat option" "rat option"
  | Persona_Presets
  | Get_Alert_Config
  | Update_Alert_Config alert_config
  | Test_Alert
  | Test_Slack str
  | List_Alert_Events int
  | Count_Alert_Events
  | Select_Script
  | Home_Page
  | Dashboard_Page str

fun handle_route :: "'v backend \<Rightarrow> (str \<Rightarrow> bool) \<Rightarrow> rat \<Rightarrow> route \<Rightarrow> dash_store \<Rightarrow> 'v route_result" where
  "handle_route b on_disk now Report_Summary = dashboard_report_summary_endpoint b"
| "handle_route b on_disk now (Analytics_Summary from_ts to_ts) = analytics_summary_endpoint b from_ts to_ts"
| "handle_route b on_disk now (Analytics_Blocklist from_ts to_ts) = analytics_blocklist_endpoint b from_ts to_ts"
| "handle_route b on_disk now (List_Runs q) = list_classifier_runs_endpoint b q"
| "handle_route b on_disk now (Get_Run rid) = get_classifier_run_endpoint b rid"
| "handle_route b on_disk now (Session_Events sid) = list_session_events_endpoint b sid"
| "handle_route b on_disk now (Session_Issues sid) = list_issues_for_session_endpoint b sid"
| "handle_route b on_disk now (List_Labels sid rid limit) = list_manual_labels_endpoint b sid rid limit"
| "handle_route b on_disk now (Get_Label lid) = get_manual_label_endpoint b lid"
| "handle_route b on_disk now (List_Issues status limit from_ts to_ts) = list_issues_endpoint b status limit from_ts to_ts"
| "handle_route b on_disk now (Update_Issue iid status) = update_issue_status_endpoint b iid status"
| "handle_route b on_disk now List_Personas = list_persona_configs_endpoint b"
| "handle_route b on_disk now (Create_Persona pid config) = create_persona_config_endpoint b now pid config"
| "handle_route b on_disk now (Get_Persona pid) = get_persona_config_endpoint b pid"
| "handle_route b on_disk now (Update_Persona pid config) = update_persona_config_endpoint b now pid config"
| "handle_route b on_disk now (Delete_Persona pid) = delete_persona_config_endpoint pid"
| "handle_route b on_disk now (Persona_Analytics pid from_ts to_ts) = get_persona_analytics_endpoint b pid from_ts to_ts"
| "handle_route b on_disk now Persona_Presets = dashboard_personas_endpoint b"
| "handle_route b on_disk now Get_Alert_Config = get_alert_config_endpoint b"
| "handle_route b on_disk now (Update_Alert_Config config) = update_alert_config_endpoint b config"
| "handle_route b on_disk now Test_Alert = send_test_alert_endpoint b"
| "handle_route b on_disk now (Test_Slack webhook) = send_test_slack_endpoint b webhook"
| "handle_route b on_disk now (List_Alert_Events limit) = list_alert_events_endpoint b limit"
| "handle_route b on_disk now Count_Alert_Events = count_alert_events_endpoint b"
| "handle_route b on_disk now Select_Script = custom_select_js on_disk"
| "handle_route b on_disk now Home_Page = (\<lambda>s. (home_file on_disk, [], s))"
| "handle_route b on_disk now (Dashboard_Page page_name) = (\<lambda>s. (page_file on_disk page_name, [], s))"

text \<open>The path has been matched to its handler; the pages send a visitor to the sign-in, the rest refuse.\<close>

fun is_page :: "route \<Rightarrow> bool" where
  "is_page Home_Page \<longleftrightarrow> True"
| "is_page (Dashboard_Page page_name) \<longleftrightarrow> True"
| "is_page _ \<longleftrightarrow> False"

definition serve_route :: "dash_env \<Rightarrow> 'v backend \<Rightarrow> (str \<Rightarrow> bool) \<Rightarrow> rat \<Rightarrow> dash_request \<Rightarrow> route \<Rightarrow> dash_store \<Rightarrow> 'v route_result" where
  "serve_route e b on_disk now r route s =
     (if is_page route then page_guard e now r s (handle_route b on_disk now route)
      else guarded e now r s (handle_route b on_disk now route))"

end
