(* ===== verification/IngestApi.thy ===== *)
theory IngestApi
  imports DashboardAuth Pipeline
begin

text \<open>
  Sessions sent to the classifier over HTTP (\<open>classifier/api/app.py\<close>): classifying one without storing it, and
  classifying and storing one behind the ingest key. FastAPI has validated the record before. The rest of the
  work is that of \<open>Pipeline\<close> and \<open>Storage\<close>. One thing differs from the decoys' own way: the sessions of an
  address are counted before this one is stored.
\<close>

definition error_text :: "exn \<Rightarrow> str" where
  "error_text x = (case x of ValueError s \<Rightarrow> s | RuntimeError s \<Rightarrow> s | _ \<Rightarrow> [])"

definition is_value_error :: "exn \<Rightarrow> bool" where
  "is_value_error x = (case x of ValueError s \<Rightarrow> True | UnicodeEncodeError \<Rightarrow> True | _ \<Rightarrow> False)"

text \<open>\<open>_classify_or_http_error\<close>; the text of a \<open>UnicodeEncodeError\<close>, which no rule raises, is left out.\<close>

definition classify_or_http_error ::
  "rule_set outcome \<Rightarrow> session_record \<Rightarrow> int option \<Rightarrow> 'v api_reply + classification_summary" where
  "classify_or_http_error loaded session connection_count =
     (case with_rules loaded session connection_count of
        Done summary \<Rightarrow> Inr summary
      | Raised x \<Rightarrow>
          if is_value_error x
          then (let detail = user_facing_text (error_text x) in
                Inl (Http_Error 400 (if detail = [] then lit ''Validation error'' else detail)))
          else Inl (Http_Error 500 (lit ''Internal server error'')))"

definition classify_session_endpoint :: "rule_set outcome \<Rightarrow> session_record \<Rightarrow> classification_summary api_reply" where
  "classify_session_endpoint loaded session =
     (case classify_or_http_error loaded session None of Inl reply \<Rightarrow> reply | Inr summary \<Rightarrow> Reply 200 summary)"

definition count_sessions_from_ip :: "str \<Rightarrow> database \<Rightarrow> (db_error + int) \<times> database" where
  "count_sessions_from_ip ip db =
     (case transact [] db of (Some x, db') \<Rightarrow> (Inl x, db') | (None, db') \<Rightarrow> (Inr (count_from_ip ip db'), db'))"

text \<open>The count of the endpoint: any failure leaves it out.\<close>

definition ingest_count :: "session_record \<Rightarrow> database \<Rightarrow> int option \<times> database" where
  "ingest_count session db =
     (case peer_text session of
        None \<Rightarrow> (None, db)
      | Some ip \<Rightarrow> (case count_sessions_from_ip ip db of (Inl x, db') \<Rightarrow> (None, db') | (Inr n, db') \<Rightarrow> (Some n, db')))"

definition classify_and_store_session_endpoint ::
  "dash_env \<Rightarrow> classifier_env \<Rightarrow> dash_request \<Rightarrow> rat \<Rightarrow> rat \<Rightarrow> session_record \<Rightarrow> classifier_state \<Rightarrow>
     (str \<times> classification_summary) api_reply \<times> classifier_state" where
  "classify_and_store_session_endpoint e ce r now wall session st =
     (case require_ingest_api_key e r of
        Some reply \<Rightarrow> (reply, st)
      | None \<Rightarrow>
          (case ingest_count session (cs_db st) of
             (connection_count, db1) \<Rightarrow>
               (case classify_or_http_error (ce_rules ce) session connection_count of
                  Inl reply \<Rightarrow> (reply, st\<lparr>cs_db := db1\<rparr>)
                | Inr summary \<Rightarrow>
                    (case save_classifier_run (ce_storage ce) session summary db1 of
                       (Inl x, db2) \<Rightarrow> (error_reply (storage_error x), st\<lparr>cs_db := db2\<rparr>)
                     | (Inr run, db2) \<Rightarrow>
                         (case maybe_send_alert (ce_alerts ce) (ce_window ce) now wall (Some (run_id run), session, summary) (cs_alerts st) of
                            (out, alerts) \<Rightarrow>
                              (Reply 200 (run_id run, summary),
                               st\<lparr>cs_db := db2, cs_alerts := alerts, cs_sent := cs_sent st @ out,
                                  cs_issue_syncs := cs_issue_syncs st + 1\<rparr>))))))"

end
