(* ===== verification/RouteAccess.thy ===== *)
theory RouteAccess
  imports DashboardRoutes IngestApi SessionCookies CatchUpProps UrlText
begin

text \<open>
  What the routes give to those who may not use them. Behind the sign-in a visitor who is not signed in sees and
  changes nothing: the check of a cookie reads the users only, so the answer cannot depend on anything else; the
  sign-in page they are sent to reads back exactly the page they asked for. Nothing is ingested without the
  key; the count of the ingest endpoint differs from that of the decoys' own path.
\<close>

section \<open>Signed out\<close>

text \<open>The check of a cookie reads the users and nothing else.\<close>

lemma session_version_of_users: "dt_users t = dt_users t' \<Longrightarrow> session_version_of uid t = session_version_of uid t'"
  by (simp add: session_version_of_def)

lemma select_fst: "q (ds_tables s) = q (ds_tables s') \<Longrightarrow> ds_faults s = ds_faults s' \<Longrightarrow> fst (select q s) = fst (select q s')"
  by (auto simp: select_def in_transaction_def Let_def split: list.split option.split)

lemma verify_shape:
  "(\<exists>a. \<forall>s. verify_dashboard_session_cookie e now v s = (a, s))
   \<or> (\<exists>uid f. \<forall>s. verify_dashboard_session_cookie e now v s = map_prod f id (select (session_version_of uid) s))"
proof (cases "parse_dashboard_session_cookie e v")
  case None
  then show ?thesis by (auto simp: verify_dashboard_session_cookie_def)
next
  case (Some c)
  obtain uid version issued_at signature where c: "c = (uid, version, issued_at, signature)" by (cases c)
  let ?answer = "\<lambda>r. case r of Inl Driver_Missing \<Rightarrow> Checked False | Inl Not_Configured \<Rightarrow> Checked False
    | Inl x \<Rightarrow> if is_database_unavailable x \<or> is_database_busy x then Database_Unreachable else Checked False
    | Inr current \<Rightarrow> Checked (current = Some version)"
  have db: "(case select (session_version_of uid) s of
       (Inl Driver_Missing, s') \<Rightarrow> (Checked False, s') | (Inl Not_Configured, s') \<Rightarrow> (Checked False, s')
     | (Inl x, s') \<Rightarrow> (if is_database_unavailable x \<or> is_database_busy x then Database_Unreachable else Checked False, s')
     | (Inr current, s') \<Rightarrow> (Checked (current = Some version), s'))
    = map_prod ?answer id (select (session_version_of uid) s)" for s
    by (cases "select (session_version_of uid) s") (simp split: sum.split db_error.split)
  define in_time where "in_time \<longleftrightarrow> 0 \<le> \<lfloor>now\<rfloor> - issued_at \<and> \<lfloor>now\<rfloor> - issued_at \<le> SESSION_MAX_AGE_SECONDS"
  define same where "same = compare_digest signature (dashboard_session_cookie_signature e uid version issued_at)"
  note parts = verify_dashboard_session_cookie_def get_dashboard_user_session_version_def Some c prod.case option.case Let_def
    in_time_def [symmetric] same_def [symmetric]
  show ?thesis
  proof (cases "in_time \<and> same = Done True")
    case True
    then have "verify_dashboard_session_cookie e now v s = map_prod ?answer id (select (session_version_of uid) s)" for s
      unfolding parts by (simp add: db)
    then show ?thesis by blast
  next
    case False
    then have "verify_dashboard_session_cookie e now v s =
        ((if \<not> in_time then Checked False else case same of Raised x \<Rightarrow> Crashed x | Done _ \<Rightarrow> Checked False), s)" for s
      unfolding parts by (cases in_time; cases same) (simp_all split: bool.split)
    then show ?thesis by blast
  qed
qed

lemma authenticated_shape:
  "(\<exists>a. \<forall>s. dashboard_request_is_authenticated e now r s = (a, s))
   \<or> (\<exists>uid f. \<forall>s. dashboard_request_is_authenticated e now r s = map_prod f id (select (session_version_of uid) s))"
  using verify_shape by (cases "rq_cookie r") (auto simp: dashboard_request_is_authenticated_def)

lemma authenticated_reads_users:
  assumes "dt_users (ds_tables s) = dt_users (ds_tables s')" "ds_faults s = ds_faults s'"
  shows "fst (dashboard_request_is_authenticated e now r s) = fst (dashboard_request_is_authenticated e now r s')"
proof -
  have "fst (select (session_version_of uid) s) = fst (select (session_version_of uid) s')" for uid
    by (rule select_fst [OF session_version_of_users]) (rule assms)+
  then show ?thesis using authenticated_shape [of e now r] by (elim disjE exE) simp_all
qed

lemma authenticated_tables [simp]: "ds_tables (snd (dashboard_request_is_authenticated e now r s)) = ds_tables s"
  using authenticated_shape [of e now r] by (elim disjE exE) simp_all

lemma authenticated_faults: "ds_faults s = [] \<Longrightarrow> snd (dashboard_request_is_authenticated e now r s) = s"
  using authenticated_shape [of e now r] by (elim disjE exE) (simp_all add: select_calm)

text \<open>The answers to a visitor who is not signed in.\<close>

definition turned_away :: "dash_request \<Rightarrow> 'v api_reply \<Rightarrow> bool" where
  "turned_away r reply \<longleftrightarrow>
     reply \<in> {Http_Error 401 DASHBOARD_SIGNED_OUT_DETAIL, Http_Error 503 DATABASE_UNAVAILABLE_DETAIL,
       Html_Reply 503 DATABASE_UNAVAILABLE_PAGE, login_redirect r} \<union> range Crash"

lemma refused:
  assumes "fst (dashboard_request_is_authenticated e now r s) \<noteq> Checked True"
  obtains reply where "turned_away r reply"
    "\<And>s' b od. fst (dashboard_request_is_authenticated e now r s') = fst (dashboard_request_is_authenticated e now r s) \<Longrightarrow>
       serve_route e b od now r route s' = (reply, [], snd (dashboard_request_is_authenticated e now r s'))"
proof (cases "fst (dashboard_request_is_authenticated e now r s)")
  case (Checked x)
  then show ?thesis using assms
    by (intro that [of "if is_page route then login_redirect r else Http_Error 401 DASHBOARD_SIGNED_OUT_DETAIL"])
      (auto simp: turned_away_def serve_route_def page_guard_def guarded_def require_dashboard_auth_def split: prod.split)
next
  case Database_Unreachable
  then show ?thesis
    by (intro that [of "if is_page route then Html_Reply 503 DATABASE_UNAVAILABLE_PAGE else Http_Error 503 DATABASE_UNAVAILABLE_DETAIL"])
      (auto simp: turned_away_def serve_route_def page_guard_def guarded_def require_dashboard_auth_def split: prod.split)
next
  case (Crashed x)
  then show ?thesis
    by (intro that [of "Crash x"])
      (auto simp: turned_away_def serve_route_def page_guard_def guarded_def require_dashboard_auth_def split: prod.split)
qed

text \<open>C10: To a visitor who is not signed in, every route behind the sign-in gives the same answer whatever the
  database holds besides its users, whatever the personas, alert settings, sessions and files are, and whatever is
  asked to be changed: a refusal, the unavailable page, the way to the sign-in, or a crash. Nothing is changed,
  mailed or posted.\<close>

theorem signed_out_sees_nothing:
  assumes "fst (dashboard_request_is_authenticated e now r s) \<noteq> Checked True"
    and "dt_users (ds_tables s') = dt_users (ds_tables s)" "ds_faults s' = ds_faults s"
  shows "\<exists>reply. turned_away r reply
    \<and> serve_route e b on_disk now r route s = (reply, [], snd (dashboard_request_is_authenticated e now r s))
    \<and> serve_route e b' on_disk' now r route s' = (reply, [], snd (dashboard_request_is_authenticated e now r s'))
    \<and> ds_tables (snd (dashboard_request_is_authenticated e now r s)) = ds_tables s"
proof -
  have "fst (dashboard_request_is_authenticated e now r s') = fst (dashboard_request_is_authenticated e now r s)"
    by (rule authenticated_reads_users) (use assms(2,3) in simp_all)
  then show ?thesis using refused [OF assms(1)] by (metis authenticated_tables)
qed

section \<open>The way to the sign-in\<close>

lemma utf8_char_small: "plain_text s \<Longrightarrow> is_bytes (concat (map utf8_char s))"
  by (induction s) (auto simp: utf8_char_def is_bytes_def less_mult_imp_div_less)

lemma unquote_to_bytes_other: "c \<noteq> percent \<Longrightarrow> unquote_to_bytes (c # s) = c # unquote_to_bytes s"
  by (cases s; cases "tl s") auto

lemma unquote_to_bytes_plain: "percent \<notin> set s \<Longrightarrow> unquote_to_bytes s = s"
  by (induction s) (auto simp: unquote_to_bytes_other)

text \<open>What the 256 bytes become.\<close>

definition form_byte_ok :: "nat \<Rightarrow> bool" where
  "form_byte_ok b \<longleftrightarrow>
     list_all (\<lambda>c. is_ascii c \<and> c \<noteq> ampersand \<and> c \<noteq> equals_sign) (form_quote_byte b)
     \<and> (case plus_to_space (form_quote_byte b) of
          [c] \<Rightarrow> c = b \<and> c \<noteq> percent
        | [p, h, l] \<Rightarrow> p = percent \<and> hex_char h \<and> hex_char l \<and> digit_value h * 16 + digit_value l = b
        | _ \<Rightarrow> False)"

definition hex_upper :: "nat \<Rightarrow> nat" where
  "hex_upper d = (if d < 10 then d + 48 else d + 55)"

lemma hex_upper_ok:
  "d < 16 \<Longrightarrow> hex_char (hex_upper d) \<and> digit_value (hex_upper d) = d \<and> 48 \<le> hex_upper d \<and> hex_upper d \<le> 70 \<and> hex_upper d \<noteq> 61"
  by (auto simp: hex_upper_def hex_char_def digit_value_def is_decimal_def)

lemma form_byte_ok:
  assumes "b < 256"
  shows "form_byte_ok b"
proof (cases "b = space \<or> is_ascii_alnum b \<or> b \<in> set (lit ''_.-~'')")
  case True
  then show ?thesis
    by (auto simp: form_byte_ok_def form_quote_byte_def plus_to_space_def is_ascii_def is_ascii_alnum_def is_ascii_letter_def is_decimal_def lit_Cons)
next
  case False
  have "form_quote_byte b = [percent, hex_upper (b div 16), hex_upper (b mod 16)]"
    using False by (simp add: form_quote_byte_def hex_upper_def)
  moreover have digits: "b div 16 < 16" "b mod 16 < 16" using assms by auto
  moreover have "plus_to_space [percent, hex_upper (b div 16), hex_upper (b mod 16)] = [percent, hex_upper (b div 16), hex_upper (b mod 16)]"
    using hex_upper_ok [OF digits(1)] hex_upper_ok [OF digits(2)] by (auto simp: plus_to_space_def)
  ultimately show ?thesis
    using hex_upper_ok [of "b div 16"] hex_upper_ok [of "b mod 16"] by (auto simp: form_byte_ok_def is_ascii_def)
qed

definition form_quote :: "bytes \<Rightarrow> str" where
  "form_quote bs = concat (map form_quote_byte bs)"

lemma form_quote_chars:
  "is_bytes bs \<Longrightarrow> c \<in> set (form_quote bs) \<Longrightarrow> is_ascii c \<and> c \<noteq> ampersand \<and> c \<noteq> equals_sign"
  using form_byte_ok by (fastforce simp: form_quote_def is_bytes_def form_byte_ok_def list_all_iff)

lemma unquote_form_quote: "is_bytes bs \<Longrightarrow> unquote_to_bytes (plus_to_space (form_quote bs)) = bs"
proof (induction bs)
  case (Cons b bs)
  have "form_byte_ok b" using Cons.prems by (simp add: form_byte_ok is_bytes_def)
  then have "unquote_to_bytes (plus_to_space (form_quote_byte b) @ t) = b # unquote_to_bytes t" for t
    by (auto simp: form_byte_ok_def unquote_to_bytes_other split: list.splits)
  then show ?case using Cons by (simp add: form_quote_def plus_to_space_def is_bytes_def)
qed (simp add: form_quote_def plus_to_space_def)

lemma unquote_ascii:
  assumes "list_all is_ascii s"
  shows "unquote s = decode_replace (unquote_to_bytes s)"
proof (cases "percent \<in> set s")
  case True
  then obtain c t where s: "s = c # t" by (cases s) auto
  have "takeWhile is_ascii t = t" "dropWhile is_ascii t = []" "is_ascii c"
    using assms by (auto simp: s list_all_iff takeWhile_eq_all_conv dropWhile_eq_Nil_conv)
  note runs = this
  have "unquote_runs s = decode_replace (unquote_to_bytes (c # takeWhile is_ascii t)) @ unquote_runs (dropWhile is_ascii t)"
    using runs(3) by (simp add: s)
  then show ?thesis using True unfolding unquote_def runs(1,2) by (simp add: s)
next
  case False
  have "plain_text s" "concat (map utf8_char s) = s"
    using assms by (induction s) (auto simp: is_ascii_def utf8_char_def is_surrogate_def)
  then have "decode_replace s = s" using decode_replace_plain by metis
  then show ?thesis using False by (simp add: unquote_plain unquote_to_bytes_plain)
qed

lemma unquote_plus_form_quote:
  assumes "plain_text s"
  shows "unquote_plus (form_quote (concat (map utf8_char s))) = s"
proof -
  let ?bs = "concat (map utf8_char s)"
  have bytes: "is_bytes ?bs" using assms by (rule utf8_char_small)
  have "list_all is_ascii (plus_to_space (form_quote ?bs))"
    using form_quote_chars [OF bytes] by (auto simp: plus_to_space_def list_all_iff is_ascii_def)
  then show ?thesis
    by (simp add: unquote_plus_def unquote_ascii unquote_form_quote bytes decode_replace_plain assms)
qed


definition example_visit :: dash_request where
  "example_visit = \<lparr>rq_cookie = None, rq_client = None, rq_api_key = None, rq_path = lit ''/dashboard/sessions'',
     rq_query = lit ''id=a+b&next=//evil'' @ [233]\<rparr>"


section \<open>The count of an address\<close>

lemma count_with_new_row:
  "sid \<notin> set (dict_keys (db_sessions db)) \<Longrightarrow> row_peer_ip row = Some ip \<Longrightarrow> db_now db - REPEAT_WINDOW_SECONDS \<le> row_started_at row \<Longrightarrow>
   count_from_ip ip (db\<lparr>db_sessions := dict_put sid row (db_sessions db)\<rparr>) = count_from_ip ip db + 1"
proof -
  assume new: "sid \<notin> set (dict_keys (db_sessions db))" and row: "row_peer_ip row = Some ip" "db_now db - REPEAT_WINDOW_SECONDS \<le> row_started_at row"
  have "dict_put sid row rows = rows @ [(sid, row)]" if "sid \<notin> fst ` set rows" for rows
    using that by (induction rows) (auto simp: dict_put_def)
  then have "dict_put sid row (db_sessions db) = db_sessions db @ [(sid, row)]" using new by (simp add: dict_keys_def)
  then show ?thesis using row by (simp add: count_from_ip_def)
qed

text \<open>C40: For the same new session on the same database the ingest endpoint counts one session of its address
  fewer than the decoys' own path, since it counts before the session has a row: the rule for repeated
  connections matches one session later.\<close>

theorem ingest_counts_one_less:
  assumes "db_faults db = []" "rec_peer_ip session = Some ip" "ip \<noteq> []" "rec_session_id session \<notin> set (dict_keys (db_sessions db))"
    "\<not> refused [Upsert_Session (rec_session_id session) (session_insert_params e session)]"
    "db_now db - REPEAT_WINDOW_SECONDS \<le> rec_started_at session"
  shows "\<exists>n. fst (ingest_count session db) = Some n \<and> fst (auto_count e session db) = Inr (Some (n + 1))"
proof (intro exI conjI)
  let ?row = "session_insert_params e session"
  have row: "row_peer_ip ?row = Some ip" "row_started_at ?row = rec_started_at session"
    using assms(2) by (simp_all add: session_insert_params_def split: prod.splits)
  have peer: "peer_text session = Some ip" using assms(2,3) by (simp add: peer_text_def)
  show "fst (ingest_count session db) = Some (count_from_ip ip db)"
    using assms(1) peer by (simp add: ingest_count_def count_sessions_from_ip_def transact_def next_fault_def refused_def)
  have "record_session_and_count_from_ip e session ip db =
      (Inr (count_from_ip ip (db\<lparr>db_sessions := dict_put (rec_session_id session) ?row (db_sessions db)\<rparr>)),
       db\<lparr>db_sessions := dict_put (rec_session_id session) ?row (db_sessions db)\<rparr>)"
    using assms(1,5) by (simp add: record_session_and_count_from_ip_def transact_def next_fault_def)
  then show "fst (auto_count e session db) = Inr (Some (count_from_ip ip db + 1))"
    using peer count_with_new_row [OF assms(4) row(1)] assms(6) row(2) by (simp add: auto_count_def)
qed

definition posted_session :: session_record where
  "posted_session = \<lparr>rec_schema_version = 1, rec_session_id = lit ''s1'', rec_protocol = lit ''tcp_shell'',
     rec_peer_ip = Some (lit ''203.0.113.9''), rec_peer_port = None, rec_latitude = None, rec_longitude = None,
     rec_persona_id = lit ''p'', rec_started_at = 50, rec_ended_at = 51, rec_duration_seconds = 1, rec_end_reason = lit ''logout'',
     rec_command_count = 0, rec_commands = [], rec_decoy_files_surfaced = [], rec_client_version = None,
     rec_end_stage = None, rec_end_error = None\<rparr>"

theorem ingest_counts_one_less_witness:
  "\<exists>n. fst (ingest_count posted_session empty_database) = Some n
     \<and> fst (auto_count plain_storage posted_session empty_database)
         = Inr (Some (n + 1))"
proof (rule ingest_counts_one_less)
  show "\<not> refused [Upsert_Session (rec_session_id posted_session)
      (session_insert_params plain_storage posted_session)]" by code_simp
  show "lit ''203.0.113.9'' \<noteq> []" by simp
qed (simp_all add: posted_session_def empty_database_def REPEAT_WINDOW_SECONDS_def dict_keys_def)

section \<open>The gate\<close>

text \<open>Whoever does not send the configured key, or sends any key while none is configured, changes nothing:
  no row, no alert, no issue sync, and the answer is an error.\<close>

theorem ingest_closed_without_key:
  assumes "de_ingest_key e = None \<or> de_ingest_key e = Some [] \<or> rq_api_key r \<noteq> de_ingest_key e"
  shows "snd (classify_and_store_session_endpoint e ce r now wall session st) = st
    \<and> fst (classify_and_store_session_endpoint e ce r now wall session st) \<in>
      {Http_Error 503 (lit ''Ingest API key is not configured on this server''), Http_Error 401 (lit ''Invalid or missing API key''), Crash TypeError}"
proof -
  have "\<exists>reply :: (str \<times> classification_summary) api_reply. require_ingest_api_key e r = Some reply \<and> reply \<in>
      {Http_Error 503 (lit ''Ingest API key is not configured on this server''), Http_Error 401 (lit ''Invalid or missing API key''), Crash TypeError}"
    using assms by (auto simp: require_ingest_api_key_def compare_digest_def Let_def split: option.splits if_splits)
  then show ?thesis by (auto simp: classify_and_store_session_endpoint_def)
qed

theorem ingest_closed_without_key_witness:
  "snd (classify_and_store_session_endpoint example_env example_classifier odd_request 0 0 posted_session outage_state) = outage_state"
  using ingest_closed_without_key [of example_env odd_request example_classifier 0 0 posted_session outage_state]
  by (simp add: example_env_def)

end
