(* ===== verification/SavedPersonas.thy ===== *)
theory SavedPersonas
  imports RouteAccess PersonaProps AlertMessageProps
begin

text \<open>
  The saved personas behind the dashboard's routes: the routes implement a map from ids to configurations, whatever
  else is asked in between, and what an analyst saved is what the honeypot goes live with.
\<close>

section \<open>The personas as a map\<close>

definition persona_map :: "dash_store \<Rightarrow> str \<Rightarrow> stored_persona option" where
  "persona_map s = dict_get (dt_personas (ds_tables s))"

definition INTERNAL_ERROR :: "'v api_reply" where
  "INTERNAL_ERROR = error_reply (500, lit ''Internal server error'')"

fun persona_spec :: "'v backend \<Rightarrow> rat \<Rightarrow> route \<Rightarrow> (str \<Rightarrow> stored_persona option) \<Rightarrow> 'v api_reply \<times> (str \<Rightarrow> stored_persona option)" where
  "persona_spec b now (Create_Persona pid config) m =
     (let stored = \<lparr>sp_row = config\<lparr>pr_id := pid\<rparr>, sp_created_at = now, sp_updated_at = now\<rparr> in
      if \<not> storable (config\<lparr>pr_id := pid\<rparr>) then (INTERNAL_ERROR, m)
      else if m pid \<noteq> None then (Http_Error 409 (lit ''Persona config already exists''), m)
      else (Reply 201 (bk_persona_json b stored), m(pid \<mapsto> stored)))"
| "persona_spec b now (Get_Persona pid) m =
     (case m pid of None \<Rightarrow> Http_Error 404 PERSONA_NOT_FOUND | Some stored \<Rightarrow> Reply 200 (bk_persona_json b stored), m)"
| "persona_spec b now (Update_Persona pid config) m =
     (if \<not> storable (config\<lparr>pr_id := pid\<rparr>) then (INTERNAL_ERROR, m)
      else case m pid of None \<Rightarrow> (Http_Error 404 PERSONA_NOT_FOUND, m)
      | Some before \<Rightarrow>
          let stored = before\<lparr>sp_row := config\<lparr>pr_id := pid\<rparr>, sp_updated_at := now\<rparr>
          in (Reply 200 (bk_persona_json b stored), m(pid \<mapsto> stored)))"
| "persona_spec b now (Delete_Persona pid) m =
     (if m pid = None then (Http_Error 404 PERSONA_NOT_FOUND, m) else (Text_Reply [], m(pid := None)))"
| "persona_spec b now _ m = (INTERNAL_ERROR, m)"

fun persona_route :: "route \<Rightarrow> bool" where
  "persona_route (Create_Persona pid config) \<longleftrightarrow> True"
| "persona_route (Get_Persona pid) \<longleftrightarrow> True"
| "persona_route (Update_Persona pid config) \<longleftrightarrow> True"
| "persona_route (Delete_Persona pid) \<longleftrightarrow> True"
| "persona_route _ \<longleftrightarrow> False"

lemma dict_get_removed: "dict_get (filter (\<lambda>kv. fst kv \<noteq> p) d) k = (if k = p then None else dict_get d k)"
  using dict_get_filter [of "\<lambda>k. k \<noteq> p" d k] by simp

lemma serve_authenticated:
  "dashboard_request_is_authenticated e now r s = (Checked True, s') \<Longrightarrow>
    serve_route e b od now r route s = handle_route b od now route s'"
  by (simp add: serve_route_def page_guard_def guarded_def require_dashboard_auth_def)

lemma serve_signed_in:
  assumes "fst (dashboard_request_is_authenticated e now r s) = Checked True" "ds_faults s = []"
  shows "serve_route e b od now r route s = handle_route b od now route s"
  by (rule serve_authenticated) (use assms in \<open>simp add: authenticated_faults prod_eq_iff\<close>)

lemma in_transaction_fixed:
  "ds_faults s = [] \<Longrightarrow> in_transaction op s = (fst (op (ds_tables s)),
     s\<lparr>ds_tables := (case op (ds_tables s) of (Inl x, t) \<Rightarrow> ds_tables s | (Inr a, t) \<Rightarrow> t)\<rparr>)"
  by (simp add: in_transaction_def split: prod.split sum.split)

lemma refused_text [simp]: "storage_error (Psycopg_Error False None) = (500, lit ''Internal server error'')"
  by code_simp

lemma handle_persona:
  assumes "ds_faults s = []" "persona_route route"
  shows "\<exists>s'. handle_route b od now route s = (fst (persona_spec b now route (persona_map s)), [], s')
    \<and> persona_map s' = snd (persona_spec b now route (persona_map s))"
proof (cases route)
  case (Create_Persona pid config)
  have "dict_has (dt_personas (ds_tables s)) pid \<longleftrightarrow> persona_map s pid \<noteq> None"
    by (simp add: persona_map_def dict_has_iff dict_get_None_iff)
  then show ?thesis using assms Create_Persona
    by (auto simp: create_persona_config_endpoint_def create_persona_config_def in_transaction_fixed insert_persona_def Let_def
        answer_with_def persona_map_def INTERNAL_ERROR_def fun_eq_iff)
next
  case (Get_Persona pid)
  then show ?thesis using assms
    by (simp add: get_persona_config_endpoint_def get_persona_config_def select_calm answer_with_def found_or_404_def persona_map_def
        split: option.split)
next
  case (Update_Persona pid config)
  then show ?thesis using assms
    by (auto simp: update_persona_config_endpoint_def update_persona_config_def in_transaction_fixed replace_persona_def Let_def
        answer_with_def found_or_404_def persona_map_def INTERNAL_ERROR_def fun_eq_iff split: option.split)
next
  case (Delete_Persona pid)
  have "dict_has (dt_personas (ds_tables s)) pid \<longleftrightarrow> persona_map s pid \<noteq> None"
    by (simp add: persona_map_def dict_has_iff dict_get_None_iff)
  then show ?thesis using assms Delete_Persona
    by (auto simp: delete_persona_config_endpoint_def delete_persona_config_def in_transaction_fixed remove_persona_def
        answer_with_def persona_map_def fun_eq_iff dict_get_removed)
qed (use assms in simp_all)


text \<open>C16: To a signed-in analyst, with the database up, creating, reading, replacing and deleting a saved persona
  are the operations of a map from ids: creating refuses an id in use, replacing and deleting one that is not,
  replacing keeps the creation time, and no other persona changes.\<close>

theorem persona_routes_implement_map:
  assumes "fst (dashboard_request_is_authenticated e now r s) = Checked True" "ds_faults s = []" "persona_route route"
  shows "\<exists>s'. serve_route e b on_disk now r route s = (fst (persona_spec b now route (persona_map s)), [], s')
    \<and> persona_map s' = snd (persona_spec b now route (persona_map s))"
  using handle_persona [OF assms(2,3)] by (simp add: serve_signed_in [OF assms(1,2)])

section \<open>What else happens\<close>

text \<open>Requests of any kind, with whatever the database gives them, and the other events of the dashboard.\<close>

datatype 'v activity = Asked "'v backend" rat dash_request route | Happened dash_event

fun activity_step :: "dash_env \<Rightarrow> (str \<Rightarrow> bool) \<Rightarrow> 'v activity \<Rightarrow> dash_store \<Rightarrow> dash_store" where
  "activity_step e on_disk (Asked b now r route) s = snd (snd (serve_route e b on_disk now r route s))"
| "activity_step e on_disk (Happened event) s = dash_step e event s"

definition activity_run :: "dash_env \<Rightarrow> (str \<Rightarrow> bool) \<Rightarrow> 'v activity list \<Rightarrow> dash_store \<Rightarrow> dash_store" where
  "activity_run e on_disk acts s = fold (activity_step e on_disk) acts s"

fun changes_persona :: "str \<Rightarrow> 'v activity \<Rightarrow> bool" where
  "changes_persona pid (Asked b now r (Update_Persona p config)) \<longleftrightarrow> p = pid"
| "changes_persona pid (Asked b now r (Delete_Persona p)) \<longleftrightarrow> p = pid"
| "changes_persona pid _ \<longleftrightarrow> False"

interpretation personas: dashboard_invariant e "\<lambda>t. dict_get (dt_personas t) pid = Some stored" "\<lambda>_. True" for e pid stored
  by unfold_locales (auto simp: sign_up_def Let_def rotate_user_def reset_password_def add_failure_def forget_failures_def)

lemma answer_with_store [simp]: "snd (snd (answer_with result f s)) = s"
  by (simp add: answer_with_def)

lemma sent_or_error_store [simp]: "snd (snd (sent_or_error b result s)) = s"
  by (simp add: sent_or_error_def split: prod.split)

lemma handle_route_kept:
  assumes "dict_get (dt_personas (ds_tables s)) pid = Some stored" "\<not> changes_persona pid (Asked b now r route)"
  shows "dict_get (dt_personas (ds_tables (snd (snd (handle_route b od now route s))))) pid = Some stored"
proof (cases route)
  case (Create_Persona p config)
  show ?thesis using in_transaction_tables [of "insert_persona p config now" s] assms Create_Persona
    by (auto simp: create_persona_config_endpoint_def create_persona_config_def insert_persona_def Let_def dict_has_def
        split: prod.split if_splits)
next
  case (Update_Persona p config)
  show ?thesis using in_transaction_tables [of "replace_persona p config now" s] assms Update_Persona
    by (auto simp: update_persona_config_endpoint_def update_persona_config_def replace_persona_def Let_def
        split: prod.split if_splits option.splits)
next
  case (Delete_Persona p)
  show ?thesis using in_transaction_tables [of "remove_persona p" s] assms Delete_Persona
    by (auto simp: delete_persona_config_endpoint_def delete_persona_config_def remove_persona_def dict_get_removed split: prod.split)
next
  case (Get_Persona p)
  show ?thesis using assms(1) Get_Persona
    by (auto simp: get_persona_config_endpoint_def get_persona_config_def dest!: select_same split: prod.split)
next
  case (Update_Issue iid status)
  then show ?thesis using assms(1)
    by (simp add: update_issue_status_endpoint_def answer_with_def)
qed (use assms(1) in \<open>auto simp: dashboard_report_summary_endpoint_def analytics_summary_endpoint_def analytics_blocklist_endpoint_def
    list_classifier_runs_endpoint_def get_classifier_run_endpoint_def list_session_events_endpoint_def list_issues_for_session_endpoint_def
    list_manual_labels_endpoint_def get_manual_label_endpoint_def list_issues_endpoint_def list_persona_configs_endpoint_def
    get_persona_analytics_endpoint_def dashboard_personas_endpoint_def get_alert_config_endpoint_def update_alert_config_endpoint_def
    send_test_alert_endpoint_def send_test_slack_endpoint_def list_alert_events_endpoint_def count_alert_events_endpoint_def
    custom_select_js_def split: sum.split option.split outcome.split\<close>)

lemma activity_step_kept:
  assumes "dict_get (dt_personas (ds_tables s)) pid = Some stored" "\<not> changes_persona pid act"
  shows "dict_get (dt_personas (ds_tables (activity_step e od act s))) pid = Some stored"
proof (cases act)
  case (Asked b now r route)
  let ?s = "snd (dashboard_request_is_authenticated e now r s)"
  have kept: "dict_get (dt_personas (ds_tables ?s)) pid = Some stored" using assms(1) by simp
  show ?thesis
  proof (cases "fst (dashboard_request_is_authenticated e now r s) = Checked True")
    case True
    then have "serve_route e b od now r route s = handle_route b od now route ?s"
      by (intro serve_authenticated) (simp add: prod_eq_iff)
    then show ?thesis using handle_route_kept [OF kept] assms(2) Asked by simp
  next
    case False
    then show ?thesis using refused [OF False] kept Asked by (metis activity_step.simps(1) snd_conv)
  qed
next
  case (Happened event)
  then show ?thesis using personas.kept_step [OF assms(1)] by simp
qed

lemma activity_run_kept:
  assumes "dict_get (dt_personas (ds_tables s)) pid = Some stored" "list_all (\<lambda>act. \<not> changes_persona pid act) acts"
  shows "dict_get (dt_personas (ds_tables (activity_run e od acts s))) pid = Some stored"
  using assms by (induction acts arbitrary: s) (auto simp: activity_run_def activity_step_kept)


lemma find_distinct: "distinct (map f xs) \<Longrightarrow> x \<in> set xs \<Longrightarrow> find (\<lambda>y. f y = f x) xs = Some x"
  by (induction xs) auto

text \<open>C19: A persona configuration an analyst saved, whose text PostgreSQL can hold, is what the dashboard shows
  afterwards under its id and what the honeypot goes live with, its decoy files included, however many other
  requests are served, by whomever, until this persona is changed or deleted.\<close>

theorem created_persona_served:
  assumes created: "serve_route e b on_disk now r (Create_Persona pid config) s = (Reply 201 v, effects, s1)"
    and calm: "ds_faults s = []" and signed_in: "fst (dashboard_request_is_authenticated e now r s) = Checked True"
    and between: "list_all (\<lambda>act. \<not> changes_persona pid act) acts"
    and asks: "fst (dashboard_request_is_authenticated e t r' (activity_run e on_disk acts s1)) = Checked True"
      "ds_faults (activity_run e on_disk acts s1) = []"
    and valid: "persona_input_ok input_env (config\<lparr>pr_id := pid\<rparr>)" "persona_id_ok pid"
  shows "\<exists>stored p. sp_row stored = config\<lparr>pr_id := pid\<rparr> \<and> v = bk_persona_json b stored
    \<and> fst (serve_route e b' on_disk t r' (Get_Persona pid) (activity_run e on_disk acts s1)) = Reply 200 (bk_persona_json b' stored)
    \<and> persona_from_config_record (sp_row stored) = Done p \<and> validate_persona p = Done () \<and> persona_id p = pid
    \<and> (\<forall>f \<in> set (pr_decoy_files config). dict_get (file_map p) (df_path f) = Some (df_content f))"
proof -
  let ?row = "config\<lparr>pr_id := pid\<rparr>"
  define stored where "stored = \<lparr>sp_row = ?row, sp_created_at = now, sp_updated_at = now\<rparr>"
  obtain s' where s': "handle_route b on_disk now (Create_Persona pid config) s =
      (fst (persona_spec b now (Create_Persona pid config) (persona_map s)), [], s')"
      "persona_map s' = snd (persona_spec b now (Create_Persona pid config) (persona_map s))"
    using handle_persona [OF calm, of "Create_Persona pid config"] by auto
  have "(fst (persona_spec b now (Create_Persona pid config) (persona_map s)), [] :: side_effect list, s') = (Reply 201 v, effects, s1)"
    using created unfolding serve_signed_in [OF signed_in calm] s'(1) .
  then have "fst (persona_spec b now (Create_Persona pid config) (persona_map s)) = Reply 201 v" "s1 = s'" by simp_all
  then have v: "v = bk_persona_json b stored" and "persona_map s1 pid = Some stored"
    using s'(2) by (auto simp: stored_def INTERNAL_ERROR_def error_reply_def Let_def split: if_splits)
  then have "persona_map (activity_run e on_disk acts s1) pid = Some stored"
    using activity_run_kept [OF _ between] by (simp add: persona_map_def)
  then have shown: "fst (serve_route e b' on_disk t r' (Get_Persona pid) (activity_run e on_disk acts s1)) = Reply 200 (bk_persona_json b' stored)"
    using handle_persona [OF asks(2), of "Get_Persona pid" b' on_disk t] by (auto simp: serve_signed_in [OF asks])
  have "pr_id ?row \<noteq> []" using valid(2) by (simp add: persona_id_ok_def)
  from saved_persona_live [OF valid(1) this] obtain p where p: "persona_from_config_record ?row = Done p" "validate_persona p = Done ()"
      "persona_id p = pid"
      "dict_get (file_map p) path = (case find (\<lambda>f. df_path f = path) (pr_decoy_files ?row) of
         Some f \<Rightarrow> Some (df_content f) | None \<Rightarrow> dict_get (start_dict ?row) path)" for path
    by auto
  have "distinct (map df_path (pr_decoy_files config))" using valid(1) by (simp add: persona_input_ok_def)
  then have "f \<in> set (pr_decoy_files config) \<Longrightarrow> find (\<lambda>g. df_path g = df_path f) (pr_decoy_files config) = Some f" for f
    by (rule find_distinct)
  then show ?thesis using v shown p by (intro exI [of _ stored] exI [of _ p]) (simp add: stored_def)
qed


section \<open>An example\<close>

definition example_backend :: "str backend" where
  "example_backend = \<lparr>bk_report_summary = Inr [], bk_analytics = (\<lambda>_ _. Inr []), bk_attackers = (\<lambda>_ _. Inr []),
     bk_runs = (\<lambda>_. Inr []), bk_run = (\<lambda>_. Inr None), bk_session_events = (\<lambda>_. Inr []), bk_session_issues = (\<lambda>_. Inr []),
     bk_labels = (\<lambda>_ _ _. Inr []), bk_label = (\<lambda>_. Inr None), bk_issues = (\<lambda>_ _ _ _. Inr []), bk_update_issue = (\<lambda>_ _. Inr None),
     bk_personas = Inr [], bk_persona_analytics = (\<lambda>_ _ _. Inr []), bk_alert_config = Inr None,
     bk_save_alert_config = (\<lambda>_. Inr (Inr [])), bk_alert_events = (\<lambda>_. Inr []), bk_count_alert_events = Inr [],
     bk_persona_json = (\<lambda>sp. pr_hostname (sp_row sp)), bk_config_json = (\<lambda>_. []), bk_presets_json = (\<lambda>_. []), bk_sent = lit ''sent'',
     bk_parse_ip = (\<lambda>_. None), bk_alerts = example_alert_env\<rparr>"

definition signed_in_request :: dash_request where
  "signed_in_request = \<lparr>rq_cookie = Some example_cookie, rq_client = None, rq_api_key = None, rq_path = lit ''/persona-configs/b'', rq_query = []\<rparr>"

definition other_activity :: "str activity list" where
  "other_activity = [Asked example_backend 121 odd_request Persona_Presets, Happened (Seconds_Pass 3),
     Asked example_backend 122 signed_in_request (Delete_Persona (lit ''other''))]"

theorem signed_out_sees_nothing_witness:
  "\<exists>reply. turned_away (signed_in_request\<lparr>rq_cookie := None\<rparr>) reply
    \<and> serve_route example_env example_backend (\<lambda>_. True) 120 (signed_in_request\<lparr>rq_cookie := None\<rparr>)
        (Get_Persona (lit ''x'')) example_dash = (reply, [], example_dash)
    \<and> serve_route example_env (example_backend\<lparr>bk_sent := []\<rparr>) (\<lambda>_. False) 120 (signed_in_request\<lparr>rq_cookie := None\<rparr>)
        (Get_Persona (lit ''x'')) (example_dash\<lparr>ds_tables := (ds_tables example_dash)\<lparr>dt_now := 7\<rparr>\<rparr>)
      = (reply, [], example_dash\<lparr>ds_tables := (ds_tables example_dash)\<lparr>dt_now := 7\<rparr>\<rparr>)"
proof -
  let ?r = "signed_in_request\<lparr>rq_cookie := None\<rparr>"
  have out: "dashboard_request_is_authenticated example_env 120 ?r s = (Checked False, s)" for s
    by (simp add: dashboard_request_is_authenticated_def)
  have "fst (dashboard_request_is_authenticated example_env 120 ?r example_dash) \<noteq> Checked True" by (simp add: out)
  from signed_out_sees_nothing [OF this, where s' = "example_dash\<lparr>ds_tables := (ds_tables example_dash)\<lparr>dt_now := 7\<rparr>\<rparr>"
      and b = example_backend and b' = "example_backend\<lparr>bk_sent := []\<rparr>" and on_disk = "\<lambda>_. True" and on_disk' = "\<lambda>_. False"
      and route = "Get_Persona (lit ''x'')"]
  show ?thesis by (simp add: out)
qed

theorem persona_routes_implement_map_witness:
  "\<exists>s'. serve_route example_env example_backend (\<lambda>_. True) 120 signed_in_request (Delete_Persona (lit ''x'')) example_dash =
      (fst (persona_spec example_backend 120 (Delete_Persona (lit ''x'')) (persona_map example_dash)), [], s')
    \<and> persona_map s' = snd (persona_spec example_backend 120 (Delete_Persona (lit ''x'')) (persona_map example_dash))"
proof (rule persona_routes_implement_map)
  show "fst (dashboard_request_is_authenticated example_env 120 signed_in_request example_dash) = Checked True" by code_simp
  show "ds_faults example_dash = []" by code_simp
qed simp

theorem created_persona_served_witness:
  "\<exists>s1 stored p. sp_row stored = example_row\<lparr>pr_id := lit ''branch_office''\<rparr>
    \<and> fst (serve_route example_env example_backend (\<lambda>_. True) 130 signed_in_request (Get_Persona (lit ''branch_office''))
        (activity_run example_env (\<lambda>_. True) other_activity s1)) = Reply 200 (bk_persona_json example_backend stored)
    \<and> persona_from_config_record (sp_row stored) = Done p \<and> validate_persona p = Done ()"
proof -
  let ?s1 = "snd (snd (serve_route example_env example_backend (\<lambda>_. True) 120 signed_in_request
      (Create_Persona (lit ''branch_office'') example_row) example_dash))"
  have created: "serve_route example_env example_backend (\<lambda>_. True) 120 signed_in_request
      (Create_Persona (lit ''branch_office'') example_row) example_dash = (Reply 201 (lit ''files01''), [], ?s1)"
    by code_simp
  have calm: "ds_faults example_dash = []"
    and signed_in: "fst (dashboard_request_is_authenticated example_env 120 signed_in_request example_dash) = Checked True"
    by code_simp+
  have between: "list_all (\<lambda>act. \<not> changes_persona (lit ''branch_office'') act) other_activity" by code_simp
  have asks: "fst (dashboard_request_is_authenticated example_env 130 signed_in_request
      (activity_run example_env (\<lambda>_. True) other_activity ?s1)) = Checked True"
    "ds_faults (activity_run example_env (\<lambda>_. True) other_activity ?s1) = []"
    by code_simp+
  have "persona_input_ok plain_env (example_row\<lparr>pr_id := lit ''branch_office''\<rparr>)"
    using example_row_ok by (simp add: example_row_def)
  moreover have "persona_id_ok (lit ''branch_office'')" by code_simp
  ultimately show ?thesis
    using created_persona_served [OF created calm signed_in between asks, where input_env = plain_env and b' = example_backend] by blast
qed

end
