(* ===== verification/ProcessControl.thy ===== *)
theory ProcessControl
  imports Complex_Main UrlText NumberTexts
begin

text \<open>
  \<open>echidra stop\<close> and the file of process ids it works from (\<open>echidra/cli.py\<close>). The host is what the command
  observes: the process table, which may change between any two calls of the operating system, the time
  each of them takes, and whether there is a \<open>/proc\<close>. Each call is one tick. Ids are the kernel's: a
  number is a process of the table or none.
\<close>

section \<open>The host\<close>

record os_process =
  op_cmdline :: "bytes option"
  op_permitted :: bool

record host =
  ho_table :: "nat \<Rightarrow> int \<Rightarrow> os_process option"
  ho_delay :: "nat \<Rightarrow> rat"
  ho_proc_fs :: bool
  ho_units :: "nat \<Rightarrow> str list"

datatype signal_kind = Sigterm | Sigkill

datatype kill_result = Signal_Sent | Process_Lookup_Error | Permission_Error

record control =
  cn_tick :: nat
  cn_clock :: rat
  cn_sent :: "(nat \<times> int \<times> signal_kind) list"
  cn_out :: "str list"
  cn_warned :: bool

definition os_tick :: "host \<Rightarrow> control \<Rightarrow> control" where
  "os_tick h c = c\<lparr>cn_tick := Suc (cn_tick c), cn_clock := cn_clock c + \<bar>ho_delay h (cn_tick c)\<bar>\<rparr>"

definition os_print :: "str \<Rightarrow> control \<Rightarrow> control" where
  "os_print s c = c\<lparr>cn_out := cn_out c @ [s]\<rparr>"

definition os_sleep :: "host \<Rightarrow> rat \<Rightarrow> control \<Rightarrow> control" where
  "os_sleep h d c = (os_tick h c)\<lparr>cn_clock := cn_clock (os_tick h c) + d\<rparr>"

definition os_kill :: "host \<Rightarrow> int \<Rightarrow> signal_kind \<Rightarrow> control \<Rightarrow> kill_result \<times> control" where
  "os_kill h pid sig c =
     (case ho_table h (cn_tick c) pid of
        None \<Rightarrow> (Process_Lookup_Error, os_tick h c)
      | Some p \<Rightarrow>
          if op_permitted p then (Signal_Sent, (os_tick h c)\<lparr>cn_sent := cn_sent c @ [(cn_tick c, pid, sig)]\<rparr>)
          else (Permission_Error, os_tick h c))"

definition in_quotes :: "str \<Rightarrow> str" where
  "in_quotes s = [squote] @ s @ [squote]"

section \<open>Which processes are Echidra's\<close>

definition argv_matches_echidra_child :: "str list \<Rightarrow> bool" where
  "argv_matches_echidra_child argv \<longleftrightarrow>
     (case argv of
        a # b # c # rest \<Rightarrow>
          b = lit ''-m'' \<and> (c = lit ''honeypot.main''
            \<or> (rest \<noteq> [] \<and> c = lit ''uvicorn'' \<and> lit ''classifier.api.app:create_app'' \<in> set rest))
      | _ \<Rightarrow> False)"

definition cmdline_argv :: "bytes \<Rightarrow> str list" where
  "cmdline_argv raw = filter (\<lambda>a. a \<noteq> []) (split_on 0 (decode_replace raw))"

definition pid_is_alive :: "host \<Rightarrow> int \<Rightarrow> control \<Rightarrow> bool \<times> control" where
  "pid_is_alive h pid c = (ho_table h (cn_tick c) pid \<noteq> None, os_tick h c)"

definition NO_PROC_FS :: str where
  "NO_PROC_FS = lit ''Warning: no /proc filesystem on this host -- '' @ in_quotes (lit ''echidra start'') @ lit ''/'' @ in_quotes (lit ''stop'')
     @ lit ''/'' @ in_quotes (lit ''status'') @ lit '' can only check whether a PID is alive, not whether it'' @ [squote]
     @ lit ''s actually an Echidra process. A reused PID could be mistaken for one.''"

definition warn_proc_fs_unavailable_once :: "control \<Rightarrow> control" where
  "warn_proc_fs_unavailable_once c = (if cn_warned c then c else os_print NO_PROC_FS (c\<lparr>cn_warned := True\<rparr>))"

definition pid_is_echidra_process :: "host \<Rightarrow> int \<Rightarrow> control \<Rightarrow> bool \<times> control" where
  "pid_is_echidra_process h pid c =
     (case pid_is_alive h pid c of
        (False, c1) \<Rightarrow> (False, c1)
      | (True, c1) \<Rightarrow>
          if \<not> ho_proc_fs h then (True, warn_proc_fs_unavailable_once c1)
          else ((case ho_table h (cn_tick c1) pid of
                   None \<Rightarrow> False
                 | Some p \<Rightarrow> (case op_cmdline p of None \<Rightarrow> False | Some raw \<Rightarrow> argv_matches_echidra_child (cmdline_argv raw))),
                os_tick h c1))"

fun echidra_processes :: "host \<Rightarrow> int list \<Rightarrow> control \<Rightarrow> int list \<times> control" where
  "echidra_processes h [] c = ([], c)"
| "echidra_processes h (pid # pids) c =
     (case pid_is_echidra_process h pid c of
        (ours, c1) \<Rightarrow> (case echidra_processes h pids c1 of (found, c2) \<Rightarrow> ((if ours then pid # found else found), c2)))"

section \<open>The file of ids\<close>

definition read_pid_file :: "int \<Rightarrow> str option \<Rightarrow> int list" where
  "read_pid_file max_pid contents =
     (case contents of
        None \<Rightarrow> []
      | Some text \<Rightarrow>
          filter (\<lambda>pid. 0 < pid \<and> pid \<le> max_pid)
            (List.map_filter int_of_str (filter (\<lambda>l. l \<noteq> []) (map strip (split_lines text)))))"

definition pid_file_text :: "int list \<Rightarrow> str" where
  "pid_file_text pids = join [newline] (map str_of_int pids) @ [newline]"

text \<open>\<open>_max_pid\<close>: what the kernel says, or the old limit.\<close>

definition max_pid :: "int option \<Rightarrow> int" where
  "max_pid pid_max = (case pid_max of Some n \<Rightarrow> n | None \<Rightarrow> 2 ^ 22)"

section \<open>Stopping\<close>

definition SYSTEMD_UNITS :: "str list" where
  "SYSTEMD_UNITS = map lit [''echidra-api'', ''echidra-honeypot'']"

text \<open>\<open>systemctl is-active\<close> prints one state for each unit; no output stands for its absence.\<close>

definition active_systemd_units :: "host \<Rightarrow> control \<Rightarrow> str list \<times> control" where
  "active_systemd_units h c =
     (map fst (filter (\<lambda>(unit_name, state). state = lit ''active'') (zip SYSTEMD_UNITS (ho_units h (cn_tick c)))), os_tick h c)"

definition print_systemd_hint :: "host \<Rightarrow> control \<Rightarrow> control" where
  "print_systemd_hint h c =
     (case active_systemd_units h c of
        ([], c1) \<Rightarrow> c1
      | (units, c1) \<Rightarrow> os_print (lit ''Echidra is running as a systemd service ('' @ join (lit '', '') units @ lit '') -- ''
          @ in_quotes (lit ''echidra stop'') @ lit '' doesn'' @ [squote] @ lit ''t manage that. Stop it with: sudo systemctl stop ''
          @ join (lit '' '') units @ lit ''  (add '' @ in_quotes (lit ''disable --now'') @ lit '' instead of '' @ in_quotes (lit ''stop'')
          @ lit '' to keep it off after reboot)'') c1)"

definition print_not_running :: "host \<Rightarrow> control \<Rightarrow> control" where
  "print_not_running h c =
     (case active_systemd_units h c of
        ([], c1) \<Rightarrow> os_print (lit ''Echidra isn'' @ [squote] @ lit ''t running. Start it with: echidra start'') c1
      | (_, c1) \<Rightarrow> print_systemd_hint h c1)"

record sweep =
  sw_signaled :: "int list"
  sw_denied :: "int list"
  sw_found :: bool

fun term_all :: "host \<Rightarrow> int list \<Rightarrow> sweep \<Rightarrow> control \<Rightarrow> sweep \<times> control" where
  "term_all h [] w c = (w, c)"
| "term_all h (pid # pids) w c =
     (case pid_is_echidra_process h pid c of
        (False, c1) \<Rightarrow> term_all h pids w c1
      | (True, c1) \<Rightarrow>
          (case os_kill h pid Sigterm c1 of
             (Process_Lookup_Error, c2) \<Rightarrow> term_all h pids (w\<lparr>sw_found := True\<rparr>) c2
           | (Permission_Error, c2) \<Rightarrow> term_all h pids (w\<lparr>sw_found := True, sw_denied := sw_denied w @ [pid]\<rparr>) c2
           | (Signal_Sent, c2) \<Rightarrow>
               term_all h pids (w\<lparr>sw_found := True, sw_signaled := sw_signaled w @ [pid]\<rparr>)
                 (if sw_signaled w = [] then os_print (lit ''Stopping Echidra...'') c2 else c2)))"

fun kill_all :: "host \<Rightarrow> int list \<Rightarrow> control \<Rightarrow> control" where
  "kill_all h [] c = c"
| "kill_all h (pid # pids) c =
     kill_all h pids (snd (os_kill h pid Sigkill
       (os_print (lit ''PID '' @ str_of_int pid @ lit '' didn'' @ [squote] @ lit ''t exit within 10s -- sending SIGKILL.'') c)))"

subsection \<open>Waiting ends\<close>

lemma os_tick_clock: "cn_clock c \<le> cn_clock (os_tick h c)"
  by (simp add: os_tick_def)

lemma warn_clock [simp]: "cn_clock (warn_proc_fs_unavailable_once c) = cn_clock c"
  by (simp add: warn_proc_fs_unavailable_once_def os_print_def)

lemma pid_is_echidra_clock: "cn_clock c \<le> cn_clock (snd (pid_is_echidra_process h pid c))"
  using os_tick_clock [of c h] os_tick_clock [of "os_tick h c" h]
  by (auto simp: pid_is_echidra_process_def pid_is_alive_def split: bool.split)

lemma echidra_processes_clock: "cn_clock c \<le> cn_clock (snd (echidra_processes h pids c))"
proof (induction pids arbitrary: c)
  case (Cons pid pids)
  obtain ours c1 where one: "pid_is_echidra_process h pid c = (ours, c1)" by force
  have "cn_clock c \<le> cn_clock c1" using pid_is_echidra_clock [of c h pid] one by simp
  then show ?case using Cons.IH [of c1] one by (auto split: prod.split)
qed simp

text \<open>The loop of at most ten seconds: a fifth of a second, then the ids that are still Echidra's.\<close>

function wait_gone :: "host \<Rightarrow> rat \<Rightarrow> int list \<Rightarrow> control \<Rightarrow> int list \<times> control" where
  "wait_gone h deadline signaled c =
     (if signaled = [] then (signaled, c)
      else let c0 = os_tick h c in
        if \<not> cn_clock c0 < deadline then (signaled, c0)
        else case echidra_processes h signaled (os_sleep h (1 / 5) c0) of
          (alive, c1) \<Rightarrow> wait_gone h deadline alive c1)"
  by pat_completeness auto
termination
proof (relation "measure (\<lambda>(h, deadline, signaled, c). nat \<lceil>(deadline - cn_clock c) * 5\<rceil>)", goal_cases)
  case (2 h deadline signaled c c0 alive c1)
  have "cn_clock (os_sleep h (1 / 5) c0) \<le> cn_clock c1"
    using echidra_processes_clock [of "os_sleep h (1 / 5) c0" h signaled] 2 by (metis snd_conv)
  moreover have "cn_clock c \<le> cn_clock c0" using os_tick_clock 2 by simp
  ultimately have later: "cn_clock c + 1 / 5 \<le> cn_clock c1"
    using os_tick_clock [of c0 h] by (simp add: os_sleep_def)
  have "cn_clock c < deadline" using 2 \<open>cn_clock c \<le> cn_clock c0\<close> by simp
  then have "0 < \<lceil>(deadline - cn_clock c) * 5\<rceil>" by simp
  moreover have "(deadline - cn_clock c1) * 5 \<le> (deadline - cn_clock c) * 5 - 1" using later by simp
  then have "\<lceil>(deadline - cn_clock c1) * 5\<rceil> \<le> \<lceil>(deadline - cn_clock c) * 5\<rceil> - 1"
    by (metis ceiling_diff_one ceiling_mono)
  ultimately show ?case by simp
qed simp

declare wait_gone.simps [simp del]

definition report_not_stopped :: "int list \<Rightarrow> int list \<Rightarrow> control \<Rightarrow> control" where
  "report_not_stopped denied signaled c =
     os_print (lit ''Not fully stopped -- pidfile left in place so a retry can find these PIDs.'')
       (fold (\<lambda>pid. os_print (lit ''PID '' @ str_of_int pid @ lit '': still running after SIGKILL.'')) signaled
         (fold (\<lambda>pid. os_print (lit ''PID '' @ str_of_int pid @ lit '': permission denied sending SIGTERM -- it was likely started as a ''
              @ lit ''different user (e.g. via sudo). Try '' @ in_quotes (lit ''sudo echidra stop'') @ lit ''.'')) denied c))"

text \<open>\<open>_cmd_stop\<close>: its exit code, and what is left of the file.\<close>

definition cmd_stop :: "host \<Rightarrow> int option \<Rightarrow> str option \<Rightarrow> control \<Rightarrow> (int \<times> str option) \<times> control" where
  "cmd_stop h pid_max pid_file c =
     (let pids = read_pid_file (max_pid pid_max) pid_file in
      if pids = [] then ((0, pid_file), print_not_running h c)
      else
        case term_all h pids \<lparr>sw_signaled = [], sw_denied = [], sw_found = False\<rparr> c of
          (w, c1) \<Rightarrow>
        let c2 = os_tick h c1 in
        case wait_gone h (cn_clock c2 + 10) (sw_signaled w) c2 of
          (stubborn, c3) \<Rightarrow>
        case echidra_processes h stubborn (os_sleep h (1 / 2) (kill_all h stubborn c3)) of
          (alive, c4) \<Rightarrow>
        if sw_denied w \<noteq> [] \<or> alive \<noteq> [] then ((1, pid_file), report_not_stopped (sw_denied w) alive c4)
        else if \<not> sw_found w then ((0, None), print_not_running h c4)
        else ((0, None), os_print (lit ''Echidra has stopped.'') c4))"

end
