(* ===== verification/StopProps.thy ===== *)
theory StopProps
  imports ProcessControl CatchUp
begin

text \<open>
  What \<open>echidra stop\<close> does to other processes and what its answer means.
\<close>

section \<open>Observations\<close>

definition ours_at :: "host \<Rightarrow> nat \<Rightarrow> int \<Rightarrow> bool" where
  "ours_at h n pid \<longleftrightarrow>
     (case ho_table h n pid of
        None \<Rightarrow> False
      | Some p \<Rightarrow> (case op_cmdline p of None \<Rightarrow> False | Some raw \<Rightarrow> argv_matches_echidra_child (cmdline_argv raw)))"

lemma os_simps [simp]:
  "cn_tick (os_tick h c) = Suc (cn_tick c)" "cn_sent (os_tick h c) = cn_sent c"
  "cn_tick (os_print s c) = cn_tick c" "cn_sent (os_print s c) = cn_sent c"
  "cn_tick (os_sleep h d c) = Suc (cn_tick c)" "cn_sent (os_sleep h d c) = cn_sent c"
  by (simp_all add: os_tick_def os_print_def os_sleep_def)

lemma checked_process:
  assumes "ho_proc_fs h" "pid_is_echidra_process h pid c = (ours, c1)"
  shows "cn_tick c < cn_tick c1" "cn_sent c1 = cn_sent c"
    "ours \<Longrightarrow> cn_tick c1 = cn_tick c + 2 \<and> ours_at h (Suc (cn_tick c)) pid"
    "\<not> ours \<Longrightarrow> \<exists>n. cn_tick c \<le> n \<and> n < cn_tick c1 \<and> \<not> ours_at h n pid"
proof -
  show "cn_tick c < cn_tick c1" "cn_sent c1 = cn_sent c"
    "ours \<Longrightarrow> cn_tick c1 = cn_tick c + 2 \<and> ours_at h (Suc (cn_tick c)) pid"
    using assms by (auto simp: pid_is_echidra_process_def pid_is_alive_def ours_at_def split: bool.splits)
  assume not: "\<not> ours"
  show "\<exists>n. cn_tick c \<le> n \<and> n < cn_tick c1 \<and> \<not> ours_at h n pid"
  proof (cases "ho_table h (cn_tick c) pid")
    case None
    then show ?thesis using \<open>cn_tick c < cn_tick c1\<close> by (intro exI [of _ "cn_tick c"]) (simp add: ours_at_def)
  next
    case (Some p)
    then have "cn_tick c1 = cn_tick c + 2" "\<not> ours_at h (Suc (cn_tick c)) pid"
      using assms not by (auto simp: pid_is_echidra_process_def pid_is_alive_def ours_at_def)
    then show ?thesis by (intro exI [of _ "Suc (cn_tick c)"]) simp
  qed
qed

lemma checked_processes:
  assumes "ho_proc_fs h" "echidra_processes h pids c = (found, c1)"
  shows "cn_tick c \<le> cn_tick c1 \<and> cn_sent c1 = cn_sent c \<and> set found \<subseteq> set pids
    \<and> (\<forall>pid \<in> set found. \<exists>n. cn_tick c \<le> n \<and> n < cn_tick c1 \<and> ours_at h n pid)
    \<and> (\<forall>pid \<in> set pids - set found. \<exists>n. cn_tick c \<le> n \<and> n < cn_tick c1 \<and> \<not> ours_at h n pid)"
  using assms(2)
proof (induction pids arbitrary: c found)
  case (Cons pid pids)
  obtain ours c2 where one: "pid_is_echidra_process h pid c = (ours, c2)" by force
  obtain found2 c3 where rest: "echidra_processes h pids c2 = (found2, c3)" by force
  have result: "found = (if ours then pid # found2 else found2)" "c1 = c3" using Cons.prems one rest by auto
  note head = checked_process [OF assms(1) one] and tail = Cons.IH [OF rest [folded result(2)]]
  have "\<forall>p \<in> set found2. \<exists>n. cn_tick c \<le> n \<and> n < cn_tick c1 \<and> ours_at h n p"
    "\<forall>p \<in> set pids - set found2. \<exists>n. cn_tick c \<le> n \<and> n < cn_tick c1 \<and> \<not> ours_at h n p"
    using tail head(1) by (meson less_imp_le order_trans)+
  moreover have "ours \<Longrightarrow> \<exists>n. cn_tick c \<le> n \<and> n < cn_tick c1 \<and> ours_at h n pid"
    using head(3) tail by (intro exI [of _ "Suc (cn_tick c)"]) auto
  moreover have "\<not> ours \<Longrightarrow> \<exists>n. cn_tick c \<le> n \<and> n < cn_tick c1 \<and> \<not> ours_at h n pid"
    using head(4) tail by (meson less_le_trans)
  ultimately show ?case using tail head(1,2) by (auto simp: result(1))
qed simp

lemma killed:
  assumes "os_kill h pid sig c = (r, c1)"
  shows "cn_tick c1 = Suc (cn_tick c)"
    "cn_sent c1 = cn_sent c @ (if r = Signal_Sent then [(cn_tick c, pid, sig)] else [])"
    "r = Process_Lookup_Error \<Longrightarrow> \<not> ours_at h (cn_tick c) pid"
  using assms by (auto simp: os_kill_def ours_at_def split: option.splits if_splits)

section \<open>The sweep\<close>

definition term_entry :: "host \<Rightarrow> nat \<times> int \<times> signal_kind \<Rightarrow> bool" where
  "term_entry h entry \<longleftrightarrow> (case entry of (n, pid, sig) \<Rightarrow> sig = Sigterm \<and> 0 < n \<and> ours_at h (n - 1) pid)"

lemma swept:
  assumes "ho_proc_fs h" "term_all h pids w c = (w1, c1)"
  shows "\<exists>entries. cn_sent c1 = cn_sent c @ entries \<and> list_all (term_entry h) entries
    \<and> list_all (\<lambda>(n, pid, sig). cn_tick c \<le> n \<and> n < cn_tick c1) entries
    \<and> sw_signaled w1 = sw_signaled w @ map (fst \<circ> snd) entries \<and> set (map (fst \<circ> snd) entries) \<subseteq> set pids
    \<and> cn_tick c \<le> cn_tick c1 \<and> set (sw_denied w) \<subseteq> set (sw_denied w1)
    \<and> (\<forall>pid \<in> set pids. pid \<in> set (sw_signaled w1) \<or> pid \<in> set (sw_denied w1)
         \<or> (\<exists>n. cn_tick c \<le> n \<and> n < cn_tick c1 \<and> \<not> ours_at h n pid))"
  using assms(2)
proof (induction pids arbitrary: w c)
  case (Cons pid pids)
  obtain ours c2 where one: "pid_is_echidra_process h pid c = (ours, c2)" by force
  note check = checked_process [OF assms(1) one]
  show ?case
  proof (cases ours)
    case False
    then have "term_all h pids w c2 = (w1, c1)" using Cons.prems one by simp
    from Cons.IH [OF this] obtain entries where e: "cn_sent c1 = cn_sent c2 @ entries" "list_all (term_entry h) entries"
      "list_all (\<lambda>(n, pid, sig). cn_tick c2 \<le> n \<and> n < cn_tick c1) entries"
      "sw_signaled w1 = sw_signaled w @ map (fst \<circ> snd) entries" "set (map (fst \<circ> snd) entries) \<subseteq> set pids"
      "cn_tick c2 \<le> cn_tick c1" "set (sw_denied w) \<subseteq> set (sw_denied w1)"
      "\<forall>pid \<in> set pids. pid \<in> set (sw_signaled w1) \<or> pid \<in> set (sw_denied w1)
         \<or> (\<exists>n. cn_tick c2 \<le> n \<and> n < cn_tick c1 \<and> \<not> ours_at h n pid)" by blast
    have "\<exists>n. cn_tick c \<le> n \<and> n < cn_tick c1 \<and> \<not> ours_at h n pid" using check(4) False e(6) by (meson less_le_trans)
    moreover have "list_all (\<lambda>(n, pid, sig). cn_tick c \<le> n \<and> n < cn_tick c1) entries"
      using e(3) check(1) by (fastforce simp: list_all_iff)
    moreover have "(\<exists>n. cn_tick c2 \<le> n \<and> n < cn_tick c1 \<and> \<not> ours_at h n p) \<Longrightarrow>
        \<exists>n. cn_tick c \<le> n \<and> n < cn_tick c1 \<and> \<not> ours_at h n p" for p using check(1) by (meson less_imp_le order_trans)
    ultimately show ?thesis using e check by (intro exI [of _ entries]) auto
  next
    case True
    obtain r c3 where sent: "os_kill h pid Sigterm c2 = (r, c3)" by force
    note k = killed [OF sent]
    obtain w2 d where d: "term_all h pids w2 d = (w1, c1)" "cn_tick d = cn_tick c3" "cn_sent d = cn_sent c3"
      and w2: "sw_signaled w2 = sw_signaled w @ (if r = Signal_Sent then [pid] else [])"
        "sw_denied w2 = sw_denied w @ (if r = Permission_Error then [pid] else [])"
      using Cons.prems one True sent by (cases r) (force split: if_splits)+
    from Cons.IH [OF d(1)] obtain entries where e: "cn_sent c1 = cn_sent c3 @ entries" "list_all (term_entry h) entries"
      "list_all (\<lambda>(n, pid, sig). cn_tick c3 \<le> n \<and> n < cn_tick c1) entries"
      "sw_signaled w1 = sw_signaled w2 @ map (fst \<circ> snd) entries" "set (map (fst \<circ> snd) entries) \<subseteq> set pids"
      "cn_tick c3 \<le> cn_tick c1" "set (sw_denied w2) \<subseteq> set (sw_denied w1)"
      "\<forall>pid \<in> set pids. pid \<in> set (sw_signaled w1) \<or> pid \<in> set (sw_denied w1)
         \<or> (\<exists>n. cn_tick c3 \<le> n \<and> n < cn_tick c1 \<and> \<not> ours_at h n pid)" unfolding d(2,3) by blast
    let ?own = "if r = Signal_Sent then [(cn_tick c2, pid, Sigterm)] else []"
    have ticks: "cn_tick c2 = cn_tick c + 2" "cn_tick c3 = cn_tick c + 3" "ours_at h (Suc (cn_tick c)) pid"
      using check(3) True k(1) by auto
    have own: "list_all (term_entry h) ?own" using ticks by (simp add: term_entry_def)
    have earlier: "(\<exists>n. cn_tick c3 \<le> n \<and> n < cn_tick c1 \<and> \<not> ours_at h n p) \<Longrightarrow>
        \<exists>n. cn_tick c \<le> n \<and> n < cn_tick c1 \<and> \<not> ours_at h n p" for p
    proof (elim exE conjE)
      fix n assume "cn_tick c3 \<le> n" "n < cn_tick c1" "\<not> ours_at h n p"
      then show ?thesis using ticks(2) by (intro exI [of _ n]) simp
    qed
    have "pid \<in> set (sw_signaled w1) \<or> pid \<in> set (sw_denied w1) \<or> (\<exists>n. cn_tick c \<le> n \<and> n < cn_tick c1 \<and> \<not> ours_at h n pid)"
    proof (cases r)
      case Process_Lookup_Error
      then have "\<not> ours_at h (cn_tick c2) pid" by (rule k(3))
      moreover have "cn_tick c \<le> cn_tick c2" "cn_tick c2 < cn_tick c1" using ticks e(6) by auto
      ultimately show ?thesis by blast
    qed (use e(4,7) w2 in auto)
    note this_one = this
    have others: "\<forall>p \<in> set pids. p \<in> set (sw_signaled w1) \<or> p \<in> set (sw_denied w1)
         \<or> (\<exists>n. cn_tick c \<le> n \<and> n < cn_tick c1 \<and> \<not> ours_at h n p)" using e(8) earlier by blast
    show ?thesis
    proof (intro exI [of _ "?own @ entries"] conjI)
      show "list_all (\<lambda>(n, pid, sig). cn_tick c \<le> n \<and> n < cn_tick c1) (?own @ entries)"
        using e(3,6) ticks by (fastforce simp: list_all_iff)
      show "cn_sent c1 = cn_sent c @ ?own @ entries" using e(1) k(2) check(2) by simp
      show "sw_signaled w1 = sw_signaled w @ map (fst \<circ> snd) (?own @ entries)" using e(4) w2(1) by simp
      show "set (sw_denied w) \<subseteq> set (sw_denied w1)" using e(7) w2(2) by auto
      show "list_all (term_entry h) (?own @ entries)" using own e(2) by simp
      show "set (map (fst \<circ> snd) (?own @ entries)) \<subseteq> set (pid # pids)" using e(5) by auto
      show "cn_tick c \<le> cn_tick c1" using e(6) ticks by simp
      show "\<forall>p \<in> set (pid # pids). p \<in> set (sw_signaled w1) \<or> p \<in> set (sw_denied w1)
         \<or> (\<exists>n. cn_tick c \<le> n \<and> n < cn_tick c1 \<and> \<not> ours_at h n p)" using others this_one by simp
    qed
  qed
qed auto


section \<open>The wait and the rest\<close>

lemma waited:
  assumes "ho_proc_fs h" "wait_gone h deadline signaled c = (stubborn, c1)"
  shows "cn_tick c \<le> cn_tick c1 \<and> cn_sent c1 = cn_sent c \<and> set stubborn \<subseteq> set signaled
    \<and> (\<forall>pid \<in> set signaled - set stubborn. \<exists>n. cn_tick c \<le> n \<and> n < cn_tick c1 \<and> \<not> ours_at h n pid)"
  using assms
proof (induction h deadline signaled c arbitrary: stubborn c1 rule: wait_gone.induct)
  case (1 h deadline signaled c)
  let ?c0 = "os_tick h c"
  show ?case
  proof (cases "signaled \<noteq> [] \<and> cn_clock ?c0 < deadline")
    case False
    then show ?thesis using 1(3) by (subst (asm) wait_gone.simps) (auto simp: Let_def split: if_splits)
  next
    case True
    obtain alive c2 where check: "echidra_processes h signaled (os_sleep h (1 / 5) ?c0) = (alive, c2)" by force
    have rest: "wait_gone h deadline alive c2 = (stubborn, c1)"
      using 1(3) True check by (subst (asm) wait_gone.simps) (simp add: Let_def)
    have IH: "cn_tick c2 \<le> cn_tick c1 \<and> cn_sent c1 = cn_sent c2 \<and> set stubborn \<subseteq> set alive
      \<and> (\<forall>pid \<in> set alive - set stubborn. \<exists>n. cn_tick c2 \<le> n \<and> n < cn_tick c1 \<and> \<not> ours_at h n pid)"
      by (rule 1(1) [OF _ refl _ check [symmetric] 1(2) rest]) (use True in auto)
    note first = checked_processes [OF 1(2) check]
    have "\<exists>n. cn_tick c \<le> n \<and> n < cn_tick c1 \<and> \<not> ours_at h n pid" if in_sweep: "pid \<in> set signaled - set stubborn" for pid
    proof (cases "pid \<in> set alive")
      case True
      then have "pid \<in> set alive - set stubborn" using that by simp
      then obtain n where "cn_tick c2 \<le> n" "n < cn_tick c1" "\<not> ours_at h n pid" using IH by blast
      then show ?thesis using first by (intro exI [of _ n]) simp
    next
      case False
      then have "pid \<in> set signaled - set alive" using in_sweep by simp
      then obtain n where "cn_tick (os_sleep h (1 / 5) ?c0) \<le> n" "n < cn_tick c2" "\<not> ours_at h n pid" using first by blast
      then show ?thesis using IH by (intro exI [of _ n]) simp
    qed
    then show ?thesis using IH first by auto
  qed
qed


lemma kill_sweep:
  "\<exists>entries. cn_sent (kill_all h pids c) = cn_sent c @ entries \<and> cn_tick c \<le> cn_tick (kill_all h pids c)
    \<and> list_all (\<lambda>(n, pid, sig). cn_tick c \<le> n \<and> sig = Sigkill \<and> pid \<in> set pids) entries"
proof (induction pids arbitrary: c)
  case (Cons pid pids)
  define d where "d = os_print (lit ''PID '' @ str_of_int pid @ lit '' didn'' @ [squote] @ lit ''t exit within 10s -- sending SIGKILL.'') c"
  obtain r c1 where one: "os_kill h pid Sigkill d = (r, c1)" by force
  note k = killed [OF one]
  from Cons.IH [of c1] obtain entries where e: "cn_sent (kill_all h pids c1) = cn_sent c1 @ entries" "cn_tick c1 \<le> cn_tick (kill_all h pids c1)"
    "list_all (\<lambda>(n, pid, sig). cn_tick c1 \<le> n \<and> sig = Sigkill \<and> pid \<in> set pids) entries" by blast
  let ?own = "if r = Signal_Sent then [(cn_tick d, pid, Sigkill)] else []"
  have "kill_all h (pid # pids) c = kill_all h pids c1" using one by (simp add: d_def)
  moreover have "cn_tick c1 = Suc (cn_tick c)" "cn_sent c1 = cn_sent c @ ?own" "cn_tick d = cn_tick c" using k by (simp_all add: d_def)
  moreover have "list_all (\<lambda>(n, p, sig). cn_tick c \<le> n \<and> sig = Sigkill \<and> p \<in> set (pid # pids)) (?own @ entries)"
    using e(3) calculation by (auto simp: list_all_iff)
  ultimately show ?case using e(1,2) by (intro exI [of _ "?own @ entries"]) simp
qed simp

lemma report_kept [simp]:
  "cn_tick (report_not_stopped denied signaled c) = cn_tick c" "cn_sent (report_not_stopped denied signaled c) = cn_sent c"
proof -
  have "cn_tick (fold (\<lambda>pid. os_print (f pid)) pids c) = cn_tick c \<and> cn_sent (fold (\<lambda>pid. os_print (f pid)) pids c) = cn_sent c"
    for f :: "int \<Rightarrow> str" and pids c by (induction pids arbitrary: c) simp_all
  then show "cn_tick (report_not_stopped denied signaled c) = cn_tick c" "cn_sent (report_not_stopped denied signaled c) = cn_sent c"
    by (simp_all add: report_not_stopped_def)
qed

lemma not_running_kept: "cn_sent (print_not_running h c) = cn_sent c \<and> cn_tick c \<le> cn_tick (print_not_running h c)"
  by (auto simp: print_not_running_def print_systemd_hint_def active_systemd_units_def split: list.split)

lemma read_pids: "pid \<in> set (read_pid_file n contents) \<Longrightarrow> 0 < pid \<and> pid \<le> n"
  by (auto simp: read_pid_file_def split: option.splits)

text \<open>One run of the command, taken apart.\<close>

lemma stop_run_ends:
  assumes "ho_proc_fs h" "cmd_stop h pid_max pid_file c = ((code, left), c1)" "read_pid_file (max_pid pid_max) pid_file = pids" "pids \<noteq> []"
  obtains terms kills alive and w :: sweep where
    "cn_sent c1 = cn_sent c @ terms @ kills" "list_all (term_entry h) terms"
    "set (map (fst \<circ> snd) terms) \<subseteq> set pids"
    "\<forall>(n, pid, sig) \<in> set kills. sig = Sigkill \<and> (\<exists>m < n. (m, pid, Sigterm) \<in> set terms)"
    "(code, left) = (if sw_denied w \<noteq> [] \<or> alive \<noteq> [] then (1, pid_file) else (0, None))"
    "\<forall>pid \<in> set pids. pid \<in> set alive \<or> pid \<in> set (sw_denied w) \<or> (\<exists>n. cn_tick c \<le> n \<and> n < cn_tick c1 \<and> \<not> ours_at h n pid)"
proof -
  obtain w d1 where one: "term_all h pids \<lparr>sw_signaled = [], sw_denied = [], sw_found = False\<rparr> c = (w, d1)" by force
  let ?d2 = "os_tick h d1"
  obtain stubborn d3 where two: "wait_gone h (cn_clock ?d2 + 10) (sw_signaled w) ?d2 = (stubborn, d3)" by force
  let ?d4 = "os_sleep h (1 / 2) (kill_all h stubborn d3)"
  obtain alive d5 where three: "echidra_processes h stubborn ?d4 = (alive, d5)" by force
  obtain terms where t: "cn_sent d1 = cn_sent c @ terms" "list_all (term_entry h) terms"
    "list_all (\<lambda>(n, pid, sig). cn_tick c \<le> n \<and> n < cn_tick d1) terms" "sw_signaled w = map (fst \<circ> snd) terms"
    "set (map (fst \<circ> snd) terms) \<subseteq> set pids" "cn_tick c \<le> cn_tick d1"
    "\<forall>pid \<in> set pids. pid \<in> set (sw_signaled w) \<or> pid \<in> set (sw_denied w)
       \<or> (\<exists>n. cn_tick c \<le> n \<and> n < cn_tick d1 \<and> \<not> ours_at h n pid)"
    using swept [OF assms(1) one] by auto
  obtain kills where k: "cn_sent (kill_all h stubborn d3) = cn_sent d3 @ kills" "cn_tick d3 \<le> cn_tick (kill_all h stubborn d3)"
    "list_all (\<lambda>(n, pid, sig). cn_tick d3 \<le> n \<and> sig = Sigkill \<and> pid \<in> set stubborn) kills"
    using kill_sweep by blast
  note wait = waited [OF assms(1) two] and check = checked_processes [OF assms(1) three]
  have c1: "cn_sent c1 = cn_sent d5" "cn_tick d5 \<le> cn_tick c1"
    "(code, left) = (if sw_denied w \<noteq> [] \<or> alive \<noteq> [] then (1, pid_file) else (0, None))"
    using assms(2-4) one two three not_running_kept [of h d5]
    by (auto simp: cmd_stop_def Let_def split: if_splits)
  have in_time: "cn_tick c \<le> n \<and> n < cn_tick c1" if "cn_tick ?d2 \<le> n \<and> n < cn_tick d3 \<or> cn_tick ?d4 \<le> n \<and> n < cn_tick d5
      \<or> cn_tick c \<le> n \<and> n < cn_tick d1" for n
    using that wait check k(2) t(6) c1(2) by auto
  have sent: "cn_sent c1 = cn_sent c @ terms @ kills" using c1(1) check k(1) wait t(1) by simp
  have killed_after: "\<exists>m < n. (m, pid, Sigterm) \<in> set terms" if "(n, pid, sig) \<in> set kills" for n pid sig
  proof -
    have "pid \<in> fst ` snd ` set terms" "cn_tick d3 \<le> n" using that k(3) wait t(4) by (auto simp: list_all_iff image_image)
    then obtain m where m: "(m, pid, Sigterm) \<in> set terms" using t(2) by (fastforce simp: list_all_iff term_entry_def)
    then have "m < n" using t(3) \<open>cn_tick d3 \<le> n\<close> wait by (fastforce simp: list_all_iff)
    then show ?thesis using m by blast
  qed
  have settled: "\<forall>pid \<in> set pids. pid \<in> set alive \<or> pid \<in> set (sw_denied w) \<or> (\<exists>n. cn_tick c \<le> n \<and> n < cn_tick c1 \<and> \<not> ours_at h n pid)"
    using t(7) wait check in_time by (metis DiffI)
  have "\<forall>(n, pid, sig) \<in> set kills. sig = Sigkill \<and> (\<exists>m < n. (m, pid, Sigterm) \<in> set terms)"
    using killed_after k(3) by (auto simp: list_all_iff)
  then show ?thesis using that [OF sent t(2,5) _ c1(3) settled] by blast
qed


text \<open>When \<open>echidra stop\<close> exits with 0, every id of the file was seen not to be Echidra's during the run, and
  the file is gone; otherwise the file is left as it was, for another try.\<close>

theorem stop_exit_code_true:
  assumes "ho_proc_fs h" "cmd_stop h pid_max pid_file c = ((code, left), c1)" "read_pid_file (max_pid pid_max) pid_file \<noteq> []"
  shows "(code, left) = (1, pid_file) \<or> (code, left) = (0, None) \<and>
    (\<forall>pid \<in> set (read_pid_file (max_pid pid_max) pid_file). \<exists>n. cn_tick c \<le> n \<and> n < cn_tick c1 \<and> \<not> ours_at h n pid)"
proof (rule stop_run_ends [OF assms(1,2) refl assms(3)])
  fix alive and w :: sweep
  assume at_end: "(code, left) = (if sw_denied w \<noteq> [] \<or> alive \<noteq> [] then (1, pid_file) else (0, None))"
    "\<forall>pid \<in> set (read_pid_file (max_pid pid_max) pid_file). pid \<in> set alive \<or> pid \<in> set (sw_denied w)
       \<or> (\<exists>n. cn_tick c \<le> n \<and> n < cn_tick c1 \<and> \<not> ours_at h n pid)"
  then show ?thesis by (cases "sw_denied w \<noteq> [] \<or> alive \<noteq> []") auto
qed


section \<open>What echidra start launches\<close>

definition cmdline_of :: "str list \<Rightarrow> bytes" where
  "cmdline_of argv = concat (map (\<lambda>a. concat (map utf8_char a) @ [0]) argv)"

definition honeypot_argv :: "str \<Rightarrow> str list" where
  "honeypot_argv python = [python, lit ''-m'', lit ''honeypot.main'']"

definition api_argv :: "str \<Rightarrow> str \<Rightarrow> int \<Rightarrow> str list" where
  "api_argv python api_host api_port =
     [python, lit ''-m'', lit ''uvicorn'', lit ''classifier.api.app:create_app'', lit ''--factory'', lit ''--host'', api_host,
      lit ''--port'', str_of_int api_port, lit ''--no-access-log'', lit ''--lifespan'', lit ''off'']"

definition arg_ok :: "str \<Rightarrow> bool" where
  "arg_ok a \<longleftrightarrow> plain_text a \<and> 0 \<notin> set a"

lemma cmdline_read:
  assumes "list_all arg_ok argv"
  shows "cmdline_argv (cmdline_of argv) = filter (\<lambda>a. a \<noteq> []) argv"
proof -
  have "cmdline_of argv = concat (map utf8_char (concat (map (\<lambda>a. a @ [0]) argv)))" "plain_text (concat (map (\<lambda>a. a @ [0]) argv))"
    using assms by (induction argv) (auto simp: cmdline_of_def arg_ok_def plain_text_def utf8_char_def is_surrogate_def)
  then have "decode_replace (cmdline_of argv) = concat (map (\<lambda>a. a @ [0]) argv)" by (simp add: decode_replace_plain)
  moreover have "split_on 0 (concat (map (\<lambda>a. a @ [0]) argv)) = argv @ [[]]"
    using assms by (induction argv) (auto simp: arg_ok_def split_on_append split_on_simple)
  ultimately show ?thesis by (simp add: cmdline_argv_def)
qed

lemma children_recognised:
  assumes "arg_ok python" "python \<noteq> []" "arg_ok api_host"
  shows "argv_matches_echidra_child (cmdline_argv (cmdline_of (honeypot_argv python)))"
    "argv_matches_echidra_child (cmdline_argv (cmdline_of (api_argv python api_host api_port)))"
proof -
  have words: "list_all arg_ok (map lit [''-m'', ''honeypot.main'', ''uvicorn'', ''classifier.api.app:create_app'', ''--factory'', ''--host'',
      ''--port'', ''--no-access-log'', ''--lifespan'', ''off''])"
    by code_simp
  have "arg_ok (str_of_int api_port)"
    using str_of_int_chars by (fastforce simp: arg_ok_def plain_text_def list_all_iff is_decimal_def is_surrogate_def)
  then have "list_all arg_ok (honeypot_argv python)" "list_all arg_ok (api_argv python api_host api_port)"
    using words assms by (simp_all add: honeypot_argv_def api_argv_def)
  then show "argv_matches_echidra_child (cmdline_argv (cmdline_of (honeypot_argv python)))"
    "argv_matches_echidra_child (cmdline_argv (cmdline_of (api_argv python api_host api_port)))"
    using assms(2) by (simp_all add: cmdline_read honeypot_argv_def api_argv_def argv_matches_echidra_child_def lit_Cons)
qed

text \<open>The file \<open>echidra start\<close> writes, read back.\<close>

lemma pid_line:
  assumes "0 < pid" "pid < 10 ^ 20"
  shows "int_of_str (str_of_int pid) = Some pid" "strip (str_of_int pid) = str_of_int pid" "str_of_int pid \<noteq> []"
    "clean_line (str_of_int pid)"
proof -
  show "int_of_str (str_of_int pid) = Some pid"
    by (rule int_of_str_of_int [OF short_intI]) (use assms in simp)
  have chars: "c \<in> set (str_of_int pid) \<Longrightarrow> \<not> is_space c \<and> \<not> is_linebreak c" for c
    using str_of_int_chars [of c pid] by (auto simp: is_decimal_def is_space_def is_linebreak_def)
  then show "strip (str_of_int pid) = str_of_int pid" "clean_line (str_of_int pid)"
    by (auto intro!: no_space_strip simp: list_all_iff clean_line_def)
  show "str_of_int pid \<noteq> []" by (simp add: str_of_int_def)
qed

lemma join_newlines: "xs \<noteq> [] \<Longrightarrow> join [newline] xs @ [newline] = as_lines xs"
  by (induction "[newline]" xs rule: join.induct) (auto simp: as_lines_def)

lemma pid_file_reads_back:
  assumes "list_all (\<lambda>pid. 0 < pid \<and> pid \<le> n \<and> pid < 10 ^ 20) pids" "pids \<noteq> []"
  shows "read_pid_file n (Some (pid_file_text pids)) = pids"
proof -
  have "list_all clean_line (map str_of_int pids)" using assms(1) pid_line(4) by (auto simp: list_all_iff)
  then have "split_lines (pid_file_text pids) = map str_of_int pids"
    using assms(2) by (simp add: pid_file_text_def join_newlines split_lines_as_lines)
  moreover have "map strip (map str_of_int pids) = map str_of_int pids" "filter (\<lambda>l. l \<noteq> []) (map str_of_int pids) = map str_of_int pids"
    "List.map_filter int_of_str (map str_of_int pids) = pids" "filter (\<lambda>pid. 0 < pid \<and> pid \<le> n) pids = pids"
    using assms(1) pid_line by (induction pids) (simp_all add: map_filter_simps)
  ultimately show ?thesis by (simp add: read_pid_file_def del: map_map)
qed

section \<open>A stop that works\<close>

definition child_running :: "host \<Rightarrow> nat \<Rightarrow> int \<Rightarrow> str list \<Rightarrow> bool" where
  "child_running h n pid argv \<longleftrightarrow> ho_table h n pid = Some \<lparr>op_cmdline = Some (cmdline_of argv), op_permitted = True\<rparr>"

lemma sweep_one:
  assumes "ho_proc_fs h" "argv_matches_echidra_child (cmdline_argv (cmdline_of argv))"
    "\<And>n. cn_tick c \<le> n \<Longrightarrow> n < cn_tick c + 3 \<Longrightarrow> child_running h n pid argv"
  shows "\<exists>c1. term_all h (pid # pids) w c = term_all h pids (w\<lparr>sw_found := True, sw_signaled := sw_signaled w @ [pid]\<rparr>) c1
    \<and> cn_tick c1 = cn_tick c + 3 \<and> cn_sent c1 = cn_sent c @ [(cn_tick c + 2, pid, Sigterm)]"
proof -
  have "child_running h (cn_tick c) pid argv" "child_running h (Suc (cn_tick c)) pid argv" "child_running h (Suc (Suc (cn_tick c))) pid argv"
    using assms(3) by auto
  note up = this
  define d where "d = (os_tick h (os_tick h (os_tick h c)))\<lparr>cn_sent := cn_sent c @ [(cn_tick c + 2, pid, Sigterm)]\<rparr>"
  have checked: "pid_is_echidra_process h pid c = (True, os_tick h (os_tick h c))"
    and sent: "os_kill h pid Sigterm (os_tick h (os_tick h c)) = (Signal_Sent, d)"
    using up assms(1,2) by (auto simp: pid_is_echidra_process_def pid_is_alive_def child_running_def os_kill_def d_def)
  let ?d = "if sw_signaled w = [] then os_print (lit ''Stopping Echidra...'') d else d"
  have "term_all h (pid # pids) w c = term_all h pids (w\<lparr>sw_found := True, sw_signaled := sw_signaled w @ [pid]\<rparr>) ?d"
    by (simp only: term_all.simps checked sent prod.case bool.case kill_result.case)
  moreover have "cn_tick ?d = cn_tick c + 3" "cn_sent ?d = cn_sent c @ [(cn_tick c + 2, pid, Sigterm)]"
    by (simp_all add: d_def)
  ultimately show ?thesis by blast
qed

lemma all_gone:
  assumes "\<And>n pid. cn_tick c \<le> n \<Longrightarrow> pid \<in> set pids \<Longrightarrow> ho_table h n pid = None"
  shows "fst (echidra_processes h pids c) = [] \<and> cn_sent (snd (echidra_processes h pids c)) = cn_sent c"
  using assms
proof (induction pids arbitrary: c)
  case (Cons pid pids)
  have "pid_is_echidra_process h pid c = (False, os_tick h c)"
    using Cons.prems [of "cn_tick c" pid] by (simp add: pid_is_echidra_process_def pid_is_alive_def)
  then show ?case using Cons.IH [of "os_tick h c"] Cons.prems by (simp split: prod.split)
qed simp

lemma kill_gone:
  assumes "\<And>n pid. cn_tick c \<le> n \<Longrightarrow> pid \<in> set pids \<Longrightarrow> ho_table h n pid = None"
  shows "cn_sent (kill_all h pids c) = cn_sent c"
  using assms
proof (induction pids arbitrary: c)
  case (Cons pid pids)
  define d where "d = os_print (lit ''PID '' @ str_of_int pid @ lit '' didn'' @ [squote] @ lit ''t exit within 10s -- sending SIGKILL.'') c"
  have d: "cn_tick d = cn_tick c" "cn_sent d = cn_sent c" by (simp_all add: d_def)
  have "ho_table h (cn_tick d) pid = None" using Cons.prems by (simp add: d)
  then have "kill_all h (pid # pids) c = kill_all h pids (os_tick h d)" by (simp add: d_def os_kill_def)
  moreover have "cn_sent (kill_all h pids (os_tick h d)) = cn_sent (os_tick h d)"
    by (rule Cons.IH) (use Cons.prems in \<open>simp add: d\<close>)
  ultimately show ?case by (simp add: d)
qed simp

text \<open>The clock goes by the delays of the calls, and by what is slept.\<close>

lemma os_tick_delay: "cn_clock (os_tick h c) = cn_clock c + \<bar>ho_delay h (cn_tick c)\<bar>"
  by (simp add: os_tick_def)

lemma checks_delay:
  assumes "echidra_processes h pids c = (found, c1)"
  shows "cn_tick c \<le> cn_tick c1 \<and> cn_clock c1 = cn_clock c + (\<Sum>n = cn_tick c..<cn_tick c1. \<bar>ho_delay h n\<bar>)"
  using assms
proof (induction pids arbitrary: c found)
  case (Cons pid pids)
  obtain ours c2 where one: "pid_is_echidra_process h pid c = (ours, c2)" by force
  obtain found2 where rest: "echidra_processes h pids c2 = (found2, c1)"
    using Cons.prems one by (auto split: prod.splits)
  have "cn_tick c \<le> cn_tick c2 \<and> cn_clock c2 = cn_clock c + (\<Sum>n = cn_tick c..<cn_tick c2. \<bar>ho_delay h n\<bar>)"
    using one by (auto simp: pid_is_echidra_process_def pid_is_alive_def os_tick_delay sum.atLeast_Suc_lessThan
        warn_proc_fs_unavailable_once_def os_print_def split: bool.splits if_splits)
  moreover have "cn_tick c2 \<le> cn_tick c1 \<and> cn_clock c1 = cn_clock c2 + (\<Sum>n = cn_tick c2..<cn_tick c1. \<bar>ho_delay h n\<bar>)"
    by (rule Cons.IH [OF rest])
  ultimately show ?case using sum.atLeastLessThan_concat [of "cn_tick c" "cn_tick c2" "cn_tick c1" "\<lambda>n. \<bar>ho_delay h n\<bar>"] by auto
qed simp

text \<open>A process that runs during a round of the wait is found by it, in two calls.\<close>

lemma still_found:
  assumes "ho_proc_fs h" "echidra_processes h pids c = (found, c1)" "pid \<in> set pids"
    "\<And>n. n < cn_tick c1 \<Longrightarrow> ours_at h n pid"
  shows "pid \<in> set found \<and> cn_tick c + 2 \<le> cn_tick c1"
  using assms(2,3,4)
proof (induction pids arbitrary: c found)
  case (Cons p pids)
  obtain ours c2 where one: "pid_is_echidra_process h p c = (ours, c2)" by force
  obtain found2 where rest: "echidra_processes h pids c2 = (found2, c1)" "found = (if ours then p # found2 else found2)"
    using Cons.prems(1) one by (auto split: prod.splits)
  note later = conjunct1 [OF checks_delay [OF rest(1)]] and check = checked_process [OF assms(1) one]
  show ?case
  proof (cases "p = pid")
    case True
    then have ours using check(4) later Cons.prems(3) by (meson less_le_trans)
    then show ?thesis using check(3) later rest(2) True by simp
  next
    case False
    then have "pid \<in> set found2 \<and> cn_tick c2 + 2 \<le> cn_tick c1" using Cons.IH [OF rest(1)] Cons.prems(2,3) by simp
    then show ?thesis using rest(2) check(1) by auto
  qed
qed simp

text \<open>The wait goes on while \<open>pid\<close> runs, as long as the time is not up: a round is a fifth of a second and at
  least four calls.\<close>

lemma waits_for:
  assumes "ho_proc_fs h" "wait_gone h deadline signaled c = (stubborn, c1)" "pid \<in> set signaled"
    "\<And>n. n < end_tick \<Longrightarrow> ours_at h n pid" "cn_tick c \<le> end_tick"
    "cn_clock c + (\<Sum>n = cn_tick c..<end_tick. \<bar>ho_delay h n\<bar>) + of_nat (end_tick - cn_tick c) / 20 < deadline"
  shows "end_tick \<le> cn_tick c1"
  using assms
proof (induction h deadline signaled c arbitrary: stubborn c1 rule: wait_gone.induct)
  case (1 h deadline signaled c)
  let ?c0 = "os_tick h c" and ?sum = "\<lambda>a b. \<Sum>n = a..<b. \<bar>ho_delay h n\<bar>"
  have ticked: "cn_clock ?c0 = cn_clock c + \<bar>ho_delay h (cn_tick c)\<bar>" by (rule os_tick_delay)
  show ?case
  proof (cases "cn_clock ?c0 < deadline")
    case False
    have "end_tick \<le> cn_tick c"
    proof (rule ccontr)
      assume "\<not> end_tick \<le> cn_tick c"
      then have "?sum (cn_tick c) end_tick = \<bar>ho_delay h (cn_tick c)\<bar> + ?sum (Suc (cn_tick c)) end_tick"
        by (simp add: sum.atLeast_Suc_lessThan)
      moreover have "0 \<le> ?sum (Suc (cn_tick c)) end_tick" by (simp add: sum_nonneg)
      moreover have "0 \<le> (of_nat (end_tick - cn_tick c) :: rat) / 20" by simp
      ultimately show False using 1(7) False ticked by linarith
    qed
    then show ?thesis using waited [OF 1(2,3)] by simp
  next
    case True
    obtain alive c2 where check: "echidra_processes h signaled (os_sleep h (1 / 5) ?c0) = (alive, c2)" by force
    have some: "signaled \<noteq> []" using 1(4) by auto
    have rest: "wait_gone h deadline alive c2 = (stubborn, c1)"
      using 1(3) True check some by (subst (asm) wait_gone.simps) (simp add: Let_def)
    note mono = conjunct1 [OF waited [OF 1(2) rest]]
    show ?thesis
    proof (cases "cn_tick c2 \<le> end_tick")
      case False
      then show ?thesis using mono by simp
    next
      case early: True
      have "ours_at h n pid" if "n < cn_tick c2" for n using 1(5) that early by simp
      from still_found [OF 1(2) check 1(4) this] have found: "pid \<in> set alive" "cn_tick c + 4 \<le> cn_tick c2" by auto
      have "cn_clock c2 = cn_clock (os_sleep h (1 / 5) ?c0) + ?sum (cn_tick c + 2) (cn_tick c2)"
        using checks_delay [OF check] by simp
      also have "cn_clock (os_sleep h (1 / 5) ?c0) = cn_clock c + ?sum (cn_tick c) (cn_tick c + 2) + 1 / 5"
        by (simp add: os_sleep_def os_tick_delay)
      finally have clock: "cn_clock c2 = cn_clock c + ?sum (cn_tick c) (cn_tick c2) + 1 / 5"
        using sum.atLeastLessThan_concat [of "cn_tick c" "cn_tick c + 2" "cn_tick c2" "\<lambda>n. \<bar>ho_delay h n\<bar>"] found(2) by simp
      have "?sum (cn_tick c) (cn_tick c2) + ?sum (cn_tick c2) end_tick = ?sum (cn_tick c) end_tick"
        using sum.atLeastLessThan_concat [of "cn_tick c" "cn_tick c2" end_tick "\<lambda>n. \<bar>ho_delay h n\<bar>"] found(2) early by simp
      moreover have "end_tick - cn_tick c2 + 4 \<le> end_tick - cn_tick c" using found(2) early by simp
      then have "(of_nat (end_tick - cn_tick c2) :: rat) + 4 \<le> of_nat (end_tick - cn_tick c)"
        by (metis of_nat_add of_nat_le_iff of_nat_numeral)
      ultimately have "cn_clock c2 + ?sum (cn_tick c2) end_tick + of_nat (end_tick - cn_tick c2) / 20 < deadline"
        using clock 1(7) by (simp add: field_simps)
      then show ?thesis
        using 1(1) [OF some refl _ check [symmetric] 1(2) rest found(1) 1(5) early] True by simp
    qed
  qed
qed

text \<open>C38: \<open>echidra stop\<close> finds what \<open>echidra start\<close> launched, on any interpreter path and dashboard address:
  both processes get one SIGTERM, and when each has ended at some moment of the ten seconds the command waits, the
  one sooner and the other later, it reports success, removes the file and kills nothing. That a process ends in
  time is said in calls of the operating system: those until then take less than ten seconds, with a twentieth of a
  second added to each for the sleeps of the rounds, which have at least four calls each.\<close>

theorem stop_ends_started:
  assumes host: "ho_proc_fs h" and text_ok: "arg_ok python" "python \<noteq> []" "arg_ok api_host"
    and ids: "0 < p" "p \<le> max_pid pid_max" "p < 10 ^ 20" "0 < q" "q \<le> max_pid pid_max" "q < 10 ^ 20"
    and p_runs: "\<And>n. n < p_end \<Longrightarrow> child_running h n p (honeypot_argv python)" "\<And>n. p_end \<le> n \<Longrightarrow> ho_table h n p = None"
    and q_runs: "\<And>n. n < q_end \<Longrightarrow> child_running h n q (api_argv python api_host api_port)" "\<And>n. q_end \<le> n \<Longrightarrow> ho_table h n q = None"
    and late: "cn_tick c + 7 \<le> p_end" "cn_tick c + 7 \<le> q_end"
    and in_time: "(\<Sum>n = cn_tick c + 7..<max p_end q_end. \<bar>ho_delay h n\<bar>) + of_nat (max p_end q_end - (cn_tick c + 7)) / 20 < 10"
  shows "\<exists>c1. cmd_stop h pid_max (Some (pid_file_text [p, q])) c = ((0, None), c1)
    \<and> cn_sent c1 = cn_sent c @ [(cn_tick c + 2, p, Sigterm), (cn_tick c + 5, q, Sigterm)]"
proof -
  let ?w = "\<lparr>sw_signaled = [], sw_denied = [], sw_found = False\<rparr>" and ?gone = "max p_end q_end"
  have pids: "read_pid_file (max_pid pid_max) (Some (pid_file_text [p, q])) = [p, q]"
    by (rule pid_file_reads_back) (use ids in simp_all)
  note recognised = children_recognised [OF text_ok]
  obtain c1 where c1: "term_all h [p, q] ?w c = term_all h [q] (?w\<lparr>sw_found := True, sw_signaled := sw_signaled ?w @ [p]\<rparr>) c1"
      "cn_tick c1 = cn_tick c + 3" "cn_sent c1 = cn_sent c @ [(cn_tick c + 2, p, Sigterm)]"
    using sweep_one [OF host recognised(1), of c p "[q]" ?w] p_runs(1) late(1) by auto
  let ?w1 = "?w\<lparr>sw_found := True, sw_signaled := sw_signaled ?w @ [p]\<rparr>"
  obtain c2 where c2: "term_all h [q] ?w1 c1 = term_all h [] (?w1\<lparr>sw_found := True, sw_signaled := sw_signaled ?w1 @ [q]\<rparr>) c2"
      "cn_tick c2 = cn_tick c1 + 3" "cn_sent c2 = cn_sent c1 @ [(cn_tick c1 + 2, q, Sigterm)]"
    using sweep_one [OF host recognised(2) [of api_port], of c1 q "[]" ?w1] q_runs(1) late(2) c1(2) by auto
  have swept: "term_all h [p, q] ?w c = (\<lparr>sw_signaled = [p, q], sw_denied = [], sw_found = True\<rparr>, c2)"
    unfolding c1(1) c2(1) by simp
  let ?c3 = "os_tick h c2"
  have ticks: "cn_tick ?c3 = cn_tick c + 7" "cn_sent c2 = cn_sent c @ [(cn_tick c + 2, p, Sigterm), (cn_tick c + 5, q, Sigterm)]"
    using c1(2,3) c2(2,3) by simp_all
  obtain stubborn c4 where wait: "wait_gone h (cn_clock ?c3 + 10) [p, q] ?c3 = (stubborn, c4)" by force
  note waited = waited [OF host wait]
  have "\<And>n. n < p_end \<Longrightarrow> ours_at h n p" "\<And>n. n < q_end \<Longrightarrow> ours_at h n q"
    using p_runs(1) q_runs(1) recognised by (simp_all add: ours_at_def child_running_def)
  then have "\<exists>pid \<in> set [p, q]. \<forall>n < ?gone. ours_at h n pid" by (cases "p_end \<le> q_end") (auto simp: max_def)
  then obtain pid where pid: "pid \<in> set [p, q]" "\<And>n. n < ?gone \<Longrightarrow> ours_at h n pid" by blast
  have early: "cn_tick ?c3 \<le> ?gone" unfolding ticks(1) using late(1) by linarith
  have deadline: "cn_clock ?c3 + (\<Sum>n = cn_tick ?c3..<?gone. \<bar>ho_delay h n\<bar>) + of_nat (?gone - cn_tick ?c3) / 20 < cn_clock ?c3 + 10"
    unfolding ticks(1) using in_time by linarith
  have "?gone \<le> cn_tick c4"
    by (rule waits_for [OF host wait pid(1) _ early deadline]) (rule pid(2))
  then have later: "ho_table h n pid = None" if "cn_tick c4 \<le> n" "pid \<in> set stubborn" for n pid
    using p_runs(2) q_runs(2) that waited by auto
  let ?c5 = "os_sleep h (1 / 2) (kill_all h stubborn c4)"
  have "cn_sent (kill_all h stubborn c4) = cn_sent c4" by (rule kill_gone) (rule later)
  moreover have "cn_tick c4 \<le> cn_tick (kill_all h stubborn c4)" using kill_sweep by blast
  then have "fst (echidra_processes h stubborn ?c5) = [] \<and> cn_sent (snd (echidra_processes h stubborn ?c5)) = cn_sent ?c5"
    by (intro all_gone) (simp add: later)
  moreover obtain alive c6 where "echidra_processes h stubborn ?c5 = (alive, c6)" by force
  ultimately have check: "echidra_processes h stubborn ?c5 = ([], c6)" "cn_sent c6 = cn_sent c4" by simp_all
  have "cmd_stop h pid_max (Some (pid_file_text [p, q])) c = ((0, None), os_print (lit ''Echidra has stopped.'') c6)"
    unfolding cmd_stop_def pids using swept wait check(1) by (simp add: Let_def)
  then show ?thesis using check(2) waited ticks(2) by auto
qed


section \<open>An example\<close>

definition python_path :: str where "python_path = lit ''/opt/py''"

definition example_child :: "int \<Rightarrow> os_process option" where
  "example_child pid =
     (if pid = 100 then Some \<lparr>op_cmdline = Some (cmdline_of (honeypot_argv python_path)), op_permitted = True\<rparr>
      else if pid = 101 then Some \<lparr>op_cmdline = Some (cmdline_of (api_argv python_path (lit ''::1'') 8000)), op_permitted = True\<rparr>
      else None)"

definition example_host :: host where
  "example_host = \<lparr>ho_table = (\<lambda>n pid. if n < 6 then example_child pid else None), ho_delay = (\<lambda>_. 0), ho_proc_fs = True,
     ho_units = (\<lambda>_. [])\<rparr>"

definition example_control :: control where
  "example_control = \<lparr>cn_tick = 0, cn_clock = 50, cn_sent = [], cn_out = [], cn_warned = False\<rparr>"

text \<open>A host on which the two children end at different moments of the wait.\<close>

definition slow_host :: host where
  "slow_host = example_host\<lparr>ho_table := (\<lambda>n pid. if pid = 100 \<and> n < 20 \<or> pid = 101 \<and> n < 47 then example_child pid else None),
     ho_delay := (\<lambda>_. 1 / 50)\<rparr>"

theorem stop_ends_started_witness:
  "\<exists>c1. cmd_stop slow_host None (Some (pid_file_text [100, 101])) example_control = ((0, None), c1)
    \<and> cn_sent c1 = [(2, 100, Sigterm), (5, 101, Sigterm)]"
proof -
  have words: "arg_ok python_path" "python_path \<noteq> []" "arg_ok (lit ''::1'')" by code_simp+
  have "\<exists>c1. cmd_stop slow_host None (Some (pid_file_text [100, 101])) example_control = ((0, None), c1)
    \<and> cn_sent c1 = cn_sent example_control @ [(cn_tick example_control + 2, 100, Sigterm), (cn_tick example_control + 5, 101, Sigterm)]"
    by (rule stop_ends_started [OF _ words, where api_port = 8000 and p_end = 20 and q_end = 47])
      (simp_all add: slow_host_def example_host_def example_control_def child_running_def example_child_def max_pid_def)
  moreover have "cn_tick example_control = 0" "cn_sent example_control = []" by (simp_all add: example_control_def)
  ultimately show ?thesis by (simp only: add_0 append_Nil)
qed


theorem stop_exit_code_true_witness:
  "\<exists>n. \<not> ours_at example_host n 77"
proof -
  obtain code left c1 where run: "cmd_stop example_host None (Some (lit ''77'')) example_control = ((code, left), c1)"
    by (metis surj_pair)
  have "fst (fst (cmd_stop example_host None (Some (lit ''77'')) example_control)) = 0" by code_simp
  then have zero: "code = 0" by (simp add: run)
  have pids: "read_pid_file (max_pid None) (Some (lit ''77'')) = [77]" by code_simp
  have "ho_proc_fs example_host" by (simp add: example_host_def)
  from stop_exit_code_true [OF this run] show ?thesis unfolding pids using zero by auto
qed

end
