(* ===== verification/StorageConfig.thy ===== *)
theory StorageConfig
  imports UrlText Passwords ShellText
begin

text \<open>
  \<open>classifier/storage/config.py\<close> and \<open>classifier/storage/cli.py\<close>: the database URL, its template placeholders,
  taking the password out of what is printed, and the commands \<open>init-db\<close> and \<open>sync-issues\<close> around the
  repository. Of \<open>urllib.parse\<close> it models \<open>urlsplit\<close> and \<open>urlunsplit\<close> on network locations of ASCII characters;
  the form of a bracketed address is not checked.
\<close>

abbreviation (input) number_sign :: nat where "number_sign \<equiv> 35"

section \<open>urlsplit\<close>

record split_url =
  su_scheme :: str
  su_netloc :: str
  su_path :: str
  su_query :: str
  su_fragment :: str

definition split_scheme :: "str \<Rightarrow> str \<times> str" where
  "split_scheme url =
     (case partition_at colon url of
        (name, Some rest) \<Rightarrow>
          if name \<noteq> [] \<and> is_ascii_letter (hd name) \<and> list_all is_scheme_char name then (lower name, rest) else ([], url)
      | _ \<Rightarrow> ([], url))"

definition ends_netloc :: "nat \<Rightarrow> bool" where
  "ends_netloc c \<longleftrightarrow> c = slash \<or> c = question \<or> c = number_sign"

definition or_empty :: "str option \<Rightarrow> str" where
  "or_empty x = (case x of None \<Rightarrow> [] | Some s \<Rightarrow> s)"

definition INVALID_IPV6_URL :: str where "INVALID_IPV6_URL = lit ''Invalid IPv6 URL''"

definition urlsplit :: "str \<Rightarrow> split_url outcome" where
  "urlsplit value =
     (case split_scheme (clean_url value) of
        (scheme, url) \<Rightarrow>
          let has_netloc = startswith url [slash, slash];
              netloc = (if has_netloc then takeWhile (\<lambda>c. \<not> ends_netloc c) (drop 2 url) else []);
              rest = (if has_netloc then dropWhile (\<lambda>c. \<not> ends_netloc c) (drop 2 url) else url)
          in if (lbracket \<in> set netloc) \<noteq> (rbracket \<in> set netloc) then Raised (ValueError INVALID_IPV6_URL)
             else case partition_at number_sign rest of (before, fragment) \<Rightarrow>
               case partition_at question before of (path, query) \<Rightarrow>
                 Done \<lparr>su_scheme = scheme, su_netloc = netloc, su_path = path, su_query = or_empty query, su_fragment = or_empty fragment\<rparr>)"

text \<open>\<open>urlunsplit\<close>, for a URL with a network location.\<close>

definition urlunsplit :: "split_url \<Rightarrow> str" where
  "urlunsplit u =
     (if su_scheme u = [] then [] else su_scheme u @ [colon])
     @ [slash, slash] @ su_netloc u
     @ (if su_path u = [] \<or> hd (su_path u) = slash then su_path u else slash # su_path u)
     @ (if su_query u = [] then [] else question # su_query u)
     @ (if su_fragment u = [] then [] else number_sign # su_fragment u)"

text \<open>\<open>username\<close>, \<open>password\<close> and \<open>hostname\<close> of the result.\<close>

definition url_userinfo :: "split_url \<Rightarrow> str option" where
  "url_userinfo u = map_option fst (rsplit_once at_sign (su_netloc u))"

definition url_username :: "split_url \<Rightarrow> str option" where
  "url_username u = map_option (\<lambda>info. fst (partition_at colon info)) (url_userinfo u)"

definition url_password :: "split_url \<Rightarrow> str option" where
  "url_password u = (case url_userinfo u of None \<Rightarrow> None | Some info \<Rightarrow> snd (partition_at colon info))"

definition url_hostname :: "split_url \<Rightarrow> str option" where
  "url_hostname u =
     (let hostinfo = (case rsplit_once at_sign (su_netloc u) of None \<Rightarrow> su_netloc u | Some (info, h) \<Rightarrow> h);
          name = (case partition_at lbracket hostinfo of
                    (before, Some bracketed) \<Rightarrow> fst (partition_at rbracket bracketed)
                  | (before, None) \<Rightarrow> fst (partition_at colon hostinfo))
      in if name = [] then None
         else case partition_at percent name of
           (h, None) \<Rightarrow> Some (lower h)
         | (h, Some zone) \<Rightarrow> Some (lower h @ percent # zone))"

section \<open>Placeholders\<close>

definition PLACEHOLDER_DATABASE_VALUES :: "str list" where
  "PLACEHOLDER_DATABASE_VALUES = map lit [''YOUR_DATABASE'', ''YOUR_DB'', ''YOUR_DB_NAME'', ''YOUR_HOST'', ''YOUR_PASSWORD'',
     ''YOUR_PORT'', ''YOUR_USER'', ''YOUR_USERNAME'']"

definition get_database_url :: "str option \<Rightarrow> str option" where
  "get_database_url value = (case value of None \<Rightarrow> None | Some v \<Rightarrow> if strip v = [] then None else Some v)"

fun first_placeholder :: "str option list \<Rightarrow> str option" where
  "first_placeholder [] = None"
| "first_placeholder (None # cs) = first_placeholder cs"
| "first_placeholder (Some c # cs) = (if unquote c \<in> set PLACEHOLDER_DATABASE_VALUES then Some (unquote c) else first_placeholder cs)"

definition database_url_placeholder :: "str \<Rightarrow> str option outcome" where
  "database_url_placeholder value =
     (case urlsplit value of
        Raised x \<Rightarrow> Raised x
      | Done u \<Rightarrow>
          let path_value = dropWhile (\<lambda>c. c = slash) (su_path u) in
          Done (first_placeholder ([url_username u, url_password u, url_hostname u] @ (if path_value = [] then [] else [Some path_value]))))"

section \<open>Taking the password out\<close>

text \<open>A literal without regard to case; the long s matches an s.\<close>

fun matches_word :: "str \<Rightarrow> str \<Rightarrow> bool" where
  "matches_word [] s = True"
| "matches_word (w # ws) [] = False"
| "matches_word (w # ws) (c # s) \<longleftrightarrow> (lower_char c = [w] \<or> (w = 115 \<and> c = 0x17F)) \<and> matches_word ws s"

text \<open>\<open>_PASSWORD_KEYWORD_RE\<close> at the front of a text: what \<open>\1***\<close> makes of it, and how much it matched.\<close>

definition quoted_length :: "nat \<Rightarrow> str \<Rightarrow> nat option" where
  "quoted_length q s =
     (case s of
        c # t \<Rightarrow> if c = q \<and> q \<in> set t then Some (length (takeWhile (\<lambda>x. x \<noteq> q) t) + 2) else None
      | [] \<Rightarrow> None)"

definition password_keyword :: "str \<Rightarrow> (str \<times> nat) option" where
  "password_keyword s =
     (if \<not> matches_word (lit ''password'') s then None
      else let before = takeWhile is_space (drop 8 s); after_word = dropWhile is_space (drop 8 s) in
        if after_word = [] \<or> hd after_word \<noteq> equals_sign then None
        else let spaces = takeWhile is_space (tl after_word);
                 rest = dropWhile is_space (tl after_word);
                 group1 = take 8 s @ before @ [equals_sign] @ spaces;
                 matched = (case quoted_length squote rest of
                              Some n \<Rightarrow> n
                            | None \<Rightarrow> (case quoted_length dquote rest of
                                Some n \<Rightarrow> n | None \<Rightarrow> length (takeWhile (\<lambda>c. \<not> is_space c) rest)))
          in if matched = 0 then None else Some (group1 @ lit ''***'', length group1 + matched))"

text \<open>\<open>re.sub\<close> with a matcher that gives the replacement and the length of its match, never 0.\<close>

function sub_matches :: "(str \<Rightarrow> (str \<times> nat) option) \<Rightarrow> str \<Rightarrow> str" where
  "sub_matches m [] = []"
| "sub_matches m (c # s) =
     (case m (c # s) of
        Some (replacement, n) \<Rightarrow> replacement @ sub_matches m (drop (n - 1) s)
      | None \<Rightarrow> c # sub_matches m s)"
  by pat_completeness auto
termination
  by (relation "measure (length \<circ> snd)") auto

definition uri_length :: "str \<Rightarrow> nat option" where
  "uri_length s =
     (let word = (if matches_word (lit ''postgresql://'') s then 13 else if matches_word (lit ''postgres://'') s then 11 else 0);
          rest = takeWhile (\<lambda>c. \<not> is_space c) (drop word s)
      in if word = 0 \<or> rest = [] then None else Some (word + length rest))"

definition redact_database_uri :: "str \<Rightarrow> str outcome" where
  "redact_database_uri value =
     (if \<not> contains value (lit ''://'') then Done value
      else case urlsplit value of
        Raised x \<Rightarrow> Raised x
      | Done u \<Rightarrow>
          (case (url_password u, rsplit_once at_sign (su_netloc u)) of
             (Some pw, Some (userinfo, hostinfo)) \<Rightarrow>
               Done (urlunsplit (u\<lparr>su_netloc := fst (partition_at colon userinfo) @ lit '':***@'' @ hostinfo\<rparr>))
           | _ \<Rightarrow> Done value))"

text \<open>The second \<open>sub\<close>, whose replacement may raise.\<close>

function redact_uris :: "str \<Rightarrow> str outcome" where
  "redact_uris [] = Done []"
| "redact_uris (c # s) =
     (case uri_length (c # s) of
        None \<Rightarrow> (case redact_uris s of Raised x \<Rightarrow> Raised x | Done t \<Rightarrow> Done (c # t))
      | Some n \<Rightarrow>
          (case redact_database_uri (take n (c # s)) of
             Raised x \<Rightarrow> Raised x
           | Done r \<Rightarrow> (case redact_uris (drop (n - 1) s) of Raised x \<Rightarrow> Raised x | Done t \<Rightarrow> Done (r @ t))))"
  by pat_completeness auto
termination
  by (relation "measure length") auto

definition redact_database_url :: "str \<Rightarrow> str outcome" where
  "redact_database_url value = redact_uris (sub_matches password_keyword value)"


section \<open>The commands\<close>

text \<open>What the repository calls end in; the texts are those of the exceptions.\<close>

datatype 'a storage_outcome =
    Storage_Ok 'a
  | File_Not_Found str
  | No_Driver str
  | Storage_Failed str

datatype sync_outcome = Sync_In_Progress | Sync_Ended "nat storage_outcome"

type_synonym command_result = "(nat \<times> (bool \<times> str) list) outcome"

definition URL_NOT_SET :: str where
  "URL_NOT_SET = lit ''error: ECHIDRA_DATABASE_URL is not set. Copy .env.example to .env and configure it first.''"

definition placeholder_left :: "str \<Rightarrow> str" where
  "placeholder_left p = lit ''error: ECHIDRA_DATABASE_URL still contains the placeholder '' @ p
     @ lit ''. Replace it with your local PostgreSQL value in .env.''"

text \<open>The start of both: the URL, or how the command ends. \<open>True\<close> marks a line on standard error.\<close>

definition configured_url :: "str option \<Rightarrow> (str \<Rightarrow> command_result) \<Rightarrow> command_result" where
  "configured_url env_value act =
     (case get_database_url env_value of
        None \<Rightarrow> Done (2, [(True, URL_NOT_SET)])
      | Some url \<Rightarrow>
          (case database_url_placeholder url of
             Raised x \<Rightarrow> Raised x
           | Done (Some p) \<Rightarrow> Done (2, [(True, placeholder_left p)])
           | Done None \<Rightarrow> act url))"

definition failed_with :: "str \<Rightarrow> str \<Rightarrow> (bool \<times> str) list \<Rightarrow> command_result" where
  "failed_with what why printed =
     (case redact_database_url why of
        Raised x \<Rightarrow> Raised x
      | Done safe_message \<Rightarrow> Done (2, printed @ [(True, lit ''error: failed to '' @ what @ lit '': '' @ safe_message)]))"

definition init_db_command :: "str \<Rightarrow> str option \<Rightarrow> unit storage_outcome \<Rightarrow> command_result" where
  "init_db_command schema_path env_value result =
     configured_url env_value (\<lambda>url.
       case redact_database_url url of
         Raised x \<Rightarrow> Raised x
       | Done shown \<Rightarrow>
           let printed = [(False, lit ''Connecting to '' @ shown @ lit '' ...'')] in
           (case result of
              Storage_Ok _ \<Rightarrow> Done (0, printed @ [(False, lit ''database initialized'')])
            | File_Not_Found why \<Rightarrow> Done (2, printed @ [(True, lit ''error: schema file not found: '' @ schema_path)])
            | No_Driver why \<Rightarrow> Done (2, printed @ [(True, lit ''error: '' @ why)])
            | Storage_Failed why \<Rightarrow> failed_with (lit ''initialize database'') why printed))"

definition sync_issues_command :: "str option \<Rightarrow> sync_outcome \<Rightarrow> command_result" where
  "sync_issues_command env_value result =
     configured_url env_value (\<lambda>url.
       case result of
         Sync_Ended (Storage_Ok n) \<Rightarrow> Done (0, [(False, lit ''synced '' @ str_of_nat n @ lit '' issue(s)'')])
       | Sync_Ended (File_Not_Found why) \<Rightarrow> Done (2, [(True, lit ''error: '' @ why)])
       | Sync_Ended (No_Driver why) \<Rightarrow> Done (2, [(True, lit ''error: '' @ why)])
       | Sync_In_Progress \<Rightarrow> Done (2, [(True, lit ''error: another issue sync is running (the honeypot and the API ''
           @ lit ''sync automatically); try again in a minute'')])
       | Sync_Ended (Storage_Failed why) \<Rightarrow> failed_with (lit ''sync issues'') why [])"

text \<open>\<open>main\<close>, the arguments parsed; None stands for no command, which prints the help.\<close>

datatype storage_command = Init_Db str "unit storage_outcome" | Sync_Issues sync_outcome

definition storage_main :: "str option \<Rightarrow> storage_command option \<Rightarrow> command_result" where
  "storage_main env_value command =
     (case command of
        Some (Init_Db schema_path result) \<Rightarrow> init_db_command schema_path env_value result
      | Some (Sync_Issues result) \<Rightarrow> sync_issues_command env_value result
      | None \<Rightarrow> Done (1, []))"

section \<open>What is printed of a URL\<close>

lemma sub_matches_none: "(\<And>t. suffix t s \<Longrightarrow> m t = None) \<Longrightarrow> sub_matches m s = s"
proof (induction s)
  case (Cons c s)
  have "m (c # s) = None" using Cons.prems by simp
  moreover have "sub_matches m s = s" by (rule Cons.IH) (use Cons.prems in \<open>simp add: suffix_Cons\<close>)
  ultimately show ?case by simp
qed simp

lemma takeWhile_stops: "list_all P a \<Longrightarrow> takeWhile P (a @ b) = a @ takeWhile P b" "list_all P a \<Longrightarrow> dropWhile P (a @ b) = dropWhile P b"
  by (induction a) auto

lemma partition_at_append:
  "partition_at c (x @ c # y) = (case partition_at c x of (p, None) \<Rightarrow> (x, Some y) | (p, Some q) \<Rightarrow> (p, Some (q @ c # y)))"
  by (induction x) (auto split: prod.splits option.splits)

lemma rsplit_once_append:
  "rsplit_once c (a @ c # b) = Some (case rsplit_once c b of None \<Rightarrow> (a, b) | Some (x, y) \<Rightarrow> (a @ c # x, y))"
  by (auto simp: rsplit_once_def partition_at_append split: prod.splits option.splits)

lemma partition_first: "c \<notin> set a \<Longrightarrow> partition_at c (a @ c # b) = (a, Some b)"
  by (induction a) auto

text \<open>The pieces of a URL with a user and a password.\<close>

definition url_safe :: "str \<Rightarrow> bool" where
  "url_safe s \<longleftrightarrow> list_all (\<lambda>c. \<not> ends_netloc c \<and> \<not> is_space c \<and> 32 < c \<and> c \<noteq> lbracket \<and> c \<noteq> rbracket) s"

definition with_password :: "str \<Rightarrow> str \<Rightarrow> str \<Rightarrow> str \<Rightarrow> str" where
  "with_password scheme user pw tail = scheme @ lit ''://'' @ user @ [colon] @ pw @ [at_sign] @ tail"

definition db_schemes :: "str list" where "db_schemes = [lit ''postgres'', lit ''postgresql'']"

lemma db_scheme_parts:
  "scheme \<in> set db_schemes \<Longrightarrow> colon \<notin> set scheme \<and> lower scheme = scheme \<and> is_ascii_letter (hd scheme) \<and> scheme \<noteq> []
    \<and> list_all is_scheme_char scheme \<and> list_all (\<lambda>c. 32 < c \<and> \<not> is_space c) scheme"
proof -
  have "list_all (\<lambda>scheme. colon \<notin> set scheme \<and> lower scheme = scheme \<and> is_ascii_letter (hd scheme) \<and> scheme \<noteq> []
    \<and> list_all is_scheme_char scheme \<and> list_all (\<lambda>c. 32 < c \<and> \<not> is_space c) scheme) db_schemes" by code_simp
  then show "scheme \<in> set db_schemes \<Longrightarrow> ?thesis" by (simp add: list_all_iff)
qed

definition printable_tail :: "str \<Rightarrow> bool" where
  "printable_tail s \<longleftrightarrow> list_all (\<lambda>c. 32 < c \<and> \<not> is_space c) s"

lemma whole_printable:
  assumes "scheme \<in> set db_schemes" "url_safe user" "url_safe pw" "printable_tail tail"
  shows "printable_tail (with_password scheme user pw tail)"
proof -
  have "printable_tail user" "printable_tail pw"
    using assms(2,3) by (auto simp: printable_tail_def url_safe_def list_all_iff)
  moreover have "printable_tail scheme" using db_scheme_parts [OF assms(1)] by (simp add: printable_tail_def)
  moreover have "printable_tail (lit ''://'')" "printable_tail [colon]" "printable_tail [at_sign]" by code_simp+
  ultimately show ?thesis using assms(4) by (simp add: with_password_def printable_tail_def)
qed

lemma clean_printable: "printable_tail s \<Longrightarrow> clean_url s = s"
proof -
  assume s: "printable_tail s"
  have "dropWhile (\<lambda>c. c \<le> 32) s = s" using s by (cases s) (auto simp: printable_tail_def)
  moreover have "filter (\<lambda>c. c \<noteq> tab \<and> c \<noteq> carriage \<and> c \<noteq> newline) s = s"
    using s by (intro filter_True) (auto simp: printable_tail_def list_all_iff)
  ultimately show ?thesis by (simp add: clean_url_def lstrip_if_def)
qed

lemma urlsplit_with_password:
  assumes "scheme \<in> set db_schemes" "url_safe user" "url_safe pw" "printable_tail tail"
  defines "hostinfo \<equiv> takeWhile (\<lambda>c. \<not> ends_netloc c) tail"
    and "rest \<equiv> dropWhile (\<lambda>c. \<not> ends_netloc c) tail"
  shows "urlsplit (with_password scheme user pw tail) =
    (if (lbracket \<in> set hostinfo) \<noteq> (rbracket \<in> set hostinfo) then Raised (ValueError INVALID_IPV6_URL)
     else case partition_at number_sign rest of (before, fragment) \<Rightarrow> case partition_at question before of (path, query) \<Rightarrow>
       Done \<lparr>su_scheme = scheme, su_netloc = user @ [colon] @ pw @ [at_sign] @ hostinfo, su_path = path,
         su_query = or_empty query, su_fragment = or_empty fragment\<rparr>)"
proof -
  let ?loc = "user @ [colon] @ pw @ [at_sign]"
  have clean: "clean_url (with_password scheme user pw tail) = scheme @ colon # slash # slash # ?loc @ tail"
    using clean_printable [OF whole_printable [OF assms(1-4)]] by (simp add: with_password_def lit_Cons)
  have scheme: "split_scheme (scheme @ colon # slash # slash # ?loc @ tail) = (scheme, slash # slash # ?loc @ tail)"
    using db_scheme_parts [OF assms(1)] by (simp add: split_scheme_def partition_first)
  have "list_all (\<lambda>c. \<not> ends_netloc c) ?loc"
    using assms(2,3) by (auto simp: url_safe_def ends_netloc_def list_all_iff)
  note loc = takeWhile_stops [OF this, of tail]
  have no_brackets: "lbracket \<notin> set ?loc" "rbracket \<notin> set ?loc"
    using assms(2,3) by (auto simp: url_safe_def list_all_iff)
  show ?thesis
    unfolding urlsplit_def clean scheme
    using loc no_brackets by (simp add: startswith_def Let_def hostinfo_def rest_def)
qed

lemma contains_part: "p \<noteq> [] \<Longrightarrow> contains (a @ p @ b) p"
proof (induction a)
  case Nil
  then show ?case by (cases p) (simp_all add: startswith_def)
qed simp

lemma redact_uri_with_password:
  assumes "scheme \<in> set db_schemes" "url_safe user" "colon \<notin> set user" "url_safe pw" "url_safe pw'" "printable_tail tail"
  shows "redact_database_uri (with_password scheme user pw tail) = redact_database_uri (with_password scheme user pw' tail)"
proof -
  define hostinfo where "hostinfo = takeWhile (\<lambda>c. \<not> ends_netloc c) tail"
  define rest where "rest = dropWhile (\<lambda>c. \<not> ends_netloc c) tail"
  define shown where "shown = (case rsplit_once at_sign hostinfo of None \<Rightarrow> hostinfo | Some (x, y) \<Rightarrow> y)"
  have "redact_database_uri (with_password scheme user pw tail) =
      (if (lbracket \<in> set hostinfo) \<noteq> (rbracket \<in> set hostinfo) then Raised (ValueError INVALID_IPV6_URL)
       else case partition_at number_sign rest of (before, fragment) \<Rightarrow> case partition_at question before of (path, query) \<Rightarrow>
         Done (urlunsplit \<lparr>su_scheme = scheme, su_netloc = user @ lit '':***@'' @ shown, su_path = path,
           su_query = or_empty query, su_fragment = or_empty fragment\<rparr>))" if pw: "url_safe pw" for pw
  proof -
    have "contains (with_password scheme user pw tail) (lit ''://'')" by (simp add: with_password_def contains_part)
    moreover have "rsplit_once at_sign (user @ [colon] @ pw @ [at_sign] @ hostinfo)
        = Some (case rsplit_once at_sign hostinfo of None \<Rightarrow> (user @ [colon] @ pw, hostinfo) | Some (x, y) \<Rightarrow> (user @ [colon] @ pw @ at_sign # x, y))"
      using rsplit_once_append [of at_sign "user @ [colon] @ pw" hostinfo] by (auto split: option.split)
    moreover have "partition_at colon (user @ colon # t) = (user, Some t)" for t
      using assms(3) by (rule partition_first)
    ultimately show ?thesis
      unfolding redact_database_uri_def urlsplit_with_password [OF assms(1,2) pw assms(6), folded hostinfo_def rest_def]
      by (auto simp: url_password_def url_userinfo_def shown_def split: prod.splits option.splits)
  qed
  then show ?thesis using assms(4,5) by simp
qed


lemma uri_with_password:
  assumes "scheme \<in> set db_schemes" "printable_tail (with_password scheme user pw tail)"
  shows "uri_length (with_password scheme user pw tail) = Some (length (with_password scheme user pw tail))"
proof -
  let ?rest = "user @ colon # pw @ at_sign # tail"
  have whole: "list_all (\<lambda>c. \<not> is_space c) (user @ colon # pw @ at_sign # tail)"
    using assms(2) by (simp add: with_password_def printable_tail_def list_all_iff)
  have word: "(if matches_word (lit ''postgresql://'') (scheme @ lit ''://'' @ ?rest) then 13
      else if matches_word (lit ''postgres://'') (scheme @ lit ''://'' @ ?rest) then 11 else 0) = length scheme + 3"
    using assms(1) by (auto simp: db_schemes_def lit_Cons lower_char_def)
  have "takeWhile (\<lambda>c. \<not> is_space c) ?rest = ?rest"
    using whole by (intro takeWhile_eq_all_conv [THEN iffD2]) (auto simp: list_all_iff)
  note plain = this
  have dropped: "drop (length scheme + 3) (scheme @ lit ''://'' @ ?rest) = ?rest" by (simp add: lit_Cons)
  have "with_password scheme user pw tail = scheme @ lit ''://'' @ ?rest" by (simp add: with_password_def)
  then show ?thesis unfolding uri_length_def Let_def by (simp only: word dropped plain) (simp add: lit_Cons)
qed

lemma redact_uris_whole:
  assumes "uri_length s = Some (length s)" "s \<noteq> []"
  shows "redact_uris s = redact_database_uri s"
proof -
  obtain c t where "s = c # t" using assms(2) by (cases s) auto
  then show ?thesis using assms(1) by (simp split: outcome.split)
qed

text \<open>C35: What is printed of a PostgreSQL URL does not depend on its password, as long as no character of it ends
  the network location of a URL (\<open>/\<close>, \<open>?\<close>, \<open>#\<close>) or is a bracket or a space, and the URL holds no
  \<open>password=\<close>: neither the connection line nor an error can tell two passwords apart.\<close>

theorem printed_url_hides_password:
  assumes "scheme \<in> set db_schemes" "url_safe user" "colon \<notin> set user" "url_safe pw" "url_safe pw'" "printable_tail tail"
    and "\<And>t. suffix t (with_password scheme user pw tail) \<Longrightarrow> password_keyword t = None"
    and "\<And>t. suffix t (with_password scheme user pw' tail) \<Longrightarrow> password_keyword t = None"
  shows "redact_database_url (with_password scheme user pw tail) = redact_database_url (with_password scheme user pw' tail)"
proof -
  have "redact_database_url (with_password scheme user p tail) = redact_database_uri (with_password scheme user p tail)"
    if "url_safe p" "\<And>t. suffix t (with_password scheme user p tail) \<Longrightarrow> password_keyword t = None" for p
  proof -
    have "sub_matches password_keyword (with_password scheme user p tail) = with_password scheme user p tail"
      using that(2) by (rule sub_matches_none)
    moreover have "uri_length (with_password scheme user p tail) = Some (length (with_password scheme user p tail))"
      by (rule uri_with_password [OF assms(1) whole_printable [OF assms(1,2) that(1) assms(6)]])
    moreover have "with_password scheme user p tail \<noteq> []" by (simp add: with_password_def)
    ultimately show ?thesis by (simp add: redact_database_url_def redact_uris_whole)
  qed
  then show ?thesis using assms(4,5,7,8) redact_uri_with_password [OF assms(1-6)] by simp
qed

theorem printed_url_hides_password_witness:
  "redact_database_url (lit ''postgresql://echidra:p%40ss@db:5432/echidra'') = redact_database_url (lit ''postgresql://echidra:x@db:5432/echidra'')"
proof -
  have no_keyword: "password_keyword t = None" if "equals_sign \<notin> set t" for t
  proof -
    have "hd (dropWhile is_space (drop 8 t)) \<noteq> equals_sign" if "dropWhile is_space (drop 8 t) \<noteq> []"
      using that \<open>equals_sign \<notin> set t\<close> hd_in_set [OF that] by (metis set_dropWhileD in_set_dropD)
    then show ?thesis by (auto simp: password_keyword_def Let_def)
  qed
  have "redact_database_url (with_password (lit ''postgresql'') (lit ''echidra'') (lit ''p%40ss'') (lit ''db:5432/echidra''))
      = redact_database_url (with_password (lit ''postgresql'') (lit ''echidra'') (lit ''x'') (lit ''db:5432/echidra''))"
  proof (rule printed_url_hides_password)
    show "lit ''postgresql'' \<in> set db_schemes" "url_safe (lit ''echidra'')" "colon \<notin> set (lit ''echidra'')"
      "url_safe (lit ''p%40ss'')" "url_safe (lit ''x'')" "printable_tail (lit ''db:5432/echidra'')" by code_simp+
    show "password_keyword t = None" if "suffix t (with_password (lit ''postgresql'') (lit ''echidra'') (lit ''p%40ss'') (lit ''db:5432/echidra''))" for t
      by (rule no_keyword) (use set_mono_suffix [OF that] in \<open>auto simp: with_password_def lit_Cons\<close>)
    show "password_keyword t = None" if "suffix t (with_password (lit ''postgresql'') (lit ''echidra'') (lit ''x'') (lit ''db:5432/echidra''))" for t
      by (rule no_keyword) (use set_mono_suffix [OF that] in \<open>auto simp: with_password_def lit_Cons\<close>)
  qed
  then show ?thesis by (simp add: with_password_def lit_Cons)
qed

text \<open>A password PostgreSQL accepts as it is, which is printed.\<close>

theorem number_sign_leaks:
  "redact_database_url (lit ''postgresql://u:p#w@h/d'') = Done (lit ''postgresql://u:p#w@h/d'')"
  by code_simp

lemma lower_no_capital: "c \<in> set (lower s) \<Longrightarrow> \<not> (65 \<le> c \<and> c \<le> 90)"
  by (auto simp: lower_def lower_char_def split: if_splits)

lemma placeholders_capital: "p \<in> set PLACEHOLDER_DATABASE_VALUES \<Longrightarrow> 89 \<in> set p"
proof -
  have "list_all (\<lambda>p. 89 \<in> set p) PLACEHOLDER_DATABASE_VALUES" by code_simp
  then show "p \<in> set PLACEHOLDER_DATABASE_VALUES \<Longrightarrow> 89 \<in> set p" by (simp add: list_all_iff)
qed

lemma hostname_no_placeholder:
  assumes "url_hostname u = Some h" "percent \<notin> set h"
  shows "unquote h \<notin> set PLACEHOLDER_DATABASE_VALUES"
proof
  assume "unquote h \<in> set PLACEHOLDER_DATABASE_VALUES"
  then have "89 \<in> set h" using assms(2) placeholders_capital by (simp add: unquote_plain)
  moreover obtain name where "h = lower name"
    using assms by (auto simp: url_hostname_def Let_def split: prod.splits option.splits if_splits)
  ultimately show False using lower_no_capital by fastforce
qed

text \<open>A placeholder that is reported stands in the user name, the password or the path: the host name is compared
  after \<open>urllib\<close> made it lower case, so \<open>YOUR_HOST\<close> left in the template is never found.\<close>

theorem placeholder_not_from_host:
  assumes "urlsplit url = Done u" "database_url_placeholder url = Done (Some p)"
    "\<And>h. url_hostname u = Some h \<Longrightarrow> percent \<notin> set h"
  shows "Some p \<in> map_option unquote ` {url_username u, url_password u, Some (dropWhile (\<lambda>c. c = slash) (su_path u))}"
proof -
  have found: "first_placeholder ([url_username u, url_password u, url_hostname u]
      @ (if dropWhile (\<lambda>c. c = slash) (su_path u) = [] then [] else [Some (dropWhile (\<lambda>c. c = slash) (su_path u))])) = Some p"
    using assms(1,2) by (simp add: database_url_placeholder_def Let_def)
  have some: "first_placeholder cs = Some p \<Longrightarrow> \<exists>c. Some c \<in> set cs \<and> p = unquote c \<and> p \<in> set PLACEHOLDER_DATABASE_VALUES" for cs
    by (induction cs rule: first_placeholder.induct) (auto split: if_splits)
  from some [OF found] obtain c where c: "Some c \<in> {url_username u, url_password u, url_hostname u, Some (dropWhile (\<lambda>c. c = slash) (su_path u))}"
      "p = unquote c" "p \<in> set PLACEHOLDER_DATABASE_VALUES"
    by (auto split: if_splits)
  then have "Some c \<noteq> url_hostname u" using hostname_no_placeholder assms(3) by metis
  then have "Some c \<in> {url_username u, url_password u, Some (dropWhile (\<lambda>c. c = slash) (su_path u))}" using c(1) by blast
  then show ?thesis unfolding c(2) by (intro image_eqI [of _ _ "Some c"]) simp_all
qed

theorem placeholder_not_from_host_witness:
  "Some (lit ''YOUR_DB'') \<in> map_option unquote ` {Some (lit ''bob''), Some (lit ''x''), Some (lit ''YOUR_DB'')}"
proof -
  let ?u = "\<lparr>su_scheme = lit ''postgres'', su_netloc = lit ''bob:x@YOUR_HOST'', su_path = lit ''/YOUR_DB'', su_query = [], su_fragment = []\<rparr>"
  have split: "urlsplit (lit ''postgres://bob:x@YOUR_HOST/YOUR_DB'') = Done ?u" by code_simp
  have found: "database_url_placeholder (lit ''postgres://bob:x@YOUR_HOST/YOUR_DB'') = Done (Some (lit ''YOUR_DB''))" by code_simp
  have "url_hostname ?u = Some (lit ''your_host'')" by code_simp
  moreover have "percent \<notin> set (lit ''your_host'')" by code_simp
  ultimately have host: "url_hostname ?u = Some h \<Longrightarrow> percent \<notin> set h" for h by simp
  have "url_username ?u = Some (lit ''bob'')" "url_password ?u = Some (lit ''x'')" "dropWhile (\<lambda>c. c = slash) (su_path ?u) = lit ''YOUR_DB''"
    by code_simp+
  then show ?thesis using placeholder_not_from_host [OF split found host] by simp
qed

theorem host_placeholder_missed:
  "database_url_placeholder (lit ''postgresql://bob:pw@YOUR_HOST:5432/db'') = Done None"
  by code_simp

end
