(* ===== verification/SessionSecret.thy ===== *)
theory SessionSecret
  imports Prelude
begin

text \<open>
  The secret that signs the dashboard's cookies when none is configured (\<open>_load_or_create_fallback_session_secret\<close>
  in \<open>classifier/api/app.py\<close>). Several worker processes may start at once; each is a state machine whose steps
  are its operations on the file, in any order with those of the others. A file holds text, or None is no
  file; \<open>writable\<close> says whether it can be created.
\<close>

section \<open>The workers\<close>

datatype secret_worker =
    Loading str
  | Creating str
  | Writing str
  | Reloading str
  | Signing_With str

definition read_fallback_session_secret :: "str option \<Rightarrow> str option" where
  "read_fallback_session_secret contents =
     (case contents of None \<Rightarrow> None | Some t \<Rightarrow> if strip t = [] then None else Some (strip t))"

text \<open>One operation of a worker with its own candidate. \<open>O_EXCL\<close> makes creating an empty file atomic.\<close>

fun secret_step :: "bool \<Rightarrow> secret_worker \<Rightarrow> str option \<Rightarrow> secret_worker \<times> str option" where
  "secret_step writable (Loading candidate) contents =
     (case read_fallback_session_secret contents of
        Some existing \<Rightarrow> (Signing_With existing, contents)
      | None \<Rightarrow> (Creating candidate, contents))"
| "secret_step writable (Creating candidate) contents =
     (if contents \<noteq> None then (Reloading candidate, contents)
      else if writable then (Writing candidate, Some [])
      else (Signing_With candidate, None))"
| "secret_step writable (Writing candidate) contents = (Signing_With candidate, Some candidate)"
| "secret_step writable (Reloading candidate) contents =
     (case read_fallback_session_secret contents of
        Some existing \<Rightarrow> (Signing_With existing, contents)
      | None \<Rightarrow> (Signing_With candidate, contents))"
| "secret_step writable (Signing_With secret) contents = (Signing_With secret, contents)"

definition dashboard_session_secret :: "str option \<Rightarrow> str \<Rightarrow> str" where
  "dashboard_session_secret configured fallback =
     (case configured of Some s \<Rightarrow> if s = [] then fallback else s | None \<Rightarrow> fallback)"

text \<open>A schedule names the worker that takes the next step.\<close>

definition schedule_step :: "bool \<Rightarrow> nat \<Rightarrow> secret_worker list \<times> str option \<Rightarrow> secret_worker list \<times> str option" where
  "schedule_step writable i state =
     (case state of (ws, contents) \<Rightarrow>
        if i < length ws
        then (case secret_step writable (ws ! i) contents of (w, contents') \<Rightarrow> (ws[i := w], contents'))
        else (ws, contents))"

fun schedule_run :: "bool \<Rightarrow> nat list \<Rightarrow> secret_worker list \<times> str option \<Rightarrow> secret_worker list \<times> str option" where
  "schedule_run writable [] state = state"
| "schedule_run writable (i # schedule) state = schedule_run writable schedule (schedule_step writable i state)"

section \<open>When all workers agree\<close>

fun reads :: "secret_worker \<Rightarrow> bool" where
  "reads (Loading candidate) \<longleftrightarrow> True"
| "reads (Reloading candidate) \<longleftrightarrow> True"
| "reads _ \<longleftrightarrow> False"

text \<open>No step of the schedule reads the file while it is empty, created and not yet written.\<close>

fun never_reads_empty :: "bool \<Rightarrow> nat list \<Rightarrow> secret_worker list \<times> str option \<Rightarrow> bool" where
  "never_reads_empty writable [] state \<longleftrightarrow> True"
| "never_reads_empty writable (i # schedule) state \<longleftrightarrow>
     \<not> (i < length (fst state) \<and> reads (fst state ! i) \<and> snd state = Some [])
     \<and> never_reads_empty writable schedule (schedule_step writable i state)"

definition good_candidate :: "str \<Rightarrow> bool" where
  "good_candidate t \<longleftrightarrow> t \<noteq> [] \<and> strip t = t"

fun candidate_of :: "secret_worker \<Rightarrow> str" where
  "candidate_of (Loading c) = c"
| "candidate_of (Creating c) = c"
| "candidate_of (Writing c) = c"
| "candidate_of (Reloading c) = c"
| "candidate_of (Signing_With c) = c"

text \<open>The invariant, by what the file holds.\<close>

definition secrets_ok :: "secret_worker list \<times> str option \<Rightarrow> bool" where
  "secrets_ok state \<longleftrightarrow>
     (case state of (ws, contents) \<Rightarrow>
        list_all (\<lambda>w. good_candidate (candidate_of w)) ws
        \<and> (case contents of
             None \<Rightarrow> \<forall>i < length ws. \<forall>s. ws ! i \<noteq> Writing s \<and> ws ! i \<noteq> Reloading s \<and> ws ! i \<noteq> Signing_With s
           | Some t \<Rightarrow>
               if t = [] then (\<exists>i < length ws. \<exists>c. ws ! i = Writing c \<and> (\<forall>j < length ws. \<forall>s. ws ! j = Writing s \<longrightarrow> j = i))
                 \<and> (\<forall>i < length ws. \<forall>s. ws ! i \<noteq> Signing_With s)
               else good_candidate t \<and> (\<forall>i < length ws. \<forall>s. ws ! i \<noteq> Writing s \<and> (ws ! i = Signing_With s \<longrightarrow> s = t))))"

lemma read_good: "good_candidate t \<Longrightarrow> read_fallback_session_secret (Some t) = Some t"
  by (simp add: good_candidate_def read_fallback_session_secret_def)

lemma read_none: "read_fallback_session_secret None = None" "read_fallback_session_secret (Some []) = None"
  by (simp_all add: read_fallback_session_secret_def strip_def strip_if_def rstrip_if_def lstrip_if_def)

lemma secrets_ok_step:
  assumes ok: "secrets_ok (ws, contents)" and empty: "\<not> (i < length ws \<and> reads (ws ! i) \<and> contents = Some [])"
  shows "secrets_ok (schedule_step True i (ws, contents))"
proof (cases "i < length ws")
  case False
  then show ?thesis using ok by (simp add: schedule_step_def)
next
  case True
  have good: "good_candidate (candidate_of (ws ! i))" using ok True by (auto simp: secrets_ok_def list_all_length)
  have others: "list_all (\<lambda>w. good_candidate (candidate_of w)) ws" using ok by (auto simp: secrets_ok_def)
  have kept: "list_all (\<lambda>w. good_candidate (candidate_of w)) (ws[i := w])" if "good_candidate (candidate_of w)" for w
    using others that True by (auto simp: list_all_length nth_list_update)
  consider (none) "contents = None" | (created) "contents = Some []" | (written) t where "contents = Some t" "t \<noteq> []"
    by (cases contents) auto
  then show ?thesis
  proof cases
    case none
    then show ?thesis using ok True good kept
      by (cases "ws ! i") (auto simp: secrets_ok_def schedule_step_def read_none nth_list_update)
  next
    case created
    obtain k c where writer: "k < length ws" "ws ! k = Writing c" "\<forall>j < length ws. \<forall>s. ws ! j = Writing s \<longrightarrow> j = k"
      and no_signer: "\<forall>j < length ws. \<forall>s. ws ! j \<noteq> Signing_With s"
      using ok created by (auto simp: secrets_ok_def)
    show ?thesis
    proof (cases "ws ! i")
      case (Creating d)
      then have "k \<noteq> i" using writer(2) by auto
      have only: "j = k" if j: "j < length ws" "ws[i := Reloading d] ! j = Writing s" for j s
      proof (cases "j = i")
        case False
        then have "ws ! j = Writing s" using j by simp
        then show ?thesis using writer(3) j(1) by blast
      qed (use j in simp)
      have "ws[i := Reloading d] ! k = Writing c" using \<open>k \<noteq> i\<close> writer(2) by simp
      then have "\<exists>j < length ws. \<exists>c. ws[i := Reloading d] ! j = Writing c
          \<and> (\<forall>j' < length ws. \<forall>s. ws[i := Reloading d] ! j' = Writing s \<longrightarrow> j' = j)"
        using writer(1) only by blast
      moreover have "\<forall>j < length ws. \<forall>s. ws[i := Reloading d] ! j \<noteq> Signing_With s"
        using no_signer True by (simp add: nth_list_update)
      moreover have "list_all (\<lambda>w. good_candidate (candidate_of w)) (ws[i := Reloading d])"
        using kept [of "Reloading d"] good Creating by simp
      ultimately have "secrets_ok (ws[i := Reloading d], Some [])" unfolding secrets_ok_def by simp
      then show ?thesis using True Creating created by (simp add: schedule_step_def)
    next
      case (Writing d)
      then have "i = k" using writer True by blast
      have "ws[i := Signing_With d] ! j \<noteq> Writing s \<and> (ws[i := Signing_With d] ! j = Signing_With s \<longrightarrow> s = d)" if "j < length ws" for j s
      proof (cases "j = i")
        case False
        have "ws ! j \<noteq> Writing s" using writer(3) that False \<open>i = k\<close> by blast
        then show ?thesis using False no_signer that by simp
      qed (use that in simp)
      then show ?thesis using True good kept [of "Signing_With d"] Writing created
        by (simp add: secrets_ok_def schedule_step_def good_candidate_def)
    qed (use True empty created no_signer in auto)
  next
    case written
    then have "good_candidate t" using ok by (simp add: secrets_ok_def)
    note good_file = this
    show ?thesis
    proof (cases "\<exists>s. ws ! i = Signing_With s")
      case signing: True
      then have "schedule_step True i (ws, contents) = (ws, contents)"
        using True by (auto simp: schedule_step_def list_update_same_conv)
      then show ?thesis using ok by simp
    next
      case False
      then show ?thesis using ok True good good_file kept written
        by (cases "ws ! i") (auto simp: secrets_ok_def schedule_step_def read_good nth_list_update)
    qed
  qed
qed

lemma secrets_ok_run:
  "secrets_ok state \<Longrightarrow> never_reads_empty True schedule state \<Longrightarrow> secrets_ok (schedule_run True schedule state)"
proof (induction schedule arbitrary: state)
  case (Cons i schedule)
  then show ?case using secrets_ok_step [of "fst state" "snd state" i] by simp
qed simp

text \<open>C34: Workers that start at once on a fresh directory sign with one secret, in any order of their steps, as long as
  none of them reads the file between its creation and the writing of the secret into it.\<close>

theorem workers_agree:
  assumes "list_all good_candidate candidates" "never_reads_empty True schedule (map Loading candidates, None)"
    and "schedule_run True schedule (map Loading candidates, None) = (ws, contents)"
    and "Signing_With s \<in> set ws" "Signing_With s' \<in> set ws"
  shows "s = s' \<and> contents = Some s"
proof -
  have "secrets_ok (map Loading candidates, None)" using assms(1) by (simp add: secrets_ok_def list_all_length)
  then have "secrets_ok (ws, contents)" using secrets_ok_run [OF _ assms(2)] assms(3) by simp
  then show ?thesis using assms(4,5)
    by (auto simp: secrets_ok_def in_set_conv_nth split: option.splits if_splits)
qed

theorem workers_agree_witness:
  "(lit ''aa'' :: str) = lit ''aa'' \<and> Some (lit ''aa'') = Some (lit ''aa'')"
proof -
  have "list_all good_candidate [lit ''aa'', lit ''bb'']" by code_simp
  moreover have "never_reads_empty True [0, 1, 0, 0, 1, 1] (map Loading [lit ''aa'', lit ''bb''], None)" by code_simp
  moreover have "schedule_run True [0, 1, 0, 0, 1, 1] (map Loading [lit ''aa'', lit ''bb''], None)
      = ([Signing_With (lit ''aa''), Signing_With (lit ''aa'')], Some (lit ''aa''))" by code_simp
  ultimately show ?thesis by (rule workers_agree) simp_all
qed

text \<open>Between the two steps the file is empty: a worker that reads it then keeps its own secret, and a process that
  ends there leaves a file that no later worker can use or replace.\<close>

theorem workers_disagree:
  "fst (schedule_run True [0, 1, 0, 1, 1, 0] (map Loading [lit ''aa'', lit ''bb''], None))
    = [Signing_With (lit ''aa''), Signing_With (lit ''bb'')]"
  by code_simp

lemma empty_file_run:
  assumes "snd state = Some []" "length (fst state) = length candidates"
    "\<forall>i < length candidates. candidate_of (fst state ! i) = candidates ! i \<and> (\<forall>c. fst state ! i \<noteq> Writing c)"
  shows "snd (schedule_run writable schedule state) = Some [] \<and> length (fst (schedule_run writable schedule state)) = length candidates
    \<and> (\<forall>i < length candidates. candidate_of (fst (schedule_run writable schedule state) ! i) = candidates ! i)"
  using assms
proof (induction schedule arbitrary: state)
  case (Cons k schedule)
  obtain ws where state: "state = (ws, Some [])" using Cons.prems(1) by (metis prod.collapse)
  have "snd (schedule_step writable k state) = Some [] \<and> length (fst (schedule_step writable k state)) = length candidates
    \<and> (\<forall>i < length candidates. candidate_of (fst (schedule_step writable k state) ! i) = candidates ! i
        \<and> (\<forall>c. fst (schedule_step writable k state) ! i \<noteq> Writing c))"
  proof (cases "k < length ws")
    case True
    then have "candidate_of (ws ! k) = candidates ! k" "\<forall>c. ws ! k \<noteq> Writing c" using Cons.prems by (auto simp: state)
    then show ?thesis using Cons.prems True
      by (cases "ws ! k") (auto simp: state schedule_step_def read_none nth_list_update)
  qed (use Cons.prems in \<open>simp add: state schedule_step_def\<close>)
  then show ?case using Cons.IH by simp
qed simp

text \<open>A file left empty is never repaired: whatever workers start afterwards and in whatever order they run, each
  signs with a secret of its own and the file stays empty, so no session outlives its process or is accepted by
  another worker.\<close>

theorem empty_file_stays:
  "snd (schedule_run writable schedule (map Loading candidates, Some [])) = Some []
   \<and> map candidate_of (fst (schedule_run writable schedule (map Loading candidates, Some []))) = candidates"
  using empty_file_run [of "(map Loading candidates, Some [])" candidates writable schedule]
  by (auto intro: nth_equalityI)

end
