(* ===== verification/EchidraCommands.thy ===== *)
theory EchidraCommands
  imports ProcessControl EmailRules CatchUpProps
begin

text \<open>
  The other commands of \<open>echidra/cli.py\<close>: \<open>init\<close>, what \<open>start\<close> checks and launches, \<open>import\<close>, \<open>status\<close>
  and \<open>reset-password\<close>. A line of output is paired with True when it goes to standard error. \<open>.env\<close> is
  what \<open>dotenv\<close> reads of it; the ports of the decoys come from the settings of the honeypot. \<open>error_name\<close> is
  \<open>type(exc).__name__\<close>.
\<close>

type_synonym printed = "(bool \<times> str) list"

section \<open>init\<close>

text \<open>None is a file that does not exist.\<close>

type_synonym env_file = "(str \<times> str) list option"

definition ensure_env_file :: "env_file \<Rightarrow> env_file \<Rightarrow> env_file" where
  "ensure_env_file example_file env = (if env \<noteq> None then env else case example_file of Some d \<Rightarrow> Some d | None \<Rightarrow> Some [])"

definition env_value :: "env_file \<Rightarrow> str \<Rightarrow> str" where
  "env_value env key = (case env of None \<Rightarrow> [] | Some d \<Rightarrow> (case dict_get d key of None \<Rightarrow> [] | Some v \<Rightarrow> v))"

definition ensure_env_var :: "str \<Rightarrow> str \<Rightarrow> env_file \<Rightarrow> env_file" where
  "ensure_env_var key new_value env =
     (if env_value env key \<noteq> [] then env
      else Some (dict_put key new_value (case env of None \<Rightarrow> [] | Some d \<Rightarrow> d)))"

definition ALERT_SECRET :: str where "ALERT_SECRET = lit ''ECHIDRA_ALERT_SECRET''"
definition SECRET_KEY :: str where "SECRET_KEY = lit ''ECHIDRA_SECRET_KEY''"
definition INGEST_API_KEY :: str where "INGEST_API_KEY = lit ''ECHIDRA_INGEST_API_KEY''"

text \<open>\<open>os_env\<close> is the environment the command was started with.\<close>

definition ensure_alert_secret :: "(str \<Rightarrow> str) \<Rightarrow> str \<Rightarrow> env_file \<Rightarrow> env_file" where
  "ensure_alert_secret os_env new_value env =
     (if env_value env SECRET_KEY \<noteq> [] \<or> os_env SECRET_KEY \<noteq> [] then env
      else if os_env ALERT_SECRET \<noteq> [] then env
      else ensure_env_var ALERT_SECRET new_value env)"

text \<open>The files \<open>init\<close> writes; the two new secrets are random. What follows is \<open>init-db\<close>.\<close>

definition init_env :: "env_file \<Rightarrow> (str \<Rightarrow> str) \<Rightarrow> str \<Rightarrow> str \<Rightarrow> env_file \<Rightarrow> env_file" where
  "init_env example_file os_env new_key new_secret env =
     ensure_alert_secret os_env new_secret (ensure_env_var INGEST_API_KEY new_key (ensure_env_file example_file env))"

section \<open>start\<close>

record decoy_ports =
  dp_host :: str
  dp_ssh :: int
  dp_http :: int
  dp_ftp :: int
  dp_telnet :: int

definition wanted_ports :: "decoy_ports \<Rightarrow> str \<Rightarrow> int \<Rightarrow> (str \<times> str \<times> int) list" where
  "wanted_ports p api_host api_port =
     [(lit ''SSH-style shell'', dp_host p, dp_ssh p), (lit ''HTTP'', dp_host p, dp_http p), (lit ''FTP'', dp_host p, dp_ftp p),
      (lit ''Telnet'', dp_host p, dp_telnet p), (lit ''API/dashboard'', api_host, api_port)]"

definition ports_in_use :: "(str \<Rightarrow> int \<Rightarrow> bool) \<Rightarrow> decoy_ports \<Rightarrow> str \<Rightarrow> int \<Rightarrow> (str \<times> int) list" where
  "ports_in_use port_in_use p api_host api_port =
     map (\<lambda>(name, host, port). (name, port))
       (filter (\<lambda>(name, host, port). port \<noteq> 0 \<and> port_in_use host port) (wanted_ports p api_host api_port))"

definition PORT_SETTINGS :: "(str \<times> str) list" where
  "PORT_SETTINGS = map (\<lambda>(a, b). (lit a, lit b)) [(''SSH-style shell'', ''ECHIDRA_PORT''), (''HTTP'', ''ECHIDRA_HTTP_PORT''),
     (''FTP'', ''ECHIDRA_FTP_PORT''), (''Telnet'', ''ECHIDRA_TELNET_PORT'')]"

definition move_port_hint :: "str \<Rightarrow> int \<Rightarrow> str" where
  "move_port_hint name port =
     (if name = lit ''API/dashboard''
      then lit ''Or move the dashboard to a free port, eg. echidra start --api-port '' @ str_of_int (port + 1)
      else case dict_get PORT_SETTINGS name of
        None \<Rightarrow> []
      | Some setting \<Rightarrow>
          lit ''Or move the '' @ name @ lit '' decoy to a free port: set eg. '' @ setting @ lit ''='' @ str_of_int (port + 1) @ lit '' in .env''
          @ (if setting \<noteq> lit ''ECHIDRA_PORT'' then lit '' (0 turns it off)'' else []) @ lit ''.'')"

definition print_start_summary :: "decoy_ports \<Rightarrow> str \<Rightarrow> int \<Rightarrow> int \<Rightarrow> int \<Rightarrow> str list" where
  "print_start_summary p api_host api_port honeypot_pid api_pid =
     (let decoys = map (\<lambda>(name, port). name @ lit '' '' @ str_of_int port)
            (filter (\<lambda>(name, port). port \<noteq> 0) [(lit ''SSH'', dp_ssh p), (lit ''HTTP'', dp_http p), (lit ''FTP'', dp_ftp p), (lit ''Telnet'', dp_telnet p)])
      in [lit ''Echidra is running.'',
          lit ''  Decoys:     '' @ (if decoys = [] then lit ''none enabled'' else join (lit '', '') decoys) @ lit '' (listening on '' @ dp_host p @ lit '')'',
          lit ''  Dashboard:  http://'' @ api_host @ lit '':'' @ str_of_int api_port]
         @ (if api_host \<in> set (map lit [''127.0.0.1'', ''localhost'', ''::1''])
            then [lit ''              on a remote server, open it through an SSH tunnel: ssh -L '' @ str_of_int api_port
              @ lit '':127.0.0.1:'' @ str_of_int api_port @ lit '' <user>@<server>''] else [])
         @ [lit ''  PIDs:       decoys '' @ str_of_int honeypot_pid @ lit '', dashboard '' @ str_of_int api_pid,
            lit ''  Stop:       Ctrl+C here, or '' @ in_quotes (lit ''echidra stop'') @ lit '' from another terminal''])"

text \<open>\<open>_cmd_start\<close> up to the processes it launches: the refusal with its exit code 1, or None, and the file of ids.\<close>

definition start_checks ::
  "host \<Rightarrow> (str \<Rightarrow> int \<Rightarrow> bool) \<Rightarrow> decoy_ports \<Rightarrow> str \<Rightarrow> int \<Rightarrow> int option \<Rightarrow> str option \<Rightarrow> control \<Rightarrow> (str list option \<times> str option) \<times> control" where
  "start_checks h port_in_use p api_host api_port pid_max pid_file c =
     (case echidra_processes h (read_pid_file (max_pid pid_max) pid_file) c of
        (existing, c1) \<Rightarrow>
          if existing \<noteq> []
          then ((Some [lit ''Echidra is already running. To restart it, run '' @ in_quotes (lit ''echidra stop'') @ lit '', then ''
                  @ in_quotes (lit ''echidra start'') @ lit ''.''], pid_file), c1)
          else case ports_in_use port_in_use p api_host api_port of
            [] \<Rightarrow> ((None, None), c1)
          | (first_name, first_port) # busy \<Rightarrow>
              let in_use = (first_name, first_port) # busy;
                  report = map (\<lambda>(name, port). lit ''Port '' @ str_of_int port @ lit '' ('' @ name @ lit '') is already in use.'') in_use
              in case active_systemd_units h c1 of
                   ([], c2) \<Rightarrow>
                     ((Some (report
                        @ [lit ''Something else is already listening there -- usually the Docker Compose stack (check ''
                           @ in_quotes (lit ''docker compose ps'') @ lit '', stop it with '' @ in_quotes (lit ''docker compose down'')
                           @ lit '') or an Echidra started some other way. To see what holds a port: ss -ltnp | grep ''
                           @ in_quotes ([colon] @ str_of_int first_port @ [space])]
                        @ map (\<lambda>(name, port). move_port_hint name port) in_use), None), c2)
                 | (units, c2) \<Rightarrow>
                     ((Some (report @ [lit ''Echidra is already running as a systemd service ('' @ join (lit '', '') units
                        @ lit ''). Stop it with: sudo systemctl disable --now '' @ join (lit '' '') units]), None), c2))"

text \<open>The exit code of \<open>start\<close>, from those of its processes: a signal is no failure.\<close>

definition start_exit_code :: "int option list \<Rightarrow> int" where
  "start_exit_code codes = foldr max (map (\<lambda>r. max (case r of None \<Rightarrow> 0 | Some n \<Rightarrow> n) 0) codes) 0"

section \<open>import\<close>

fun group_thousands :: "str \<Rightarrow> str" where
  "group_thousands (a # b # c # d # rest) = a # b # c # comma # group_thousands (d # rest)"
| "group_thousands s = s"

text \<open>\<open>f"{count:,}"\<close>\<close>

definition with_commas :: "nat \<Rightarrow> str" where
  "with_commas n = rev (group_thousands (rev (str_of_nat n)))"

definition count_of_sessions :: "nat \<Rightarrow> str" where
  "count_of_sessions n = with_commas n @ lit '' session'' @ (if n = 1 then [] else lit ''s'')"

definition IMPORT_PROGRESS_EVERY :: nat where "IMPORT_PROGRESS_EVERY = 5000"

definition import_progress :: "import_result \<Rightarrow> nat \<times> str list \<Rightarrow> nat \<times> str list" where
  "import_progress r state =
     (case state of (reported, out) \<Rightarrow>
        if reported < im_checked r div IMPORT_PROGRESS_EVERY
        then (im_checked r div IMPORT_PROGRESS_EVERY,
              out @ [lit ''  '' @ with_commas (im_checked r) @ lit '' sessions checked, '' @ with_commas (im_stored r) @ lit '' stored so far...''])
        else (reported, out))"

definition import_report :: "import_result \<Rightarrow> nat \<times> str list" where
  "import_report r =
     (let out =
        [lit ''Stored '' @ count_of_sessions (im_stored r) @ lit ''; '' @ with_commas (im_already_stored r) @ lit '' ''
           @ (if im_already_stored r = 1 then lit ''was'' else lit ''were'') @ lit '' already stored.'']
        @ (if im_invalid_lines r = 1 then [lit ''Skipped 1 line that isn'' @ [squote] @ lit ''t a session record.'']
           else if im_invalid_lines r \<noteq> 0
           then [lit ''Skipped '' @ with_commas (im_invalid_lines r) @ lit '' lines that aren'' @ [squote] @ lit ''t session records.''] else [])
      in if im_failed r \<noteq> 0
         then (1, out @ [lit ''Couldn'' @ [squote] @ lit ''t store '' @ count_of_sessions (im_failed r) @ lit ''; the messages above say why.''])
         else (0, out))"

text \<open>\<open>_cmd_import\<close> from the result of \<open>import_session_log\<close>; None means that the exception goes on.\<close>

definition cmd_import :: "str \<Rightarrow> bool \<Rightarrow> db_error + import_result \<Rightarrow> (nat \<times> printed) option" where
  "cmd_import path is_file result =
     (if \<not> is_file
      then Some (1, [(True, lit ''echidra import: '' @ path @ lit '' isn'' @ [squote] @ lit ''t a file. Pass a session log, eg. logs/sessions.jsonl.'')])
      else let start = [(False, lit ''Importing '' @ path @ lit ''...'')] in
        case result of
          Inr r \<Rightarrow> (case import_report r of (code, out) \<Rightarrow> Some (code, start @ map (Pair False) out))
        | Inl Not_Configured \<Rightarrow>
            Some (1, start @ [(True, lit ''echidra import: no database configured. Set ECHIDRA_DATABASE_URL in .env, then run it again.'')])
        | Inl Driver_Missing \<Rightarrow> Some (1, start @ [(True, lit ''echidra import: '' @ DRIVER_MISSING_DETAIL)])
        | Inl x \<Rightarrow>
            if is_database_busy x
            then Some (1, start @ [(True, lit ''echidra import: the database took too long to answer. Run it again in a moment; sessions already stored are skipped.'')])
            else if \<not> is_database_unavailable x then None
            else Some (1, start @ [(True, lit ''echidra import: can'' @ [squote] @ lit ''t reach the database. Check that PostgreSQL is running, then run it again; sessions already stored are skipped.'')]))"

section \<open>status\<close>

definition check_pending_sessions :: "nat \<Rightarrow> str list" where
  "check_pending_sessions count =
     (if count = 0 then []
      else [lit ''  Waiting to be stored: '' @ str_of_nat count @ lit '' '' @ (if count = 1 then lit ''session'' else lit ''sessions'')
        @ lit '' (the database was unreachable when they ended). They'' @ [squote]
        @ lit ''re stored within a minute of the database being reachable again.''])"

definition check_start_process :: "host \<Rightarrow> str \<Rightarrow> int list \<Rightarrow> control \<Rightarrow> str \<times> control" where
  "check_start_process h pid_path pids c =
     (case echidra_processes h pids c of
        (running, c1) \<Rightarrow>
          ((if running \<noteq> [] then lit ''  echidra start    running (PID '' @ join (lit '', '') (map str_of_int running) @ lit '')''
            else lit ''  echidra start    not running (no active pidfile at '' @ pid_path
              @ lit '') -- listeners below may still belong to a process started outside '' @ in_quotes (lit ''echidra start'')), c1))"

definition pad_to :: "nat \<Rightarrow> str \<Rightarrow> str" where
  "pad_to n s = s @ replicate (n - length s) space"

definition listener_line :: "(str \<Rightarrow> int \<Rightarrow> bool) \<Rightarrow> str \<Rightarrow> bool \<Rightarrow> str \<times> int \<Rightarrow> str" where
  "listener_line port_in_use host echidra_running np =
     (case np of (name, port) \<Rightarrow>
        let check_host = (if host = lit ''0.0.0.0'' then lit ''127.0.0.1'' else host);
            place = lit '' ('' @ check_host @ lit '':'' @ str_of_int port @ lit '')'';
            start = lit ''  '' @ pad_to 16 name
        in if port = 0 then start @ lit '' disabled (port 0)''
           else if \<not> port_in_use host port then start @ lit '' not listening'' @ place
           else if echidra_running then start @ lit '' listening'' @ place
           else start @ lit '' in use, but not by '' @ in_quotes (lit ''echidra start'') @ place
             @ lit '' -- eg. the Docker Compose stack; see what holds it: ss -ltnp | grep '' @ in_quotes ([colon] @ str_of_int port @ [space]))"

definition check_honeypot_listeners :: "(str \<Rightarrow> int \<Rightarrow> bool) \<Rightarrow> decoy_ports \<Rightarrow> bool \<Rightarrow> str list" where
  "check_honeypot_listeners port_in_use p echidra_running =
     map (listener_line port_in_use (dp_host p) echidra_running)
       [(lit ''SSH-style shell'', dp_ssh p), (lit ''HTTP'', dp_http p), (lit ''FTP'', dp_ftp p), (lit ''Telnet'', dp_telnet p)]"

definition check_database :: "(db_error \<Rightarrow> str) \<Rightarrow> db_error + nat \<times> nat \<times> nat \<Rightarrow> str list" where
  "check_database error_name result =
     (case result of
        Inl Not_Configured \<Rightarrow> [lit ''  Database: not configured (set ECHIDRA_DATABASE_URL in .env)'']
      | Inl Driver_Missing \<Rightarrow> [lit ''  Database: driver missing ('' @ DRIVER_MISSING_DETAIL @ lit '')'']
      | Inl x \<Rightarrow> [lit ''  Database: configured but unreachable ('' @ error_name x @ lit '')'']
      | Inr (total_runs, elevated_runs, distinct_personas) \<Rightarrow>
          [lit ''  Database: connected'', lit ''    Sessions classified: '' @ str_of_nat total_runs,
           lit ''    Elevated-risk runs:  '' @ str_of_nat elevated_runs, lit ''    Distinct personas:   '' @ str_of_nat distinct_personas])"

section \<open>reset-password\<close>

text \<open>What was typed, None for an end of input or an interrupt; \<open>salt\<close> is random.\<close>

definition cmd_reset_password ::
  "dash_env \<Rightarrow> (db_error \<Rightarrow> str) \<Rightarrow> str \<Rightarrow> str \<Rightarrow> str option \<Rightarrow> str option \<Rightarrow> dash_store \<Rightarrow> (nat \<times> str) \<times> dash_store" where
  "cmd_reset_password e error_name salt email_arg typed again s =
     (let email = lower (strip email_arg); failed = (\<lambda>why. lit ''echidra reset-password: '' @ why) in
      case typed of
        None \<Rightarrow> ((1, lit ''\<newline>Cancelled.''), s)
      | Some pw \<Rightarrow>
          (case validate_password_format (de_wide_digit e) pw of
             Raised (ValueError why) \<Rightarrow> ((2, failed why), s)
           | Raised x \<Rightarrow> ((2, failed []), s)
           | Done _ \<Rightarrow>
               (case again of
                  None \<Rightarrow> ((1, lit ''\<newline>Cancelled.''), s)
                | Some pw2 \<Rightarrow>
                    if pw2 \<noteq> pw then ((2, failed (lit ''passwords do not match.'')), s)
                    else case hash_password (de_kdf e) salt pw of
                      Raised x \<Rightarrow> ((1, failed (lit ''database unreachable ('' @ error_name (Program_Error x) @ lit '')'')), s)
                    | Done pw_hash \<Rightarrow>
                        (case reset_dashboard_user_password email pw_hash s of
                           (Inl Not_Configured, s') \<Rightarrow>
                             ((1, failed (lit ''no database configured (set ECHIDRA_DATABASE_URL in .env)'')), s')
                         | (Inl Driver_Missing, s') \<Rightarrow> ((1, failed DRIVER_MISSING_DETAIL), s')
                         | (Inl x, s') \<Rightarrow> ((1, failed (lit ''database unreachable ('' @ error_name x @ lit '')'')), s')
                         | (Inr False, s') \<Rightarrow> ((1, failed (lit ''no dashboard user with email '' @ email @ lit ''.'')), s')
                         | (Inr True, s') \<Rightarrow>
                             ((0, lit ''Password updated for '' @ email
                               @ lit ''. Existing dashboard sessions were logged out and any login lockout was cleared.''), s')))))"

end
