(* ===== verification/CommandProps.thy ===== *)
theory CommandProps
  imports EchidraCommands SessionCookies
begin

text \<open>
  What \<open>echidra init\<close> leaves alone, and what a password reset from the command line is good for.
\<close>

section \<open>init\<close>

lemma env_value_var:
  "env_value (ensure_env_var k v env) key = (if key = k \<and> env_value env k = [] then v else env_value env key)"
  by (auto simp: ensure_env_var_def env_value_def split: option.splits)

lemma env_value_secret:
  "env_value (ensure_alert_secret os v env) key =
     (if key = ALERT_SECRET \<and> env_value env SECRET_KEY = [] \<and> os SECRET_KEY = [] \<and> os ALERT_SECRET = [] \<and> env_value env ALERT_SECRET = []
      then v else env_value env key)"
  by (auto simp: ensure_alert_secret_def env_value_var)

lemma key_names: "INGEST_API_KEY \<noteq> ALERT_SECRET" "INGEST_API_KEY \<noteq> SECRET_KEY" "ALERT_SECRET \<noteq> SECRET_KEY"
  by (simp_all add: INGEST_API_KEY_def ALERT_SECRET_def SECRET_KEY_def lit_Cons)

lemma ensure_var_again: "env_value env k \<noteq> [] \<Longrightarrow> ensure_env_var k v env = env"
  by (simp add: ensure_env_var_def)

text \<open>\<open>echidra init\<close> never changes a setting that has a value, always leaves an ingest key, and makes no alert secret
  where another key already protects the saved password; run again, with whatever new random values, it changes
  nothing.\<close>

theorem init_keeps_settings:
  assumes "new_key \<noteq> []" "new_secret \<noteq> []" "env = Some d"
  shows "(\<forall>key. env_value env key \<noteq> [] \<longrightarrow> env_value (init_env example_file os_env new_key new_secret env) key = env_value env key)
    \<and> env_value (init_env example_file os_env new_key new_secret env) INGEST_API_KEY \<noteq> []
    \<and> (env_value env SECRET_KEY \<noteq> [] \<or> os_env SECRET_KEY \<noteq> [] \<longrightarrow>
         env_value (init_env example_file os_env new_key new_secret env) ALERT_SECRET = env_value env ALERT_SECRET)
    \<and> init_env example_file os_env key2 secret2 (init_env example_file os_env new_key new_secret env)
        = init_env example_file os_env new_key new_secret env"
proof -
  let ?one = "ensure_env_var INGEST_API_KEY new_key env" and ?two = "init_env example_file os_env new_key new_secret env"
  have two: "?two = ensure_alert_secret os_env new_secret ?one" using assms(3) by (simp add: init_env_def ensure_env_file_def)
  then have some: "?two \<noteq> None" using assms(3) by (auto simp: ensure_alert_secret_def ensure_env_var_def)
  have ingest: "env_value ?two INGEST_API_KEY \<noteq> []" using key_names assms(1) by (simp add: two env_value_secret env_value_var)
  have "ensure_alert_secret os_env secret2 ?two = ?two"
  proof (cases "env_value ?two SECRET_KEY \<noteq> [] \<or> os_env SECRET_KEY \<noteq> [] \<or> os_env ALERT_SECRET \<noteq> []")
    case False
    then have "env_value ?two ALERT_SECRET \<noteq> []" using key_names assms(2) by (auto simp: two env_value_secret env_value_var)
    then show ?thesis using False by (simp add: ensure_alert_secret_def ensure_var_again)
  qed (auto simp: ensure_alert_secret_def)
  then have "init_env example_file os_env key2 secret2 ?two = ?two"
    using some by (simp add: init_env_def [of _ _ key2] ensure_env_file_def ensure_var_again [OF ingest])
  then show ?thesis using ingest key_names by (auto simp: two env_value_secret env_value_var)
qed

theorem init_keeps_settings_witness:
  "init_env None (\<lambda>_. []) (lit ''k2'') (lit ''s2'') (init_env None (\<lambda>_. []) (lit ''k1'') (lit ''s1'') (Some [(INGEST_API_KEY, [])]))
    = Some [(INGEST_API_KEY, lit ''k1''), (ALERT_SECRET, lit ''s1'')]"
proof -
  have "init_env None (\<lambda>_. []) (lit ''k1'') (lit ''s1'') (Some [(INGEST_API_KEY, [])]) = Some [(INGEST_API_KEY, lit ''k1''), (ALERT_SECRET, lit ''s1'')]"
    by code_simp
  moreover have "lit ''k1'' \<noteq> []" "lit ''s1'' \<noteq> []" by (simp_all add: lit_Cons)
  ultimately show ?thesis using init_keeps_settings [OF _ _ refl] by metis
qed

section \<open>A password reset\<close>

lemma find_reset:
  "find (\<lambda>u. du_email u = a) (map (\<lambda>u. if du_email u = a then f u else u) us) = map_option f (find (\<lambda>u. du_email u = a) us)"
  if "\<And>u. du_email (f u) = du_email u"
  using that by (induction us) auto

lemma own_key: "valid_email a \<Longrightarrow> recent_failures (login_rate_limit_key c a) w (snd (reset_password a h t)) = 0"
  if "user_by_email a t \<noteq> None"
  using that key_ends_with [of a a c] by (auto simp: recent_failures_def reset_password_def filter_empty_conv)

text \<open>C39: After \<open>echidra reset-password\<close> reports success, the user signs in with the new password from anywhere, however
  many failed logins came before, and every cookie of theirs accepted until then is refused.\<close>

theorem reset_lets_user_in:
  assumes reset: "cmd_reset_password e error_name salt arg (Some pw) (Some pw) s = ((0, msg), s1)"
    and email: "valid_email (lower (strip arg))" and calm: "ds_faults s1 = []"
    and salt: "36 \<notin> set salt" "encode_strict salt = Done sb" and digests: "\<And>p s n. all_ascii (de_kdf e p s n)"
    and ids: "distinct (map du_id (dt_users (ds_tables s)))"
  shows "(\<exists>cookie s2. login_dashboard_user e now \<lparr>la_client = c, la_email = lower (strip arg), la_password = pw\<rparr> s1
      = (Answered (Reply 200 (Session_Answer True (Some (lower (strip arg))))) (Set_Cookie cookie (dashboard_cookie_secure e)), s2))
    \<and> (\<forall>u v t. user_by_email (lower (strip arg)) (ds_tables s) = Some u \<longrightarrow> dashboard_session_cookie_user_id e v = Done (Some (du_id u))
         \<longrightarrow> fst (verify_dashboard_session_cookie e t v s) = Checked True \<longrightarrow> fst (verify_dashboard_session_cookie e later v s1) \<noteq> Checked True)"
proof -
  define a where "a = lower (strip arg)"
  obtain h where h: "hash_password (de_kdf e) salt pw = Done h" "reset_dashboard_user_password a h s = (Inr True, s1)"
    using reset by (auto simp: cmd_reset_password_def a_def Let_def split: outcome.splits exn.splits option.splits prod.splits
        sum.splits db_error.splits bool.splits)
  then have t1: "ds_tables s1 = snd (reset_password a h (ds_tables s))" and found: "user_by_email a (ds_tables s) \<noteq> None"
    using in_transaction_done [of "reset_password a h" s True s1]
    by (auto simp: reset_dashboard_user_password_def reset_password_def split: if_splits)
  then obtain u where u: "user_by_email a (ds_tables s) = Some u" by auto
  let ?u = "u\<lparr>du_password_hash := h, du_session_version := du_session_version u + 1\<rparr>"
  have now_user: "user_by_email a (ds_tables s1) = Some ?u"
    using u by (simp add: t1 user_by_email_def reset_password_def find_reset)
  have no_failures: "recent_failures (login_rate_limit_key c a) LOGIN_RATE_LIMIT_WINDOW_SECONDS (ds_tables s1) = 0"
    using own_key [OF found email [folded a_def]] by (simp add: t1)
  obtain b where typed: "encode_strict pw = Done b"
    using h(1) by (auto simp: hash_password_def pbkdf2_hmac_def split: outcome.splits)
  have "verify_password (de_kdf e) pw h = Done True"
    using hash_checked [OF h(1) salt digests typed typed] by simp
  then have "login_dashboard_user e now \<lparr>la_client = c, la_email = a, la_password = pw\<rparr> s1
      = (Answered (Reply 200 (Session_Answer True (Some (du_email u)))) (set_dashboard_session_cookie e now ?u),
         drop_login_failures (login_rate_limit_key c a) s1)"
    using calm no_failures now_user
    by (simp add: login_dashboard_user_def check_login_rate_limit_def repository_defs select_calm attempt_key_def decide_login_def
        LOGIN_RATE_LIMIT_MAX_ATTEMPTS_def Let_def)
  moreover have "du_email u = a" using user_by_email_Some [OF u] by simp
  ultimately have "\<exists>cookie s2. login_dashboard_user e now \<lparr>la_client = c, la_email = a, la_password = pw\<rparr> s1
      = (Answered (Reply 200 (Session_Answer True (Some a))) (Set_Cookie cookie (dashboard_cookie_secure e)), s2)"
    by (simp add: set_dashboard_session_cookie_def)
  moreover have "fst (verify_dashboard_session_cookie e later v s1) \<noteq> Checked True"
    if cookie: "dashboard_session_cookie_user_id e v = Done (Some (du_id u))" "fst (verify_dashboard_session_cookie e t v s) = Checked True" for v t
  proof
    assume again: "fst (verify_dashboard_session_cookie e later v s1) = Checked True"
    obtain uid version i sig where one: "parse_dashboard_session_cookie e v = Some (uid, version, i, sig)"
        "dashboard_session_cookie_user_id e v = Done (Some uid)" "session_version_of uid (ds_tables s) = Some version"
      by (rule verified [of e t v s "snd (verify_dashboard_session_cookie e t v s)"]) (use cookie(2) in \<open>simp add: prod_eq_iff\<close>)
    have two: "session_version_of uid (ds_tables s1) = Some version"
      by (rule verified [of e later v s1 "snd (verify_dashboard_session_cookie e later v s1)"])
        (use again one(1) in \<open>auto simp: prod_eq_iff\<close>)
    have "uid = du_id u" using one(2) cookie(1) by simp
    moreover have "find (\<lambda>x. du_id x = du_id u) (dt_users (ds_tables s)) = Some u"
      using find_by_id [OF ids] user_by_email_Some [OF u] by simp
    ultimately have "session_version_of uid (ds_tables s) = Some (du_session_version u)"
      "session_version_of uid (ds_tables s1) = Some (du_session_version u + 1)"
      using \<open>du_email u = a\<close> u unfolding t1 version_reset by (simp_all add: session_version_of_def)
    then show False using one(3) two by simp
  qed
  ultimately show ?thesis using u unfolding a_def by auto
qed


theorem reset_lets_user_in_witness:
  "\<exists>s1 cookie s2. login_dashboard_user example_env 500 \<lparr>la_client = None, la_email = lit ''a@b.co'', la_password = lit ''newpass1''\<rparr> s1
      = (Answered (Reply 200 (Session_Answer True (Some (lit ''a@b.co'')))) (Set_Cookie cookie False), s2)
    \<and> fst (verify_dashboard_session_cookie example_env 140 example_cookie s1) \<noteq> Checked True"
proof -
  let ?s1 = "snd (cmd_reset_password example_env (\<lambda>_. []) (lit ''5a17'') (lit '' A@b.co'') (Some (lit ''newpass1'')) (Some (lit ''newpass1'')) example_dash)"
  have email: "lower (strip (lit '' A@b.co'')) = lit ''a@b.co''" by code_simp
  have "fst (fst (cmd_reset_password example_env (\<lambda>_. []) (lit ''5a17'') (lit '' A@b.co'') (Some (lit ''newpass1'')) (Some (lit ''newpass1'')) example_dash)) = 0"
    by code_simp
  then obtain msg where reset: "cmd_reset_password example_env (\<lambda>_. []) (lit ''5a17'') (lit '' A@b.co'') (Some (lit ''newpass1''))
      (Some (lit ''newpass1'')) example_dash = ((0, msg), ?s1)"
    by (metis prod.collapse)
  have valid: "valid_email (lower (strip (lit '' A@b.co'')))" by code_simp
  have calm: "ds_faults ?s1 = []" by code_simp
  have salt: "36 \<notin> set (lit ''5a17'')" "encode_strict (lit ''5a17'') = Done (lit ''5a17'')" by code_simp+
  have "all_ascii (hex2 (k mod 256))" for k by (auto simp: all_ascii_def hex2_def hex_digit_def)
  then have digests: "all_ascii (de_kdf example_env p t n)" for p t n by (simp add: example_env_def all_ascii_def lit_Cons)
  have ids: "distinct (map du_id (dt_users (ds_tables example_dash)))" by code_simp
  have user: "user_by_email (lit ''a@b.co'') (ds_tables example_dash) = Some example_user"
    "dashboard_session_cookie_user_id example_env example_cookie = Done (Some (du_id example_user))"
    "fst (verify_dashboard_session_cookie example_env 120 example_cookie example_dash) = Checked True"
    "dashboard_cookie_secure example_env = False" by code_simp+
  note both = reset_lets_user_in [OF reset valid calm salt digests ids, where now = 500 and c = None and later = 140, unfolded email user(4)]
  have "fst (verify_dashboard_session_cookie example_env 140 example_cookie ?s1) \<noteq> Checked True"
    using both [THEN conjunct2] user(1-3) by blast
  with both [THEN conjunct1] show ?thesis by blast
qed

end
