(* ===== verification/AlertSettings.thy ===== *)
theory AlertSettings
  imports AlertMessages Storage
begin

text \<open>
  The alert settings and the history of alerts in the database (\<open>classifier/storage/repository.py\<close>): one row of
  settings, its SMTP password encrypted with a key derived from a secret of the environment and a random salt of
  this installation, the keys each process keeps, and the events. Fernet and the key derivation are
  parameters. Each repository call is one transaction; the database answers.
\<close>

section \<open>State\<close>

record alert_settings_row =
  as_config :: alert_config
  as_password :: "str option"
  as_salt :: "str option"

record cipher =
  ci_derive :: "str \<Rightarrow> str \<Rightarrow> str"
  ci_encrypt :: "str \<Rightarrow> str \<Rightarrow> str \<Rightarrow> str"
  ci_decrypt :: "str \<Rightarrow> str \<Rightarrow> str option"

text \<open>A process: its \<open>ECHIDRA_ALERT_SECRET\<close> and \<open>ECHIDRA_SECRET_KEY\<close>, and the keys it derived so far.\<close>

record alert_process =
  ap_alert_secret :: str
  ap_secret_key :: str
  ap_cache :: "(str \<times> str) list"

definition DEFAULT_ALERT_CONFIG :: alert_config where
  "DEFAULT_ALERT_CONFIG = \<lparr>cfg_enabled = False, cfg_smtp_host = None, cfg_smtp_port = 587, cfg_smtp_username = None,
     cfg_smtp_from_email = None, cfg_smtp_use_tls = True, cfg_min_risk_level = lit ''high'', cfg_excluded_ips = None\<rparr>"

section \<open>The key\<close>

text \<open>\<open>candidate\<close> is a fresh salt, kept only when there was none.\<close>

definition get_or_create_alert_password_salt :: "str \<Rightarrow> alert_settings_row option \<Rightarrow> str \<times> alert_settings_row option" where
  "get_or_create_alert_password_salt candidate row =
     (case row of
        None \<Rightarrow> (candidate, Some \<lparr>as_config = DEFAULT_ALERT_CONFIG, as_password = None, as_salt = Some candidate\<rparr>)
      | Some r \<Rightarrow> (case as_salt r of Some salt \<Rightarrow> (salt, row) | None \<Rightarrow> (candidate, Some (r\<lparr>as_salt := Some candidate\<rparr>))))"

definition process_secret :: "alert_process \<Rightarrow> str" where
  "process_secret p = (if ap_alert_secret p \<noteq> [] then ap_alert_secret p else ap_secret_key p)"

text \<open>None is \<open>AlertSecretMissingError\<close>.\<close>

definition alert_password_key ::
  "cipher \<Rightarrow> str \<Rightarrow> alert_process \<Rightarrow> alert_settings_row option \<Rightarrow> (str \<times> alert_process \<times> alert_settings_row option) option" where
  "alert_password_key ci candidate p row =
     (let secret = process_secret p in
      if secret = [] then None
      else case dict_get (ap_cache p) secret of
        Some key \<Rightarrow> Some (key, p, row)
      | None \<Rightarrow>
          (case get_or_create_alert_password_salt candidate row of
             (salt, row') \<Rightarrow>
               let key = ci_derive ci salt secret
               in Some (key, p\<lparr>ap_cache := dict_put secret key (ap_cache p)\<rparr>, row')))"

definition encrypt_alert_password ::
  "cipher \<Rightarrow> str \<Rightarrow> str \<Rightarrow> str option \<Rightarrow> alert_process \<Rightarrow> alert_settings_row option
     \<Rightarrow> (str option \<times> alert_process \<times> alert_settings_row option) option" where
  "encrypt_alert_password ci candidate nonce value p row =
     (case value of
        None \<Rightarrow> Some (None, p, row)
      | Some v \<Rightarrow>
          if v = [] then Some (Some [], p, row)
          else map_option (\<lambda>(key, p', row'). (Some (ci_encrypt ci key nonce v), p', row')) (alert_password_key ci candidate p row))"

text \<open>Any exception gives None, the missing secret too.\<close>

definition decrypt_alert_password ::
  "cipher \<Rightarrow> str \<Rightarrow> str option \<Rightarrow> alert_process \<Rightarrow> alert_settings_row option
     \<Rightarrow> str option \<times> alert_process \<times> alert_settings_row option" where
  "decrypt_alert_password ci candidate value p row =
     (case value of
        None \<Rightarrow> (None, p, row)
      | Some v \<Rightarrow>
          if v = [] then (Some [], p, row)
          else case alert_password_key ci candidate p row of
            None \<Rightarrow> (None, p, row)
          | Some (key, p', row') \<Rightarrow> (ci_decrypt ci key v, p', row'))"

section \<open>The settings\<close>

text \<open>\<open>AlertConfigRecord\<close>: the settings and whether a password is saved, never the password.\<close>

definition get_alert_config :: "alert_settings_row option \<Rightarrow> (alert_config \<times> bool) option" where
  "get_alert_config row = map_option (\<lambda>r. (as_config r, as_password r \<noteq> None \<and> as_password r \<noteq> Some [])) row"

definition store_settings :: "alert_config \<Rightarrow> str option \<Rightarrow> alert_settings_row option \<Rightarrow> alert_settings_row option" where
  "store_settings config encrypted row =
     Some (case row of
        None \<Rightarrow> \<lparr>as_config = config, as_password = encrypted, as_salt = None\<rparr>
      | Some r \<Rightarrow> r\<lparr>as_config := config, as_password := (case encrypted of Some e \<Rightarrow> Some e | None \<Rightarrow> as_password r)\<rparr>)"

definition upsert_alert_config ::
  "cipher \<Rightarrow> str \<Rightarrow> str \<Rightarrow> alert_config \<Rightarrow> str option \<Rightarrow> alert_process \<Rightarrow> alert_settings_row option
     \<Rightarrow> ((alert_config \<times> bool) \<times> alert_process \<times> alert_settings_row option) option" where
  "upsert_alert_config ci candidate nonce config pw p row =
     (case encrypt_alert_password ci candidate nonce pw p row of
        None \<Rightarrow> None
      | Some (encrypted, p', row') \<Rightarrow>
          let row'' = store_settings config encrypted row'
          in Some (case get_alert_config row'' of Some c \<Rightarrow> c | None \<Rightarrow> (config, pw \<noteq> None), p', row''))"

definition get_alert_smtp_password ::
  "cipher \<Rightarrow> str \<Rightarrow> alert_process \<Rightarrow> alert_settings_row option \<Rightarrow> str option \<times> alert_process \<times> alert_settings_row option" where
  "get_alert_smtp_password ci candidate p row =
     (case row of None \<Rightarrow> (None, p, row) | Some r \<Rightarrow> decrypt_alert_password ci candidate (as_password r) p row)"

section \<open>Several processes\<close>

text \<open>What happens to the row: settings saved and passwords read by the processes, and restarts with another
  environment. Salts and nonces are whatever the random source gives.\<close>

datatype settings_event =
    Save nat str str alert_config "str option"
  | Read_Password nat str
  | Restart nat str str

type_synonym alert_system = "alert_process list \<times> alert_settings_row option"

fun settings_step :: "cipher \<Rightarrow> settings_event \<Rightarrow> alert_system \<Rightarrow> alert_system" where
  "settings_step ci (Save i candidate nonce config pw) (procs, row) =
     (if i < length procs
      then case upsert_alert_config ci candidate nonce config pw (procs ! i) row of
             None \<Rightarrow> (procs, row) | Some (shown, p', row') \<Rightarrow> (procs[i := p'], row')
      else (procs, row))"
| "settings_step ci (Read_Password i candidate) (procs, row) =
     (if i < length procs
      then case get_alert_smtp_password ci candidate (procs ! i) row of (pw, p', row') \<Rightarrow> (procs[i := p'], row')
      else (procs, row))"
| "settings_step ci (Restart i secret key) (procs, row) =
     (if i < length procs then (procs[i := \<lparr>ap_alert_secret = secret, ap_secret_key = key, ap_cache = []\<rparr>], row) else (procs, row))"

definition settings_run :: "cipher \<Rightarrow> settings_event list \<Rightarrow> alert_system \<Rightarrow> alert_system" where
  "settings_run ci events s = fold (settings_step ci) events s"

text \<open>The keys a process keeps are those of the salt in the row.\<close>

definition cache_ok :: "cipher \<Rightarrow> alert_settings_row option \<Rightarrow> alert_process \<Rightarrow> bool" where
  "cache_ok ci row p \<longleftrightarrow> (\<forall>secret key. dict_get (ap_cache p) secret = Some key \<longrightarrow>
     (\<exists>r salt. row = Some r \<and> as_salt r = Some salt \<and> key = ci_derive ci salt secret))"

definition keys_ok :: "cipher \<Rightarrow> alert_system \<Rightarrow> bool" where
  "keys_ok ci s \<longleftrightarrow> (\<forall>p \<in> set (fst s). cache_ok ci (snd s) p)"

text \<open>A row that only gains a salt, and otherwise keeps it.\<close>

definition salt_kept :: "alert_settings_row option \<Rightarrow> alert_settings_row option \<Rightarrow> bool" where
  "salt_kept row row' \<longleftrightarrow> (\<forall>r salt. row = Some r \<longrightarrow> as_salt r = Some salt \<longrightarrow> (\<exists>r'. row' = Some r' \<and> as_salt r' = Some salt))"

lemma salt_kept_refl [simp]: "salt_kept row row"
  by (simp add: salt_kept_def)

lemma salt_kept_trans: "salt_kept a b \<Longrightarrow> salt_kept b c \<Longrightarrow> salt_kept a c"
  by (fastforce simp: salt_kept_def)

lemma cache_ok_salt: "cache_ok ci row p \<Longrightarrow> salt_kept row row' \<Longrightarrow> cache_ok ci row' p"
  by (fastforce simp: cache_ok_def salt_kept_def)

definition password_of :: "alert_settings_row option \<Rightarrow> str option" where
  "password_of row = (case row of None \<Rightarrow> None | Some r \<Rightarrow> as_password r)"

lemma key_given:
  assumes "alert_password_key ci candidate p row = Some (key, p', row')" "cache_ok ci row p"
  shows "salt_kept row row' \<and> password_of row' = password_of row \<and> cache_ok ci row' p'
    \<and> (\<exists>r salt. row' = Some r \<and> as_salt r = Some salt \<and> key = ci_derive ci salt (process_secret p))"
proof (cases "dict_get (ap_cache p) (process_secret p)")
  case (Some k)
  then have "key = k" "p' = p" "row' = row" using assms(1) by (auto simp: alert_password_key_def Let_def split: if_splits)
  then show ?thesis using assms(2) Some by (auto simp: cache_ok_def)
next
  case None
  obtain salt where salt: "get_or_create_alert_password_salt candidate row = (salt, row')" "key = ci_derive ci salt (process_secret p)"
    "p' = p\<lparr>ap_cache := dict_put (process_secret p) key (ap_cache p)\<rparr>"
    using assms(1) None by (auto simp: alert_password_key_def Let_def split: if_splits prod.splits)
  then have row': "salt_kept row row'" "password_of row' = password_of row" "\<exists>r. row' = Some r \<and> as_salt r = Some salt"
    by (auto simp: get_or_create_alert_password_salt_def salt_kept_def password_of_def split: option.splits)
  have "cache_ok ci row' p" using assms(2) row'(1) by (rule cache_ok_salt)
  then have "cache_ok ci row' p'" using row'(3) salt(2) by (auto simp: cache_ok_def salt(3) split: if_splits)
  then show ?thesis using row' salt(2) by blast
qed

lemma read_given:
  assumes "get_alert_smtp_password ci candidate p row = (pw, p', row')" "cache_ok ci row p"
  shows "salt_kept row row' \<and> password_of row' = password_of row \<and> cache_ok ci row' p'"
  using assms key_given [OF _ assms(2)]
  by (auto simp: get_alert_smtp_password_def decrypt_alert_password_def split: option.splits if_splits prod.splits)

lemma save_given:
  assumes "upsert_alert_config ci candidate nonce config pw p row = Some (shown, p', row')" "cache_ok ci row p"
  shows "salt_kept row row' \<and> cache_ok ci row' p' \<and> (pw = None \<longrightarrow> password_of row' = password_of row)"
proof (cases pw)
  case None
  then have "p' = p" "row' = store_settings config None row"
    using assms(1) by (auto simp: upsert_alert_config_def encrypt_alert_password_def Let_def)
  moreover have "salt_kept row (store_settings config None row)" "password_of (store_settings config None row) = password_of row"
    by (auto simp: store_settings_def salt_kept_def password_of_def split: option.splits)
  ultimately show ?thesis using cache_ok_salt [OF assms(2)] by auto
next
  case (Some v)
  obtain encrypted row1 where one: "encrypt_alert_password ci candidate nonce pw p row = Some (encrypted, p', row1)"
      "row' = store_settings config encrypted row1"
    using assms(1) by (auto simp: upsert_alert_config_def Let_def split: option.splits)
  have "salt_kept row row1 \<and> cache_ok ci row1 p'"
    using one(1) assms(2) key_given [OF _ assms(2)] Some
    by (auto simp: encrypt_alert_password_def split: if_splits)
  moreover have "salt_kept row1 row'"
    by (auto simp: one(2) store_settings_def salt_kept_def split: option.splits)
  ultimately show ?thesis using Some salt_kept_trans cache_ok_salt by blast
qed

text \<open>One step keeps the keys right and the salt, and only a save with a password changes the password.\<close>

fun sets_password :: "settings_event \<Rightarrow> bool" where
  "sets_password (Save i candidate nonce config pw) \<longleftrightarrow> pw \<noteq> None"
| "sets_password _ \<longleftrightarrow> False"

lemma settings_step_kept:
  assumes "keys_ok ci s" "\<not> sets_password event"
  shows "keys_ok ci (settings_step ci event s) \<and> salt_kept (snd s) (snd (settings_step ci event s))
    \<and> password_of (snd (settings_step ci event s)) = password_of (snd s)"
proof -
  obtain procs row where s: "s = (procs, row)" by force
  have at: "i < length procs \<Longrightarrow> cache_ok ci row (procs ! i)" for i using assms(1) by (auto simp: s keys_ok_def)
  have changed: "keys_ok ci (procs[i := p'], row')" if "salt_kept row row'" "cache_ok ci row' p'" for i p' row'
    using assms(1) that cache_ok_salt [OF _ that(1)] by (auto simp: s keys_ok_def dest!: set_update_subset_insert [THEN subsetD])
  show ?thesis
  proof (cases event)
    case (Save i candidate nonce config pw)
    then show ?thesis using assms save_given [OF _ at] changed by (force simp: s split: option.split prod.split)
  next
    case (Read_Password i candidate)
    show ?thesis
    proof (cases "i < length procs")
      case True
      obtain pw p' row' where "get_alert_smtp_password ci candidate (procs ! i) row = (pw, p', row')" by (cases "get_alert_smtp_password ci candidate (procs ! i) row")
      then show ?thesis using read_given [OF _ at [OF True]] changed True Read_Password by (fastforce simp: s)
    qed (use assms in \<open>simp add: s Read_Password\<close>)
  next
    case (Restart i secret key)
    have "cache_ok ci row \<lparr>ap_alert_secret = secret, ap_secret_key = key, ap_cache = []\<rparr>" by (simp add: cache_ok_def)
    then show ?thesis using assms changed [of row] by (simp add: s Restart)
  qed
qed

lemma settings_run_kept:
  assumes "keys_ok ci s" "list_all (\<lambda>ev. \<not> sets_password ev) events"
  shows "keys_ok ci (settings_run ci events s) \<and> salt_kept (snd s) (snd (settings_run ci events s))
    \<and> password_of (snd (settings_run ci events s)) = password_of (snd s)"
  using assms
proof (induction events arbitrary: s)
  case (Cons ev events)
  then show ?case using settings_step_kept [OF Cons.prems(1), of ev] Cons.IH [of "settings_step ci ev s"] salt_kept_trans
    by (fastforce simp: settings_run_def)
qed (simp add: settings_run_def)

definition cipher_ok :: "cipher \<Rightarrow> bool" where
  "cipher_ok ci \<longleftrightarrow> (\<forall>k n m. ci_decrypt ci k (ci_encrypt ci k n m) = Some m \<and> ci_encrypt ci k n m \<noteq> [])"

text \<open>C18: An SMTP password saved in the dashboard is the one every process sends mail with, the honeypot's and after any
  restarts too, as long as it has the same secret: other settings may be saved in between, by processes with
  other secrets, and whichever process stored its salt first.\<close>

theorem saved_password_readable:
  assumes law: "cipher_ok ci" and keys: "keys_ok ci (procs, row)" and i: "i < length procs"
    and saved: "upsert_alert_config ci candidate nonce config (Some pw) (procs ! i) row = Some (shown, p', row1)" "pw \<noteq> []"
    and later: "settings_run ci events (procs[i := p'], row1) = (procs2, row2)" "list_all (\<lambda>ev. \<not> sets_password ev) events"
    and reader: "j < length procs2" "process_secret (procs2 ! j) = process_secret (procs ! i)"
  shows "fst (get_alert_smtp_password ci candidate2 (procs2 ! j) row2) = Some pw \<and> snd shown"
proof -
  have own: "cache_ok ci row (procs ! i)" using keys i by (auto simp: keys_ok_def)
  obtain key row0 where key: "alert_password_key ci candidate (procs ! i) row = Some (key, p', row0)"
      "row1 = store_settings config (Some (ci_encrypt ci key nonce pw)) row0"
    using saved by (cases "alert_password_key ci candidate (procs ! i) row")
      (auto simp: upsert_alert_config_def encrypt_alert_password_def Let_def)
  obtain r salt where r: "row0 = Some r" "as_salt r = Some salt" "key = ci_derive ci salt (process_secret (procs ! i))"
    using key_given [OF key(1) own] by blast
  have row1: "row1 = Some (r\<lparr>as_config := config, as_password := Some (ci_encrypt ci key nonce pw)\<rparr>)"
    using key(2) r(1) by (simp add: store_settings_def)
  have "snd shown" using saved(1) key law
    by (auto simp: upsert_alert_config_def encrypt_alert_password_def get_alert_config_def row1 cipher_ok_def Let_def saved(2) split: if_splits)
  moreover have "keys_ok ci (procs[i := p'], row1)"
    using save_given [OF saved(1) own] keys cache_ok_salt
    by (auto simp: keys_ok_def dest!: set_update_subset_insert [THEN subsetD])
  from settings_run_kept [OF this later(2)] have end_state: "keys_ok ci (procs2, row2)" "salt_kept row1 row2" "password_of row2 = password_of row1"
    by (simp_all add: later(1))
  then obtain r2 where r2: "row2 = Some r2" "as_salt r2 = Some salt" "as_password r2 = Some (ci_encrypt ci key nonce pw)"
    using row1 r(2) by (auto simp: salt_kept_def password_of_def)
  have secret: "process_secret (procs2 ! j) \<noteq> []"
    using key(1) reader(2) by (auto simp: alert_password_key_def Let_def split: if_splits)
  then obtain key2 p2 row3 where k2: "alert_password_key ci candidate2 (procs2 ! j) row2 = Some (key2, p2, row3)"
    by (cases "dict_get (ap_cache (procs2 ! j)) (process_secret (procs2 ! j))"; cases "get_or_create_alert_password_salt candidate2 row2")
      (auto simp: alert_password_key_def Let_def)
  have "cache_ok ci row2 (procs2 ! j)" using end_state(1) reader(1) by (auto simp: keys_ok_def)
  from key_given [OF k2 this] r2 r(3) reader(2) have "key2 = key" by (auto simp: salt_kept_def)
  then have "fst (get_alert_smtp_password ci candidate2 (procs2 ! j) row2) = Some pw"
    using k2 r2 law by (simp add: get_alert_smtp_password_def decrypt_alert_password_def cipher_ok_def)
  ultimately show ?thesis by simp
qed


text \<open>A cipher that writes the key in front.\<close>

definition example_cipher :: cipher where
  "example_cipher = \<lparr>ci_derive = (\<lambda>salt secret. salt @ secret), ci_encrypt = (\<lambda>k n m. length k # k @ m),
     ci_decrypt = (\<lambda>k e. case e of [] \<Rightarrow> None | n # t \<Rightarrow> if take n t = k then Some (drop n t) else None)\<rparr>"

definition example_process :: alert_process where
  "example_process = \<lparr>ap_alert_secret = lit ''s'', ap_secret_key = [], ap_cache = []\<rparr>"

definition example_saves :: "settings_event list" where
  "example_saves = [Read_Password 1 (lit ''x''), Restart 0 (lit ''t'') [], Save 0 (lit ''y'') [] DEFAULT_ALERT_CONFIG None, Restart 0 [] (lit ''s'')]"

theorem saved_password_readable_witness:
  "fst (get_alert_smtp_password example_cipher (lit ''z'') (fst (settings_run example_cipher (Save 0 (lit ''a'') [] DEFAULT_ALERT_CONFIG (Some (lit ''pw'')) # example_saves)
     ([example_process, example_process], None)) ! 0)
     (snd (settings_run example_cipher (Save 0 (lit ''a'') [] DEFAULT_ALERT_CONFIG (Some (lit ''pw'')) # example_saves) ([example_process, example_process], None))))
   = Some (lit ''pw'')"
proof -
  let ?procs = "[example_process, example_process]"
  obtain shown p' row1 where saved: "upsert_alert_config example_cipher (lit ''a'') [] DEFAULT_ALERT_CONFIG (Some (lit ''pw'')) (?procs ! 0) None
      = Some (shown, p', row1)"
    by (simp add: upsert_alert_config_def encrypt_alert_password_def alert_password_key_def process_secret_def example_process_def
        get_or_create_alert_password_salt_def store_settings_def get_alert_config_def Let_def lit_Cons)
  obtain procs2 row2 where later: "settings_run example_cipher example_saves (?procs[0 := p'], row1) = (procs2, row2)" by force
  have whole: "settings_run example_cipher (Save 0 (lit ''a'') [] DEFAULT_ALERT_CONFIG (Some (lit ''pw'')) # example_saves) (?procs, None) = (procs2, row2)"
    using saved later by (simp add: settings_run_def)
  have "cipher_ok example_cipher" by (simp add: cipher_ok_def example_cipher_def)
  moreover have "keys_ok example_cipher (?procs, None)" by (simp add: keys_ok_def cache_ok_def example_process_def)
  moreover have "list_all (\<lambda>ev. \<not> sets_password ev) example_saves" "lit ''pw'' \<noteq> []" by code_simp+
  moreover have "length (fst (settings_run example_cipher (Save 0 (lit ''a'') [] DEFAULT_ALERT_CONFIG (Some (lit ''pw'')) # example_saves) (?procs, None))) = 2"
    "process_secret (fst (settings_run example_cipher (Save 0 (lit ''a'') [] DEFAULT_ALERT_CONFIG (Some (lit ''pw'')) # example_saves) (?procs, None)) ! 0)
      = process_secret (?procs ! 0)"
    by code_simp+
  ultimately show ?thesis
    using saved_password_readable [OF _ _ _ saved _ later, where j = 0 and ?candidate2.0 = "lit ''z''"] by (simp add: whole)
qed

text \<open>When the secret is gone the settings still say that a password is saved, and sending finds none.\<close>

theorem lost_secret_hides_password:
  assumes "row = Some r" "as_password r = Some e" "e \<noteq> []" "process_secret p = []"
  shows "get_alert_config row = Some (as_config r, True) \<and> fst (get_alert_smtp_password ci candidate p row) = None"
  using assms by (simp add: get_alert_config_def get_alert_smtp_password_def decrypt_alert_password_def alert_password_key_def)

section \<open>The history\<close>

record alert_event_row =
  ae_id :: str
  ae_run_id :: "str option"
  ae_session_id :: "str option"
  ae_sent_at :: rat

text \<open>A session that is still open has no row yet: the event is kept without it. \<open>rest\<close> is what else the event says.\<close>

definition insert_alert_event :: "(str \<times> session_row) list \<Rightarrow> alert_event_row \<times> 'r \<Rightarrow> (alert_event_row \<times> 'r) list \<Rightarrow> (alert_event_row \<times> 'r) list" where
  "insert_alert_event sessions event events =
     events @ [((fst event)\<lparr>ae_session_id := (case ae_session_id (fst event) of
        None \<Rightarrow> None | Some sid \<Rightarrow> if dict_has sessions sid then Some sid else None)\<rparr>, snd event)]"

definition list_alert_events :: "int \<Rightarrow> (alert_event_row \<times> 'r) list \<Rightarrow> (alert_event_row \<times> 'r) list outcome" where
  "list_alert_events limit events =
     (if limit < 1 then Raised (ValueError (lit ''limit must be a positive integer, got '' @ str_of_int limit))
      else Done (take (nat (min limit 500)) (sort_key (\<lambda>ev. - ae_sent_at (fst ev)) events)))"

definition count_alert_events :: "(alert_event_row \<times> 'r) list \<Rightarrow> nat" where
  "count_alert_events events = length events"

end
