(* ===== verification/Spec2Isabelle.thy ===== *)
theory Spec2Isabelle
  imports ShellRoundTrips ScoringProps ClassifierQueueProps IssueSyncProps TelnetProps HttpProps SshProps PersonaProps Listeners
    EmailRules LoginLimit SavedPersonas StopProps StorageConfig SessionSecret CommandProps AlertSettings
begin

text \<open>
  A verification library for EchidraOSS, a honeypot whose decoys record what visitors do, a classifier
  that rates each finished session, and a dashboard that shows the result. All paths below are under
  \<open>src/\<close>.

  \<^bold>\<open>The program and its parts\<close>

  A decoy (\<open>honeypot/main.py\<close>) listens for SSH, Telnet, FTP or HTTP. Each connection gets a session
  with a persona, the machine it pretends to be. SSH visitors talk to a fake shell; the others to a short
  dialogue. When a connection ends its session is finalized, written as one JSON line to the session log
  and handed to the classifier: features are extracted, rules evaluated, the matches combined
  into a summary, the summary stored and told of by mail or Slack. If the database is down the session is
  kept in a pending file and stored later. Stored runs are rolled up into issues. Open SSH sessions are
  classified as they go. The dashboard saves the persona a decoy loads.

  \<^bold>\<open>The theories\<close>, from the bottom

  \<^item> \<open>Prelude\<close>, \<open>Regex\<close>, \<open>Paths\<close>, \<open>UrlText\<close>, \<open>Codecs\<close>, \<open>Shlex\<close>: the Python the sources use. A \<open>str\<close> is
    the list of its code points (\<open>str\<close>), a \<open>dict\<close> an association list in insertion order, code that
    may raise has an \<open>outcome\<close>. Regular expressions are backtracking matchers, one combinator for each
    construct; UTF-8 with its error handlers, base64, \<open>PurePosixPath\<close>, \<open>shlex.split\<close> are written out.
  \<^item> \<open>Session\<close>, \<open>SessionRecord\<close>, \<open>Persona\<close>: \<open>SessionState\<close> (\<open>honeypot/core/session.py\<close>) as a record, the
    schema of its serialised form (\<open>classifier/schemas/session.py\<close>), the personas
    (\<open>honeypot/core/persona.py\<close>).
  \<^item> \<open>Vfs\<close>, \<open>ShellSyntax\<close>, \<open>ShellText\<close>, \<open>ShellFiles\<close>, \<open>Engine\<close>: \<open>honeypot/core/engine.py\<close>, every command
    of the fake shell, redirects, pipelines, lists, subshells and scripts. A command maps an environment
    and a session to output and a new session.
    \<open>SessionInvariants\<close> states as the locale \<open>session_invariant\<close> what an invariant of the
    virtual file system's primitives is and interprets it for the quota, the origin of decoys and the
    command log; \<open>EngineInv\<close> lifts it to whole visits. \<open>EngineProps\<close>, \<open>ShellProps\<close> and \<open>ShellRoundTrips\<close>
    hold the properties.
  \<^item> \<open>Features\<close>, \<open>Rules\<close>, \<open>Scoring\<close> with \<open>FeatureProps\<close>, \<open>ScoringProps\<close>: \<open>classifier/features/session.py\<close>,
    \<open>classifier/rules/engine.py\<close>, \<open>classifier/scoring/session.py\<close>.
  \<^item> \<open>Pipeline\<close>, \<open>ClassifierQueue\<close>, \<open>CatchUp\<close>, \<open>Storage\<close> with \<open>ClassifierQueueProps\<close>, \<open>CatchUpProps\<close>:
    \<open>classifier/pipeline.py\<close>, \<open>classifier/catch_up.py\<close> and what \<open>classifier/storage/repository.py\<close> does to
    store and read back one run. The queue with its workers is a step relation.
  \<^item> \<open>AlertGroups\<close>, \<open>AlertMessages\<close>, \<open>Playbooks\<close> with \<open>AlertGroupProps\<close>, \<open>AlertMessageProps\<close>:
    \<open>classifier/alerts.py\<close> and the two playbook lookups.
  \<^item> \<open>IssueTexts\<close>, \<open>IssueSync\<close> with \<open>IssueMerge\<close>, \<open>IssueSyncSteps\<close>, \<open>IssueSyncProps\<close>:
    \<open>classifier/storage/issue_sync.py\<close> and the SQL it runs, as functions on tables.
  \<^item> \<open>Connections\<close>, \<open>SessionLog\<close>, \<open>Handlers\<close>, \<open>HttpPages\<close>, \<open>HttpHandler\<close>, \<open>SshProfile\<close>, \<open>SshServer\<close>,
    \<open>LiveClassification\<close>, \<open>Listeners\<close>: the network side, \<open>honeypot/network/*.py\<close>,
    \<open>honeypot/logging/session_logger.py\<close>, \<open>classifier/realtime.py\<close>, \<open>honeypot/main.py\<close>.
    \<open>ConversationInvariants\<close> has the locales \<open>transport_invariant\<close> and \<open>conversation_invariant\<close>: the
    handlers touch a conversation through five primitives, so what these keep whole handlers keep.
    \<open>Listeners\<close> has the locale \<open>admission\<close>, interpreted for both kinds of server. \<open>HandlerProps\<close>, \<open>TelnetProps\<close>,
    \<open>HttpProps\<close>, \<open>SshProps\<close> hold the properties.
  \<^item> \<open>PersonaConfig\<close>, \<open>PersonaCache\<close>, \<open>PersonaProps\<close>: the personas saved on the dashboard
    (\<open>classifier/storage/models.py\<close>) and their way into a decoy (\<open>honeypot/network/config.py\<close>).
  \<^item> \<open>Passwords\<close>, \<open>DashboardStore\<close>, \<open>DashboardAuth\<close>: \<open>classifier/passwords.py\<close>, the
    tables of users, failed logins and saved personas with the repository's methods on them, and accounts,
    sessions and sign-in of \<open>classifier/api/app.py\<close>. A login is three steps that other logins may interleave.
    \<open>DashboardInvariants\<close> holds what every event keeps of the accounts; \<open>SessionCookies\<close>, \<open>LoginLimit\<close> and
    \<open>EmailRules\<close> the properties. \<open>SessionSecret\<close> is the secret that signs cookies, shared by workers that start
    together.
  \<^item> \<open>IngestApi\<close>, \<open>DashboardRoutes\<close> with \<open>RouteAccess\<close>, \<open>SavedPersonas\<close>: the
    routes of \<open>classifier/api/app.py\<close>. \<open>route\<close> and \<open>handle_route\<close> are its table of decorators; a route is its
    guard, then its handler, on the dashboard's tables and what the \<open>backend\<close> record answers for the rest.
  \<^item> \<open>Blocklist\<close>, \<open>AlertSettings\<close>, \<open>StorageConfig\<close>: \<open>classifier/blocklist.py\<close> with the query and the command that
    use it; the alert settings with the encrypted SMTP password, and the history, of
    \<open>classifier/storage/repository.py\<close>; \<open>classifier/storage/config.py\<close> and \<open>classifier/storage/cli.py\<close>.
  \<^item> \<open>ProcessControl\<close>, \<open>EchidraCommands\<close> with \<open>StopProps\<close>, \<open>CommandProps\<close>: the commands of \<open>echidra/cli.py\<close>. What
    the command sees of the host is a process table that may change at every call of the operating system.

  \<^bold>\<open>What the lemmas show\<close>

  \<^item> Records: every visit and every connection ends with a session the schema accepts, handed on exactly
    once (\<open>finished_visit_validates\<close>, \<open>ssh_handed_on_once\<close>, \<open>connection_recorded\<close>), whatever the client, the
    network and the log do; the exceptions are stated and proved as they are.
  \<^item> The shell: the quota, the origin of decoys, the command log, paths, listings, quoting.
  \<^item> The classifier: the meaning of rules, the bounds of risk, the vote for an actor with the case of no confidence at all,
    the consistency of a summary.
  \<^item> Storage: the queue accounts for every session and stops; catching up loses no session whose
    line is in the files, but one that holds a line separator (\<open>line_separator_session_lost\<close>), and stores none
    twice, under any schedule of failures; the timeline reads back; the incremental sync of issues agrees with a
    rebuild in every reachable state whose sessions have dates that can be shown (\<open>far_date_stops_sync\<close> is the
    exception), when its transactions are granted.
  \<^item> Alerts: conservation of the classifications held back, one alert for each level of a session while no more than
    \<open>MAX_TRACKED_SESSIONS\<close> are tracked, the addresses Slack is posted to.
  \<^item> Personas: what the dashboard accepts a decoy can run, an outage keeps the last one, a change arrives.
  \<^item> Bounds and ends: input, live alerts, connections, the rounds of a Telnet dialogue and how it can end.
  \<^item> The dashboard: signing out and a password reset end every earlier session, a session otherwise lasts its
    seven days, guesses are limited in any interleaving, a visitor who is not signed in learns and changes
    nothing, the persona routes are a map, and a saved persona goes live.
  \<^item> The command line: \<open>stop\<close> signals Echidra's own processes, finds them and waits ten seconds for them to
    end; a reset password lets the user in;
    the exported blocklist is exact; what is printed of a URL does not tell its password, with the exceptions.
  \<^item> Errors: a NUL character that keeps a session out of the database, a line end split by the network,
    commands of a second shell, a rules file without live rules.

  \<^bold>\<open>Bounds and fuel\<close>

  No definition runs out of fuel where the code does not. Subshells stop at the code's own depth
  \<open>MAX_SUBSHELL_DEPTH\<close>; read loops go by the arrivals left in the connection's schedule; string
  replacement goes by the length of the text; the sync's loop goes by the length of its queue, which
  each batch of 500 shortens (\<open>incremental_equals_rebuild\<close> includes that it returns). Regular expression stars
  stop where a step consumes nothing, as Python's do.

  \<^bold>\<open>Abstractions\<close>

  \<^item> Floats are rationals, so the checks for non-finite numbers have nothing to refuse. Integers are
    unbounded, as Python's.
  \<^item> \<open>str.lower\<close>, \<open>\w\<close> and \<open>isprintable\<close> are exact up to U+00FF; where a caller needs more, a table is a
    parameter.
  \<^item> Values of the world are parameters or fields of an environment record: clocks, UUIDs, random numbers,
    the parser of IP addresses, Python's compiler for the visitor's regular expressions, pydantic's JSON
    dump and parse, the geolocation data, mail server and Slack.
  \<^item> The database is its tables, with a schedule that says which statement fails and how. A text with a
    NUL is refused, as psycopg does. Identifiers made by \<open>uuid5\<close> differ for different keys (\<open>ids_ok\<close>, with a
    witness).
  \<^item> Event loops are lists of steps: what a worker or a refresh thread does between two accesses to shared
    state is one step; asyncio's part of a connection is a schedule of arrivals, pauses and clock ticks;
    asyncssh calls the callbacks in any order that is a list of events. The shell's wait for its live task
    at its end is not a step of its own.
  \<^item> A write to the pending file happens whole or not at all; a write to the session log may be short.
  \<^item> PBKDF2, the HMAC, Fernet and \<open>secrets\<close> are parameters; a law about one of them is a hypothesis of the property
    that needs it (\<open>cipher_ok\<close>, digests are ASCII), with a concrete instance in its witness. Columns hold any
    number; \<open>urlsplit\<close> has no NFKC check and does not check a bracketed address.
  \<^item> A loaded rules file is a value of the model type that pydantic builds; YAML itself is not modelled.

  \<^bold>\<open>Not modelled\<close>

  Of the dashboard the parsing of requests, which is FastAPI's and pydantic's, and the background tasks of the
  server; of the repository connecting, the schema, the demo data, the queries behind its pages with filters and aggregates, and manual labels; of the command lines the parsing of
  arguments, the wait for child processes and what only prints; the key files;
  the geolocation data, a table of constants; applying the schema; signal handlers and the
  cancelling of tasks at exit.
\<close>

end
